(* ===== verification/Go_Prelude.thy ===== *)
theory Go_Prelude
  imports Main "HOL-Library.List_Lexorder" "HOL-Library.Char_ord" "HOL-Library.Sublist" "HOL-Library.AList"
begin

text \<open>
  What the components share: Go strings as byte lists (\<open>string\<close>), the functions of
  Go's \<open>strings\<close> package the code calls (\<open>Split\<close>, \<open>Join\<close>, \<open>TrimSpace\<close>, \<open>Fields\<close>,
  \<open>ToLower\<close>, \<open>ToUpper\<close>, \<open>Contains\<close>, \<open>HasPrefix\<close>), the sorted key list of a Go set,
  and Go maps as association lists. Case mapping and white space follow Go on ASCII;
  bytes from 128 on are left as they are.
\<close>

named_theorems go_strings \<open>facts about the modelled functions of Go's strings package\<close>

subsection \<open>Splitting and joining\<close>

text \<open>\<open>strings.Split(s, sep)\<close> for a one-byte separator: always at least one part.\<close>

fun split_on :: "char \<Rightarrow> string \<Rightarrow> string list" where
  "split_on d [] = [[]]"
| "split_on d (c # cs) =
     (if c = d then [] # split_on d cs
      else (case split_on d cs of [] \<Rightarrow> [[c]] | p # ps \<Rightarrow> (c # p) # ps))"

text \<open>\<open>strings.Join(parts, sep)\<close>.\<close>

fun join_with :: "string \<Rightarrow> string list \<Rightarrow> string" where
  "join_with sep [] = []"
| "join_with sep [p] = p"
| "join_with sep (p # q # ps) = p @ sep @ join_with sep (q # ps)"

lemma split_on_nonempty [simp]: "split_on d s \<noteq> []"
  by (induction s) (auto split: list.splits)

lemma join_with_Cons: "ps \<noteq> [] \<Longrightarrow> join_with sep (p # ps) = p @ sep @ join_with sep ps"
  by (cases ps) simp_all

lemma join_with_Cons_head: "join_with sep ((c # p) # ps) = c # join_with sep (p # ps)"
  by (cases ps) simp_all

lemma join_split [go_strings, simp]: "join_with [d] (split_on d s) = s"
proof (induction s)
  case Nil
  then show ?case by simp
next
  case (Cons c s)
  then show ?case
    by (cases "split_on d s") (auto simp: join_with_Cons join_with_Cons_head)
qed

lemma split_on_free: "d \<notin> set s \<Longrightarrow> split_on d s = [s]"
  by (induction s) auto

lemma split_on_append: "d \<notin> set p \<Longrightarrow> split_on d (p @ d # s) = p # split_on d s"
  by (induction p) auto

lemma split_join:
  "ps \<noteq> [] \<Longrightarrow> \<forall>p\<in>set ps. d \<notin> set p \<Longrightarrow> split_on d (join_with [d] ps) = ps"
proof (induction ps)
  case Nil
  then show ?case by simp
next
  case (Cons p ps)
  then show ?case
    by (cases ps) (auto simp: split_on_free split_on_append join_with_Cons)
qed

text \<open>
  The prefixes \<open>Join(parts[:i], sep)\<close> for \<open>i = 1 .. len(parts)\<close> of the parts of \<open>s\<close> are
  \<open>s\<close> itself and what precedes each separator of \<open>s\<close>.
\<close>

definition dotted_prefixes :: "char \<Rightarrow> string \<Rightarrow> string list" where
  "dotted_prefixes d s =
     map (\<lambda>i. join_with [d] (take i (split_on d s))) [1..<length (split_on d s) + 1]"

lemma mem_dotted_prefixes:
  "a \<in> set (dotted_prefixes d s) \<longleftrightarrow>
     (\<exists>i<length (split_on d s). a = join_with [d] (take (Suc i) (split_on d s)))"
proof -
  have "{1..<length (split_on d s) + 1} = Suc ` {..<length (split_on d s)}"
    by (simp only: image_Suc_lessThan) auto
  then show ?thesis
    unfolding dotted_prefixes_def set_map set_upt by auto
qed

lemma set_dotted_prefixes: "a \<in> set (dotted_prefixes d s) \<longleftrightarrow> a = s \<or> (\<exists>r. s = a @ d # r)"
proof (induction s arbitrary: a)
  case Nil
  then show ?case by (auto simp: mem_dotted_prefixes)
next
  case (Cons c s)
  let ?S = "split_on d s"
  obtain p ps where S: "?S = p # ps"
    by (cases ?S) auto
  note IH = Cons.IH [unfolded mem_dotted_prefixes]
  show ?case
  proof (cases "c = d")
    case True
    have "a \<in> set (dotted_prefixes d (c # s)) \<longleftrightarrow>
        (\<exists>i<Suc (length ?S). a = join_with [d] ([] # take i ?S))"
      using True by (simp add: mem_dotted_prefixes)
    also have "\<dots> \<longleftrightarrow> a = [] \<or> (\<exists>i<length ?S. a = d # join_with [d] (take (Suc i) ?S))"
      unfolding Ex_less_Suc2 by (simp add: join_with_Cons S)
    also have "\<dots> \<longleftrightarrow> a = [] \<or> (\<exists>b. a = d # b \<and> (b = s \<or> (\<exists>r. s = b @ d # r)))"
      unfolding IH [symmetric] by blast
    also have "\<dots> \<longleftrightarrow> a = c # s \<or> (\<exists>r. c # s = a @ d # r)"
      using True by (cases a) auto
    finally show ?thesis .
  next
    case False
    have "a \<in> set (dotted_prefixes d (c # s)) \<longleftrightarrow>
        (\<exists>i<length ?S. a = c # join_with [d] (take (Suc i) ?S))"
      using False by (simp add: mem_dotted_prefixes S join_with_Cons_head)
    also have "\<dots> \<longleftrightarrow> (\<exists>b. a = c # b \<and> (b = s \<or> (\<exists>r. s = b @ d # r)))"
      unfolding IH [symmetric] by blast
    also have "\<dots> \<longleftrightarrow> a = c # s \<or> (\<exists>r. c # s = a @ d # r)"
      using False by (cases a) auto
    finally show ?thesis .
  qed
qed

subsection \<open>Bytes, case and white space (ASCII)\<close>

definition go_space :: "char \<Rightarrow> bool" where
  "go_space c \<longleftrightarrow> c \<in> {CHR '' '', CHR 0x09, CHR 0x0A, CHR 0x0B, CHR 0x0C, CHR 0x0D}"

definition byte_in :: "char \<Rightarrow> char \<Rightarrow> char \<Rightarrow> bool" where
  "byte_in lo hi c \<longleftrightarrow> (of_char lo :: nat) \<le> of_char c \<and> (of_char c :: nat) \<le> of_char hi"

definition to_lower_char :: "char \<Rightarrow> char" where
  "to_lower_char c = (if byte_in CHR ''A'' CHR ''Z'' c then char_of ((of_char c :: nat) + 32) else c)"

definition to_upper_char :: "char \<Rightarrow> char" where
  "to_upper_char c = (if byte_in CHR ''a'' CHR ''z'' c then char_of ((of_char c :: nat) - 32) else c)"

text \<open>The same on the bits of the byte, for evaluation.\<close>

lemma to_lower_char_code [code]:
  "to_lower_char (Char b0 b1 b2 b3 b4 b5 b6 b7) =
     (if \<not> b7 \<and> b6 \<and> \<not> b5 \<and> (b0 \<or> b1 \<or> b2 \<or> b3 \<or> b4) \<and> \<not> (b4 \<and> b3 \<and> (b2 \<or> b1 \<and> b0))
      then Char b0 b1 b2 b3 b4 True b6 b7 else Char b0 b1 b2 b3 b4 b5 b6 b7)"
  by (cases b0; cases b1; cases b2; cases b3; cases b4; cases b5; cases b6; cases b7;
      simp add: to_lower_char_def byte_in_def char_of_def bit_0)

lemma to_upper_char_code [code]:
  "to_upper_char (Char b0 b1 b2 b3 b4 b5 b6 b7) =
     (if \<not> b7 \<and> b6 \<and> b5 \<and> (b0 \<or> b1 \<or> b2 \<or> b3 \<or> b4) \<and> \<not> (b4 \<and> b3 \<and> (b2 \<or> b1 \<and> b0))
      then Char b0 b1 b2 b3 b4 False b6 b7 else Char b0 b1 b2 b3 b4 b5 b6 b7)"
  by (cases b0; cases b1; cases b2; cases b3; cases b4; cases b5; cases b6; cases b7;
      simp add: to_upper_char_def byte_in_def char_of_def bit_0)

definition go_lower :: "string \<Rightarrow> string" where
  "go_lower s = map to_lower_char s"

definition go_upper :: "string \<Rightarrow> string" where
  "go_upper s = map to_upper_char s"

definition trim_space :: "string \<Rightarrow> string" where
  "trim_space s = rev (dropWhile go_space (rev (dropWhile go_space s)))"

text \<open>\<open>strings.Fields\<close>: the maximal runs of non-space bytes.\<close>

fun fields_acc :: "string \<Rightarrow> string \<Rightarrow> string list" where
  "fields_acc acc [] = (if acc = [] then [] else [rev acc])"
| "fields_acc acc (c # cs) =
     (if go_space c then (if acc = [] then fields_acc [] cs else rev acc # fields_acc [] cs)
      else fields_acc (c # acc) cs)"

definition go_fields :: "string \<Rightarrow> string list" where
  "go_fields s = fields_acc [] s"

definition go_contains :: "string \<Rightarrow> string \<Rightarrow> bool" where
  "go_contains s sub \<longleftrightarrow> list_ex (\<lambda>t. prefix sub t) (suffixes s)"

subsection \<open>Go sets and maps\<close>

text \<open>The keys of a \<open>map[string]struct{}\<close>, sorted by \<open>sort.Strings\<close> (byte order).\<close>

definition sortedKeys :: "string set \<Rightarrow> string list" where
  "sortedKeys S = sorted_list_of_set S"

lemma set_sortedKeys [simp]: "finite S \<Longrightarrow> set (sortedKeys S) = S"
  by (simp add: sortedKeys_def)

lemma sorted_sortedKeys [simp]: "sorted (sortedKeys S)"
  by (simp add: sortedKeys_def)

lemma distinct_sortedKeys [simp]: "distinct (sortedKeys S)"
  by (simp add: sortedKeys_def)

text \<open>\<open>m[k]\<close> of a Go map whose missing entries read as the zero value.\<close>

definition map_get :: "('k \<times> 'v) list \<Rightarrow> 'k \<Rightarrow> 'v \<Rightarrow> 'v" where
  "map_get m k z = (case map_of m k of None \<Rightarrow> z | Some v \<Rightarrow> v)"

definition has_key :: "('k \<times> 'v) list \<Rightarrow> 'k \<Rightarrow> bool" where
  "has_key m k \<longleftrightarrow> map_of m k \<noteq> None"

lemma map_get_update [simp]:
  "map_get (AList.update k v m) k' z = (if k' = k then v else map_get m k' z)"
  by (simp add: map_get_def update_conv)

lemma in_map_getD: "x \<in> set (map_get m k []) \<Longrightarrow> \<exists>vs. map_of m k = Some vs \<and> x \<in> set vs"
  by (cases "map_of m k") (simp_all add: map_get_def)

lemma has_key_iff: "has_key m k \<longleftrightarrow> k \<in> fst ` set m"
  by (simp add: has_key_def map_of_eq_None_iff)

end
