(* ===== verification/Permissions.thy ===== *)
theory Permissions
  imports Go_Prelude
begin

text \<open>
  Permission codes: the catalog and its derived index (\<open>src/enums/user_permissions.go\<close>),
  the expansion and roll-up of grants, and the hierarchical check of
  \<open>src/middleware/perms.go\<close>. A Go \<open>map[string]struct{}\<close> is a \<open>string set\<close>; the maps of
  the catalog index are association lists; where the code ranges over a map while it
  changes the result (\<open>RollupPermissions\<close>), the order of the range is an argument.
\<close>

subsection \<open>The catalog\<close>

record permission_catalog_entry =
  pe_code :: string
  pe_parent_code :: string
  pe_label :: string
  pe_actions :: "string list"

definition perm_entry :: "string \<Rightarrow> string \<Rightarrow> string \<Rightarrow> string list \<Rightarrow> permission_catalog_entry" where
  "perm_entry c p l as = \<lparr>pe_code = c, pe_parent_code = p, pe_label = l, pe_actions = as\<rparr>"

definition PermissionCatalog :: "permission_catalog_entry list" where
  "PermissionCatalog = [
     perm_entry ''dashboard'' '''' ''Dashboard'' [],
     perm_entry ''shipments'' '''' ''Shipments'' [],
     perm_entry ''drivers'' '''' ''Drivers'' [],
     perm_entry ''teams'' '''' ''Teams'' [],
     perm_entry ''fleet'' '''' ''Fleet'' [],
     perm_entry ''accounting'' '''' ''Accounting'' [],
     perm_entry ''customers'' '''' ''Customers'' [],
     perm_entry ''settings'' '''' ''Settings'' [],
     perm_entry ''tasks'' '''' ''Tasks'' [],
     perm_entry ''workspaces'' '''' ''Workspaces'' [],
     perm_entry ''tasks.tasks'' ''tasks'' ''Tasks'' [''view'', ''create'', ''assign'', ''transition'', ''reopen''],
     perm_entry ''tasks.teams'' ''tasks'' ''Task teams'' [''view'', ''create'', ''edit'', ''delete''],
     perm_entry ''workspaces.workspaces'' ''workspaces'' ''Workspaces'' [''view'', ''create'', ''edit'', ''delete''],
     perm_entry ''workspaces.boards'' ''workspaces'' ''Boards'' [''view'', ''create'', ''edit'', ''delete''],
     perm_entry ''workspaces.values'' ''workspaces'' ''Board values'' [''view'', ''edit''],
     perm_entry ''workspaces.templates'' ''workspaces'' ''Board templates'' [''view'', ''create'', ''edit''],
     perm_entry ''dashboard.stats'' ''dashboard'' ''Stats'' [''view''],
     perm_entry ''dashboard.hierarchy'' ''dashboard'' ''Company hierarchy'' [''view''],
     perm_entry ''shipments.shipments'' ''shipments'' ''Shipments'' [''view'', ''create'', ''edit'', ''delete''],
     perm_entry ''shipments.legs'' ''shipments'' ''Shipment legs'' [''view'', ''create'', ''edit'', ''delete''],
     perm_entry ''shipments.trips'' ''shipments'' ''Trips'' [''view'', ''edit''],
     perm_entry ''shipments.trip_stops'' ''shipments'' ''Trip stops'' [''view'', ''edit''],
     perm_entry ''shipments.trip_files'' ''shipments'' ''Trip files'' [''view'', ''create'', ''edit''],
     perm_entry ''shipments.other_pay'' ''shipments'' ''Other pay'' [''view'', ''create'', ''edit'', ''delete''],
     perm_entry ''shipments.driver_expense'' ''shipments'' ''Driver expense'' [''view'', ''create'', ''edit'', ''delete''],
     perm_entry ''shipments.rc_files'' ''shipments'' ''RC files'' [''view'', ''create''],
     perm_entry ''shipments.share'' ''shipments'' ''Share links'' [''view'', ''create'', ''delete''],
     perm_entry ''shipments.audit'' ''shipments'' ''Shipment audit'' [''view'', ''edit''],
     perm_entry ''drivers.drivers'' ''drivers'' ''Drivers'' [''view'', ''create'', ''edit'', ''delete''],
     perm_entry ''drivers.tariff_assignment'' ''drivers'' ''Tariff assignment'' [''view'', ''edit''],
     perm_entry ''drivers.balance'' ''drivers'' ''Driver balance'' [''view'', ''create'', ''edit'', ''delete''],
     perm_entry ''drivers.scheduled_payments'' ''drivers'' ''Scheduled payments'' [''view'', ''create'', ''edit'', ''delete''],
     perm_entry ''drivers.one_time_charges'' ''drivers'' ''One-time charges'' [''view'', ''create'', ''edit'', ''delete''],
     perm_entry ''drivers.weekly_deductions'' ''drivers'' ''Weekly deductions'' [''view'', ''create'', ''edit'', ''delete''],
     perm_entry ''drivers.driver_absences'' ''drivers'' ''Driver absences'' [''view'', ''create'', ''edit'', ''delete''],
     perm_entry ''teams.teams'' ''teams'' ''Teams'' [''view'', ''edit''],
     perm_entry ''teams.crews'' ''teams'' ''Crews'' [''view'', ''create'', ''edit'', ''delete''],
     perm_entry ''teams.dispatchers'' ''teams'' ''Dispatchers'' [''view'', ''create'', ''delete''],
     perm_entry ''fleet.trucks'' ''fleet'' ''Trucks'' [''view'', ''create'', ''edit'', ''delete''],
     perm_entry ''fleet.trailers'' ''fleet'' ''Trailers'' [''view'', ''create'', ''edit''],
     perm_entry ''accounting.invoices'' ''accounting'' ''Invoices'' [''view'', ''create'', ''edit''],
     perm_entry ''accounting.invoice_batches'' ''accounting'' ''Invoice batches'' [''view'', ''create'', ''edit''],
     perm_entry ''accounting.credit_memos'' ''accounting'' ''Credit memos'' [''view'', ''create''],
     perm_entry ''accounting.billing'' ''accounting'' ''Billing'' [''view''],
     perm_entry ''accounting.pay_batches'' ''accounting'' ''Pay batches'' [''view'', ''create'', ''edit'', ''delete''],
     perm_entry ''accounting.pay_statements'' ''accounting'' ''Pay statements'' [''view'', ''create'', ''edit'', ''delete''],
     perm_entry ''accounting.statement_trips'' ''accounting'' ''Statement trips'' [''view'', ''create'', ''edit'', ''delete''],
     perm_entry ''accounting.statement_deductions'' ''accounting'' ''Statement deductions'' [''create'', ''edit'', ''delete''],
     perm_entry ''accounting.statement_other_pay'' ''accounting'' ''Statement other pay'' [''create'', ''edit'', ''delete''],
     perm_entry ''accounting.statement_balance_entries'' ''accounting'' ''Statement balance entries'' [''create'', ''edit'', ''delete''],
     perm_entry ''accounting.comments'' ''accounting'' ''Statement comments'' [''view'', ''create''],
     perm_entry ''customers.brokers'' ''customers'' ''Brokers'' [''view'', ''create''],
     perm_entry ''settings.files'' ''settings'' ''Company files'' [''view''],
     perm_entry ''settings.company'' ''settings'' ''Company settings'' [''view'', ''edit''],
     perm_entry ''settings.doc_types'' ''settings'' ''Document types'' [''view'', ''create'', ''edit''],
     perm_entry ''settings.team_settings'' ''settings'' ''Team settings'' [''view'', ''edit''],
     perm_entry ''settings.driver_app'' ''settings'' ''Driver app config'' [''view'', ''edit''],
     perm_entry ''settings.driver_tariffs'' ''settings'' ''Driver tariffs'' [''view'', ''create'', ''edit'', ''delete''],
     perm_entry ''settings.load_status'' ''settings'' ''Load status settings'' [''view'', ''create'', ''edit'', ''delete''],
     perm_entry ''settings.integration'' ''settings'' ''Integrations'' [''view'', ''edit''],
     perm_entry ''settings.reassignment'' ''settings'' ''Reassignment'' [''view'', ''create'', ''edit'', ''delete''],
     perm_entry ''settings.reward_plans'' ''settings'' ''Reward plans'' [''view'', ''edit''],
     perm_entry ''settings.accounting_types'' ''settings'' ''Accounting types'' [''view'', ''create'', ''edit''],
     perm_entry ''settings.office_users'' ''settings'' ''Office users'' [''view'', ''create'', ''edit''],
     perm_entry ''settings.office_roles'' ''settings'' ''Office roles'' [''view'', ''edit''],
     perm_entry ''settings.pdf_layouts'' ''settings'' ''PDF layouts'' [''view'', ''edit''],
     perm_entry ''settings.compliance'' ''settings'' ''Compliance'' [''view'', ''edit'']]"

record custom_permission_entry =
  cpe_code :: string
  cpe_label :: string

definition CustomPermissionCatalog :: "custom_permission_entry list" where
  "CustomPermissionCatalog = [
     \<lparr>cpe_code = ''trip_financials_edit'', cpe_label = ''Edit trip miles & gross rate''\<rparr>,
     \<lparr>cpe_code = ''trip_financials_approve'', cpe_label = ''Approve trip financial changes''\<rparr>,
     \<lparr>cpe_code = ''trip_reassign_committed'', cpe_label = ''Reassign driver after trip accepted''\<rparr>,
     \<lparr>cpe_code = ''file_delete_any'', cpe_label = ''Delete any uploaded file''\<rparr>,
     \<lparr>cpe_code = ''reports_run'', cpe_label = ''Run & export reports''\<rparr>,
     \<lparr>cpe_code = ''reports_manage'', cpe_label = ''Manage report configs & view report audit log''\<rparr>,
     \<lparr>cpe_code = ''mail_view'', cpe_label = ''View mail''\<rparr>,
     \<lparr>cpe_code = ''mail_send'', cpe_label = ''Send mail''\<rparr>,
     \<lparr>cpe_code = ''mail_edit'', cpe_label = ''Manage mail (labels, folders, sending identity)''\<rparr>,
     \<lparr>cpe_code = ''calls_view'', cpe_label = ''View the call log''\<rparr>,
     \<lparr>cpe_code = ''calls_play'', cpe_label = ''Play call recordings''\<rparr>]"

definition CustomPermissionCodes :: "string list" where
  "CustomPermissionCodes = map cpe_code CustomPermissionCatalog"

definition IsCustomPermissionCode :: "string \<Rightarrow> bool" where
  "IsCustomPermissionCode code = list_ex (\<lambda>c. cpe_code c = code) CustomPermissionCatalog"

text \<open>\<open>e.Code + "." + a\<close>, the leaf code of an action.\<close>

definition leaf_code :: "string \<Rightarrow> string \<Rightarrow> string" where
  "leaf_code e a = e @ CHR ''.'' # a"

definition entry_codes :: "permission_catalog_entry \<Rightarrow> string list" where
  "entry_codes e = pe_code e # map (leaf_code (pe_code e)) (pe_actions e)"

definition buildValidPermissionCodes :: "string set" where
  "buildValidPermissionCodes =
     set (concat (map entry_codes PermissionCatalog) @ map cpe_code CustomPermissionCatalog)"

definition IsValidPermissionCode :: "string \<Rightarrow> bool" where
  "IsValidPermissionCode code \<longleftrightarrow> code \<in> buildValidPermissionCodes"

definition ModulePermissionCodes :: "string list" where
  "ModulePermissionCodes = map pe_code (filter (\<lambda>e. pe_parent_code e = '''') PermissionCatalog)"

subsection \<open>The catalog index\<close>

record catalogIndex =
  moduleEntities :: "(string \<times> string list) list"
  entityLeaves :: "(string \<times> string list) list"
  entityModule :: "(string \<times> string) list"

definition isModule :: "catalogIndex \<Rightarrow> string \<Rightarrow> bool" where
  "isModule ix code = has_key (moduleEntities ix) code"

definition isEntity :: "catalogIndex \<Rightarrow> string \<Rightarrow> bool" where
  "isEntity ix code = has_key (entityLeaves ix) code"

text \<open>One round of the loop of \<open>buildCatalogIndex\<close>, then the loop from the empty index.\<close>

definition index_entry :: "permission_catalog_entry \<Rightarrow> catalogIndex \<Rightarrow> catalogIndex" where
  "index_entry e ix =
     (if pe_parent_code e = '''' then
        (if has_key (moduleEntities ix) (pe_code e) then ix
         else ix\<lparr>moduleEntities := AList.update (pe_code e) [] (moduleEntities ix)\<rparr>)
      else ix\<lparr>entityModule := AList.update (pe_code e) (pe_parent_code e) (entityModule ix),
              moduleEntities := AList.update (pe_parent_code e)
                (map_get (moduleEntities ix) (pe_parent_code e) [] @ [pe_code e]) (moduleEntities ix),
              entityLeaves := AList.update (pe_code e)
                (map (leaf_code (pe_code e)) (pe_actions e)) (entityLeaves ix)\<rparr>)"

definition buildCatalogIndex :: "permission_catalog_entry list \<Rightarrow> catalogIndex" where
  "buildCatalogIndex cat =
     fold index_entry cat \<lparr>moduleEntities = [], entityLeaves = [], entityModule = []\<rparr>"

definition permIndex :: catalogIndex where
  "permIndex = buildCatalogIndex PermissionCatalog"

subsection \<open>Expansion\<close>

definition expand_code :: "catalogIndex \<Rightarrow> string \<Rightarrow> string list" where
  "expand_code ix c =
     (if c = '''' then []
      else if isModule ix c then
        concat (map (\<lambda>ent. map_get (entityLeaves ix) ent []) (map_get (moduleEntities ix) c []))
      else if isEntity ix c then map_get (entityLeaves ix) c []
      else [c])"

definition ExpandPermissions :: "string list \<Rightarrow> string list" where
  "ExpandPermissions codes = sortedKeys (set (concat (map (expand_code permIndex) codes)))"

subsection \<open>Implication and roll-up\<close>

text \<open>The scan of \<open>impliedBy\<close> at index \<open>i\<close> and below, down to 1.\<close>

primrec implied_scan :: "string \<Rightarrow> string set \<Rightarrow> nat \<Rightarrow> bool" where
  "implied_scan code S 0 = False"
| "implied_scan code S (Suc i) =
     (if code ! Suc i = CHR ''.'' \<and> take (Suc i) code \<in> S then True else implied_scan code S i)"

definition impliedBy :: "string \<Rightarrow> string set \<Rightarrow> bool" where
  "impliedBy code S = (if code \<in> S then True else implied_scan code S (length code - 1))"

definition allImpliedBy :: "string list \<Rightarrow> string set \<Rightarrow> bool" where
  "allImpliedBy codes S = list_all (\<lambda>c. impliedBy c S) codes"

definition allIn :: "string list \<Rightarrow> string set \<Rightarrow> bool" where
  "allIn codes S = list_all (\<lambda>c. c \<in> S) codes"

definition present_codes :: "string list \<Rightarrow> string set" where
  "present_codes codes = set (filter (\<lambda>c. c \<noteq> '''') codes)"

definition completeEntities :: "catalogIndex \<Rightarrow> string set \<Rightarrow> string set" where
  "completeEntities ix present =
     set (map fst (filter (\<lambda>(ent, leaves). leaves \<noteq> [] \<and> allImpliedBy leaves present) (entityLeaves ix)))"

definition completeModules :: "catalogIndex \<Rightarrow> string set \<Rightarrow> string set" where
  "completeModules ix ces =
     set (map fst (filter (\<lambda>(md, ents). ents \<noteq> [] \<and> allIn ents ces) (moduleEntities ix)))"

text \<open>The complete modules, and the complete entities of the other modules.\<close>

definition rollup_reps :: "catalogIndex \<Rightarrow> string set \<Rightarrow> string set" where
  "rollup_reps ix present =
     (let ces = completeEntities ix present; cms = completeModules ix ces
      in cms \<union> Set.filter (\<lambda>ent. map_get (entityModule ix) ent '''' \<notin> cms) ces)"

text \<open>
  The last loop adds to \<open>out\<close> while it tests against \<open>out\<close>: \<open>order\<close> is the order in which
  Go's \<open>range present\<close> visits the keys, which the language leaves open.
\<close>

definition add_uncovered :: "string \<Rightarrow> string set \<Rightarrow> string set" where
  "add_uncovered c out = (if impliedBy c out then out else insert c out)"

definition rollup_set :: "catalogIndex \<Rightarrow> string list \<Rightarrow> string set \<Rightarrow> string set" where
  "rollup_set ix order present = fold add_uncovered order (rollup_reps ix present)"

definition RollupPermissions :: "string list \<Rightarrow> string list \<Rightarrow> string list" where
  "RollupPermissions order codes = sortedKeys (rollup_set permIndex order (present_codes codes))"

text \<open>A list that \<open>range present\<close> can follow: each key once.\<close>

definition range_order :: "string list \<Rightarrow> string list \<Rightarrow> bool" where
  "range_order codes order \<longleftrightarrow> distinct order \<and> set order = present_codes codes"

subsection \<open>The hierarchical check (middleware/perms.go)\<close>

definition HasPermission :: "string list \<Rightarrow> string \<Rightarrow> bool" where
  "HasPermission userPerms required =
     (if required = '''' then False
      else list_ex (\<lambda>pre. list_ex (\<lambda>p. p = pre) userPerms) (dotted_prefixes CHR ''.'' required))"

definition HasAnyPermission :: "string list \<Rightarrow> string list \<Rightarrow> bool" where
  "HasAnyPermission userPerms required = list_ex (HasPermission userPerms) required"

definition HasAllPermissions :: "string list \<Rightarrow> string list \<Rightarrow> bool" where
  "HasAllPermissions userPerms required = list_all (HasPermission userPerms) required"

text \<open>\<open>i\<close> stops before \<open>len(parts)\<close>: all dotted prefixes but the key itself.\<close>

definition hasAncestorIn :: "string \<Rightarrow> string set \<Rightarrow> bool" where
  "hasAncestorIn key S = list_ex (\<lambda>pre. pre \<in> S) (butlast (dotted_prefixes CHR ''.'' key))"

definition CompactHierarchy :: "string list \<Rightarrow> string list" where
  "CompactHierarchy perms =
     (let seen = filter (\<lambda>p. p \<noteq> '''') perms
      in sortedKeys (set (filter (\<lambda>p. \<not> hasAncestorIn p (set seen)) seen)))"

subsection \<open>Ancestors\<close>

text \<open>The specification the checks share: a code covers itself and what extends it by a dot.\<close>

definition covers :: "string \<Rightarrow> string \<Rightarrow> bool" where
  "covers a c \<longleftrightarrow> a = c \<or> (\<exists>r. c = a @ CHR ''.'' # r)"

lemma covers_refl [simp]: "covers a a"
  by (simp add: covers_def)

lemma covers_trans: "covers a b \<Longrightarrow> covers b c \<Longrightarrow> covers a c"
  by (auto simp: covers_def)

lemma covers_leaf_code [simp]: "covers e (leaf_code e a)"
  by (simp add: covers_def leaf_code_def)

lemma covers_length: "covers a c \<Longrightarrow> a = c \<or> length a < length c"
  by (auto simp: covers_def)

lemma covers_dotfree: "covers a c \<Longrightarrow> CHR ''.'' \<notin> set c \<Longrightarrow> a = c"
  by (auto simp: covers_def)

text \<open>What covers a code \<open>e.x\<close> with a dot-free last part covers \<open>e\<close> or is the code.\<close>

lemma covers_leaf_codeD:
  assumes "covers a (leaf_code e x)" and "CHR ''.'' \<notin> set x"
  shows "a = leaf_code e x \<or> covers a e"
proof (cases "a = leaf_code e x")
  case False
  with assms(1) obtain r where eq: "e @ CHR ''.'' # x = a @ CHR ''.'' # r"
    by (auto simp: covers_def leaf_code_def)
  then obtain us where "e = a @ us \<and> us @ CHR ''.'' # x = CHR ''.'' # r
      \<or> e @ us = a \<and> CHR ''.'' # x = us @ CHR ''.'' # r"
    by (auto simp: append_eq_append_conv2)
  then have "e = a \<or> (\<exists>r. e = a @ CHR ''.'' # r)"
    using assms(2) by (cases us) auto
  then show ?thesis by (auto simp: covers_def)
qed simp

lemma HasPermission_iff:
  "HasPermission perms c \<longleftrightarrow> c \<noteq> '''' \<and> (\<exists>a\<in>set perms. covers a c)"
proof -
  have "HasPermission perms c \<longleftrightarrow>
      c \<noteq> [] \<and> (\<exists>pre\<in>set (dotted_prefixes CHR ''.'' c). pre \<in> set perms)"
    by (auto simp: HasPermission_def list_ex_iff)
  also have "\<dots> \<longleftrightarrow> c \<noteq> [] \<and> (\<exists>a\<in>set perms. covers a c)"
    unfolding Bex_def set_dotted_prefixes covers_def by blast
  finally show ?thesis .
qed

lemma implied_scan_iff:
  "implied_scan c S i \<longleftrightarrow> (\<exists>j. 0 < j \<and> j \<le> i \<and> c ! j = CHR ''.'' \<and> take j c \<in> S)"
  by (induction i) (auto simp: le_Suc_eq)

lemma impliedBy_iff:
  assumes "'''' \<notin> S"
  shows "impliedBy c S \<longleftrightarrow> (\<exists>a\<in>S. covers a c)"
proof -
  have "implied_scan c S (length c - 1) \<longleftrightarrow> (\<exists>a\<in>S. \<exists>r. c = a @ CHR ''.'' # r)"
  proof
    assume "implied_scan c S (length c - 1)"
    then obtain j where j: "0 < j" "j \<le> length c - 1" "c ! j = CHR ''.''" "take j c \<in> S"
      by (auto simp: implied_scan_iff)
    then have "j < length c" by linarith
    from id_take_nth_drop [OF this] j(3) have "c = take j c @ CHR ''.'' # drop (Suc j) c"
      by simp
    with j(4) show "\<exists>a\<in>S. \<exists>r. c = a @ CHR ''.'' # r" by blast
  next
    assume "\<exists>a\<in>S. \<exists>r. c = a @ CHR ''.'' # r"
    then obtain a r where a: "a \<in> S" "c = a @ CHR ''.'' # r" by blast
    moreover from a assms have "a \<noteq> ''''" by blast
    ultimately show "implied_scan c S (length c - 1)"
      by (auto simp: implied_scan_iff intro!: exI [of _ "length a"])
  qed
  then show ?thesis by (auto simp: impliedBy_def covers_def)
qed

lemma split_on_parts_free: "p \<in> set (split_on d s) \<Longrightarrow> d \<notin> set p"
  by (induction s arbitrary: p) (auto split: if_splits list.splits)

lemma dotted_prefixes_snoc:
  "dotted_prefixes d s = map (\<lambda>i. join_with [d] (take i (split_on d s))) [1..<length (split_on d s)] @ [s]"
proof -
  have "[1..<length (split_on d s) + 1] = [1..<length (split_on d s)] @ [length (split_on d s)]"
    by (simp add: Suc_leI)
  then show ?thesis by (simp only: dotted_prefixes_def map_append) simp
qed

lemma hasAncestorIn_iff: "hasAncestorIn key S \<longleftrightarrow> (\<exists>a\<in>S. a \<noteq> key \<and> covers a key)"
proof -
  let ?P = "split_on CHR ''.'' key"
  let ?I = "map (\<lambda>i. join_with ''.'' (take i ?P)) [1..<length ?P]"
  have "key \<notin> set ?I"
  proof
    assume "key \<in> set ?I"
    then obtain i where "i \<in> {1..<length ?P}" and eq: "key = join_with ''.'' (take i ?P)"
      unfolding set_map set_upt by blast
    then have i: "0 < i" "i < length ?P" "join_with ''.'' (take i ?P) = key"
      by simp_all
    have "\<forall>p\<in>set (take i ?P). CHR ''.'' \<notin> set p"
      by (auto dest!: in_set_takeD split_on_parts_free)
    with split_join [of "take i ?P" "CHR ''.''"] i(1) have "split_on CHR ''.'' (join_with ''.'' (take i ?P)) = take i ?P"
      by (simp add: take_eq_Nil)
    with i(3) have "take i ?P = ?P" by simp
    then have "length (take i ?P) = length ?P" by (rule arg_cong)
    with i(2) show False by simp
  qed
  moreover have "a \<in> set ?I \<or> a = key \<longleftrightarrow> covers a key" for a
    using set_dotted_prefixes [of a "CHR ''.''" key]
    unfolding dotted_prefixes_snoc covers_def by auto
  ultimately have "a \<in> set ?I \<longleftrightarrow> a \<noteq> key \<and> covers a key" for a
    by blast
  then show ?thesis
    unfolding hasAncestorIn_def dotted_prefixes_snoc butlast_snoc list_ex_iff by blast
qed

subsection \<open>The contract of a grant check\<close>

text \<open>
  \<open>HasPermission\<close> (on the caller's list) and \<open>impliedBy\<close> (on a set) are two
  implementations of one contract; what a client may conclude from it is proved once.
\<close>

locale grant_check =
  fixes held :: "'p \<Rightarrow> string set"
    and grants :: "'p \<Rightarrow> string \<Rightarrow> bool"
  assumes grants_iff: "'''' \<notin> held p \<Longrightarrow> c \<noteq> '''' \<Longrightarrow> grants p c \<longleftrightarrow> (\<exists>a\<in>held p. covers a c)"
begin

lemma held_granted: "'''' \<notin> held p \<Longrightarrow> c \<in> held p \<Longrightarrow> grants p c"
  by (subst grants_iff) (auto intro: bexI [of _ c])

lemma granted_descendant:
  "'''' \<notin> held p \<Longrightarrow> c \<noteq> '''' \<Longrightarrow> d \<noteq> '''' \<Longrightarrow> grants p c \<Longrightarrow> covers c d \<Longrightarrow> grants p d"
  by (simp add: grants_iff) (blast intro: covers_trans)

lemma grants_le:
  assumes "'''' \<notin> held p" and "'''' \<notin> held q" and "\<And>a. a \<in> held p \<Longrightarrow> grants q a"
    and "c \<noteq> ''''" and "grants p c"
  shows "grants q c"
proof -
  from assms(1,4,5) obtain a where a: "a \<in> held p" "covers a c"
    unfolding grants_iff [OF assms(1,4)] by blast
  with assms(1) have "a \<noteq> ''''" by blast
  with assms(2-4) a show ?thesis by (blast intro: granted_descendant)
qed

lemma flat_code_exact:
  "'''' \<notin> held p \<Longrightarrow> c \<noteq> '''' \<Longrightarrow> CHR ''.'' \<notin> set c \<Longrightarrow> grants p c \<longleftrightarrow> c \<in> held p"
  by (simp add: grants_iff) (blast dest: covers_dotfree intro: covers_refl)

end

interpretation has_permission: grant_check set HasPermission
  by unfold_locales (simp add: HasPermission_iff)

interpretation implied: grant_check "\<lambda>S. S" "\<lambda>S c. impliedBy c S"
  by unfold_locales (simp add: impliedBy_iff)

subsection \<open>The laws of the catalog index\<close>

text \<open>
  What \<open>ExpandPermissions\<close> and \<open>RollupPermissions\<close> rely on in the index: module codes are
  flat, an entity code is its module's code and one more part, a leaf is its entity's code
  and one more part, and the two directions between modules and entities agree. The loop
  of \<open>buildCatalogIndex\<close> keeps these laws at every entry whose code has that shape.
\<close>

definition flat :: "string \<Rightarrow> bool" where
  "flat c \<longleftrightarrow> c \<noteq> '''' \<and> CHR ''.'' \<notin> set c"

definition after_dot :: "string \<Rightarrow> string \<Rightarrow> string" where
  "after_dot p c = drop (Suc (length p)) c"

definition child_of :: "string \<Rightarrow> string \<Rightarrow> bool" where
  "child_of p c \<longleftrightarrow> c = leaf_code p (after_dot p c) \<and> CHR ''.'' \<notin> set (after_dot p c)"

definition wf_entry :: "permission_catalog_entry \<Rightarrow> bool" where
  "wf_entry e \<longleftrightarrow>
     (if pe_parent_code e = '''' then flat (pe_code e)
      else flat (pe_parent_code e) \<and> child_of (pe_parent_code e) (pe_code e) \<and> pe_actions e \<noteq> []
           \<and> list_all (\<lambda>a. CHR ''.'' \<notin> set a) (pe_actions e))"

definition index_laws :: "catalogIndex \<Rightarrow> bool" where
  "index_laws ix \<longleftrightarrow>
     (\<forall>m es. map_of (moduleEntities ix) m = Some es \<longrightarrow> flat m
        \<and> (\<forall>e\<in>set es. child_of m e \<and> map_of (entityModule ix) e = Some m \<and> map_of (entityLeaves ix) e \<noteq> None))
     \<and> (\<forall>e ls. map_of (entityLeaves ix) e = Some ls \<longrightarrow> ls \<noteq> []
        \<and> (\<forall>l\<in>set ls. child_of e l)
        \<and> (\<exists>m es. map_of (moduleEntities ix) m = Some es \<and> e \<in> set es))"

lemma child_of_leaf_code [simp]: "CHR ''.'' \<notin> set a \<Longrightarrow> child_of e (leaf_code e a)"
  by (simp add: child_of_def leaf_code_def after_dot_def)

lemma child_ofE:
  assumes "child_of p c"
  obtains a where "c = leaf_code p a" and "CHR ''.'' \<notin> set a"
  using assms by (auto simp: child_of_def)

lemma leaf_code_eq_iff:
  "CHR ''.'' \<notin> set a \<Longrightarrow> CHR ''.'' \<notin> set b \<Longrightarrow> leaf_code p a = leaf_code q b \<longleftrightarrow> p = q \<and> a = b"
proof
  assume free: "CHR ''.'' \<notin> set a" "CHR ''.'' \<notin> set b" and eq: "leaf_code p a = leaf_code q b"
  from arg_cong [OF eq, of rev] have "rev a @ CHR ''.'' # rev p = rev b @ CHR ''.'' # rev q"
    by (simp only: leaf_code_def rev_append rev.simps append_assoc append_Cons append_Nil)
  moreover from free have "takeWhile (\<lambda>c. c \<noteq> CHR ''.'') (rev a @ CHR ''.'' # rev p) = rev a"
    and "takeWhile (\<lambda>c. c \<noteq> CHR ''.'') (rev b @ CHR ''.'' # rev q) = rev b"
    by (auto simp: takeWhile_tail takeWhile_eq_all_conv)
  ultimately have "rev a = rev b" by metis
  with eq show "p = q \<and> a = b" by (simp add: leaf_code_def)
qed auto

lemma child_of_nonempty: "child_of p c \<Longrightarrow> c \<noteq> ''''"
  by (auto elim!: child_ofE simp: leaf_code_def)

lemma child_of_unique: "child_of p c \<Longrightarrow> child_of q c \<Longrightarrow> p = q"
  by (metis child_ofE leaf_code_eq_iff)

lemma child_of_covers: "child_of p c \<Longrightarrow> covers p c"
  by (auto elim: child_ofE)

lemma child_of_coversD: "child_of p c \<Longrightarrow> covers a c \<Longrightarrow> a = c \<or> covers a p"
  by (auto elim!: child_ofE dest: covers_leaf_codeD)

lemma child_of_not_flat: "child_of p c \<Longrightarrow> \<not> flat c"
  by (auto elim!: child_ofE simp: flat_def leaf_code_def)

lemma flat_coversD: "flat m \<Longrightarrow> covers a m \<Longrightarrow> a = m"
  by (auto simp: flat_def dest: covers_dotfree)

lemma index_module:
  assumes "index_laws ix" and "map_of (moduleEntities ix) m = Some es"
  shows "flat m" and "\<And>e. e \<in> set es \<Longrightarrow> child_of m e"
    and "\<And>e. e \<in> set es \<Longrightarrow> map_of (entityModule ix) e = Some m"
    and "\<And>e. e \<in> set es \<Longrightarrow> map_of (entityLeaves ix) e \<noteq> None"
  using assms unfolding index_laws_def by blast+

lemma index_leaves:
  assumes "index_laws ix" and "map_of (entityLeaves ix) e = Some ls"
  shows "ls \<noteq> []" and "\<And>l. l \<in> set ls \<Longrightarrow> child_of e l"
    and "\<exists>m es. map_of (moduleEntities ix) m = Some es \<and> e \<in> set es"
  using assms unfolding index_laws_def by blast+

lemma index_entry_laws:
  assumes "wf_entry e" and "index_laws ix"
  shows "index_laws (index_entry e ix)"
proof (cases "pe_parent_code e = ''''")
  case True
  with assms show ?thesis
    by (auto simp: index_entry_def index_laws_def wf_entry_def update_conv has_key_def)
      (metis option.distinct(1))
next
  case False
  let ?p = "pe_parent_code e" and ?c = "pe_code e" and ?ix = "index_entry e ix"
  let ?old = "map_get (moduleEntities ix) ?p []"
  from False assms(1) have wf: "flat ?p" "child_of ?p ?c" "pe_actions e \<noteq> []"
      "\<forall>a\<in>set (pe_actions e). CHR ''.'' \<notin> set a"
    by (auto simp: wf_entry_def list_all_iff)
  have old: "\<forall>e\<in>set ?old. child_of ?p e \<and> map_of (entityModule ix) e = Some ?p \<and> map_of (entityLeaves ix) e \<noteq> None"
  proof (cases "map_of (moduleEntities ix) ?p")
    case None
    then show ?thesis by (simp add: map_get_def)
  next
    case (Some es)
    with index_module [OF assms(2) Some] show ?thesis by (simp add: map_get_def)
  qed
  have me: "map_of (moduleEntities ?ix) m = (if m = ?p then Some (?old @ [?c]) else map_of (moduleEntities ix) m)"
    and em: "map_of (entityModule ?ix) x = (if x = ?c then Some ?p else map_of (entityModule ix) x)"
    and el: "map_of (entityLeaves ?ix) x =
      (if x = ?c then Some (map (leaf_code ?c) (pe_actions e)) else map_of (entityLeaves ix) x)" for m x
    using False by (simp_all add: index_entry_def update_conv)
  have mods: "flat m \<and> (\<forall>x\<in>set es. child_of m x \<and> map_of (entityModule ?ix) x = Some m
        \<and> map_of (entityLeaves ?ix) x \<noteq> None)"
    if "map_of (moduleEntities ?ix) m = Some es" for m es
  proof (cases "m = ?p")
    case True
    with that wf old show ?thesis by (auto simp: me em el)
  next
    case False
    with that have "map_of (moduleEntities ix) m = Some es" by (simp add: me)
    then have "flat m" and x: "\<forall>x\<in>set es. child_of m x \<and> map_of (entityModule ix) x = Some m
        \<and> map_of (entityLeaves ix) x \<noteq> None"
      using index_module [OF assms(2)] by blast+
    with False wf(2) show ?thesis by (auto simp: em el dest: child_of_unique)
  qed
  have ents: "ls \<noteq> [] \<and> (\<forall>l\<in>set ls. child_of x l)
        \<and> (\<exists>m es. map_of (moduleEntities ?ix) m = Some es \<and> x \<in> set es)"
    if "map_of (entityLeaves ?ix) x = Some ls" for x ls
  proof (cases "x = ?c")
    case True
    with that wf show ?thesis by (auto simp: me el)
  next
    case False
    with that have "map_of (entityLeaves ix) x = Some ls" by (simp add: el)
    then obtain m es where "ls \<noteq> []" "\<forall>l\<in>set ls. child_of x l"
        "map_of (moduleEntities ix) m = Some es" "x \<in> set es"
      using index_leaves [OF assms(2)] by blast
    then show ?thesis by (cases "m = ?p") (auto simp: me map_get_def)
  qed
  from mods ents show ?thesis unfolding index_laws_def by blast
qed

lemma buildCatalogIndex_laws:
  assumes "list_all wf_entry cat"
  shows "index_laws (buildCatalogIndex cat)"
  unfolding buildCatalogIndex_def
proof (rule fold_invariant [where Q = wf_entry])
  show "wf_entry e" if "e \<in> set cat" for e
    using assms that by (simp add: list_all_iff)
  show "index_laws \<lparr>moduleEntities = [], entityLeaves = [], entityModule = []\<rparr>"
    by (simp add: index_laws_def)
qed (rule index_entry_laws)

lemma PermissionCatalog_wf: "list_all wf_entry PermissionCatalog"
  by (simp add: PermissionCatalog_def perm_entry_def wf_entry_def flat_def child_of_def leaf_code_def
      after_dot_def)

lemma permIndex_laws: "index_laws permIndex"
  unfolding permIndex_def by (rule buildCatalogIndex_laws) (rule PermissionCatalog_wf)

text \<open>The index lists each key once, and holds the leaves of every catalog entity.\<close>

definition entity_entries :: "permission_catalog_entry list \<Rightarrow> permission_catalog_entry list" where
  "entity_entries cat = filter (\<lambda>e. pe_parent_code e \<noteq> '''') cat"

definition catalog_leaf :: "string \<Rightarrow> bool" where
  "catalog_leaf l \<longleftrightarrow> list_ex (\<lambda>e. list_ex (\<lambda>a. l = leaf_code (pe_code e) a) (pe_actions e))
     (entity_entries PermissionCatalog)"

lemma buildCatalogIndex_distinct:
  "distinct (map fst (moduleEntities (buildCatalogIndex cat)))
   \<and> distinct (map fst (entityLeaves (buildCatalogIndex cat)))"
  unfolding buildCatalogIndex_def
  by (rule fold_invariant [where Q = "\<lambda>_. True"]) (auto simp: index_entry_def distinct_update)

lemma fold_index_entry_other:
  "c \<notin> set (map pe_code (entity_entries cat)) \<Longrightarrow>
   map_of (entityLeaves (fold index_entry cat ix)) c = map_of (entityLeaves ix) c"
  by (induction cat arbitrary: ix) (auto simp: entity_entries_def index_entry_def update_conv)

lemma fold_index_entry_leaves:
  assumes "distinct (map pe_code (entity_entries cat))" and "e \<in> set (entity_entries cat)"
  shows "map_of (entityLeaves (fold index_entry cat ix)) (pe_code e) =
         Some (map (leaf_code (pe_code e)) (pe_actions e))"
  using assms
proof (induction cat arbitrary: ix)
  case Nil
  then show ?case by (simp add: entity_entries_def)
next
  case (Cons x cat)
  show ?case
  proof (cases "e \<in> set (entity_entries cat)")
    case True
    with Cons.prems(1) have "distinct (map pe_code (entity_entries cat))"
      by (auto simp: entity_entries_def split: if_splits)
    with True show ?thesis by (simp add: Cons.IH)
  next
    case False
    with Cons.prems(2) have x: "x = e" "pe_parent_code e \<noteq> ''''"
      by (auto simp: entity_entries_def split: if_splits)
    with Cons.prems(1) have "pe_code e \<notin> set (map pe_code (entity_entries cat))"
      by (auto simp: entity_entries_def)
    moreover from x have "map_of (entityLeaves (index_entry x ix)) (pe_code e) =
        Some (map (leaf_code (pe_code e)) (pe_actions e))"
      by (simp add: index_entry_def update_conv)
    ultimately show ?thesis
      using x by (simp add: fold_index_entry_other)
  qed
qed

lemma PermissionCatalog_distinct: "distinct (map pe_code (entity_entries PermissionCatalog))"
  by (simp add: PermissionCatalog_def entity_entries_def perm_entry_def)

lemma catalog_leaf_indexed:
  assumes "catalog_leaf l"
  obtains e ls where "map_of (entityLeaves permIndex) e = Some ls" and "l \<in> set ls"
proof -
  from assms obtain e a where "e \<in> set (entity_entries PermissionCatalog)" "a \<in> set (pe_actions e)"
      "l = leaf_code (pe_code e) a"
    by (auto simp: catalog_leaf_def list_ex_iff)
  then have "map_of (entityLeaves permIndex) (pe_code e) = Some (map (leaf_code (pe_code e)) (pe_actions e))"
      "l \<in> set (map (leaf_code (pe_code e)) (pe_actions e))"
    unfolding permIndex_def buildCatalogIndex_def
    by (simp_all only: fold_index_entry_leaves [OF PermissionCatalog_distinct] set_map) blast
  then show thesis by (rule that)
qed

subsection \<open>Expansion and roll-up over a lawful index\<close>

lemma fold_add_uncovered_sub: "out \<subseteq> fold add_uncovered order out"
proof (induction order arbitrary: out)
  case (Cons x order)
  have "out \<subseteq> add_uncovered x out" by (auto simp: add_uncovered_def)
  also have "\<dots> \<subseteq> fold add_uncovered order (add_uncovered x out)" by (rule Cons.IH)
  finally show ?case by simp
qed simp

lemma fold_add_uncovered_sup: "fold add_uncovered order out \<subseteq> out \<union> set order"
  by (induction order arbitrary: out) (fastforce simp: add_uncovered_def split: if_splits)+

lemma impliedBy_mono:
  assumes "'''' \<notin> T" and "S \<subseteq> T" and "impliedBy c S"
  shows "impliedBy c T"
proof -
  from assms(1,2) have "'''' \<notin> S" by blast
  with assms show ?thesis by (auto simp: impliedBy_iff)
qed

lemma fold_add_uncovered_covers:
  assumes "'''' \<notin> out" and "'''' \<notin> set order" and "c \<in> set order"
  shows "impliedBy c (fold add_uncovered order out)"
  using assms
proof (induction order arbitrary: out)
  case Nil
  then show ?case by simp
next
  case (Cons x order)
  let ?out = "add_uncovered x out"
  from Cons.prems have out: "'''' \<notin> ?out" by (auto simp: add_uncovered_def)
  show ?case
  proof (cases "c \<in> set order")
    case True
    with Cons.IH [OF out] Cons.prems show ?thesis by simp
  next
    case False
    with Cons.prems have "impliedBy c ?out"
      by (auto simp: add_uncovered_def impliedBy_def)
    moreover have "'''' \<notin> fold add_uncovered order ?out"
      using fold_add_uncovered_sup [of order ?out] out Cons.prems(2) by auto
    ultimately show ?thesis
      by (simp add: impliedBy_mono [OF _ fold_add_uncovered_sub])
  qed
qed

locale catalog_index =
  fixes ix :: catalogIndex
  assumes laws: "index_laws ix"
    and distinct_modules: "distinct (map fst (moduleEntities ix))"
    and distinct_entities: "distinct (map fst (entityLeaves ix))"
begin

lemma entity_of_module:
  assumes "map_of (entityLeaves ix) e = Some ls"
  obtains m es where "map_of (moduleEntities ix) m = Some es" "e \<in> set es" "flat m" "child_of m e"
  using index_leaves(3) [OF laws assms] index_module [OF laws] by blast

lemma completeEntities_iff:
  "e \<in> completeEntities ix P \<longleftrightarrow>
     (\<exists>ls. map_of (entityLeaves ix) e = Some ls \<and> ls \<noteq> [] \<and> (\<forall>l\<in>set ls. impliedBy l P))"
  using distinct_entities
  by (force simp: completeEntities_def allImpliedBy_def list_all_iff map_of_eq_Some_iff)

lemma completeModules_iff:
  "m \<in> completeModules ix ces \<longleftrightarrow>
     (\<exists>es. map_of (moduleEntities ix) m = Some es \<and> es \<noteq> [] \<and> set es \<subseteq> ces)"
  using distinct_modules
  by (force simp: completeModules_def allIn_def list_all_iff map_of_eq_Some_iff)

text \<open>Only the leaf itself, its entity and its module cover a leaf.\<close>

lemma leaf_ancestors:
  assumes "map_of (entityLeaves ix) e = Some ls" and "l \<in> set ls"
    and "map_of (moduleEntities ix) m = Some es" and "e \<in> set es" and "covers a l"
  shows "a = l \<or> a = e \<or> a = m"
  using assms index_leaves(2) [OF laws assms(1)] index_module [OF laws assms(3)]
  by (blast dest: child_of_coversD flat_coversD)

lemma not_empty:
  "map_of (moduleEntities ix) m = Some es \<Longrightarrow> m \<noteq> ''''"
  "map_of (entityLeaves ix) e = Some ls \<Longrightarrow> e \<noteq> ''''"
  "map_of (entityLeaves ix) e = Some ls \<Longrightarrow> l \<in> set ls \<Longrightarrow> l \<noteq> ''''"
proof -
  show "m \<noteq> ''''" if "map_of (moduleEntities ix) m = Some es"
    using index_module(1) [OF laws that] by (simp add: flat_def)
  show "e \<noteq> ''''" if "map_of (entityLeaves ix) e = Some ls"
    using entity_of_module [OF that] child_of_nonempty by blast
  show "l \<noteq> ''''" if "map_of (entityLeaves ix) e = Some ls" "l \<in> set ls"
    using index_leaves(2) [OF laws that] by (rule child_of_nonempty)
qed

end

context catalog_index
begin

lemma rep_cases:
  assumes "b \<in> rollup_reps ix P"
  obtains (entity) ls where "map_of (entityLeaves ix) b = Some ls" "\<forall>l\<in>set ls. impliedBy l P"
  | (module) es where "map_of (moduleEntities ix) b = Some es" "set es \<subseteq> completeEntities ix P"
  using assms by (auto simp: rollup_reps_def Let_def completeEntities_iff completeModules_iff)

lemma empty_notin_reps: "'''' \<notin> rollup_reps ix P"
  by (auto elim!: rep_cases dest: not_empty)

lemma empty_notin_rollup: "'''' \<notin> set order \<Longrightarrow> '''' \<notin> rollup_set ix order P"
  using fold_add_uncovered_sup [of order "rollup_reps ix P"] empty_notin_reps
  by (auto simp: rollup_set_def)

text \<open>Roll-up never grants a leaf that was not granted before.\<close>

lemma rep_grants_leaf:
  assumes "b \<in> rollup_reps ix P" and "map_of (entityLeaves ix) e = Some ls" and "l \<in> set ls"
    and "covers b l"
  shows "impliedBy l P"
proof -
  obtain m es where m: "map_of (moduleEntities ix) m = Some es" "e \<in> set es" "flat m" "child_of m e"
    using entity_of_module [OF assms(2)] by blast
  have b: "b = l \<or> b = e \<or> b = m"
    using leaf_ancestors [OF assms(2,3) m(1,2) assms(4)] .
  from assms(1) show ?thesis
  proof (cases rule: rep_cases)
    case (entity ls')
    then obtain m' where "child_of m' b" "flat m'"
      by (auto elim: entity_of_module)
    with index_leaves(2) [OF laws assms(2,3)] m(3,4) b have "b = e"
      by (blast dest: child_of_unique child_of_not_flat)
    with entity assms(2,3) show ?thesis by simp
  next
    case (module es')
    from index_module(1) [OF laws module(1)] have "flat b" .
    with b index_leaves(2) [OF laws assms(2,3)] m(4) have "b = m"
      by (blast dest: child_of_not_flat)
    with module m(1,2) have "e \<in> completeEntities ix P" by auto
    with assms(2,3) show ?thesis by (auto simp: completeEntities_iff)
  qed
qed

lemma rollup_leaf_iff:
  assumes "'''' \<notin> P" and "set order = P"
    and "map_of (entityLeaves ix) e = Some ls" and "l \<in> set ls"
  shows "impliedBy l (rollup_set ix order P) \<longleftrightarrow> impliedBy l P"
proof
  note R = empty_notin_rollup [of order P]
  assume "impliedBy l (rollup_set ix order P)"
  then obtain b where b: "b \<in> rollup_set ix order P" "covers b l"
    using R assms(1,2) by (auto simp: impliedBy_iff)
  then have "b \<in> rollup_reps ix P \<or> b \<in> P"
    using fold_add_uncovered_sup [of order] assms(2) by (auto simp: rollup_set_def)
  then show "impliedBy l P"
  proof
    assume "b \<in> rollup_reps ix P"
    then show ?thesis using assms(3,4) b(2) by (rule rep_grants_leaf)
  next
    assume "b \<in> P"
    with b(2) assms(1) show ?thesis by (auto simp: impliedBy_iff)
  qed
next
  assume "impliedBy l P"
  have order: "'''' \<notin> set order" using assms(1,2) by simp
  show "impliedBy l (rollup_set ix order P)"
  proof (rule implied.grants_le [OF assms(1) empty_notin_rollup [OF order] _ not_empty(3) [OF assms(3,4)]])
    show "impliedBy l P" by fact
    show "impliedBy a (rollup_set ix order P)" if "a \<in> P" for a
      unfolding rollup_set_def using that assms(2)
      by (intro fold_add_uncovered_covers [OF empty_notin_reps order]) simp
  qed
qed

text \<open>
  Where every present code that covers another present code is a key of the index, the
  order of the last loop does not matter.
\<close>

lemma fold_add_uncovered_order_free:
  assumes "'''' \<notin> out" and "'''' \<notin> set order" and "distinct order"
    and keys: "\<And>b c. b \<in> set order \<Longrightarrow> c \<in> set order \<Longrightarrow> covers b c \<Longrightarrow> b \<noteq> c \<Longrightarrow> impliedBy b out"
  shows "fold add_uncovered order out = out \<union> {c \<in> set order. \<not> impliedBy c out}"
  using assms
proof (induction order arbitrary: out)
  case Nil
  then show ?case by simp
next
  case (Cons x order)
  let ?out = "add_uncovered x out"
  from Cons.prems have out: "'''' \<notin> ?out" by (auto simp: add_uncovered_def)
  have same: "impliedBy c ?out \<longleftrightarrow> impliedBy c out" if "c \<in> set order" for c
  proof -
    have "impliedBy c out" if "covers x c" "\<not> impliedBy x out"
      using Cons.prems(3,4) \<open>c \<in> set order\<close> that by (metis distinct.simps(2) list.set_intros(1,2))
    then show ?thesis
      using out Cons.prems(1) by (auto simp: add_uncovered_def impliedBy_iff)
  qed
  have "fold add_uncovered order ?out = ?out \<union> {c \<in> set order. \<not> impliedBy c ?out}"
  proof (rule Cons.IH [OF out])
    fix b c assume bc: "b \<in> set order" "c \<in> set order" "covers b c" "b \<noteq> c"
    with Cons.prems(4) [of b c] same [OF bc(1)] show "impliedBy b ?out" by simp
  qed (use Cons.prems in auto)
  also have "\<dots> = ?out \<union> {c \<in> set order. \<not> impliedBy c out}"
    using same by blast
  also have "\<dots> = out \<union> {c \<in> set (x # order). \<not> impliedBy c out}"
    using Cons.prems(3) by (auto simp: add_uncovered_def)
  finally show ?case by simp
qed

text \<open>A module or an entity that is held is covered by the representatives.\<close>

lemma held_key_represented:
  assumes "'''' \<notin> P" and "b \<in> P" and "isModule ix b \<or> isEntity ix b"
    and nonempty: "\<And>m es. map_of (moduleEntities ix) m = Some es \<Longrightarrow> es \<noteq> []"
  shows "impliedBy b (rollup_reps ix P)"
proof -
  have complete: "e \<in> completeEntities ix P"
    if "map_of (entityLeaves ix) e = Some ls" "covers b e" for e ls
  proof -
    have "covers b l" if "l \<in> set ls" for l
      using index_leaves(2) [OF laws \<open>map_of (entityLeaves ix) e = Some ls\<close> that] \<open>covers b e\<close>
      by (blast intro: covers_trans child_of_covers)
    with that(1) assms(1,2) index_leaves(1) [OF laws that(1)] show ?thesis
      by (auto simp: completeEntities_iff impliedBy_iff)
  qed
  have represented: "impliedBy e (rollup_reps ix P)" if "e \<in> completeEntities ix P" for e
  proof -
    from that obtain ls where "map_of (entityLeaves ix) e = Some ls"
      by (auto simp: completeEntities_iff)
    then obtain m es where m: "map_of (moduleEntities ix) m = Some es" "e \<in> set es" "child_of m e"
      by (rule entity_of_module)
    then have "map_get (entityModule ix) e '''' = m"
      using index_module(3) [OF laws m(1,2)] by (simp add: map_get_def)
    with that m(3) have "e \<in> rollup_reps ix P \<or> m \<in> rollup_reps ix P \<and> covers m e"
      by (auto simp: rollup_reps_def Let_def dest: child_of_covers)
    then show ?thesis by (auto simp: impliedBy_iff [OF empty_notin_reps] intro: covers_refl)
  qed
  from assms(3) show ?thesis
  proof
    assume "isEntity ix b"
    then show ?thesis
      using complete [of b] represented by (auto simp: isEntity_def has_key_def)
  next
    assume "isModule ix b"
    then obtain es where es: "map_of (moduleEntities ix) b = Some es"
      by (auto simp: isModule_def has_key_def)
    have "set es \<subseteq> completeEntities ix P"
      using index_module(2,4) [OF laws es] complete by (blast dest: child_of_covers)
    with es nonempty have "b \<in> rollup_reps ix P"
      by (auto simp: rollup_reps_def Let_def completeModules_iff)
    then show ?thesis by (simp add: impliedBy_def)
  qed
qed

end

context catalog_index
begin

definition index_leaf :: "string \<Rightarrow> bool" where
  "index_leaf l \<longleftrightarrow> (\<exists>e ls. map_of (entityLeaves ix) e = Some ls \<and> l \<in> set ls)"

lemma entity_not_flat: "isEntity ix e \<Longrightarrow> \<not> flat e"
  by (auto simp: isEntity_def has_key_def elim!: entity_of_module dest: child_of_not_flat)

lemma module_flat: "isModule ix m \<Longrightarrow> flat m"
  using index_module(1) [OF laws] by (auto simp: isModule_def has_key_def)

lemma leaf_not_key:
  assumes "map_of (entityLeaves ix) e = Some ls" and "l \<in> set ls"
  shows "\<not> isModule ix l" and "\<not> isEntity ix l"
proof -
  obtain m where m: "flat m" "child_of m e"
    using entity_of_module [OF assms(1)] by blast
  have l: "child_of e l" by (rule index_leaves(2) [OF laws assms])
  then show "\<not> isModule ix l" by (blast dest: module_flat child_of_not_flat)
  show "\<not> isEntity ix l"
  proof
    assume "isEntity ix l"
    then obtain m' where "flat m'" "child_of m' l"
      by (auto simp: isEntity_def has_key_def elim: entity_of_module)
    with l m(2) show False by (blast dest: child_of_unique child_of_not_flat)
  qed
qed

lemma expand_code_leaf:
  assumes "map_of (entityLeaves ix) e = Some ls" and "l \<in> set ls" and "c \<noteq> ''''"
  shows "l \<in> set (expand_code ix c) \<longleftrightarrow> covers c l"
proof -
  obtain m es where m: "map_of (moduleEntities ix) m = Some es" "e \<in> set es" "flat m" "child_of m e"
    using entity_of_module [OF assms(1)] by blast
  note l = index_leaves(2) [OF laws assms(1,2)]
  show ?thesis
  proof
    assume "l \<in> set (expand_code ix c)"
    moreover have "covers x l" if "map_of (entityLeaves ix) x = Some ls'" "l \<in> set ls'" for x ls'
      using index_leaves(2) [OF laws that] by (rule child_of_covers)
    moreover have "covers c x" if "map_of (moduleEntities ix) c = Some es'" "x \<in> set es'" for x es'
      using index_module(2) [OF laws that] by (rule child_of_covers)
    ultimately show "covers c l"
      by (auto simp: expand_code_def split: if_splits dest!: in_map_getD) (blast intro: covers_trans)
  next
    assume "covers c l"
    with leaf_ancestors [OF assms(1,2) m(1,2)] have "c = l \<or> c = e \<or> c = m" by blast
    moreover have "l \<in> set (expand_code ix l)"
      using leaf_not_key [OF assms(1,2)] not_empty(3) [OF assms(1,2)] by (simp add: expand_code_def)
    moreover have "l \<in> set (expand_code ix e)"
      using assms module_flat [of e] child_of_not_flat [OF m(4)] not_empty(2) [OF assms(1)]
      by (auto simp: expand_code_def isEntity_def has_key_def map_get_def)
    moreover have "l \<in> set (expand_code ix m)"
      using assms m not_empty(1) [OF m(1)]
      by (auto simp: expand_code_def isModule_def has_key_def map_get_def intro!: bexI [of _ e])
    ultimately show "l \<in> set (expand_code ix c)" by blast
  qed
qed

lemma expand_nil [simp]: "expand_code ix '''' = []"
  by (simp add: expand_code_def)

lemma expand_leaf_iff:
  assumes "index_leaf l"
  shows "l \<in> set (concat (map (expand_code ix) codes)) \<longleftrightarrow> impliedBy l (present_codes codes)"
proof -
  from assms obtain e ls where "map_of (entityLeaves ix) e = Some ls" "l \<in> set ls"
    by (auto simp: index_leaf_def)
  note el = expand_code_leaf [OF this]
  have "l \<in> set (concat (map (expand_code ix) codes)) \<longleftrightarrow>
      (\<exists>c\<in>set codes. c \<noteq> '''' \<and> l \<in> set (expand_code ix c))"
  proof -
    have "c \<noteq> ''''" if "l \<in> set (expand_code ix c)" for c
      using that by (auto simp: expand_code_def)
    then show ?thesis by simp blast
  qed
  also have "\<dots> \<longleftrightarrow> (\<exists>c\<in>present_codes codes. covers c l)"
    using el by (auto simp: present_codes_def)
  also have "\<dots> \<longleftrightarrow> impliedBy l (present_codes codes)"
    by (rule impliedBy_iff [symmetric]) (simp add: present_codes_def)
  finally show ?thesis .
qed

text \<open>What expansion yields beside leaves are the codes it keeps.\<close>

lemma expand_other_iff:
  assumes "\<not> index_leaf x"
  shows "x \<in> set (concat (map (expand_code ix) codes)) \<longleftrightarrow>
    x \<in> present_codes codes \<and> \<not> isModule ix x \<and> \<not> isEntity ix x"
proof -
  have "x \<in> set (expand_code ix c) \<longleftrightarrow> c \<noteq> '''' \<and> x = c \<and> \<not> isModule ix c \<and> \<not> isEntity ix c" for c
    using assms index_module(4) [OF laws]
    by (auto simp: expand_code_def index_leaf_def isModule_def isEntity_def has_key_def map_get_def
        split: option.splits)
  then show ?thesis by (auto simp: present_codes_def)
qed

end

subsection \<open>The index of the catalog\<close>

interpretation perm_index: catalog_index permIndex
  using buildCatalogIndex_distinct [of PermissionCatalog]
  by unfold_locales (rule permIndex_laws, simp_all add: permIndex_def)

lemma fold_index_entry_modules:
  "m \<noteq> '''' \<Longrightarrow> map_get (moduleEntities (fold index_entry cat ix)) m [] =
     map_get (moduleEntities ix) m [] @ map pe_code (filter (\<lambda>e. pe_parent_code e = m) cat)"
  by (induction cat arbitrary: ix)
     (auto simp: index_entry_def map_get_def update_conv has_key_def split: option.splits)

lemma fold_index_entry_module_keys:
  "map_of (moduleEntities (fold index_entry cat ix)) m \<noteq> None \<Longrightarrow>
   map_of (moduleEntities ix) m \<noteq> None \<or> m \<in> pe_parent_code ` set cat
     \<or> (\<exists>e\<in>set cat. pe_parent_code e = '''' \<and> m = pe_code e)"
proof (induction cat arbitrary: ix)
  case Nil
  then show ?case by simp
next
  case (Cons e cat)
  from Cons.IH [of "index_entry e ix"] Cons.prems show ?case
    by (auto simp: index_entry_def update_conv split: if_splits)
qed

lemma PermissionCatalog_modules_used:
  "list_all (\<lambda>e. pe_parent_code e = '''' \<longrightarrow>
     list_ex (\<lambda>e'. pe_parent_code e' = pe_code e) PermissionCatalog) PermissionCatalog"
  by (simp add: PermissionCatalog_def perm_entry_def)

lemma permIndex_module_nonempty:
  assumes "map_of (moduleEntities permIndex) m = Some es"
  shows "es \<noteq> []"
proof -
  from perm_index.not_empty(1) [OF assms] have m: "m \<noteq> ''''" .
  have "m \<in> pe_parent_code ` set PermissionCatalog"
  proof -
    have "m \<in> pe_parent_code ` set PermissionCatalog
        \<or> (\<exists>e\<in>set PermissionCatalog. pe_parent_code e = '''' \<and> m = pe_code e)"
      using fold_index_entry_module_keys [of PermissionCatalog _ m] assms
      unfolding permIndex_def buildCatalogIndex_def by fastforce
    then show ?thesis
    proof (elim disjE bexE conjE)
      fix e assume e: "e \<in> set PermissionCatalog" "pe_parent_code e = ''''" "m = pe_code e"
      with PermissionCatalog_modules_used
      obtain e' where "e' \<in> set PermissionCatalog" "pe_parent_code e' = pe_code e"
        unfolding list_all_iff list_ex_iff by blast
      with e(3) show ?thesis by force
    qed
  qed
  moreover have "es = map pe_code (filter (\<lambda>e. pe_parent_code e = m) PermissionCatalog)"
    using fold_index_entry_modules [OF m, of PermissionCatalog
        "\<lparr>moduleEntities = [], entityLeaves = [], entityModule = []\<rparr>"] assms
    by (simp add: permIndex_def buildCatalogIndex_def map_get_def)
  ultimately show ?thesis by (auto simp: filter_empty_conv)
qed

lemma custom_codes_flat: "IsCustomPermissionCode c \<Longrightarrow> flat c"
  by (auto simp: IsCustomPermissionCode_def CustomPermissionCatalog_def flat_def)

lemma custom_codes_outside:
  "list_all (\<lambda>c. list_all (\<lambda>e. cpe_code c \<noteq> pe_code e \<and> cpe_code c \<noteq> pe_parent_code e) PermissionCatalog)
     CustomPermissionCatalog"
  by (simp add: PermissionCatalog_def perm_entry_def CustomPermissionCatalog_def)

lemma custom_not_key:
  assumes "IsCustomPermissionCode c"
  shows "\<not> isModule permIndex c" and "\<not> isEntity permIndex c" and "\<not> perm_index.index_leaf c"
proof -
  have flat: "flat c" by (rule custom_codes_flat) fact
  then show "\<not> isEntity permIndex c" by (blast dest: perm_index.entity_not_flat)
  show "\<not> perm_index.index_leaf c"
    using flat by (auto simp: perm_index.index_leaf_def dest: index_leaves(2) [OF permIndex_laws] child_of_not_flat)
  from assms custom_codes_outside
  have "c \<notin> pe_parent_code ` set PermissionCatalog" "c \<notin> pe_code ` set PermissionCatalog"
    by (auto simp: IsCustomPermissionCode_def list_ex_iff list_all_iff)
  then show "\<not> isModule permIndex c"
    using fold_index_entry_module_keys [of PermissionCatalog _ c]
    unfolding permIndex_def buildCatalogIndex_def isModule_def has_key_def by fastforce
qed

lemma catalog_leaf_index_leaf: "catalog_leaf l \<Longrightarrow> perm_index.index_leaf l"
  unfolding perm_index.index_leaf_def by (elim catalog_leaf_indexed) blast

lemma valid_code_cases:
  assumes "IsValidPermissionCode c"
  obtains "isModule permIndex c" | "isEntity permIndex c" | "perm_index.index_leaf c"
  | "IsCustomPermissionCode c"
proof -
  have key: "isModule permIndex (pe_code e) \<or> isEntity permIndex (pe_code e)"
    if "e \<in> set PermissionCatalog" for e
  proof (cases "pe_parent_code e = ''''")
    case True
    have "has_key (moduleEntities (fold index_entry cat ix)) (pe_code e)"
      if "e \<in> set cat \<or> has_key (moduleEntities ix) (pe_code e)" for cat ix
      using that True
      by (induction cat arbitrary: ix) (auto simp: index_entry_def has_key_def update_conv)
    with that show ?thesis
      by (simp add: permIndex_def buildCatalogIndex_def isModule_def)
  next
    case False
    with that have "e \<in> set (entity_entries PermissionCatalog)"
      by (simp add: entity_entries_def)
    with fold_index_entry_leaves [OF PermissionCatalog_distinct this] show ?thesis
      by (simp add: permIndex_def buildCatalogIndex_def isEntity_def has_key_def)
  qed
  have leaf: "perm_index.index_leaf (leaf_code (pe_code e) a)"
    if "e \<in> set PermissionCatalog" "a \<in> set (pe_actions e)" "pe_parent_code e \<noteq> ''''" for e a
    using that by (intro catalog_leaf_index_leaf) (auto simp: catalog_leaf_def entity_entries_def list_ex_iff)
  have "list_all (\<lambda>e. pe_parent_code e = '''' \<longrightarrow> pe_actions e = []) PermissionCatalog"
    by (simp add: PermissionCatalog_def perm_entry_def)
  then have act: "pe_parent_code e \<noteq> ''''" if "e \<in> set PermissionCatalog" "a \<in> set (pe_actions e)" for e a
    using that by (auto simp: list_all_iff)
  from assms consider e where "e \<in> set PermissionCatalog" "c = pe_code e"
    | e a where "e \<in> set PermissionCatalog" "a \<in> set (pe_actions e)" "c = leaf_code (pe_code e) a"
    | "IsCustomPermissionCode c"
    by (auto simp: IsValidPermissionCode_def buildValidPermissionCodes_def entry_codes_def
        IsCustomPermissionCode_def list_ex_iff)
  then show thesis
    by cases (use key leaf act that in blast)+
qed

text \<open>Among valid codes, one that covers another is a module or an entity.\<close>

lemma valid_covers_key:
  assumes "IsValidPermissionCode c" and "covers b c" and "b \<noteq> c"
  shows "isModule permIndex b \<or> isEntity permIndex b"
  using assms(1)
proof (cases rule: valid_code_cases)
  case 1
  then show ?thesis using assms(2,3) by (blast dest: perm_index.module_flat flat_coversD)
next
  case 2
  then obtain ls where "map_of (entityLeaves permIndex) c = Some ls"
    by (auto simp: isEntity_def has_key_def)
  then obtain m es where m: "map_of (moduleEntities permIndex) m = Some es" "flat m" "child_of m c"
    by (rule perm_index.entity_of_module)
  with assms(2,3) have "b = m" by (blast dest: child_of_coversD flat_coversD)
  with m(1) show ?thesis by (simp add: isModule_def has_key_def)
next
  case 3
  then obtain e ls where e: "map_of (entityLeaves permIndex) e = Some ls" "c \<in> set ls"
    by (auto simp: perm_index.index_leaf_def)
  then obtain m es where m: "map_of (moduleEntities permIndex) m = Some es" "e \<in> set es"
    by (auto elim: perm_index.entity_of_module)
  from perm_index.leaf_ancestors [OF e m assms(2)] assms(3) have "b = e \<or> b = m" by blast
  with e(1) m(1) show ?thesis by (auto simp: isModule_def isEntity_def has_key_def)
next
  case 4
  then show ?thesis using assms(2,3) by (blast dest: custom_codes_flat flat_coversD)
qed

lemma present_nonempty [simp]: "'''' \<notin> present_codes codes"
  by (simp add: present_codes_def)

lemma finite_present [simp]: "finite (present_codes codes)"
  by (simp add: present_codes_def)

lemma finite_rollup_set [simp]: "finite (rollup_set permIndex order (present_codes codes))"
proof -
  have "finite (rollup_reps permIndex P)" for P
    by (simp add: rollup_reps_def Let_def completeEntities_def completeModules_def)
  then show ?thesis
    using fold_add_uncovered_sup [of order "rollup_reps permIndex (present_codes codes)"]
    by (auto simp: rollup_set_def intro: finite_subset)
qed

lemma set_RollupPermissions:
  "set (RollupPermissions order codes) = rollup_set permIndex order (present_codes codes)"
  by (simp add: RollupPermissions_def)

lemma set_ExpandPermissions:
  "set (ExpandPermissions codes) = set (concat (map (expand_code permIndex) codes))"
  by (simp add: ExpandPermissions_def del: set_concat)

lemma leaf_covered_present:
  assumes "perm_index.index_leaf l"
  shows "HasPermission codes l \<longleftrightarrow> impliedBy l (present_codes codes)"
proof -
  from assms obtain e ls where e: "map_of (entityLeaves permIndex) e = Some ls" "l \<in> set ls"
    by (auto simp: perm_index.index_leaf_def)
  then obtain m es where m: "map_of (moduleEntities permIndex) m = Some es" "e \<in> set es"
    by (auto elim: perm_index.entity_of_module)
  have "a \<noteq> ''''" if "covers a l" for a
    using perm_index.leaf_ancestors [OF e m that] perm_index.not_empty e m by blast
  with perm_index.not_empty(3) [OF e] show ?thesis
    by (auto simp: HasPermission_iff impliedBy_iff present_codes_def)
qed

lemma HasPermission_rollup:
  assumes "range_order codes order" and "c \<noteq> ''''"
  shows "HasPermission (RollupPermissions order codes) c \<longleftrightarrow>
    impliedBy c (rollup_set permIndex order (present_codes codes))"
  using assms perm_index.empty_notin_rollup [of order]
  by (simp add: HasPermission_iff set_RollupPermissions impliedBy_iff range_order_def)

lemma rollup_set_order_free:
  assumes "range_order codes order" and "list_all IsValidPermissionCode codes"
  shows "rollup_set permIndex order (present_codes codes) =
    (let reps = rollup_reps permIndex (present_codes codes)
     in reps \<union> {c \<in> present_codes codes. \<not> impliedBy c reps})"
proof -
  let ?P = "present_codes codes"
  have order: "distinct order" "set order = ?P"
    using assms(1) by (simp_all add: range_order_def)
  have "impliedBy b (rollup_reps permIndex ?P)"
    if "b \<in> ?P" "c \<in> ?P" "covers b c" "b \<noteq> c" for b c
  proof (rule perm_index.held_key_represented)
    show "isModule permIndex b \<or> isEntity permIndex b"
      using assms(2) that by (intro valid_covers_key [of c]) (auto simp: present_codes_def list_all_iff)
  qed (use that permIndex_module_nonempty in auto)
  then show ?thesis
    using perm_index.fold_add_uncovered_order_free [OF perm_index.empty_notin_reps _ order(1), of ?P] order(2)
    by (simp add: rollup_set_def Let_def)
qed

subsection \<open>Properties\<close>

text \<open>C1. Roll-up keeps the meaning of a grant set: whatever the order in which Go ranges over
  the map, a catalog action (a leaf code) is granted by the rolled-up list exactly if it was
  granted by the input. Replacing complete sets of children by their parent neither drops a
  grant nor adds one.\<close>

theorem RollupPermissions_leaf_grants:
  assumes "range_order codes order" and "catalog_leaf l"
  shows "HasPermission (RollupPermissions order codes) l \<longleftrightarrow> HasPermission codes l"
proof -
  have leaf: "perm_index.index_leaf l"
    using assms(2) by (rule catalog_leaf_index_leaf)
  then obtain e ls where e: "map_of (entityLeaves permIndex) e = Some ls" "l \<in> set ls"
    by (auto simp: perm_index.index_leaf_def)
  have order: "set order = present_codes codes"
    using assms(1) by (simp add: range_order_def)
  show ?thesis
    unfolding HasPermission_rollup [OF assms(1) perm_index.not_empty(3) [OF e]]
      leaf_covered_present [OF leaf, of codes]
    by (rule perm_index.rollup_leaf_iff [OF present_nonempty order e])
qed

lemma RollupPermissions_leaf_grants_witness:
  "HasPermission (RollupPermissions [''teams.teams.edit'', ''teams.teams.view'', ''x'']
       [''x'', ''teams.teams.view'', ''teams.teams.edit'', '''']) ''teams.teams.view''
   \<and> \<not> HasPermission (RollupPermissions [''teams.teams.view''] [''teams.teams.view'']) ''teams.teams.edit''"
proof -
  have leaf: "catalog_leaf ''teams.teams.view''" "catalog_leaf ''teams.teams.edit''"
    by (simp_all add: catalog_leaf_def entity_entries_def PermissionCatalog_def perm_entry_def leaf_code_def)
  have order: "range_order [''x'', ''teams.teams.view'', ''teams.teams.edit'', '''']
      [''teams.teams.edit'', ''teams.teams.view'', ''x'']"
    "range_order [''teams.teams.view''] [''teams.teams.view'']"
    by (auto simp: range_order_def present_codes_def)
  have "HasPermission [''x'', ''teams.teams.view'', ''teams.teams.edit'', ''''] ''teams.teams.view''"
    "\<not> HasPermission [''teams.teams.view''] ''teams.teams.edit''"
    by (auto simp: HasPermission_iff covers_def)
  with RollupPermissions_leaf_grants [OF order(1) leaf(1)]
    RollupPermissions_leaf_grants [OF order(2) leaf(2)] show ?thesis by blast
qed

text \<open>Roll-up never drops a grant: every non-empty input code, whether it is in the
  catalog or not, is still granted by the rolled-up list.\<close>

theorem RollupPermissions_never_drops:
  assumes "range_order codes order" and "c \<in> set codes" and "c \<noteq> ''''"
  shows "HasPermission (RollupPermissions order codes) c"
proof -
  from assms have "c \<in> set order" "'''' \<notin> set order"
    by (auto simp: range_order_def present_codes_def)
  with fold_add_uncovered_covers [OF perm_index.empty_notin_reps] show ?thesis
    by (simp add: HasPermission_rollup [OF assms(1,3)] rollup_set_def)
qed

lemma RollupPermissions_never_drops_witness:
  "HasPermission (RollupPermissions [''x.y'', ''calls_play''] [''calls_play'', ''x.y'']) ''x.y''"
  by (rule RollupPermissions_never_drops) (auto simp: range_order_def present_codes_def)

text \<open>C2. On codes that pass \<open>IsValidPermissionCode\<close> the rolled-up list is canonical: it does
  not depend on the order of the range over the map, it is sorted without duplicates, and no
  code of it covers another.\<close>

lemma rollup_antichain:
  assumes "range_order codes order" and "list_all IsValidPermissionCode codes"
    and "a \<in> rollup_set permIndex order (present_codes codes)"
    and "b \<in> rollup_set permIndex order (present_codes codes)" and "covers a b"
  shows "a = b"
proof (rule ccontr)
  assume "a \<noteq> b"
  let ?P = "present_codes codes" and ?R = "rollup_reps permIndex (present_codes codes)"
  note imp = impliedBy_iff [OF perm_index.empty_notin_reps]
  from assms(3,4) have a: "a \<in> ?R \<or> a \<in> ?P \<and> \<not> impliedBy a ?R"
    and b: "b \<in> ?R \<or> b \<in> ?P \<and> \<not> impliedBy b ?R"
    by (auto simp: rollup_set_order_free [OF assms(1,2)] Let_def)
  have uncovered: "\<not> (isModule permIndex a \<or> isEntity permIndex a)" if "a \<in> ?P" "\<not> impliedBy a ?R"
    using perm_index.held_key_represented [of ?P a] permIndex_module_nonempty that by auto
  from b show False
  proof
    assume "b \<in> ?R"
    then show False
    proof (cases rule: perm_index.rep_cases)
      case (module es)
      with \<open>covers a b\<close> \<open>a \<noteq> b\<close> show False
        using index_module(1) [OF permIndex_laws] flat_coversD by blast
    next
      case (entity ls)
      from perm_index.entity_of_module [OF entity(1)] obtain m es where
        m: "map_of (moduleEntities permIndex) m = Some es" "b \<in> set es" "flat m" "child_of m b"
        by blast
      with \<open>covers a b\<close> \<open>a \<noteq> b\<close> have am: "a = m"
        by (blast dest: child_of_coversD flat_coversD)
      with m(1) uncovered a have "a \<in> ?R" by (auto simp: isModule_def has_key_def)
      moreover have "a \<notin> completeEntities permIndex ?P"
        using perm_index.entity_not_flat m(3) am
        by (auto simp: perm_index.completeEntities_iff isEntity_def has_key_def)
      moreover have "b \<notin> completeModules permIndex ces" for ces
        using m(4) index_module(1) [OF permIndex_laws]
        by (auto simp: perm_index.completeModules_iff dest: child_of_not_flat)
      moreover have "map_get (entityModule permIndex) b '''' = a"
        using index_module(3) [OF permIndex_laws m(1,2)] am by (simp add: map_get_def)
      ultimately show False
        using \<open>b \<in> ?R\<close> by (auto simp: rollup_reps_def Let_def)
    qed
  next
    assume b: "b \<in> ?P \<and> \<not> impliedBy b ?R"
    with a \<open>covers a b\<close> have a': "a \<in> ?P" "\<not> impliedBy a ?R"
      by (auto simp: imp)
    have "isModule permIndex a \<or> isEntity permIndex a"
      using assms(2,5) b \<open>a \<noteq> b\<close>
      by (intro valid_covers_key [of b]) (auto simp: present_codes_def list_all_iff)
    with uncovered a' show False by blast
  qed
qed

theorem RollupPermissions_canonical:
  assumes "list_all IsValidPermissionCode codes"
    and "range_order codes order" and "range_order codes order'"
  shows "RollupPermissions order codes = RollupPermissions order' codes
    \<and> sorted (RollupPermissions order codes) \<and> distinct (RollupPermissions order codes)
    \<and> (\<forall>a\<in>set (RollupPermissions order codes). \<forall>b\<in>set (RollupPermissions order codes). covers a b \<longrightarrow> a = b)"
  using rollup_antichain [OF assms(2,1)]
    rollup_set_order_free [OF assms(2,1)] rollup_set_order_free [OF assms(3,1)]
  by (auto simp: set_RollupPermissions) (simp_all add: RollupPermissions_def)

lemma RollupPermissions_canonical_witness:
  "RollupPermissions [''teams'', ''calls_play'', ''teams.crews.view''] [''teams'', ''teams.crews.view'', ''calls_play'']
   = RollupPermissions [''teams.crews.view'', ''calls_play'', ''teams''] [''teams'', ''teams.crews.view'', ''calls_play'']"
proof -
  have "list_all IsValidPermissionCode [''teams'', ''teams.crews.view'', ''calls_play'']"
    by (simp add: IsValidPermissionCode_def buildValidPermissionCodes_def PermissionCatalog_def
        perm_entry_def entry_codes_def leaf_code_def CustomPermissionCatalog_def)
  then show ?thesis
    by (rule RollupPermissions_canonical [THEN conjunct1]) (auto simp: range_order_def present_codes_def)
qed

text \<open>Without that hypothesis the result does depend on the order: on two unregistered
  codes, one of which covers the other, roll-up yields one code or two codes depending on
  which key the range over the map visits first.\<close>

theorem RollupPermissions_order_dependent:
  "RollupPermissions [''zz'', ''zz.q''] [''zz'', ''zz.q''] = [''zz'']
   \<and> RollupPermissions [''zz.q'', ''zz''] [''zz'', ''zz.q''] = [''zz'', ''zz.q'']
   \<and> range_order [''zz'', ''zz.q''] [''zz'', ''zz.q''] \<and> range_order [''zz'', ''zz.q''] [''zz.q'', ''zz'']"
proof -
  let ?P = "{''zz'', ''zz.q''}"
  have P: "present_codes [''zz'', ''zz.q''] = ?P" by (auto simp: present_codes_def)
  have fresh: "list_all (\<lambda>e. take 2 (pe_code e) \<noteq> ''zz'') PermissionCatalog"
    by (simp add: PermissionCatalog_def perm_entry_def)
  have zz: "take 2 e \<noteq> ''zz''" if "map_of (entityLeaves permIndex) e = Some ls" for e ls
  proof -
    from perm_index.entity_of_module [OF that] obtain m es where
      m: "map_of (moduleEntities permIndex) m = Some es" "e \<in> set es" by blast
    then have "e \<in> set (map_get (moduleEntities permIndex) m [])" by (simp add: map_get_def)
    with perm_index.not_empty(1) [OF m(1)] have "e \<in> pe_code ` set PermissionCatalog"
      by (auto simp: permIndex_def buildCatalogIndex_def fold_index_entry_modules) (simp add: map_get_def)
    with fresh show ?thesis by (auto simp: list_all_iff)
  qed
  have zzl: "take 2 l = take 2 e"
    if el: "map_of (entityLeaves permIndex) e = Some ls" and l: "l \<in> set ls" for e l ls
  proof -
    obtain m where "flat m" "child_of m e" using perm_index.entity_of_module [OF el] by blast
    then have "2 \<le> length e"
      by (auto elim!: child_ofE simp: leaf_code_def flat_def Suc_le_eq)
    with index_leaves(2) [OF permIndex_laws el l] show ?thesis
      by (auto elim!: child_ofE simp: leaf_code_def)
  qed
  have "\<not> impliedBy l ?P" if l: "map_of (entityLeaves permIndex) e = Some ls" "l \<in> set ls" for e l ls
  proof
    assume "impliedBy l ?P"
    then obtain a where "a \<in> ?P" "covers a l" using impliedBy_iff [of ?P l] by auto
    then have "take 2 l = ''zz''" by (auto simp: covers_def)
    with zz [OF l(1)] zzl [OF l] show False by simp
  qed
  then have "x \<notin> completeEntities permIndex ?P" for x
    unfolding perm_index.completeEntities_iff by (metis list.set_intros(1) neq_Nil_conv)
  then have "completeEntities permIndex ?P = {}" by blast
  moreover from this have "completeModules permIndex (completeEntities permIndex ?P) = {}"
    by (auto simp: perm_index.completeModules_iff)
  ultimately have "rollup_reps permIndex ?P = {}"
    by (simp add: rollup_reps_def Let_def)
  then show ?thesis
    by (simp add: RollupPermissions_def P rollup_set_def add_uncovered_def impliedBy_def sortedKeys_def
        numeral_eq_Suc range_order_def insert_commute)
qed

text \<open>C3. \<open>ExpandPermissions\<close> computes exactly the catalog actions a grant set allows: a leaf
  code is in the expanded list if and only if \<open>HasPermission\<close> grants it, so set algebra on
  expanded lists agrees with the run-time check.\<close>

theorem ExpandPermissions_grants:
  assumes "catalog_leaf l"
  shows "l \<in> set (ExpandPermissions codes) \<longleftrightarrow> HasPermission codes l"
  using catalog_leaf_index_leaf [OF assms]
  unfolding set_ExpandPermissions leaf_covered_present [OF catalog_leaf_index_leaf [OF assms]]
  by (rule perm_index.expand_leaf_iff)

lemma ExpandPermissions_grants_witness:
  "''teams.crews.edit'' \<in> set (ExpandPermissions [''mail_view'', ''teams''])"
proof -
  have "catalog_leaf ''teams.crews.edit''"
    by (simp add: catalog_leaf_def entity_entries_def PermissionCatalog_def perm_entry_def leaf_code_def)
  from ExpandPermissions_grants [OF this] show ?thesis
    by (simp add: HasPermission_iff covers_def)
qed

text \<open>Round trip: on valid codes, expanding a rolled-up list gives what expanding the
  original list gives, so roll-up loses no information at leaf granularity and keeps every
  flat custom code.\<close>

lemma expand_custom_iff:
  assumes "IsCustomPermissionCode c"
  shows "c \<in> set (ExpandPermissions codes) \<longleftrightarrow> c \<in> set codes"
proof -
  have "c \<noteq> ''''" using custom_codes_flat [OF assms] by (simp add: flat_def)
  with perm_index.expand_other_iff [OF custom_not_key(3) [OF assms], of codes]
    custom_not_key(1,2) [OF assms]
  show ?thesis unfolding set_ExpandPermissions by (auto simp: present_codes_def simp del: set_concat)
qed

lemma rollup_sub_valid:
  assumes "range_order codes order" and "x \<in> set (RollupPermissions order codes)"
  shows "isModule permIndex x \<or> isEntity permIndex x \<or> x \<in> set codes"
proof -
  from assms(2) have "x \<in> rollup_reps permIndex (present_codes codes) \<or> x \<in> present_codes codes"
    using fold_add_uncovered_sup [of order] assms(1)
    by (auto simp: set_RollupPermissions rollup_set_def range_order_def)
  then show ?thesis
    by (auto elim!: perm_index.rep_cases simp: isModule_def isEntity_def has_key_def present_codes_def)
qed

theorem ExpandPermissions_RollupPermissions:
  assumes "list_all IsValidPermissionCode codes" and "range_order codes order"
  shows "ExpandPermissions (RollupPermissions order codes) = ExpandPermissions codes"
proof -
  let ?R = "RollupPermissions order codes"
  have order: "set order = present_codes codes"
    using assms(2) by (simp add: range_order_def)
  have "x \<in> set (ExpandPermissions ?R) \<longleftrightarrow> x \<in> set (ExpandPermissions codes)" for x
  proof (cases "perm_index.index_leaf x")
    case True
    then obtain e ls where e: "map_of (entityLeaves permIndex) e = Some ls" "x \<in> set ls"
      by (auto simp: perm_index.index_leaf_def)
    have "present_codes ?R = rollup_set permIndex order (present_codes codes)"
      using perm_index.empty_notin_rollup [of order "present_codes codes"] order
      by (auto simp: present_codes_def [of ?R] set_RollupPermissions)
    then show ?thesis
      unfolding set_ExpandPermissions perm_index.expand_leaf_iff [OF True]
      by (simp add: perm_index.rollup_leaf_iff [OF present_nonempty order e])
  next
    case False
    show ?thesis
    proof (cases "IsCustomPermissionCode x")
      case True
      then have flat: "flat x" by (rule custom_codes_flat)
      have "x \<in> set ?R \<longleftrightarrow> HasPermission ?R x"
        using flat perm_index.empty_notin_rollup [of order "present_codes codes"] order
          has_permission.flat_code_exact [of ?R x]
        by (simp add: flat_def set_RollupPermissions)
      also have "\<dots> \<longleftrightarrow> x \<in> set codes"
      proof
        assume "HasPermission ?R x"
        with calculation have "x \<in> set ?R" by simp
        with rollup_sub_valid [OF assms(2)] custom_not_key(1,2) [OF True]
        show "x \<in> set codes" by blast
      next
        assume "x \<in> set codes"
        with flat order perm_index.empty_notin_rollup [of order]
          fold_add_uncovered_covers [OF perm_index.empty_notin_reps, of order x]
        show "HasPermission ?R x"
          unfolding HasPermission_rollup [OF assms(2) flat [unfolded flat_def, THEN conjunct1]]
          by (simp add: rollup_set_def present_codes_def flat_def)
      qed
      finally show ?thesis by (simp add: expand_custom_iff [OF True])
    next
      case not_custom: False
      have "x \<notin> set (ExpandPermissions cs)"
        if "\<And>c. c \<in> set cs \<Longrightarrow> isModule permIndex c \<or> isEntity permIndex c \<or> c \<in> set codes" for cs
        unfolding set_ExpandPermissions perm_index.expand_other_iff [OF False]
        using that assms(1) not_custom False
        by (auto simp: present_codes_def list_all_iff elim!: valid_code_cases)
      with rollup_sub_valid [OF assms(2)] show ?thesis by blast
    qed
  qed
  then have "set (ExpandPermissions ?R) = set (ExpandPermissions codes)" by blast
  then show ?thesis
    unfolding ExpandPermissions_def by (simp del: set_concat)
qed

lemma ExpandPermissions_RollupPermissions_witness:
  "ExpandPermissions (RollupPermissions [''calls_play'', ''teams.crews.view''] [''teams.crews.view'', ''calls_play''])
   = ExpandPermissions [''teams.crews.view'', ''calls_play'']"
proof -
  have "list_all IsValidPermissionCode [''teams.crews.view'', ''calls_play'']"
    by (simp add: IsValidPermissionCode_def buildValidPermissionCodes_def PermissionCatalog_def
        perm_entry_def entry_codes_def leaf_code_def CustomPermissionCatalog_def)
  then show ?thesis
    by (rule ExpandPermissions_RollupPermissions) (auto simp: range_order_def present_codes_def)
qed

text \<open>C4. \<open>CompactHierarchy\<close> keeps the meaning of a permission list for every non-empty code
  (given that no code of it is the empty string), and what it returns is sorted, without
  duplicates, and without a code that another one covers.\<close>

lemma set_CompactHierarchy:
  "set (CompactHierarchy perms) =
     {p \<in> present_codes perms. \<not> (\<exists>a\<in>present_codes perms. a \<noteq> p \<and> covers a p)}"
  by (auto simp: CompactHierarchy_def Let_def hasAncestorIn_iff present_codes_def)

lemma shortest_cover:
  assumes "finite S" and "a \<in> S" and "covers a c"
  shows "\<exists>b\<in>S. covers b c \<and> \<not> (\<exists>x\<in>S. x \<noteq> b \<and> covers x b)"
  using assms(2,3)
proof (induction "length a" arbitrary: a rule: less_induct)
  case less
  show ?case
  proof (cases "\<exists>x\<in>S. x \<noteq> a \<and> covers x a")
    case True
    then obtain x where x: "x \<in> S" "x \<noteq> a" "covers x a" by blast
    with less covers_length [OF x(3)] covers_trans [OF x(3)] show ?thesis by blast
  next
    case False
    with less.prems show ?thesis by blast
  qed
qed

theorem CompactHierarchy_correct:
  assumes "'''' \<notin> set perms"
  shows "(HasPermission (CompactHierarchy perms) c \<longleftrightarrow> HasPermission perms c)
    \<and> sorted (CompactHierarchy perms) \<and> distinct (CompactHierarchy perms)
    \<and> (\<forall>a\<in>set (CompactHierarchy perms). \<forall>b\<in>set (CompactHierarchy perms). covers a b \<longrightarrow> a = b)"
proof (intro conjI)
  have P: "present_codes perms = set perms"
    using assms by (auto simp: present_codes_def)
  show "HasPermission (CompactHierarchy perms) c \<longleftrightarrow> HasPermission perms c"
    using shortest_cover [of "set perms" _ c]
    by (auto simp: HasPermission_iff set_CompactHierarchy P)
  show "sorted (CompactHierarchy perms)" "distinct (CompactHierarchy perms)"
    by (simp_all add: CompactHierarchy_def Let_def)
  show "\<forall>a\<in>set (CompactHierarchy perms). \<forall>b\<in>set (CompactHierarchy perms). covers a b \<longrightarrow> a = b"
    by (auto simp: set_CompactHierarchy)
qed

lemma CompactHierarchy_correct_witness:
  "HasPermission (CompactHierarchy [''a.b'', ''a'', ''c.d'']) ''a.b.x''
   \<and> \<not> HasPermission (CompactHierarchy [''a.b'', ''a'', ''c.d'']) ''c''"
proof -
  have "HasPermission [''a.b'', ''a'', ''c.d''] ''a.b.x''" "\<not> HasPermission [''a.b'', ''a'', ''c.d''] ''c''"
    by (auto simp: HasPermission_iff covers_def)
  moreover have "'''' \<notin> set [''a.b'', ''a'', ''c.d'']" by simp
  ultimately show ?thesis
    using CompactHierarchy_correct [THEN conjunct1] by blast
qed

text \<open>A flat custom permission is never implied: whatever modules, entities and leaves a
  caller holds (as long as no stored code is empty), \<open>HasPermission\<close> grants a custom code
  exactly if that very code is held. In particular the module baseline every role is seeded
  with grants none of them.\<close>

theorem custom_permission_exact:
  assumes "IsCustomPermissionCode c" and "'''' \<notin> set perms"
  shows "(HasPermission perms c \<longleftrightarrow> c \<in> set perms) \<and> \<not> HasPermission ModulePermissionCodes c"
proof -
  have flat: "flat c" using assms(1) by (rule custom_codes_flat)
  then have exact: "HasPermission ps c \<longleftrightarrow> c \<in> set ps" if "'''' \<notin> set ps" for ps
    using has_permission.flat_code_exact [of ps c] that by (simp add: flat_def)
  have "c \<notin> set ModulePermissionCodes" "'''' \<notin> set ModulePermissionCodes"
    using custom_codes_outside assms(1) PermissionCatalog_wf
    by (auto simp: ModulePermissionCodes_def list_all_iff IsCustomPermissionCode_def list_ex_iff
        wf_entry_def flat_def)
  with exact assms(2) show ?thesis by blast
qed

lemma custom_permission_exact_witness:
  "\<not> HasPermission [''shipments'', ''calls_view''] ''calls_play'' \<and> \<not> HasPermission ModulePermissionCodes ''calls_play''"
  using custom_permission_exact [of "''calls_play''" "[''shipments'', ''calls_view'']"]
  by (simp add: IsCustomPermissionCode_def CustomPermissionCatalog_def)

end
