(* ===== verification/Roles.thy ===== *)
theory Roles
  imports Permissions
begin

text \<open>
  User roles and the office hierarchy (\<open>src/enums/user_roles.go\<close>), and the permissions each
  role is seeded with at signup (\<open>DefaultRolePermissions\<close> in
  \<open>src/enums/user_permissions.go\<close>). A \<open>UserRoleEnum\<close> is a Go string type, so a role is the
  string; \<open>int32\<close> levels are \<open>int\<close> (no arithmetic is done on them).
\<close>

type_synonym user_role = string

definition UserRoles :: "user_role list" where
  "UserRoles = [''super_admin'', ''admin'', ''manager'', ''accounting'', ''safety'', ''fleet'', ''hr'',
     ''auditor'', ''dispatcher'', ''track_and_trace'', ''driver'', ''customer'', ''other'',
     ''broker_admin'', ''broker_user'']"

definition BrokerRoles :: "user_role list" where
  "BrokerRoles = [''broker_admin'', ''broker_user'']"

definition IsBrokerRole :: "string \<Rightarrow> bool" where
  "IsBrokerRole name = list_ex (\<lambda>r. r = name) BrokerRoles"

definition HasBrokerRole :: "string list \<Rightarrow> bool" where
  "HasBrokerRole names = list_ex IsBrokerRole names"

text \<open>\<open>String()\<close> lists every constant with its own text, and anything else is ''unknown''.\<close>

definition UserRole_String :: "user_role \<Rightarrow> string" where
  "UserRole_String s = (if s \<in> set UserRoles then s else ''unknown'')"

definition UserRole_IsValid :: "user_role \<Rightarrow> bool" where
  "UserRole_IsValid s \<longleftrightarrow> s \<in> set UserRoles"

definition UserRoleHierarchy :: "(user_role \<times> int) list" where
  "UserRoleHierarchy = [(''super_admin'', 0), (''admin'', 1), (''manager'', 2), (''accounting'', 3),
     (''hr'', 3), (''fleet'', 3), (''safety'', 3), (''auditor'', 3), (''dispatcher'', 3),
     (''track_and_trace'', 3), (''driver'', 4), (''other'', 4)]"

definition MaxInt32 :: int where
  "MaxInt32 = 2147483647"

text \<open>The loop of \<open>EffectiveHierarchy\<close> with its running minimum \<open>best\<close>.\<close>

fun effective_loop :: "int \<Rightarrow> string list \<Rightarrow> int" where
  "effective_loop best [] = best"
| "effective_loop best (name # roles) =
     (case map_of UserRoleHierarchy name of
        Some h \<Rightarrow> effective_loop (if h < best then h else best) roles
      | None \<Rightarrow> effective_loop best roles)"

definition EffectiveHierarchy :: "string list \<Rightarrow> int" where
  "EffectiveHierarchy roles = effective_loop MaxInt32 roles"

definition withExtra :: "string list \<Rightarrow> string list" where
  "withExtra extra = ModulePermissionCodes @ extra"

text \<open>The literal map, and then the entry derived from the dispatcher's.\<close>

definition base_role_permissions :: "(user_role \<times> string list) list" where
  "base_role_permissions = [
     (''admin'', withExtra [''trip_financials_edit'', ''trip_reassign_committed'', ''file_delete_any'',
        ''reports_run'', ''reports_manage'', ''calls_view'', ''calls_play'']),
     (''manager'', withExtra [''trip_reassign_committed'', ''file_delete_any'', ''calls_view'', ''calls_play'']),
     (''accounting'', withExtra [''trip_financials_edit'', ''reports_run'', ''reports_manage'']),
     (''fleet'', withExtra []), (''safety'', withExtra []), (''hr'', withExtra []),
     (''auditor'', withExtra []),
     (''dispatcher'', withExtra [''calls_view'', ''calls_play'']),
     (''driver'', withExtra []), (''other'', withExtra [])]"

definition DefaultRolePermissions :: "(user_role \<times> string list) list" where
  "DefaultRolePermissions =
     AList.update ''track_and_trace'' ([] @ map_get base_role_permissions ''dispatcher'' []) base_role_permissions"

subsection \<open>Properties\<close>

lemma effective_loop_le: "effective_loop best roles \<le> best"
proof (induction roles arbitrary: best)
  case (Cons r roles)
  show ?case
  proof (cases "map_of UserRoleHierarchy r")
    case (Some h)
    with Cons.IH [of "if h < best then h else best"] show ?thesis by (auto split: if_splits)
  qed (simp add: Cons.IH)
qed simp

lemma effective_loop_spec:
  "(\<forall>r\<in>set roles. \<forall>h. map_of UserRoleHierarchy r = Some h \<longrightarrow> effective_loop best roles \<le> h)
   \<and> (effective_loop best roles = best
      \<or> (\<exists>r\<in>set roles. map_of UserRoleHierarchy r = Some (effective_loop best roles)))"
proof (induction roles arbitrary: best)
  case Nil
  then show ?case by simp
next
  case (Cons r roles)
  show ?case
  proof (cases "map_of UserRoleHierarchy r")
    case None
    with Cons.IH [of best] show ?thesis by auto
  next
    case (Some h)
    with Cons.IH [of "if h < best then h else best"]
      effective_loop_le [of "if h < best then h else best" roles]
    show ?thesis by (auto split: if_splits)
  qed
qed

lemma hierarchy_small: "map_of UserRoleHierarchy r = Some h \<Longrightarrow> 0 \<le> h \<and> h \<le> 4"
  by (auto simp: UserRoleHierarchy_def split: if_splits)

lemma broker_no_level: "IsBrokerRole r \<Longrightarrow> map_of UserRoleHierarchy r = None"
proof -
  assume "IsBrokerRole r"
  then have "r = ''broker_admin'' \<or> r = ''broker_user''"
    unfolding IsBrokerRole_def BrokerRoles_def list_ex_iff list.set by blast
  then show ?thesis
  proof
    assume "r = ''broker_admin''"
    then show ?thesis by (simp add: UserRoleHierarchy_def)
  next
    assume "r = ''broker_user''"
    then show ?thesis by (simp add: UserRoleHierarchy_def)
  qed
qed

text \<open>\<open>EffectiveHierarchy\<close> is the minimum level of the known roles among the given names:
  it is at most every known level and it is one of them, and it is \<open>math.MaxInt32\<close> ("no
  authority") exactly when no name is on the office ladder. So a broker role, a customer role or
  an unknown name never lends authority, and adding names never takes authority away.\<close>

theorem EffectiveHierarchy_minimum:
  "(\<forall>r\<in>set roles. \<forall>h. map_of UserRoleHierarchy r = Some h \<longrightarrow> EffectiveHierarchy roles \<le> h)
   \<and> (EffectiveHierarchy roles = MaxInt32 \<longleftrightarrow> (\<forall>r\<in>set roles. map_of UserRoleHierarchy r = None))
   \<and> (EffectiveHierarchy roles \<noteq> MaxInt32 \<longrightarrow>
        (\<exists>r\<in>set roles. map_of UserRoleHierarchy r = Some (EffectiveHierarchy roles)))
   \<and> (list_all IsBrokerRole roles \<longrightarrow> EffectiveHierarchy roles = MaxInt32)"
proof -
  note le = effective_loop_spec [of roles MaxInt32, folded EffectiveHierarchy_def, THEN conjunct1]
  note attained = effective_loop_spec [of roles MaxInt32, folded EffectiveHierarchy_def, THEN conjunct2]
  have none: "EffectiveHierarchy roles = MaxInt32 \<longleftrightarrow> (\<forall>r\<in>set roles. map_of UserRoleHierarchy r = None)"
  proof
    assume top: "EffectiveHierarchy roles = MaxInt32"
    show "\<forall>r\<in>set roles. map_of UserRoleHierarchy r = None"
    proof
      fix r assume r: "r \<in> set roles"
      show "map_of UserRoleHierarchy r = None"
      proof (cases "map_of UserRoleHierarchy r")
        case (Some h)
        with le r have "EffectiveHierarchy roles \<le> h" by blast
        with hierarchy_small [OF Some] top show ?thesis by (simp add: MaxInt32_def)
      qed
    qed
  next
    assume "\<forall>r\<in>set roles. map_of UserRoleHierarchy r = None"
    then have "\<not> (\<exists>r\<in>set roles. map_of UserRoleHierarchy r = Some (EffectiveHierarchy roles))" by simp
    with attained show "EffectiveHierarchy roles = MaxInt32" by blast
  qed
  with broker_no_level have "list_all IsBrokerRole roles \<longrightarrow> EffectiveHierarchy roles = MaxInt32"
    by (simp add: list_all_iff)
  moreover have "EffectiveHierarchy roles \<noteq> MaxInt32 \<longrightarrow>
      (\<exists>r\<in>set roles. map_of UserRoleHierarchy r = Some (EffectiveHierarchy roles))"
    using attained by blast
  ultimately show ?thesis using le none by simp
qed

lemma EffectiveHierarchy_minimum_witness:
  "EffectiveHierarchy [''broker_admin'', ''driver'', ''manager''] = 2
   \<and> EffectiveHierarchy [''broker_user''] = MaxInt32"
  using EffectiveHierarchy_minimum [of "[''broker_user'']"]
  by (simp add: EffectiveHierarchy_def UserRoleHierarchy_def MaxInt32_def IsBrokerRole_def BrokerRoles_def)

text \<open>The governed flat permissions go, at signup, to exactly these roles: listening to call
  recordings and the call log to admin, manager, dispatcher and track-and-trace; trip financials
  to admin and accounting; the report builder to admin and accounting; deleting any file and
  reassigning a committed trip to admin and manager; mail and the approval of trip financials to
  nobody. A role outside the table (super admin, customer, broker) is seeded with nothing.\<close>

definition default_holders :: "string \<Rightarrow> user_role list" where
  "default_holders c =
     (if c \<in> {''calls_view'', ''calls_play''} then [''admin'', ''manager'', ''dispatcher'', ''track_and_trace'']
      else if c \<in> {''trip_financials_edit'', ''reports_run'', ''reports_manage''} then [''admin'', ''accounting'']
      else if c \<in> {''file_delete_any'', ''trip_reassign_committed''} then [''admin'', ''manager'']
      else [])"

lemma HasPermission_withExtra:
  assumes "IsCustomPermissionCode c" and "'''' \<notin> set extra"
  shows "HasPermission (withExtra extra) c \<longleftrightarrow> c \<in> set extra"
proof -
  have flat: "flat c" using assms(1) by (rule custom_codes_flat)
  have "'''' \<notin> set ModulePermissionCodes"
    using PermissionCatalog_wf by (auto simp: ModulePermissionCodes_def list_all_iff wf_entry_def flat_def)
  moreover have "c \<notin> set ModulePermissionCodes"
    using custom_codes_outside assms(1)
    by (auto simp: ModulePermissionCodes_def list_all_iff IsCustomPermissionCode_def list_ex_iff)
  ultimately show ?thesis
    using has_permission.flat_code_exact [of "withExtra extra" c] assms(2) flat
    by (simp add: withExtra_def flat_def)
qed

definition default_extras :: "user_role \<Rightarrow> string list" where
  "default_extras r =
     (if r = ''admin'' then [''trip_financials_edit'', ''trip_reassign_committed'', ''file_delete_any'',
        ''reports_run'', ''reports_manage'', ''calls_view'', ''calls_play'']
      else if r = ''manager'' then [''trip_reassign_committed'', ''file_delete_any'', ''calls_view'', ''calls_play'']
      else if r = ''accounting'' then [''trip_financials_edit'', ''reports_run'', ''reports_manage'']
      else if r = ''dispatcher'' \<or> r = ''track_and_trace'' then [''calls_view'', ''calls_play'']
      else [])"

lemma default_extras_nonempty: "'''' \<notin> set (default_extras r)"
  by (simp add: default_extras_def)

lemma DefaultRolePermissions_extras:
  "map_get DefaultRolePermissions r [] = withExtra (default_extras r)
   \<or> map_get DefaultRolePermissions r [] = [] \<and> default_extras r = []"
  by (simp add: DefaultRolePermissions_def base_role_permissions_def map_get_def default_extras_def)

lemma default_extras_holders:
  "c \<in> set CustomPermissionCodes \<Longrightarrow> c \<in> set (default_extras r) \<longleftrightarrow> r \<in> set (default_holders c)"
  unfolding CustomPermissionCodes_def CustomPermissionCatalog_def list.map custom_permission_entry.simps
    set_simps insert_iff
  by (elim disjE; simp add: default_extras_def default_holders_def)

theorem default_custom_permissions:
  assumes "IsCustomPermissionCode c"
  shows "HasPermission (map_get DefaultRolePermissions r []) c \<longleftrightarrow> r \<in> set (default_holders c)"
proof -
  have nil: "\<not> HasPermission [] c" by (simp add: HasPermission_iff)
  have custom: "c \<in> set CustomPermissionCodes"
    using assms by (auto simp: IsCustomPermissionCode_def CustomPermissionCodes_def list_ex_iff)
  show ?thesis
    using DefaultRolePermissions_extras [of r] nil default_extras_holders [OF custom, of r]
      HasPermission_withExtra [OF assms default_extras_nonempty] by auto
qed

lemma default_custom_permissions_witness:
  "HasPermission (map_get DefaultRolePermissions ''track_and_trace'' []) ''calls_play''
   \<and> \<not> HasPermission (map_get DefaultRolePermissions ''driver'' []) ''calls_play''
   \<and> \<not> HasPermission (map_get DefaultRolePermissions ''dispatcher'' []) ''trip_financials_edit''"
proof -
  have "IsCustomPermissionCode ''calls_play''" "IsCustomPermissionCode ''trip_financials_edit''"
    by (simp_all add: IsCustomPermissionCode_def CustomPermissionCatalog_def)
  from this [THEN default_custom_permissions] show ?thesis by (simp add: default_holders_def)
qed

end
