(* ===== verification/Request_Context.thy ===== *)
theory Request_Context
  imports Roles
begin

text \<open>
  The request-scoped identity every other package reads: \<open>Actor\<close> and \<open>UserClaims\<close>
  (\<open>src/consts/auth_consts.go\<close>) and the entries the authentication middleware stashes on a
  \<open>context.Context\<close>.

  A \<open>uuid.UUID\<close> is represented by its canonical text (what \<open>String()\<close> prints): the code only
  compares identifiers, prints them, and tests for \<open>uuid.Nil\<close>. A Go pointer is an \<open>option\<close>. A
  context entry is an \<open>option\<close> (absent or stored), so the actor entry is
  \<open>actor option option\<close>: \<open>None\<close> when no actor was stored, \<open>Some None\<close> when the stored
  \<open>*Actor\<close> is a typed nil, as \<open>ClearAuthContext\<close> leaves it.
\<close>

type_synonym uuid = string

definition uuid_Nil :: uuid where
  "uuid_Nil = ''00000000-0000-0000-0000-000000000000''"

text \<open>The documented shape of the canonical text, which is what key separation relies on.\<close>

definition uuid_text :: "string \<Rightarrow> bool" where
  "uuid_text s \<longleftrightarrow> length s = 36 \<and> CHR '':'' \<notin> set s"

record user_claims =
  UserID :: uuid
  CompanyID :: "uuid option"
  ActorType :: string
  cl_Roles :: "string list"
  Resource :: string
  ResourceID :: uuid
  RolesMap :: "string set"
  IssuedAt :: "int option"

record actor =
  actor_ID :: uuid
  Claims :: "user_claims option"
  Token :: "string option"
  IsSystem :: bool
  IsGuest :: bool

definition has_role :: "user_role \<Rightarrow> actor \<Rightarrow> bool" where
  "has_role r a = (case Claims a of None \<Rightarrow> False | Some c \<Rightarrow> list_ex (\<lambda>role. role = UserRole_String r) (cl_Roles c))"

definition IsSuperAdmin :: "actor \<Rightarrow> bool" where
  "IsSuperAdmin = has_role ''super_admin''"

definition IsAdmin :: "actor \<Rightarrow> bool" where
  "IsAdmin = has_role ''admin''"

definition GetCompanyID :: "actor \<Rightarrow> uuid option" where
  "GetCompanyID a = (case Claims a of None \<Rightarrow> None | Some c \<Rightarrow> CompanyID c)"

definition PopulateMaps :: "user_claims \<Rightarrow> user_claims" where
  "PopulateMaps c = c\<lparr>RolesMap := set (cl_Roles c)\<rparr>"

definition zero_claims :: user_claims where
  "zero_claims = \<lparr>UserID = uuid_Nil, CompanyID = None, ActorType = '''', cl_Roles = [], Resource = '''',
     ResourceID = uuid_Nil, RolesMap = {}, IssuedAt = None\<rparr>"

definition system_actor :: actor where
  "system_actor = \<lparr>actor_ID = uuid_Nil, Claims = None, Token = None, IsSystem = True, IsGuest = False\<rparr>"

subsection \<open>The context\<close>

record go_context =
  ActorCtx :: "actor option option"
  PermsCtx :: "string list option"
  PermsUnresolvedCtx :: "bool option"

definition background :: go_context where
  "background = \<lparr>ActorCtx = None, PermsCtx = None, PermsUnresolvedCtx = None\<rparr>"

definition WithActor :: "go_context \<Rightarrow> actor option \<Rightarrow> go_context" where
  "WithActor ctx a = ctx\<lparr>ActorCtx := Some a\<rparr>"

definition WithSystemActor :: "go_context \<Rightarrow> go_context" where
  "WithSystemActor ctx = ctx\<lparr>ActorCtx := Some (Some system_actor)\<rparr>"

definition WithUserPerms :: "go_context \<Rightarrow> string list \<Rightarrow> go_context" where
  "WithUserPerms ctx perms = ctx\<lparr>PermsCtx := Some perms\<rparr>"

text \<open>\<open>GetActor\<close>: \<open>None\<close> is the error; the pointer it returns may itself be nil.\<close>

definition GetActor :: "go_context \<Rightarrow> actor option option" where
  "GetActor ctx = ActorCtx ctx"

definition MustGetActor :: "go_context \<Rightarrow> actor option" where
  "MustGetActor ctx = (case ActorCtx ctx of None \<Rightarrow> Some system_actor | Some a \<Rightarrow> a)"

definition GetUserPermsFromContext :: "go_context \<Rightarrow> string list" where
  "GetUserPermsFromContext ctx = (case PermsCtx ctx of Some perms \<Rightarrow> perms | None \<Rightarrow> [])"

definition PermsUnresolved :: "go_context \<Rightarrow> bool" where
  "PermsUnresolved ctx = (case PermsUnresolvedCtx ctx of Some v \<Rightarrow> v | None \<Rightarrow> False)"

text \<open>\<open>actor, _ := ctx.Value(ActorCtx).(*Actor)\<close>: the pointer, nil when the assertion fails.\<close>

definition ctx_actor :: "go_context \<Rightarrow> actor option" where
  "ctx_actor ctx = (case ActorCtx ctx of Some a \<Rightarrow> a | None \<Rightarrow> None)"

definition ctx_company :: "go_context \<Rightarrow> uuid option" where
  "ctx_company ctx = (case ctx_actor ctx of None \<Rightarrow> None | Some a \<Rightarrow> GetCompanyID a)"

named_theorems ctx_simps

lemmas [ctx_simps] = GetActor_def MustGetActor_def GetUserPermsFromContext_def PermsUnresolved_def
  ctx_actor_def ctx_company_def GetCompanyID_def WithActor_def WithSystemActor_def WithUserPerms_def

lemma UserRole_String_known [simp]:
  "UserRole_String ''super_admin'' = ''super_admin''" "UserRole_String ''admin'' = ''admin''"
  by (simp_all add: UserRole_String_def UserRoles_def)

lemma IsSuperAdmin_iff:
  "IsSuperAdmin a \<longleftrightarrow> (\<exists>c. Claims a = Some c \<and> ''super_admin'' \<in> set (cl_Roles c))"
  by (auto simp: IsSuperAdmin_def has_role_def list_ex_iff split: option.splits)

lemma IsAdmin_iff:
  "IsAdmin a \<longleftrightarrow> (\<exists>c. Claims a = Some c \<and> ''admin'' \<in> set (cl_Roles c))"
  by (auto simp: IsAdmin_def has_role_def list_ex_iff split: option.splits)

lemma system_actor_powerless [simp]:
  "\<not> IsSuperAdmin system_actor" "\<not> IsAdmin system_actor" "GetCompanyID system_actor = None"
  by (simp_all add: IsSuperAdmin_iff IsAdmin_iff system_actor_def GetCompanyID_def)

end
