(* ===== verification/Cache.thy ===== *)
theory Cache
  imports Request_Context
begin

text \<open>
  The tenant-scoped cache (\<open>src/cache/cache.go\<close>).

  Redis is a service the code calls, so its client is a parameter of the model, the record
  \<open>redis_client\<close>: the commands are functions on an abstract server state, and \<open>r_data\<close> is the
  ghost view that says what the server stores. \<open>redis_laws\<close> states the documented behaviour of
  GET, SET, SET NX and DEL, each of which may also fail: a failed GET says nothing, a failed SET
  or DEL may or may not have happened. The stored JSON documents are the type \<open>'v\<close>; marshalling and
  unmarshalling are a pair of functions given to the typed operations.
\<close>

datatype 'v reply = Reply 'v | RedisNil | RedisErr

record ('s, 'v) redis_client =
  r_data :: "'s \<Rightarrow> string \<Rightarrow> 'v option"
  r_get :: "string \<Rightarrow> 's \<Rightarrow> 'v reply"
  r_set :: "string \<Rightarrow> 'v \<Rightarrow> int \<Rightarrow> 's \<Rightarrow> bool \<times> 's"
  r_setnx :: "string \<Rightarrow> 'v \<Rightarrow> int \<Rightarrow> 's \<Rightarrow> bool option \<times> 's"
  r_del :: "string list \<Rightarrow> 's \<Rightarrow> bool \<times> 's"

definition get_law :: "('s, 'v) redis_client \<Rightarrow> bool" where
  "get_law R \<longleftrightarrow> (\<forall>k s. r_get R k s = RedisErr
     \<or> r_get R k s = (case r_data R s k of Some v \<Rightarrow> Reply v | None \<Rightarrow> RedisNil))"

definition set_law :: "('s, 'v) redis_client \<Rightarrow> bool" where
  "set_law R \<longleftrightarrow> (\<forall>k v ttl s. let (ok, s') = r_set R k v ttl s in
     r_data R s' = (r_data R s)(k \<mapsto> v) \<or> \<not> ok \<and> r_data R s' = r_data R s)"

definition setnx_law :: "('s, 'v) redis_client \<Rightarrow> bool" where
  "setnx_law R \<longleftrightarrow> (\<forall>k v ttl s. let (r, s') = r_setnx R k v ttl s in
     r_data R s' = r_data R s \<and> r \<noteq> Some True
     \<or> r_data R s k = None \<and> r_data R s' = (r_data R s)(k \<mapsto> v) \<and> r \<noteq> Some False)"

definition del_law :: "('s, 'v) redis_client \<Rightarrow> bool" where
  "del_law R \<longleftrightarrow> (\<forall>ks s. let (ok, s') = r_del R ks s in
     r_data R s' = (r_data R s) |` (- set ks) \<or> \<not> ok \<and> r_data R s' = r_data R s)"

definition redis_laws :: "('s, 'v) redis_client \<Rightarrow> bool" where
  "redis_laws R \<longleftrightarrow> get_law R \<and> set_law R \<and> setnx_law R \<and> del_law R"

text \<open>A concrete client whose server state is the stored map, to run examples on.\<close>

definition map_redis :: "(string \<Rightarrow> 'v option, 'v) redis_client" where
  "map_redis = \<lparr>r_data = \<lambda>s. s,
     r_get = \<lambda>k s. case s k of Some v \<Rightarrow> Reply v | None \<Rightarrow> RedisNil,
     r_set = \<lambda>k v ttl s. (True, s(k \<mapsto> v)),
     r_setnx = \<lambda>k v ttl s. if s k = None then (Some True, s(k \<mapsto> v)) else (Some False, s),
     r_del = \<lambda>ks s. (True, s |` (- set ks))\<rparr>"

lemma map_redis_laws: "redis_laws map_redis"
  by (auto simp: redis_laws_def get_law_def set_law_def setnx_law_def del_law_def map_redis_def)

subsection \<open>Keys\<close>

definition ScopedKey :: "string \<Rightarrow> string \<Rightarrow> string" where
  "ScopedKey companyID key = (if companyID = '''' then key else companyID @ '':'' @ key)"

definition buildKey :: "go_context \<Rightarrow> string \<Rightarrow> string" where
  "buildKey ctx key =
     (case ctx_actor ctx of
        None \<Rightarrow> key
      | Some actor \<Rightarrow> (case GetCompanyID actor of None \<Rightarrow> key | Some companyID \<Rightarrow> ScopedKey companyID key))"

subsection \<open>Operations\<close>

text \<open>An operation returns its error (if any) and the server state. \<open>enc\<close> is \<open>json.Marshal\<close>
  (\<open>None\<close> when the value cannot be marshalled), \<open>dec\<close> is \<open>json.Unmarshal\<close>.\<close>

datatype cache_err = MarshalErr | UnmarshalErr | KeyNil | StoreErr

definition cache_SetGlobal :: "('s, 'v) redis_client \<Rightarrow> ('a \<Rightarrow> 'v option) \<Rightarrow> string \<Rightarrow> 'a \<Rightarrow> int \<Rightarrow> 's
    \<Rightarrow> cache_err option \<times> 's" where
  "cache_SetGlobal R enc key value ttl s =
     (case enc value of
        None \<Rightarrow> (Some MarshalErr, s)
      | Some data \<Rightarrow> (case r_set R key data ttl s of (ok, s') \<Rightarrow> (if ok then None else Some StoreErr, s')))"

definition cache_GetGlobal :: "('s, 'v) redis_client \<Rightarrow> ('v \<Rightarrow> 'a option) \<Rightarrow> string \<Rightarrow> 's \<Rightarrow> cache_err + 'a" where
  "cache_GetGlobal R dec key s =
     (case r_get R key s of
        RedisErr \<Rightarrow> Inl StoreErr
      | RedisNil \<Rightarrow> Inl KeyNil
      | Reply data \<Rightarrow> (case dec data of Some v \<Rightarrow> Inr v | None \<Rightarrow> Inl UnmarshalErr))"

definition cache_DeleteGlobal :: "('s, 'v) redis_client \<Rightarrow> string \<Rightarrow> 's \<Rightarrow> cache_err option \<times> 's" where
  "cache_DeleteGlobal R key s = (case r_del R [key] s of (ok, s') \<Rightarrow> (if ok then None else Some StoreErr, s'))"

definition cache_DeleteKeysGlobal :: "('s, 'v) redis_client \<Rightarrow> string list \<Rightarrow> 's \<Rightarrow> cache_err option \<times> 's" where
  "cache_DeleteKeysGlobal R keys s =
     (if keys = [] then (None, s)
      else (case r_del R keys s of (ok, s') \<Rightarrow> (if ok then None else Some StoreErr, s')))"

definition cache_Set :: "('s, 'v) redis_client \<Rightarrow> ('a \<Rightarrow> 'v option) \<Rightarrow> go_context \<Rightarrow> string \<Rightarrow> 'a \<Rightarrow> int \<Rightarrow> 's
    \<Rightarrow> cache_err option \<times> 's" where
  "cache_Set R enc ctx key value ttl s = cache_SetGlobal R enc (buildKey ctx key) value ttl s"

definition cache_SetNX :: "('s, 'v) redis_client \<Rightarrow> ('a \<Rightarrow> 'v option) \<Rightarrow> go_context \<Rightarrow> string \<Rightarrow> 'a \<Rightarrow> int \<Rightarrow> 's
    \<Rightarrow> (cache_err + bool) \<times> 's" where
  "cache_SetNX R enc ctx key value ttl s =
     (case enc value of
        None \<Rightarrow> (Inl MarshalErr, s)
      | Some data \<Rightarrow>
          (case r_setnx R (buildKey ctx key) data ttl s of
             (None, s') \<Rightarrow> (Inl StoreErr, s') | (Some b, s') \<Rightarrow> (Inr b, s')))"

definition cache_Get :: "('s, 'v) redis_client \<Rightarrow> ('v \<Rightarrow> 'a option) \<Rightarrow> go_context \<Rightarrow> string \<Rightarrow> 's \<Rightarrow> cache_err + 'a" where
  "cache_Get R dec ctx key s = cache_GetGlobal R dec (buildKey ctx key) s"

definition cache_Delete :: "('s, 'v) redis_client \<Rightarrow> go_context \<Rightarrow> string \<Rightarrow> 's \<Rightarrow> cache_err option \<times> 's" where
  "cache_Delete R ctx key s = cache_DeleteGlobal R (buildKey ctx key) s"

text \<open>\<open>exists\<close> is the command EXISTS: how many of the keys there are, or a failure.\<close>

definition cache_Exists :: "(string \<Rightarrow> 's \<Rightarrow> nat option) \<Rightarrow> go_context \<Rightarrow> string \<Rightarrow> 's \<Rightarrow> cache_err + bool" where
  "cache_Exists exists ctx key s = (case exists (buildKey ctx key) s of None \<Rightarrow> Inl StoreErr | Some n \<Rightarrow> Inr (n > 0))"

text \<open>\<open>DeleteKeys\<close> rewrites the caller's slice in place; the rewritten slice is returned.\<close>

definition cache_DeleteKeys :: "('s, 'v) redis_client \<Rightarrow> go_context \<Rightarrow> string list \<Rightarrow> 's
    \<Rightarrow> cache_err option \<times> string list \<times> 's" where
  "cache_DeleteKeys R ctx keys s =
     (let keys' = map (buildKey ctx) keys in
      case cache_DeleteKeysGlobal R keys' s of (err, s') \<Rightarrow> (err, keys', s'))"

lemma exists_iff_get:
  assumes "get_law R" "\<And>k. exists k s = Some (if r_data R s k = None then 0 else 1)"
  shows "cache_Exists exists ctx key s = Inr (r_data R s (buildKey ctx key) \<noteq> None)"
    and "cache_Get R Some ctx key s = Inr v \<Longrightarrow> cache_Exists exists ctx key s = Inr True"
proof -
  show ex: "cache_Exists exists ctx key s = Inr (r_data R s (buildKey ctx key) \<noteq> None)"
    by (simp add: cache_Exists_def assms(2))
  assume "cache_Get R Some ctx key s = Inr v"
  then have "r_get R (buildKey ctx key) s = Reply v"
    by (auto simp: cache_Get_def cache_GetGlobal_def split: reply.splits)
  then have "r_data R s (buildKey ctx key) = Some v"
    using assms(1) unfolding get_law_def by (metis option.exhaust option.simps(4,5) reply.distinct(1,3) reply.inject)
  with ex show "cache_Exists exists ctx key s = Inr True" by simp
qed

subsection \<open>Key separation\<close>

lemma not_uuid_text_Nil [simp]: "\<not> uuid_text ''''"
  by (simp add: uuid_text_def)

lemma buildKey_company:
  "ctx_company ctx = Some c \<Longrightarrow> uuid_text c \<Longrightarrow> buildKey ctx k = c @ '':'' @ k"
  by (auto simp: buildKey_def ctx_company_def ScopedKey_def split: option.splits)

lemma buildKey_no_company: "ctx_company ctx = None \<Longrightarrow> buildKey ctx k = k"
  by (auto simp: buildKey_def ctx_company_def split: option.splits)

lemma buildKey_ScopedKey:
  "buildKey ctx k = ScopedKey (case ctx_company ctx of Some c \<Rightarrow> c | None \<Rightarrow> '''') k"
  by (auto simp: buildKey_def ctx_company_def ScopedKey_def split: option.splits)

lemma company_keys_apart:
  assumes "uuid_text c" and "uuid_text d" and "c @ '':'' @ k = d @ '':'' @ l"
  shows "c = d \<and> k = l"
  using assms by (simp add: uuid_text_def)

text \<open>A namespace of keys is a way of naming entries such that two owners never share one. The
  scoped keys of the companies are such a namespace, and what follows for the stored entries is
  proved once for all of them.\<close>

locale key_space =
  fixes owner :: "'o \<Rightarrow> bool" and key_of :: "'o \<Rightarrow> string \<Rightarrow> string"
  assumes key_apart: "owner c \<Longrightarrow> owner d \<Longrightarrow> key_of c k = key_of d l \<Longrightarrow> c = d \<and> k = l"
begin

lemma other_key: "owner c \<Longrightarrow> owner d \<Longrightarrow> c \<noteq> d \<Longrightarrow> key_of d l \<notin> range (key_of c)"
  using key_apart by blast

end

interpretation company_keys: key_space uuid_text ScopedKey
proof
  fix c d k l
  assume "uuid_text c" "uuid_text d" "ScopedKey c k = ScopedKey d l"
  then show "c = d \<and> k = l"
    using company_keys_apart [of c d k l] by (auto simp: ScopedKey_def split: if_splits)
qed

subsection \<open>What an operation leaves alone\<close>

lemma r_set_other: "redis_laws R \<Longrightarrow> k \<noteq> k' \<Longrightarrow> r_data R (snd (r_set R k' v ttl s)) k = r_data R s k"
  unfolding redis_laws_def set_law_def Let_def case_prod_unfold by (metis fun_upd_other)

lemma r_setnx_other: "redis_laws R \<Longrightarrow> k \<noteq> k' \<Longrightarrow> r_data R (snd (r_setnx R k' v ttl s)) k = r_data R s k"
  unfolding redis_laws_def setnx_law_def Let_def case_prod_unfold by (metis fun_upd_other)

lemma r_del_other: "redis_laws R \<Longrightarrow> k \<notin> set ks \<Longrightarrow> r_data R (snd (r_del R ks s)) k = r_data R s k"
  unfolding redis_laws_def del_law_def Let_def case_prod_unfold by (metis ComplI restrict_in)

lemma untouched_SetGlobal:
  "redis_laws R \<Longrightarrow> k \<noteq> k' \<Longrightarrow> r_data R (snd (cache_SetGlobal R enc k' v ttl s)) k = r_data R s k"
  by (cases "enc v") (simp_all add: cache_SetGlobal_def case_prod_unfold r_set_other)

lemma untouched_SetNX:
  "redis_laws R \<Longrightarrow> k \<noteq> buildKey ctx k' \<Longrightarrow> r_data R (snd (cache_SetNX R enc ctx k' v ttl s)) k = r_data R s k"
  using r_setnx_other [of R k "buildKey ctx k'"]
  by (auto simp: cache_SetNX_def split: option.splits prod.splits) (metis snd_conv)+

lemma untouched_DeleteKeysGlobal:
  "redis_laws R \<Longrightarrow> k \<notin> set ks \<Longrightarrow> r_data R (snd (cache_DeleteKeysGlobal R ks s)) k = r_data R s k"
  by (simp add: cache_DeleteKeysGlobal_def case_prod_unfold r_del_other)

lemma cache_DeleteGlobal_eq: "cache_DeleteGlobal R k s = cache_DeleteKeysGlobal R [k] s"
  by (simp add: cache_DeleteGlobal_def cache_DeleteKeysGlobal_def)

text \<open>C5. Tenant isolation of the cache: whatever key an actor of one company sets or deletes, the
  entry any actor of another company reads under any key of its own stays what it was. The only
  fact used about company ids is the shape of a printed UUID.\<close>

theorem cache_tenant_isolation:
  assumes "redis_laws R"
    and "ctx_company ctx1 = Some c" and "uuid_text c"
    and "ctx_company ctx2 = Some d" and "uuid_text d" and "c \<noteq> d"
  shows "r_data R (snd (cache_Set R enc ctx1 k v ttl s)) (buildKey ctx2 l) = r_data R s (buildKey ctx2 l)
    \<and> r_data R (snd (cache_SetNX R enc ctx1 k v ttl s)) (buildKey ctx2 l) = r_data R s (buildKey ctx2 l)
    \<and> r_data R (snd (cache_Delete R ctx1 k s)) (buildKey ctx2 l) = r_data R s (buildKey ctx2 l)
    \<and> r_data R (snd (snd (cache_DeleteKeys R ctx1 ks s))) (buildKey ctx2 l) = r_data R s (buildKey ctx2 l)"
proof -
  have key1: "buildKey ctx1 = ScopedKey c" and key2: "buildKey ctx2 = ScopedKey d"
    using assms by (simp_all add: buildKey_ScopedKey fun_eq_iff)
  have other: "ScopedKey d l \<notin> range (ScopedKey c)"
    using company_keys.other_key assms by blast
  then have apart: "ScopedKey d l \<noteq> ScopedKey c x" for x by blast
  show ?thesis
    using apart
    by (simp add: key1 key2 cache_Set_def cache_Delete_def cache_DeleteKeys_def cache_DeleteGlobal_eq
        case_prod_unfold Let_def image_iff untouched_SetGlobal [OF assms(1)] untouched_SetNX [OF assms(1)]
        untouched_DeleteKeysGlobal [OF assms(1)])
qed

lemma cache_tenant_isolation_witness:
  "let c = ''11111111-1111-4111-8111-111111111111''; d = ''22222222-2222-4222-8222-222222222222'';
       actor = (\<lambda>c. system_actor\<lparr>Claims := Some (zero_claims\<lparr>CompanyID := Some c\<rparr>)\<rparr>);
       ctx = (\<lambda>c. WithActor background (Some (actor c)))
   in snd (cache_Set map_redis Some (ctx c) ''k'' ''v'' 60 Map.empty) (buildKey (ctx d) ''k'') = None
      \<and> snd (cache_Set map_redis Some (ctx c) ''k'' ''v'' 60 Map.empty) (buildKey (ctx c) ''k'') = Some ''v''"
proof -
  let ?c = "''11111111-1111-4111-8111-111111111111''" and ?d = "''22222222-2222-4222-8222-222222222222''"
  let ?ctx = "\<lambda>c. WithActor background (Some (system_actor\<lparr>Claims := Some (zero_claims\<lparr>CompanyID := Some c\<rparr>)\<rparr>))"
  have ids: "uuid_text ?c" "uuid_text ?d" "?c \<noteq> ?d" by (simp_all add: uuid_text_def)
  have company: "ctx_company (?ctx x) = Some x" for x by (simp add: ctx_simps)
  have "snd (cache_Set map_redis Some (?ctx ?c) ''k'' ''v'' 60 Map.empty) (buildKey (?ctx ?d) ''k'') = None"
    using cache_tenant_isolation [OF map_redis_laws company ids(1) company ids(2) ids(3),
        of Some "''k''" "''v''" 60 Map.empty "''k''" "[]"]
    by (simp add: map_redis_def)
  then show ?thesis
    by (simp add: Let_def cache_Set_def cache_SetGlobal_def map_redis_def)
qed

end
