(* ===== verification/Auth.thy ===== *)
theory Auth
  imports Cache
begin

text \<open>
  Permission resolution and access-token revocation (\<open>src/auth\<close>): the cached permission resolver,
  its invalidation, the HTTP client's retry loop, the per-user revocation cutoff, and the
  \<open>IdentifyUserPerms\<close> middleware that runs both for a request.

  The auth service behind \<open>AuthServiceClient\<close> is a function argument that answers a permission list
  or fails (\<open>None\<close>). A \<open>time.Time\<close> is its nanoseconds since the epoch, an \<open>int\<close>; a Go nil slice and
  the empty slice are both \<open>[]\<close>.
\<close>

subsection \<open>The resolver\<close>

type_synonym auth_service = "go_context \<Rightarrow> uuid \<Rightarrow> string list option"

definition second :: int where
  "second = 1000000000"

definition PermsCacheTTL :: int where
  "PermsCacheTTL = 5 * 60 * second"

definition cacheKey :: "uuid \<Rightarrow> string" where
  "cacheKey userID = ''user_perms:'' @ userID"

text \<open>What the function given to \<open>singleflight\<close> does: look again, ask the service, cache a non-empty
  answer. A failed write to the cache is only logged.\<close>

definition resolve_and_cache :: "('s, 'v) redis_client \<Rightarrow> (string list \<Rightarrow> 'v option) \<Rightarrow> ('v \<Rightarrow> string list option)
    \<Rightarrow> auth_service \<Rightarrow> go_context \<Rightarrow> uuid \<Rightarrow> 's \<Rightarrow> string list option \<times> 's" where
  "resolve_and_cache R enc dec svc ctx userID s =
     (case cache_GetGlobal R dec (cacheKey userID) s of
        Inr again \<Rightarrow> (Some again, s)
      | Inl _ \<Rightarrow>
          (case svc ctx userID of
             None \<Rightarrow> (None, s)
           | Some perms \<Rightarrow>
               if 0 < length perms
               then (Some perms, snd (cache_SetGlobal R enc (cacheKey userID) perms PermsCacheTTL s))
               else (Some perms, s)))"

text \<open>\<open>GetUserPerms\<close>: \<open>None\<close> is the error (returned with an empty list). \<open>flight\<close> is what
  \<open>singleflight\<close> does with the call: \<open>None\<close> when no call for the user is in flight, so the function
  runs; \<open>Some r\<close> when it joins a call already running, whose result \<open>r\<close> it gets.\<close>

definition GetUserPerms :: "('s, 'v) redis_client \<Rightarrow> (string list \<Rightarrow> 'v option) \<Rightarrow> ('v \<Rightarrow> string list option)
    \<Rightarrow> auth_service \<Rightarrow> string list option option \<Rightarrow> go_context \<Rightarrow> uuid \<Rightarrow> 's \<Rightarrow> string list option \<times> 's" where
  "GetUserPerms R enc dec svc flight ctx userID s =
     (case cache_GetGlobal R dec (cacheKey userID) s of
        Inr cached \<Rightarrow> (Some cached, s)
      | Inl _ \<Rightarrow>
          (case flight of
             Some shared \<Rightarrow> (shared, s)
           | None \<Rightarrow> resolve_and_cache R enc dec svc ctx userID s))"

definition PermCacheKeys :: "go_context \<Rightarrow> uuid list \<Rightarrow> string list" where
  "PermCacheKeys ctx userIDs =
     (let legacyPrefix = (case ctx_company ctx of Some cid \<Rightarrow> cid | None \<Rightarrow> '''') in
      concat (map (\<lambda>uid. let key = cacheKey uid in
        key # (if legacyPrefix \<noteq> '''' then [ScopedKey legacyPrefix key] else [])) userIDs))"

definition InvalidateUsersPerms :: "('s, 'v) redis_client \<Rightarrow> go_context \<Rightarrow> uuid list \<Rightarrow> 's
    \<Rightarrow> cache_err option \<times> 's" where
  "InvalidateUsersPerms R ctx userIDs s = cache_DeleteKeysGlobal R (PermCacheKeys ctx userIDs) s"

definition InvalidateUserPerms :: "('s, 'v) redis_client \<Rightarrow> go_context \<Rightarrow> uuid \<Rightarrow> 's
    \<Rightarrow> cache_err option \<times> 's" where
  "InvalidateUserPerms R ctx userID s = InvalidateUsersPerms R ctx [userID] s"

subsection \<open>The HTTP client\<close>

datatype resolve_err = NoActor | MissingJWT | WrongUser | Canceled | DeadlineExceeded
  | HttpStatus int | NetworkErr | DecodeErr | BuildErr

definition isRetryablePermsError :: "resolve_err \<Rightarrow> bool" where
  "isRetryablePermsError e =
     (case e of
        Canceled \<Rightarrow> False
      | DeadlineExceeded \<Rightarrow> False
      | HttpStatus st \<Rightarrow> 500 \<le> st \<and> st \<le> 599
      | _ \<Rightarrow> True)"

text \<open>\<open>do_resolve n\<close> is what the n-th HTTP exchange gives; \<open>cancelled n\<close> the context's error, if it is
  done by the time the wait before attempt \<open>n\<close> ends. The loop also returns how many exchanges it
  made.\<close>

fun resolve_loop :: "(nat \<Rightarrow> resolve_err + string list) \<Rightarrow> (nat \<Rightarrow> resolve_err option) \<Rightarrow> nat \<Rightarrow> nat
    \<Rightarrow> resolve_err \<Rightarrow> (resolve_err + string list) \<times> nat" where
  "resolve_loop do_resolve cancelled attempt 0 lastErr = (Inl lastErr, attempt)"
| "resolve_loop do_resolve cancelled attempt (Suc left) lastErr =
     (case (if 0 < attempt then cancelled attempt else None) of
        Some e \<Rightarrow> (Inl e, attempt)
      | None \<Rightarrow>
          (case do_resolve attempt of
             Inr perms \<Rightarrow> (Inr perms, Suc attempt)
           | Inl err \<Rightarrow>
               if \<not> isRetryablePermsError err then (Inl err, Suc attempt)
               else resolve_loop do_resolve cancelled (Suc attempt) left err))"

definition ResolveUserPerms :: "(string \<Rightarrow> nat \<Rightarrow> resolve_err + string list) \<Rightarrow> (nat \<Rightarrow> resolve_err option)
    \<Rightarrow> go_context \<Rightarrow> uuid \<Rightarrow> (resolve_err + string list) \<times> nat" where
  "ResolveUserPerms do_resolve cancelled ctx userID =
     (case GetActor ctx of
        None \<Rightarrow> (Inl NoActor, 0)
      | Some None \<Rightarrow> (Inl NoActor, 0)
      | Some (Some actor) \<Rightarrow>
          (case Token actor of
             None \<Rightarrow> (Inl MissingJWT, 0)
           | Some tok \<Rightarrow>
               if tok = '''' then (Inl MissingJWT, 0)
               else if actor_ID actor \<noteq> userID then (Inl WrongUser, 0)
               else resolve_loop (do_resolve tok) cancelled 0 3 NoActor))"

subsection \<open>Token revocation\<close>

definition TokensValidAfterTTL :: int where
  "TokensValidAfterTTL = 8 * 24 * 3600 * second"

definition RevocationClockSkew :: int where
  "RevocationClockSkew = 5 * second"

definition tokensValidAfterKey :: "uuid \<Rightarrow> string" where
  "tokensValidAfterKey userID = ''tokens_valid_after:'' @ userID"

text \<open>\<open>Unix()\<close> is the second the instant falls in; \<open>time.Unix(n, 0)\<close> is the start of second \<open>n\<close>.\<close>

definition RevokeUserTokens :: "('s, 'v) redis_client \<Rightarrow> (int \<Rightarrow> 'v option) \<Rightarrow> int \<Rightarrow> uuid \<Rightarrow> 's
    \<Rightarrow> cache_err option \<times> 's" where
  "RevokeUserTokens R enc now userID s =
     cache_SetGlobal R enc (tokensValidAfterKey userID) (now div second) TokensValidAfterTTL s"

definition IssuedBeforeCutoff :: "int \<Rightarrow> int \<Rightarrow> bool" where
  "IssuedBeforeCutoff issuedAt cutoff \<longleftrightarrow> issuedAt < cutoff - RevocationClockSkew"

definition TokenRevoked :: "('s, 'v) redis_client \<Rightarrow> ('v \<Rightarrow> int option) \<Rightarrow> uuid \<Rightarrow> int \<Rightarrow> 's
    \<Rightarrow> bool \<times> cache_err option" where
  "TokenRevoked R dec userID issuedAt s =
     (case cache_GetGlobal R dec (tokensValidAfterKey userID) s of
        Inl KeyNil \<Rightarrow> (False, None)
      | Inl e \<Rightarrow> (False, Some e)
      | Inr cutoffUnix \<Rightarrow> (IssuedBeforeCutoff issuedAt (cutoffUnix * second), None))"

subsection \<open>The middleware\<close>

text \<open>What a gin handler does with the request: pass it on with its (possibly extended) context,
  abort it with a status and an error code, or panic.\<close>

datatype 'c outcome = Next 'c | Abort int string | Panic

definition CodeTokenRevoked :: string where
  "CodeTokenRevoked = ''token_revoked''"

definition hasAnyPrefix :: "string \<Rightarrow> string list \<Rightarrow> bool" where
  "hasAnyPrefix path ps = list_ex (\<lambda>p. p \<noteq> '''' \<and> prefix p path) ps"

definition IdentifyUserPerms :: "('s, 'v) redis_client \<Rightarrow> (string list \<Rightarrow> 'v option) \<Rightarrow> ('v \<Rightarrow> string list option)
    \<Rightarrow> ('v \<Rightarrow> int option) \<Rightarrow> auth_service \<Rightarrow> string list option option \<Rightarrow> string list \<Rightarrow> string
    \<Rightarrow> go_context \<Rightarrow> 's \<Rightarrow> go_context outcome \<times> 's" where
  "IdentifyUserPerms R enc dec dec_int svc flight exempt fullPath ctx s =
     (case GetActor ctx of
        None \<Rightarrow> (Next ctx, s)
      | Some None \<Rightarrow> (Next ctx, s)
      | Some (Some actor) \<Rightarrow>
          if IsGuest actor \<or> IsSystem actor then (Next ctx, s)
          else if (case Claims actor of None \<Rightarrow> False | Some c \<Rightarrow>
                     (case IssuedAt c of None \<Rightarrow> False | Some iat \<Rightarrow>
                        \<not> hasAnyPrefix fullPath exempt \<and> fst (TokenRevoked R dec_int (actor_ID actor) iat s)))
          then (Abort 401 CodeTokenRevoked, s)
          else
            (case GetUserPerms R enc dec svc flight ctx (actor_ID actor) s of
               (None, s') \<Rightarrow> (Next (ctx\<lparr>PermsUnresolvedCtx := Some True, PermsCtx := Some []\<rparr>), s')
             | (Some perms, s') \<Rightarrow> (Next (ctx\<lparr>PermsCtx := Some perms\<rparr>), s')))"

subsection \<open>The permission cache is coherent\<close>

lemma cacheKey_inj [simp]: "cacheKey u = cacheKey v \<longleftrightarrow> u = v"
  by (simp add: cacheKey_def)

lemma tokensValidAfterKey_inj [simp]: "tokensValidAfterKey u = tokensValidAfterKey v \<longleftrightarrow> u = v"
  by (simp add: tokensValidAfterKey_def)

lemma perm_key_not_token_key [simp]:
  "cacheKey u \<noteq> tokensValidAfterKey v" "tokensValidAfterKey v \<noteq> cacheKey u"
  by (simp_all add: cacheKey_def tokensValidAfterKey_def)

lemma GetGlobal_data:
  assumes "redis_laws R" and "cache_GetGlobal R dec k s = Inr x"
  obtains d where "r_data R s k = Some d" and "dec d = Some x"
proof -
  from assms(1) have "r_get R k s = RedisErr
     \<or> r_get R k s = (case r_data R s k of Some v \<Rightarrow> Reply v | None \<Rightarrow> RedisNil)"
    by (simp add: redis_laws_def get_law_def)
  with assms(2) that show thesis
    by (auto simp: cache_GetGlobal_def split: option.splits reply.splits)
qed

lemma SetGlobal_data:
  assumes "redis_laws R"
  shows "r_data R (snd (cache_SetGlobal R enc k v ttl s)) k = r_data R s k
    \<or> (\<exists>d. enc v = Some d \<and> r_data R (snd (cache_SetGlobal R enc k v ttl s)) k = Some d)"
proof (cases "enc v")
  case (Some d)
  have "r_data R (snd (r_set R k d ttl s)) = (r_data R s)(k \<mapsto> d) \<or> r_data R (snd (r_set R k d ttl s)) = r_data R s"
    using assms by (auto simp: redis_laws_def set_law_def Let_def case_prod_unfold)
  then show ?thesis by (auto simp: cache_SetGlobal_def Some case_prod_unfold)
qed (simp add: cache_SetGlobal_def)

lemma SetGlobal_ok_data:
  assumes "redis_laws R" and "cache_SetGlobal R enc k v ttl s = (None, s')"
  obtains d where "enc v = Some d" and "r_data R s' = (r_data R s)(k \<mapsto> d)"
proof (cases "enc v")
  case (Some d)
  obtain ok t where set: "r_set R k d ttl s = (ok, t)" by (cases "r_set R k d ttl s")
  with Some assms(2) have "ok" "t = s'" by (auto simp: cache_SetGlobal_def split: if_splits)
  moreover have "let (ok, t) = r_set R k d ttl s in
      r_data R t = (r_data R s)(k \<mapsto> d) \<or> \<not> ok \<and> r_data R t = r_data R s"
    using assms(1) unfolding redis_laws_def set_law_def by blast
  ultimately have "r_data R s' = (r_data R s)(k \<mapsto> d)" by (simp add: set)
  with Some that show thesis by blast
qed (use assms(2) in \<open>simp add: cache_SetGlobal_def\<close>)

lemma DeleteKeysGlobal_data:
  assumes "redis_laws R"
  shows "r_data R (snd (cache_DeleteKeysGlobal R ks s)) k = r_data R s k
    \<or> r_data R (snd (cache_DeleteKeysGlobal R ks s)) k = None"
proof -
  have "r_data R (snd (r_del R ks s)) = (r_data R s) |` (- set ks) \<or> r_data R (snd (r_del R ks s)) = r_data R s"
    using assms by (auto simp: redis_laws_def del_law_def Let_def case_prod_unfold)
  then have "r_data R (snd (r_del R ks s)) k = r_data R s k \<or> r_data R (snd (r_del R ks s)) k = None"
    by (cases "k \<in> set ks") (auto simp: restrict_map_def)
  then show ?thesis by (simp add: cache_DeleteKeysGlobal_def case_prod_unfold)
qed

lemma DeleteKeysGlobal_ok:
  assumes "redis_laws R" and "cache_DeleteKeysGlobal R ks s = (None, s')" and "k \<in> set ks"
  shows "r_data R s' k = None"
proof -
  obtain ok t where del: "r_del R ks s = (ok, t)" by (cases "r_del R ks s")
  from assms(3) have "ks \<noteq> []" by auto
  with del assms(2) have "(if ok then None else Some StoreErr, t) = (None, s')"
    by (simp add: cache_DeleteKeysGlobal_def)
  then have "ok" "t = s'" by (simp_all split: if_splits)
  moreover have "let (ok, t) = r_del R ks s in
      r_data R t = (r_data R s) |` (- set ks) \<or> \<not> ok \<and> r_data R t = r_data R s"
    using assms(1) unfolding redis_laws_def del_law_def by blast
  ultimately have "r_data R s' = (r_data R s) |` (- set ks)" by (simp add: del)
  with assms(3) show ?thesis by (simp add: restrict_map_def)
qed

lemma PermCacheKeys_canonical: "u \<in> set us \<Longrightarrow> cacheKey u \<in> set (PermCacheKeys ctx us)"
  by (auto simp: PermCacheKeys_def Let_def)

definition coherent :: "('s, 'v) redis_client \<Rightarrow> ('v \<Rightarrow> string list option) \<Rightarrow> (uuid \<Rightarrow> string list) \<Rightarrow> 's \<Rightarrow> bool" where
  "coherent R dec grants s \<longleftrightarrow>
     (\<forall>u d. r_data R s (cacheKey u) = Some d \<longrightarrow> dec d = Some (grants u))"

lemma resolve_and_cache_coherent:
  assumes R: "redis_laws R" and codec: "\<forall>p d. enc p = Some d \<longrightarrow> dec d = Some p"
    and svc: "svc ctx u = None \<or> svc ctx u = Some (grants u)" and coh: "coherent R dec grants s"
  shows "coherent R dec grants (snd (resolve_and_cache R enc dec svc ctx u s))"
proof -
  have "coherent R dec grants (snd (cache_SetGlobal R enc (cacheKey u) (grants u) PermsCacheTTL s))" (is "coherent _ _ _ ?t")
    unfolding coherent_def
  proof (intro allI impI)
    fix v d
    assume d: "r_data R ?t (cacheKey v) = Some d"
    show "dec d = Some (grants v)"
    proof (cases "v = u")
      case True
      with SetGlobal_data [OF R, of enc "cacheKey u" "grants u" PermsCacheTTL s] d coh codec show ?thesis
        by (auto simp: coherent_def)
    next
      case False
      with untouched_SetGlobal [OF R, of "cacheKey v" "cacheKey u" enc "grants u" PermsCacheTTL s] d coh
      show ?thesis by (simp add: coherent_def)
    qed
  qed
  then show ?thesis
    using svc coh by (auto simp: resolve_and_cache_def split: sum.splits option.splits)
qed

lemma GetUserPerms_coherent:
  assumes "redis_laws R" and "\<forall>p d. enc p = Some d \<longrightarrow> dec d = Some p"
    and "svc ctx u = None \<or> svc ctx u = Some (grants u)" and "coherent R dec grants s"
  shows "coherent R dec grants (snd (GetUserPerms R enc dec svc None ctx u s))"
  using resolve_and_cache_coherent [where R = R and enc = enc and dec = dec and svc = svc and ctx = ctx
      and u = u and grants = grants and s = s] assms
  by (auto simp: GetUserPerms_def split: sum.splits)

lemma cached_read_coherent:
  assumes "redis_laws R" and "coherent R dec grants s" and "cache_GetGlobal R dec (cacheKey u) s = Inr p"
  shows "p = grants u"
  using GetGlobal_data [OF assms(1,3)] assms(2) unfolding coherent_def by (metis option.inject)

lemma GetUserPerms_answer:
  assumes "redis_laws R" and "svc ctx u = None \<or> svc ctx u = Some (grants u)" and "coherent R dec grants s"
    and "fst (GetUserPerms R enc dec svc None ctx u s) = Some p"
  shows "p = grants u"
  using assms(2,4) cached_read_coherent [OF assms(1,3), of u]
  by (auto simp: GetUserPerms_def resolve_and_cache_def split: sum.splits option.splits if_splits)

text \<open>The life of the cache: reads for any user while the auth service answers from its current
  grants or fails, and permission writes, each a change of the grants of some users followed by a
  successful invalidation of those users by any actor.\<close>

inductive perm_run :: "('s, 'v) redis_client \<Rightarrow> (string list \<Rightarrow> 'v option) \<Rightarrow> ('v \<Rightarrow> string list option)
    \<Rightarrow> (uuid \<Rightarrow> string list) \<Rightarrow> 's \<Rightarrow> bool" for R enc dec where
  start: "\<forall>u. r_data R s (cacheKey u) = None \<Longrightarrow> perm_run R enc dec grants s"
| read: "perm_run R enc dec grants s \<Longrightarrow> svc ctx u = None \<or> svc ctx u = Some (grants u) \<Longrightarrow>
     perm_run R enc dec grants (snd (GetUserPerms R enc dec svc None ctx u s))"
| edit: "perm_run R enc dec grants s \<Longrightarrow> \<forall>u. u \<notin> set us \<longrightarrow> grants' u = grants u \<Longrightarrow>
     InvalidateUsersPerms R ctx us s = (None, s') \<Longrightarrow> perm_run R enc dec grants' s'"

lemma write_coherent:
  assumes R: "redis_laws R" and coh: "coherent R dec grants s"
    and same: "\<forall>u. u \<notin> set us \<longrightarrow> grants' u = grants u" and inv: "InvalidateUsersPerms R ctx us s = (None, s')"
  shows "coherent R dec grants' s'"
  unfolding coherent_def
proof (intro allI impI)
  fix u d
  assume d: "r_data R s' (cacheKey u) = Some d"
  from inv have del: "cache_DeleteKeysGlobal R (PermCacheKeys ctx us) s = (None, s')"
    by (simp add: InvalidateUsersPerms_def)
  have "u \<notin> set us"
    using DeleteKeysGlobal_ok [OF R del PermCacheKeys_canonical] d by fastforce
  moreover have "r_data R s (cacheKey u) = Some d"
    using DeleteKeysGlobal_data [OF R, of "PermCacheKeys ctx us" s "cacheKey u"] d by (simp add: del)
  ultimately show "dec d = Some (grants' u)" using coh same by (simp add: coherent_def)
qed

lemma perm_run_coherent:
  assumes "perm_run R enc dec grants s" and "redis_laws R" and "\<forall>p d. enc p = Some d \<longrightarrow> dec d = Some p"
  shows "coherent R dec grants s"
  using assms
proof (induction rule: perm_run.induct)
  case (start s grants)
  then show ?case by (simp add: coherent_def)
next
  case (read grants s svc ctx u)
  then show ?case
    using GetUserPerms_coherent [where R = R and enc = enc and dec = dec and svc = svc and ctx = ctx
      and u = u and grants = grants and s = s] by blast
next
  case (edit grants s us grants' ctx s')
  show ?case by (rule write_coherent [OF edit.prems(1) edit.IH [OF edit.prems] edit.hyps(2,3)])
qed



subsection \<open>Revocation\<close>

lemma TokenRevoked_marker:
  assumes "redis_laws R" and "r_data R s (tokensValidAfterKey u) = Some d" and "dec d = Some cutoff"
  shows "fst (TokenRevoked R dec u iat s) \<longleftrightarrow>
     r_get R (tokensValidAfterKey u) s \<noteq> RedisErr \<and> IssuedBeforeCutoff iat (cutoff * second)"
proof -
  from assms(1) have "r_get R (tokensValidAfterKey u) s = RedisErr
     \<or> r_get R (tokensValidAfterKey u) s = (case r_data R s (tokensValidAfterKey u) of Some v \<Rightarrow> Reply v | None \<Rightarrow> RedisNil)"
    by (simp add: redis_laws_def get_law_def)
  with assms(2,3) show ?thesis
    by (auto simp: TokenRevoked_def cache_GetGlobal_def)
qed

lemma TokenRevoked_no_marker:
  assumes "redis_laws R" and "r_data R s (tokensValidAfterKey u) = None"
  shows "\<not> fst (TokenRevoked R dec u iat s)"
proof -
  from assms(1) have "r_get R (tokensValidAfterKey u) s = RedisErr
     \<or> r_get R (tokensValidAfterKey u) s = (case r_data R s (tokensValidAfterKey u) of Some v \<Rightarrow> Reply v | None \<Rightarrow> RedisNil)"
    by (simp add: redis_laws_def get_law_def)
  with assms(2) show ?thesis
    by (auto simp: TokenRevoked_def cache_GetGlobal_def)
qed

lemma unix_floor: "(now div second) * second \<le> now" "now - second < (now div second) * second"
  by (simp_all add: second_def)

text \<open>A request the revocation gate looks at.\<close>

definition gated :: "go_context \<Rightarrow> actor \<Rightarrow> int \<Rightarrow> string list \<Rightarrow> string \<Rightarrow> bool" where
  "gated ctx a iat exempt path \<longleftrightarrow>
     ActorCtx ctx = Some (Some a) \<and> \<not> IsGuest a \<and> \<not> IsSystem a \<and> \<not> hasAnyPrefix path exempt
     \<and> (\<exists>c. Claims a = Some c \<and> IssuedAt c = Some iat)"

lemma IdentifyUserPerms_abort:
  assumes "gated ctx a iat exempt path"
  shows "(\<exists>st code. fst (IdentifyUserPerms R enc dec dec_int svc flight exempt path ctx s) = Abort st code)
    \<longleftrightarrow> fst (TokenRevoked R dec_int (actor_ID a) iat s)"
    and "fst (IdentifyUserPerms R enc dec dec_int svc flight exempt path ctx s) = Abort 401 CodeTokenRevoked
    \<longleftrightarrow> fst (TokenRevoked R dec_int (actor_ID a) iat s)"
  using assms by (auto simp: gated_def IdentifyUserPerms_def GetActor_def split: option.splits prod.splits)

text \<open>C7. A revocation takes effect on the next request: once \<open>RevokeUserTokens\<close> succeeded at time
  \<open>now\<close>, and as long as its marker is stored, a request with a token of that user issued six seconds
  or more before \<open>now\<close> is answered 401 \<open>token_revoked\<close> whenever Redis can be read; a token issued
  less than five seconds before, or later (the clock-skew allowance), is never refused; and when Redis
  cannot be read no token is refused. A user without a marker is never refused.\<close>

theorem revocation_gate:
  assumes "redis_laws R" and "\<forall>n d. enc_int n = Some d \<longrightarrow> dec_int d = Some n"
    and "RevokeUserTokens R enc_int now (actor_ID a) s = (None, s1)"
    and "r_data R s2 (tokensValidAfterKey (actor_ID a)) = r_data R s1 (tokensValidAfterKey (actor_ID a))"
    and "gated ctx a iat exempt path"
    and "gated ctx' b iat' exempt path" and "r_data R s2 (tokensValidAfterKey (actor_ID b)) = None"
  shows "(iat \<le> now - 6 * second \<and> r_get R (tokensValidAfterKey (actor_ID a)) s2 \<noteq> RedisErr \<longrightarrow>
            fst (IdentifyUserPerms R enc dec dec_int svc flight exempt path ctx s2) = Abort 401 CodeTokenRevoked)
    \<and> (now - 5 * second \<le> iat \<or> r_get R (tokensValidAfterKey (actor_ID a)) s2 = RedisErr \<longrightarrow>
            (\<forall>st code. fst (IdentifyUserPerms R enc dec dec_int svc flight exempt path ctx s2) \<noteq> Abort st code))
    \<and> (\<forall>st code. fst (IdentifyUserPerms R enc dec dec_int svc flight exempt path ctx' s2) \<noteq> Abort st code)"
proof -
  obtain d where enc: "enc_int (now div second) = Some d"
    and data: "r_data R s1 = (r_data R s)(tokensValidAfterKey (actor_ID a) \<mapsto> d)"
    using assms(3) unfolding RevokeUserTokens_def by (rule SetGlobal_ok_data [OF assms(1)])
  have revoked: "fst (TokenRevoked R dec_int (actor_ID a) iat s2) \<longleftrightarrow>
     r_get R (tokensValidAfterKey (actor_ID a)) s2 \<noteq> RedisErr
     \<and> iat < (now div second) * second - 5 * second"
    using TokenRevoked_marker [OF assms(1), of s2 "actor_ID a" d dec_int "now div second" iat] assms(2,4) enc data
    by (simp add: IssuedBeforeCutoff_def RevocationClockSkew_def)
  show ?thesis
    using IdentifyUserPerms_abort [OF assms(5), of R enc dec dec_int svc flight s2]
      IdentifyUserPerms_abort(1) [OF assms(6), of R enc dec dec_int svc flight s2]
      TokenRevoked_no_marker [OF assms(1,7), of dec_int iat'] revoked unix_floor [of now]
    by auto
qed

lemma revocation_gate_witness:
  "let c = zero_claims\<lparr>IssuedAt := Some (100 * second)\<rparr>;
       user = (\<lambda>u. \<lparr>actor_ID = u, Claims = Some c, Token = None, IsSystem = False, IsGuest = False\<rparr>);
       ctx = (\<lambda>u. WithActor background (Some (user u)));
       s = snd (RevokeUserTokens map_redis (Some \<circ> Inr) (107 * second) ''u1'' Map.empty);
       run = (\<lambda>u. fst (IdentifyUserPerms map_redis (Some \<circ> Inl) (\<lambda>d. case d of Inl p \<Rightarrow> Some p | Inr (n::int) \<Rightarrow> None)
                (\<lambda>d. case d of Inl p \<Rightarrow> None | Inr n \<Rightarrow> Some n) (\<lambda>_ _. Some []) None [] ''/graphql'' (ctx u) s))
   in run ''u1'' = Abort 401 CodeTokenRevoked \<and> (\<forall>st code. run ''u2'' \<noteq> Abort st code)"
proof -
  let ?c = "zero_claims\<lparr>IssuedAt := Some (100 * second)\<rparr>"
  let ?user = "\<lambda>u. \<lparr>actor_ID = u, Claims = Some ?c, Token = None, IsSystem = False, IsGuest = False\<rparr>"
  let ?ctx = "\<lambda>u. WithActor background (Some (?user u))"
  let ?s = "snd (RevokeUserTokens map_redis (Some \<circ> Inr) (107 * second) ''u1'' Map.empty) :: string \<Rightarrow> (string list + int) option"
  have revoke: "RevokeUserTokens map_redis (Some \<circ> Inr) (107 * second) (actor_ID (?user ''u1'')) Map.empty = (None, ?s)"
    by (simp add: RevokeUserTokens_def cache_SetGlobal_def map_redis_def)
  have gated: "gated (?ctx u) (?user u) (100 * second) [] ''/graphql''" for u
    by (simp add: gated_def WithActor_def hasAnyPrefix_def)
  have absent: "r_data map_redis ?s (tokensValidAfterKey (actor_ID (?user ''u2''))) = None"
    by (simp add: RevokeUserTokens_def cache_SetGlobal_def map_redis_def)
  have readable: "r_get map_redis k t \<noteq> RedisErr" for k and t :: "string \<Rightarrow> (string list + int) option"
    by (simp add: map_redis_def split: option.splits)
  show ?thesis
    unfolding Let_def
    using revocation_gate [where R = map_redis and enc_int = "Some \<circ> Inr" and ctx = "?ctx ''u1''" and ctx' = "?ctx ''u2''"
        and dec_int = "\<lambda>d. case d of Inl p \<Rightarrow> None | Inr n \<Rightarrow> Some n",
        OF map_redis_laws _ revoke refl gated gated absent] readable
    by (simp add: second_def)
qed

subsection \<open>The retry loop\<close>

definition retried :: "(nat \<Rightarrow> resolve_err + string list) \<Rightarrow> nat \<Rightarrow> bool" where
  "retried f i \<longleftrightarrow> (\<exists>err. f i = Inl err \<and> isRetryablePermsError err)"

lemma resolve_loop_calls:
  "n \<le> snd (resolve_loop f cancelled n left e) \<and> snd (resolve_loop f cancelled n left e) \<le> n + left"
proof (induction left arbitrary: n e)
  case (Suc left)
  have "n \<le> snd (resolve_loop f cancelled (Suc n) left err)
     \<and> snd (resolve_loop f cancelled (Suc n) left err) \<le> Suc (n + left)" for err
    using Suc.IH [of "Suc n" err] by simp
  then have "n \<le> snd (resolve_loop f cancelled (Suc n) left err)"
    "snd (resolve_loop f cancelled (Suc n) left err) \<le> Suc (n + left)" for err by simp_all
  moreover have "resolve_loop f cancelled n (Suc left) e \<in>
      range (\<lambda>r. (r, n)) \<union> range (\<lambda>r. (r, Suc n)) \<union> range (resolve_loop f cancelled (Suc n) left)"
    by (auto split: option.splits sum.splits)
  ultimately show ?case by auto
qed simp

lemma resolve_loop_retried:
  "n \<le> i \<Longrightarrow> Suc i < snd (resolve_loop f cancelled n left e) \<Longrightarrow> retried f i"
proof (induction left arbitrary: n e)
  case (Suc left)
  show ?case
  proof (cases "f n")
    case (Inl err)
    with Suc.prems have err: "isRetryablePermsError err"
      and rest: "Suc i < snd (resolve_loop f cancelled (Suc n) left err)"
      by (auto split: option.splits if_splits)
    show ?thesis
    proof (cases "i = n")
      case True
      with Inl err show ?thesis by (simp add: retried_def)
    next
      case False
      with Suc.IH [of "Suc n" err] Suc.prems(1) rest show ?thesis by simp
    qed
  qed (use Suc.prems in \<open>auto split: option.splits if_splits\<close>)
qed simp

lemma resolve_loop_answer:
  "fst (resolve_loop f cancelled n left e) = Inr p \<Longrightarrow>
     n < snd (resolve_loop f cancelled n left e) \<and> f (snd (resolve_loop f cancelled n left e) - 1) = Inr p"
proof (induction left arbitrary: n e)
  case (Suc left)
  show ?case
  proof (cases "f n")
    case (Inl err)
    with Suc.IH [of "Suc n" err] Suc.prems show ?thesis by (auto split: option.splits if_splits)
  qed (use Suc.prems in \<open>auto split: option.splits if_splits\<close>)
qed simp



end
