(* ===== verification/Guards.thy ===== *)
theory Guards
  imports Auth
begin

text \<open>
  The gates of a request: the gin middleware of \<open>src/middleware/auth_middleware.go\<close>, the GraphQL
  directives of \<open>src/client/tmsgraphql/directives.go\<close>, and the gRPC interceptors that carry an actor
  from one service to the next (\<open>src/middleware/auth_client_interceptor.go\<close>,
  \<open>auth_server_interceptor.go\<close>).

  The JWT library is a parameter \<open>verify\<close> (the claims of a token it accepts), \<open>uuid.Parse\<close> a
  parameter \<open>parse_uuid\<close>. Dereferencing a nil actor is the outcome \<open>Panic\<close>.
\<close>

subsection \<open>REST middleware\<close>

definition parseAuthToken :: "(string \<Rightarrow> user_claims option) \<Rightarrow> string \<Rightarrow> actor option" where
  "parseAuthToken verify authHeader =
     (case split_on CHR '' '' authHeader of
        [bearer, tokenString] \<Rightarrow>
          if bearer \<noteq> ''Bearer'' then None
          else (case verify tokenString of
                  None \<Rightarrow> None
                | Some claims \<Rightarrow>
                    Some \<lparr>actor_ID = UserID claims, Claims = Some (PopulateMaps claims),
                          Token = Some tokenString, IsSystem = False, IsGuest = False\<rparr>)
      | _ \<Rightarrow> None)"

text \<open>\<open>IdentifyUser\<close> without the client origin (see the rate limiter): \<open>authHeader\<close> is the empty string
  when the header is missing.\<close>

definition IdentifyUser :: "(string \<Rightarrow> user_claims option) \<Rightarrow> string \<Rightarrow> go_context \<Rightarrow> go_context outcome" where
  "IdentifyUser verify authHeader ctx =
     (if authHeader \<noteq> '''' then
        (case parseAuthToken verify authHeader of
           Some actor \<Rightarrow> Next (WithActor ctx (Some actor))
         | None \<Rightarrow> Next ctx)
      else Next ctx)"

definition RequireAuth :: "go_context \<Rightarrow> go_context outcome" where
  "RequireAuth ctx =
     (case GetActor ctx of
        None \<Rightarrow> Abort 401 ''Unauthorized''
      | Some None \<Rightarrow> Panic
      | Some (Some actor) \<Rightarrow> if IsGuest actor then Abort 401 ''Unauthorized'' else Next ctx)"

definition RequirePerms :: "string list \<Rightarrow> go_context \<Rightarrow> go_context outcome" where
  "RequirePerms perms ctx =
     (case GetActor ctx of
        None \<Rightarrow> Abort 401 ''Unauthorized''
      | Some None \<Rightarrow> Abort 401 ''Unauthorized''
      | Some (Some actor) \<Rightarrow>
          if IsGuest actor \<or> IsSuperAdmin actor then Next ctx
          else if PermsUnresolved ctx then Abort 503 ''PERMS_UNRESOLVED''
          else if list_ex (\<lambda>required. HasPermission (GetUserPermsFromContext ctx) required) perms then Next ctx
          else Abort 403 ''Forbidden: missing permission'')"

definition RequireAdmin :: "go_context \<Rightarrow> go_context outcome" where
  "RequireAdmin ctx =
     (case GetActor ctx of
        None \<Rightarrow> Abort 401 ''Unauthorized''
      | Some None \<Rightarrow> Abort 401 ''Unauthorized''
      | Some (Some actor) \<Rightarrow>
          if \<not> IsAdmin actor \<and> \<not> IsSuperAdmin actor then Abort 403 ''Admin role required'' else Next ctx)"

definition RequireSuperAdmin :: "go_context \<Rightarrow> go_context outcome" where
  "RequireSuperAdmin ctx =
     (case GetActor ctx of
        None \<Rightarrow> Abort 401 ''Unauthorized''
      | Some None \<Rightarrow> Abort 401 ''Unauthorized''
      | Some (Some actor) \<Rightarrow>
          if \<not> IsSuperAdmin actor then Abort 403 ''Super admin role required'' else Next ctx)"

definition RequireAuthOrGuest :: "go_context \<Rightarrow> go_context outcome" where
  "RequireAuthOrGuest ctx = (case GetActor ctx of None \<Rightarrow> Abort 401 ''Unauthorized'' | Some _ \<Rightarrow> Next ctx)"

definition CheckGuestResource :: "string list \<Rightarrow> go_context \<Rightarrow> go_context outcome" where
  "CheckGuestResource allowedResources ctx =
     (case ctx_actor ctx of
        None \<Rightarrow> Panic
      | Some actor \<Rightarrow>
          if \<not> IsGuest actor then Next ctx
          else if allowedResources = [] then Abort 403 ''Forbidden: guest access not allowed for this resource''
          else (case Claims actor of
                  None \<Rightarrow> Panic
                | Some c \<Rightarrow>
                    if list_ex (\<lambda>r. Resource c = r) allowedResources then Next ctx
                    else Abort 403 ''Forbidden: guest access not allowed for this resource''))"

definition ClearAuthContext :: "go_context \<Rightarrow> go_context outcome" where
  "ClearAuthContext ctx = Next (WithActor ctx None)"

subsection \<open>GraphQL directives\<close>

datatype dir_error = ErrUnauthorized | ForbiddenActorType string | MissingRole | PermsUnresolvedError
  | MissingPermission

datatype directive = RunNext | DirError dir_error | DirPanic

definition AuthDirective :: "string list \<Rightarrow> go_context \<Rightarrow> directive" where
  "AuthDirective actorTypes ctx =
     (case GetActor ctx of
        None \<Rightarrow> DirError ErrUnauthorized
      | Some None \<Rightarrow> DirPanic
      | Some (Some actor) \<Rightarrow>
          if IsGuest actor then DirError ErrUnauthorized
          else if 0 < length actorTypes then
            (case Claims actor of
               None \<Rightarrow> DirPanic
             | Some c \<Rightarrow>
                 if list_ex (\<lambda>allowed. ActorType c = allowed) actorTypes then RunNext
                 else DirError (ForbiddenActorType (ActorType c)))
          else RunNext)"

definition HasRoleDirective :: "string list \<Rightarrow> go_context \<Rightarrow> directive" where
  "HasRoleDirective roles ctx =
     (case GetActor ctx of
        None \<Rightarrow> DirError ErrUnauthorized
      | Some None \<Rightarrow> DirPanic
      | Some (Some actor) \<Rightarrow>
          (case Claims actor of
             None \<Rightarrow> DirError ErrUnauthorized
           | Some c \<Rightarrow> if list_ex (\<lambda>role. List.member (cl_Roles c) role) roles then RunNext else DirError MissingRole))"

definition HasPermDirective :: "string list \<Rightarrow> go_context \<Rightarrow> directive" where
  "HasPermDirective perms ctx =
     (case GetActor ctx of
        None \<Rightarrow> DirError ErrUnauthorized
      | Some None \<Rightarrow> DirPanic
      | Some (Some actor) \<Rightarrow>
          if IsGuest actor then RunNext
          else if IsSuperAdmin actor then RunNext
          else if PermsUnresolved ctx then DirError PermsUnresolvedError
          else if list_ex (\<lambda>required. HasPermission (GetUserPermsFromContext ctx) required) perms then RunNext
          else DirError MissingPermission)"

subsection \<open>Actors across services\<close>

text \<open>gRPC metadata is the list of appended pairs; \<open>Get\<close> lists the values of a key in order.\<close>

type_synonym metadata = "(string \<times> string) list"

definition md_get :: "metadata \<Rightarrow> string \<Rightarrow> string list" where
  "md_get md k = map snd (filter (\<lambda>p. fst p = k) md)"

text \<open>What the client interceptors (unary and streaming share the same switch) append.\<close>

definition attach_actor :: "string \<Rightarrow> go_context \<Rightarrow> metadata \<Rightarrow> metadata" where
  "attach_actor internalToken ctx md =
     (case ctx_actor ctx of
        None \<Rightarrow> md
      | Some actor \<Rightarrow>
          if Token actor \<noteq> None \<and> Token actor \<noteq> Some '''' then
            md @ [(''authorization'', ''Bearer '' @ the (Token actor))]
          else if IsSystem actor \<and> internalToken \<noteq> '''' then
            md @ [(''x-internal-token'', internalToken), (''x-actor-id'', actor_ID actor)]
               @ (case GetCompanyID actor of Some cid \<Rightarrow> [(''x-company-id'', cid)] | None \<Rightarrow> [])
          else md)"

definition parse_head :: "(string \<Rightarrow> uuid option) \<Rightarrow> string list \<Rightarrow> uuid option" where
  "parse_head parse_uuid vs = (case vs of [] \<Rightarrow> None | v # _ \<Rightarrow> parse_uuid v)"

definition buildSystemActorFromMetadata :: "(string \<Rightarrow> uuid option) \<Rightarrow> metadata \<Rightarrow> actor" where
  "buildSystemActorFromMetadata parse_uuid md =
     (let a0 = \<lparr>actor_ID = uuid_Nil, Claims = Some zero_claims, Token = None, IsSystem = True, IsGuest = False\<rparr>;
          c1 = (case parse_head parse_uuid (md_get md ''x-actor-id'') of
                  Some uid \<Rightarrow> zero_claims\<lparr>UserID := uid\<rparr> | None \<Rightarrow> zero_claims);
          a1 = (case parse_head parse_uuid (md_get md ''x-actor-id'') of
                  Some uid \<Rightarrow> a0\<lparr>actor_ID := uid\<rparr> | None \<Rightarrow> a0);
          c2 = (case parse_head parse_uuid (md_get md ''x-company-id'') of
                  Some cid \<Rightarrow> c1\<lparr>CompanyID := Some cid\<rparr> | None \<Rightarrow> c1)
      in a1\<lparr>Claims := Some (PopulateMaps c2)\<rparr>)"

definition extractActorFromIncomingMetadata :: "(string \<Rightarrow> user_claims option) \<Rightarrow> (string \<Rightarrow> uuid option)
    \<Rightarrow> string \<Rightarrow> metadata option \<Rightarrow> string + actor" where
  "extractActorFromIncomingMetadata verify parse_uuid internalToken incoming =
     (case incoming of
        None \<Rightarrow> Inl ''missing metadata in request''
      | Some md \<Rightarrow>
          if 0 < length (md_get md ''x-internal-token'') then
            if internalToken = '''' \<or> md_get md ''x-internal-token'' ! 0 \<noteq> internalToken
            then Inl ''invalid internal token''
            else Inr (buildSystemActorFromMetadata parse_uuid md)
          else if length (md_get md ''authorization'') = 0 then Inl ''authorization token is not provided''
          else (case parseAuthToken verify (md_get md ''authorization'' ! 0) of
                  None \<Rightarrow> Inl ''authentication failed''
                | Some actor \<Rightarrow> Inr actor))"

text \<open>The server interceptors: the error, or the context the handler runs in.\<close>

definition AuthServerInterceptor :: "(string \<Rightarrow> user_claims option) \<Rightarrow> (string \<Rightarrow> uuid option) \<Rightarrow> string
    \<Rightarrow> metadata option \<Rightarrow> go_context \<Rightarrow> string + go_context" where
  "AuthServerInterceptor verify parse_uuid internalToken incoming ctx =
     (case extractActorFromIncomingMetadata verify parse_uuid internalToken incoming of
        Inl err \<Rightarrow> Inl err
      | Inr actor \<Rightarrow> Inr (WithActor ctx (Some actor)))"

subsection \<open>One vocabulary for REST and GraphQL\<close>

text \<open>How a directive's verdict reads as a REST outcome.\<close>

definition rest_outcome :: "go_context \<Rightarrow> directive \<Rightarrow> go_context outcome" where
  "rest_outcome ctx d =
     (case d of
        RunNext \<Rightarrow> Next ctx
      | DirPanic \<Rightarrow> Panic
      | DirError PermsUnresolvedError \<Rightarrow> Abort 503 ''PERMS_UNRESOLVED''
      | DirError MissingPermission \<Rightarrow> Abort 403 ''Forbidden: missing permission''
      | DirError _ \<Rightarrow> Abort 401 ''Unauthorized'')"

text \<open>A route gated by \<open>RequirePerms\<close> and a field gated by \<open>@hasPerm\<close> with the same codes give the
  same verdict in every context, with one exception: in a context whose actor was cleared
  (\<open>ClearAuthContext\<close> stores a typed nil) the route answers 401 where the directive panics, and so do
  \<open>RequireAuth\<close> and \<open>@auth\<close>.\<close>

theorem RequirePerms_hasPerm:
  "RequirePerms perms ctx =
     (if ActorCtx ctx = Some None then Abort 401 ''Unauthorized'' else rest_outcome ctx (HasPermDirective perms ctx))
   \<and> (HasPermDirective perms ctx = DirPanic \<longleftrightarrow> ActorCtx ctx = Some None)
   \<and> (RequireAuth ctx = Panic \<longleftrightarrow> ActorCtx ctx = Some None)
   \<and> (\<exists>cleared. ClearAuthContext ctx = Next cleared \<and> ActorCtx cleared = Some None)"
  by (simp add: RequirePerms_def HasPermDirective_def RequireAuth_def rest_outcome_def GetActor_def
      ClearAuthContext_def WithActor_def split: option.split)

subsection \<open>The request pipeline\<close>



subsection \<open>Identity across a hop\<close>

lemma bearer_split: "CHR '' '' \<notin> set tok \<Longrightarrow> split_on CHR '' '' (''Bearer '' @ tok) = [''Bearer'', tok]"
  using split_on_free [of "CHR '' ''" tok] by simp

lemma md_get_Nil [simp]: "md_get [] k = []"
  by (simp add: md_get_def)

lemma md_get_Cons [simp]: "md_get ((k, v) # md) l = (if k = l then v # md_get md l else md_get md l)"
  by (simp add: md_get_def)

definition same_identity :: "actor \<Rightarrow> actor \<Rightarrow> bool" where
  "same_identity a b \<longleftrightarrow> IsSystem b \<and> \<not> IsGuest b \<and> actor_ID b = actor_ID a \<and> GetCompanyID b = GetCompanyID a
     \<and> Token b = None \<and> \<not> IsSuperAdmin b \<and> \<not> IsAdmin b"

lemma system_hop:
  assumes "ctx_actor ctx = Some a" and "\<forall>u. uuid_text u \<longrightarrow> parse_uuid u = Some u"
    and "uuid_text (actor_ID a)" and "\<forall>c. GetCompanyID a = Some c \<longrightarrow> uuid_text c"
    and "Token a = None \<or> Token a = Some ''''" and "IsSystem a" and "token \<noteq> ''''"
  shows "\<exists>b. extractActorFromIncomingMetadata verify parse_uuid token (Some (attach_actor token ctx [])) = Inr b
     \<and> same_identity a b"
proof -
  have attached: "attach_actor token ctx [] =
      [(''x-internal-token'', token), (''x-actor-id'', actor_ID a)]
        @ (case GetCompanyID a of Some cid \<Rightarrow> [(''x-company-id'', cid)] | None \<Rightarrow> [])"
    using assms by (auto simp: attach_actor_def)
  show ?thesis
    using assms(2-4,7) unfolding attached same_identity_def extractActorFromIncomingMetadata_def
    by (cases "GetCompanyID a")
      (simp_all add: buildSystemActorFromMetadata_def parse_head_def Let_def
        PopulateMaps_def zero_claims_def GetCompanyID_def IsSuperAdmin_iff IsAdmin_iff)
qed

lemma user_hop:
  assumes "ctx_actor ctx = Some a" and "Token a = Some tok" and "tok \<noteq> ''''" and "CHR '' '' \<notin> set tok"
  shows "extractActorFromIncomingMetadata verify parse_uuid token (Some (attach_actor token ctx [])) =
     (case verify tok of
        None \<Rightarrow> Inl ''authentication failed''
      | Some claims \<Rightarrow> Inr \<lparr>actor_ID = UserID claims, Claims = Some (PopulateMaps claims), Token = Some tok,
                             IsSystem = False, IsGuest = False\<rparr>)"
proof -
  have attached: "attach_actor token ctx [] = [(''authorization'', ''Bearer '' @ tok)]"
    using assms by (simp add: attach_actor_def)
  have "parseAuthToken verify (''Bearer '' @ tok) =
      (case verify tok of None \<Rightarrow> None
       | Some claims \<Rightarrow> Some \<lparr>actor_ID = UserID claims, Claims = Some (PopulateMaps claims), Token = Some tok,
                             IsSystem = False, IsGuest = False\<rparr>)"
    unfolding parseAuthToken_def bearer_split [OF assms(4)] by (simp split: option.split)
  then show ?thesis
    unfolding attached extractActorFromIncomingMetadata_def
    by (simp del: append_Cons append_Nil split: option.split)
qed

lemma system_needs_token:
  assumes "extractActorFromIncomingMetadata verify parse_uuid token incoming = Inr b" and "IsSystem b"
  shows "token \<noteq> '''' \<and> (\<exists>md. incoming = Some md \<and> (''x-internal-token'', token) \<in> set md)"
proof -
  from assms obtain md where md: "incoming = Some md" "0 < length (md_get md ''x-internal-token'')"
      "token \<noteq> ''''" "md_get md ''x-internal-token'' ! 0 = token"
    by (auto simp: extractActorFromIncomingMetadata_def parseAuthToken_def split: option.splits if_splits list.splits)
  then have "token \<in> set (md_get md ''x-internal-token'')" by (metis nth_mem)
  with md show ?thesis by (auto simp: md_get_def)
qed



end
