(* ===== verification/Tenancy.thy ===== *)
theory Tenancy
  imports Request_Context
begin

text \<open>
  Tenant isolation in the database layer: the GORM plugin that adds the tenant clause to statements
  (\<open>src/tmsdb/tenant_scope.go\<close>) and the hooks of the two embeddable bases
  (\<open>src/tmsdb/model/tenant_scoped.go\<close>, \<open>tenant_shared.go\<close>).

  GORM is a library: a statement is a record of what the plugin reads and writes of it, the table
  name GORM parses from a type is a parameter \<open>schema_table\<close>, and which marker interfaces a struct of a
  service implements is a parameter \<open>markers\<close>. The clauses the plugin adds are values with the meaning
  of the SQL text; GORM's documented reading of several \<open>Where\<close> calls (all must hold) is
  \<open>selected\<close>. A statement with an error is not executed.
\<close>

subsection \<open>The plugin\<close>

datatype go_type = PtrT go_type | SliceT go_type | ArrayT go_type | StructT string | OtherT

record tenantConfig =
  isScoped :: bool
  isShared :: bool

datatype clause =
    CompanyIs string uuid                 \<comment> \<open>\<open>t.company_id = ?\<close>\<close>
  | CompanyIsOrSystem string uuid         \<comment> \<open>\<open>(t.company_id = ? OR t.is_system = true)\<close>\<close>

record statement =
  Unscoped :: bool
  ModelT :: "go_type option"
  DestT :: "go_type option"
  st_Table :: string
  st_Context :: go_context
  wheres :: "clause list"
  st_errors :: "string list"

fun base_type :: "go_type \<Rightarrow> go_type" where
  "base_type (PtrT t) = base_type t"
| "base_type (SliceT t) = base_type t"
| "base_type (ArrayT t) = base_type t"
| "base_type t = t"

definition evaluateType :: "(string \<Rightarrow> tenantConfig) \<Rightarrow> go_type \<Rightarrow> tenantConfig" where
  "evaluateType markers typ =
     (case base_type typ of
        StructT name \<Rightarrow> markers name
      | _ \<Rightarrow> \<lparr>isScoped = False, isShared = False\<rparr>)"

definition target_type :: "statement \<Rightarrow> go_type option" where
  "target_type st = (case ModelT st of Some t \<Rightarrow> Some t | None \<Rightarrow> DestT st)"

type_synonym type_cache = "go_type \<Rightarrow> tenantConfig option"

definition cached_config :: "(string \<Rightarrow> tenantConfig) \<Rightarrow> type_cache \<Rightarrow> go_type \<Rightarrow> tenantConfig \<times> type_cache" where
  "cached_config markers cache t =
     (case cache t of
        Some c \<Rightarrow> (c, cache)
      | None \<Rightarrow> (let c = evaluateType markers t in (c, cache(t \<mapsto> c))))"

definition resolve_table :: "(go_type \<Rightarrow> string option) \<Rightarrow> statement \<Rightarrow> go_type \<Rightarrow> string" where
  "resolve_table schema_table st t =
     (if st_Table st = '''' then (case schema_table t of Some name \<Rightarrow> name | None \<Rightarrow> '''') else st_Table st)"

text \<open>The clause of step 6 and the checks before it, once the configuration is known. \<open>None\<close> is the nil
  dereference of \<open>actor.Claims\<close>.\<close>

definition apply_config :: "(go_type \<Rightarrow> string option) \<Rightarrow> tenantConfig \<Rightarrow> go_type \<Rightarrow> bool \<Rightarrow> statement
    \<Rightarrow> statement option" where
  "apply_config schema_table config t isRead st =
     (if \<not> isScoped config \<and> \<not> isShared config then Some st
      else
        (case ctx_actor (st_Context st) of
           None \<Rightarrow> Some st
         | Some actor \<Rightarrow>
             if IsSystem actor \<or> IsSuperAdmin actor then Some st
             else
               (case Claims actor of
                  None \<Rightarrow> None
                | Some claims \<Rightarrow>
                    (case CompanyID claims of
                       None \<Rightarrow> Some (st\<lparr>st_errors := st_errors st @ [''tenant_plugin: non-admin actor missing company_id'']\<rparr>)
                     | Some companyID \<Rightarrow>
                         let tableName = resolve_table schema_table st t in
                         if tableName = '''' then Some st
                         else if isRead \<and> isShared config
                         then Some (st\<lparr>wheres := wheres st @ [CompanyIsOrSystem tableName companyID]\<rparr>)
                         else Some (st\<lparr>wheres := wheres st @ [CompanyIs tableName companyID]\<rparr>)))))"

definition applyScope :: "(string \<Rightarrow> tenantConfig) \<Rightarrow> (go_type \<Rightarrow> string option) \<Rightarrow> bool \<Rightarrow> type_cache \<Rightarrow> statement
    \<Rightarrow> (statement \<times> type_cache) option" where
  "applyScope markers schema_table isRead cache st =
     (if Unscoped st then Some (st, cache)
      else
        (case target_type st of
           None \<Rightarrow> Some (st, cache)
         | Some t \<Rightarrow>
             (let (config, cache') = cached_config markers cache t in
              map_option (\<lambda>st'. (st', cache')) (apply_config schema_table config t isRead st))))"

definition addTenantConditionQuery where
  "addTenantConditionQuery markers schema_table cache st = applyScope markers schema_table True cache st"

definition addTenantConditionWrite where
  "addTenantConditionWrite markers schema_table cache st = applyScope markers schema_table False cache st"

subsection \<open>The embeddable bases\<close>

datatype 'a hook = HookOk 'a | HookErr string | HookPanic

record SharedTenantBase =
  stb_CompanyID :: "uuid option"
  stb_IsSystem :: bool

definition stb_BeforeCreate :: "go_context \<Rightarrow> SharedTenantBase \<Rightarrow> SharedTenantBase hook" where
  "stb_BeforeCreate ctx stb =
     (case ctx_actor ctx of
        None \<Rightarrow>
          if stb_IsSystem stb \<and> stb_CompanyID stb \<noteq> None then HookErr ''system record with a company_id''
          else if \<not> stb_IsSystem stb \<and> stb_CompanyID stb = None then HookErr ''tenant record without a company_id''
          else HookOk stb
      | Some actor \<Rightarrow>
          if IsSystem actor then
            (if stb_IsSystem stb \<and> stb_CompanyID stb \<noteq> None then HookErr ''system record with a company_id''
             else if \<not> stb_IsSystem stb \<and> stb_CompanyID stb = None then HookErr ''tenant record without a company_id''
             else HookOk stb)
          else if stb_IsSystem stb then
            (if \<not> IsSuperAdmin actor then HookErr ''only super admins can create system records''
             else HookOk (stb\<lparr>stb_CompanyID := None\<rparr>))
          else
            (case Claims actor of
               None \<Rightarrow> HookPanic
             | Some claims \<Rightarrow>
                 if CompanyID claims = None then
                   (if IsSuperAdmin actor then HookErr ''superadmin must explicitly provide company_id''
                    else HookErr ''actor missing company_id'')
                 else HookOk (stb\<lparr>stb_CompanyID := CompanyID claims\<rparr>)))"

text \<open>\<open>BeforeUpdate\<close> and \<open>BeforeDelete\<close> have the same body but for the message.\<close>

definition system_record_guard :: "string \<Rightarrow> go_context \<Rightarrow> SharedTenantBase \<Rightarrow> SharedTenantBase hook" where
  "system_record_guard message ctx stb =
     (case ctx_actor ctx of
        None \<Rightarrow> HookOk stb
      | Some actor \<Rightarrow>
          if IsSystem actor then HookOk stb
          else if stb_IsSystem stb \<and> \<not> IsSuperAdmin actor then HookErr message
          else HookOk stb)"

definition stb_BeforeUpdate :: "go_context \<Rightarrow> SharedTenantBase \<Rightarrow> SharedTenantBase hook" where
  "stb_BeforeUpdate = system_record_guard ''only super admins can update system records''"

definition stb_BeforeDelete :: "go_context \<Rightarrow> SharedTenantBase \<Rightarrow> SharedTenantBase hook" where
  "stb_BeforeDelete = system_record_guard ''only super admins can delete system records''"

text \<open>\<open>CompanyBase.BeforeCreate\<close> on the company id of the record.\<close>

definition cb_BeforeCreate :: "go_context \<Rightarrow> uuid \<Rightarrow> uuid hook" where
  "cb_BeforeCreate ctx companyID =
     (case ctx_actor ctx of
        None \<Rightarrow>
          if companyID = uuid_Nil then HookErr ''internal process tried to save entity without company_id''
          else HookOk companyID
      | Some actor \<Rightarrow>
          if IsGuest actor then HookErr ''create is forbidden for guests''
          else
            (let companyID' =
               (case GetCompanyID actor of
                  Some c \<Rightarrow> if companyID = uuid_Nil then c else companyID
                | None \<Rightarrow> companyID) in
             if companyID' = uuid_Nil then
               (if IsSuperAdmin actor \<or> IsSystem actor then HookErr ''system/superadmin must explicitly provide company_id''
                else HookErr ''actor has no company_id'')
             else HookOk companyID'))"

subsection \<open>What a statement selects\<close>

text \<open>A row of a tenant table is read as its two tenant columns.\<close>

fun holds :: "clause \<Rightarrow> SharedTenantBase \<Rightarrow> bool" where
  "holds (CompanyIs t c) row \<longleftrightarrow> stb_CompanyID row = Some c"
| "holds (CompanyIsOrSystem t c) row \<longleftrightarrow> stb_CompanyID row = Some c \<or> stb_IsSystem row"

definition selected :: "statement \<Rightarrow> SharedTenantBase set \<Rightarrow> SharedTenantBase set" where
  "selected st rows = (if st_errors st = [] then {row \<in> rows. list_all (\<lambda>w. holds w row) (wheres st)} else {})"

text \<open>An actor the plugin restricts: logged in, with claims, neither system nor super admin.\<close>

definition ordinary :: "actor \<Rightarrow> bool" where
  "ordinary a \<longleftrightarrow> Claims a \<noteq> None \<and> \<not> IsSystem a \<and> \<not> IsSuperAdmin a"

definition cache_ok :: "(string \<Rightarrow> tenantConfig) \<Rightarrow> type_cache \<Rightarrow> bool" where
  "cache_ok markers cache \<longleftrightarrow> (\<forall>t c. cache t = Some c \<longrightarrow> c = evaluateType markers t)"

lemma cached_config_ok:
  assumes "cache_ok markers cache"
  obtains cache' where "cached_config markers cache t = (evaluateType markers t, cache')" and "cache_ok markers cache'"
proof (cases "cache t")
  case None
  then have "cached_config markers cache t = (evaluateType markers t, cache(t \<mapsto> evaluateType markers t))"
    by (simp add: cached_config_def Let_def)
  moreover have "cache_ok markers (cache(t \<mapsto> evaluateType markers t))"
    using assms by (simp add: cache_ok_def)
  ultimately show thesis by (rule that)
next
  case (Some c)
  with assms have "cached_config markers cache t = (evaluateType markers t, cache)"
    by (simp add: cached_config_def cache_ok_def)
  then show thesis using assms by (rule that)
qed

lemma base_type_idem [simp]: "base_type (base_type t) = base_type t"
  by (induction t) simp_all

lemma evaluateType_base: "evaluateType markers (base_type t) = evaluateType markers t"
  by (simp add: evaluateType_def)

text \<open>The statements the plugin has something to say about: not marked unscoped, on a tenant type whose
  table can be named.\<close>

definition tenant_statement :: "(string \<Rightarrow> tenantConfig) \<Rightarrow> (go_type \<Rightarrow> string option) \<Rightarrow> statement \<Rightarrow> bool" where
  "tenant_statement markers schema_table st \<longleftrightarrow>
     \<not> Unscoped st
     \<and> (\<exists>t. target_type st = Some t \<and> resolve_table schema_table st t \<noteq> ''''
          \<and> (isScoped (evaluateType markers t) \<or> isShared (evaluateType markers t)))"

lemma applyScope_eq:
  assumes "cache_ok markers cache" and "tenant_statement markers schema_table st"
    and "ctx_actor (st_Context st) = Some a" and "ordinary a"
  obtains t cache' where "target_type st = Some t" and "cache_ok markers cache'"
    and "applyScope markers schema_table isRead cache st =
      Some ((case GetCompanyID a of
         None \<Rightarrow> st\<lparr>st_errors := st_errors st @ [''tenant_plugin: non-admin actor missing company_id'']\<rparr>
       | Some c \<Rightarrow> st\<lparr>wheres := wheres st @
           [if isRead \<and> isShared (evaluateType markers t) then CompanyIsOrSystem (resolve_table schema_table st t) c
            else CompanyIs (resolve_table schema_table st t) c]\<rparr>), cache')"
proof -
  from assms(2) obtain t where t: "target_type st = Some t" "\<not> Unscoped st" "resolve_table schema_table st t \<noteq> ''''"
      "isScoped (evaluateType markers t) \<or> isShared (evaluateType markers t)"
    by (auto simp: tenant_statement_def)
  obtain cache' where cache': "cached_config markers cache t = (evaluateType markers t, cache')" "cache_ok markers cache'"
    using cached_config_ok [OF assms(1)] by blast
  obtain cl where "Claims a = Some cl" "\<not> IsSystem a" "\<not> IsSuperAdmin a"
    using assms(4) by (auto simp: ordinary_def)
  then have "applyScope markers schema_table isRead cache st =
      Some ((case GetCompanyID a of
         None \<Rightarrow> st\<lparr>st_errors := st_errors st @ [''tenant_plugin: non-admin actor missing company_id'']\<rparr>
       | Some c \<Rightarrow> st\<lparr>wheres := wheres st @
           [if isRead \<and> isShared (evaluateType markers t) then CompanyIsOrSystem (resolve_table schema_table st t) c
            else CompanyIs (resolve_table schema_table st t) c]\<rparr>), cache')"
    using t cache' assms(3)
    by (auto simp: applyScope_def apply_config_def GetCompanyID_def Let_def split: option.split)
  with t(1) cache'(2) show thesis by (rule that)
qed


definition example_actor :: "uuid option \<Rightarrow> actor" where
  "example_actor c = \<lparr>actor_ID = ''u'', Claims = Some (zero_claims\<lparr>CompanyID := c\<rparr>), Token = None,
     IsSystem = False, IsGuest = False\<rparr>"

definition example_statement :: "uuid option \<Rightarrow> statement" where
  "example_statement c = \<lparr>Unscoped = False, ModelT = Some (PtrT (SliceT (StructT ''Status''))), DestT = None,
     st_Table = '''', st_Context = WithActor background (Some (example_actor c)), wheres = [], st_errors = []\<rparr>"

lemma example_facts:
  "ctx_actor (st_Context (example_statement c)) = Some (example_actor c)" "ordinary (example_actor c)"
  "GetCompanyID (example_actor c) = c"
  by (simp_all add: example_statement_def example_actor_def ctx_simps ordinary_def IsSuperAdmin_iff zero_claims_def)


subsection \<open>Records keep to their tenant\<close>

definition stb_wf :: "SharedTenantBase \<Rightarrow> bool" where
  "stb_wf r \<longleftrightarrow> (stb_IsSystem r \<longleftrightarrow> stb_CompanyID r = None)"

lemma stb_BeforeCreate_wf: "stb_BeforeCreate ctx r = HookOk r' \<Longrightarrow> stb_wf r' \<and> (stb_IsSystem r' = stb_IsSystem r)"
  by (auto simp: stb_BeforeCreate_def stb_wf_def split: option.splits if_splits)

lemma stb_BeforeCreate_ordinary:
  assumes "ctx_actor ctx = Some a" and "ordinary a"
  shows "stb_BeforeCreate ctx r = HookOk r' \<longleftrightarrow>
     \<not> stb_IsSystem r \<and> GetCompanyID a \<noteq> None \<and> r' = r\<lparr>stb_CompanyID := GetCompanyID a\<rparr>"
  using assms by (auto simp: stb_BeforeCreate_def ordinary_def GetCompanyID_def split: option.splits)



text \<open>A record embedding \<open>CompanyBase\<close> is never stored without a company: creation succeeds exactly
  when the caller is not a guest and the payload or the actor names one, and the stored company is the
  payload's when it names one, otherwise the actor's. In particular an ordinary actor's explicit company
  is kept even when it is another company's, where the shared base overwrites it.\<close>

theorem company_record_create:
  assumes "\<forall>a. ctx_actor ctx = Some a \<longrightarrow> GetCompanyID a \<noteq> Some uuid_Nil"
  shows "cb_BeforeCreate ctx companyID = HookOk c \<longleftrightarrow>
     (\<forall>a. ctx_actor ctx = Some a \<longrightarrow> \<not> IsGuest a) \<and> c \<noteq> uuid_Nil
     \<and> (if companyID \<noteq> uuid_Nil then c = companyID else ctx_company ctx = Some c)"
  using assms by (auto simp: cb_BeforeCreate_def ctx_company_def Let_def split: option.splits)

lemma company_record_create_witness:
  "cb_BeforeCreate (st_Context (example_statement (Some ''c1''))) ''c2'' = HookOk ''c2''
   \<and> cb_BeforeCreate (st_Context (example_statement (Some ''c1''))) uuid_Nil = HookOk ''c1''"
proof -
  let ?ctx = "st_Context (example_statement (Some ''c1''))"
  have "\<forall>a. ctx_actor ?ctx = Some a \<longrightarrow> GetCompanyID a \<noteq> Some uuid_Nil"
    by (simp add: example_facts uuid_Nil_def)
  from company_record_create [OF this] show ?thesis
    by (simp add: example_facts ctx_company_def uuid_Nil_def) (simp add: example_actor_def)
qed

end
