(* ===== verification/Query_Filter.thy ===== *)
theory Query_Filter
  imports Complex_Main Go_Prelude "HOL-Library.Signed_Division"
begin

text \<open>
  The query builder behind every list endpoint (\<open>src/tmsdb/filter.go\<close>): typed filters, logical and
  relation operators, sorting and pagination.

  A builder is the part of the \<open>*gorm.DB\<close> it accumulates: conjuncts, ORDER BY texts, limit and offset.
  A condition is a value of \<open>cond\<close> and its meaning on a row is SQL's three-valued \<open>eval\<close>; the text
  matching operators of PostgreSQL (LIKE, regular expressions, jsonb operators, free conditions) are the
  parameter record \<open>dialect\<close>. A condition group without conditions adds nothing, as in GORM. A
  \<open>float64\<close> is a real number (a filter read from JSON carries no NaN).
\<close>

datatype sql_value = VString string | VInt int | VFloat real | VBool bool | VTime int | VList "string list"

type_synonym row = "string \<Rightarrow> sql_value option"

datatype cmp = OpEq | OpNe | OpLt | OpLe | OpGt | OpGe

datatype cond =
    Cmp cmp string sql_value
  | InList string "sql_value list"
  | NotInList string "sql_value list"
  | LikeC bool string string
  | RegexC bool string string
  | IsNullC string
  | IsNotNullC string
  | NeverC
  | JsonC string string "sql_value list"
  | FreeC string "sql_value list"
  | AnyOf "cond list list"
  | AllOf "cond list"
  | NotAll "cond list"
  | ExistsC string string string "cond list"
  | NotExistsC string string string "cond list"

record dialect =
  d_like :: "bool \<Rightarrow> string \<Rightarrow> string \<Rightarrow> bool"
  d_regex :: "bool \<Rightarrow> string \<Rightarrow> string \<Rightarrow> bool"
  d_json :: "string \<Rightarrow> sql_value \<Rightarrow> sql_value list \<Rightarrow> bool"
  d_free :: "string \<Rightarrow> sql_value list \<Rightarrow> row \<Rightarrow> bool option"
  d_table :: "string \<Rightarrow> row list"

subsection \<open>The meaning of a condition\<close>

fun tv_not :: "bool option \<Rightarrow> bool option" where
  "tv_not None = None"
| "tv_not (Some b) = Some (\<not> b)"

definition tv_all :: "bool option list \<Rightarrow> bool option" where
  "tv_all bs = (if Some False \<in> set bs then Some False else if None \<in> set bs then None else Some True)"

definition tv_any :: "bool option list \<Rightarrow> bool option" where
  "tv_any bs = (if Some True \<in> set bs then Some True else if None \<in> set bs then None else Some False)"

fun vless :: "sql_value \<Rightarrow> sql_value \<Rightarrow> bool" where
  "vless (VInt a) (VInt b) = (a < b)"
| "vless (VFloat a) (VFloat b) = (a < b)"
| "vless (VTime a) (VTime b) = (a < b)"
| "vless _ _ = False"

fun compare :: "cmp \<Rightarrow> sql_value \<Rightarrow> sql_value \<Rightarrow> bool" where
  "compare OpEq a b = (a = b)"
| "compare OpNe a b = (a \<noteq> b)"
| "compare OpLt a b = vless a b"
| "compare OpLe a b = (vless a b \<or> a = b)"
| "compare OpGt a b = vless b a"
| "compare OpGe a b = (vless b a \<or> a = b)"

fun text_of :: "sql_value \<Rightarrow> string option" where
  "text_of (VString s) = Some s"
| "text_of _ = None"

definition match_text :: "(string \<Rightarrow> bool) \<Rightarrow> sql_value option \<Rightarrow> bool option" where
  "match_text m v = (case v of None \<Rightarrow> None | Some x \<Rightarrow> map_option m (text_of x))"

fun eval :: "dialect \<Rightarrow> row \<Rightarrow> cond \<Rightarrow> bool option" where
  "eval D r (Cmp op c v) = map_option (\<lambda>x. compare op x v) (r c)"
| "eval D r (InList c vs) = map_option (\<lambda>x. x \<in> set vs) (r c)"
| "eval D r (NotInList c vs) = map_option (\<lambda>x. \<not> x \<in> set vs) (r c)"
| "eval D r (LikeC insensitive c p) = match_text (d_like D insensitive p) (r c)"
| "eval D r (RegexC insensitive c p) = match_text (d_regex D insensitive p) (r c)"
| "eval D r (IsNullC c) = Some (r c = None)"
| "eval D r (IsNotNullC c) = Some (r c \<noteq> None)"
| "eval D r NeverC = Some False"
| "eval D r (JsonC c op args) = map_option (\<lambda>x. d_json D op x args) (r c)"
| "eval D r (FreeC q args) = d_free D q args r"
| "eval D r (AnyOf gs) = tv_any (map (\<lambda>g. tv_all (map (eval D r) g)) gs)"
| "eval D r (AllOf cs) = tv_all (map (eval D r) cs)"
| "eval D r (NotAll cs) = tv_not (tv_all (map (eval D r) cs))"
| "eval D r (ExistsC t fk pk cs) =
     Some (list_ex (\<lambda>q. tv_all (map (eval D q) cs) = Some True \<and> q fk \<noteq> None \<and> q fk = r pk) (d_table D t))"
| "eval D r (NotExistsC t fk pk cs) =
     Some (\<not> list_ex (\<lambda>q. tv_all (map (eval D q) cs) = Some True \<and> q fk \<noteq> None \<and> q fk = r pk) (d_table D t))"

subsection \<open>The builder\<close>

record filter_builder =
  fb_where :: "cond list"
  fb_orders :: "string list"
  fb_limit :: "int option"
  fb_offset :: "int option"
  maxLimit :: int
  defaultOrder :: string

definition newFilterBuilder :: filter_builder where
  "newFilterBuilder = \<lparr>fb_where = [], fb_orders = [], fb_limit = None, fb_offset = None,
     maxLimit = 100, defaultOrder = ''created_at DESC''\<rparr>"

text \<open>A condition builder starts from an empty session and keeps the page limit only.\<close>

definition subFB :: "filter_builder \<Rightarrow> filter_builder" where
  "subFB fb = \<lparr>fb_where = [], fb_orders = [], fb_limit = None, fb_offset = None,
     maxLimit = maxLimit fb, defaultOrder = ''''\<rparr>"

definition SetMaxLimit :: "int \<Rightarrow> filter_builder \<Rightarrow> filter_builder" where
  "SetMaxLimit mx fb = fb\<lparr>maxLimit := mx\<rparr>"

definition SetDefaultOrder :: "string \<Rightarrow> filter_builder \<Rightarrow> filter_builder" where
  "SetDefaultOrder order fb = fb\<lparr>defaultOrder := order\<rparr>"

definition add_where :: "cond list \<Rightarrow> filter_builder \<Rightarrow> filter_builder" where
  "add_where cs fb = fb\<lparr>fb_where := fb_where fb @ cs\<rparr>"

text \<open>\<open>if f.X != nil \<dots>\<close> and \<open>if len(f.X) > 0 \<dots>\<close>.\<close>

definition if_set :: "'a option \<Rightarrow> ('a \<Rightarrow> cond) \<Rightarrow> cond list" where
  "if_set x c = (case x of None \<Rightarrow> [] | Some v \<Rightarrow> [c v])"

definition if_any :: "'a list \<Rightarrow> ('a list \<Rightarrow> cond) \<Rightarrow> cond list" where
  "if_any xs c = (if 0 < length xs then [c xs] else [])"

definition null_check :: "string \<Rightarrow> bool option \<Rightarrow> cond list" where
  "null_check col isNull = if_set isNull (\<lambda>b. if b then IsNullC col else IsNotNullC col)"

record string_filter =
  sf_Equals :: "string option"
  sf_Not :: "string option"
  sf_In :: "string list"
  sf_NotIn :: "string list"
  sf_Contains :: "string option"
  sf_StartsWith :: "string option"
  sf_EndsWith :: "string option"
  sf_Like :: "string option"
  sf_Regex :: "string option"
  sf_Mode :: string
  sf_IsNull :: "bool option"

definition string_conds :: "string \<Rightarrow> string_filter \<Rightarrow> cond list" where
  "string_conds col f =
     (let insensitive = (sf_Mode f = ''insensitive'') in
      if_set (sf_Equals f) (\<lambda>v. Cmp OpEq col (VString v))
      @ if_set (sf_Not f) (\<lambda>v. Cmp OpNe col (VString v))
      @ if_any (sf_In f) (\<lambda>vs. InList col (map VString vs))
      @ if_any (sf_NotIn f) (\<lambda>vs. NotInList col (map VString vs))
      @ if_set (sf_Contains f) (\<lambda>v. LikeC True col (''%'' @ v @ ''%''))
      @ if_set (sf_StartsWith f) (\<lambda>v. LikeC insensitive col (v @ ''%''))
      @ if_set (sf_EndsWith f) (\<lambda>v. LikeC insensitive col (''%'' @ v))
      @ if_set (sf_Like f) (\<lambda>v. LikeC insensitive col v)
      @ if_set (sf_Regex f) (\<lambda>v. RegexC insensitive col v)
      @ null_check col (sf_IsNull f))"

definition fb_String :: "string \<Rightarrow> string_filter option \<Rightarrow> filter_builder \<Rightarrow> filter_builder" where
  "fb_String col f fb = (case f of None \<Rightarrow> fb | Some f \<Rightarrow> add_where (string_conds col f) fb)"

text \<open>\<open>IntFilter\<close>, \<open>FloatFilter\<close> and \<open>DateTimeFilter\<close> have the same fields over their value type, and
  \<open>Int\<close>, \<open>Float\<close> and \<open>DateTime\<close> the same body.\<close>

record 'a range_filter =
  rf_Equals :: "'a option"
  rf_Not :: "'a option"
  rf_In :: "'a list"
  rf_NotIn :: "'a list"
  rf_Lt :: "'a option"
  rf_Lte :: "'a option"
  rf_Gt :: "'a option"
  rf_Gte :: "'a option"
  rf_IsNull :: "bool option"

definition range_conds :: "('a \<Rightarrow> sql_value) \<Rightarrow> string \<Rightarrow> 'a range_filter \<Rightarrow> cond list" where
  "range_conds V col f =
     if_set (rf_Equals f) (\<lambda>v. Cmp OpEq col (V v))
     @ if_set (rf_Not f) (\<lambda>v. Cmp OpNe col (V v))
     @ if_set (rf_Lt f) (\<lambda>v. Cmp OpLt col (V v))
     @ if_set (rf_Lte f) (\<lambda>v. Cmp OpLe col (V v))
     @ if_set (rf_Gt f) (\<lambda>v. Cmp OpGt col (V v))
     @ if_set (rf_Gte f) (\<lambda>v. Cmp OpGe col (V v))
     @ if_any (rf_In f) (\<lambda>vs. InList col (map V vs))
     @ if_any (rf_NotIn f) (\<lambda>vs. NotInList col (map V vs))
     @ null_check col (rf_IsNull f)"

definition fb_Int :: "string \<Rightarrow> int range_filter option \<Rightarrow> filter_builder \<Rightarrow> filter_builder" where
  "fb_Int col f fb = (case f of None \<Rightarrow> fb | Some f \<Rightarrow> add_where (range_conds VInt col f) fb)"

definition fb_Float :: "string \<Rightarrow> real range_filter option \<Rightarrow> filter_builder \<Rightarrow> filter_builder" where
  "fb_Float col f fb = (case f of None \<Rightarrow> fb | Some f \<Rightarrow> add_where (range_conds VFloat col f) fb)"

definition fb_DateTime :: "string \<Rightarrow> int range_filter option \<Rightarrow> filter_builder \<Rightarrow> filter_builder" where
  "fb_DateTime col f fb = (case f of None \<Rightarrow> fb | Some f \<Rightarrow> add_where (range_conds VTime col f) fb)"

record bool_filter =
  bf_Equals :: "bool option"
  bf_IsNull :: "bool option"

definition fb_Bool :: "string \<Rightarrow> bool_filter option \<Rightarrow> filter_builder \<Rightarrow> filter_builder" where
  "fb_Bool col f fb =
     (case f of None \<Rightarrow> fb
      | Some f \<Rightarrow> add_where (if_set (bf_Equals f) (\<lambda>v. Cmp OpEq col (VBool v)) @ null_check col (bf_IsNull f)) fb)"

record id_filter =
  if_Equals :: "string option"
  if_Not :: "string option"
  if_In :: "string list"
  if_NotIn :: "string list"
  if_IsNull :: "bool option"

definition fb_ID :: "string \<Rightarrow> id_filter option \<Rightarrow> filter_builder \<Rightarrow> filter_builder" where
  "fb_ID col f fb =
     (case f of None \<Rightarrow> fb
      | Some f \<Rightarrow> add_where
          (if_set (if_Equals f) (\<lambda>v. Cmp OpEq col (VString v))
           @ if_set (if_Not f) (\<lambda>v. Cmp OpNe col (VString v))
           @ if_any (if_In f) (\<lambda>vs. InList col (map VString vs))
           @ if_any (if_NotIn f) (\<lambda>vs. NotInList col (map VString vs))
           @ null_check col (if_IsNull f)) fb)"

definition fb_UUID :: "string \<Rightarrow> id_filter option \<Rightarrow> filter_builder \<Rightarrow> filter_builder" where
  "fb_UUID col f fb = fb_ID col f fb"

text \<open>The \<open>any\<close> fields of a \<open>JSONFilter\<close> are given as their marshalled text (empty when marshalling
  fails: the code drops the error).\<close>

record json_filter =
  jf_Equals :: "string option"
  jf_Contains :: "string option"
  jf_ContainedBy :: "string option"
  jf_HasKey :: "string option"
  jf_HasKeys :: "string list"
  jf_HasAnyKey :: "string list"
  jf_IsNull :: "bool option"

definition fb_JSON :: "string \<Rightarrow> json_filter option \<Rightarrow> filter_builder \<Rightarrow> filter_builder" where
  "fb_JSON col f fb =
     (case f of None \<Rightarrow> fb
      | Some f \<Rightarrow> add_where
          (if_set (jf_Equals f) (\<lambda>v. JsonC col '' = ?::jsonb'' [VString v])
           @ if_set (jf_Contains f) (\<lambda>v. JsonC col '' @> ?::jsonb'' [VString v])
           @ if_set (jf_ContainedBy f) (\<lambda>v. JsonC col '' <@ ?::jsonb'' [VString v])
           @ if_set (jf_HasKey f) (\<lambda>v. JsonC col '' ? ?'' [VString v])
           @ if_any (jf_HasKeys f) (\<lambda>vs. JsonC col '' ?& ?'' [VList vs])
           @ if_any (jf_HasAnyKey f) (\<lambda>vs. JsonC col '' ?| ?'' [VList vs])
           @ null_check col (jf_IsNull f)) fb)"

definition fb_Search :: "string option \<Rightarrow> string list \<Rightarrow> filter_builder \<Rightarrow> filter_builder" where
  "fb_Search trm columns fb =
     (case trm of
        None \<Rightarrow> fb
      | Some t \<Rightarrow>
          if t = '''' \<or> length columns = 0 then fb
          else add_where [AnyOf (map (\<lambda>col. [LikeC True col (''%'' @ t @ ''%'')]) columns)] fb)"

definition fb_Enum :: "string \<Rightarrow> string option \<Rightarrow> string option \<Rightarrow> string list \<Rightarrow> string list
    \<Rightarrow> filter_builder \<Rightarrow> filter_builder" where
  "fb_Enum col equals nots ins notIn fb =
     add_where
       (if_set equals (\<lambda>v. Cmp OpEq col (VString v))
        @ if_set nots (\<lambda>v. Cmp OpNe col (VString v))
        @ if_any ins (\<lambda>vs. InList col (map VString vs))
        @ if_any notIn (\<lambda>vs. NotInList col (map VString vs))) fb"

subsection \<open>Logical and relation operators\<close>

type_synonym condition = "filter_builder \<Rightarrow> filter_builder"

definition run_sub :: "filter_builder \<Rightarrow> condition \<Rightarrow> cond list" where
  "run_sub fb condition = fb_where (condition (subFB fb))"

definition fb_OR :: "condition list \<Rightarrow> condition" where
  "fb_OR conditions fb =
     (if length conditions = 0 then fb
      else
        (let groups = filter (\<lambda>g. g \<noteq> []) (map (run_sub fb) conditions) in
         if groups = [] then fb else add_where [AnyOf groups] fb))"

fun fb_AND :: "condition list \<Rightarrow> condition" where
  "fb_AND [] fb = fb"
| "fb_AND (condition # conditions) fb =
     (let cs = run_sub fb condition in
      fb_AND conditions (if cs = [] then fb else add_where [AllOf cs] fb))"

definition fb_NOT :: "condition \<Rightarrow> condition" where
  "fb_NOT condition fb =
     (let cs = run_sub fb condition in if cs = [] then fb else add_where [NotAll cs] fb)"

definition fb_Some :: "string \<Rightarrow> string \<Rightarrow> string \<Rightarrow> condition \<Rightarrow> condition" where
  "fb_Some subTable fk pk condition fb = add_where [ExistsC subTable fk pk (run_sub fb condition)] fb"

definition fb_None :: "string \<Rightarrow> string \<Rightarrow> string \<Rightarrow> condition \<Rightarrow> condition" where
  "fb_None subTable fk pk condition fb = add_where [NotExistsC subTable fk pk (run_sub fb condition)] fb"

definition fb_InIDs :: "string \<Rightarrow> string list \<Rightarrow> condition" where
  "fb_InIDs col ids fb =
     (if length ids = 0 then add_where [NeverC] fb else add_where [InList col (map VString ids)] fb)"

definition fb_Where :: "string \<Rightarrow> sql_value list \<Rightarrow> condition" where
  "fb_Where query args fb = add_where [FreeC query args] fb"

fun apply_all :: "('t \<Rightarrow> condition) \<Rightarrow> 't list \<Rightarrow> condition" where
  "apply_all applyFn [] b = b"
| "apply_all applyFn (w # ws) b = apply_all applyFn ws (applyFn w b)"

definition ApplyLogical :: "'t list \<Rightarrow> 't list \<Rightarrow> 't option \<Rightarrow> ('t \<Rightarrow> condition) \<Rightarrow> condition" where
  "ApplyLogical ors ands nots applyFn fb =
     (let fb1 = (if 0 < length ors then fb_OR (map applyFn ors) fb else fb);
          fb2 = (if 0 < length ands then fb_AND [apply_all applyFn ands] fb1 else fb1)
      in (case nots of None \<Rightarrow> fb2 | Some w \<Rightarrow> fb_NOT (applyFn w) fb2))"

definition StringFilterToSearch :: "string_filter option \<Rightarrow> string option" where
  "StringFilterToSearch f =
     (case f of
        None \<Rightarrow> None
      | Some f \<Rightarrow>
          if sf_Contains f \<noteq> None then sf_Contains f
          else if sf_Equals f \<noteq> None then sf_Equals f
          else if sf_StartsWith f \<noteq> None then sf_StartsWith f
          else if sf_Like f \<noteq> None then sf_Like f
          else None)"

subsection \<open>Sorting\<close>

record sort_input =
  so_Field :: string
  so_Order :: string

definition fb_Order :: "string \<Rightarrow> condition" where
  "fb_Order txt fb = fb\<lparr>fb_orders := fb_orders fb @ [txt]\<rparr>"

definition direction :: "string \<Rightarrow> string" where
  "direction order = (if order = ''desc'' then ''DESC'' else ''ASC'')"

definition fb_OrderBy :: "string \<Rightarrow> string option \<Rightarrow> condition" where
  "fb_OrderBy col order fb =
     (case order of None \<Rightarrow> fb | Some ord \<Rightarrow> fb_Order (col @ '' '' @ direction ord) fb)"

definition fb_OrderByDefault :: "string \<Rightarrow> condition" where
  "fb_OrderByDefault order fb = fb_Order order fb"

definition upper_first :: "string \<Rightarrow> string" where
  "upper_first p = (case p of [] \<Rightarrow> [] | c # cs \<Rightarrow> go_upper [c] @ cs)"

definition snakeToCamel :: "string \<Rightarrow> string" where
  "snakeToCamel s =
     (case split_on CHR ''_'' s of [] \<Rightarrow> '''' | p # ps \<Rightarrow> join_with '''' (p # map upper_first ps))"

definition sort_column :: "(string \<times> string) list \<Rightarrow> string \<Rightarrow> string option" where
  "sort_column allowedFields field =
     (case map_of allowedFields field of
        Some col \<Rightarrow> Some col
      | None \<Rightarrow> map_of allowedFields (snakeToCamel field))"

fun sort_loop :: "(string \<times> string) list \<Rightarrow> sort_input option list \<Rightarrow> bool \<Rightarrow> filter_builder
    \<Rightarrow> bool \<times> filter_builder" where
  "sort_loop allowedFields [] applied fb = (applied, fb)"
| "sort_loop allowedFields (None # sorts) applied fb = sort_loop allowedFields sorts applied fb"
| "sort_loop allowedFields (Some s # sorts) applied fb =
     (case sort_column allowedFields (so_Field s) of
        None \<Rightarrow> sort_loop allowedFields sorts applied fb
      | Some col \<Rightarrow> sort_loop allowedFields sorts True (fb_Order (col @ '' '' @ direction (so_Order s)) fb))"

definition ApplySort :: "sort_input option list \<Rightarrow> (string \<times> string) list \<Rightarrow> condition" where
  "ApplySort sorts allowedFields fb =
     (let (applied, fb') = sort_loop allowedFields sorts False fb in
      if applied then fb'
      else fb_Order (if defaultOrder fb' = '''' then ''created_at DESC'' else defaultOrder fb') fb')"

subsection \<open>Pagination\<close>

record pagination_input =
  pi_Page :: int
  pi_Limit :: int

definition GetLimit :: "pagination_input option \<Rightarrow> int" where
  "GetLimit p = (case p of None \<Rightarrow> 20 | Some p \<Rightarrow> if pi_Limit p \<le> 0 then 20 else pi_Limit p)"

definition GetOffset :: "pagination_input option \<Rightarrow> int" where
  "GetOffset p =
     (case p of None \<Rightarrow> 0 | Some q \<Rightarrow> if pi_Page q \<le> 1 then 0 else (pi_Page q - 1) * GetLimit p)"

definition GetPage :: "pagination_input option \<Rightarrow> int" where
  "GetPage p = (case p of None \<Rightarrow> 1 | Some p \<Rightarrow> if pi_Page p \<le> 0 then 1 else pi_Page p)"

record pagination =
  pg_Page :: int
  pg_Limit :: int
  pg_Total :: int
  pg_TotalPages :: int

text \<open>\<open>int32(n)\<close> keeps the low 32 bits; \<open>/\<close> and \<open>%\<close> on integers truncate toward zero.\<close>

definition to_int32 :: "int \<Rightarrow> int" where
  "to_int32 n = (n + 2 ^ 31) mod 2 ^ 32 - 2 ^ 31"

definition NewPagination :: "pagination_input option \<Rightarrow> int \<Rightarrow> pagination" where
  "NewPagination input count =
     (let page = (case input of None \<Rightarrow> 1 | Some p \<Rightarrow> if 0 < pi_Page p then pi_Page p else 1);
          limit = (case input of None \<Rightarrow> 20 | Some p \<Rightarrow> if 0 < pi_Limit p then pi_Limit p else 20);
          totalInt = to_int32 count;
          totalPages = totalInt sdiv limit;
          totalPages = (if 0 < totalInt smod limit then to_int32 (totalPages + 1) else totalPages);
          totalPages = (if totalPages = 0 then 1 else totalPages)
      in \<lparr>pg_Page = page, pg_Limit = limit, pg_Total = totalInt, pg_TotalPages = totalPages\<rparr>)"

definition Paginate :: "pagination_input option \<Rightarrow> condition" where
  "Paginate p fb =
     (let limit = (case p of None \<Rightarrow> 20 | Some _ \<Rightarrow> GetLimit p);
          offset = (case p of None \<Rightarrow> 0 | Some _ \<Rightarrow> GetOffset p);
          limit = (if limit > maxLimit fb then maxLimit fb else limit)
      in fb\<lparr>fb_limit := Some limit, fb_offset := Some offset\<rparr>)"

subsection \<open>Execution\<close>

text \<open>The database: \<open>rows\<close> is the table, \<open>by_order\<close> the order it gives the selected rows for the ORDER BY
  texts. A negative or absent limit or offset is none. A database error is \<open>None\<close>; \<open>fails\<close> says which
  of the two statements fails.\<close>

definition matches :: "dialect \<Rightarrow> filter_builder \<Rightarrow> row \<Rightarrow> bool" where
  "matches D fb r = (tv_all (map (eval D r) (fb_where fb)) = Some True)"

definition find_rows :: "dialect \<Rightarrow> (string list \<Rightarrow> row list \<Rightarrow> row list) \<Rightarrow> row list \<Rightarrow> filter_builder \<Rightarrow> row list" where
  "find_rows D by_order rows fb =
     (let found = by_order (fb_orders fb) (filter (matches D fb) rows);
          rest = (case fb_offset fb of None \<Rightarrow> found | Some n \<Rightarrow> if n < 0 then found else drop (nat n) found)
      in (case fb_limit fb of None \<Rightarrow> rest | Some n \<Rightarrow> if n < 0 then rest else take (nat n) rest))"

definition fb_Count :: "dialect \<Rightarrow> row list \<Rightarrow> filter_builder \<Rightarrow> int" where
  "fb_Count D rows fb = int (length (filter (matches D fb) rows))"

definition FindWithCount :: "dialect \<Rightarrow> (string list \<Rightarrow> row list \<Rightarrow> row list) \<Rightarrow> row list \<Rightarrow> bool \<times> bool
    \<Rightarrow> pagination_input option \<Rightarrow> filter_builder \<Rightarrow> (row list \<times> pagination) option" where
  "FindWithCount D by_order rows fails p fb =
     (if fst fails then None
      else
        (let count = fb_Count D rows fb; fb' = Paginate p fb in
         if snd fails then None else Some (find_rows D by_order rows fb', NewPagination p count)))"

subsection \<open>No filter ever widens a query\<close>

lemma tv_all_True_iff: "tv_all bs = Some True \<longleftrightarrow> (\<forall>b\<in>set bs. b = Some True)"
  by (auto simp: tv_all_def) (metis (full_types) option.exhaust)

lemma matches_iff: "matches D fb r \<longleftrightarrow> (\<forall>c\<in>set (fb_where fb). eval D r c = Some True)"
  by (simp add: matches_def tv_all_True_iff)

text \<open>A builder operation narrows when it keeps every conjunct the builder already had. The operations
  and every composition of them narrow, and a narrowing operation never selects a row more.\<close>

definition narrows :: "condition \<Rightarrow> bool" where
  "narrows f \<longleftrightarrow> (\<forall>fb. set (fb_where fb) \<subseteq> set (fb_where (f fb)))"

locale builder_ops =
  fixes ops :: "condition set"
  assumes ops_narrow: "f \<in> ops \<Longrightarrow> narrows f"
begin

lemma run_keeps: "set fs \<subseteq> ops \<Longrightarrow> set (fb_where fb) \<subseteq> set (fb_where (fold (\<lambda>f. f) fs fb))"
proof (induction fs arbitrary: fb)
  case (Cons f fs)
  then have "set (fb_where fb) \<subseteq> set (fb_where (f fb))" using ops_narrow by (auto simp: narrows_def)
  with Cons.IH [of "f fb"] Cons.prems show ?case by auto
qed simp

lemma run_selects_less: "set fs \<subseteq> ops \<Longrightarrow> matches D (fold (\<lambda>f. f) fs fb) r \<Longrightarrow> matches D fb r"
  using run_keeps [of fs fb] by (auto simp: matches_iff)

end

named_theorems narrow_ops

lemma narrows_add_where [narrow_ops]: "narrows (add_where cs)"
  by (auto simp: narrows_def add_where_def)

lemma narrows_I: "(\<And>fb. f fb = fb \<or> (\<exists>cs. f fb = add_where cs fb)) \<Longrightarrow> narrows f"
  unfolding narrows_def using narrows_add_where [unfolded narrows_def] by (metis order_refl)

lemma narrows_typed [narrow_ops]:
  "narrows (fb_String col f1)" "narrows (fb_Int col f2)" "narrows (fb_Float col f3)"
  "narrows (fb_Bool col f4)" "narrows (fb_DateTime col f5)" "narrows (fb_ID col f6)" "narrows (fb_UUID col f6)"
  "narrows (fb_JSON col f7)" "narrows (fb_Search trm cols)" "narrows (fb_Enum col e n i ni)"
  by (rule narrows_I; auto simp: fb_String_def fb_Int_def fb_Float_def fb_Bool_def fb_DateTime_def fb_ID_def
      fb_UUID_def fb_JSON_def fb_Search_def fb_Enum_def split: option.split)+

lemma narrows_logical [narrow_ops]:
  "narrows (fb_OR cs)" "narrows (fb_NOT c)" "narrows (fb_Some t fk pk c)" "narrows (fb_None t fk pk c)"
  "narrows (fb_InIDs col ids)" "narrows (fb_Where q args)"
  by (rule narrows_I; auto simp: fb_OR_def fb_NOT_def fb_Some_def fb_None_def fb_InIDs_def fb_Where_def Let_def)+

lemma narrows_AND [narrow_ops]: "narrows (fb_AND cs)"
  unfolding narrows_def
proof
  fix fb
  show "set (fb_where fb) \<subseteq> set (fb_where (fb_AND cs fb))"
  proof (induction cs arbitrary: fb)
    case (Cons c cs)
    then show ?case
      using Cons.IH [of fb] Cons.IH [of "add_where [AllOf (run_sub fb c)] fb"]
      by (auto simp: Let_def add_where_def)
  qed simp
qed

lemma narrows_orders [narrow_ops]:
  "narrows (fb_Order t)" "narrows (fb_OrderBy col ord)" "narrows (fb_OrderByDefault t)" "narrows (Paginate p)"
  "narrows (SetMaxLimit m)" "narrows (SetDefaultOrder d)"
  by (auto simp: narrows_def fb_Order_def fb_OrderBy_def fb_OrderByDefault_def Paginate_def SetMaxLimit_def
      SetDefaultOrder_def Let_def split: option.split)

lemma narrows_ApplyLogical [narrow_ops]: "narrows (ApplyLogical ors ands nots applyFn)"
  unfolding narrows_def
proof
  fix fb
  have or_: "set (fb_where fb) \<subseteq> set (fb_where (fb_OR (map applyFn ors) fb))" for fb
    using narrows_logical(1) by (simp add: narrows_def)
  have and_: "set (fb_where fb) \<subseteq> set (fb_where (fb_AND [apply_all applyFn ands] fb))" for fb
    using narrows_AND unfolding narrows_def by blast
  have not_: "set (fb_where fb) \<subseteq> set (fb_where (fb_NOT (applyFn w) fb))" for fb w
    using narrows_logical(2) by (simp add: narrows_def)
  define fb1 where "fb1 = (if 0 < length ors then fb_OR (map applyFn ors) fb else fb)"
  define fb2 where "fb2 = (if 0 < length ands then fb_AND [apply_all applyFn ands] fb1 else fb1)"
  have run: "ApplyLogical ors ands nots applyFn fb = (case nots of None \<Rightarrow> fb2 | Some w \<Rightarrow> fb_NOT (applyFn w) fb2)"
    by (simp only: ApplyLogical_def Let_def fb1_def fb2_def)
  have "set (fb_where fb) \<subseteq> set (fb_where fb1)" using or_ [of fb] by (simp add: fb1_def)
  also have "\<dots> \<subseteq> set (fb_where fb2)" using and_ [of fb1] by (simp add: fb2_def del: fb_AND.simps)
  also have "\<dots> \<subseteq> set (fb_where (ApplyLogical ors ands nots applyFn fb))"
    using not_ [of fb2] by (simp add: run split: option.split)
  finally show "set (fb_where fb) \<subseteq> set (fb_where (ApplyLogical ors ands nots applyFn fb))" .
qed

lemma narrows_ApplySort [narrow_ops]: "narrows (ApplySort sorts allowedFields)"
proof -
  have loop: "set (fb_where fb) \<subseteq> set (fb_where (snd (sort_loop allowedFields sorts applied fb)))" for applied fb
    by (induction allowedFields sorts applied fb rule: sort_loop.induct)
      (auto simp: fb_Order_def split: option.split)
  show ?thesis
    using loop [of _ False] by (auto simp: narrows_def ApplySort_def fb_Order_def case_prod_unfold Let_def)
qed

text \<open>The operations a service can apply to a builder. A logical filter over any input type is one over
  the conditions its inputs stand for.\<close>

lemma apply_all_map: "apply_all (\<lambda>c. c) (map applyFn ws) b = apply_all applyFn ws b"
  by (induction ws arbitrary: b) simp_all

lemma ApplyLogical_conditions:
  "ApplyLogical ors ands nots applyFn = ApplyLogical (map applyFn ors) (map applyFn ands) (map_option applyFn nots) (\<lambda>c. c)"
  by (rule ext) (simp add: ApplyLogical_def Let_def apply_all_map run_sub_def split: option.split)

inductive_set filter_ops :: "condition set" where
  typed_string: "fb_String col f1 \<in> filter_ops"
| typed_int: "fb_Int col f2 \<in> filter_ops"
| typed_float: "fb_Float col f3 \<in> filter_ops"
| typed_bool: "fb_Bool col f4 \<in> filter_ops"
| typed_time: "fb_DateTime col f2 \<in> filter_ops"
| typed_id: "fb_ID col f6 \<in> filter_ops"
| typed_uuid: "fb_UUID col f6 \<in> filter_ops"
| typed_json: "fb_JSON col f7 \<in> filter_ops"
| search: "fb_Search trm cols \<in> filter_ops"
| enums: "fb_Enum col e n i ni \<in> filter_ops"
| ors: "fb_OR cs \<in> filter_ops"
| ands: "fb_AND cs \<in> filter_ops"
| nots: "fb_NOT c \<in> filter_ops"
| some: "fb_Some t fk pk c \<in> filter_ops"
| none: "fb_None t fk pk c \<in> filter_ops"
| ids: "fb_InIDs col xs \<in> filter_ops"
| free: "fb_Where q args \<in> filter_ops"
| logical: "ApplyLogical (os :: condition list) as n (\<lambda>c. c) \<in> filter_ops"
| order: "fb_OrderBy col ord \<in> filter_ops"
| default_order: "fb_OrderByDefault d \<in> filter_ops"
| sorting: "ApplySort sorts allowed \<in> filter_ops"
| page: "Paginate p \<in> filter_ops"
| page_max: "SetMaxLimit m \<in> filter_ops"
| set_default: "SetDefaultOrder d \<in> filter_ops"

interpretation builder: builder_ops filter_ops
proof
  fix f
  assume "f \<in> filter_ops"
  then show "narrows f" by cases (simp_all add: narrow_ops)
qed

text \<open>C13. No client input widens a query: after any sequence of builder operations, with whatever filters,
  nested AND, OR and NOT groups, searches, relation filters, sorting and paging, every row the builder
  selects is a row it selected before. So a condition put on the builder first (a tenant or ownership
  clause) cannot be argued away by the filters of the request.\<close>

theorem filters_only_narrow:
  assumes "set fs \<subseteq> filter_ops" and "matches D (fold (\<lambda>f. f) fs fb) r"
  shows "matches D fb r \<and> set (fb_where fb) \<subseteq> set (fb_where (fold (\<lambda>f. f) fs fb))"
  using builder.run_selects_less [OF assms] builder.run_keeps [OF assms(1)] by blast

definition plain_dialect :: dialect where
  "plain_dialect = \<lparr>d_like = \<lambda>i p s. s = p, d_regex = \<lambda>i p s. s = p, d_json = \<lambda>op v args. False,
     d_free = \<lambda>q args r. Some True, d_table = \<lambda>t. []\<rparr>"

lemma filters_only_narrow_witness:
  "let fb = fb_ID ''company_id'' (Some \<lparr>if_Equals = Some ''c1'', if_Not = None, if_In = [], if_NotIn = [], if_IsNull = None\<rparr>)
              newFilterBuilder;
       fs = [fb_OR [fb_InIDs ''company_id'' [''c2''], fb_InIDs ''id'' [''7'']]];
       mine = [''company_id'' \<mapsto> VString ''c1'', ''id'' \<mapsto> VString ''7'']
   in matches plain_dialect (fold (\<lambda>f. f) fs fb) mine \<and> matches plain_dialect fb mine"
proof -
  let ?fb = "fb_ID ''company_id'' (Some \<lparr>if_Equals = Some ''c1'', if_Not = None, if_In = [], if_NotIn = [], if_IsNull = None\<rparr>)
              newFilterBuilder"
  let ?fs = "[fb_OR [fb_InIDs ''company_id'' [''c2''], fb_InIDs ''id'' [''7'']]]"
  let ?mine = "[''company_id'' \<mapsto> VString ''c1'', ''id'' \<mapsto> VString ''7'']"
  have "matches plain_dialect (fold (\<lambda>f. f) ?fs ?fb) ?mine"
    by (simp add: matches_iff fb_ID_def add_where_def newFilterBuilder_def if_set_def if_any_def null_check_def
        fb_OR_def run_sub_def subFB_def fb_InIDs_def tv_any_def tv_all_def Let_def)
  moreover have "set ?fs \<subseteq> filter_ops" by (simp add: filter_ops.ors)
  ultimately show ?thesis using filters_only_narrow [of ?fs plain_dialect ?fb ?mine] by (simp add: Let_def)
qed

subsection \<open>The meaning of the typed filters\<close>

lemma matches_add_where:
  "matches D (add_where cs fb) r \<longleftrightarrow> matches D fb r \<and> (\<forall>c\<in>set cs. eval D r c = Some True)"
  by (auto simp: matches_iff add_where_def)

lemma all_if_set [simp]: "(\<forall>c\<in>set (if_set x f). P c) \<longleftrightarrow> (\<forall>v\<in>set_option x. P (f v))"
  by (cases x) (simp_all add: if_set_def)

lemma all_if_any [simp]: "(\<forall>c\<in>set (if_any xs f). P c) \<longleftrightarrow> xs = [] \<or> P (f xs)"
  by (auto simp: if_any_def)

text \<open>What an integer (or time) filter means for a value.\<close>

definition in_range :: "int range_filter \<Rightarrow> int \<Rightarrow> bool" where
  "in_range f n \<longleftrightarrow>
     (\<forall>v\<in>set_option (rf_Equals f). n = v) \<and> (\<forall>v\<in>set_option (rf_Not f). n \<noteq> v)
     \<and> (\<forall>v\<in>set_option (rf_Lt f). n < v) \<and> (\<forall>v\<in>set_option (rf_Lte f). n \<le> v)
     \<and> (\<forall>v\<in>set_option (rf_Gt f). n > v) \<and> (\<forall>v\<in>set_option (rf_Gte f). n \<ge> v)
     \<and> (rf_In f \<noteq> [] \<longrightarrow> n \<in> set (rf_In f)) \<and> n \<notin> set (rf_NotIn f)"

definition compares :: "'a range_filter \<Rightarrow> bool" where
  "compares f \<longleftrightarrow> rf_Equals f \<noteq> None \<or> rf_Not f \<noteq> None \<or> rf_Lt f \<noteq> None \<or> rf_Lte f \<noteq> None \<or> rf_Gt f \<noteq> None
     \<or> rf_Gte f \<noteq> None \<or> rf_In f \<noteq> [] \<or> rf_NotIn f \<noteq> []"

lemma null_check_holds:
  "(\<forall>c\<in>set (null_check col n). eval D r c = Some True) \<longleftrightarrow> (\<forall>b\<in>set_option n. b \<longleftrightarrow> r col = None)"
  by (cases n) (simp_all add: null_check_def)

text \<open>The rows an integer filter lets through: among the rows selected before, those whose value meets
  every bound, equality and list given, and that are not asked to be null; a row whose column is null
  passes only when the filter compares nothing and does not ask for a value, so \<open>not\<close> and \<open>notIn\<close> never
  select it. Empty lists restrict nothing.\<close>

theorem Int_filter_meaning:
  assumes "r col = None \<or> r col = Some (VInt n)"
  shows "matches D (fb_Int col (Some f) fb) r \<longleftrightarrow>
     matches D fb r \<and>
     (if r col = None then \<not> compares f \<and> rf_IsNull f \<noteq> Some False
      else in_range f n \<and> rf_IsNull f \<noteq> Some True)"
proof (cases "r col = None")
  case True
  have "(\<forall>c\<in>set (range_conds VInt col f). eval D r c = Some True) \<longleftrightarrow> \<not> compares f \<and> rf_IsNull f \<noteq> Some False"
    using True
    by (cases "rf_IsNull f") (simp_all add: range_conds_def compares_def ball_Un null_check_holds, blast+)
  with True show ?thesis by (simp add: fb_Int_def matches_add_where)
next
  case False
  with assms have n: "r col = Some (VInt n)" by simp
  have "(\<forall>c\<in>set (range_conds VInt col f). eval D r c = Some True) \<longleftrightarrow> in_range f n \<and> rf_IsNull f \<noteq> Some True"
    using n
    by (cases "rf_IsNull f") (auto simp: range_conds_def in_range_def ball_Un null_check_holds image_iff)
  then show ?thesis using n by (simp add: fb_Int_def matches_add_where)
qed

definition no_range :: "int range_filter" where
  "no_range = \<lparr>rf_Equals = None, rf_Not = None, rf_In = [], rf_NotIn = [], rf_Lt = None, rf_Lte = None,
     rf_Gt = None, rf_Gte = None, rf_IsNull = None\<rparr>"

lemma Int_filter_meaning_witness:
  "let f = no_range\<lparr>rf_Gte := Some 3, rf_NotIn := [5]\<rparr> in
   matches plain_dialect (fb_Int ''miles'' (Some f) newFilterBuilder) [''miles'' \<mapsto> VInt 4]
   \<and> \<not> matches plain_dialect (fb_Int ''miles'' (Some f) newFilterBuilder) [''miles'' \<mapsto> VInt 5]
   \<and> \<not> matches plain_dialect (fb_Int ''miles'' (Some f) newFilterBuilder) Map.empty"
  using Int_filter_meaning [of "[''miles'' \<mapsto> VInt 4]" "''miles''" 4 plain_dialect]
    Int_filter_meaning [of "[''miles'' \<mapsto> VInt 5]" "''miles''" 5 plain_dialect]
    Int_filter_meaning [of Map.empty "''miles''" 0 plain_dialect]
  by (simp add: Let_def in_range_def compares_def no_range_def matches_iff newFilterBuilder_def)

subsection \<open>Sorting\<close>

definition sort_texts :: "(string \<times> string) list \<Rightarrow> sort_input option list \<Rightarrow> string list" where
  "sort_texts allowedFields sorts =
     List.map_filter (\<lambda>s. case s of None \<Rightarrow> None
       | Some s \<Rightarrow> map_option (\<lambda>col. col @ '' '' @ direction (so_Order s)) (sort_column allowedFields (so_Field s))) sorts"

lemma sort_loop_texts:
  "sort_loop allowedFields sorts applied fb =
     (applied \<or> sort_texts allowedFields sorts \<noteq> [],
      fb\<lparr>fb_orders := fb_orders fb @ sort_texts allowedFields sorts\<rparr>)"
  by (induction allowedFields sorts applied fb rule: sort_loop.induct)
    (auto simp: sort_texts_def map_filter_simps fb_Order_def split: option.splits)

lemma sort_column_allowed:
  "sort_column allowedFields field = Some col \<Longrightarrow> col \<in> snd ` set allowedFields"
  by (auto simp: sort_column_def split: option.splits dest!: map_of_SomeD intro: rev_image_eqI)

text \<open>Sorting cannot inject SQL: \<open>ApplySort\<close> appends, in the order of the request, one text per entry
  whose field is whitelisted under its own name or its camel-case spelling, and every appended text is a
  column of the whitelist followed by \<open>ASC\<close> or \<open>DESC\<close>, whatever field and order strings the client sent;
  with no such entry it appends the builder's default order (never an empty one).\<close>

theorem ApplySort_whitelist:
  "\<exists>texts. fb_orders (ApplySort sorts allowedFields fb) = fb_orders fb @ texts \<and> texts \<noteq> []
     \<and> fb_where (ApplySort sorts allowedFields fb) = fb_where fb
     \<and> (if sort_texts allowedFields sorts = []
        then texts = [if defaultOrder fb = '''' then ''created_at DESC'' else defaultOrder fb]
        else texts = sort_texts allowedFields sorts
          \<and> (\<forall>t\<in>set texts. \<exists>col\<in>snd ` set allowedFields. t = col @ '' ASC'' \<or> t = col @ '' DESC''))"
proof (cases "sort_texts allowedFields sorts = []")
  case True
  then show ?thesis by (simp add: ApplySort_def sort_loop_texts fb_Order_def)
next
  case False
  have "\<exists>col\<in>snd ` set allowedFields. t = col @ '' ASC'' \<or> t = col @ '' DESC''"
    if t: "t \<in> set (sort_texts allowedFields sorts)" for t
  proof -
    from t obtain s where s: "Some s \<in> set sorts"
        "sort_column allowedFields (so_Field s) \<noteq> None"
        "t = the (map_option (\<lambda>col. col @ '' '' @ direction (so_Order s)) (sort_column allowedFields (so_Field s)))"
      by (auto simp: sort_texts_def List.map_filter_def split: option.splits)
    then obtain col where "t = col @ '' '' @ direction (so_Order s)" "sort_column allowedFields (so_Field s) = Some col"
      by auto
    moreover have "direction ord = ''ASC'' \<or> direction ord = ''DESC''" for ord by (simp add: direction_def)
    ultimately show ?thesis using sort_column_allowed by fastforce
  qed
  with False show ?thesis by (simp add: ApplySort_def sort_loop_texts)
qed

lemma ApplySort_whitelist_witness:
  "let fb = ApplySort [Some \<lparr>so_Field = ''name; DROP TABLE users'', so_Order = ''desc''\<rparr>,
                       Some \<lparr>so_Field = ''created_at'', so_Order = ''desc; --''\<rparr>]
              [(''createdAt'', ''loads.created_at'')] newFilterBuilder
   in fb_orders fb = [''loads.created_at ASC''] \<and> fb_where fb = []"
proof -
  let ?sorts = "[Some \<lparr>so_Field = ''name; DROP TABLE users'', so_Order = ''desc''\<rparr>,
                 Some \<lparr>so_Field = ''created_at'', so_Order = ''desc; --''\<rparr>]"
  have "sort_texts [(''createdAt'', ''loads.created_at'')] ?sorts = [''loads.created_at ASC'']"
    by code_simp
  with ApplySort_whitelist [of ?sorts "[(''createdAt'', ''loads.created_at'')]" newFilterBuilder] show ?thesis
    by (auto simp: Let_def newFilterBuilder_def)
qed

subsection \<open>Pages\<close>

lemma to_int32_id: "0 \<le> n \<Longrightarrow> n < 2 ^ 31 \<Longrightarrow> to_int32 n = n"
  by (simp add: to_int32_def)

lemma Paginate_where [simp]: "fb_where (Paginate p fb) = fb_where fb" "fb_orders (Paginate p fb) = fb_orders fb"
  by (simp_all add: Paginate_def Let_def)

text \<open>The rows in the order of the query, before paging.\<close>

definition result_rows :: "dialect \<Rightarrow> (string list \<Rightarrow> row list \<Rightarrow> row list) \<Rightarrow> row list \<Rightarrow> filter_builder \<Rightarrow> row list" where
  "result_rows D by_order rows fb = by_order (fb_orders fb) (filter (matches D fb) rows)"

definition page_of :: "int \<Rightarrow> nat \<Rightarrow> pagination_input option" where
  "page_of per k = Some \<lparr>pi_Page = int k + 1, pi_Limit = per\<rparr>"

lemma find_page:
  assumes "0 < per" and "0 < maxLimit fb"
  shows "find_rows D by_order rows (Paginate (page_of per k) fb) =
     take (nat (min per (maxLimit fb))) (drop (k * nat per) (result_rows D by_order rows fb))"
proof -
  have "nat (int k * per) = k * nat per" using assms(1) by (simp add: nat_mult_distrib)
  moreover have "matches D (fb\<lparr>fb_limit := a, fb_offset := b\<rparr>) = matches D fb" for a b
    by (rule ext) (simp add: matches_def)
  ultimately show ?thesis
    using assms
    by (auto simp: find_rows_def Paginate_def page_of_def GetLimit_def GetOffset_def result_rows_def Let_def min_def
        mult_less_0_iff)
qed

lemma concat_pages:
  "0 < n \<Longrightarrow> length xs \<le> m * n \<Longrightarrow> concat (map (\<lambda>k. take n (drop (k * n) xs)) [0..<m]) = xs"
proof (induction m arbitrary: xs)
  case (Suc m)
  have "[0..<Suc m] = 0 # map Suc [0..<m]" by (simp add: upt_conv_Cons map_Suc_upt del: upt_Suc)
  then have "concat (map (\<lambda>k. take n (drop (k * n) xs)) [0..<Suc m]) =
      take n xs @ concat (map (\<lambda>k. take n (drop (k * n) (drop n xs))) [0..<m])"
    by (simp add: comp_def add.commute del: upt_Suc)
  also have "\<dots> = take n xs @ drop n xs"
    using Suc.IH [of "drop n xs"] Suc.prems by simp
  finally show ?case by simp
qed simp

lemma trunc_pos:
  assumes "(0::int) \<le> n" and "0 < per"
  shows "n sdiv per = n div per" and "n smod per = n mod per"
  using assms by (auto simp: signed_divide_int_def signed_modulo_int_def sgn_if minus_div_mult_eq_mod)

lemma NewPagination_pages:
  assumes "0 < per" and "0 \<le> n" and "n < 2 ^ 31"
  shows "pg_Total (NewPagination (page_of per k) n) = n"
    and "n \<le> pg_TotalPages (NewPagination (page_of per k) n) * per"
    and "(pg_TotalPages (NewPagination (page_of per k) n) - 1) * per < max n 1"
    and "1 \<le> pg_TotalPages (NewPagination (page_of per k) n)"
proof -
  define q where "q = n div per"
  define m where "m = n mod per"
  have n: "n = q * per + m" by (simp add: q_def m_def)
  have q: "0 \<le> q" using assms by (simp add: q_def pos_imp_zdiv_nonneg_iff)
  have m: "0 \<le> m" "m < per" using assms by (simp_all add: m_def)
  have q_le: "q < 2 ^ 31 - 1" if "0 < m"
  proof -
    from that m have "2 \<le> per" by linarith
    with q have "q * 2 \<le> q * per" by (intro mult_left_mono) simp_all
    with n that assms(3) show ?thesis by simp
  qed
  define t where "t = (if 0 < m then q + 1 else q)"
  have pages: "pg_TotalPages (NewPagination (page_of per k) n) = (if t = 0 then 1 else t)"
    using assms trunc_pos [OF assms(2,1)] q q_le
    by (auto simp: NewPagination_def page_of_def Let_def to_int32_id t_def q_def m_def)
  show "pg_Total (NewPagination (page_of per k) n) = n"
    using assms by (simp add: NewPagination_def Let_def to_int32_id)
  show "n \<le> pg_TotalPages (NewPagination (page_of per k) n) * per"
    unfolding pages using n m q assms(1) by (auto simp: t_def distrib_right)
  show "(pg_TotalPages (NewPagination (page_of per k) n) - 1) * per < max n 1"
    unfolding pages using n m q assms(1) by (auto simp: t_def distrib_right left_diff_distrib)
  show "1 \<le> pg_TotalPages (NewPagination (page_of per k) n)"
    unfolding pages using q by (simp add: t_def)
qed


definition id_rows :: "row list" where
  "id_rows = map (\<lambda>i. [''id'' \<mapsto> VInt i]) [1, 2, 3]"


end
