(* ===== verification/Events.thy ===== *)
theory Events
  imports Request_Context
begin

text \<open>
  The event contract of the audit log (\<open>src/eventlog/events\<close>) and the producer side in the transaction
  manager (\<open>src/tmsdb/gorm_tm.go\<close>, \<open>event_builder.go\<close>): sensitivity classes and their
  classification, participants, the field-level diff, and \<open>writeEvent\<close> with its savepoint.

  Reflection is modelled by what the code asks of it: a Go value is a struct with the list of its
  fields (name, exported flag, json tag, type) and their values, a pointer, or something else.
  Field values are an arbitrary type with equality for \<open>reflect.DeepEqual\<close>.
\<close>

subsection \<open>Sensitivity\<close>

type_synonym sensitivity = string

definition SensitivityOperational :: sensitivity where "SensitivityOperational = ''OPERATIONAL''"
definition SensitivityFinancial :: sensitivity where "SensitivityFinancial = ''FINANCIAL''"
definition SensitivityHR :: sensitivity where "SensitivityHR = ''HR''"
definition SensitivityCompliance :: sensitivity where "SensitivityCompliance = ''COMPLIANCE''"
definition SensitivitySecurity :: sensitivity where "SensitivitySecurity = ''SECURITY''"

lemmas sensitivity_defs = SensitivityOperational_def SensitivityFinancial_def SensitivityHR_def
  SensitivityCompliance_def SensitivitySecurity_def

definition sensitivityRank :: "(sensitivity \<times> int) list" where
  "sensitivityRank = [(SensitivityOperational, 0), (SensitivityHR, 1), (SensitivityCompliance, 2),
     (SensitivityFinancial, 3), (SensitivitySecurity, 4)]"

text \<open>A map lookup of a missing key is the zero value.\<close>

definition rank :: "sensitivity \<Rightarrow> int" where
  "rank s = map_get sensitivityRank s 0"

definition Sensitivity_Valid :: "sensitivity \<Rightarrow> bool" where
  "Sensitivity_Valid s = has_key sensitivityRank s"

definition Stricter :: "sensitivity \<Rightarrow> sensitivity \<Rightarrow> sensitivity" where
  "Stricter a b = (if rank b > rank a then b else a)"

definition financialEntities :: "string list" where
  "financialEntities = [''invoices'', ''invoice_lines'', ''invoice_credit_memos'', ''invoice_events'',
     ''payments'', ''pay_batches'', ''pay_batch_items'', ''pay_statements'', ''statement_events'',
     ''adjustments'', ''driver_tariff_assignments'']"

definition complianceEntities :: "string list" where
  "complianceEntities = [''files'']"

definition hrEntities :: "string list" where
  "hrEntities = [''drivers'']"

definition securityEntities :: "string list" where
  "securityEntities = [''sessions'', ''user_permissions'', ''role_permissions'', ''ip_rules'']"

definition isSecurityAction :: "string \<Rightarrow> bool" where
  "isSecurityAction action =
     (let a = go_lower action in
      go_contains a ''permission'' \<or> go_contains a ''session_revoked'' \<or> go_contains a ''session_kicked''
      \<or> go_contains a ''role_changed'')"

definition moneyFieldTokens :: "string list" where
  "moneyFieldTokens = [''pay'', ''rate'', ''margin'', ''amount'', ''price'', ''cost'', ''charge'',
     ''invoice'', ''tariff'', ''deduction'', ''salary'', ''wage'', ''balance'',
     ''revenue'', ''linehaul'', ''gross_'', ''_gross'', ''net_'', ''_net'', ''fee'']"

definition isMoneyField :: "string \<Rightarrow> bool" where
  "isMoneyField field = (let f = go_lower field in list_ex (go_contains f) moneyFieldTokens)"

definition baseClass :: "string \<Rightarrow> string \<Rightarrow> sensitivity" where
  "baseClass entityType action =
     (if entityType \<in> set financialEntities then SensitivityFinancial
      else if entityType \<in> set complianceEntities then SensitivityCompliance
      else if entityType \<in> set hrEntities then SensitivityHR
      else if entityType \<in> set securityEntities \<or> isSecurityAction action then SensitivitySecurity
      else SensitivityOperational)"

fun escalate :: "sensitivity \<Rightarrow> string list \<Rightarrow> sensitivity" where
  "escalate c [] = c"
| "escalate c (f # fs) = escalate (if isMoneyField f then Stricter c SensitivityFinancial else c) fs"

definition Classify :: "string \<Rightarrow> string \<Rightarrow> string \<Rightarrow> string list \<Rightarrow> sensitivity" where
  "Classify sourceService entityType action changedFields = escalate (baseClass entityType action) changedFields"

definition LeafToRoot :: "(string \<times> string) list" where
  "LeafToRoot =
    [(''shipments'', ''shipments''), (''shipment_events'', ''shipments''),
     (''shipment_legs'', ''shipments''), (''trips'', ''shipments''),
     (''trip_events'', ''shipments''), (''trip_stops'', ''shipments''),
     (''users'', ''users''), (''user_events'', ''users''), (''companies'', ''companies''),
     (''brokers'', ''brokers''), (''customers'', ''brokers''),
     (''customer_contacts'', ''brokers''), (''customer_comments'', ''brokers''),
     (''customer_warnings'', ''brokers''), (''customer_addresses'', ''brokers''),
     (''customer_credit_scores'', ''brokers''), (''driver_crews'', ''driver_crews''),
     (''driver_crew_items'', ''driver_crews''), (''driver_pto_events'', ''driver_crews''),
     (''driver_status'', ''driver_crews''), (''share_links'', ''share_links''),
     (''notifications'', ''notifications''), (''trucks'', ''trucks''),
     (''truck_events'', ''trucks''), (''truck_locations'', ''trucks''),
     (''trailers'', ''trailers''), (''trailer_events'', ''trailers''),
     (''invoices'', ''invoices''), (''invoice_events'', ''invoices''),
     (''invoice_lines'', ''invoices''), (''invoice_credit_memos'', ''invoices''),
     (''payments'', ''invoices''), (''pay_batches'', ''pay_batches''),
     (''pay_batch_items'', ''pay_batches''), (''files'', ''files''),
     (''file_events'', ''files''), (''order_files'', ''files''),
     (''rate_confirmations'', ''rate_confirmations''),
     (''rc_events'', ''rate_confirmations''), (''conversations'', ''conversations''),
     (''messages'', ''conversations''), (''mentions'', ''conversations''),
     (''thread_access'', ''conversations''), (''workspaces'', ''workspaces''),
     (''boards'', ''workspaces''), (''board_columns'', ''workspaces''),
     (''board_values'', ''workspaces'')]"

subsection \<open>Participants\<close>

record Participant =
  p_ID :: uuid
  p_Kind :: string
  p_Role :: string

definition ParticipantActor :: string where "ParticipantActor = ''ACTOR''"

definition Driver :: "uuid \<Rightarrow> string \<Rightarrow> Participant" where
  "Driver u role = \<lparr>p_ID = u, p_Kind = ''driver'', p_Role = role\<rparr>"

definition hasActor :: "Participant list \<Rightarrow> bool" where
  "hasActor ps = list_ex (\<lambda>p. p_Role p = ParticipantActor) ps"

definition with_actor :: "Participant list \<Rightarrow> uuid option \<Rightarrow> Participant list" where
  "with_actor ps actorID =
     (case actorID of
        None \<Rightarrow> ps
      | Some u \<Rightarrow>
          if u = uuid_Nil \<or> hasActor ps then ps
          else \<lparr>p_ID = u, p_Kind = ''user'', p_Role = ParticipantActor\<rparr> # ps)"

fun participant_ids :: "uuid set \<Rightarrow> Participant list \<Rightarrow> uuid list" where
  "participant_ids seen [] = []"
| "participant_ids seen (p # ps) =
     (if p_ID p = uuid_Nil then participant_ids seen ps
      else if p_ID p \<in> seen then participant_ids seen ps
      else p_ID p # participant_ids (insert (p_ID p) seen) ps)"

definition ParticipantIDs :: "Participant list \<Rightarrow> uuid list" where
  "ParticipantIDs ps = participant_ids {} ps"

subsection \<open>The field diff\<close>

datatype go_kind = KPtr go_kind | KTime | KStruct string | KSlice go_kind | KArray go_kind | KMap | KUint8
  | KInterface | KScalar string

record struct_field =
  sf_Name :: string
  sf_exported :: bool
  sf_json :: string
  sf_Type :: go_kind

datatype 'v go_value = NilIface | NilPtr | PtrTo "'v go_value" | StructVal string "(struct_field \<times> 'v) list"
  | OtherVal 'v

record 'v change =
  ch_Field :: string
  ch_OldValue :: 'v
  ch_NewValue :: 'v

fun deref :: "go_kind \<Rightarrow> go_kind" where
  "deref (KPtr t) = deref t"
| "deref t = t"

fun is_struct :: "go_kind \<Rightarrow> bool" where
  "is_struct KTime = True"
| "is_struct (KStruct n) = True"
| "is_struct _ = False"

definition isAssociationField :: "go_kind \<Rightarrow> bool" where
  "isAssociationField t =
     (case deref t of
        KTime \<Rightarrow> False
      | KStruct n \<Rightarrow> True
      | KSlice e \<Rightarrow> if deref e = KUint8 then False else is_struct (deref e)
      | KArray e \<Rightarrow> if deref e = KUint8 then False else is_struct (deref e)
      | KMap \<Rightarrow> True
      | _ \<Rightarrow> False)"

fun Indirect :: "'v go_value \<Rightarrow> 'v go_value" where
  "Indirect (PtrTo v) = v"
| "Indirect v = v"

definition tag_name :: "struct_field \<Rightarrow> string" where
  "tag_name f = (if sf_json f \<noteq> '''' then hd (split_on CHR '','' (sf_json f)) else sf_Name f)"

fun diff_fields :: "(struct_field \<times> 'v) list \<Rightarrow> (struct_field \<times> 'v) list \<Rightarrow> 'v change list" where
  "diff_fields ((f, a) # fas) ((g, b) # fbs) =
     (if \<not> sf_exported f then diff_fields fas fbs
      else if sf_json f = ''-'' \<or> isAssociationField (sf_Type f) then diff_fields fas fbs
      else if a \<noteq> b then \<lparr>ch_Field = tag_name f, ch_OldValue = a, ch_NewValue = b\<rparr> # diff_fields fas fbs
      else diff_fields fas fbs)"
| "diff_fields _ _ = []"

text \<open>Two struct values have the same type when their type name and field descriptions agree.\<close>

definition CalculateChanges :: "'v go_value \<Rightarrow> 'v go_value \<Rightarrow> 'v change list" where
  "CalculateChanges oldVal newVal =
     (if oldVal = NilIface \<or> newVal = NilIface then []
      else
        (case (Indirect oldVal, Indirect newVal) of
           (StructVal n fas, StructVal m fbs) \<Rightarrow>
             if n = m \<and> map fst fas = map fst fbs then diff_fields fas fbs else []
         | _ \<Rightarrow> []))"

subsection \<open>Classification\<close>

lemma rank_values [simp]:
  "rank SensitivityOperational = 0" "rank SensitivityHR = 1" "rank SensitivityCompliance = 2"
  "rank SensitivityFinancial = 3" "rank SensitivitySecurity = 4"
  by (simp_all add: rank_def sensitivityRank_def map_get_def sensitivity_defs)

lemma class_valid [simp]:
  "Sensitivity_Valid SensitivityOperational" "Sensitivity_Valid SensitivityHR"
  "Sensitivity_Valid SensitivityCompliance" "Sensitivity_Valid SensitivityFinancial"
  "Sensitivity_Valid SensitivitySecurity"
  by (simp_all add: Sensitivity_Valid_def has_key_iff sensitivityRank_def)

lemma baseClass_valid: "Sensitivity_Valid (baseClass e a)"
  by (simp add: baseClass_def)

lemma Stricter_idem [simp]: "Stricter (Stricter c d) d = Stricter c d"
  by (simp add: Stricter_def)

lemma escalate_eq: "escalate c fs = (if list_ex isMoneyField fs then Stricter c SensitivityFinancial else c)"
  by (induction c fs rule: escalate.induct) auto

text \<open>C15. Classification by the stricter rule: the class of an event is always one of the five known
  classes; it is FINANCIAL or SECURITY as soon as one changed field denotes money, never below the class
  of its entity and action, and depends on the changed fields only through whether one of them denotes
  money, in whatever order. An event on an entity that is financial by nature stays FINANCIAL even when
  its action is a security action (so below the SECURITY class such an action has elsewhere).\<close>

theorem Classify_stricter:
  "Sensitivity_Valid (Classify svc e a fs)
   \<and> rank (Classify svc e a fs) = max (rank (baseClass e a)) (if list_ex isMoneyField fs then rank SensitivityFinancial else 0)
   \<and> (list_ex isMoneyField fs \<longrightarrow> Classify svc e a fs \<in> {SensitivityFinancial, SensitivitySecurity})
   \<and> (e \<in> set financialEntities \<longrightarrow> Classify svc e a fs = SensitivityFinancial)
   \<and> (Classify svc e a fs = SensitivitySecurity \<longleftrightarrow>
        e \<notin> set financialEntities \<union> set complianceEntities \<union> set hrEntities
        \<and> (e \<in> set securityEntities \<or> isSecurityAction a))"
proof -
  have base: "baseClass e a \<in> {SensitivityOperational, SensitivityHR, SensitivityCompliance, SensitivityFinancial,
      SensitivitySecurity}"
    by (simp add: baseClass_def)
  have apart: "SensitivityFinancial \<noteq> SensitivitySecurity" "SensitivityOperational \<noteq> SensitivitySecurity"
    "SensitivityHR \<noteq> SensitivitySecurity" "SensitivityCompliance \<noteq> SensitivitySecurity"
    by (simp_all add: sensitivity_defs)
  have security: "baseClass e a = SensitivitySecurity \<longleftrightarrow>
      e \<notin> set financialEntities \<union> set complianceEntities \<union> set hrEntities
      \<and> (e \<in> set securityEntities \<or> isSecurityAction a)"
    using apart by (simp add: baseClass_def)
  have fin: "e \<in> set financialEntities \<longrightarrow> baseClass e a = SensitivityFinancial"
    by (simp add: baseClass_def)
  show ?thesis
    unfolding security [symmetric] Classify_def escalate_eq
    using base apart fin by (auto simp: Stricter_def)
qed

lemma Classify_stricter_witness:
  "Classify ''loads'' ''shipments'' ''updated'' [''status'', ''loadPay''] = SensitivityFinancial
   \<and> Classify ''auth'' ''users'' ''permissions_changed'' [''base_rate''] = SensitivitySecurity
   \<and> Classify ''billing'' ''invoices'' ''permissions_changed'' [] = SensitivityFinancial"
proof -
  have money: "isMoneyField ''loadPay''" and action: "isSecurityAction ''permissions_changed''" by code_simp+
  have not_security: "Classify svc e a fs \<noteq> SensitivitySecurity"
    if "\<not> (e \<in> set securityEntities \<or> isSecurityAction a)" for svc e a fs
    using that Classify_stricter [of svc e a fs, THEN conjunct2, THEN conjunct2, THEN conjunct2, THEN conjunct2] by blast
  have "\<not> (''shipments'' \<in> set securityEntities \<or> isSecurityAction ''updated'')" by code_simp
  moreover have "list_ex isMoneyField [''status'', ''loadPay'']" using money by simp
  ultimately have 1: "Classify ''loads'' ''shipments'' ''updated'' [''status'', ''loadPay''] = SensitivityFinancial"
    using Classify_stricter [THEN conjunct2, THEN conjunct2, THEN conjunct1] not_security by blast
  have "''users'' \<notin> set financialEntities \<union> set complianceEntities \<union> set hrEntities
      \<and> (''users'' \<in> set securityEntities \<or> isSecurityAction ''permissions_changed'')"
    using action by (simp add: financialEntities_def complianceEntities_def hrEntities_def)
  then have 2: "Classify ''auth'' ''users'' ''permissions_changed'' [''base_rate''] = SensitivitySecurity"
    by (rule Classify_stricter [THEN conjunct2, THEN conjunct2, THEN conjunct2, THEN conjunct2, THEN iffD2])
  have 3: "Classify ''billing'' ''invoices'' ''permissions_changed'' [] = SensitivityFinancial"
    by (rule Classify_stricter [THEN conjunct2, THEN conjunct2, THEN conjunct2, THEN conjunct1, THEN mp])
      (simp add: financialEntities_def)
  from 1 2 3 show ?thesis by blast
qed

text \<open>The field-name test is not insensitive to separators for the tokens that carry one.\<close>

lemma money_field_separator: "isMoneyField ''gross_total'' \<and> \<not> isMoneyField ''grossTotal''"
  by code_simp

subsection \<open>The diff\<close>

lemma diff_fields_eq:
  "map fst fas = map fst fbs \<Longrightarrow> diff_fields fas fbs =
     map (\<lambda>((f, a), (g, b)). \<lparr>ch_Field = tag_name f, ch_OldValue = a, ch_NewValue = b\<rparr>)
       (filter (\<lambda>((f, a), (g, b)). sf_exported f \<and> sf_json f \<noteq> ''-'' \<and> \<not> isAssociationField (sf_Type f) \<and> a \<noteq> b)
         (zip fas fbs))"
  by (induction fas fbs rule: diff_fields.induct) auto

lemma diff_fields_self: "diff_fields fas fas = []"
  by (induction fas) auto

text \<open>The kinds of field a change may be about: a change is never about a struct (other than a time), a
  map, or a list or array of structs, behind any number of pointers.\<close>

fun scalar_kind :: "go_kind \<Rightarrow> bool" where
  "scalar_kind (KPtr t) = scalar_kind t"
| "scalar_kind KTime = True"
| "scalar_kind (KStruct n) = False"
| "scalar_kind (KSlice e) = (deref e = KUint8 \<or> \<not> is_struct (deref e))"
| "scalar_kind (KArray e) = (deref e = KUint8 \<or> \<not> is_struct (deref e))"
| "scalar_kind KMap = False"
| "scalar_kind _ = True"

lemma isAssociationField_iff: "isAssociationField t \<longleftrightarrow> \<not> scalar_kind t"
  by (induction t) (simp_all add: isAssociationField_def)

definition audited :: "struct_field \<Rightarrow> bool" where
  "audited f \<longleftrightarrow> sf_exported f \<and> sf_json f \<noteq> ''-'' \<and> scalar_kind (sf_Type f)"

text \<open>The audit diff is exact: for two values of one struct type, given directly or by pointer,
  \<open>CalculateChanges\<close> lists in field order exactly the exported scalar fields not tagged away whose values
  differ, each under its json name with its old and new value, so no object-valued field ever produces a
  change and diffing a value with itself is empty; for anything else (a nil, a nil pointer, two types)
  the diff is empty.\<close>

theorem CalculateChanges_exact:
  "(map fst fas = map fst fbs \<longrightarrow>
      CalculateChanges (StructVal n fas) (StructVal n fbs) =
        map (\<lambda>((f, a), (g, b)). \<lparr>ch_Field = tag_name f, ch_OldValue = a, ch_NewValue = b\<rparr>)
          (filter (\<lambda>((f, a), (g, b)). audited f \<and> a \<noteq> b) (zip fas fbs)))
   \<and> CalculateChanges (PtrTo u) (PtrTo v) = (if u = NilIface \<or> v = NilIface then [] else
        (case (u, v) of (StructVal n fas, StructVal m fbs) \<Rightarrow> CalculateChanges u v | _ \<Rightarrow> []))
   \<and> CalculateChanges v v = []
   \<and> CalculateChanges NilIface v = [] \<and> CalculateChanges v NilIface = [] \<and> CalculateChanges NilPtr v = []
   \<and> (n \<noteq> m \<longrightarrow> CalculateChanges (StructVal n fas) (StructVal m fbs) = [])"
proof -
  have "CalculateChanges v v = []"
    by (cases "Indirect v") (simp_all add: CalculateChanges_def diff_fields_self)
  then show ?thesis
    by (auto simp: CalculateChanges_def diff_fields_eq audited_def isAssociationField_iff conj_assoc
        split: go_value.split prod.split)
qed

lemma CalculateChanges_exact_witness:
  "let f = (\<lambda>n t. \<lparr>sf_Name = n, sf_exported = True, sf_json = '''', sf_Type = t\<rparr>);
       fs = [f ''Rate'' (KScalar ''int''), f ''Shipment'' (KPtr (KStruct ''Shipment'')), f ''Note'' (KPtr (KScalar ''string''))]
   in CalculateChanges (StructVal ''Trip'' (zip fs [1, 2, 3])) (StructVal ''Trip'' (zip fs [9, 8, 3]))
      = [\<lparr>ch_Field = ''Rate'', ch_OldValue = 1, ch_NewValue = (9::int)\<rparr>]"
proof -
  let ?f = "\<lambda>n t. \<lparr>sf_Name = n, sf_exported = True, sf_json = '''', sf_Type = t\<rparr>"
  let ?fs = "[?f ''Rate'' (KScalar ''int''), ?f ''Shipment'' (KPtr (KStruct ''Shipment'')), ?f ''Note'' (KPtr (KScalar ''string''))]"
  have "map fst (zip ?fs [1, 2, 3::int]) = map fst (zip ?fs [9, 8, 3::int])" by simp
  from CalculateChanges_exact [THEN conjunct1, THEN mp, OF this] show ?thesis
    by (simp add: Let_def audited_def tag_name_def)
qed

subsection \<open>Building an event\<close>

record 'v event_builder =
  eb_aggType :: string
  eb_evtType :: string
  eb_aggID :: uuid
  eb_rootType :: string
  eb_rootID :: uuid
  eb_topic :: string
  eb_data :: "'v go_value"
  eb_oldData :: "'v go_value"
  eb_reason :: "string option"
  eb_sensitivity :: sensitivity
  eb_participants :: "Participant list"

definition Event :: "string \<Rightarrow> string \<Rightarrow> uuid \<Rightarrow> 'v event_builder" where
  "Event aggType evtType aggID = \<lparr>eb_aggType = aggType, eb_evtType = evtType, eb_aggID = aggID,
     eb_rootType = '''', eb_rootID = uuid_Nil, eb_topic = '''', eb_data = NilIface, eb_oldData = NilIface,
     eb_reason = None, eb_sensitivity = '''', eb_participants = []\<rparr>"

definition WithRoot :: "string \<Rightarrow> uuid \<Rightarrow> 'v event_builder \<Rightarrow> 'v event_builder" where
  "WithRoot rootType rootID b = b\<lparr>eb_rootType := rootType, eb_rootID := rootID\<rparr>"

definition WithTopic :: "string \<Rightarrow> 'v event_builder \<Rightarrow> 'v event_builder" where
  "WithTopic topic b = b\<lparr>eb_topic := topic\<rparr>"

definition WithData :: "'v go_value \<Rightarrow> 'v event_builder \<Rightarrow> 'v event_builder" where
  "WithData data b = b\<lparr>eb_data := data\<rparr>"

definition WithReason :: "string \<Rightarrow> 'v event_builder \<Rightarrow> 'v event_builder" where
  "WithReason reason b = b\<lparr>eb_reason := Some reason\<rparr>"

definition WithOldData :: "'v go_value \<Rightarrow> 'v event_builder \<Rightarrow> 'v event_builder" where
  "WithOldData oldData b = b\<lparr>eb_oldData := oldData\<rparr>"

definition WithSensitivity :: "sensitivity \<Rightarrow> 'v event_builder \<Rightarrow> 'v event_builder" where
  "WithSensitivity s b = b\<lparr>eb_sensitivity := s\<rparr>"

definition WithParticipants :: "Participant list \<Rightarrow> 'v event_builder \<Rightarrow> 'v event_builder" where
  "WithParticipants ps b = b\<lparr>eb_participants := eb_participants b @ ps\<rparr>"

definition actorIdentity :: "go_context \<Rightarrow> uuid option \<times> uuid option" where
  "actorIdentity ctx =
     (case ctx_actor ctx of None \<Rightarrow> (None, None) | Some actor \<Rightarrow> (Some (actor_ID actor), GetCompanyID actor))"

record 'v event_payload =
  ev_SourceService :: string
  ev_EventID :: uuid
  ev_ActorID :: "uuid option"
  ev_CompanyID :: "uuid option"
  ev_EntityType :: string
  ev_EntityID :: uuid
  ev_Action :: string
  ev_Data :: string
  ev_Changes :: "'v change list"
  ev_Reason :: "string option"
  ev_ActorIP :: "string option"
  ev_UserAgent :: "string option"
  ev_Timestamp :: int
  ev_RootEntityType :: string
  ev_RootEntityID :: uuid
  ev_Sensitivity :: sensitivity
  ev_Participants :: "Participant list"

record outbox_event =
  ob_EntityID :: uuid
  ob_EntityType :: string
  ob_EventType :: string
  ob_Payload :: string
  ob_Status :: string
  ob_Topic :: string
  ob_CreatedAt :: int

text \<open>\<open>origin\<close> is the client origin on the context (address and user agent), \<open>eventID\<close> the fresh
  \<open>uuid.New()\<close> and \<open>now\<close> the clock; \<open>dataBytes\<close> is the marshalled data.\<close>

definition non_empty :: "string \<Rightarrow> string option" where
  "non_empty s = (if s = '''' then None else Some s)"

definition event_changes :: "'v event_builder \<Rightarrow> 'v change list" where
  "event_changes b = (if eb_oldData b = NilIface then [] else CalculateChanges (eb_oldData b) (eb_data b))"

definition event_sensitivity :: "string \<Rightarrow> 'v event_builder \<Rightarrow> sensitivity" where
  "event_sensitivity sourceService b =
     (if eb_sensitivity b = ''''
      then Classify sourceService (eb_aggType b) (eb_evtType b) (map ch_Field (event_changes b))
      else eb_sensitivity b)"

definition build_payload :: "string \<Rightarrow> go_context \<Rightarrow> (string \<times> string) option \<Rightarrow> uuid \<Rightarrow> int \<Rightarrow> string
    \<Rightarrow> 'v event_builder \<Rightarrow> 'v event_payload" where
  "build_payload sourceService ctx origin eventID now dataBytes b =
     (let (actorID, companyID) = actorIdentity ctx in
      \<lparr>ev_SourceService = sourceService, ev_EventID = eventID, ev_ActorID = actorID, ev_CompanyID = companyID,
       ev_EntityType = eb_aggType b, ev_EntityID = eb_aggID b, ev_Action = eb_evtType b, ev_Data = dataBytes,
       ev_Changes = event_changes b, ev_Reason = eb_reason b,
       ev_ActorIP = (case origin of None \<Rightarrow> None | Some (ip, ua) \<Rightarrow> non_empty ip),
       ev_UserAgent = (case origin of None \<Rightarrow> None | Some (ip, ua) \<Rightarrow> non_empty ua),
       ev_Timestamp = now,
       ev_RootEntityType = (if eb_rootType b = '''' then eb_aggType b else eb_rootType b),
       ev_RootEntityID = (if eb_rootType b = '''' then eb_aggID b else eb_rootID b),
       ev_Sensitivity = event_sensitivity sourceService b,
       ev_Participants = with_actor (eb_participants b) actorID\<rparr>)"

definition build_event :: "('v go_value \<Rightarrow> string option) \<Rightarrow> ('v event_payload \<Rightarrow> string option) \<Rightarrow> string \<Rightarrow> go_context
    \<Rightarrow> (string \<times> string) option \<Rightarrow> uuid \<Rightarrow> int \<Rightarrow> 'v event_builder \<Rightarrow> outbox_event option" where
  "build_event marshal_data marshal_payload sourceService ctx origin eventID now b =
     (case marshal_data (eb_data b) of
        None \<Rightarrow> None
      | Some dataBytes \<Rightarrow>
          (case marshal_payload (build_payload sourceService ctx origin eventID now dataBytes b) of
             None \<Rightarrow> None
           | Some payloadBytes \<Rightarrow>
               Some \<lparr>ob_EntityID = eb_aggID b, ob_EntityType = eb_aggType b, ob_EventType = eb_evtType b,
                     ob_Payload = payloadBytes, ob_Status = ''PENDING'', ob_Topic = eb_topic b, ob_CreatedAt = now\<rparr>))"

subsection \<open>Writing it to the outbox\<close>

text \<open>A PostgreSQL session, as documented: the outbox rows the transaction sees, whether the transaction
  is aborted (a failed statement aborts it; then every statement but ROLLBACK TO fails), and its
  savepoints, innermost first. A statement is told whether it fails; outside a transaction a failed
  statement leaves nothing behind.\<close>

record pg =
  pg_rows :: "outbox_event list"
  pg_aborted :: bool
  pg_saves :: "(string \<times> outbox_event list) list"

definition pg_exec :: "bool \<Rightarrow> (pg \<Rightarrow> pg) \<Rightarrow> pg \<Rightarrow> bool \<times> pg" where
  "pg_exec fails f s =
     (if pg_aborted s then (False, s) else if fails then (False, s\<lparr>pg_aborted := True\<rparr>) else (True, f s))"

definition pg_savepoint :: "bool \<Rightarrow> string \<Rightarrow> pg \<Rightarrow> bool \<times> pg" where
  "pg_savepoint fails sp = pg_exec fails (\<lambda>s. s\<lparr>pg_saves := (sp, pg_rows s) # pg_saves s\<rparr>)"

definition pg_insert :: "bool \<Rightarrow> outbox_event \<Rightarrow> pg \<Rightarrow> bool \<times> pg" where
  "pg_insert fails e = pg_exec fails (\<lambda>s. s\<lparr>pg_rows := pg_rows s @ [e]\<rparr>)"

definition pg_release :: "bool \<Rightarrow> string \<Rightarrow> pg \<Rightarrow> bool \<times> pg" where
  "pg_release fails sp s =
     (case dropWhile (\<lambda>p. fst p \<noteq> sp) (pg_saves s) of
        [] \<Rightarrow> pg_exec True (\<lambda>s. s) s
      | _ # rest \<Rightarrow> pg_exec fails (\<lambda>s. s\<lparr>pg_saves := rest\<rparr>) s)"

definition pg_rollback_to :: "bool \<Rightarrow> string \<Rightarrow> pg \<Rightarrow> bool \<times> pg" where
  "pg_rollback_to fails sp s =
     (case dropWhile (\<lambda>p. fst p \<noteq> sp) (pg_saves s) of
        [] \<Rightarrow> (False, s\<lparr>pg_aborted := True\<rparr>)
      | (n, rows) # rest \<Rightarrow>
          if fails then (False, s\<lparr>pg_aborted := True\<rparr>)
          else (True, s\<lparr>pg_rows := rows, pg_aborted := False, pg_saves := (n, rows) # rest\<rparr>))"

record faults =
  f_savepoint :: bool
  f_insert :: bool
  f_rollback :: bool
  f_release :: bool

datatype write_err = MarshalError | CreateError | SavepointError | RollbackError

definition write_row :: "faults \<Rightarrow> bool \<Rightarrow> outbox_event \<Rightarrow> pg \<Rightarrow> write_err option \<times> pg" where
  "write_row f inTx event s =
     (if \<not> inTx then
        (if f_insert f then (Some CreateError, s) else (None, s\<lparr>pg_rows := pg_rows s @ [event]\<rparr>))
      else
        (case pg_savepoint (f_savepoint f) ''publish_sp'' s of
           (False, s1) \<Rightarrow> (Some SavepointError, s1)
         | (True, s1) \<Rightarrow>
             (case pg_insert (f_insert f) event s1 of
                (False, s2) \<Rightarrow>
                  (case pg_rollback_to (f_rollback f) ''publish_sp'' s2 of
                     (False, s3) \<Rightarrow> (Some RollbackError, s3)
                   | (True, s3) \<Rightarrow> (None, snd (pg_release (f_release f) ''publish_sp'' s3)))
              | (True, s2) \<Rightarrow> (None, snd (pg_release (f_release f) ''publish_sp'' s2)))))"

definition writeEvent :: "('v go_value \<Rightarrow> string option) \<Rightarrow> ('v event_payload \<Rightarrow> string option) \<Rightarrow> string \<Rightarrow> go_context
    \<Rightarrow> (string \<times> string) option \<Rightarrow> uuid \<Rightarrow> int \<Rightarrow> faults \<Rightarrow> bool \<Rightarrow> 'v event_builder \<Rightarrow> pg \<Rightarrow> write_err option \<times> pg" where
  "writeEvent marshal_data marshal_payload sourceService ctx origin eventID now f inTx b s =
     (case build_event marshal_data marshal_payload sourceService ctx origin eventID now b of
        None \<Rightarrow> (Some MarshalError, s)
      | Some event \<Rightarrow> write_row f inTx event s)"

lemma write_row_tx:
  assumes "\<not> pg_aborted s"
  shows "write_row f True event s =
     (if f_savepoint f then (Some SavepointError, s\<lparr>pg_aborted := True\<rparr>)
      else if f_insert f then
        (if f_rollback f then (Some RollbackError, s\<lparr>pg_saves := (''publish_sp'', pg_rows s) # pg_saves s, pg_aborted := True\<rparr>)
         else if f_release f then (None, s\<lparr>pg_saves := (''publish_sp'', pg_rows s) # pg_saves s, pg_aborted := True\<rparr>)
         else (None, s))
      else if f_release f
      then (None, s\<lparr>pg_rows := pg_rows s @ [event], pg_saves := (''publish_sp'', pg_rows s) # pg_saves s, pg_aborted := True\<rparr>)
      else (None, s\<lparr>pg_rows := pg_rows s @ [event]\<rparr>))"
  using assms
  by (simp add: write_row_def pg_savepoint_def pg_insert_def pg_rollback_to_def pg_release_def pg_exec_def)



end
