(* ===== verification/Outbox.thy ===== *)
theory Outbox
  imports Events "HOL-Library.Multiset"
begin

text \<open>
  The outbox relay (\<open>src/eventlog/outbox/relay.go\<close>, \<open>repository.go\<close>): rows of the outbox table are
  fetched in a transaction with \<open>FOR UPDATE SKIP LOCKED\<close>, written to Kafka and deleted.

  First \<open>ProcessBatch\<close> as the code has it, on one relay; then the interleavings of several relays and
  producers as a step relation whose steps are the pieces of \<open>ProcessBatch\<close>. PostgreSQL and Kafka are
  libraries: a statement or a write is told whether it fails, a failed Kafka write may have written any
  part of its batch, and a transaction that does not commit leaves the table as it was.
\<close>

record obx =
  ox_ID :: nat
  ox_event :: outbox_event

record message =
  m_Topic :: string
  m_Key :: uuid
  m_Value :: string
  m_Time :: int

subsection \<open>The repository\<close>

definition pending :: "nat set \<Rightarrow> obx \<Rightarrow> bool" where
  "pending locked r \<longleftrightarrow> ob_Status (ox_event r) = ''PENDING'' \<and> ox_ID r \<notin> locked"

text \<open>\<open>ORDER BY created_at ASC LIMIT n\<close>; rows created at the same instant keep the table's order.\<close>

definition FetchPendingBatch :: "nat set \<Rightarrow> nat \<Rightarrow> obx list \<Rightarrow> obx list" where
  "FetchPendingBatch locked limit table =
     take limit (sort_key (\<lambda>r. ob_CreatedAt (ox_event r)) (filter (pending locked) table))"

definition DeleteBatch :: "nat list \<Rightarrow> obx list \<Rightarrow> obx list" where
  "DeleteBatch ids table = filter (\<lambda>r. ox_ID r \<notin> set ids) table"

subsection \<open>The relay\<close>

definition message_of :: "obx \<Rightarrow> message" where
  "message_of r =
     (let e = ox_event r in
      \<lparr>m_Topic = (if ob_Topic e = '''' then ob_EntityType e else ob_Topic e), m_Key = ob_EntityID e,
       m_Value = ob_Payload e, m_Time = ob_CreatedAt e\<rparr>)"

record batch_faults =
  bf_fetch :: bool
  bf_write :: "nat option"
  bf_delete :: bool
  bf_commit :: bool

datatype batch_err = FetchErr | WriteErr | DeleteErr | CommitErr

text \<open>One run of \<open>ProcessBatch\<close> inside \<open>WithTransaction\<close>: the error, the table and the Kafka log.
  \<open>bf_write f = Some k\<close> is a failed write of which the first \<open>k\<close> messages arrived.\<close>

definition ProcessBatch :: "batch_faults \<Rightarrow> nat set \<Rightarrow> nat \<Rightarrow> obx list \<Rightarrow> message list
    \<Rightarrow> batch_err option \<times> obx list \<times> message list" where
  "ProcessBatch f locked limit table log =
     (if bf_fetch f then (Some FetchErr, table, log)
      else
        (let eventsList = FetchPendingBatch locked limit table in
         if length eventsList = 0 then (if bf_commit f then Some CommitErr else None, table, log)
         else
           (case bf_write f of
              Some k \<Rightarrow> (Some WriteErr, table, log @ take k (map message_of eventsList))
            | None \<Rightarrow>
                if bf_delete f then (Some DeleteErr, table, log @ map message_of eventsList)
                else if bf_commit f then (Some CommitErr, table, log @ map message_of eventsList)
                else (None, DeleteBatch (map ox_ID eventsList) table, log @ map message_of eventsList))))"

definition no_faults :: batch_faults where
  "no_faults = \<lparr>bf_fetch = False, bf_write = None, bf_delete = False, bf_commit = False\<rparr>"

text \<open>The loop of \<open>Start\<close> over the ticks, each with the faults that hit it; batches of 50.\<close>

fun ticks :: "batch_faults list \<Rightarrow> nat set \<Rightarrow> obx list \<times> message list \<Rightarrow> obx list \<times> message list" where
  "ticks [] locked s = s"
| "ticks (f # fs) locked (table, log) = ticks fs locked (snd (ProcessBatch f locked 50 table log))"

subsection \<open>One relay\<close>

lemma FetchPendingBatch_sub: "set (FetchPendingBatch locked n table) \<subseteq> set table"
  using set_take_subset [of n] by (force simp: FetchPendingBatch_def)

lemma ProcessBatch_keeps:
  assumes "r \<in> set table" and "distinct (map ox_ID table)"
    and "ProcessBatch f locked n table log = (err, table', log')"
  shows "r \<in> set table' \<or> message_of r \<in> set log'"
proof (cases "r \<in> set (FetchPendingBatch locked n table)")
  case True
  then show ?thesis
    using assms by (auto simp: ProcessBatch_def DeleteBatch_def Let_def split: if_splits option.splits)
next
  case False
  then have "ox_ID r \<notin> ox_ID ` set (FetchPendingBatch locked n table)"
    using assms(1,2) FetchPendingBatch_sub [of locked n table] by (metis (no_types, lifting) distinct_map inj_on_image_mem_iff subset_eq)
  then show ?thesis
    using assms(1,3) by (auto simp: ProcessBatch_def DeleteBatch_def Let_def split: if_splits option.splits)
qed

lemma ProcessBatch_table:
  "ProcessBatch f locked n table log = (err, table', log') \<Longrightarrow>
     table' = table \<or> table' = DeleteBatch (map ox_ID (FetchPendingBatch locked n table)) table"
  by (auto simp: ProcessBatch_def Let_def split: if_splits option.splits)

lemma ProcessBatch_distinct:
  "distinct (map ox_ID table) \<Longrightarrow> ProcessBatch f locked n table log = (err, table', log') \<Longrightarrow> distinct (map ox_ID table')"
  using ProcessBatch_table [of f locked n table log err table' log']
  by (auto simp: DeleteBatch_def distinct_map_filter)

lemma ProcessBatch_log:
  "ProcessBatch f locked n table log = (err, table', log') \<Longrightarrow> set log \<subseteq> set log'"
  by (auto simp: ProcessBatch_def Let_def split: if_splits option.splits)

text \<open>The waiting rows in the order of publication.\<close>

definition waiting :: "obx list \<Rightarrow> obx list" where
  "waiting table = sort_key (\<lambda>r. ob_CreatedAt (ox_event r)) (filter (pending {}) table)"

lemma filter_not_taken:
  assumes "distinct (map f w)"
  shows "filter (\<lambda>x. f x \<notin> f ` set (take n w)) w = drop n w"
proof -
  have "filter (\<lambda>x. f x \<notin> f ` set (take n w)) (take n w @ drop n w) = drop n w"
  proof -
    have "f x \<notin> f ` set (take n w)" if "x \<in> set (drop n w)" for x
    proof
      assume "f x \<in> f ` set (take n w)"
      moreover have "distinct (map f (take n w) @ map f (drop n w))"
        using assms by (simp only: map_append [symmetric] append_take_drop_id)
      ultimately show False using that by (auto simp: distinct_append)
    qed
    then have "filter (\<lambda>x. f x \<notin> f ` set (take n w)) (drop n w) = drop n w" by (simp add: filter_id_conv)
    moreover have "filter (\<lambda>x. f x \<notin> f ` set (take n w)) (take n w) = []" by (simp add: filter_empty_conv)
    ultimately show ?thesis by (simp only: filter_append append_Nil)
  qed
  then show ?thesis by (simp only: append_take_drop_id)
qed

lemma waiting_distinct: "distinct (map ox_ID table) \<Longrightarrow> distinct (map ox_ID (waiting table))"
  by (simp add: waiting_def distinct_map inj_on_def)

lemma waiting_DeleteBatch: "waiting (DeleteBatch ids table) = filter (\<lambda>r. ox_ID r \<notin> set ids) (waiting table)"
  by (simp add: waiting_def DeleteBatch_def filter_sort conj_commute)

lemma ProcessBatch_ok:
  assumes "distinct (map ox_ID table)" and "0 < n"
  shows "\<exists>table'. ProcessBatch no_faults {} n table log = (None, table', log @ map message_of (take n (waiting table)))
    \<and> waiting table' = drop n (waiting table) \<and> distinct (map ox_ID table')"
proof (cases "waiting table = []")
  case True
  then show ?thesis
    using assms by (simp add: ProcessBatch_def FetchPendingBatch_def no_faults_def waiting_def [symmetric])
next
  case False
  let ?table' = "DeleteBatch (map ox_ID (take n (waiting table))) table"
  have "waiting ?table' = drop n (waiting table)"
    using filter_not_taken [OF waiting_distinct [OF assms(1)], of n] by (simp add: waiting_DeleteBatch)
  moreover have "distinct (map ox_ID ?table')"
    using assms(1) by (simp add: DeleteBatch_def distinct_map_filter)
  ultimately show ?thesis
    using False assms(2)
    by (simp add: ProcessBatch_def FetchPendingBatch_def no_faults_def waiting_def [symmetric] Let_def)
qed

text \<open>C17. A healthy relay drains the outbox in order: after \<open>k\<close> ticks without a fault, the first \<open>50 * k\<close>
  waiting rows, oldest first, are what was added to the Kafka log, each exactly once and to its own topic
  (or its entity type), and the rows still waiting are the others. So once \<open>50 * k\<close> covers them, every
  waiting event is published exactly once in creation order and none waits any more.\<close>

theorem relay_drains_in_order:
  assumes "distinct (map ox_ID table)"
  shows "\<exists>table'. ticks (replicate k no_faults) {} (table, log) =
      (table', log @ map message_of (take (50 * k) (waiting table)))
    \<and> waiting table' = drop (50 * k) (waiting table)"
  using assms
proof (induction k arbitrary: table log)
  case (Suc k)
  obtain t1 where t1: "ProcessBatch no_faults {} 50 table log = (None, t1, log @ map message_of (take 50 (waiting table)))"
      "waiting t1 = drop 50 (waiting table)" "distinct (map ox_ID t1)"
    using ProcessBatch_ok [OF Suc.prems, of 50 log] by auto
  obtain t2 where "ticks (replicate k no_faults) {} (t1, log @ map message_of (take 50 (waiting table))) =
      (t2, (log @ map message_of (take 50 (waiting table))) @ map message_of (take (50 * k) (waiting t1)))"
      "waiting t2 = drop (50 * k) (waiting t1)"
    using Suc.IH [OF t1(3)] by blast
  then show ?case using t1(1,2) by (simp add: take_add add.commute)
qed simp

definition example_event :: "string \<Rightarrow> int \<Rightarrow> outbox_event" where
  "example_event payload t = \<lparr>ob_EntityID = ''t1'', ob_EntityType = ''trips'', ob_EventType = ''updated'',
     ob_Payload = payload, ob_Status = ''PENDING'', ob_Topic = '''', ob_CreatedAt = t\<rparr>"

definition example_row :: "nat \<Rightarrow> string \<Rightarrow> int \<Rightarrow> obx" where
  "example_row i payload t = \<lparr>ox_ID = i, ox_event = example_event payload t\<rparr>"

lemma relay_drains_in_order_witness:
  "let table = [example_row 1 ''b'' 20, example_row 2 ''a'' 10]
   in map m_Value (snd (ticks [no_faults] {} (table, []))) = [''a'', ''b'']"
proof -
  let ?table = "[example_row 1 ''b'' 20, example_row 2 ''a'' 10]"
  have "distinct (map ox_ID ?table)" by (simp add: example_row_def)
  from relay_drains_in_order [OF this, of 1 "[]"]
  have "snd (ticks [no_faults] {} (?table, [])) = map message_of (take 50 (waiting ?table))" by auto
  moreover have "waiting ?table = [example_row 2 ''a'' 10, example_row 1 ''b'' 20]"
    by (simp add: waiting_def pending_def example_row_def example_event_def)
  ultimately show ?thesis by (simp add: Let_def message_of_def example_row_def example_event_def)
qed

subsection \<open>Several relays\<close>

text \<open>\<open>s_held i\<close> is the batch relay \<open>i\<close> holds locked in its open transaction, \<open>s_sent i\<close> whether its write
  succeeded; \<open>s_all\<close> lists every row ever committed to the table.\<close>

record sys =
  s_table :: "obx list"
  s_log :: "message list"
  s_held :: "nat \<Rightarrow> obx list"
  s_sent :: "nat \<Rightarrow> bool"
  s_all :: "obx list"

definition locked_ids :: "sys \<Rightarrow> nat set" where
  "locked_ids s = (\<Union>i. ox_ID ` set (s_held s i))"

definition close_tx :: "nat \<Rightarrow> sys \<Rightarrow> sys" where
  "close_tx i s = s\<lparr>s_held := (s_held s)(i := []), s_sent := (s_sent s)(i := False)\<rparr>"

inductive relay_step :: "sys \<Rightarrow> sys \<Rightarrow> bool" where
  produce: "ox_ID r \<notin> ox_ID ` set (s_all s) \<Longrightarrow>
     relay_step s (s\<lparr>s_table := s_table s @ [r], s_all := s_all s @ [r]\<rparr>)"
| fetch: "s_held s i = [] \<Longrightarrow>
     relay_step s (s\<lparr>s_held := (s_held s)(i := FetchPendingBatch (locked_ids s) n (s_table s)),
       s_sent := (s_sent s)(i := False)\<rparr>)"
| send: "s_held s i \<noteq> [] \<Longrightarrow> \<not> s_sent s i \<Longrightarrow>
     relay_step s (s\<lparr>s_log := s_log s @ map message_of (s_held s i), s_sent := (s_sent s)(i := True)\<rparr>)"
| send_fails: "s_held s i \<noteq> [] \<Longrightarrow> \<not> s_sent s i \<Longrightarrow>
     relay_step s (close_tx i (s\<lparr>s_log := s_log s @ take k (map message_of (s_held s i))\<rparr>))"
| delete_commit: "s_sent s i \<Longrightarrow>
     relay_step s (close_tx i (s\<lparr>s_table := DeleteBatch (map ox_ID (s_held s i)) (s_table s)\<rparr>))"
| abort: "relay_step s (close_tx i s)"

definition initial :: "sys \<Rightarrow> bool" where
  "initial s \<longleftrightarrow> s_table s = [] \<and> s_all s = [] \<and> (\<forall>i. s_held s i = []) \<and> (\<forall>i. \<not> s_sent s i)"

definition sys_inv :: "sys \<Rightarrow> bool" where
  "sys_inv s \<longleftrightarrow>
     distinct (map ox_ID (s_all s)) \<and> set (s_table s) \<subseteq> set (s_all s)
     \<and> (\<forall>i. set (s_held s i) \<subseteq> set (s_table s))
     \<and> (\<forall>i j. i \<noteq> j \<longrightarrow> ox_ID ` set (s_held s i) \<inter> ox_ID ` set (s_held s j) = {})
     \<and> (\<forall>i. s_sent s i \<longrightarrow> message_of ` set (s_held s i) \<subseteq> set (s_log s))
     \<and> (\<forall>r\<in>set (s_all s). r \<in> set (s_table s) \<or> message_of r \<in> set (s_log s))"

lemma FetchPendingBatch_unlocked:
  "r \<in> set (FetchPendingBatch locked n table) \<Longrightarrow> r \<in> set table \<and> ox_ID r \<notin> locked"
  using in_set_takeD [of r n] by (fastforce simp: FetchPendingBatch_def pending_def)

lemma same_row: "distinct (map ox_ID xs) \<Longrightarrow> r \<in> set xs \<Longrightarrow> q \<in> set xs \<Longrightarrow> ox_ID r = ox_ID q \<Longrightarrow> r = q"
  by (metis distinct_map inj_onD)

lemma close_tx_inv:
  assumes "sys_inv s"
  shows "sys_inv (close_tx i s)"
  using assms unfolding sys_inv_def close_tx_def by auto

lemma relay_step_inv:
  assumes "relay_step s t" and "sys_inv s"
  shows "sys_inv t"
  using assms
proof (induction rule: relay_step.induct)
  case (produce r s)
  then show ?case by (auto simp: sys_inv_def)
next
  case (fetch s i n)
  have new: "set (FetchPendingBatch (locked_ids s) n (s_table s)) \<subseteq> set (s_table s)"
    "ox_ID ` set (FetchPendingBatch (locked_ids s) n (s_table s)) \<inter> ox_ID ` set (s_held s j) = {}" for j
    using FetchPendingBatch_unlocked by (fastforce simp: locked_ids_def)+
  show ?case
    using fetch.prems new unfolding sys_inv_def by (simp add: Int_commute)
next
  case (send s i)
  then show ?case unfolding sys_inv_def image_subset_iff by auto
next
  case (send_fails s i k)
  then have "sys_inv (s\<lparr>s_log := s_log s @ take k (map message_of (s_held s i))\<rparr>)"
    unfolding sys_inv_def image_subset_iff by auto
  then show ?case by (rule close_tx_inv)
next
  case (delete_commit s i)
  have rows: "distinct (map ox_ID (s_all s))" "set (s_table s) \<subseteq> set (s_all s)" "\<forall>i. set (s_held s i) \<subseteq> set (s_table s)"
    "\<forall>i j. i \<noteq> j \<longrightarrow> ox_ID ` set (s_held s i) \<inter> ox_ID ` set (s_held s j) = {}"
    "message_of ` set (s_held s i) \<subseteq> set (s_log s)"
    "\<forall>r\<in>set (s_all s). r \<in> set (s_table s) \<or> message_of r \<in> set (s_log s)"
    "\<forall>i. s_sent s i \<longrightarrow> message_of ` set (s_held s i) \<subseteq> set (s_log s)"
    using delete_commit.prems delete_commit.hyps by (simp_all add: sys_inv_def)
  let ?table = "DeleteBatch (map ox_ID (s_held s i)) (s_table s)"
  have kept: "r \<in> set ?table \<or> r \<in> set (s_held s i)" if "r \<in> set (s_table s)" for r
  proof (cases "ox_ID r \<in> ox_ID ` set (s_held s i)")
    case True
    then obtain q where q: "q \<in> set (s_held s i)" "ox_ID r = ox_ID q" by blast
    then have "r = q" using same_row [OF rows(1) _ _ q(2)] that rows(2,3) by blast
    with q(1) show ?thesis by simp
  qed (use that in \<open>simp add: DeleteBatch_def\<close>)
  have held: "set (s_held s j) \<subseteq> set ?table" if "j \<noteq> i" for j
  proof
    fix r assume r: "r \<in> set (s_held s j)"
    then have "r \<in> set (s_table s)" using rows(3) by blast
    moreover have "ox_ID r \<notin> ox_ID ` set (s_held s i)" using rows(4) that r by blast
    ultimately show "r \<in> set ?table" by (simp add: DeleteBatch_def)
  qed
  have "set ?table \<subseteq> set (s_all s)" using rows(2) by (auto simp: DeleteBatch_def)
  moreover have "\<forall>j. set (((s_held s)(i := [])) j) \<subseteq> set ?table" using held by simp
  moreover have "\<forall>j k. j \<noteq> k \<longrightarrow> ox_ID ` set (((s_held s)(i := [])) j) \<inter> ox_ID ` set (((s_held s)(i := [])) k) = {}"
    using rows(4) by simp
  moreover have "\<forall>j. ((s_sent s)(i := False)) j \<longrightarrow> message_of ` set (((s_held s)(i := [])) j) \<subseteq> set (s_log s)"
    using rows(7) by simp
  moreover have "\<forall>r\<in>set (s_all s). r \<in> set ?table \<or> message_of r \<in> set (s_log s)"
    using rows(5,6) kept by blast
  ultimately show ?case
    unfolding sys_inv_def close_tx_def using rows(1) by simp
next
  case (abort s i)
  then show ?case by (rule close_tx_inv)
qed

lemma relay_run_inv: "relay_step\<^sup>*\<^sup>* s t \<Longrightarrow> sys_inv s \<Longrightarrow> sys_inv t"
  by (induction rule: rtranclp_induct) (auto intro: relay_step_inv)

text \<open>C18. No event is lost and none is worked on twice at a time, whatever the interleaving of producers
  and any number of relays, and whatever Kafka writes, deletes and commits fail or relays die half-way: in
  every reachable state each event ever committed to the outbox is still in the table or its message is
  in the Kafka log (at-least-once delivery), and no row is in the batches of two relays.\<close>

theorem outbox_at_least_once:
  assumes "initial s" and "relay_step\<^sup>*\<^sup>* s t"
  shows "(\<forall>r\<in>set (s_all t). r \<in> set (s_table t) \<or> message_of r \<in> set (s_log t))
    \<and> (\<forall>i j. i \<noteq> j \<longrightarrow> ox_ID ` set (s_held t i) \<inter> ox_ID ` set (s_held t j) = {})"
proof -
  have "sys_inv s" using assms(1) by (simp add: initial_def sys_inv_def)
  with assms(2) have "sys_inv t" by (rule relay_run_inv)
  then show ?thesis unfolding sys_inv_def by blast
qed

definition idle :: sys where
  "idle = \<lparr>s_table = [], s_log = [], s_held = (\<lambda>_. []), s_sent = (\<lambda>_. False), s_all = []\<rparr>"

text \<open>The steps compose to the code: from a state in which relay \<open>i\<close> is idle, the table and the log that a
  whole \<open>ProcessBatch\<close> leaves, with whatever faults, are reached by steps of relay \<open>i\<close> that end idle.\<close>

lemma close_tx_idle: "s_held s i = [] \<Longrightarrow> \<not> s_sent s i \<Longrightarrow> close_tx i s = s"
  by (simp add: close_tx_def fun_upd_idem)

lemma table_log_swap: "s\<lparr>s_log := l, s_table := t\<rparr> = s\<lparr>s_table := t, s_log := l\<rparr>"
  by (cases s) simp

lemma ProcessBatch_steps:
  assumes idle: "s_held s i = []" "\<not> s_sent s i"
    and run: "ProcessBatch f (locked_ids s) n (s_table s) (s_log s) = (err, table', log')"
  shows "relay_step\<^sup>*\<^sup>* s (s\<lparr>s_table := table', s_log := log'\<rparr>)"
proof -
  define batch where "batch = FetchPendingBatch (locked_ids s) n (s_table s)"
  let ?held = "s\<lparr>s_held := (s_held s)(i := batch), s_sent := (s_sent s)(i := False)\<rparr>"
  let ?sent = "s\<lparr>s_held := (s_held s)(i := batch), s_log := s_log s @ map message_of batch, s_sent := (s_sent s)(i := True)\<rparr>"
  have same: "(s_held s)(i := []) = s_held s" "(s_sent s)(i := False) = s_sent s"
    using idle by (simp_all add: fun_upd_idem)
  have fetch: "relay_step s ?held"
    unfolding batch_def by (rule relay_step.fetch [OF idle(1)])
  show ?thesis
  proof (cases "table' = s_table s \<and> log' = s_log s")
    case False
    then have busy: "batch \<noteq> []"
      using run by (auto simp: ProcessBatch_def batch_def Let_def split: if_splits)
    have send: "relay_step ?held ?sent"
      using relay_step.send [of ?held i] busy by simp
    have abort: "relay_step ?sent (s\<lparr>s_log := s_log s @ map message_of batch\<rparr>)"
      using relay_step.abort [of ?sent i] by (simp add: close_tx_def same)
    have commit: "relay_step ?sent (s\<lparr>s_table := DeleteBatch (map ox_ID batch) (s_table s),
        s_log := s_log s @ map message_of batch\<rparr>)"
      using relay_step.delete_commit [of ?sent i] by (simp add: close_tx_def same table_log_swap)
    have part: "relay_step ?held (s\<lparr>s_log := s_log s @ take k (map message_of batch)\<rparr>)" for k
      using relay_step.send_fails [of ?held i k] busy idle(2) by (simp add: close_tx_def same)
    have "s\<lparr>s_table := s_table s, s_log := l\<rparr> = s\<lparr>s_log := l\<rparr>" for l by simp
    then have "(\<exists>k. s\<lparr>s_table := table', s_log := log'\<rparr> = s\<lparr>s_log := s_log s @ take k (map message_of batch)\<rparr>)
      \<or> s\<lparr>s_table := table', s_log := log'\<rparr> = s\<lparr>s_log := s_log s @ map message_of batch\<rparr>
      \<or> s\<lparr>s_table := table', s_log := log'\<rparr> = s\<lparr>s_table := DeleteBatch (map ox_ID batch) (s_table s),
            s_log := s_log s @ map message_of batch\<rparr>"
      using run False by (auto simp: ProcessBatch_def batch_def Let_def split: if_splits option.splits)
    then show ?thesis
    proof (elim disjE exE)
      fix k
      assume "s\<lparr>s_table := table', s_log := log'\<rparr> = s\<lparr>s_log := s_log s @ take k (map message_of batch)\<rparr>"
      with fetch part [of k] show ?thesis by (simp add: converse_rtranclp_into_rtranclp)
    next
      assume "s\<lparr>s_table := table', s_log := log'\<rparr> = s\<lparr>s_log := s_log s @ map message_of batch\<rparr>"
      with fetch send abort show ?thesis by (simp add: converse_rtranclp_into_rtranclp)
    next
      assume "s\<lparr>s_table := table', s_log := log'\<rparr> = s\<lparr>s_table := DeleteBatch (map ox_ID batch) (s_table s),
            s_log := s_log s @ map message_of batch\<rparr>"
      with fetch send commit show ?thesis by (simp add: converse_rtranclp_into_rtranclp)
    qed
  qed (simp add: idle)
qed

text \<open>Two events of one entity can reach Kafka in the opposite order of their creation when two relays
  run: the message key keeps the order of one relay only.\<close>

definition row_a :: obx where "row_a = example_row 1 ''a'' 10"
definition row_b :: obx where "row_b = example_row 2 ''b'' 20"

lemma relays_reorder:
  "\<exists>t. relay_step\<^sup>*\<^sup>* idle t \<and> s_log t = [message_of row_b, message_of row_a]
     \<and> m_Key (message_of row_a) = m_Key (message_of row_b) \<and> m_Time (message_of row_a) < m_Time (message_of row_b)"
proof -
  let ?h0 = "(\<lambda>_. [])(0::nat := [row_a])" and ?n = "(\<lambda>_. False)::nat \<Rightarrow> bool"
  let ?h1 = "?h0(Suc 0 := [row_b])"
  let ?s1 = "\<lparr>s_table = [row_a], s_log = [], s_held = (\<lambda>_. []), s_sent = ?n, s_all = [row_a]\<rparr>"
  let ?s2 = "\<lparr>s_table = [row_a], s_log = [], s_held = ?h0, s_sent = ?n, s_all = [row_a]\<rparr>"
  let ?s3 = "\<lparr>s_table = [row_a, row_b], s_log = [], s_held = ?h0, s_sent = ?n, s_all = [row_a, row_b]\<rparr>"
  let ?s4 = "\<lparr>s_table = [row_a, row_b], s_log = [], s_held = ?h1, s_sent = ?n, s_all = [row_a, row_b]\<rparr>"
  let ?s5 = "\<lparr>s_table = [row_a, row_b], s_log = [message_of row_b], s_held = ?h1, s_sent = ?n(Suc 0 := True), s_all = [row_a, row_b]\<rparr>"
  let ?s6 = "\<lparr>s_table = [row_a, row_b], s_log = [message_of row_b, message_of row_a], s_held = ?h1,
     s_sent = ?n(Suc 0 := True, 0 := True), s_all = [row_a, row_b]\<rparr>"
  have locked: "locked_ids ?s1 = {}" "locked_ids ?s3 = {ox_ID row_a}"
    by (auto simp: locked_ids_def)
  have rows: "pending {} row_a" "\<not> pending {ox_ID row_a} row_a" "pending {ox_ID row_a} row_b"
    by (simp_all add: pending_def row_a_def row_b_def example_row_def example_event_def)
  have 1: "relay_step idle ?s1" using relay_step.produce [of row_a idle] by (simp add: idle_def)
  have 2: "relay_step ?s1 ?s2"
    using relay_step.fetch [of ?s1 0 50] by (simp add: locked FetchPendingBatch_def rows fun_upd_idem)
  have 3: "relay_step ?s2 ?s3"
    using relay_step.produce [of row_b ?s2] by (simp add: row_a_def row_b_def example_row_def)
  have 4: "relay_step ?s3 ?s4"
    using relay_step.fetch [of ?s3 "Suc 0" 50] by (simp add: locked FetchPendingBatch_def rows fun_upd_idem)
  have 5: "relay_step ?s4 ?s5" using relay_step.send [of ?s4 "Suc 0"] by simp
  have 6: "relay_step ?s5 ?s6" using relay_step.send [of ?s5 0] by simp
  have "relay_step\<^sup>*\<^sup>* idle ?s6"
    using 1 2 3 4 5 6 by (meson converse_rtranclp_into_rtranclp rtranclp.rtrancl_refl)
  then show ?thesis
    by (intro exI [of _ ?s6] conjI)
      (simp_all add: row_a_def row_b_def example_row_def example_event_def message_of_def Let_def)
qed

lemma outbox_at_least_once_witness:
  "\<exists>t. relay_step\<^sup>*\<^sup>* idle t \<and> s_all t = [row_a, row_b]
     \<and> (row_a \<in> set (s_table t) \<or> message_of row_a \<in> set (s_log t))"
proof -
  let ?s1 = "idle\<lparr>s_table := [row_a], s_all := [row_a]\<rparr>" and ?s2 = "idle\<lparr>s_table := [row_a, row_b], s_all := [row_a, row_b]\<rparr>"
  have "relay_step idle ?s1" using relay_step.produce [of row_a idle] by (simp add: idle_def)
  moreover have "relay_step ?s1 ?s2"
    using relay_step.produce [of row_b ?s1] by (simp add: idle_def row_a_def row_b_def example_row_def)
  ultimately have run: "relay_step\<^sup>*\<^sup>* idle ?s2" by (meson converse_rtranclp_into_rtranclp rtranclp.rtrancl_refl)
  have "initial idle" by (simp add: initial_def idle_def)
  from outbox_at_least_once [OF this run] run show ?thesis by (intro exI [of _ ?s2]) simp
qed

end
