(* ===== verification/Go_Float.thy ===== *)
theory Go_Float
  imports Complex_Main
begin

text \<open>
  Go's \<open>float64\<close>: a real number, an infinity or NaN, compared as IEEE 754 does. Which reals are
  representable is left open: arithmetic takes a rounding function where a component computes.
\<close>

datatype flt = Fin real | PosInf | NegInf | NaN

fun f_lt :: "flt \<Rightarrow> flt \<Rightarrow> bool" where
  "f_lt (Fin a) (Fin b) = (a < b)"
| "f_lt NegInf (Fin b) = True"
| "f_lt NegInf PosInf = True"
| "f_lt (Fin a) PosInf = True"
| "f_lt _ _ = False"

definition f_eq :: "flt \<Rightarrow> flt \<Rightarrow> bool" where
  "f_eq a b \<longleftrightarrow> a \<noteq> NaN \<and> a = b"

definition f_le :: "flt \<Rightarrow> flt \<Rightarrow> bool" where
  "f_le a b \<longleftrightarrow> f_lt a b \<or> f_eq a b"

text \<open>\<open>math.Round\<close>: half away from zero.\<close>

definition round_away :: "real \<Rightarrow> int" where
  "round_away x = (if x < 0 then - \<lfloor>- x + 1 / 2\<rfloor> else \<lfloor>x + 1 / 2\<rfloor>)"

text \<open>A conversion to \<open>int64\<close> of an integer, and \<open>int64\<close> arithmetic: the result wraps.\<close>

definition wrap64 :: "int \<Rightarrow> int" where
  "wrap64 n = (n + 2 ^ 63) mod 2 ^ 64 - 2 ^ 63"

lemma wrap64_id: "- (2 ^ 63) \<le> n \<Longrightarrow> n < 2 ^ 63 \<Longrightarrow> wrap64 n = n"
  by (simp add: wrap64_def)

lemma round_away_int [simp]: "round_away (of_int n) = n"
  by (simp add: round_away_def)

end
