(* ===== verification/Validate.thy ===== *)
theory Validate
  imports Go_Float Go_Prelude
begin

text \<open>
  Input validation: the \<open>@validate\<close> directive (\<open>src/validate/directive.go\<close>) and the collector of its
  errors (\<open>src/validate/errors.go\<close>).

  A Go \<open>interface{}\<close> is a value of \<open>dyn\<close>, a \<open>float64\<close> a value of \<open>flt\<close>. What the directive takes from Go's regexp, net, encoding, time and strconv packages and
  from Redis is the parameter record \<open>venv\<close>. The 50-odd arguments of the directive are the record
  \<open>rules\<close>; its message arguments are a map from the rule's name to the custom message.
\<close>

subsection \<open>Values\<close>

datatype dyn = DNil | DStr string | DInt int | DFloat flt | DBool bool | DArr "dyn list" | DOther nat

text \<open>What a resolver returns: a plain value, or one of the pointers \<open>derefPointer\<close> knows.\<close>

datatype raw = Plain dyn | Pointer "dyn option"

definition derefPointer :: "raw \<Rightarrow> dyn" where
  "derefPointer v = (case v of Plain x \<Rightarrow> x | Pointer None \<Rightarrow> DNil | Pointer (Some x) \<Rightarrow> x)"

record venv =
  match_re :: "string \<Rightarrow> string \<Rightarrow> bool option"    \<comment> \<open>\<open>None\<close>: the pattern does not compile\<close>
  parse_ip :: "string \<Rightarrow> bool option"            \<comment> \<open>\<open>Some b\<close>: an address, \<open>b\<close> when \<open>To4\<close> is not nil\<close>
  parse_mac :: "string \<Rightarrow> bool"
  parse_cidr :: "string \<Rightarrow> bool"
  base64_ok :: "string \<Rightarrow> bool"
  json_ok :: "string \<Rightarrow> bool"
  load_location :: "string \<Rightarrow> bool"
  parse_float :: "string \<Rightarrow> flt option"
  int_to_f64 :: "int \<Rightarrow> real"
  show_g :: "flt \<Rightarrow> string"
  show_int :: "int \<Rightarrow> string"
  show_v :: "dyn \<Rightarrow> string"
  cached_roles :: "string \<Rightarrow> string list option"

definition resolveMessage :: "string option \<Rightarrow> string option \<Rightarrow> string \<Rightarrow> string" where
  "resolveMessage ruleMsg globalMsg defaultMsg =
     (case ruleMsg of
        Some m \<Rightarrow> if m \<noteq> '''' then m else (case globalMsg of Some g \<Rightarrow> if g \<noteq> '''' then g else defaultMsg | None \<Rightarrow> defaultMsg)
      | None \<Rightarrow> (case globalMsg of Some g \<Rightarrow> if g \<noteq> '''' then g else defaultMsg | None \<Rightarrow> defaultMsg))"

definition toFloat64 :: "venv \<Rightarrow> dyn \<Rightarrow> flt option" where
  "toFloat64 E v =
     (case v of
        DInt n \<Rightarrow> Some (Fin (int_to_f64 E n))
      | DFloat f \<Rightarrow> Some f
      | DStr s \<Rightarrow> parse_float E s
      | _ \<Rightarrow> None)"

definition compareValues :: "venv \<Rightarrow> dyn \<Rightarrow> dyn \<Rightarrow> int" where
  "compareValues E a b =
     (case (toFloat64 E a, toFloat64 E b) of
        (Some af, Some bf) \<Rightarrow> if f_lt af bf then -1 else if f_lt bf af then 1 else 0
      | _ \<Rightarrow> if show_v E a < show_v E b then -1 else if show_v E b < show_v E a then 1 else 0)"

text \<open>The parent object: \<open>None\<close> when it is not a map.\<close>

type_synonym obj = "(string \<times> dyn) list option"

definition getFieldValue :: "obj \<Rightarrow> string \<Rightarrow> dyn option" where
  "getFieldValue obj field = (case obj of Some m \<Rightarrow> map_of m field | None \<Rightarrow> None)"

definition isFieldPresent :: "obj \<Rightarrow> string \<Rightarrow> bool" where
  "isFieldPresent obj field =
     (case obj of Some m \<Rightarrow> (case map_of m field of Some v \<Rightarrow> v \<noteq> DNil | None \<Rightarrow> False) | None \<Rightarrow> False)"

definition isEmptyValue :: "dyn \<Rightarrow> bool" where
  "isEmptyValue v =
     (case v of DNil \<Rightarrow> True | DStr s \<Rightarrow> trim_space s = '''' | DArr xs \<Rightarrow> length xs = 0 | _ \<Rightarrow> False)"

subsection \<open>Luhn's check\<close>

definition is_digit :: "char \<Rightarrow> bool" where
  "is_digit c = byte_in CHR ''0'' CHR ''9'' c"

definition digit_val :: "char \<Rightarrow> nat" where
  "digit_val c = of_char c - 48"

definition luhn_double :: "nat \<Rightarrow> nat" where
  "luhn_double n = (if 2 * n > 9 then 2 * n - 9 else 2 * n)"

text \<open>The loop from the last byte to the first; \<open>None\<close> is the early \<open>return false\<close>.\<close>

fun luhn_loop :: "nat \<Rightarrow> bool \<Rightarrow> string \<Rightarrow> nat option" where
  "luhn_loop acc alt [] = Some acc"
| "luhn_loop acc alt (c # cs) =
     (if \<not> is_digit c then None
      else luhn_loop (acc + (if alt then luhn_double (digit_val c) else digit_val c)) (\<not> alt) cs)"

definition luhn_clean :: "string \<Rightarrow> string" where
  "luhn_clean number = filter (\<lambda>c. c \<noteq> CHR '' '' \<and> c \<noteq> CHR ''-'') number"

definition luhnCheck :: "string \<Rightarrow> bool" where
  "luhnCheck number =
     (let cleaned = luhn_clean number in
      if length cleaned < 13 \<or> length cleaned > 19 then False
      else (case luhn_loop 0 False (rev cleaned) of None \<Rightarrow> False | Some acc \<Rightarrow> acc mod 10 = 0))"

subsection \<open>The arguments of the directive\<close>

record rules =
  r_pattern :: "string option"
  r_min :: "flt option"
  r_max :: "flt option"
  r_minLen :: "int option"
  r_maxLen :: "int option"
  r_minItems :: "int option"
  r_maxItems :: "int option"
  r_enum :: "string list"
  r_flags :: "string \<Rightarrow> bool"     \<comment> \<open>the \<open>*bool\<close> arguments by name: not nil and true\<close>
  r_contains :: "string option"
  r_notContains :: "string option"
  r_startsWith :: "string option"
  r_endsWith :: "string option"
  r_eq :: "flt option"
  r_ne :: "flt option"
  r_gt :: "flt option"
  r_lt :: "flt option"
  r_len :: "int option"
  r_eqField :: "string option"
  r_neField :: "string option"
  r_gtField :: "string option"
  r_ltField :: "string option"
  r_requiredWith :: "string option"
  r_requiredWithout :: "string option"
  r_excludedWith :: "string option"
  r_userHasRole :: "string option"
  r_message :: "string option"
  r_messages :: "string \<Rightarrow> string option"

definition no_rules :: rules where
  "no_rules = \<lparr>r_pattern = None, r_min = None, r_max = None, r_minLen = None, r_maxLen = None, r_minItems = None,
     r_maxItems = None, r_enum = [], r_flags = (\<lambda>_. False), r_contains = None, r_notContains = None,
     r_startsWith = None, r_endsWith = None, r_eq = None, r_ne = None, r_gt = None, r_lt = None, r_len = None,
     r_eqField = None, r_neField = None, r_gtField = None, r_ltField = None, r_requiredWith = None,
     r_requiredWithout = None, r_excludedWith = None, r_userHasRole = None, r_message = None,
     r_messages = (\<lambda>_. None)\<rparr>"

text \<open>A failed rule with its message: the two appends of every block.\<close>

type_synonym failure = "string \<times> string"

definition fail_if :: "rules \<Rightarrow> string \<Rightarrow> bool \<Rightarrow> string \<Rightarrow> failure list" where
  "fail_if R rule bad deflt =
     (if bad then [(rule, resolveMessage (r_messages R rule) (r_message R) deflt)] else [])"

definition opt_check :: "'a option \<Rightarrow> ('a \<Rightarrow> failure list) \<Rightarrow> failure list" where
  "opt_check x f = (case x of None \<Rightarrow> [] | Some v \<Rightarrow> f v)"

subsection \<open>The blocks of the directive, in order\<close>

definition cross_required :: "rules \<Rightarrow> string \<Rightarrow> obj \<Rightarrow> dyn \<Rightarrow> failure list" where
  "cross_required R fld obj v =
     opt_check (r_requiredWith R) (\<lambda>o1. fail_if R ''requiredWith'' (isFieldPresent obj o1 \<and> isEmptyValue v)
       (fld @ '' is required when '' @ o1 @ '' is present''))
     @ opt_check (r_requiredWithout R) (\<lambda>o1. fail_if R ''requiredWithout'' (\<not> isFieldPresent obj o1 \<and> isEmptyValue v)
       (fld @ '' is required when '' @ o1 @ '' is not present''))
     @ opt_check (r_excludedWith R) (\<lambda>o1. fail_if R ''excludedWith'' (isFieldPresent obj o1 \<and> \<not> isEmptyValue v)
       (fld @ '' must be empty when '' @ o1 @ '' is present''))"

definition cross_compare :: "venv \<Rightarrow> rules \<Rightarrow> string \<Rightarrow> obj \<Rightarrow> dyn \<Rightarrow> failure list" where
  "cross_compare E R fld obj v =
     opt_check (r_eqField R) (\<lambda>o1. opt_check (getFieldValue obj o1) (\<lambda>w.
       fail_if R ''eqField'' (compareValues E v w \<noteq> 0) (fld @ '' must be equal to '' @ o1)))
     @ opt_check (r_neField R) (\<lambda>o1. opt_check (getFieldValue obj o1) (\<lambda>w.
       fail_if R ''neField'' (compareValues E v w = 0) (fld @ '' must not be equal to '' @ o1)))
     @ opt_check (r_gtField R) (\<lambda>o1. opt_check (getFieldValue obj o1) (\<lambda>w.
       fail_if R ''gtField'' (compareValues E v w \<le> 0) (fld @ '' must be greater than '' @ o1)))
     @ opt_check (r_ltField R) (\<lambda>o1. opt_check (getFieldValue obj o1) (\<lambda>w.
       fail_if R ''ltField'' (compareValues E v w \<ge> 0) (fld @ '' must be less than '' @ o1)))"

text \<open>A format flag looks at strings only.\<close>

definition format_check :: "rules \<Rightarrow> string \<Rightarrow> dyn \<Rightarrow> string \<Rightarrow> (string \<Rightarrow> bool) \<Rightarrow> string \<Rightarrow> failure list" where
  "format_check R fld v rule ok txt =
     (if r_flags R rule then
        (case v of DStr s \<Rightarrow> fail_if R rule (\<not> ok s) (fld @ txt) | _ \<Rightarrow> [])
      else [])"

definition re_ok :: "venv \<Rightarrow> string \<Rightarrow> string \<Rightarrow> bool" where
  "re_ok E re s = (match_re E re s = Some True)"

definition bs :: string where "bs = [CHR 0x5C]"

definition quoted :: "string \<Rightarrow> string" where "quoted s = [CHR 0x27] @ s @ [CHR 0x27]"

definition emailRegex :: string where
  "emailRegex = ''^[a-zA-Z0-9._%+-]+@[a-zA-Z0-9.-]+'' @ bs @ ''.[a-zA-Z]{2,}$''"

definition urlRegex :: string where
  "urlRegex = ''^(https?|ftp)://[^'' @ bs @ ''s/$.?#].[^'' @ bs @ ''s]*$''"

definition uuidRegex :: string where
  "uuidRegex = ''^[0-9a-fA-F]{8}-[0-9a-fA-F]{4}-[0-9a-fA-F]{4}-[0-9a-fA-F]{4}-[0-9a-fA-F]{12}$''"

definition hostnameRegex :: string where
  "hostnameRegex = ''^([a-zA-Z0-9]([a-zA-Z0-9-]{0,61}[a-zA-Z0-9])?'' @ bs
     @ ''.)*[a-zA-Z0-9]([a-zA-Z0-9-]{0,61}[a-zA-Z0-9])?$''"

definition fqdnRegex :: string where
  "fqdnRegex = ''^([a-zA-Z0-9]([a-zA-Z0-9-]{0,61}[a-zA-Z0-9])?'' @ bs @ ''.)+[a-zA-Z]{2,}$''"

definition jwtRegex :: string where
  "jwtRegex = ''^[A-Za-z0-9-_]+'' @ bs @ ''.[A-Za-z0-9-_]+'' @ bs @ ''.[A-Za-z0-9-_]*$''"

definition format_checks_1 :: "venv \<Rightarrow> rules \<Rightarrow> string \<Rightarrow> dyn \<Rightarrow> failure list" where
  "format_checks_1 E R fld v =
     format_check R fld v ''email'' (re_ok E emailRegex) '' must be a valid email address''
     @ format_check R fld v ''url'' (re_ok E urlRegex) '' must be a valid URL''
     @ format_check R fld v ''uuid'' (re_ok E uuidRegex) '' must be a valid UUID''
     @ format_check R fld v ''ip'' (\<lambda>s. parse_ip E s \<noteq> None) '' must be a valid IP address''
     @ format_check R fld v ''ipv4'' (\<lambda>s. parse_ip E s = Some True) '' must be a valid IPv4 address''
     @ format_check R fld v ''ipv6'' (\<lambda>s. parse_ip E s = Some False) '' must be a valid IPv6 address''
     @ format_check R fld v ''mac'' (parse_mac E) '' must be a valid MAC address''
     @ format_check R fld v ''cidr'' (parse_cidr E) '' must be a valid CIDR notation''
     @ format_check R fld v ''hostname'' (re_ok E hostnameRegex) '' must be a valid hostname''
     @ format_check R fld v ''fqdn'' (re_ok E fqdnRegex) '' must be a valid FQDN''"

text \<open>\<open>latitude\<close> and \<open>longitude\<close> look at every value; what is not a number fails them.\<close>

definition coordinate_check :: "venv \<Rightarrow> rules \<Rightarrow> string \<Rightarrow> dyn \<Rightarrow> string \<Rightarrow> real \<Rightarrow> string \<Rightarrow> failure list" where
  "coordinate_check E R fld v rule bound txt =
     (if r_flags R rule then
        fail_if R rule (\<not> (case toFloat64 E v of
                              Some n \<Rightarrow> f_le (Fin (- bound)) n \<and> f_le n (Fin bound)
                            | None \<Rightarrow> False)) (fld @ txt)
      else [])"

definition format_checks_2 :: "venv \<Rightarrow> rules \<Rightarrow> string \<Rightarrow> dyn \<Rightarrow> failure list" where
  "format_checks_2 E R fld v =
     format_check R fld v ''base64'' (base64_ok E) '' must be a valid base64 string''
     @ format_check R fld v ''jsonValid'' (json_ok E) '' must be a valid JSON string''
     @ format_check R fld v ''jwt'' (re_ok E jwtRegex) '' must be a valid JWT token''
     @ format_check R fld v ''lowercase'' (\<lambda>s. s = go_lower s) '' must be lowercase''
     @ format_check R fld v ''uppercase'' (\<lambda>s. s = go_upper s) '' must be uppercase''
     @ format_check R fld v ''creditCard'' luhnCheck '' must be a valid credit card number''
     @ coordinate_check E R fld v ''latitude'' 90 '' must be a valid latitude''
     @ coordinate_check E R fld v ''longitude'' 180 '' must be a valid longitude''
     @ format_check R fld v ''timezone'' (load_location E) '' must be a valid timezone''"

text \<open>The string validators before \<open>pattern\<close>.\<close>

definition text_check :: "rules \<Rightarrow> dyn \<Rightarrow> string \<Rightarrow> string option \<Rightarrow> (string \<Rightarrow> string \<Rightarrow> bool) \<Rightarrow> (string \<Rightarrow> string)
    \<Rightarrow> failure list" where
  "text_check R v rule arg ok txt =
     opt_check arg (\<lambda>a. case v of DStr s \<Rightarrow> fail_if R rule (\<not> ok s a) (txt a) | _ \<Rightarrow> [])"

definition string_checks :: "venv \<Rightarrow> rules \<Rightarrow> string \<Rightarrow> dyn \<Rightarrow> failure list" where
  "string_checks E R fld v =
     (if r_flags R ''notEmpty'' then
        fail_if R ''notEmpty''
          (case v of DStr s \<Rightarrow> trim_space s = '''' | DArr xs \<Rightarrow> length xs = 0 | _ \<Rightarrow> False)
          (fld @ '' cannot be empty'')
      else [])
     @ format_check R fld v ''alphanumeric'' (re_ok E ''^[a-zA-Z0-9]+$'') '' must contain only letters and numbers''
     @ format_check R fld v ''numeric'' (re_ok E ''^[0-9]+$'') '' must contain only numbers''
     @ format_check R fld v ''alpha'' (re_ok E ''^[a-zA-Z]+$'') '' must contain only letters''
     @ text_check R v ''contains'' (r_contains R) (\<lambda>s a. go_contains s a) (\<lambda>a. fld @ '' must contain '' @ quoted a)
     @ text_check R v ''notContains'' (r_notContains R) (\<lambda>s a. \<not> go_contains s a) (\<lambda>a. fld @ '' must not contain '' @ quoted a)
     @ text_check R v ''startsWith'' (r_startsWith R) (\<lambda>s a. prefix a s) (\<lambda>a. fld @ '' must start with '' @ quoted a)
     @ text_check R v ''endsWith'' (r_endsWith R) (\<lambda>s a. suffix a s) (\<lambda>a. fld @ '' must end with '' @ quoted a)"

text \<open>\<open>pattern\<close> can end the directive with an error (\<open>None\<close>).\<close>

definition pattern_check :: "venv \<Rightarrow> rules \<Rightarrow> string \<Rightarrow> dyn \<Rightarrow> failure list option" where
  "pattern_check E R fld v =
     (case r_pattern R of
        None \<Rightarrow> Some []
      | Some p \<Rightarrow>
          (case v of
             DStr s \<Rightarrow>
               (case match_re E p s of
                  None \<Rightarrow> None
                | Some m \<Rightarrow> Some (fail_if R ''pattern'' (\<not> m) (fld @ '' does not match the required pattern'')))
           | _ \<Rightarrow> Some []))"

text \<open>\<open>min\<close> and \<open>max\<close> switch on the numeric types; a string is not parsed there.\<close>

definition number_of :: "venv \<Rightarrow> dyn \<Rightarrow> flt option" where
  "number_of E v = (case v of DInt n \<Rightarrow> Some (Fin (int_to_f64 E n)) | DFloat f \<Rightarrow> Some f | _ \<Rightarrow> None)"

definition bound_checks :: "venv \<Rightarrow> rules \<Rightarrow> string \<Rightarrow> dyn \<Rightarrow> failure list" where
  "bound_checks E R fld v =
     opt_check (r_min R) (\<lambda>b. opt_check (number_of E v) (\<lambda>n.
       fail_if R ''min'' (f_lt n b) (fld @ '' must be at least '' @ show_g E b)))
     @ opt_check (r_max R) (\<lambda>b. opt_check (number_of E v) (\<lambda>n.
       fail_if R ''max'' (f_lt b n) (fld @ '' must be at most '' @ show_g E b)))"

definition numeric_checks :: "venv \<Rightarrow> rules \<Rightarrow> string \<Rightarrow> dyn \<Rightarrow> failure list" where
  "numeric_checks E R fld v =
     opt_check (r_eq R) (\<lambda>b. opt_check (toFloat64 E v) (\<lambda>n.
       fail_if R ''eq'' (\<not> f_eq n b) (fld @ '' must be equal to '' @ show_g E b)))
     @ opt_check (r_ne R) (\<lambda>b. opt_check (toFloat64 E v) (\<lambda>n.
       fail_if R ''ne'' (f_eq n b) (fld @ '' must not be equal to '' @ show_g E b)))
     @ opt_check (r_gt R) (\<lambda>b. opt_check (toFloat64 E v) (\<lambda>n.
       fail_if R ''gt'' (f_le n b) (fld @ '' must be greater than '' @ show_g E b)))
     @ opt_check (r_lt R) (\<lambda>b. opt_check (toFloat64 E v) (\<lambda>n.
       fail_if R ''lt'' (f_le b n) (fld @ '' must be less than '' @ show_g E b)))"

text \<open>Lengths in bytes of a string, in items of a list.\<close>

definition length_check :: "venv \<Rightarrow> rules \<Rightarrow> dyn \<Rightarrow> string \<Rightarrow> int option \<Rightarrow> (int \<Rightarrow> int \<Rightarrow> bool)
    \<Rightarrow> string \<Rightarrow> string \<Rightarrow> failure list" where
  "length_check E R v rule arg bad chars items =
     opt_check arg (\<lambda>b. case v of
         DStr s \<Rightarrow> fail_if R rule (bad (int (length s)) b) (chars @ show_int E b @ '' characters'')
       | DArr xs \<Rightarrow> fail_if R rule (bad (int (length xs)) b) (items @ show_int E b @ '' items'')
       | _ \<Rightarrow> [])"

definition length_checks :: "venv \<Rightarrow> rules \<Rightarrow> string \<Rightarrow> dyn \<Rightarrow> failure list" where
  "length_checks E R fld v =
     length_check E R v ''minLen'' (r_minLen R) (\<lambda>n b. n < b) (fld @ '' must be at least '') (fld @ '' must have at least '')
     @ length_check E R v ''maxLen'' (r_maxLen R) (\<lambda>n b. n > b) (fld @ '' must be at most '') (fld @ '' must have at most '')
     @ length_check E R v ''len'' (r_len R) (\<lambda>n b. n \<noteq> b) (fld @ '' must be exactly '') (fld @ '' must have exactly '')"

definition array_checks :: "venv \<Rightarrow> rules \<Rightarrow> string \<Rightarrow> dyn \<Rightarrow> failure list" where
  "array_checks E R fld v =
     opt_check (r_minItems R) (\<lambda>b. case v of
         DArr xs \<Rightarrow> fail_if R ''minItems'' (int (length xs) < b) (fld @ '' must have at least '' @ show_int E b @ '' items'')
       | _ \<Rightarrow> [])
     @ opt_check (r_maxItems R) (\<lambda>b. case v of
         DArr xs \<Rightarrow> fail_if R ''maxItems'' (int (length xs) > b) (fld @ '' must have at most '' @ show_int E b @ '' items'')
       | _ \<Rightarrow> [])"

definition enum_check :: "venv \<Rightarrow> rules \<Rightarrow> string \<Rightarrow> dyn \<Rightarrow> failure list" where
  "enum_check E R fld v =
     (if 0 < length (r_enum R) then
        fail_if R ''enum'' (\<not> list_ex (\<lambda>a. show_v E v = a) (r_enum R))
          (fld @ '' must be one of: '' @ join_with '', '' (r_enum R))
      else [])"

definition user_checks :: "venv \<Rightarrow> rules \<Rightarrow> dyn \<Rightarrow> failure list" where
  "user_checks E R v =
     (if r_flags R ''userExist'' then
        (case v of
           DStr s \<Rightarrow>
             if s = '''' then []
             else
               (case cached_roles E s of
                  None \<Rightarrow> fail_if R ''userExist'' True (''user with ID '' @ s @ '' not found'')
                | Some roles \<Rightarrow>
                    (case r_userHasRole R of
                       Some want \<Rightarrow>
                         if want = '''' then []
                         else fail_if R ''userHasRole'' (\<not> list_ex (\<lambda>x. x = want) roles)
                           (''user with ID '' @ s @ '' does not have role '' @ quoted want)
                     | None \<Rightarrow> []))
         | _ \<Rightarrow> [])
      else [])"

subsection \<open>The directive\<close>

text \<open>The name a failure is reported under, from the path of the field (root first, each segment with its
  list index if any).\<close>

type_synonym path = "(string \<times> int option) list"

definition segment_text :: "venv \<Rightarrow> string \<times> int option \<Rightarrow> string" where
  "segment_text E seg = (case snd seg of None \<Rightarrow> fst seg | Some i \<Rightarrow> fst seg @ ''['' @ show_int E i @ '']'')"

definition resolve_field_name :: "venv \<Rightarrow> path \<Rightarrow> string \<Rightarrow> string" where
  "resolve_field_name E path fieldName =
     (let segments = map (segment_text E) path;
          isArray = list_ex (\<lambda>s. snd s \<noteq> None) path;
          n = length segments;
          name =
            (if n = 0 then ''''
             else if isArray \<and> 2 \<le> n then join_with ''.'' (drop (n - 2) segments)
             else if n = 1 then segments ! 0
             else if go_contains (segments ! (n - 2)) ''['' then segments ! (n - 2) @ ''.'' @ segments ! (n - 1)
             else segments ! (n - 1))
      in if name = '''' then fieldName else name)"

text \<open>Everything the rules find wrong with a value: \<open>None\<close> is the error of an invalid pattern.\<close>

definition check_rules :: "venv \<Rightarrow> rules \<Rightarrow> string \<Rightarrow> obj \<Rightarrow> dyn \<Rightarrow> failure list option" where
  "check_rules E R fld obj v =
     (let required = cross_required R fld obj v in
      if v = DNil then Some required
      else
        (case pattern_check E R fld v of
           None \<Rightarrow> None
         | Some pat \<Rightarrow>
             Some (required @ cross_compare E R fld obj v @ format_checks_1 E R fld v @ format_checks_2 E R fld v
                   @ string_checks E R fld v @ pat @ bound_checks E R fld v @ numeric_checks E R fld v
                   @ length_checks E R fld v @ array_checks E R fld v @ enum_check E R fld v @ user_checks E R v)))"

record field_error =
  fe_Field :: string
  fe_Value :: dyn
  fe_Rules :: "string list"
  fe_Messages :: "string list"

text \<open>The collector: \<open>ValidationErrors\<close> has the errors in order; \<open>errorMap\<close> points into it, so it is the
  first (and only) entry of a field, updated in place.\<close>

record validation_errors =
  ve_Errors :: "field_error list"
  ve_hasErrs :: bool

definition NewValidationErrors :: validation_errors where
  "NewValidationErrors = \<lparr>ve_Errors = [], ve_hasErrs = False\<rparr>"

fun merge_into :: "field_error \<Rightarrow> field_error list \<Rightarrow> field_error list" where
  "merge_into e [] = [e]"
| "merge_into e (x # xs) =
     (if fe_Field x = fe_Field e
      then x\<lparr>fe_Rules := fe_Rules x @ fe_Rules e, fe_Messages := fe_Messages x @ fe_Messages e,
             fe_Value := fe_Value e\<rparr> # xs
      else x # merge_into e xs)"

definition ve_Add :: "field_error \<Rightarrow> validation_errors \<Rightarrow> validation_errors" where
  "ve_Add e ve = ve\<lparr>ve_Errors := merge_into e (ve_Errors ve), ve_hasErrs := True\<rparr>"

text \<open>The context holds the collector or not. Without one, \<open>WithValidationError\<close> puts a new collector
  into a context that the directive then drops.\<close>

definition WithValidationError :: "field_error \<Rightarrow> validation_errors option \<Rightarrow> validation_errors option" where
  "WithValidationError e ctx = (case ctx of Some ve \<Rightarrow> Some (ve_Add e ve) | None \<Rightarrow> None)"

text \<open>One field through the directive: \<open>resolved\<close> is what \<open>next\<close> returned. The result is the value or the
  error handed back, and the collector afterwards.\<close>

definition Directive :: "venv \<Rightarrow> rules \<Rightarrow> path \<Rightarrow> string \<Rightarrow> obj \<Rightarrow> string + raw \<Rightarrow> validation_errors option
    \<Rightarrow> (string + raw) \<times> validation_errors option" where
  "Directive E R path fieldName obj resolved ctx =
     (case resolved of
        Inl err \<Rightarrow> (Inl err, ctx)
      | Inr returnValue \<Rightarrow>
          (let v = derefPointer returnValue; fld = resolve_field_name E path fieldName in
           case check_rules E R fld obj v of
             None \<Rightarrow> (Inl ''invalid regex pattern'', ctx)
           | Some fs \<Rightarrow>
               (Inr returnValue,
                if 0 < length fs
                then WithValidationError \<lparr>fe_Field = fld, fe_Value = v, fe_Rules = map fst fs, fe_Messages = map snd fs\<rparr> ctx
                else ctx)))"

text \<open>\<open>Middleware\<close>: a root resolver's result is replaced by the collected errors.\<close>

definition Middleware :: "bool \<Rightarrow> validation_errors option \<Rightarrow> string + raw \<Rightarrow> validation_errors + (string + raw)" where
  "Middleware isResolver ctx result =
     (case ctx of
        Some ve \<Rightarrow> if isResolver \<and> ve_hasErrs ve then Inl ve else Inr result
      | None \<Rightarrow> Inr result)"

subsection \<open>From the rules to the response\<close>

record field_run =
  fr_rules :: rules
  fr_path :: path
  fr_name :: string
  fr_obj :: obj
  fr_value :: raw

text \<open>The directives of one operation, each on a value its \<open>next\<close> returned, sharing a context.\<close>

fun run_fields :: "venv \<Rightarrow> field_run list \<Rightarrow> validation_errors option \<Rightarrow> validation_errors option" where
  "run_fields E [] ctx = ctx"
| "run_fields E (r # rs) ctx =
     run_fields E rs (snd (Directive E (fr_rules r) (fr_path r) (fr_name r) (fr_obj r) (Inr (fr_value r)) ctx))"

text \<open>What a directive has to report about its field.\<close>

definition report :: "venv \<Rightarrow> field_run \<Rightarrow> field_error list" where
  "report E r =
     (let v = derefPointer (fr_value r); fld = resolve_field_name E (fr_path r) (fr_name r) in
      case check_rules E (fr_rules r) fld (fr_obj r) v of
        None \<Rightarrow> []
      | Some fs \<Rightarrow> if fs = [] then []
          else [\<lparr>fe_Field = fld, fe_Value = v, fe_Rules = map fst fs, fe_Messages = map snd fs\<rparr>])"

lemma Directive_report:
  "snd (Directive E (fr_rules r) (fr_path r) (fr_name r) (fr_obj r) (Inr (fr_value r)) (Some ve)) =
     Some (fold ve_Add (report E r) ve)"
  by (simp add: Directive_def report_def Let_def WithValidationError_def split: option.split)

lemma run_fields_report: "run_fields E rs (Some ve) = Some (fold ve_Add (concat (map (report E) rs)) ve)"
  by (induction rs arbitrary: ve) (simp_all add: Directive_report)

lemma run_fields_None: "run_fields E rs None = None"
  by (induction rs) (simp_all add: Directive_def Let_def WithValidationError_def split: option.split)

text \<open>The entries of the collector after the reports \<open>es\<close>.\<close>

definition of_field :: "string \<Rightarrow> field_error list \<Rightarrow> field_error list" where
  "of_field n es = filter (\<lambda>e. fe_Field e = n) es"

definition collected :: "field_error list \<Rightarrow> field_error list \<Rightarrow> bool" where
  "collected es xs \<longleftrightarrow>
     distinct (map fe_Field xs) \<and> fe_Field ` set xs = fe_Field ` set es
     \<and> (\<forall>x\<in>set xs. fe_Rules x = concat (map fe_Rules (of_field (fe_Field x) es))
          \<and> fe_Messages x = concat (map fe_Messages (of_field (fe_Field x) es))
          \<and> fe_Value x = fe_Value (last (of_field (fe_Field x) es)))"

lemma merge_into_fields: "fe_Field ` set (merge_into e xs) = insert (fe_Field e) (fe_Field ` set xs)"
  by (induction xs) auto

lemma merge_into_distinct: "distinct (map fe_Field xs) \<Longrightarrow> distinct (map fe_Field (merge_into e xs))"
proof (induction xs)
  case (Cons x xs)
  have "fe_Field x \<notin> fe_Field ` set (merge_into e xs)" if "fe_Field x \<noteq> fe_Field e"
    using Cons.prems that by (simp add: merge_into_fields)
  with Cons show ?case by auto
qed simp

lemma merge_into_mem:
  "distinct (map fe_Field xs) \<Longrightarrow> y \<in> set (merge_into e xs) \<Longrightarrow>
     (y \<in> set xs \<and> fe_Field y \<noteq> fe_Field e)
     \<or> (\<exists>x\<in>set xs. fe_Field x = fe_Field e \<and> y = x\<lparr>fe_Rules := fe_Rules x @ fe_Rules e,
          fe_Messages := fe_Messages x @ fe_Messages e, fe_Value := fe_Value e\<rparr>)
     \<or> (y = e \<and> fe_Field e \<notin> fe_Field ` set xs)"
proof (induction xs)
  case Nil
  then show ?case by simp
next
  case (Cons a xs)
  show ?case
  proof (cases "fe_Field a = fe_Field e")
    case True
    have others: "fe_Field z \<noteq> fe_Field e" if "z \<in> set xs" for z
    proof
      assume "fe_Field z = fe_Field e"
      with True that have "fe_Field a \<in> fe_Field ` set xs" by (metis image_eqI)
      with Cons.prems(1) show False by simp
    qed
    from True Cons.prems(2) others show ?thesis by auto
  next
    case False
    with Cons show ?thesis by auto
  qed
qed

lemma collected_merge:
  assumes "collected es xs"
  shows "collected (es @ [e]) (merge_into e xs)"
proof -
  from assms have dist: "distinct (map fe_Field xs)" and fields: "fe_Field ` set xs = fe_Field ` set es"
    by (simp_all add: collected_def)
  have absent: "of_field (fe_Field e) es = []" if "fe_Field e \<notin> fe_Field ` set xs"
  proof -
    from that have "fe_Field e \<notin> fe_Field ` set es" by (simp only: fields not_False_eq_True)
    then have "fe_Field x \<noteq> fe_Field e" if "x \<in> set es" for x using that by (metis image_eqI)
    then show ?thesis by (simp add: of_field_def filter_empty_conv)
  qed
  have "fe_Rules y = concat (map fe_Rules (of_field (fe_Field y) (es @ [e])))
      \<and> fe_Messages y = concat (map fe_Messages (of_field (fe_Field y) (es @ [e])))
      \<and> fe_Value y = fe_Value (last (of_field (fe_Field y) (es @ [e])))"
    if "y \<in> set (merge_into e xs)" for y
    using merge_into_mem [OF dist that]
  proof (elim disjE conjE bexE)
    assume "y \<in> set xs" "fe_Field y \<noteq> fe_Field e"
    with assms show ?thesis by (simp add: collected_def of_field_def)
  next
    fix x
    assume "x \<in> set xs" "fe_Field x = fe_Field e"
      "y = x\<lparr>fe_Rules := fe_Rules x @ fe_Rules e, fe_Messages := fe_Messages x @ fe_Messages e, fe_Value := fe_Value e\<rparr>"
    with assms show ?thesis by (simp add: collected_def of_field_def)
  next
    assume "y = e" "fe_Field e \<notin> fe_Field ` set xs"
    with absent show ?thesis by (simp add: of_field_def)
  qed
  with dist fields show ?thesis by (simp add: collected_def merge_into_distinct merge_into_fields)
qed

lemma collector:
  "collected es (ve_Errors (fold ve_Add es NewValidationErrors))
   \<and> (ve_hasErrs (fold ve_Add es NewValidationErrors) \<longleftrightarrow> es \<noteq> [])"
proof (induction es rule: rev_induct)
  case Nil
  then show ?case by (simp add: collected_def NewValidationErrors_def)
next
  case (snoc e es)
  then show ?case using collected_merge by (simp add: ve_Add_def)
qed

text \<open>C19. Nothing invalid gets through and nothing valid is refused. With the collector that
  \<open>OperationMiddleware\<close> installs, the root resolver's result is replaced by the errors exactly when some
  field failed a rule, and then the collector lists each failing field once, with the rules and messages
  of all its failures in order and its last value. Without a collector on the context, the directives'
  findings are lost and the result passes.\<close>

theorem validation_response:
  "\<exists>ve. run_fields E rs (Some NewValidationErrors) = Some ve
     \<and> collected (concat (map (report E) rs)) (ve_Errors ve)
     \<and> Middleware True (Some ve) res = (if \<exists>r\<in>set rs. report E r \<noteq> [] then Inl ve else Inr res)
     \<and> Middleware True (run_fields E rs None) res = Inr res"
proof -
  have "concat (map (report E) rs) \<noteq> [] \<longleftrightarrow> (\<exists>r\<in>set rs. report E r \<noteq> [])" by auto
  with collector [of "concat (map (report E) rs)"] show ?thesis
    by (simp add: run_fields_report run_fields_None Middleware_def)
qed

subsection \<open>The rules on optional values\<close>

definition only_bounds :: "flt \<Rightarrow> flt \<Rightarrow> rules" where
  "only_bounds lo hi = no_rules\<lparr>r_min := Some lo, r_max := Some hi\<rparr>"

lemmas check_defs = check_rules_def cross_required_def cross_compare_def format_checks_1_def format_checks_2_def
  format_check_def coordinate_check_def string_checks_def text_check_def pattern_check_def bound_checks_def
  numeric_checks_def length_checks_def length_check_def array_checks_def enum_check_def user_checks_def
  opt_check_def

text \<open>A null value is judged by the required and excluded rules only, and by nothing when there are
  none; a value of the wrong type is ignored by every string rule; and numeric bounds accept exactly the
  numbers between them, NaN included (it is below no bound), where \<open>gt\<close> and \<open>lt\<close> do not refuse NaN either
  but \<open>eq\<close> does.\<close>

theorem optional_values:
  "check_rules E R fld obj DNil = Some (cross_required R fld obj DNil)
   \<and> (v \<noteq> DNil \<longrightarrow> (\<forall>s. v \<noteq> DStr s) \<longrightarrow> pattern_check E R fld v = Some []
        \<and> format_checks_1 E R fld v = [] \<and> user_checks E R v = [])
   \<and> (check_rules E (only_bounds lo hi) fld obj v = Some [] \<longleftrightarrow>
        (case number_of E v of Some n \<Rightarrow> \<not> f_lt n lo \<and> \<not> f_lt hi n | None \<Rightarrow> True))
   \<and> check_rules E (only_bounds lo hi) fld obj (DFloat NaN) = Some []
   \<and> check_rules E (no_rules\<lparr>r_gt := Some lo, r_lt := Some hi\<rparr>) fld obj (DFloat NaN) = Some []
   \<and> check_rules E (no_rules\<lparr>r_eq := Some lo\<rparr>) fld obj (DFloat NaN) \<noteq> Some []"
proof -
  have nan: "\<not> f_lt NaN x" "\<not> f_lt x NaN" "\<not> f_eq NaN x" "\<not> f_eq x NaN" for x
    by (cases x; simp add: f_eq_def)+
  have quiet: "check_rules E (only_bounds lo hi) fld obj v = Some [] \<longleftrightarrow>
      (case number_of E v of Some n \<Rightarrow> \<not> f_lt n lo \<and> \<not> f_lt hi n | None \<Rightarrow> True)" for v
    by (cases "v = DNil")
      (auto simp: check_defs only_bounds_def no_rules_def fail_if_def number_of_def Let_def split: option.split dyn.split)
  have other: "v \<noteq> DNil \<longrightarrow> (\<forall>s. v \<noteq> DStr s) \<longrightarrow> pattern_check E R fld v = Some []
      \<and> format_checks_1 E R fld v = [] \<and> user_checks E R v = []"
    by (cases v) (simp_all add: pattern_check_def format_checks_1_def format_check_def user_checks_def split: option.split)
  show ?thesis
    unfolding quiet using nan other
    by (simp add: number_of_def check_defs no_rules_def fail_if_def toFloat64_def f_le_def Let_def)
qed

text \<open>The witness: bounds 0 and 10 on a boolean and on 7; the environment is one whose parsers refuse everything.\<close>

definition sample_env :: venv where
  "sample_env = \<lparr>match_re = (\<lambda>_ _. Some True), parse_ip = (\<lambda>_. None), parse_mac = (\<lambda>_. False), parse_cidr = (\<lambda>_. False),
     base64_ok = (\<lambda>_. False), json_ok = (\<lambda>_. False), load_location = (\<lambda>_. False), parse_float = (\<lambda>_. None),
     int_to_f64 = real_of_int, show_g = (\<lambda>_. []), show_int = (\<lambda>_. []), show_v = (\<lambda>_. []), cached_roles = (\<lambda>_. None)\<rparr>"

lemma optional_values_witness:
  "pattern_check sample_env no_rules ''price'' (DBool True) = Some []
   \<and> check_rules sample_env (only_bounds (Fin 0) (Fin 10)) ''price'' None (DInt 7) = Some []"
proof -
  have "pattern_check sample_env no_rules ''price'' (DBool True) = Some []"
    using optional_values [of sample_env no_rules "''price''" None "DBool True" "Fin 0" "Fin 10"] by simp
  moreover have "number_of sample_env (DInt 7) = Some (Fin 7)" by (simp add: number_of_def sample_env_def)
  then have "check_rules sample_env (only_bounds (Fin 0) (Fin 10)) ''price'' None (DInt 7) = Some []"
    using optional_values [of sample_env no_rules "''price''" None "DInt 7" "Fin 0" "Fin 10"] by simp
  ultimately show ?thesis ..
qed

subsection \<open>What Luhn's check detects\<close>

definition luhn_weight :: "bool \<Rightarrow> char \<Rightarrow> nat" where
  "luhn_weight alt c = (if alt then luhn_double (digit_val c) else digit_val c)"

fun luhn_sum :: "bool \<Rightarrow> string \<Rightarrow> nat" where
  "luhn_sum alt [] = 0"
| "luhn_sum alt (c # cs) = luhn_weight alt c + luhn_sum (\<not> alt) cs"

lemma luhn_loop_sum:
  "luhn_loop acc alt cs = (if \<forall>c\<in>set cs. is_digit c then Some (acc + luhn_sum alt cs) else None)"
  by (induction cs arbitrary: acc alt) (simp_all add: luhn_weight_def)

lemma luhn_sum_append: "luhn_sum alt (xs @ ys) = luhn_sum alt xs + luhn_sum (alt \<noteq> odd (length xs)) ys"
proof (induction xs arbitrary: alt)
  case (Cons x xs)
  then show ?case by (cases alt) simp_all
qed simp

lemma luhnCheck_sum:
  "luhnCheck s \<longleftrightarrow> 13 \<le> length (luhn_clean s) \<and> length (luhn_clean s) \<le> 19
     \<and> (\<forall>c\<in>set (luhn_clean s). is_digit c) \<and> luhn_sum False (rev (luhn_clean s)) mod 10 = 0"
  by (auto simp: luhnCheck_def Let_def luhn_loop_sum)

lemma digit_range: "is_digit c \<Longrightarrow> digit_val c \<le> 9"
  by (auto simp: is_digit_def byte_in_def digit_val_def)

lemma digit_val_inj: "is_digit c \<Longrightarrow> is_digit d \<Longrightarrow> digit_val c = digit_val d \<Longrightarrow> c = d"
proof -
  assume "is_digit c" "is_digit d" "digit_val c = digit_val d"
  then have "(of_char c :: nat) = of_char d"
    by (auto simp: is_digit_def byte_in_def digit_val_def simp del: of_char_eq_iff)
  then show "c = d" by simp
qed

lemma luhn_double_inj:
  "m \<le> 9 \<Longrightarrow> n \<le> 9 \<Longrightarrow> luhn_double m mod 10 = luhn_double n mod 10 \<Longrightarrow> m = n"
  by (simp add: luhn_double_def split: if_splits) presburger+

lemma luhn_weight_inj:
  assumes "is_digit c" "is_digit d" "luhn_weight alt c mod 10 = luhn_weight alt d mod 10"
  shows "c = d"
proof (cases alt)
  case True
  with assms luhn_double_inj [OF digit_range digit_range] have "digit_val c = digit_val d"
    by (simp add: luhn_weight_def)
  with assms show ?thesis by (simp add: digit_val_inj)
next
  case False
  with assms digit_range [of c] digit_range [of d] have "digit_val c = digit_val d" by (simp add: luhn_weight_def)
  with assms show ?thesis by (simp add: digit_val_inj)
qed

lemma luhn_double_swap:
  fixes m n :: nat
  assumes "m \<le> 9" "n \<le> 9" "(m + luhn_double n) mod 10 = (n + luhn_double m) mod 10"
  shows "m = n \<or> {m, n} = {0, 9}"
proof -
  have "m \<in> {0,1,2,3,4,5,6,7,8,9}" "n \<in> {0,1,2,3,4,5,6,7,8,9}" using assms by auto
  with assms(3) show ?thesis by (auto simp: luhn_double_def)
qed

lemma luhn_clean_append: "luhn_clean (xs @ ys) = luhn_clean xs @ luhn_clean ys"
  by (simp add: luhn_clean_def)

lemma luhn_clean_digit: "is_digit c \<Longrightarrow> luhn_clean (c # ys) = c # luhn_clean ys"
  by (auto simp: luhn_clean_def is_digit_def byte_in_def)

lemma mod_cancel_add: "(a + x + b) mod 10 = 0 \<Longrightarrow> (a + y + b) mod 10 = 0 \<Longrightarrow> x mod 10 = (y::nat) mod 10"
proof -
  assume "(a + x + b) mod 10 = 0" "(a + y + b) mod 10 = 0"
  then obtain k l where "a + x + b = 10 * k" "a + y + b = 10 * l" by (auto simp: mod_eq_0_iff_dvd elim!: dvdE)
  then have "x + 10 * l = y + 10 * k" by simp
  then have "(x + 10 * l) mod 10 = (y + 10 * k) mod 10" by simp
  then show "x mod 10 = y mod 10" by simp
qed

text \<open>C20. Luhn's check does what it is there for: in a number it accepts, with any spaces and dashes
  between the digits, replacing one digit by another makes it refused, and so does swapping two
  neighbouring different digits, unless they are a 0 and a 9.\<close>

theorem luhn_detects:
  assumes digits: "is_digit c" "is_digit d" "c \<noteq> d"
  shows "(luhnCheck (xs @ c # ys) \<longrightarrow> \<not> luhnCheck (xs @ d # ys))
    \<and> (luhnCheck (xs @ c # d # ys) \<and> {c, d} \<noteq> {CHR ''0'', CHR ''9''} \<longrightarrow> \<not> luhnCheck (xs @ d # c # ys))"
proof (intro conjI impI; (elim conjE)?)
  define alt where "alt = odd (length (luhn_clean ys))"
  let ?before = "\<lambda>k. luhn_sum (odd (length (luhn_clean ys) + k)) (rev (luhn_clean xs))"
  let ?after = "luhn_sum False (rev (luhn_clean ys))"
  have one: "luhn_sum False (rev (luhn_clean (xs @ e # ys))) = ?after + luhn_weight alt e + ?before 1" if "is_digit e" for e
    using that by (simp add: luhn_clean_append luhn_clean_digit luhn_sum_append alt_def)
  show "\<not> luhnCheck (xs @ d # ys)" if "luhnCheck (xs @ c # ys)"
  proof
    assume "luhnCheck (xs @ d # ys)"
    with that digits one have "luhn_weight alt c mod 10 = luhn_weight alt d mod 10"
      by (intro mod_cancel_add [of ?after _ "?before 1"]) (simp_all add: luhnCheck_sum)
    with digits luhn_weight_inj show False by blast
  qed
  have two: "luhn_sum False (rev (luhn_clean (xs @ e # f # ys)))
      = ?after + (luhn_weight alt f + luhn_weight (\<not> alt) e) + ?before 2" if "is_digit e" "is_digit f" for e f
    using that by (simp add: luhn_clean_append luhn_clean_digit luhn_sum_append alt_def)
  show "\<not> luhnCheck (xs @ d # c # ys)" if "luhnCheck (xs @ c # d # ys)" "{c, d} \<noteq> {CHR ''0'', CHR ''9''}"
  proof
    assume "luhnCheck (xs @ d # c # ys)"
    with that(1) digits two
    have same: "(luhn_weight alt d + luhn_weight (\<not> alt) c) mod 10 = (luhn_weight alt c + luhn_weight (\<not> alt) d) mod 10"
      by (intro mod_cancel_add [of ?after _ "?before 2"]) (simp_all add: luhnCheck_sum)
    let ?c = "digit_val c" and ?d = "digit_val d"
    from same have "(?c + luhn_double ?d) mod 10 = (?d + luhn_double ?c) mod 10"
      by (cases alt) (simp_all add: luhn_weight_def add.commute)
    with digits luhn_double_swap [of ?c ?d] digit_range have "?c = ?d \<or> {?c, ?d} = {0, 9}" by simp
    moreover have "?c \<noteq> ?d" using digits digit_val_inj by blast
    moreover have "digit_val CHR ''0'' = 0" "digit_val CHR ''9'' = 9" "is_digit CHR ''0''" "is_digit CHR ''9''"
      by (simp_all add: digit_val_def is_digit_def byte_in_def)
    ultimately show False using that(2) digits digit_val_inj by (metis doubleton_eq_iff)
  qed
qed

lemma luhn_detects_witness:
  "luhnCheck ''4111 1111 1111 1111'' \<and> \<not> luhnCheck ''4111 1111 1111 1171'' \<and> \<not> luhnCheck ''1411 1111 1111 1111''"
proof -
  have ok: "luhnCheck ''4111 1111 1111 1111''" by code_simp
  have "is_digit CHR ''1''" "is_digit CHR ''7''" "is_digit CHR ''4''" by code_simp+
  moreover have "is_digit CHR ''1''" "{CHR ''4'', CHR ''1''} \<noteq> {CHR ''0'', CHR ''9''}"
    by (code_simp, simp add: doubleton_eq_iff)
  ultimately show ?thesis
    using ok luhn_detects [of "CHR ''1''" "CHR ''7''" "''4111 1111 1111 11''" "''1''"]
      luhn_detects [of "CHR ''4''" "CHR ''1''" "[]" "''11 1111 1111 1111''"]
    by simp
qed

end
