(* ===== verification/RateLimit.thy ===== *)
theory RateLimit
  imports Request_Context
begin

text \<open>
  Rate limiting and the origin of a request: the fixed-window counter (\<open>src/ratelimit/ratelimit.go\<close>), the
  middleware that throttles signed-in users (\<open>src/middleware/ratelimit_middleware.go\<close>), and the resolution of the
  caller's address and user agent (\<open>src/middleware/client_origin.go\<close>).

  Redis is a parameter, the record \<open>ctr_redis\<close>: INCR and PEXPIRE on an abstract server state, a fault that
  loses the request or the reply, the passing of time, and the ghost view of a key's counter with the
  milliseconds it has left. \<open>ctr_laws\<close> states their documented behaviour. Durations are nanoseconds. Counters
  are far below INCR's range of 2^63.
\<close>

subsection \<open>The counter\<close>

datatype fault = NoFault | LostRequest | LostReply

record 's ctr_redis =
  cr_view :: "'s \<Rightarrow> string \<Rightarrow> (int \<times> int option) option"
  cr_elapse :: "int \<Rightarrow> 's \<Rightarrow> 's"
  cr_fault :: "'s \<Rightarrow> fault"
  cr_incr :: "string \<Rightarrow> 's \<Rightarrow> int \<times> 's"
  cr_pexpire :: "string \<Rightarrow> int \<Rightarrow> 's \<Rightarrow> 's"

definition elapse_law :: "'s ctr_redis \<Rightarrow> bool" where
  "elapse_law R \<longleftrightarrow> (\<forall>d s k. 0 \<le> d \<longrightarrow> cr_view R (cr_elapse R d s) k =
     (case cr_view R s k of
        Some (n, Some rest) \<Rightarrow> if rest \<le> d then None else Some (n, Some (rest - d)) | c \<Rightarrow> c))"

definition incr_law :: "'s ctr_redis \<Rightarrow> bool" where
  "incr_law R \<longleftrightarrow> (\<forall>k s. let (n, s') = cr_incr R k s in
     (case cr_view R s k of
        None \<Rightarrow> n = 1 \<and> cr_view R s' = (cr_view R s)(k \<mapsto> (1, None))
      | Some (m, ttl) \<Rightarrow> n = m + 1 \<and> cr_view R s' = (cr_view R s)(k \<mapsto> (m + 1, ttl))))"

definition pexpire_law :: "'s ctr_redis \<Rightarrow> bool" where
  "pexpire_law R \<longleftrightarrow> (\<forall>k ms s. cr_view R (cr_pexpire R k ms s) =
     (case cr_view R s k of
        None \<Rightarrow> cr_view R s
      | Some (n, _) \<Rightarrow> if ms \<le> 0 then (cr_view R s)(k := None) else (cr_view R s)(k \<mapsto> (n, Some ms))))"

definition ctr_laws :: "'s ctr_redis \<Rightarrow> bool" where
  "ctr_laws R \<longleftrightarrow> elapse_law R \<and> incr_law R \<and> pexpire_law R"

text \<open>A concrete server: the view is the state.\<close>

definition map_ctr :: "(string \<Rightarrow> (int \<times> int option) option) ctr_redis" where
  "map_ctr = \<lparr>cr_view = \<lambda>s. s,
     cr_elapse = \<lambda>d s k. (case s k of
        Some (n, Some rest) \<Rightarrow> if rest \<le> d then None else Some (n, Some (rest - d)) | c \<Rightarrow> c),
     cr_fault = \<lambda>_. NoFault,
     cr_incr = \<lambda>k s. (case s k of None \<Rightarrow> (1, s(k \<mapsto> (1, None))) | Some (m, ttl) \<Rightarrow> (m + 1, s(k \<mapsto> (m + 1, ttl)))),
     cr_pexpire = \<lambda>k ms s. (case s k of None \<Rightarrow> s
        | Some (n, _) \<Rightarrow> if ms \<le> 0 then s(k := None) else s(k \<mapsto> (n, Some ms)))\<rparr>"

lemma map_ctr_laws: "ctr_laws map_ctr"
  by (auto simp: ctr_laws_def elapse_law_def incr_law_def pexpire_law_def map_ctr_def split: option.splits)

text \<open>The Lua script, run atomically by the server.\<close>

definition incrExpireScript :: "'s ctr_redis \<Rightarrow> string \<Rightarrow> int \<Rightarrow> 's \<Rightarrow> int \<times> 's" where
  "incrExpireScript R key ms s =
     (case cr_incr R key s of (n, s') \<Rightarrow> if n = 1 then (n, cr_pexpire R key ms s') else (n, s'))"

definition Milliseconds :: "int \<Rightarrow> int" where
  "Milliseconds d = (if d < 0 then - (- d div 1000000) else d div 1000000)"

text \<open>\<open>Allow\<close>: the answer, whether there was an error, and the server afterwards. \<open>None\<close> is a nil client.\<close>

type_synonym 's limiter = "string \<Rightarrow> int \<Rightarrow> int \<Rightarrow> 's \<Rightarrow> (bool \<times> bool) \<times> 's"

definition Allow :: "'s ctr_redis option \<Rightarrow> 's limiter" where
  "Allow rdb key limit window s =
     (case rdb of
        None \<Rightarrow> ((True, False), s)
      | Some R \<Rightarrow>
          (case cr_fault R s of
             LostRequest \<Rightarrow> ((True, True), s)
           | LostReply \<Rightarrow> ((True, True), snd (incrExpireScript R (''ratelimit:'' @ key) (Milliseconds window) s))
           | NoFault \<Rightarrow>
               (case incrExpireScript R (''ratelimit:'' @ key) (Milliseconds window) s of
                  (n, s') \<Rightarrow> ((n \<le> limit, False), s'))))"

subsection \<open>Counting within a window\<close>

text \<open>A sequence of requests: time passes, then a key is hit with a limit and a window. What comes out
  is each hit's answer.\<close>

type_synonym hit = "int \<times> string \<times> int \<times> int"

fun run_hits :: "'s ctr_redis \<Rightarrow> hit list \<Rightarrow> 's \<Rightarrow> (string \<times> int \<times> bool) list \<times> 's" where
  "run_hits R [] s = ([], s)"
| "run_hits R ((wait, k, limit, window) # hs) s =
     (let ((ok, _), s1) = Allow (Some R) k limit window (cr_elapse R wait s);
          (rest, s2) = run_hits R hs s1
      in ((k, limit, ok) # rest, s2))"

text \<open>The answers to the hits of one key, of which \<open>n\<close> went before, are the limit's.\<close>

fun counted :: "string \<Rightarrow> int \<Rightarrow> (string \<times> int \<times> bool) list \<Rightarrow> bool" where
  "counted key n [] = True"
| "counted key n ((k, limit, ok) # xs) =
     (if k = key then (ok \<longleftrightarrow> n + 1 \<le> limit) \<and> counted key (n + 1) xs else counted key n xs)"

definition waited :: "hit list \<Rightarrow> int" where
  "waited hs = sum_list (map fst hs)"

lemma view_elapse:
  "ctr_laws R \<Longrightarrow> 0 \<le> d \<Longrightarrow> cr_view R s k = Some (n, Some rest) \<Longrightarrow> d < rest \<Longrightarrow>
     cr_view R (cr_elapse R d s) k = Some (n, Some (rest - d))"
  by (simp add: ctr_laws_def elapse_law_def)

lemma view_expired:
  "ctr_laws R \<Longrightarrow> cr_view R s k = Some (n, Some rest) \<Longrightarrow> 0 \<le> d \<Longrightarrow> rest \<le> d \<Longrightarrow>
     cr_view R (cr_elapse R d s) k = None"
  by (simp add: ctr_laws_def elapse_law_def)

lemma view_absent: "ctr_laws R \<Longrightarrow> 0 \<le> d \<Longrightarrow> cr_view R s k = None \<Longrightarrow> cr_view R (cr_elapse R d s) k = None"
  by (simp add: ctr_laws_def elapse_law_def)

lemma script_law:
  assumes "ctr_laws R"
  shows "incrExpireScript R k ms s = (n, s') \<Longrightarrow> cr_view R s k = None \<Longrightarrow> 0 < ms \<Longrightarrow>
           n = 1 \<and> cr_view R s' = (cr_view R s)(k \<mapsto> (1, Some ms))"
    and "incrExpireScript R k ms s = (n, s') \<Longrightarrow> cr_view R s k = None \<Longrightarrow> ms \<le> 0 \<Longrightarrow>
           n = 1 \<and> cr_view R s' = cr_view R s"
    and "incrExpireScript R k ms s = (n, s') \<Longrightarrow> cr_view R s k = Some (m, ttl) \<Longrightarrow> 0 < m \<Longrightarrow>
           n = m + 1 \<and> cr_view R s' = (cr_view R s)(k \<mapsto> (m + 1, ttl))"
    and "incrExpireScript R k ms s = (n, s') \<Longrightarrow> k' \<noteq> k \<Longrightarrow> cr_view R s' k' = cr_view R s k'"
proof -
  obtain m1 s1 where incr: "cr_incr R k s = (m1, s1)" by fastforce
  from assms have pexpire: "cr_view R (cr_pexpire R k ms s1) =
     (case cr_view R s1 k of None \<Rightarrow> cr_view R s1
      | Some (n, _) \<Rightarrow> if ms \<le> 0 then (cr_view R s1)(k := None) else (cr_view R s1)(k \<mapsto> (n, Some ms)))"
    unfolding ctr_laws_def pexpire_law_def by blast
  from assms have "let (n, s') = cr_incr R k s in
     (case cr_view R s k of
        None \<Rightarrow> n = 1 \<and> cr_view R s' = (cr_view R s)(k \<mapsto> (1, None))
      | Some (m, ttl) \<Rightarrow> n = m + 1 \<and> cr_view R s' = (cr_view R s)(k \<mapsto> (m + 1, ttl)))"
    unfolding ctr_laws_def incr_law_def by blast
  note step = this [unfolded incr Let_def prod.case]
  show "n = 1 \<and> cr_view R s' = (cr_view R s)(k \<mapsto> (1, Some ms))"
    if "incrExpireScript R k ms s = (n, s')" "cr_view R s k = None" "0 < ms"
    using that step pexpire by (auto simp: incrExpireScript_def incr)
  show "n = 1 \<and> cr_view R s' = cr_view R s"
    if "incrExpireScript R k ms s = (n, s')" "cr_view R s k = None" "ms \<le> 0"
    using that step pexpire by (auto simp: incrExpireScript_def incr)
  show "n = m + 1 \<and> cr_view R s' = (cr_view R s)(k \<mapsto> (m + 1, ttl))"
    if "incrExpireScript R k ms s = (n, s')" "cr_view R s k = Some (m, ttl)" "0 < m"
    using that step by (auto simp: incrExpireScript_def incr)
  show "cr_view R s' k' = cr_view R s k'" if "incrExpireScript R k ms s = (n, s')" "k' \<noteq> k"
    using that step pexpire by (auto simp: incrExpireScript_def incr split: option.splits if_splits)
qed

definition bucket_key :: "string \<Rightarrow> string" where
  "bucket_key key = ''ratelimit:'' @ key"

lemma bucket_key_eq [simp]: "bucket_key k = bucket_key l \<longleftrightarrow> k = l"
  by (simp add: bucket_key_def)

lemma Allow_up:
  assumes "cr_fault R s = NoFault"
  shows "Allow (Some R) key limit window s =
     (case incrExpireScript R (bucket_key key) (Milliseconds window) s of (n, s') \<Rightarrow> ((n \<le> limit, False), s'))"
  using assms by (simp add: Allow_def bucket_key_def)

text \<open>Within a window, from a counter that stands at \<open>n\<close>.\<close>

lemma window_running:
  assumes laws: "ctr_laws R" and up: "\<And>s. cr_fault R s = NoFault" and n: "0 < n"
  shows "run_hits R hs s = (answers, s') \<Longrightarrow> cr_view R s (bucket_key key) = Some (n, Some rest) \<Longrightarrow>
    \<forall>h\<in>set hs. 0 \<le> fst h \<Longrightarrow> waited hs < rest \<Longrightarrow>
    counted key n answers \<and> (\<exists>m. cr_view R s' (bucket_key key) = Some (m, Some (rest - waited hs)))"
  using n
proof (induction hs arbitrary: n s rest answers s')
  case Nil
  then show ?case by (simp add: waited_def)
next
  case (Cons h hs)
  obtain wait k limit window where h: "h = (wait, k, limit, window)" by (cases h)
  let ?s0 = "cr_elapse R wait s"
  obtain c s1 where script: "incrExpireScript R (bucket_key k) (Milliseconds window) ?s0 = (c, s1)" by fastforce
  obtain more s2 where tail: "run_hits R hs s1 = (more, s2)" by fastforce
  from Cons.prems(1) have out: "answers = (k, limit, c \<le> limit) # more" "s' = s2"
    by (simp_all add: h Allow_up up script tail)
  have "0 \<le> waited hs" using Cons.prems(3) by (auto simp: waited_def intro!: sum_list_nonneg)
  with Cons.prems(3,4) have wait: "0 \<le> wait" "wait < rest" "waited hs < rest - wait" and total: "waited (h # hs) = wait + waited hs"
    by (auto simp: h waited_def)
  with laws Cons.prems(2) have v0: "cr_view R ?s0 (bucket_key key) = Some (n, Some (rest - wait))"
    by (simp add: view_elapse)
  show ?case
  proof (cases "k = key")
    case True
    with script_law(3) [OF laws script] v0 Cons.prems(5)
    have "c = n + 1" "cr_view R s1 (bucket_key key) = Some (n + 1, Some (rest - wait))" by auto
    with Cons.IH [OF tail, of "n + 1" "rest - wait"] Cons.prems(3,5) wait total out True show ?thesis
      by (simp add: h algebra_simps)
  next
    case False
    with script_law(4) [OF laws script, of "bucket_key key"] v0
    have "cr_view R s1 (bucket_key key) = Some (n, Some (rest - wait))" by auto
    with Cons.IH [OF tail, of n "rest - wait"] Cons.prems(3,5) wait total out False show ?thesis
      by (simp add: h algebra_simps)
  qed
qed

text \<open>C21. The limiter is an exact fixed window. From the first hit of a key without a counter, every hit
  of that key before the window ends is answered by its number alone: the i-th hit is allowed when i is
  within its limit, whatever hits of other keys come between. When the window has passed the counter is
  gone. A window shorter than a millisecond counts nothing: PEXPIRE deletes the key at once.\<close>

theorem allow_fixed_window:
  assumes laws: "ctr_laws R" and up: "\<And>s. cr_fault R s = NoFault"
    and fresh: "cr_view R s (bucket_key key) = None" and window: "0 < window"
    and hs: "\<forall>h\<in>set hs. 0 \<le> fst h"
    and run: "run_hits R ((0, key, limit, window) # hs) s = (answers, s')"
  shows "(1000000 \<le> window \<and> waited hs < Milliseconds window \<longrightarrow>
            counted key 0 answers
            \<and> (\<forall>d\<ge>Milliseconds window - waited hs. cr_view R (cr_elapse R d s') (bucket_key key) = None))
       \<and> (window < 1000000 \<and> 1 \<le> limit \<longrightarrow>
            (\<exists>s1. Allow (Some R) key limit window s = ((True, False), s1) \<and> cr_view R s1 = cr_view R s))"
proof (intro conjI impI; (elim conjE)?)
  let ?s0 = "cr_elapse R 0 s"
  obtain c s1 where script: "incrExpireScript R (bucket_key key) (Milliseconds window) ?s0 = (c, s1)" by fastforce
  obtain more s2 where tail: "run_hits R hs s1 = (more, s2)" by fastforce
  from run have out: "answers = (key, limit, c \<le> limit) # more" "s' = s2"
    by (simp_all add: Allow_up up script tail)
  have v0: "cr_view R ?s0 (bucket_key key) = None" using laws fresh by (simp add: view_absent)
  assume long: "1000000 \<le> window" and inside: "waited hs < Milliseconds window"
  from long have ms: "0 < Milliseconds window" by (simp add: Milliseconds_def)
  with script_law(1) [OF laws script] v0
  have c: "c = 1" and v1: "cr_view R s1 (bucket_key key) = Some (1, Some (Milliseconds window))" by auto
  have running: "counted key 1 more \<and> (\<exists>m. cr_view R s2 (bucket_key key) = Some (m, Some (Milliseconds window - waited hs)))"
    using window_running [OF laws up _ tail v1 hs inside] by simp
  then show "counted key 0 answers" by (simp add: out c)
  show "\<forall>d\<ge>Milliseconds window - waited hs. cr_view R (cr_elapse R d s') (bucket_key key) = None"
  proof (intro allI impI)
    fix d
    assume "Milliseconds window - waited hs \<le> d"
    with running inside view_expired [OF laws] show "cr_view R (cr_elapse R d s') (bucket_key key) = None"
      by (auto simp: out)
  qed
next
  assume "window < 1000000" "1 \<le> limit"
  with window have "Milliseconds window \<le> 0" by (simp add: Milliseconds_def)
  moreover obtain c s1 where script: "incrExpireScript R (bucket_key key) (Milliseconds window) s = (c, s1)" by fastforce
  ultimately show "\<exists>s1. Allow (Some R) key limit window s = ((True, False), s1) \<and> cr_view R s1 = cr_view R s"
    using script_law(2) [OF laws script fresh] \<open>1 \<le> limit\<close> by (simp add: Allow_up up)
qed

text \<open>The witness: three hits of one key with limit 2 in a minute, one of another key between.\<close>

lemma allow_fixed_window_witness:
  "counted ''u'' 0 (fst (run_hits map_ctr
     [(0, ''u'', 2, 60000000000), (5, ''u'', 2, 60000000000), (1, ''v'', 2, 60000000000), (100, ''u'', 2, 60000000000)] Map.empty))"
  (is "counted _ _ (fst (run_hits _ ?hs _))")
proof -
  obtain answers s' where "run_hits map_ctr ?hs Map.empty = (answers, s')" by fastforce
  moreover have "waited [(5, ''u'', 2, 60000000000), (1, ''v'', 2, 60000000000), (100, ''u'', 2, 60000000000)]
      < Milliseconds 60000000000"
    by (simp add: waited_def Milliseconds_def)
  ultimately show ?thesis
    using allow_fixed_window [OF map_ctr_laws, of Map.empty "''u''" 60000000000
        "[(5, ''u'', 2, 60000000000), (1, ''v'', 2, 60000000000), (100, ''u'', 2, 60000000000)]" 2 answers s']
    by (simp add: map_ctr_def)
qed

subsection \<open>Settings from the environment\<close>

text \<open>\<open>strconv.Atoi\<close>: an optional sign and decimal digits, within 64 bits.\<close>

definition digit :: "char \<Rightarrow> bool" where
  "digit c = byte_in CHR ''0'' CHR ''9'' c"

definition digits_val :: "string \<Rightarrow> int" where
  "digits_val ds = foldl (\<lambda>acc c. 10 * acc + (of_char c - 48)) 0 ds"

definition atoi :: "string \<Rightarrow> int option" where
  "atoi s =
     (let (neg, ds) = (case s of [] \<Rightarrow> (False, []) | c # cs \<Rightarrow>
                         if c = CHR ''-'' then (True, cs) else if c = CHR ''+'' then (False, cs) else (False, s));
          n = (if neg then - digits_val ds else digits_val ds)
      in if ds = [] \<or> \<not> list_all digit ds \<or> n < - (2 ^ 63) \<or> 2 ^ 63 \<le> n then None else Some n)"

type_synonym env = "string \<Rightarrow> string"

definition envInt :: "env \<Rightarrow> string \<Rightarrow> int \<Rightarrow> int" where
  "envInt env key def =
     (let v = trim_space (env key) in
      if v \<noteq> '''' then (case atoi v of Some n \<Rightarrow> if n > 0 then n else def | None \<Rightarrow> def) else def)"

text \<open>\<open>time.ParseDuration\<close> is a parameter.\<close>

definition envDuration :: "(string \<Rightarrow> int option) \<Rightarrow> env \<Rightarrow> string \<Rightarrow> int \<Rightarrow> int" where
  "envDuration parse_duration env key def =
     (let v = trim_space (env key) in
      if v \<noteq> '''' then (case parse_duration v of Some d \<Rightarrow> if d > 0 then d else def | None \<Rightarrow> def) else def)"

subsection \<open>Throttling signed-in users\<close>

record 's rate_limit_config =
  rl_max :: int
  rl_window :: int
  rl_allow :: "'s limiter"

datatype 's rate_limit_option = WithAuthRateLimit int int | WithRateLimiter "'s limiter option"

fun apply_option :: "'s rate_limit_option \<Rightarrow> 's rate_limit_config \<Rightarrow> 's rate_limit_config" where
  "apply_option (WithAuthRateLimit mx window) c =
     (let c1 = (if mx > 0 then c\<lparr>rl_max := mx\<rparr> else c) in
      if window > 0 then c1\<lparr>rl_window := window\<rparr> else c1)"
| "apply_option (WithRateLimiter fn) c = (case fn of Some f \<Rightarrow> c\<lparr>rl_allow := f\<rparr> | None \<Rightarrow> c)"

definition rate_limit_cfg :: "(string \<Rightarrow> int option) \<Rightarrow> env \<Rightarrow> 's ctr_redis option \<Rightarrow> 's rate_limit_option list
    \<Rightarrow> 's rate_limit_config" where
  "rate_limit_cfg parse_duration env rdb opts =
     fold apply_option opts
       \<lparr>rl_max = envInt env ''RATE_LIMIT_AUTH_MAX'' 600,
        rl_window = envDuration parse_duration env ''RATE_LIMIT_AUTH_WINDOW'' 60000000000,
        rl_allow = Allow rdb\<rparr>"

record client_origin =
  IP :: string
  UserAgent :: string

definition auth_bucket :: "actor \<Rightarrow> client_origin option \<Rightarrow> string" where
  "auth_bucket a origin =
     (let ip = (case origin of Some og \<Rightarrow> IP og | None \<Rightarrow> '''');
          key = ''auth:'' @ actor_ID a
      in if ip \<noteq> '''' then key @ '':'' @ ip else key)"

text \<open>The middleware's answer: hand on, or 429 with a \<open>Retry-After\<close> in seconds.\<close>

datatype throttle = Next | Abort429 int

definition retry_after :: "int \<Rightarrow> int" where
  "retry_after window = (let s = window div 1000000000 in if s < 1 then 1 else s)"

definition RateLimitAuthenticated :: "'s rate_limit_config \<Rightarrow> go_context \<Rightarrow> client_origin option \<Rightarrow> 's
    \<Rightarrow> throttle \<times> 's" where
  "RateLimitAuthenticated cfg ctx origin s =
     (case GetActor ctx of
        None \<Rightarrow> (Next, s)
      | Some None \<Rightarrow> (Next, s)
      | Some (Some a) \<Rightarrow>
          if IsGuest a \<or> IsSystem a then (Next, s)
          else (case rl_allow cfg (auth_bucket a origin) (rl_max cfg) (rl_window cfg) s of
                  ((allowed, _), s') \<Rightarrow> if allowed then (Next, s') else (Abort429 (retry_after (rl_window cfg)), s')))"

lemma auth_bucket_apart:
  assumes "uuid_text (actor_ID a)" "uuid_text (actor_ID b)"
  shows "auth_bucket a og = auth_bucket b og' \<longleftrightarrow>
    actor_ID a = actor_ID b \<and> (case og of Some r \<Rightarrow> IP r | None \<Rightarrow> '''') = (case og' of Some r \<Rightarrow> IP r | None \<Rightarrow> '''')"
proof -
  have long: "actor_ID x @ CHR '':'' # t \<noteq> actor_ID y" if "uuid_text (actor_ID x)" "uuid_text (actor_ID y)" for x y :: actor and t
  proof
    assume "actor_ID x @ CHR '':'' # t = actor_ID y"
    then have "length (actor_ID x @ CHR '':'' # t) = length (actor_ID y)" by (rule arg_cong)
    with that show False by (simp add: uuid_text_def)
  qed
  from assms have "length (actor_ID a) = length (actor_ID b)" by (simp add: uuid_text_def)
  with long [OF assms] long [OF assms(2,1)] show ?thesis
    by (auto simp: auth_bucket_def Let_def split: option.splits dest: sym)
qed

lemma throttle_passes:
  "GetActor ctx = None \<Longrightarrow> RateLimitAuthenticated cfg ctx og s = (Next, s)"
  "GetActor ctx = Some None \<Longrightarrow> RateLimitAuthenticated cfg ctx og s = (Next, s)"
  "GetActor ctx = Some (Some a) \<Longrightarrow> IsGuest a \<or> IsSystem a \<Longrightarrow> RateLimitAuthenticated cfg ctx og s = (Next, s)"
  by (simp_all add: RateLimitAuthenticated_def)

text \<open>The options are applied after the environment was read, so an option overrides it.\<close>

lemma option_overrides_env:
  "0 < mx \<Longrightarrow> rl_max (rate_limit_cfg pd env rdb [WithAuthRateLimit mx 0]) = mx"
  by (simp add: rate_limit_cfg_def)

subsection \<open>Where a request comes from\<close>

text \<open>\<open>http.Header\<close> holds a list of values per canonical name; \<open>Get\<close> reads the first.\<close>

type_synonym header = "(string \<times> string list) list"

definition header_Get :: "header \<Rightarrow> string \<Rightarrow> string" where
  "header_Get h name = (case map_of h name of Some (v # _) \<Rightarrow> v | _ \<Rightarrow> '''')"

text \<open>\<open>net.ParseIP\<close> with \<open>String\<close>, and the host of \<open>net.SplitHostPort\<close>, are parameters.\<close>

record net =
  ParseIP_String :: "string \<Rightarrow> string option"
  SplitHost :: "string \<Rightarrow> string option"

record request =
  RemoteAddr :: string
  Header :: header

definition trim_set :: "char set \<Rightarrow> string \<Rightarrow> string" where
  "trim_set cutset s = rev (dropWhile (\<lambda>c. c \<in> cutset) (rev (dropWhile (\<lambda>c. c \<in> cutset) s)))"

definition normalizeIP :: "net \<Rightarrow> string \<Rightarrow> string" where
  "normalizeIP N raw =
     (let raw = trim_space raw in
      if raw = '''' then ''''
      else (case ParseIP_String N raw of
              Some ip \<Rightarrow> ip
            | None \<Rightarrow>
                (case SplitHost N raw of
                   None \<Rightarrow> ''''
                 | Some host \<Rightarrow>
                     (case ParseIP_String N (trim_set {CHR ''['', CHR '']''} host) of Some ip \<Rightarrow> ip | None \<Rightarrow> ''''))))"

definition TrustedProxyHops :: "env \<Rightarrow> int" where
  "TrustedProxyHops env =
     (let raw = trim_space (env ''TRUSTED_PROXY_HOPS'') in
      if raw = '''' then 1
      else (case atoi raw of None \<Rightarrow> 1 | Some hops \<Rightarrow> if hops < 0 then 1 else hops))"

definition ResolveClientIP :: "net \<Rightarrow> env \<Rightarrow> request option \<Rightarrow> string" where
  "ResolveClientIP N env r =
     (case r of
        None \<Rightarrow> ''''
      | Some req \<Rightarrow>
          (let hops = TrustedProxyHops env in
           if hops = 0 then normalizeIP N (RemoteAddr req)
           else
             (let forwarded = header_Get (Header req) ''X-Forwarded-For'' in
              if forwarded = '''' then ''''
              else
                (let parts = split_on CHR '','' forwarded;
                     idx = int (length parts) - hops;
                     idx = (if idx < 0 then 0 else idx)
                 in normalizeIP N (parts ! nat idx)))))"

lemma TrustedProxyHops_nonneg: "0 \<le> TrustedProxyHops env"
  by (simp add: TrustedProxyHops_def Let_def split: option.split)

lemma split_on_append_any: "split_on d (s @ d # t) = split_on d s @ split_on d t"
  by (induction s) (auto split: list.splits)



subsection \<open>The user agent\<close>

text \<open>UTF-8 as Go's \<open>unicode/utf8\<close> decodes it: a first byte asks for \<open>k\<close> continuation bytes, the first of
  them in a range of its own. \<open>rune_len\<close> is the length of the rune at the head, 0 when there is none.\<close>

definition byte :: "char \<Rightarrow> nat" where
  "byte c = of_char c"

definition lead_byte :: "nat \<Rightarrow> (nat \<times> nat \<times> nat) option" where
  "lead_byte b =
     (if b < 128 then Some (0, 128, 191)
      else if b < 194 then None
      else if b \<le> 223 then Some (1, 128, 191)
      else if b = 224 then Some (2, 160, 191)
      else if b = 237 then Some (2, 128, 159)
      else if b \<le> 239 then Some (2, 128, 191)
      else if b = 240 then Some (3, 144, 191)
      else if b \<le> 243 then Some (3, 128, 191)
      else if b = 244 then Some (3, 128, 143)
      else None)"

definition continuation :: "char \<Rightarrow> bool" where
  "continuation c \<longleftrightarrow> 128 \<le> byte c \<and> byte c \<le> 191"

definition rune_len :: "string \<Rightarrow> nat" where
  "rune_len s =
     (case s of
        [] \<Rightarrow> 0
      | c # cs \<Rightarrow>
          (case lead_byte (byte c) of
             None \<Rightarrow> 0
           | Some (k, lo, hi) \<Rightarrow>
               if k = 0 then 1
               else if k \<le> length cs \<and> lo \<le> byte (hd cs) \<and> byte (hd cs) \<le> hi \<and> list_all continuation (take k cs)
               then Suc k else 0))"

text \<open>\<open>strings.ToValidUTF8(s, "")\<close>: bytes that start no rune are dropped, one at a time.\<close>

function to_valid :: "string \<Rightarrow> string" where
  "to_valid [] = []"
| "to_valid (c # cs) =
     (let n = rune_len (c # cs) in
      if n = 0 then to_valid cs else take n (c # cs) @ to_valid (drop (n - 1) cs))"
  by pat_completeness auto
termination by (relation "measure length") auto

function valid_utf8 :: "string \<Rightarrow> bool" where
  "valid_utf8 [] = True"
| "valid_utf8 (c # cs) = (let n = rune_len (c # cs) in n \<noteq> 0 \<and> valid_utf8 (drop (n - 1) cs))"
  by pat_completeness auto
termination by (relation "measure length") auto

definition TruncateUserAgent :: "string \<Rightarrow> string" where
  "TruncateUserAgent ua = (if length ua \<le> 512 then ua else to_valid (take 512 ua))"

definition ResolveUserAgent :: "request option \<Rightarrow> string" where
  "ResolveUserAgent r =
     (case r of
        None \<Rightarrow> ''''
      | Some req \<Rightarrow>
          (let ua = trim_space (header_Get (Header req) ''X-Client-User-Agent'');
               ua = (if ua = '''' then trim_space (header_Get (Header req) ''User-Agent'') else ua)
           in TruncateUserAgent ua))"

definition ResolveClientOrigin :: "net \<Rightarrow> env \<Rightarrow> request option \<Rightarrow> client_origin" where
  "ResolveClientOrigin N env r = \<lparr>IP = ResolveClientIP N env r, UserAgent = ResolveUserAgent r\<rparr>"

lemma rune_len_le: "rune_len s \<le> length s" "rune_len s \<le> 4"
  by (auto simp: rune_len_def lead_byte_def split: list.split)

lemma rune_len_append: "rune_len s \<noteq> 0 \<Longrightarrow> rune_len (take (rune_len s) s @ t) = rune_len s"
  by (cases s) (auto simp: rune_len_def hd_append split: option.splits if_splits)

lemma to_valid_length: "length (to_valid s) \<le> length s"
proof (induction s rule: to_valid.induct)
  case (2 c cs)
  then show ?case
    using rune_len_le(1) [of "c # cs"] by (fastforce simp: Let_def)
qed simp

lemma valid_utf8_rune: "rune_len (r @ t) = length r \<Longrightarrow> r \<noteq> [] \<Longrightarrow> valid_utf8 (r @ t) \<longleftrightarrow> valid_utf8 t"
  by (cases r) simp_all

lemma to_valid_valid: "valid_utf8 (to_valid s)"
proof (induction s rule: to_valid.induct)
  case (2 c cs)
  show ?case
  proof (cases "rune_len (c # cs) = 0")
    case True
    with 2(1) [OF refl] show ?thesis by simp
  next
    case False
    let ?n = "rune_len (c # cs)"
    from False rune_len_le(1) [of "c # cs"] have "length (take ?n (c # cs)) = ?n" "take ?n (c # cs) \<noteq> []" by auto
    with rune_len_append [OF False] valid_utf8_rune [of "take ?n (c # cs)" "to_valid (drop (?n - 1) cs)"]
    have "valid_utf8 (take ?n (c # cs) @ to_valid (drop (?n - 1) cs))"
      using 2(2) [OF refl False] by simp
    with False show ?thesis by (simp only: to_valid.simps Let_def if_False)
  qed
qed simp

lemma to_valid_id: "valid_utf8 s \<Longrightarrow> to_valid s = s"
proof (induction s rule: to_valid.induct)
  case (2 c cs)
  then have n: "rune_len (c # cs) \<noteq> 0" "valid_utf8 (drop (rune_len (c # cs) - 1) cs)" by (simp_all add: Let_def)
  from 2(2) [OF refl n] have "to_valid (c # cs) = take (rune_len (c # cs)) (c # cs) @ drop (rune_len (c # cs) - 1) cs"
    using n by (simp add: Let_def)
  also have "\<dots> = c # cs" using n by (cases "rune_len (c # cs)") simp_all
  finally show ?case .
qed simp

text \<open>A user agent is cut at 512 bytes to valid UTF-8; a shorter one is kept as it is, valid or not.\<close>

lemma TruncateUserAgent_bound:
  "length (TruncateUserAgent ua) \<le> 512"
  "512 < length ua \<or> valid_utf8 ua \<Longrightarrow> valid_utf8 (TruncateUserAgent ua)"
  "length ua \<le> 512 \<Longrightarrow> TruncateUserAgent ua = ua"
  using to_valid_length [of "take 512 ua"] by (auto simp: TruncateUserAgent_def to_valid_valid)

end
