(* ===== verification/Calendar.thy ===== *)
theory Calendar
  imports Main
begin

text \<open>
  What Go's \<open>time\<close> package computes with, for the components that read and compute dates: the proleptic
  Gregorian calendar on day numbers (day 0 is Monday, 1 January of year 1), the normalising constructor
  \<open>time.Date\<close>, \<open>AddDate\<close>, and a zone as the function that gives the UTC offset in force at an instant.
  Instants and wall clocks are counted in nanoseconds from 0001-01-01 00:00, instants in UTC. The time
  zone database is the offset function, a parameter.
\<close>

subsection \<open>Days and dates\<close>

definition leap :: "int \<Rightarrow> bool" where
  "leap y \<longleftrightarrow> y mod 4 = 0 \<and> (y mod 100 \<noteq> 0 \<or> y mod 400 = 0)"

definition month_len :: "int \<Rightarrow> int \<Rightarrow> int" where
  "month_len y m = (if m = 2 then (if leap y then 29 else 28) else if m \<in> {4, 6, 9, 11} then 30 else 31)"

definition days_before_year :: "int \<Rightarrow> int" where
  "days_before_year y = 365 * (y - 1) + (y - 1) div 4 - (y - 1) div 100 + (y - 1) div 400"

definition days_before_month :: "int \<Rightarrow> int \<Rightarrow> int" where
  "days_before_month y m = sum_list (map (month_len y) [1..m - 1])"

definition days_of :: "int \<Rightarrow> int \<Rightarrow> int \<Rightarrow> int" where
  "days_of y m d = days_before_year y + days_before_month y m + (d - 1)"

definition valid_date :: "int \<Rightarrow> int \<Rightarrow> int \<Rightarrow> bool" where
  "valid_date y m d \<longleftrightarrow> 1 \<le> m \<and> m \<le> 12 \<and> 1 \<le> d \<and> d \<le> month_len y m"

definition year_of :: "int \<Rightarrow> int" where
  "year_of n =
     (let y = 400 * n div 146097 + 1 in
      if n < days_before_year y then y - 1 else if days_before_year (y + 1) \<le> n then y + 1 else y)"

function month_scan :: "int \<Rightarrow> int \<Rightarrow> int \<Rightarrow> int \<times> int" where
  "month_scan y doy m =
     (if m < 12 \<and> month_len y m \<le> doy then month_scan y (doy - month_len y m) (m + 1) else (m, doy + 1))"
  by pat_completeness auto
termination by (relation "measure (\<lambda>(y, doy, m). nat (12 - m))") auto

declare month_scan.simps [simp del]

text \<open>\<open>t.Date()\<close>: year, month and day.\<close>

definition civil_of :: "int \<Rightarrow> int \<times> int \<times> int" where
  "civil_of n = (let y = year_of n in (y, month_scan y (n - days_before_year y) 1))"

text \<open>Monday is 0; Go counts Sunday as 0.\<close>

definition Weekday :: "int \<Rightarrow> int" where
  "Weekday n = (n + 1) mod 7"

lemma month_len_pos: "28 \<le> month_len y m" "month_len y m \<le> 31"
  by (simp_all add: month_len_def)

lemma days_before_month_1 [simp]: "days_before_month y 1 = 0"
  by (simp add: days_before_month_def)

lemma days_before_month_Suc: "1 \<le> m \<Longrightarrow> days_before_month y (m + 1) = days_before_month y m + month_len y m"
  using upto_rec2 [of 1 m] by (simp add: days_before_month_def)

lemma div_step: "0 < k \<Longrightarrow> (x + 1) div k = x div k + (if (x + 1) mod k = 0 then 1 else 0)" for x k :: int
proof -
  assume k: "0 < k"
  show "(x + 1) div k = x div k + (if (x + 1) mod k = 0 then 1 else 0)"
  proof (cases "(x + 1) mod k = 0")
    case True
    then obtain q where q: "x + 1 = k * q" by (auto simp: mod_eq_0_iff_dvd)
    then have "x = k * (q - 1) + (k - 1)" by (simp add: algebra_simps)
    then have "x div k = (k * (q - 1) + (k - 1)) div k" by (rule arg_cong)
    also have "\<dots> = q - 1" using k by simp
    finally show ?thesis using q k True by simp
  next
    case False
    have "x = k * ((x + 1) div k) + ((x + 1) mod k - 1)" by (simp add: algebra_simps)
    moreover have "0 \<le> (x + 1) mod k - 1" "(x + 1) mod k - 1 < k"
      using False k pos_mod_sign [of k "x + 1"] pos_mod_bound [of k "x + 1"] by linarith+
    ultimately have "x div k = (x + 1) div k" using int_div_pos_eq by blast
    with False show ?thesis by simp
  qed
qed

lemma div_bounds: "0 < k \<Longrightarrow> k * (x div k) \<le> x \<and> x < k * (x div k) + k" for x k :: int
  using mult_div_mod_eq [of k x] pos_mod_sign [of k x] pos_mod_bound [of k x] by linarith

lemma leap_400: "(y mod 400 = 0 \<longrightarrow> y mod 100 = 0) \<and> (y mod 100 = 0 \<longrightarrow> y mod 4 = 0)" for y :: int
  using dvd_trans [of 100 400 y] dvd_trans [of 4 100 y] by (simp add: dvd_eq_mod_eq_0)

lemma div_prev: "0 < k \<Longrightarrow> y div k = (y - 1) div k + (if y mod k = 0 then 1 else 0)" for y k :: int
  using div_step [of k "y - 1"] by (simp only: diff_add_cancel)

lemma year_arith:
  fixes y :: int
  assumes "a' = a + (if p4 then 1 else 0)" "b' = b + (if p100 then 1 else 0)" "c' = c + (if p400 then 1 else 0)"
    and "(p400 \<longrightarrow> p100) \<and> (p100 \<longrightarrow> p4)"
  shows "365 * y + a' - b' + c' = 365 * (y - 1) + a - b + c + (if p4 \<and> (\<not> p100 \<or> p400) then 366 else 365)"
  using assms by (cases p4; cases p100; cases p400; simp)

lemma year_len: "days_before_year (y + 1) = days_before_year y + (if leap y then 366 else 365)"
  unfolding days_before_year_def leap_def add_diff_cancel_right'
  by (rule year_arith [OF div_prev div_prev div_prev leap_400]) simp_all

lemma days_before_month_13: "days_before_month y 13 = (if leap y then 366 else 365)"
  by (simp add: days_before_month_def month_len_def upto.simps)

lemma days_before_year_mono: "y \<le> z \<Longrightarrow> days_before_year y \<le> days_before_year z"
proof (induction z rule: int_ge_induct)
  case (step z)
  then show ?case using year_len [of z] by (simp split: if_splits)
qed simp

lemma year_bounds_arith:
  fixes x :: int
  assumes "4 * a \<le> x \<and> x < 4 * a + 4" "100 * b \<le> x \<and> x < 100 * b + 100" "400 * c \<le> x \<and> x < 400 * c + 400"
  shows "146097 * x - 699 \<le> 400 * (365 * x + a - b + c) \<and> 400 * (365 * x + a - b + c) \<le> 146097 * x + 396"
  using assms by auto

lemma days_before_year_bounds:
  "146097 * (y - 1) - 699 \<le> 400 * days_before_year y \<and> 400 * days_before_year y \<le> 146097 * (y - 1) + 396"
  unfolding days_before_year_def by (rule year_bounds_arith) (rule div_bounds, simp)+

lemma estimate_year:
  fixes q :: int
  assumes "146097 * q \<le> n \<and> n < 146097 * q + 146097" "146097 * (y - 2) \<le> n" "n < 146097 * (y + 1)"
  shows "q + 1 = y - 1 \<or> q + 1 = y \<or> q + 1 = y + 1"
proof -
  from assms have "y - 3 < q" "q < y + 1" by auto
  then show ?thesis by arith
qed

lemma estimate_bounds:
  fixes q :: int
  assumes "146097 * q \<le> n \<and> n < 146097 * q + 146097"
    and "146097 * (q - 1) - 699 \<le> b \<and> b \<le> 146097 * (q - 1) + 396"
    and "146097 * (q + 2) - 699 \<le> c \<and> c \<le> 146097 * (q + 2) + 396"
  shows "b \<le> n \<and> n < c"
  using assms by auto

lemma year_of_eq:
  assumes "days_before_year y \<le> n" "n < days_before_year (y + 1)"
  shows "year_of n = y"
proof -
  let ?q = "400 * n div 146097"
  have q: "146097 * ?q \<le> 400 * n \<and> 400 * n < 146097 * ?q + 146097" by (rule div_bounds) simp
  have "146097 * (y - 2) \<le> 400 * n" using assms(1) days_before_year_bounds [of y] by simp
  moreover have "400 * n < 146097 * (y + 1)" using assms(2) days_before_year_bounds [of "y + 1"] by simp
  ultimately consider "?q + 1 = y - 1" | "?q + 1 = y" | "?q + 1 = y + 1" using estimate_year [OF q] by blast
  then show ?thesis
  proof cases
    case 1
    have "\<not> n < days_before_year (y - 1)" using assms(1) days_before_year_mono [of "y - 1" y] by simp
    with assms show ?thesis unfolding year_of_def Let_def 1 by simp
  next
    case 2
    with assms show ?thesis by (simp add: year_of_def Let_def)
  next
    case 3
    with assms show ?thesis by (simp add: year_of_def Let_def)
  qed
qed

lemma year_of_bounds: "days_before_year (year_of n) \<le> n" "n < days_before_year (year_of n + 1)"
proof -
  let ?q = "400 * n div 146097"
  have q: "146097 * ?q \<le> 400 * n \<and> 400 * n < 146097 * ?q + 146097" by (rule div_bounds) simp
  have up: "?q + 3 - 1 = ?q + 2" by simp
  have "400 * days_before_year ?q \<le> 400 * n \<and> 400 * n < 400 * days_before_year (?q + 3)"
    using estimate_bounds [OF q days_before_year_bounds days_before_year_bounds [of "?q + 3", unfolded up]] .
  then have "days_before_year ?q \<le> n" "n < days_before_year (?q + 3)" by simp_all
  then show "days_before_year (year_of n) \<le> n" "n < days_before_year (year_of n + 1)"
    by (auto simp: year_of_def Let_def add.assoc)
qed

lemma month_scan_eq:
  assumes "k \<le> m" "m \<le> 12" "1 \<le> k" "1 \<le> d" "d \<le> month_len y m"
  shows "month_scan y (days_before_month y m - days_before_month y k + (d - 1)) k = (m, d)"
  using assms
proof (induction "nat (m - k)" arbitrary: k)
  case 0
  then show ?case by (simp add: month_scan.simps [of y _ k])
next
  case (Suc i)
  then have k: "k + 1 \<le> m" "i = nat (m - (k + 1))" by auto
  with Suc.prems have "month_scan y (days_before_month y m - days_before_month y (k + 1) + (d - 1)) (k + 1) = (m, d)"
    using Suc.hyps(1) [of "k + 1"] by simp
  moreover have "days_before_month y (k + 1) \<le> days_before_month y m"
    using k(1) Suc.prems(3)
  proof (induction m rule: int_ge_induct)
    case (step i)
    then show ?case using days_before_month_Suc [of i y] month_len_pos(1) [of y i] by simp
  qed simp
  ultimately show ?case
    using Suc.prems k(1) days_before_month_Suc [of k y]
    by (simp add: month_scan.simps [of y _ k] diff_diff_eq add_diff_eq diff_add_eq algebra_simps)
qed

lemma days_before_month_bound: "1 \<le> m \<Longrightarrow> m \<le> 12 \<Longrightarrow> days_before_month y m + month_len y m \<le> (if leap y then 366 else 365)"
proof -
  assume m: "1 \<le> m" "m \<le> 12"
  have "days_before_month y (m + 1) \<le> days_before_month y 13"
    using m(2)
  proof (induction m rule: int_le_induct)
    case (step i)
    then show ?case using days_before_month_Suc [of i y] month_len_pos(1) [of y i]
      by (cases "1 \<le> i") (simp_all add: days_before_month_def)
  qed simp
  with m show ?thesis by (simp add: days_before_month_Suc days_before_month_13)
qed

lemma civil_days:
  assumes "valid_date y m d"
  shows "civil_of (days_of y m d) = (y, m, d)"
proof -
  from assms have m: "1 \<le> m" "m \<le> 12" "1 \<le> d" "d \<le> month_len y m" by (simp_all add: valid_date_def)
  have "0 \<le> days_before_month y m"
    using m(1)
  proof (induction m rule: int_ge_induct)
    case (step i)
    then show ?case using days_before_month_Suc [of i y] month_len_pos(1) [of y i] by simp
  qed simp
  with m days_before_month_bound [of m y]
  have "days_before_year y \<le> days_of y m d" "days_of y m d < days_before_year (y + 1)"
    by (auto simp: days_of_def year_len)
  then have "year_of (days_of y m d) = y" by (rule year_of_eq)
  with m month_scan_eq [of 1 m d y] show ?thesis by (simp add: civil_of_def days_of_def)
qed

lemma month_scan_days:
  assumes "1 \<le> k" "k \<le> 12" "0 \<le> doy" "days_before_month y k + doy < days_before_month y 13"
  shows "case month_scan y doy k of (m, d) \<Rightarrow> valid_date y m d \<and> days_before_month y m + (d - 1) = days_before_month y k + doy"
  using assms
proof (induction y doy k rule: month_scan.induct)
  case (1 y doy k)
  show ?case
  proof (cases "k < 12 \<and> month_len y k \<le> doy")
    case True
    with 1 days_before_month_Suc [of k y] show ?thesis by (simp add: month_scan.simps [of y doy k])
  next
    case False
    have "doy < month_len y k"
    proof (cases "k = 12")
      case True
      with 1 days_before_month_Suc [of 12 y] show ?thesis by simp
    next
      case False
      with \<open>\<not> (k < 12 \<and> month_len y k \<le> doy)\<close> 1 show ?thesis by simp
    qed
    with False 1 show ?thesis by (simp add: month_scan.simps [of y doy k] valid_date_def)
  qed
qed

lemma days_civil: "case civil_of n of (y, m, d) \<Rightarrow> valid_date y m d \<and> days_of y m d = n"
proof -
  have "0 \<le> n - days_before_year (year_of n)" "n - days_before_year (year_of n) < days_before_month (year_of n) 13"
    using year_of_bounds [of n] by (simp_all add: year_len days_before_month_13)
  then show ?thesis
    using month_scan_days [of 1 "n - days_before_year (year_of n)" "year_of n"]
    by (auto simp: civil_of_def Let_def days_of_def)
qed

lemma civil_cases:
  obtains y m d where "civil_of n = (y, m, d)" "valid_date y m d" "days_of y m d = n"
  using days_civil [of n] by (cases "civil_of n") auto

subsection \<open>Instants, zones and \<open>time.Date\<close>\<close>

definition day_ns :: int where
  "day_ns = 86400 * 1000000000"

type_synonym zone = "int \<Rightarrow> int"

definition utc :: zone where
  "utc = (\<lambda>_. 0)"

text \<open>What a clock in the zone shows at an instant.\<close>

definition wall_of :: "zone \<Rightarrow> int \<Rightarrow> int" where
  "wall_of z t = t + z t"

text \<open>The instant \<open>time.Date\<close> takes for a wall clock: the offset is looked up at the wall clock read as UTC,
  and, when it is not 0, once more at the instant that offset gives.\<close>

definition instant_of :: "zone \<Rightarrow> int \<Rightarrow> int" where
  "instant_of z w = (if z w = 0 then w else w - z (w - z w))"

definition go_Date :: "zone \<Rightarrow> int \<Rightarrow> int \<Rightarrow> int \<Rightarrow> int \<Rightarrow> int" where
  "go_Date z y m d tod =
     (let y' = y + (m - 1) div 12; m' = (m - 1) mod 12 + 1
      in instant_of z ((days_of y' m' 1 + (d - 1)) * day_ns + tod))"

definition date_of :: "zone \<Rightarrow> int \<Rightarrow> int \<times> int \<times> int" where
  "date_of z t = civil_of (wall_of z t div day_ns)"

definition clock_of :: "zone \<Rightarrow> int \<Rightarrow> int" where
  "clock_of z t = wall_of z t mod day_ns"

definition AddDate :: "zone \<Rightarrow> int \<Rightarrow> int \<Rightarrow> int \<Rightarrow> int \<Rightarrow> int" where
  "AddDate z t years months days =
     (case date_of z t of (y, m, d) \<Rightarrow> go_Date z (y + years) (m + months) (d + days) (clock_of z t))"

text \<open>The zone shows the wall clock \<open>w\<close> at the instant \<open>time.Date\<close> gives for it: \<open>w\<close> is in no gap.\<close>

definition shown :: "zone \<Rightarrow> int \<Rightarrow> bool" where
  "shown z w \<longleftrightarrow> wall_of z (instant_of z w) = w"

lemma day_ns_pos [simp]: "0 < day_ns" "day_ns \<noteq> 0"
  by (simp_all add: day_ns_def)

lemma shown_utc [simp]: "shown utc w" "instant_of utc w = w" "wall_of utc t = t"
  by (simp_all add: shown_def instant_of_def wall_of_def utc_def)

lemma shown_fixed: "(\<And>t. z t = c) \<Longrightarrow> shown z w"
  by (simp add: shown_def instant_of_def wall_of_def)

lemma days_of_day: "days_of y m d = days_of y m 1 + (d - 1)"
  by (simp add: days_of_def)

lemma go_Date_in_year: "1 \<le> m \<Longrightarrow> m \<le> 12 \<Longrightarrow> go_Date z y m d tod = instant_of z (days_of y m d * day_ns + tod)"
  by (simp add: go_Date_def Let_def div_pos_pos_trivial mod_pos_pos_trivial days_of_day [of y m d])

lemma AddDate_days: "AddDate z t 0 0 k = instant_of z (wall_of z t + k * day_ns)"
proof -
  obtain y m d where civil: "civil_of (wall_of z t div day_ns) = (y, m, d)"
    and valid: "valid_date y m d" and days: "days_of y m d = wall_of z t div day_ns"
    by (rule civil_cases)
  have "days_of y m (d + k) = wall_of z t div day_ns + k" using days by (simp add: days_of_def)
  with valid have "AddDate z t 0 0 k
      = instant_of z ((wall_of z t div day_ns + k) * day_ns + wall_of z t mod day_ns)"
    by (simp add: AddDate_def date_of_def civil clock_of_def go_Date_in_year valid_date_def)
  also have "(wall_of z t div day_ns + k) * day_ns + wall_of z t mod day_ns = wall_of z t + k * day_ns"
    by (simp add: algebra_simps)
  finally show ?thesis .
qed

subsection \<open>Months in a row\<close>

text \<open>The first day of the month with number \<open>i\<close>, counted from year 0.\<close>

definition month_start :: "int \<Rightarrow> int" where
  "month_start i = days_of (i div 12) (i mod 12 + 1) 1"

definition month_size :: "int \<Rightarrow> int" where
  "month_size i = month_len (i div 12) (i mod 12 + 1)"

lemma month_index: "1 \<le> m \<Longrightarrow> m \<le> 12 \<Longrightarrow> (12 * y + (m - 1)) div 12 = y \<and> (12 * y + (m - 1)) mod 12 = m - 1" for y m :: int
  by (simp add: div_pos_pos_trivial mod_pos_pos_trivial)

lemma month_start_Suc: "month_start (i + 1) = month_start i + month_size i"
proof (cases "i mod 12 = 11")
  case True
  then have next_year: "(i + 1) div 12 = i div 12 + 1" "(i + 1) mod 12 = 0"
    using div_step [of 12 i] mod_add_left_eq [of i 12 1] by simp_all
  have "days_before_month (i div 12) 13 = days_before_month (i div 12) 12 + month_len (i div 12) 12"
    using days_before_month_Suc [of 12 "i div 12"] by simp
  with True next_year show ?thesis
    by (simp add: month_start_def month_size_def days_of_def year_len days_before_month_13)
next
  case False
  with pos_mod_bound [of 12 i] have "0 \<le> i mod 12 + 1" "i mod 12 + 1 < 12" by simp_all
  then have same: "(i + 1) mod 12 = i mod 12 + 1"
    using mod_add_left_eq [of i 12 1] mod_pos_pos_trivial [of "i mod 12 + 1" 12] by simp
  moreover have "0 \<le> i mod 12" by simp
  moreover from this same have "(i + 1) div 12 = i div 12" using div_step [of 12 i] by simp
  ultimately show ?thesis
    using days_before_month_Suc [of "i mod 12 + 1" "i div 12"] by (simp add: month_start_def month_size_def days_of_def)
qed

lemma month_start_mono: "i \<le> j \<Longrightarrow> month_start i \<le> month_start j"
proof (induction j rule: int_ge_induct)
  case (step j)
  then show ?case using month_start_Suc [of j] month_len_pos(1) [of "j div 12" "j mod 12 + 1"]
    by (simp add: month_size_def)
qed simp

lemma month_start_before: "i < j \<Longrightarrow> d \<le> month_size i \<Longrightarrow> month_start i + (d - 1) < month_start j"
  using month_start_mono [of "i + 1" j] month_start_Suc [of i] by simp

lemma go_Date_month: "go_Date z y m d tod = instant_of z ((month_start (12 * y + (m - 1)) + (d - 1)) * day_ns + tod)"
proof -
  have "(12 * y + (m - 1)) div 12 = y + (m - 1) div 12" by simp
  moreover have "(12 * y + (m - 1)) mod 12 = (m - 1) mod 12" by simp
  ultimately show ?thesis by (simp add: go_Date_def Let_def month_start_def)
qed

end
