(* ===== verification/TimeWindow.thy ===== *)
theory TimeWindow
  imports Calendar Go_Prelude
begin

text \<open>
  The relative reporting windows (\<open>src/timewindow/timewindow.go\<close>): their kinds, validation, and the
  half-open range each resolves to in a company's zone. A \<open>time.Time\<close> is an instant; the location the code
  carries along is the zone argument.
\<close>

type_synonym kind = string

definition LastWeek :: kind where "LastWeek = ''LAST_WEEK''"
definition LastNMonths :: kind where "LastNMonths = ''LAST_N_MONTHS''"
definition WeekToDate :: kind where "WeekToDate = ''WEEK_TO_DATE''"
definition MonthToDate :: kind where "MonthToDate = ''MONTH_TO_DATE''"
definition YearToDate :: kind where "YearToDate = ''YEAR_TO_DATE''"

lemmas kind_defs = LastWeek_def LastNMonths_def WeekToDate_def MonthToDate_def YearToDate_def

definition MaxMonths :: int where
  "MaxMonths = 60"

definition AllKinds :: "kind list" where
  "AllKinds = [LastWeek, LastNMonths, WeekToDate, MonthToDate, YearToDate]"

definition kind_Valid :: "kind \<Rightarrow> bool" where
  "kind_Valid k = list_ex (\<lambda>v. v = k) AllKinds"

datatype window_error = UnknownWindow string | MonthsOutOfRange int | TakesNoMonths kind int

definition ParseKind :: "string \<Rightarrow> window_error + kind" where
  "ParseKind s = (if kind_Valid s then Inr s else Inl (UnknownWindow s))"

record window =
  w_Kind :: kind
  w_Months :: int

definition LastMonths :: "int \<Rightarrow> window" where
  "LastMonths n = \<lparr>w_Kind = LastNMonths, w_Months = n\<rparr>"

definition window_Validate :: "window \<Rightarrow> window_error option" where
  "window_Validate w =
     (if \<not> kind_Valid (w_Kind w) then Some (UnknownWindow (w_Kind w))
      else if w_Kind w = LastNMonths then
        (if w_Months w < 1 \<or> w_Months w > MaxMonths then Some (MonthsOutOfRange (w_Months w)) else None)
      else if w_Months w \<noteq> 0 then Some (TakesNoMonths (w_Kind w) (w_Months w))
      else None)"

record time_range =
  From :: int
  To :: int

definition range_Contains :: "time_range \<Rightarrow> int \<Rightarrow> bool" where
  "range_Contains r t \<longleftrightarrow> \<not> t < From r \<and> t < To r"

definition startOfDay :: "zone \<Rightarrow> int \<Rightarrow> int" where
  "startOfDay z t = (case date_of z t of (y, m, d) \<Rightarrow> go_Date z y m d 0)"

definition StartOfWeek :: "zone \<Rightarrow> int \<Rightarrow> int" where
  "StartOfWeek z t =
     (let offset = (Weekday (wall_of z t div day_ns) + 6) mod 7
      in AddDate z (startOfDay z t) 0 0 (- offset))"

text \<open>The loop of \<open>monthsBefore\<close> that borrows years.\<close>

function borrow_years :: "int \<Rightarrow> int \<Rightarrow> int \<times> int" where
  "borrow_years year month = (if month \<le> 0 then borrow_years (year - 1) (month + 12) else (year, month))"
  by pat_completeness auto
termination by (relation "measure (\<lambda>(year, month). nat (1 - month))") auto

declare borrow_years.simps [simp del]

definition daysIn :: "zone \<Rightarrow> int \<Rightarrow> int \<Rightarrow> int" where
  "daysIn z year month =
     (case date_of z (AddDate z (go_Date z year (month + 1) 1 0) 0 0 (- 1)) of (y, m, d) \<Rightarrow> d)"

definition monthsBefore :: "zone \<Rightarrow> int \<Rightarrow> int \<Rightarrow> int" where
  "monthsBefore z t n =
     (case date_of z t of (y, m, d) \<Rightarrow>
        (case borrow_years y (m - n) of (year, month) \<Rightarrow>
           (let last = daysIn z year month;
                day = (if d > last then last else d)
            in go_Date z year month day (clock_of z t))))"

text \<open>\<open>Resolve\<close>; \<open>None\<close> is a nil location.\<close>

definition Resolve :: "window \<Rightarrow> int \<Rightarrow> zone option \<Rightarrow> window_error + time_range" where
  "Resolve w now loc =
     (case window_Validate w of
        Some err \<Rightarrow> Inl err
      | None \<Rightarrow>
          (let z = (case loc of None \<Rightarrow> utc | Some z \<Rightarrow> z) in
           if w_Kind w = LastWeek then
             (let thisMonday = StartOfWeek z now
              in Inr \<lparr>From = AddDate z thisMonday 0 0 (- 7), To = thisMonday\<rparr>)
           else if w_Kind w = WeekToDate then Inr \<lparr>From = StartOfWeek z now, To = now\<rparr>
           else if w_Kind w = MonthToDate then
             (case date_of z now of (y, m, d) \<Rightarrow> Inr \<lparr>From = AddDate z (startOfDay z now) 0 0 (1 - d), To = now\<rparr>)
           else if w_Kind w = YearToDate then
             (case date_of z now of (y, m, d) \<Rightarrow> Inr \<lparr>From = go_Date z y 1 1 0, To = now\<rparr>)
           else if w_Kind w = LastNMonths then Inr \<lparr>From = monthsBefore z now (w_Months w), To = now\<rparr>
           else Inl (UnknownWindow (w_Kind w))))"

definition window_Label :: "(int \<Rightarrow> string) \<Rightarrow> window \<Rightarrow> string" where
  "window_Label itoa w =
     (if w_Kind w = LastWeek then ''last week (Mon'' @ [CHR 0xE2, CHR 0x80, CHR 0x93] @ ''Sun)''
      else if w_Kind w = WeekToDate then ''week to date''
      else if w_Kind w = MonthToDate then ''month to date''
      else if w_Kind w = YearToDate then ''year to date''
      else if w_Kind w = LastNMonths then
        (if w_Months w = 1 then ''last month'' else ''last '' @ itoa (w_Months w) @ '' months'')
      else w_Kind w)"

subsection \<open>The boundaries on the calendar\<close>

text \<open>Midnight of the day that the clock shows.\<close>

definition midnight :: "zone \<Rightarrow> int \<Rightarrow> int" where
  "midnight z t = wall_of z t div day_ns * day_ns"

lemma startOfDay_midnight: "startOfDay z t = instant_of z (midnight z t)"
proof -
  obtain y m d where "civil_of (wall_of z t div day_ns) = (y, m, d)" "valid_date y m d"
    "days_of y m d = wall_of z t div day_ns"
    by (rule civil_cases)
  then show ?thesis by (simp add: startOfDay_def date_of_def go_Date_in_year valid_date_def midnight_def)
qed

lemma days_before_midnight: "shown z (midnight z t) \<Longrightarrow> AddDate z (startOfDay z t) 0 0 k = instant_of z (midnight z t + k * day_ns)"
  by (simp add: startOfDay_midnight AddDate_days shown_def)

definition monday_of :: "zone \<Rightarrow> int \<Rightarrow> int" where
  "monday_of z t = midnight z t - (wall_of z t div day_ns) mod 7 * day_ns"

lemma StartOfWeek_monday: "shown z (midnight z t) \<Longrightarrow> StartOfWeek z t = instant_of z (monday_of z t)"
proof -
  have "(Weekday n + 6) mod 7 = n mod 7" for n by (simp add: Weekday_def mod_simps)
  then show "shown z (midnight z t) \<Longrightarrow> StartOfWeek z t = instant_of z (monday_of z t)"
    by (simp add: StartOfWeek_def days_before_midnight monday_of_def)
qed

lemma week_of_monday:
  "monday_of z t mod (7 * day_ns) = 0" "monday_of z t \<le> wall_of z t" "wall_of z t < monday_of z t + 7 * day_ns"
proof -
  let ?n = "wall_of z t div day_ns"
  have "monday_of z t = (?n - ?n mod 7) * day_ns" by (simp add: monday_of_def midnight_def algebra_simps)
  also have "\<dots> = ?n div 7 * (7 * day_ns)" by (simp add: minus_mod_eq_mult_div)
  finally have m: "monday_of z t = ?n div 7 * (7 * day_ns)" .
  then show "monday_of z t mod (7 * day_ns) = 0" by simp
  have "7 * day_ns * (wall_of z t div (7 * day_ns)) = monday_of z t"
    using m by (simp add: zdiv_zmult2_eq mult.commute [of 7])
  with div_bounds [of "7 * day_ns" "wall_of z t"]
  show "monday_of z t \<le> wall_of z t" "wall_of z t < monday_of z t + 7 * day_ns" by simp_all
qed

lemma borrow_years_eq:
  "month \<le> 12 \<Longrightarrow> borrow_years year month = (year + (month - 1) div 12, (month - 1) mod 12 + 1)"
proof (induction year month rule: borrow_years.induct)
  case (1 year month)
  show ?case
  proof (cases "month \<le> 0")
    case True
    have "(month + 12 - 1) div 12 = (month - 1) div 12 + 1" "(month + 12 - 1) mod 12 = (month - 1) mod 12"
      using div_add_self2 [of 12 "month - 1"] mod_add_self2 [of "month - 1" 12] by (simp_all add: algebra_simps)
    with 1 True show ?thesis by (simp add: borrow_years.simps [of year month])
  next
    case False
    with 1 show ?thesis by (simp add: borrow_years.simps [of year month] div_pos_pos_trivial mod_pos_pos_trivial)
  qed
qed

text \<open>The wall clock a window begins at, from the wall clock now: what the window means on the calendar.\<close>

definition begins :: "window \<Rightarrow> int \<Rightarrow> int" where
  "begins w now =
     (let n = now div day_ns in
      case civil_of n of (y, m, d) \<Rightarrow>
        if w_Kind w = LastWeek then (n - n mod 7 - 7) * day_ns
        else if w_Kind w = WeekToDate then (n - n mod 7) * day_ns
        else if w_Kind w = MonthToDate then days_of y m 1 * day_ns
        else if w_Kind w = YearToDate then days_of y 1 1 * day_ns
        else (let i = 12 * y + (m - 1) - w_Months w
              in (month_start i + (min d (month_size i) - 1)) * day_ns + now mod day_ns))"

lemma daysIn_month:
  assumes midnights: "\<And>n. shown z (n * day_ns)" and m: "1 \<le> m" "m \<le> 12"
  shows "daysIn z y m = month_len y m"
proof -
  have "go_Date z y (m + 1) 1 0 = instant_of z (month_start (12 * y + (m - 1) + 1) * day_ns)"
    by (simp add: go_Date_month algebra_simps)
  also have "month_start (12 * y + (m - 1) + 1) = days_of y m (month_len y m + 1)"
    using month_index [OF m, of y] month_start_Suc [of "12 * y + (m - 1)"]
    by (simp add: month_start_def month_size_def days_of_def)
  finally have first: "wall_of z (go_Date z y (m + 1) 1 0) = days_of y m (month_len y m + 1) * day_ns"
    using midnights by (simp add: shown_def)
  have "AddDate z (go_Date z y (m + 1) 1 0) 0 0 (- 1) = instant_of z (days_of y m (month_len y m) * day_ns)"
    unfolding AddDate_days first by (simp add: days_of_def algebra_simps)
  then have "wall_of z (AddDate z (go_Date z y (m + 1) 1 0) 0 0 (- 1)) = days_of y m (month_len y m) * day_ns"
    using midnights by (simp add: shown_def)
  moreover have "valid_date y m (month_len y m)" using m month_len_pos(1) [of y m] by (simp add: valid_date_def)
  ultimately show ?thesis by (simp add: daysIn_def date_of_def civil_days)
qed

lemma monthsBefore_begins:
  assumes midnights: "\<And>n. shown z (n * day_ns)" and n: "1 \<le> n"
  shows "monthsBefore z t n = instant_of z (begins (LastMonths n) (wall_of z t))"
proof -
  obtain y m d where civil: "civil_of (wall_of z t div day_ns) = (y, m, d)" and valid: "valid_date y m d"
    by (rule civil_cases)
  let ?i = "12 * y + (m - 1) - n"
  have m: "1 \<le> m" "m \<le> 12" using valid by (simp_all add: valid_date_def)
  have i: "y + (m - n - 1) div 12 = ?i div 12" "(m - n - 1) mod 12 = ?i mod 12"
    using div_mult_self4 [of 12 y "m - n - 1"] mod_mult_self4 [of 12 y "m - n - 1"] by (simp_all add: algebra_simps)
  have borrow: "borrow_years y (m - n) = (?i div 12, ?i mod 12 + 1)"
    using borrow_years_eq [of "m - n" y] m n i by simp
  have target: "1 \<le> ?i mod 12 + 1" "?i mod 12 + 1 \<le> 12" using pos_mod_bound [of 12 ?i] by simp_all
  with daysIn_month [OF midnights] have last: "daysIn z (?i div 12) (?i mod 12 + 1) = month_size ?i"
    by (simp add: month_size_def)
  have index: "12 * (?i div 12) + (?i mod 12 + 1 - 1) = ?i" using mult_div_mod_eq [of 12 ?i] by simp
  show ?thesis
    unfolding monthsBefore_def date_of_def civil prod.case borrow Let_def last go_Date_month index
    by (simp add: begins_def civil LastMonths_def kind_defs clock_of_def min_def Let_def)
qed

lemma begins_week: "w_Kind w = WeekToDate \<Longrightarrow> begins w (wall_of z t) = monday_of z t"
  by (simp add: begins_def kind_defs monday_of_def midnight_def Let_def algebra_simps split: prod.split)

lemma begins_last_week: "w_Kind w = LastWeek \<Longrightarrow> begins w (wall_of z t) + 7 * day_ns = monday_of z t"
  by (simp add: begins_def kind_defs monday_of_def midnight_def Let_def algebra_simps split: prod.split)

lemma midnight_shown: "(\<And>n. shown z (n * day_ns)) \<Longrightarrow> shown z (midnight z t)"
  by (simp add: midnight_def)

lemma begins_past:
  assumes "window_Validate w = None"
  shows "begins w t \<le> t"
proof -
  let ?n = "t div day_ns"
  obtain y m d where civil: "civil_of ?n = (y, m, d)" and valid: "valid_date y m d" and days: "days_of y m d = ?n"
    by (rule civil_cases)
  have m: "1 \<le> m" "m \<le> 12" "1 \<le> d" using valid by (simp_all add: valid_date_def)
  have t: "t = ?n * day_ns + t mod day_ns" "0 \<le> t mod day_ns" by simp_all
  have start: "month_start (12 * y + (m - 1)) = days_of y m 1" using month_index [OF m(1,2)] by (simp add: month_start_def)
  have year: "days_of y 1 1 \<le> days_of y m 1"
    using month_start_mono [of "12 * y" "12 * y + (m - 1)"] m start month_index [of 1 y] by (simp add: month_start_def)
  have upto: "k * day_ns \<le> t" if "k \<le> ?n" for k
    using t mult_right_mono [OF that less_imp_le [OF day_ns_pos(1)]] by linarith
  consider "w_Kind w \<in> {LastWeek, WeekToDate}" | "w_Kind w = MonthToDate" | "w_Kind w = YearToDate"
    | "w_Kind w = LastNMonths" "1 \<le> w_Months w"
    using assms by (auto simp: window_Validate_def kind_Valid_def AllKinds_def split: if_splits)
  then show ?thesis
  proof cases
    case 1
    have "?n - ?n mod 7 \<le> ?n" "?n - ?n mod 7 - 7 \<le> ?n" using pos_mod_sign [of 7 ?n] by linarith+
    with 1 upto show ?thesis by (auto simp: begins_def Let_def civil kind_defs)
  next
    case 2
    have "days_of y m 1 \<le> ?n" using days m by (simp add: days_of_def)
    with 2 upto show ?thesis by (simp add: begins_def Let_def civil kind_defs)
  next
    case 3
    have "days_of y 1 1 \<le> ?n" using days m year by (simp add: days_of_def)
    with 3 upto show ?thesis by (simp add: begins_def Let_def civil kind_defs)
  next
    case 4
    let ?i = "12 * y + (m - 1) - w_Months w"
    have "month_start ?i + (min d (month_size ?i) - 1) < month_start (12 * y + (m - 1))"
      using 4 by (intro month_start_before) auto
    then have "month_start ?i + (min d (month_size ?i) - 1) \<le> ?n" using start days m by (simp add: days_of_def)
    then have "(month_start ?i + (min d (month_size ?i) - 1)) * day_ns \<le> ?n * day_ns" by (simp add: mult_right_mono)
    then have "(month_start ?i + (min d (month_size ?i) - 1)) * day_ns + t mod day_ns \<le> t" using t(1) by linarith
    with 4 show ?thesis by (simp add: begins_def Let_def civil kind_defs)
  qed
qed

text \<open>C23. In a zone without a gap at midnight, each window resolves to what it names on the calendar: it
  begins at the wall clock \<open>begins\<close> gives, which is never in the future, and ends now, except that last
  week ends at this week's Monday 00:00, at most a week ago. Whatever the zone, last week ends exactly
  where the week to date begins, so with half-open ranges no instant is in both.\<close>

theorem windows_on_calendar:
  assumes valid: "window_Validate w = None" and midnights: "\<And>n. shown z (n * day_ns)"
  shows "Resolve w now (Some z) = Inr \<lparr>From = instant_of z (begins w (wall_of z now)),
           To = (if w_Kind w = LastWeek then instant_of z (begins w (wall_of z now) + 7 * day_ns) else now)\<rparr>
       \<and> begins w (wall_of z now) \<le> wall_of z now
       \<and> (w_Kind w = LastWeek \<longrightarrow> begins w (wall_of z now) mod (7 * day_ns) = 0
            \<and> begins w (wall_of z now) + 7 * day_ns \<le> wall_of z now
            \<and> wall_of z now < begins w (wall_of z now) + 14 * day_ns)
       \<and> (\<exists>last this. Resolve \<lparr>w_Kind = LastWeek, w_Months = 0\<rparr> now (Some any) = Inr last
            \<and> Resolve \<lparr>w_Kind = WeekToDate, w_Months = 0\<rparr> now (Some any) = Inr this
            \<and> To last = From this \<and> (\<forall>t. \<not> (range_Contains last t \<and> range_Contains this t)))"
proof (intro conjI impI)
  obtain y m d where civil: "civil_of (wall_of z now div day_ns) = (y, m, d)" and date: "valid_date y m d"
    and days: "days_of y m d = wall_of z now div day_ns"
    by (rule civil_cases)
  note today = midnight_shown [of z now, OF midnights]
  have m: "1 \<le> m" "m \<le> 12" using date by (simp_all add: valid_date_def)
  have monday: "instant_of z (monday_of z now) = StartOfWeek z now" using StartOfWeek_monday [OF today] by simp
  have shown_monday: "shown z (monday_of z now)"
    using midnights [of "wall_of z now div day_ns - wall_of z now div day_ns mod 7"]
    by (simp add: monday_of_def midnight_def algebra_simps)
  consider "w_Kind w = LastWeek" | "w_Kind w = WeekToDate" | "w_Kind w = MonthToDate" | "w_Kind w = YearToDate"
    | "w_Kind w = LastNMonths" "1 \<le> w_Months w"
    using valid by (auto simp: window_Validate_def kind_Valid_def AllKinds_def split: if_splits)
  then show "Resolve w now (Some z) = Inr \<lparr>From = instant_of z (begins w (wall_of z now)),
           To = (if w_Kind w = LastWeek then instant_of z (begins w (wall_of z now) + 7 * day_ns) else now)\<rparr>"
  proof cases
    case 1
    have "begins w (wall_of z now) = monday_of z now + - 7 * day_ns" using begins_last_week [OF 1, of z now] by simp
    with 1 valid shown_monday begins_last_week [OF 1, of z now] show ?thesis
      by (simp add: Resolve_def Let_def AddDate_days shown_def monday [symmetric])
  next
    case 2
    with valid begins_week [OF 2] show ?thesis by (simp add: Resolve_def Let_def monday kind_defs)
  next
    case 3
    have "days_of y m 1 = wall_of z now div day_ns + (1 - d)" using days by (simp add: days_of_day [of y m d])
    then have "midnight z now + (1 - d) * day_ns = days_of y m 1 * day_ns"
      by (simp only: midnight_def distrib_right)
    with 3 valid civil show ?thesis
      by (simp add: Resolve_def Let_def date_of_def days_before_midnight [OF today] begins_def kind_defs)
  next
    case 4
    with valid civil show ?thesis by (simp add: Resolve_def date_of_def begins_def go_Date_in_year kind_defs)
  next
    case 5
    have "LastMonths (w_Months w) = w" using 5 by (cases w) (simp add: LastMonths_def)
    with 5 valid monthsBefore_begins [OF midnights 5(2)] show ?thesis by (simp add: Resolve_def kind_defs)
  qed
  show "begins w (wall_of z now) \<le> wall_of z now" by (rule begins_past [OF valid])
  show "begins w (wall_of z now) mod (7 * day_ns) = 0" "begins w (wall_of z now) + 7 * day_ns \<le> wall_of z now"
    "wall_of z now < begins w (wall_of z now) + 14 * day_ns" if "w_Kind w = LastWeek"
  proof -
    have "begins w (wall_of z now) = monday_of z now - 7 * day_ns" using begins_last_week [OF that, of z now] by simp
    with week_of_monday [of z now] show "begins w (wall_of z now) mod (7 * day_ns) = 0"
      "begins w (wall_of z now) + 7 * day_ns \<le> wall_of z now" "wall_of z now < begins w (wall_of z now) + 14 * day_ns"
      by simp_all
  qed
  show "\<exists>last this. Resolve \<lparr>w_Kind = LastWeek, w_Months = 0\<rparr> now (Some any) = Inr last
      \<and> Resolve \<lparr>w_Kind = WeekToDate, w_Months = 0\<rparr> now (Some any) = Inr this
      \<and> To last = From this \<and> (\<forall>t. \<not> (range_Contains last t \<and> range_Contains this t))"
    by (simp add: Resolve_def window_Validate_def kind_Valid_def AllKinds_def kind_defs Let_def range_Contains_def)
qed

text \<open>The witness: Wednesday, 15 May 2024, 10:00 UTC.\<close>

definition sample_now :: int where
  "sample_now = days_of 2024 5 15 * day_ns + 10 * 3600 * 1000000000"

lemma windows_on_calendar_witness:
  "Resolve (LastMonths 3) sample_now (Some utc) = Inr \<lparr>From = begins (LastMonths 3) sample_now, To = sample_now\<rparr>
   \<and> begins (LastMonths 3) sample_now = days_of 2024 2 15 * day_ns + 10 * 3600 * 1000000000"
proof
  have "window_Validate (LastMonths 3) = None"
    by (simp add: window_Validate_def LastMonths_def kind_Valid_def AllKinds_def MaxMonths_def)
  moreover have "w_Kind (LastMonths 3) \<noteq> LastWeek" by (simp add: LastMonths_def kind_defs)
  ultimately show "Resolve (LastMonths 3) sample_now (Some utc) = Inr \<lparr>From = begins (LastMonths 3) sample_now, To = sample_now\<rparr>"
    using windows_on_calendar [of "LastMonths 3" utc sample_now] by simp
  show "begins (LastMonths 3) sample_now = days_of 2024 2 15 * day_ns + 10 * 3600 * 1000000000"
    by code_simp
qed

text \<open>Where the clocks skip midnight the week does not begin on Monday. In Chile the night to Sunday,
  8 September 2024, had no 00:00: the zone went from -4 to -3 hours then. At noon of that Sunday the week's
  start is Sunday, 1 September, 23:00.\<close>

definition santiago :: zone where
  "santiago t = (if t < days_of 2024 9 8 * day_ns + 4 * 3600 * 1000000000 then - 4 * 3600 * 1000000000
                 else - 3 * 3600 * 1000000000)"

lemma week_starts_on_sunday:
  "wall_of santiago (StartOfWeek santiago (days_of 2024 9 8 * day_ns + 15 * 3600 * 1000000000))
     = days_of 2024 9 1 * day_ns + 23 * 3600 * 1000000000"
  by code_simp

end
