(* ===== verification/Polyline.thy ===== *)
theory Polyline
  imports Main "HOL-Library.Word"
begin

unbundle bit_operations_syntax

text \<open>
  The decoder of HERE's flexible polylines (\<open>src/client/here/polyline.go\<close>). Go's \<open>int64\<close> is a 64-bit word; the
  index into the bytes is the list of bytes still to come. The quotients of \<open>float64\<close> numbers are a parameter,
  and so is the JSON encoder. The encoder of the published format is defined here as the specification: it is
  not part of the package.
\<close>

type_synonym int64 = "64 word"

definition flexPolylineAlphabet :: string where
  "flexPolylineAlphabet = ''ABCDEFGHIJKLMNOPQRSTUVWXYZabcdefghijklmnopqrstuvwxyz0123456789-_''"

text \<open>The lookup table: -1, or the last index of the character in the alphabet.\<close>

fun fill_table :: "nat \<Rightarrow> string \<Rightarrow> (char \<Rightarrow> int) \<Rightarrow> char \<Rightarrow> int" where
  "fill_table i [] tab = tab"
| "fill_table i (c # cs) tab = fill_table (Suc i) cs (tab(c := int i))"

definition flexCharToValue :: "char \<Rightarrow> int" where
  "flexCharToValue = fill_table 0 flexPolylineAlphabet (\<lambda>_. - 1)"

datatype value_error = InvalidCharacter char | UnexpectedEnd

definition decodePolylineChar :: "char \<Rightarrow> value_error + int64" where
  "decodePolylineChar c =
     (let v = flexCharToValue c in if v < 0 then Inl (InvalidCharacter c) else Inr (word_of_int v))"

fun unsigned_loop :: "int64 \<Rightarrow> nat \<Rightarrow> string \<Rightarrow> value_error + int64 \<times> string" where
  "unsigned_loop acc sh [] = Inl UnexpectedEnd"
| "unsigned_loop acc sh (c # cs) =
     (case decodePolylineChar c of
        Inl e \<Rightarrow> Inl e
      | Inr v \<Rightarrow>
          (let acc' = acc OR push_bit sh (v AND 0x1F) in
           if v <s 0x20 then Inr (acc', cs) else unsigned_loop acc' (sh + 5) cs))"

definition decodeUnsignedValue :: "string \<Rightarrow> value_error + int64 \<times> string" where
  "decodeUnsignedValue data = unsigned_loop 0 0 data"

definition decodeSignedValue :: "string \<Rightarrow> value_error + int64 \<times> string" where
  "decodeSignedValue data =
     (case decodeUnsignedValue data of
        Inl e \<Rightarrow> Inl e
      | Inr (u, rest) \<Rightarrow>
          if u AND 1 \<noteq> 0 then Inr (- (signed_drop_bit 1 u) - 1, rest) else Inr (signed_drop_bit 1 u, rest))"

datatype poly_error = VersionError value_error | HeaderError value_error | LatError value_error | LngError value_error
  | ZError value_error | EndAfterLat | EndAfterLng

lemma unsigned_loop_shorter: "unsigned_loop acc sh cs = Inr (u, rest) \<Longrightarrow> length rest < length cs"
  by (induction cs arbitrary: acc sh) (fastforce simp: Let_def split: sum.splits if_splits)+

lemma decodeSigned_shorter: "decodeSignedValue cs = Inr (u, rest) \<Longrightarrow> length rest < length cs"
  by (auto simp: decodeSignedValue_def decodeUnsignedValue_def dest: unsigned_loop_shorter split: sum.splits if_splits)

text \<open>The loop over the points; \<open>hasZ\<close> is \<open>hasThirdDim\<close>. The third coordinate is read and dropped.\<close>

definition skip_z :: "bool \<Rightarrow> string \<Rightarrow> poly_error + string" where
  "skip_z hasZ data =
     (if hasZ then
        (if data = [] then Inl EndAfterLng
         else (case decodeSignedValue data of Inl e \<Rightarrow> Inl (ZError e) | Inr (_, rest) \<Rightarrow> Inr rest))
      else Inr data)"

lemma skip_z_no_longer: "skip_z hasZ data = Inr rest \<Longrightarrow> length rest \<le> length data"
  by (auto simp: skip_z_def dest!: decodeSigned_shorter split: sum.splits if_splits)

function decode_points :: "bool \<Rightarrow> int64 \<Rightarrow> int64 \<Rightarrow> string \<Rightarrow> poly_error + (int64 \<times> int64) list" where
  "decode_points hasZ lastLat lastLng data =
     (if data = [] then Inr []
      else
        (case decodeSignedValue data of
           Inl e \<Rightarrow> Inl (LatError e)
         | Inr (latDelta, rest1) \<Rightarrow>
             if rest1 = [] then Inl EndAfterLat
             else
               (case decodeSignedValue rest1 of
                  Inl e \<Rightarrow> Inl (LngError e)
                | Inr (lngDelta, rest2) \<Rightarrow>
                    (case skip_z hasZ rest2 of
                       Inl e \<Rightarrow> Inl e
                     | Inr rest3 \<Rightarrow>
                         (case decode_points hasZ (lastLat + latDelta) (lastLng + lngDelta) rest3 of
                            Inl e \<Rightarrow> Inl e
                          | Inr ps \<Rightarrow> Inr ((lastLat + latDelta, lastLng + lngDelta) # ps))))))"
  by pat_completeness auto
termination
  by (relation "measure (\<lambda>(_, _, _, data). length data)") (auto dest!: decodeSigned_shorter skip_z_no_longer)

declare decode_points.simps [simp del]

text \<open>\<open>float64(n) / math.Pow(10, precision)\<close> is the parameter \<open>quot\<close>; both arguments are exact integers
  (the powers up to \<open>10 ^ 15\<close> are).\<close>

definition DecodeFlexiblePolyline :: "(int \<Rightarrow> int \<Rightarrow> 'f) \<Rightarrow> string \<Rightarrow> poly_error + ('f \<times> 'f) list" where
  "DecodeFlexiblePolyline quot encoded =
     (if length encoded = 0 then Inr []
      else
        (case decodeUnsignedValue encoded of
           Inl e \<Rightarrow> Inl (VersionError e)
         | Inr (_, data) \<Rightarrow>
             (case decodeUnsignedValue data of
                Inl e \<Rightarrow> Inl (HeaderError e)
              | Inr (headerValue, body) \<Rightarrow>
                  (let precision = headerValue AND 0x0F;
                       thirdDimType = signed_drop_bit 4 headerValue AND 0x07;
                       hasThirdDim = thirdDimType \<noteq> 0;
                       scale = 10 ^ unat precision
                   in case decode_points hasThirdDim 0 0 body of
                        Inl e \<Rightarrow> Inl e
                      | Inr ps \<Rightarrow> Inr (map (\<lambda>(lat, lng). (quot (sint lat) scale, quot (sint lng) scale)) ps)))))"

text \<open>The text and whether there was an error; \<open>marshal\<close> is \<open>json.Marshal\<close>.\<close>

definition DecodePolylineToJSON :: "(int \<Rightarrow> int \<Rightarrow> 'f) \<Rightarrow> (('f \<times> 'f) list \<Rightarrow> string option) \<Rightarrow> string \<Rightarrow> string \<times> bool" where
  "DecodePolylineToJSON quot marshal encoded =
     (case DecodeFlexiblePolyline quot encoded of
        Inl _ \<Rightarrow> (''[]'', True)
      | Inr coords \<Rightarrow>
          if length coords = 0 then (''[]'', False)
          else (case marshal coords of None \<Rightarrow> (''[]'', True) | Some b \<Rightarrow> (b, False)))"

subsection \<open>The published format\<close>

definition enc_char :: "nat \<Rightarrow> char" where
  "enc_char n = flexPolylineAlphabet ! n"

fun enc_unsigned :: "nat \<Rightarrow> string" where
  "enc_unsigned n = (if n < 32 then [enc_char n] else enc_char (32 + n mod 32) # enc_unsigned (n div 32))"

declare enc_unsigned.simps [simp del]

definition zigzag :: "int \<Rightarrow> nat" where
  "zigzag i = (if i < 0 then nat (- 2 * i - 1) else nat (2 * i))"

definition enc_signed :: "int \<Rightarrow> string" where
  "enc_signed i = enc_unsigned (zigzag i)"

text \<open>A point is its latitude, longitude and, in three dimensions, the third coordinate, as scaled integers;
  each is written as the difference to the point before.\<close>

fun enc_points :: "bool \<Rightarrow> int \<times> int \<times> int \<Rightarrow> (int \<times> int \<times> int) list \<Rightarrow> string" where
  "enc_points hasZ prev [] = []"
| "enc_points hasZ (a, b, c) ((lat, lng, alt) # ps) =
     enc_signed (lat - a) @ enc_signed (lng - b) @ (if hasZ then enc_signed (alt - c) else [])
       @ enc_points hasZ (lat, lng, alt) ps"

definition encode :: "nat \<Rightarrow> nat \<Rightarrow> nat \<Rightarrow> (int \<times> int \<times> int) list \<Rightarrow> string" where
  "encode precision thirdDim thirdPrecision ps =
     enc_unsigned 1 @ enc_unsigned (precision + 16 * thirdDim + 128 * thirdPrecision)
       @ enc_points (thirdDim \<noteq> 0) (0, 0, 0) ps"

subsection \<open>Decoding what was encoded\<close>

lemma decode_enc_char: "n < 64 \<Longrightarrow> decodePolylineChar (enc_char n) = Inr (word_of_nat n)"
proof -
  have "list_all (\<lambda>n. flexCharToValue (enc_char n) = int n) [0..<64]" by code_simp
  then have "n < 64 \<Longrightarrow> flexCharToValue (enc_char n) = int n" by (simp add: list_all_iff)
  then show "n < 64 \<Longrightarrow> decodePolylineChar (enc_char n) = Inr (word_of_nat n)" by (simp add: decodePolylineChar_def)
qed

lemma small_word: "n < 64 \<Longrightarrow> sint (word_of_nat n :: int64) = int n"
  by (simp add: signed_of_nat signed_take_bit_int_eq_self)

lemma or_split: "word_of_nat (n mod 32) OR push_bit 5 (word_of_nat (n div 32)) = (word_of_nat n :: int64)"
proof -
  have "n mod 32 = take_bit 5 n" "n div 32 = drop_bit 5 n" by (simp_all add: take_bit_eq_mod drop_bit_eq_div)
  then show ?thesis by (auto intro!: bit_word_eqI simp: bit_simps)
qed

lemma low_bits: "(word_of_nat n :: int64) AND 31 = word_of_nat (n mod 32)"
proof -
  have five: "(31 :: int64) = mask 5" by (simp add: mask_eq_exp_minus_1)
  have low: "n mod 32 = take_bit 5 n" by (simp add: take_bit_eq_mod)
  show ?thesis unfolding five low by (auto intro!: bit_word_eqI simp: bit_simps)
qed

lemma unsigned_loop_enc:
  "unsigned_loop acc sh (enc_unsigned n @ rest) = Inr (acc OR push_bit sh (word_of_nat n), rest)"
proof (induction n arbitrary: acc sh rule: enc_unsigned.induct)
  case (1 n)
  show ?case
  proof (cases "n < 32")
    case True
    with decode_enc_char [of n] low_bits [of n] small_word [of n] show ?thesis
      by (simp add: enc_unsigned.simps [of n] Let_def word_sless_alt)
  next
    case False
    have more: "32 + n mod 32 < 64" using mod_less_divisor [of 32 n] by simp
    have "acc OR push_bit sh (word_of_nat n)
        = (acc OR push_bit sh (word_of_nat (n mod 32))) OR push_bit (sh + 5) (word_of_nat (n div 32) :: int64)"
      by (simp add: or_split [of n, symmetric] or.assoc push_bit_push_bit [symmetric] del: push_bit_push_bit)
    with 1 False decode_enc_char [OF more] low_bits [of "32 + n mod 32"] small_word [OF more] show ?thesis
      by (simp add: enc_unsigned.simps [of n] Let_def word_sless_alt mod_add_left_eq)
  qed
qed

lemma decodeUnsigned_enc: "decodeUnsignedValue (enc_unsigned n @ rest) = Inr (word_of_nat n, rest)"
  by (simp add: decodeUnsignedValue_def unsigned_loop_enc)

lemma and_mask_nat: "(word_of_nat n :: int64) AND mask k = word_of_nat (n mod 2 ^ k)" if "k \<le> 64"
proof -
  have low: "n mod 2 ^ k = take_bit k n" by (simp add: take_bit_eq_mod)
  show ?thesis unfolding low using that by (auto intro!: bit_word_eqI simp: bit_simps)
qed

lemma sint_nat: "n < 2 ^ 63 \<Longrightarrow> sint (word_of_nat n :: int64) = int n"
  by (simp add: signed_of_nat signed_take_bit_int_eq_self)

lemma sint_is: "sint (w :: int64) = i \<Longrightarrow> w = word_of_int i"
  by (metis of_int_sint scast_id)

lemma decodeSigned_enc:
  assumes "- (2 ^ 62) \<le> i" "i < 2 ^ 62"
  shows "decodeSignedValue (enc_signed i @ rest) = Inr (word_of_int i, rest)"
proof -
  let ?u = "word_of_nat (zigzag i) :: int64"
  have z: "zigzag i < 2 ^ 63" using assms by (simp add: zigzag_def nat_less_iff)
  then have "sint ?u = int (zigzag i)" by (rule sint_nat)
  then have "sint (signed_drop_bit 1 ?u) = int (zigzag i) div 2"
    by (simp add: sint_signed_drop_bit_eq drop_bit_eq_div)
  then have half: "signed_drop_bit 1 ?u = word_of_int (int (zigzag i) div 2)"
    by (rule sint_is)
  have odd: "?u AND 1 \<noteq> 0 \<longleftrightarrow> odd (zigzag i)"
    by (simp add: and_one_eq mod2_eq_if)
  show ?thesis
  proof (cases "i < 0")
    case True
    then have "odd (zigzag i)" "int (zigzag i) div 2 = - i - 1" by (simp_all add: zigzag_def even_nat_iff)
    with odd half show ?thesis by (simp add: decodeSignedValue_def enc_signed_def decodeUnsigned_enc)
  next
    case False
    then have "even (zigzag i)" "int (zigzag i) div 2 = i" by (simp_all add: zigzag_def even_nat_iff)
    with odd half show ?thesis by (simp add: decodeSignedValue_def enc_signed_def decodeUnsigned_enc)
  qed
qed

text \<open>A list of points whose differences the format's decoder can represent.\<close>

fun steps_ok :: "int \<times> int \<times> int \<Rightarrow> (int \<times> int \<times> int) list \<Rightarrow> bool" where
  "steps_ok prev [] = True"
| "steps_ok (a, b, c) ((lat, lng, alt) # ps) \<longleftrightarrow>
     list_all (\<lambda>i. - (2 ^ 62) \<le> i \<and> i < 2 ^ 62) [lat - a, lng - b, alt - c] \<and> steps_ok (lat, lng, alt) ps"

lemma enc_signed_nonempty [simp]: "enc_signed i \<noteq> []"
  by (simp add: enc_signed_def enc_unsigned.simps [of "zigzag i"])

lemma decode_points_enc:
  "steps_ok (a, b, c) ps \<Longrightarrow>
     decode_points hasZ (word_of_int a) (word_of_int b) (enc_points hasZ (a, b, c) ps)
       = Inr (map (\<lambda>(lat, lng, _). (word_of_int lat, word_of_int lng)) ps)"
proof (induction hasZ "(a, b, c)" ps arbitrary: a b c rule: enc_points.induct)
  case (1 hasZ)
  then show ?case by (simp add: decode_points.simps)
next
  case (2 hasZ a b c lat lng alt ps)
  let ?more = "enc_points hasZ (lat, lng, alt) ps"
  let ?z = "(if hasZ then enc_signed (alt - c) else []) @ ?more"
  from 2(2) have "decodeSignedValue (enc_signed (lat - a) @ enc_signed (lng - b) @ ?z) = Inr (word_of_int (lat - a), enc_signed (lng - b) @ ?z)"
    and "decodeSignedValue (enc_signed (lng - b) @ ?z) = Inr (word_of_int (lng - b), ?z)"
    by (simp_all add: decodeSigned_enc)
  moreover from 2(2) have "skip_z hasZ ?z = Inr ?more" by (simp add: skip_z_def decodeSigned_enc)
  ultimately show ?case using 2 by (simp add: decode_points.simps [of hasZ "word_of_int a"])
qed

text \<open>C24. The decoder inverts the published encoding: for any precision up to 15, with or without a third
  dimension, and any points whose coordinates fit 64 bits and whose steps fit 63, decoding the encoded
  polyline gives exactly the points, scaled by the precision; the third coordinate is read over.\<close>

theorem polyline_roundtrip:
  assumes "precision < 16" "thirdDim < 8" "thirdPrecision < 16" "steps_ok (0, 0, 0) ps"
    and "\<forall>(lat, lng, _)\<in>set ps. \<bar>lat\<bar> < 2 ^ 63 \<and> \<bar>lng\<bar> < 2 ^ 63"
  shows "DecodeFlexiblePolyline quot (encode precision thirdDim thirdPrecision ps)
           = Inr (map (\<lambda>(lat, lng, _). (quot lat (10 ^ precision), quot lng (10 ^ precision))) ps)"
proof -
  define h where "h = precision + 16 * thirdDim + 128 * thirdPrecision"
  let ?w = "word_of_nat h :: int64"
  have split: "h = precision + 16 * (thirdDim + 8 * thirdPrecision)" by (simp add: h_def)
  have "h < 2048" using assms(1-3) by (simp add: h_def)
  then have sint: "sint ?w = int h" by (simp add: sint_nat)
  have prec: "?w AND 0x0F = word_of_nat precision"
  proof -
    have four: "(15 :: int64) = mask 4" by (simp add: mask_eq_exp_minus_1)
    have "h mod 16 = precision" unfolding split mod_mult_self2 using assms(1) by simp
    then show ?thesis unfolding four by (simp add: and_mask_nat)
  qed
  have shifted: "signed_drop_bit 4 ?w = word_of_nat (thirdDim + 8 * thirdPrecision)"
  proof -
    have "sint (signed_drop_bit 4 ?w) = int (h div 16)"
      by (simp add: sint_signed_drop_bit_eq drop_bit_eq_div sint zdiv_int)
    also have "h div 16 = thirdDim + 8 * thirdPrecision" using assms(1) by (simp add: split)
    finally show ?thesis using sint_is by fastforce
  qed
  have dim: "signed_drop_bit 4 ?w AND 0x07 = word_of_nat thirdDim"
  proof -
    have three: "(7 :: int64) = mask 3" by (simp add: mask_eq_exp_minus_1)
    have "(thirdDim + 8 * thirdPrecision) mod 2 ^ 3 = thirdDim" using assms(2) by simp
    then show ?thesis unfolding three shifted using and_mask_nat [of 3 "thirdDim + 8 * thirdPrecision"] by simp
  qed
  have hasZ: "(word_of_nat thirdDim :: int64) \<noteq> 0 \<longleftrightarrow> thirdDim \<noteq> 0"
    using assms(2) nat_dvd_not_less [of thirdDim "2 ^ 64"] by (cases "thirdDim = 0") (simp_all add: word_of_nat_eq_0_iff)
  have scale: "unat (word_of_nat precision :: int64) = precision" using assms(1) by (simp add: unsigned_of_nat take_bit_nat_eq_self)
  have exact: "sint (word_of_int i :: int64) = i" if "\<bar>i\<bar> < 2 ^ 63" for i
    using that by (simp add: signed_of_int signed_take_bit_int_eq_self)
  have body: "decode_points (thirdDim \<noteq> 0) 0 0 (enc_points (thirdDim \<noteq> 0) (0, 0, 0) ps)
      = Inr (map (\<lambda>(lat, lng, _). (word_of_int lat, word_of_int lng)) ps)"
    using decode_points_enc [OF assms(4), of "thirdDim \<noteq> 0"] by simp
  have "enc_unsigned n \<noteq> []" for n by (simp add: enc_unsigned.simps [of n])
  then have some: "length (encode precision thirdDim thirdPrecision ps) \<noteq> 0" by (simp add: encode_def)
  let ?body = "enc_points (thirdDim \<noteq> 0) (0, 0, 0) ps"
  have "decodeUnsignedValue (encode precision thirdDim thirdPrecision ps) = Inr (word_of_nat 1, enc_unsigned h @ ?body)"
    unfolding encode_def h_def [symmetric] by (rule decodeUnsigned_enc)
  moreover have "decodeUnsignedValue (enc_unsigned h @ ?body) = Inr (?w, ?body)" by (rule decodeUnsigned_enc)
  ultimately have "DecodeFlexiblePolyline quot (encode precision thirdDim thirdPrecision ps)
      = Inr (map (\<lambda>(lat, lng). (quot (sint lat) (10 ^ precision), quot (sint lng) (10 ^ precision)))
          (map (\<lambda>(lat, lng, _). (word_of_int lat :: int64, word_of_int lng :: int64)) ps))"
    unfolding DecodeFlexiblePolyline_def using some
    by (simp only: if_False sum.case prod.case Let_def prec dim hasZ body scale)
  with assms(5) exact show ?thesis by auto
qed

text \<open>The witness: two points with five digits.\<close>

lemma polyline_roundtrip_witness:
  "DecodeFlexiblePolyline Pair (encode 5 0 0 [(5010228, 869821, 0), (5010201, 869567, 0)])
     = Inr [((5010228, 100000), (869821, 100000)), ((5010201, 100000), (869567, 100000))]"
  using polyline_roundtrip [of 5 0 0 "[(5010228, 869821, 0), (5010201, 869567, 0)]" Pair] by simp

end
