(* ===== verification/Go_Time.thy ===== *)
theory Go_Time
  imports Calendar Go_Prelude
begin

text \<open>
  Reading and printing of times as Go's \<open>time\<close> package does: \<open>time.Parse\<close> for layouts made of numeric elements,
  and \<open>Format\<close> for dates and RFC 3339. A layout is the list of its elements; \<open>strconv.Itoa\<close> prints numbers. A
  \<open>time.Time\<close> is an instant with the offset of its location, both in nanoseconds.
\<close>

subsection \<open>Numbers\<close>

definition dig :: "char \<Rightarrow> bool" where
  "dig c = byte_in CHR ''0'' CHR ''9'' c"

definition dig_val :: "char \<Rightarrow> int" where
  "dig_val c = of_char c - 48"

definition digit_char :: "nat \<Rightarrow> char" where
  "digit_char n = char_of (48 + n)"

fun itoa :: "nat \<Rightarrow> string" where
  "itoa n = (if n < 10 then [digit_char n] else itoa (n div 10) @ [digit_char (n mod 10)])"

declare itoa.simps [simp del]

text \<open>At least \<open>w\<close> digits.\<close>

definition pad :: "nat \<Rightarrow> nat \<Rightarrow> string" where
  "pad w n = (let s = itoa n in replicate (w - length s) CHR ''0'' @ s)"

lemma digit_char_inj: "m < 10 \<Longrightarrow> n < 10 \<Longrightarrow> digit_char m = digit_char n \<Longrightarrow> m = n"
proof -
  assume "m < 10" "n < 10" "digit_char m = digit_char n"
  then have "of_char (digit_char m) = (of_char (digit_char n) :: nat)" by simp
  with \<open>m < 10\<close> \<open>n < 10\<close> show "m = n" by (simp add: digit_char_def)
qed

lemma dig_digit_char: "n < 10 \<Longrightarrow> dig (digit_char n)"
  by (simp add: dig_def byte_in_def digit_char_def)

lemma itoa_digits: "c \<in> set (itoa n) \<Longrightarrow> dig c"
proof (induction n rule: itoa.induct)
  case (1 n)
  then show ?case by (cases "n < 10") (auto simp: itoa.simps [of n] dig_digit_char)
qed

lemma itoa_inj: "itoa m = itoa n \<Longrightarrow> m = n"
proof (induction m arbitrary: n rule: itoa.induct)
  case (1 m)
  have some: "itoa k \<noteq> []" "[] \<noteq> itoa k" for k by (simp_all add: itoa.simps [of k])
  show ?case
  proof (cases "m < 10"; cases "n < 10")
    assume "m < 10" "n < 10"
    with 1 show ?thesis by (simp add: itoa.simps [of m] itoa.simps [of n] digit_char_inj)
  next
    assume "m < 10" "\<not> n < 10"
    with 1 some show ?thesis by (simp add: itoa.simps [of m] itoa.simps [of n])
  next
    assume "\<not> m < 10" "n < 10"
    with 1 some show ?thesis by (simp add: itoa.simps [of m] itoa.simps [of n])
  next
    assume "\<not> m < 10" "\<not> n < 10"
    with 1(2) have "itoa (m div 10) = itoa (n div 10)" "digit_char (m mod 10) = digit_char (n mod 10)"
      by (simp_all add: itoa.simps [of m] itoa.simps [of n])
    with 1(1) \<open>\<not> m < 10\<close> digit_char_inj [of "m mod 10" "n mod 10"] have "m div 10 = n div 10" "m mod 10 = n mod 10"
      by simp_all
    then show ?thesis by (metis div_mult_mod_eq)
  qed
qed

subsection \<open>Times\<close>

record go_time =
  gt_instant :: int
  gt_offset :: int

definition gt_wall :: "go_time \<Rightarrow> int" where
  "gt_wall t = gt_instant t + gt_offset t"

definition gt_date :: "go_time \<Rightarrow> int \<times> int \<times> int" where
  "gt_date t = civil_of (gt_wall t div day_ns)"

text \<open>Seconds of the day: \<open>Hour\<close>, \<open>Minute\<close> and \<open>Second\<close>.\<close>

definition gt_sod :: "go_time \<Rightarrow> int" where
  "gt_sod t = gt_wall t mod day_ns div 1000000000"

definition gt_hour :: "go_time \<Rightarrow> int" where "gt_hour t = gt_sod t div 3600"
definition gt_minute :: "go_time \<Rightarrow> int" where "gt_minute t = gt_sod t mod 3600 div 60"
definition gt_second :: "go_time \<Rightarrow> int" where "gt_second t = gt_sod t mod 60"

definition gt_UTC :: "go_time \<Rightarrow> go_time" where
  "gt_UTC t = t\<lparr>gt_offset := 0\<rparr>"

definition utc_time :: "int \<Rightarrow> go_time" where
  "utc_time t = \<lparr>gt_instant = t, gt_offset = 0\<rparr>"

definition clock_ns :: "int \<Rightarrow> int \<Rightarrow> int \<Rightarrow> int \<Rightarrow> int" where
  "clock_ns h m s ns = ((h * 60 + m) * 60 + s) * 1000000000 + ns"

text \<open>\<open>Format("2006-01-02")\<close> and \<open>Format(time.RFC3339)\<close> of a time in UTC; a year is printed with at
  least four digits and a sign when negative.\<close>

definition fmt_year :: "int \<Rightarrow> string" where
  "fmt_year y = (if y < 0 then CHR ''-'' # pad 4 (nat (- y)) else pad 4 (nat y))"

definition fmt_date :: "go_time \<Rightarrow> string" where
  "fmt_date t = (case gt_date t of (y, m, d) \<Rightarrow> fmt_year y @ ''-'' @ pad 2 (nat m) @ ''-'' @ pad 2 (nat d))"

definition fmt_RFC3339_utc :: "go_time \<Rightarrow> string" where
  "fmt_RFC3339_utc t = fmt_date t @ ''T'' @ pad 2 (nat (gt_hour t)) @ '':'' @ pad 2 (nat (gt_minute t)) @ '':''
     @ pad 2 (nat (gt_second t)) @ ''Z''"

subsection \<open>Parsing\<close>

datatype element = Year4 | Month2 | Month1 | Day2 | Day1 | Hour24 | Hour12 | Minute2 | Second2 | AmPm | Zone07 | Lit char

record parsed =
  pd_year :: int
  pd_month :: int
  pd_day :: int
  pd_hour :: int
  pd_min :: int
  pd_sec :: int
  pd_nsec :: int
  pd_pm :: bool
  pd_am :: bool
  pd_zone :: "int option"    \<comment> \<open>the offset read, in seconds\<close>

definition nothing_parsed :: parsed where
  "nothing_parsed = \<lparr>pd_year = 0, pd_month = 1, pd_day = 1, pd_hour = 0, pd_min = 0, pd_sec = 0, pd_nsec = 0,
     pd_pm = False, pd_am = False, pd_zone = None\<rparr>"

text \<open>\<open>getnum\<close>: one digit, or two when there are two or \<open>fixed\<close> demands them.\<close>

definition getnum :: "string \<Rightarrow> bool \<Rightarrow> (int \<times> string) option" where
  "getnum s fixed =
     (case s of
        c # d # rest \<Rightarrow>
          if \<not> dig c then None
          else if dig d then Some (10 * dig_val c + dig_val d, rest)
          else if fixed then None else Some (dig_val c, d # rest)
      | [c] \<Rightarrow> if \<not> dig c \<or> fixed then None else Some (dig_val c, [])
      | [] \<Rightarrow> None)"

definition ranged :: "int \<Rightarrow> int \<Rightarrow> (int \<times> string) option \<Rightarrow> (int \<times> string) option" where
  "ranged lo hi r = (case r of Some (n, rest) \<Rightarrow> if lo \<le> n \<and> n \<le> hi then Some (n, rest) else None | None \<Rightarrow> None)"

text \<open>A fraction of a second that the layout does not name is read after the seconds: at most nine of its
  digits are used.\<close>

definition fraction_ns :: "string \<Rightarrow> int" where
  "fraction_ns ds = foldl (\<lambda>acc c. 10 * acc + dig_val c) 0 (take 9 ds @ replicate (9 - length ds) CHR ''0'')"

definition skip_fraction :: "string \<Rightarrow> int \<times> string" where
  "skip_fraction s =
     (case s of
        c # d # rest \<Rightarrow>
          if (c = CHR ''.'' \<or> c = CHR '','') \<and> dig d then (fraction_ns (takeWhile dig (d # rest)), dropWhile dig rest)
          else (0, s)
      | _ \<Rightarrow> (0, s))"

definition read_zone :: "string \<Rightarrow> (int \<times> string) option" where
  "read_zone s =
     (case s of
        c # rest \<Rightarrow>
          if c = CHR ''Z'' then Some (0, rest)
          else if length s < 6 \<or> s ! 3 \<noteq> CHR '':'' then None
          else (case (ranged 0 24 (getnum (take 2 rest) True), ranged 0 60 (getnum (take 2 (drop 3 rest)) True)) of
                  (Some (h, _), Some (m, _)) \<Rightarrow>
                    if c = CHR ''+'' then Some ((h * 60 + m) * 60, drop 6 s)
                    else if c = CHR ''-'' then Some (- ((h * 60 + m) * 60), drop 6 s)
                    else None
                | _ \<Rightarrow> None)
      | [] \<Rightarrow> None)"

definition read_year :: "string \<Rightarrow> (int \<times> string) option" where
  "read_year s =
     (if length s < 4 \<or> \<not> list_all dig (take 4 s) then None
      else Some (foldl (\<lambda>acc c. 10 * acc + dig_val c) 0 (take 4 s), drop 4 s))"

definition read_element :: "element \<Rightarrow> parsed \<Rightarrow> string \<Rightarrow> (parsed \<times> string) option" where
  "read_element e p s =
     (case e of
        Year4 \<Rightarrow> map_option (\<lambda>(n, r). (p\<lparr>pd_year := n\<rparr>, r)) (read_year s)
      | Month2 \<Rightarrow> map_option (\<lambda>(n, r). (p\<lparr>pd_month := n\<rparr>, r)) (ranged 1 12 (getnum s True))
      | Month1 \<Rightarrow> map_option (\<lambda>(n, r). (p\<lparr>pd_month := n\<rparr>, r)) (ranged 1 12 (getnum s False))
      | Day2 \<Rightarrow> map_option (\<lambda>(n, r). (p\<lparr>pd_day := n\<rparr>, r)) (getnum s True)
      | Day1 \<Rightarrow> map_option (\<lambda>(n, r). (p\<lparr>pd_day := n\<rparr>, r)) (getnum s False)
      | Hour24 \<Rightarrow> map_option (\<lambda>(n, r). (p\<lparr>pd_hour := n\<rparr>, r)) (ranged 0 23 (getnum s False))
      | Hour12 \<Rightarrow> map_option (\<lambda>(n, r). (p\<lparr>pd_hour := n\<rparr>, r)) (ranged 0 12 (getnum s False))
      | Minute2 \<Rightarrow> map_option (\<lambda>(n, r). (p\<lparr>pd_min := n\<rparr>, r)) (ranged 0 59 (getnum s True))
      | Second2 \<Rightarrow>
          (case ranged 0 59 (getnum s True) of
             None \<Rightarrow> None
           | Some (n, r) \<Rightarrow> (case skip_fraction r of (ns, r') \<Rightarrow> Some (p\<lparr>pd_sec := n, pd_nsec := ns\<rparr>, r')))
      | AmPm \<Rightarrow>
          if take 2 s = ''PM'' then Some (p\<lparr>pd_pm := True\<rparr>, drop 2 s)
          else if take 2 s = ''AM'' then Some (p\<lparr>pd_am := True\<rparr>, drop 2 s) else None
      | Zone07 \<Rightarrow> map_option (\<lambda>(n, r). (p\<lparr>pd_zone := Some n\<rparr>, r)) (read_zone s)
      | Lit c \<Rightarrow>
          if c = CHR '' '' then
            (if s \<noteq> [] \<and> hd s \<noteq> CHR '' '' then None else Some (p, dropWhile (\<lambda>x. x = CHR '' '') s))
          else if s \<noteq> [] \<and> hd s = c then Some (p, tl s) else None)"

fun read_layout :: "element list \<Rightarrow> parsed \<Rightarrow> string \<Rightarrow> parsed option" where
  "read_layout [] p s = (if s = [] then Some p else None)"
| "read_layout (e # es) p s = (case read_element e p s of None \<Rightarrow> None | Some (p', s') \<Rightarrow> read_layout es p' s')"

text \<open>\<open>time.ParseInLocation(layout, s, time.UTC)\<close>; \<open>time.Parse\<close> reads the same layouts the same way.\<close>

definition parse_time :: "element list \<Rightarrow> string \<Rightarrow> go_time option" where
  "parse_time layout s =
     (case read_layout layout nothing_parsed s of
        None \<Rightarrow> None
      | Some p \<Rightarrow>
          (let hour = (if pd_pm p \<and> pd_hour p < 12 then pd_hour p + 12
                       else if pd_am p \<and> pd_hour p = 12 then 0 else pd_hour p);
               wall = days_of (pd_year p) (pd_month p) (pd_day p) * day_ns + clock_ns hour (pd_min p) (pd_sec p) (pd_nsec p)
           in if \<not> valid_date (pd_year p) (pd_month p) (pd_day p) then None
              else (case pd_zone p of
                      None \<Rightarrow> Some (utc_time wall)
                    | Some z \<Rightarrow> Some \<lparr>gt_instant = wall - z * 1000000000, gt_offset = z * 1000000000\<rparr>)))"

lemma parse_time_examples:
  "parse_time [Year4, Lit CHR ''-'', Month2, Lit CHR ''-'', Day2] ''2024-08-31'' = Some (utc_time (days_of 2024 8 31 * day_ns))"
  "parse_time [Year4, Lit CHR ''-'', Month2, Lit CHR ''-'', Day2] ''2024-02-30'' = None"
  "map_option fmt_RFC3339_utc (parse_time [Month1, Lit CHR ''/'', Day1, Lit CHR ''/'', Year4, Lit CHR '' '', Hour12, Lit CHR '':'',
      Minute2, Lit CHR '':'', Second2, Lit CHR '' '', AmPm] ''9/2/2024 5:23:46 PM'') = Some ''2024-09-02T17:23:46Z''"
  by code_simp+

end
