(* ===== verification/Toll_Sheet.thy ===== *)
theory Toll_Sheet
  imports Go_Float Go_Time
begin

text \<open>
  Toll files as tables (\<open>src/client/toll/sheet.go\<close>) and the normalisation of their cells
  (\<open>src/client/toll/normalize.go\<close>). The spreadsheet and CSV readers, decimal numbers, \<open>strconv.ParseFloat\<close>, the
  rounding of \<open>float64\<close> arithmetic and SHA-256 are the parameter record \<open>tenv\<close>.
\<close>

subsection \<open>Sheets and tables\<close>

record sheet =
  sh_name :: string
  sh_rows :: "string list list"

record table =
  tb_sheet :: string
  tb_headers :: "string list"
  tb_index :: "(string \<times> nat) list"
  tb_rows :: "string list list"
  tb_headerRow :: nat

record 'd tenv =
  read_xlsx :: "string \<Rightarrow> sheet list option"
  read_csv :: "char \<Rightarrow> string \<Rightarrow> string list list option"
  parse_float :: "string \<Rightarrow> flt option"
  f64 :: "real \<Rightarrow> real"              \<comment> \<open>the rounding of an operation's result\<close>
  nan_to_int :: int                  \<comment> \<open>what the conversion of NaN to \<open>int64\<close> gives\<close>
  dec_zero :: 'd
  dec_parse :: "string \<Rightarrow> 'd option"
  dec_neg :: "'d \<Rightarrow> 'd"
  dec_round2 :: "'d \<Rightarrow> 'd"
  dec_fixed2 :: "'d \<Rightarrow> string"
  sha256_hex :: "string \<Rightarrow> string"

definition headerScanDepth :: nat where
  "headerScanDepth = 10"

text \<open>\<open>filepath.Ext\<close>: from the last dot of the last path element, or nothing.\<close>

definition file_ext :: "string \<Rightarrow> string" where
  "file_ext name =
     (let base = takeWhile (\<lambda>c. c \<noteq> CHR ''/'') (rev name) in
      if CHR ''.'' \<in> set base then CHR ''.'' # rev (takeWhile (\<lambda>c. c \<noteq> CHR ''.'') base) else '''')"

definition tab :: char where
  "tab = CHR 0x09"

text \<open>\<open>sniffDelimiter\<close>: the separator most frequent on the first line, the earliest on a tie.\<close>

fun sniff_loop :: "string \<Rightarrow> char list \<Rightarrow> char \<Rightarrow> nat \<Rightarrow> char" where
  "sniff_loop line [] best bestN = best"
| "sniff_loop line (c # cs) best bestN =
     (let n = count_list line c in
      if n > bestN then sniff_loop line cs c n else sniff_loop line cs best bestN)"

definition sniffDelimiter :: "string \<Rightarrow> char" where
  "sniffDelimiter content =
     sniff_loop (takeWhile (\<lambda>c. c \<noteq> CHR 0x0A) content) [CHR '','', CHR '';'', tab, CHR ''|''] CHR '','' 0"

definition trim_bom :: "string \<Rightarrow> string" where
  "trim_bom s = (if take 3 s = [CHR 0xEF, CHR 0xBB, CHR 0xBF] then drop 3 s else s)"

datatype read_error = EmptyFile | NotXlsx | NoWorksheets | NotCsv | NoRows

definition readCSVSheets :: "'d tenv \<Rightarrow> string \<Rightarrow> read_error + sheet list" where
  "readCSVSheets E content =
     (let content = trim_bom content in
      case read_csv E (sniffDelimiter content) content of
        None \<Rightarrow> Inl NotCsv
      | Some rows \<Rightarrow> if length rows = 0 then Inl NoRows else Inr [\<lparr>sh_name = ''csv'', sh_rows = rows\<rparr>])"

definition readXLSXSheets :: "'d tenv \<Rightarrow> string \<Rightarrow> read_error + sheet list" where
  "readXLSXSheets E content =
     (case read_xlsx E content of
        None \<Rightarrow> Inl NotXlsx
      | Some sheets \<Rightarrow> if length sheets = 0 then Inl NoWorksheets else Inr sheets)"

definition readSheets :: "'d tenv \<Rightarrow> string \<Rightarrow> string \<Rightarrow> read_error + sheet list" where
  "readSheets E name content =
     (if length content = 0 then Inl EmptyFile
      else if go_lower (file_ext name) \<in> {''.xlsx'', ''.xlsm'', ''.xls''} then readXLSXSheets E content
      else readCSVSheets E content)"

definition normalizeHeader :: "string \<Rightarrow> string" where
  "normalizeHeader s = join_with '' '' (go_fields s)"

definition header_key :: "string \<Rightarrow> string" where
  "header_key name = go_lower (normalizeHeader name)"

text \<open>The first column of each name; \<open>c\<close> is the column of the head of the list.\<close>

fun build_index :: "nat \<Rightarrow> string list \<Rightarrow> (string \<times> nat) list \<Rightarrow> (string \<times> nat) list" where
  "build_index c [] idx = idx"
| "build_index c (h # hs) idx =
     (let n = normalizeHeader h in
      if n = '''' then build_index (Suc c) hs idx
      else (let key = go_lower n in
            build_index (Suc c) hs (if has_key idx key then idx else idx @ [(key, c)])))"

definition tableAt :: "sheet \<Rightarrow> nat \<Rightarrow> table" where
  "tableAt s i =
     \<lparr>tb_sheet = sh_name s, tb_headers = map normalizeHeader (sh_rows s ! i),
      tb_index = build_index 0 (sh_rows s ! i) [], tb_rows = drop (i + 1) (sh_rows s), tb_headerRow = i + 1\<rparr>"

definition hasAll :: "table \<Rightarrow> string list \<Rightarrow> bool" where
  "hasAll t names \<longleftrightarrow> list_all (\<lambda>n. has_key (tb_index t) (header_key n)) names \<and> length names > 0"

definition table_has :: "table \<Rightarrow> string \<Rightarrow> bool" where
  "table_has t name = has_key (tb_index t) (header_key name)"

text \<open>The candidate header rows of a sheet are its first \<open>headerScanDepth\<close> rows.\<close>

definition table_in :: "string list \<Rightarrow> sheet \<Rightarrow> table option" where
  "table_in required s =
     find (\<lambda>t. hasAll t required) (map (tableAt s) [0..<min (length (sh_rows s)) headerScanDepth])"

fun findTable :: "sheet list \<Rightarrow> string list \<Rightarrow> table option" where
  "findTable [] required = None"
| "findTable (s # ss) required = (case table_in required s of Some t \<Rightarrow> Some t | None \<Rightarrow> findTable ss required)"

definition cell :: "table \<Rightarrow> string list \<Rightarrow> string \<Rightarrow> string" where
  "cell t row name =
     (case map_of (tb_index t) (header_key name) of
        None \<Rightarrow> ''''
      | Some c \<Rightarrow> if c \<ge> length row then '''' else trim_space (row ! c))"

fun row_map_loop :: "string list \<Rightarrow> string list \<Rightarrow> (string \<times> string) list \<Rightarrow> (string \<times> string) list" where
  "row_map_loop (h # hs) (x # xs) m =
     (if h = '''' then row_map_loop hs xs m
      else (let v = trim_space x in row_map_loop hs xs (if v \<noteq> '''' then AList.update h v m else m)))"
| "row_map_loop _ _ m = m"

definition rowMap :: "table \<Rightarrow> string list \<Rightarrow> (string \<times> string) list" where
  "rowMap t row = row_map_loop (tb_headers t) row []"

definition isBlank :: "string list \<Rightarrow> bool" where
  "isBlank row = list_all (\<lambda>v. trim_space v = '''') row"

subsection \<open>Cells\<close>

definition lit :: "string \<Rightarrow> element list" where
  "lit s = map Lit s"

definition textDateLayouts :: "element list list" where
  "textDateLayouts =
     [[Year4] @ lit ''-'' @ [Month2] @ lit ''-'' @ [Day2],
      [Year4] @ lit ''-'' @ [Month2] @ lit ''-'' @ [Day2] @ lit '' '' @ [Hour24] @ lit '':'' @ [Minute2] @ lit '':'' @ [Second2],
      [Year4] @ lit ''-'' @ [Month2] @ lit ''-'' @ [Day2] @ lit ''T'' @ [Hour24] @ lit '':'' @ [Minute2] @ lit '':'' @ [Second2, Zone07],
      [Month2] @ lit ''/'' @ [Day2] @ lit ''/'' @ [Year4],
      [Month1] @ lit ''/'' @ [Day1] @ lit ''/'' @ [Year4],
      [Month2] @ lit ''/'' @ [Day2] @ lit ''/'' @ [Year4] @ lit '' '' @ [Hour24] @ lit '':'' @ [Minute2],
      [Month1] @ lit ''/'' @ [Day1] @ lit ''/'' @ [Year4] @ lit '' '' @ [Hour24] @ lit '':'' @ [Minute2],
      [Month2] @ lit ''/'' @ [Day2] @ lit ''/'' @ [Year4] @ lit '' '' @ [Hour24] @ lit '':'' @ [Minute2] @ lit '':'' @ [Second2],
      [Month1] @ lit ''/'' @ [Day1] @ lit ''/'' @ [Year4] @ lit '' '' @ [Hour24] @ lit '':'' @ [Minute2] @ lit '':'' @ [Second2],
      [Month2] @ lit ''/'' @ [Day2] @ lit ''/'' @ [Year4] @ lit '' '' @ [Hour12] @ lit '':'' @ [Minute2] @ lit '':'' @ [Second2] @ lit '' '' @ [AmPm],
      [Month1] @ lit ''/'' @ [Day1] @ lit ''/'' @ [Year4] @ lit '' '' @ [Hour12] @ lit '':'' @ [Minute2] @ lit '':'' @ [Second2] @ lit '' '' @ [AmPm]]"

definition excelEpoch :: int where
  "excelEpoch = days_of 1899 12 30 * day_ns"

definition maxExcelSerial :: real where
  "maxExcelSerial = 2958465"

text \<open>The product with \<open>time.Second\<close> is a 64-bit \<open>Duration\<close>.\<close>

definition serial_seconds :: "'d tenv \<Rightarrow> flt \<Rightarrow> int" where
  "serial_seconds E f =
     (case f of Fin x \<Rightarrow> round_away (f64 E (f64 E (f64 E (x * 24) * 60) * 60)) | _ \<Rightarrow> nan_to_int E)"

definition parseSerialTime :: "'d tenv \<Rightarrow> string \<Rightarrow> go_time option" where
  "parseSerialTime E s =
     (case parse_float E s of
        None \<Rightarrow> None
      | Some f \<Rightarrow>
          if f_lt f (Fin 61) \<or> f_lt (Fin maxExcelSerial) f then None
          else Some (utc_time (excelEpoch + wrap64 (serial_seconds E f * 1000000000))))"

fun first_layout :: "element list list \<Rightarrow> string \<Rightarrow> go_time option" where
  "first_layout [] t = None"
| "first_layout (l # ls) t = (case parse_time l t of Some ts \<Rightarrow> Some ts | None \<Rightarrow> first_layout ls t)"

definition ParseFileTime :: "'d tenv \<Rightarrow> string \<Rightarrow> go_time option" where
  "ParseFileTime E s =
     (let t = trim_space s in
      if t = '''' then None
      else (case parseSerialTime E t of Some ts \<Rightarrow> Some ts | None \<Rightarrow> first_layout textDateLayouts t))"

text \<open>The replacer that drops dollar signs, commas, blanks and no-break spaces (the bytes C2 A0).\<close>

fun strip_money :: "string \<Rightarrow> string" where
  "strip_money (c # d # cs) =
     (if c \<in> {CHR ''$'', CHR '','', CHR '' ''} then strip_money (d # cs)
      else if c = CHR 0xC2 \<and> d = CHR 0xA0 then strip_money cs
      else c # strip_money (d # cs))"
| "strip_money [c] = (if c \<in> {CHR ''$'', CHR '','', CHR '' ''} then [] else [c])"
| "strip_money [] = []"

definition ParseMoney :: "'d tenv \<Rightarrow> string \<Rightarrow> 'd option" where
  "ParseMoney E s =
     (let t = strip_money (trim_space s) in
      if t = '''' then Some (dec_zero E)
      else
        (let neg = hd t = CHR ''('' \<and> last t = CHR '')'';
             t' = (if neg then butlast (tl t) else t)
         in case dec_parse E t' of
              None \<Rightarrow> None
            | Some d \<Rightarrow> Some (dec_round2 E (if neg then dec_neg E d else d))))"

definition isAlpha :: "char \<Rightarrow> bool" where
  "isAlpha b \<longleftrightarrow> byte_in CHR ''A'' CHR ''Z'' b \<or> byte_in CHR ''a'' CHR ''z'' b"

definition isAllDigits :: "string \<Rightarrow> bool" where
  "isAllDigits s \<longleftrightarrow> s \<noteq> '''' \<and> list_all dig s"

definition NormalizePlate :: "string \<Rightarrow> string" where
  "NormalizePlate s =
     (let up = go_upper (trim_space s) in
      if up = '''' then ''''
      else
        (let up = (if length up > 3 \<and> isAlpha (up ! 0) \<and> isAlpha (up ! 1) \<and> up ! 2 \<in> {CHR ''-'', CHR '' '', CHR ''/''}
                   then drop 3 up else up)
         in filter (\<lambda>b. isAlpha b \<or> dig b) up))"

definition NormalizeTruckRef :: "string \<Rightarrow> string" where
  "NormalizeTruckRef s =
     (let t = trim_space s in
      if t = '''' then ''''
      else if go_upper t \<in> {''N/A'', ''NA'', ''-'', ''--'', ''NONE'', ''NULL'', ''UNKNOWN''} then ''''
      else if \<not> isAllDigits t then t
      else (let trimmed = dropWhile (\<lambda>c. c = CHR ''0'') t in if trimmed = '''' then ''0'' else trimmed))"

definition NormalizeDeviceID :: "string \<Rightarrow> string" where
  "NormalizeDeviceID s = trim_space s"

end
