(* ===== verification/Toll_PrePass.thy ===== *)
theory Toll_PrePass
  imports Toll_Sheet
begin

text \<open>
  PrePass toll files: rows, their content hash and the parser (\<open>src/client/toll/prepass.go\<close>, \<open>normalize.go\<close>),
  credentials and providers (\<open>toll.go\<close>, \<open>registry.go\<close>), and the listing and naming of remote files
  (\<open>sftp.go\<close>). SSH and SFTP connections are not modelled.
\<close>

subsection \<open>Rows\<close>

definition colPostDate :: string where "colPostDate = ''Post Date''"
definition colInvoiceDate :: string where "colInvoiceDate = ''Invoice Date''"
definition colSource :: string where "colSource = ''Source''"
definition colReadType :: string where "colReadType = ''Read Type''"
definition colDeviceID :: string where "colDeviceID = ''PP Device ID''"
definition colAgencyRef :: string where "colAgencyRef = ''Toll Device ID or Plate''"
definition colTruckID :: string where "colTruckID = ''Truck ID''"
definition colAgency :: string where "colAgency = ''Agency''"
definition colEntryPlaza :: string where "colEntryPlaza = ''Entry Plaza''"
definition colEntryDate :: string where "colEntryDate = ''Entry Date''"
definition colEntryTime :: string where "colEntryTime = ''Entry Time''"
definition colExitPlaza :: string where "colExitPlaza = ''Exit Plaza''"
definition colExitDate :: string where "colExitDate = ''Exit Date''"
definition colExitTime :: string where "colExitTime = ''Exit Time''"
definition colClass :: string where "colClass = ''Cl''"
definition colMiles :: string where "colMiles = ''Mi''"
definition colAmount :: string where "colAmount = ''Toll $''"
definition colAccount :: string where "colAccount = ''Account''"

datatype read_type = ReadTransponder | ReadPlate | ReadUnknown

record 'd toll_row =
  RowNumber :: nat
  PostDate :: go_time
  InvoiceDate :: "go_time option"
  EntryAt :: "go_time option"
  ExitAt :: "go_time option"
  tr_Source :: string
  tr_Agency :: string
  ReadType :: read_type
  DeviceID :: string
  AgencyRef :: string
  Plate :: string
  TruckRef :: string
  EntryPlaza :: string
  ExitPlaza :: string
  tr_Class :: string
  Miles :: string
  Amount :: 'd
  Hash :: string
  Raw :: "(string \<times> string) list"

record row_error =
  re_RowNumber :: nat
  re_Column :: string
  re_Value :: string

record 'd parse_result =
  Account :: string
  pr_Rows :: "'d toll_row list"
  pr_Errors :: "row_error list"
  pr_Skipped :: nat

subsection \<open>The content hash\<close>

definition hashSep :: string where
  "hashSep = [CHR 0x1F]"

definition hash_parts :: "'d tenv \<Rightarrow> string \<Rightarrow> 'd toll_row \<Rightarrow> string list" where
  "hash_parts E pt r =
     [pt, fmt_date (gt_UTC (PostDate r)), DeviceID r, AgencyRef r, Plate r,
      (case ExitAt r of Some t \<Rightarrow> fmt_RFC3339_utc (gt_UTC t) | None \<Rightarrow> ''''),
      ExitPlaza r, tr_Agency r, dec_fixed2 E (Amount r)]"

definition HashRow :: "'d tenv \<Rightarrow> string \<Rightarrow> 'd toll_row \<Rightarrow> nat \<Rightarrow> string" where
  "HashRow E pt r occurrence = sha256_hex E (join_with hashSep (hash_parts E pt r @ [itoa occurrence]))"

text \<open>\<open>assignHashes\<close>: \<open>seen\<close> counts the rows with the same base hash.\<close>

fun assign_loop :: "'d tenv \<Rightarrow> string \<Rightarrow> (string \<times> nat) list \<Rightarrow> 'd toll_row list \<Rightarrow> 'd toll_row list" where
  "assign_loop E pt seen [] = []"
| "assign_loop E pt seen (r # rs) =
     (let base = HashRow E pt r 0;
          n = map_get seen base 0;
          seen' = AList.update base (n + 1) seen
      in r\<lparr>Hash := (if n = 0 then base else HashRow E pt r n)\<rparr> # assign_loop E pt seen' rs)"

definition assignHashes :: "'d tenv \<Rightarrow> string \<Rightarrow> 'd toll_row list \<Rightarrow> 'd toll_row list" where
  "assignHashes E pt rows = assign_loop E pt [] rows"

subsection \<open>Parsing\<close>

definition parseReadType :: "string \<Rightarrow> read_type" where
  "parseReadType s =
     (let t = go_lower (trim_space s) in
      if t \<in> {''transponder'', ''tag'', ''toll tag''} then ReadTransponder
      else if t \<in> {''plate'', ''licence plate'', ''license plate'', ''image'', ''video''} then ReadPlate
      else ReadUnknown)"

definition timeOfDayLayouts :: "element list list" where
  "timeOfDayLayouts =
     [[Hour24] @ lit '':'' @ [Minute2] @ lit '':'' @ [Second2], [Hour24] @ lit '':'' @ [Minute2],
      [Hour12] @ lit '':'' @ [Minute2] @ lit '':'' @ [Second2] @ lit '' '' @ [AmPm],
      [Hour12] @ lit '':'' @ [Minute2] @ lit '' '' @ [AmPm]]"

definition clock_of_time :: "go_time \<Rightarrow> int \<times> int \<times> int" where
  "clock_of_time t = (gt_hour t, gt_minute t, gt_second t)"

text \<open>A fraction of a day; an infinity or NaN is not in \<open>[0, 1)\<close>.\<close>

definition day_fraction :: "'d tenv \<Rightarrow> flt \<Rightarrow> (int \<times> int \<times> int) option" where
  "day_fraction E f =
     (case f of
        Fin x \<Rightarrow>
          if 0 \<le> x \<and> x < 1 then
            (let secs = \<lfloor>f64 E (f64 E (f64 E (f64 E (x * 24) * 60) * 60) + 1 / 2)\<rfloor>
             in Some (secs div 3600, secs mod 3600 div 60, secs mod 60))
          else None
      | _ \<Rightarrow> None)"

definition parseTimeOfDay :: "'d tenv \<Rightarrow> string \<Rightarrow> (int \<times> int \<times> int) option" where
  "parseTimeOfDay E s =
     (let v = trim_space s in
      if v = '''' then None
      else
        (case ParseFileTime E v of
           Some ts \<Rightarrow> Some (clock_of_time ts)
         | None \<Rightarrow>
             (case first_layout timeOfDayLayouts v of
                Some ts \<Rightarrow> Some (clock_of_time ts)
              | None \<Rightarrow> (case parse_float E v of Some f \<Rightarrow> day_fraction E f | None \<Rightarrow> None))))"

definition combineDateTime :: "'d tenv \<Rightarrow> table \<Rightarrow> string list \<Rightarrow> string \<Rightarrow> string \<Rightarrow> go_time option" where
  "combineDateTime E t raw dateCol timeCol =
     (case ParseFileTime E (cell t raw dateCol) of
        None \<Rightarrow> None
      | Some d \<Rightarrow>
          if gt_hour d \<noteq> 0 \<or> gt_minute d \<noteq> 0 \<or> gt_second d \<noteq> 0 then Some d
          else
            (case parseTimeOfDay E (cell t raw timeCol) of
               None \<Rightarrow> Some d
             | Some (h, m, s) \<Rightarrow>
                 (case gt_date d of (y, mo, dd) \<Rightarrow>
                    Some (d\<lparr>gt_instant := days_of y mo dd * day_ns + clock_ns h m s 0 - gt_offset d\<rparr>))))"

definition parsePrePassRow :: "'d tenv \<Rightarrow> table \<Rightarrow> nat \<Rightarrow> string list \<Rightarrow> row_error + 'd toll_row" where
  "parsePrePassRow E t rowNum raw =
     (let postRaw = cell t raw colPostDate in
      case ParseFileTime E postRaw of
        None \<Rightarrow> Inl \<lparr>re_RowNumber = rowNum, re_Column = colPostDate, re_Value = postRaw\<rparr>
      | Some post \<Rightarrow>
          (let amountRaw = cell t raw colAmount in
           case ParseMoney E amountRaw of
             None \<Rightarrow> Inl \<lparr>re_RowNumber = rowNum, re_Column = colAmount, re_Value = amountRaw\<rparr>
           | Some amount \<Rightarrow>
               (let readType = parseReadType (cell t raw colReadType);
                    agencyRef = trim_space (cell t raw colAgencyRef)
                in Inr \<lparr>RowNumber = rowNum, PostDate = post,
                        InvoiceDate = ParseFileTime E (cell t raw colInvoiceDate),
                        EntryAt = combineDateTime E t raw colEntryDate colEntryTime,
                        ExitAt = combineDateTime E t raw colExitDate colExitTime,
                        tr_Source = trim_space (cell t raw colSource), tr_Agency = trim_space (cell t raw colAgency),
                        ReadType = readType, DeviceID = NormalizeDeviceID (cell t raw colDeviceID),
                        AgencyRef = agencyRef,
                        Plate = (if readType = ReadPlate then NormalizePlate agencyRef else ''''),
                        TruckRef = NormalizeTruckRef (cell t raw colTruckID),
                        EntryPlaza = trim_space (cell t raw colEntryPlaza),
                        ExitPlaza = trim_space (cell t raw colExitPlaza),
                        tr_Class = trim_space (cell t raw colClass), Miles = trim_space (cell t raw colMiles),
                        Amount = amount, Hash = '''', Raw = rowMap t raw\<rparr>)))"

text \<open>\<open>findAccount\<close>: the next non-empty cell beside an \<open>Account\<close> label, on a sheet other than the data's.\<close>

fun account_in_row :: "string list \<Rightarrow> string option" where
  "account_in_row [] = None"
| "account_in_row (c # cs) =
     (if go_lower (normalizeHeader c) = go_lower colAccount then
        (case find (\<lambda>v. v \<noteq> '''') (map trim_space cs) of Some v \<Rightarrow> Some v | None \<Rightarrow> account_in_row cs)
      else account_in_row cs)"

fun first_account :: "string list list \<Rightarrow> string option" where
  "first_account [] = None"
| "first_account (r # rs) = (case account_in_row r of Some v \<Rightarrow> Some v | None \<Rightarrow> first_account rs)"

definition findAccount :: "sheet list \<Rightarrow> string \<Rightarrow> string" where
  "findAccount sheets dataSheet =
     (case first_account (concat (map sh_rows (filter (\<lambda>s. sh_name s \<noteq> dataSheet) sheets))) of
        Some v \<Rightarrow> v | None \<Rightarrow> '''')"

fun parse_rows :: "'d tenv \<Rightarrow> table \<Rightarrow> nat \<Rightarrow> string list list \<Rightarrow> 'd parse_result \<Rightarrow> 'd parse_result" where
  "parse_rows E t rowNum [] res = res"
| "parse_rows E t rowNum (raw # raws) res =
     parse_rows E t (rowNum + 1) raws
       (if isBlank raw then res\<lparr>pr_Skipped := pr_Skipped res + 1\<rparr>
        else (case parsePrePassRow E t rowNum raw of
                Inl e \<Rightarrow> res\<lparr>pr_Errors := pr_Errors res @ [e]\<rparr>
              | Inr row \<Rightarrow> res\<lparr>pr_Rows := pr_Rows res @ [row]\<rparr>))"

definition ProviderPrePassSFTP :: string where
  "ProviderPrePassSFTP = ''prepass_sftp''"

datatype parse_error = ReadError read_error | NoDataSheet

definition PrePass_Parse :: "'d tenv \<Rightarrow> string \<Rightarrow> string \<Rightarrow> parse_error + 'd parse_result" where
  "PrePass_Parse E name content =
     (case readSheets E name content of
        Inl e \<Rightarrow> Inl (ReadError e)
      | Inr sheets \<Rightarrow>
          (case findTable sheets [colPostDate, colAmount] of
             None \<Rightarrow> Inl NoDataSheet
           | Some t \<Rightarrow>
               (let res = parse_rows E t (tb_headerRow t + 1) (tb_rows t)
                            \<lparr>Account = findAccount sheets (tb_sheet t), pr_Rows = [], pr_Errors = [], pr_Skipped = 0\<rparr>
                in Inr (res\<lparr>pr_Rows := assignHashes E ProviderPrePassSFTP (pr_Rows res)\<rparr>))))"

subsection \<open>Every row is accounted for\<close>

definition row_of :: "'d tenv \<Rightarrow> table \<Rightarrow> nat \<times> string list \<Rightarrow> 'd toll_row list" where
  "row_of E t = (\<lambda>(i, raw). if isBlank raw then [] else
     (case parsePrePassRow E t i raw of Inr row \<Rightarrow> [row] | Inl _ \<Rightarrow> []))"

definition error_of :: "'d tenv \<Rightarrow> table \<Rightarrow> nat \<times> string list \<Rightarrow> row_error list" where
  "error_of E t = (\<lambda>(i, raw). if isBlank raw then [] else
     (case parsePrePassRow E t i raw of Inr _ \<Rightarrow> [] | Inl e \<Rightarrow> [e]))"

lemma parse_rows_eq:
  "parse_rows E t n raws res = res\<lparr>pr_Rows := pr_Rows res @ concat (map (row_of E t) (enumerate n raws)),
     pr_Errors := pr_Errors res @ concat (map (error_of E t) (enumerate n raws)),
     pr_Skipped := pr_Skipped res + length (filter isBlank raws)\<rparr>"
  by (induction raws arbitrary: n res) (auto simp: row_of_def error_of_def split: sum.split)

lemma parsePrePassRow_number:
  "parsePrePassRow E t i raw = Inr row \<Longrightarrow> RowNumber row = i"
  "parsePrePassRow E t i raw = Inl e \<Longrightarrow> re_RowNumber e = i"
  by (auto simp: parsePrePassRow_def Let_def split: option.splits)

lemma rows_split:
  "length (concat (map (row_of E t) (enumerate n raws))) + length (concat (map (error_of E t) (enumerate n raws)))
     + length (filter isBlank raws) = length raws"
  by (induction raws arbitrary: n) (auto simp: row_of_def error_of_def split: sum.split)

lemma numbered_list:
  assumes "\<And>i raw x. x \<in> set (f (i, raw)) \<Longrightarrow> num x = i" and "\<And>p. length (f p) \<le> 1"
  shows "sorted_wrt (<) (map num (concat (map f (enumerate n raws)))) \<and> (\<forall>x\<in>set (concat (map f (enumerate n raws))). (n :: nat) \<le> num x)"
proof (induction raws arbitrary: n)
  case (Cons raw raws)
  note IH = Cons.IH [of "Suc n"]
  have one: "f (n, raw) = [] \<or> (\<exists>x. f (n, raw) = [x] \<and> num x = n)"
    using assms(1) [of _ n raw] assms(2) [of "(n, raw)"] by (cases "f (n, raw)") auto
  have "n < num x" "n \<le> num x" if "x \<in> set (concat (map f (enumerate (Suc n) raws)))" for x
    using IH that by (auto dest!: bspec [of _ _ x])
  with one IH show ?case by auto
qed simp

lemma row_numbers:
  "sorted_wrt (<) (map RowNumber (concat (map (row_of E t) (enumerate n raws))))"
  "sorted_wrt (<) (map re_RowNumber (concat (map (error_of E t) (enumerate n raws))))"
proof -
  have row: "x \<in> set (row_of E t (i, raw)) \<Longrightarrow> RowNumber x = i" "length (row_of E t p) \<le> 1" for i raw x p
    by (auto simp: row_of_def parsePrePassRow_number split: sum.splits if_splits prod.splits)
  then show "sorted_wrt (<) (map RowNumber (concat (map (row_of E t) (enumerate n raws))))"
    using numbered_list [of "row_of E t" RowNumber] by blast
  have err: "x \<in> set (error_of E t (i, raw)) \<Longrightarrow> re_RowNumber x = i" "length (error_of E t p) \<le> 1" for i raw x p
    by (auto simp: error_of_def parsePrePassRow_number split: sum.splits if_splits prod.splits)
  then show "sorted_wrt (<) (map re_RowNumber (concat (map (error_of E t) (enumerate n raws))))"
    using numbered_list [of "error_of E t" re_RowNumber] by blast
qed

subsection \<open>Hashes\<close>

lemma assign_loop_map: "map (\<lambda>r. r\<lparr>Hash := ''''\<rparr>) (assign_loop E pt seen rows) = map (\<lambda>r. r\<lparr>Hash := ''''\<rparr>) rows"
  by (induction rows arbitrary: seen) (simp_all add: Let_def)

lemma assign_loop_append:
  "\<exists>seen'. assign_loop E pt seen (xs @ ys) = assign_loop E pt seen xs @ assign_loop E pt seen' ys"
  by (induction xs arbitrary: seen) (auto simp: Let_def)

lemma hash_parts_Hash [simp]: "hash_parts E pt (r\<lparr>Hash := h\<rparr>) = hash_parts E pt r"
  by (simp add: hash_parts_def)

lemma no_sep_in_itoa: "CHR 0x1F \<notin> set (itoa n)"
  using itoa_digits [of "CHR 0x1F" n] by (auto simp: dig_def byte_in_def)

lemma last_sep: "CHR 0x1F \<notin> set x \<Longrightarrow> CHR 0x1F \<notin> set y \<Longrightarrow> a @ CHR 0x1F # x = b @ CHR 0x1F # y \<Longrightarrow> a = b \<and> x = y"
proof -
  assume free: "CHR 0x1F \<notin> set x" "CHR 0x1F \<notin> set y" and eq: "a @ CHR 0x1F # x = b @ CHR 0x1F # y"
  have "takeWhile (\<lambda>c. c \<noteq> CHR 0x1F) (rev (p @ CHR 0x1F # q)) = rev q" if "CHR 0x1F \<notin> set q" for p q
    using that by (simp add: takeWhile_append2 takeWhile_append)
  with free eq have "rev x = rev y" by metis
  with eq show "a = b \<and> x = y" by simp
qed

lemma join_snoc: "xs \<noteq> [] \<Longrightarrow> join_with s (xs @ [y]) = join_with s xs @ s @ y"
proof (induction xs)
  case (Cons x xs)
  then show ?case by (cases xs) (simp_all add: join_with_Cons)
qed simp

lemma HashRow_occurrence:
  assumes "inj (sha256_hex E)" "HashRow E pt r m = HashRow E pt q n"
  shows "m = n" "HashRow E pt r k = HashRow E pt q k"
proof -
  have "join_with hashSep (hash_parts E pt r @ [itoa m]) = join_with hashSep (hash_parts E pt q @ [itoa n])"
    using assms by (simp add: HashRow_def inj_eq)
  moreover have "hash_parts E pt r \<noteq> []" "hash_parts E pt q \<noteq> []" by (simp_all add: hash_parts_def)
  ultimately have "join_with hashSep (hash_parts E pt r) = join_with hashSep (hash_parts E pt q) \<and> itoa m = itoa n"
    using last_sep [OF no_sep_in_itoa no_sep_in_itoa] by (simp add: join_snoc hashSep_def)
  with itoa_inj show "m = n" "HashRow E pt r k = HashRow E pt q k"
    using \<open>hash_parts E pt r \<noteq> []\<close> \<open>hash_parts E pt q \<noteq> []\<close> by (simp_all add: HashRow_def join_snoc)
qed

lemma assign_loop_hash:
  "q \<in> set (assign_loop E pt seen rows) \<Longrightarrow>
     \<exists>n. Hash q = HashRow E pt q n \<and> map_get seen (HashRow E pt q 0) 0 \<le> n"
proof (induction rows arbitrary: seen)
  case (Cons r rs)
  let ?base = "HashRow E pt r 0"
  let ?n = "map_get seen ?base 0"
  have same: "HashRow E pt (r\<lparr>Hash := h\<rparr>) k = HashRow E pt r k" for h k by (simp add: HashRow_def)
  from Cons.prems consider "q = r\<lparr>Hash := (if ?n = 0 then ?base else HashRow E pt r ?n)\<rparr>"
    | "q \<in> set (assign_loop E pt (AList.update ?base (?n + 1) seen) rs)"
    by (auto simp: Let_def)
  then show ?case
  proof cases
    case 1
    then show ?thesis by (intro exI [of _ ?n]) (simp add: same)
  next
    case 2
    from Cons.IH [OF this] show ?thesis by (auto split: if_splits intro: exI)
  qed
qed simp

lemma assign_loop_distinct:
  assumes "inj (sha256_hex E)"
  shows "distinct (map Hash (assign_loop E pt seen rows))"
proof (induction rows arbitrary: seen)
  case (Cons r rs)
  let ?base = "HashRow E pt r 0"
  let ?n = "map_get seen ?base 0"
  let ?rest = "assign_loop E pt (AList.update ?base (?n + 1) seen) rs"
  obtain h where step: "assign_loop E pt seen (r # rs) = r\<lparr>Hash := h\<rparr> # ?rest" and h: "h = HashRow E pt r ?n"
    by (simp add: Let_def)
  have "h \<noteq> Hash q" if "q \<in> set ?rest" for q
  proof
    assume "h = Hash q"
    moreover from assign_loop_hash [OF that] obtain n where n: "Hash q = HashRow E pt q n"
      "map_get (AList.update ?base (?n + 1) seen) (HashRow E pt q 0) 0 \<le> n" by blast
    ultimately have eq: "HashRow E pt r ?n = HashRow E pt q n" using h by simp
    with HashRow_occurrence [OF assms eq] n(2) show False by (simp split: if_splits)
  qed
  then have "h \<notin> Hash ` set ?rest" by blast
  with Cons.IH [of "AList.update ?base (?n + 1) seen"] show ?case unfolding step by simp
qed simp

lemma assign_loop_mem:
  "q \<in> set (assign_loop E pt seen rows) \<Longrightarrow> \<exists>r\<in>set rows. \<exists>h. q = r\<lparr>Hash := h\<rparr>"
  by (induction rows arbitrary: seen) (auto simp: Let_def)

lemma assignHashes_keep: "map RowNumber (assignHashes E pt rows) = map RowNumber rows"
proof -
  have "map RowNumber (assign_loop E pt seen rows) = map RowNumber rows" for seen
    by (induction rows arbitrary: seen) (simp_all add: Let_def)
  then show ?thesis by (simp add: assignHashes_def)
qed

lemma assignHashes_length: "length (assignHashes E pt rows) = length rows"
  using assignHashes_keep [of E pt rows] by (metis length_map)


text \<open>The witness: a CSV with two equal tolls and a blank line.\<close>

definition sample_tenv :: "string tenv" where
  "sample_tenv = \<lparr>read_xlsx = (\<lambda>_. None),
     read_csv = (\<lambda>_ _. Some [[''Post Date'', '''', ''Toll $''], [''2024-09-02'', '''', ''1''], [''2024-09-02'', '''', ''1''], ['' '']]),
     parse_float = (\<lambda>_. None), f64 = (\<lambda>x. x), nan_to_int = 0, dec_zero = ''0'', dec_parse = Some,
     dec_neg = (\<lambda>d. CHR ''-'' # d), dec_round2 = (\<lambda>d. d), dec_fixed2 = (\<lambda>d. d), sha256_hex = (\<lambda>s. s)\<rparr>"


subsection \<open>Columns are found by name\<close>

text \<open>An empty column inserted at position \<open>k\<close> of every row that reaches it.\<close>

definition ins :: "nat \<Rightarrow> string list \<Rightarrow> string list" where
  "ins k xs = (if k \<le> length xs then take k xs @ '''' # drop k xs else xs)"

definition spaced :: "nat \<Rightarrow> sheet \<Rightarrow> sheet" where
  "spaced k s = s\<lparr>sh_rows := map (ins k) (sh_rows s)\<rparr>"

definition shift :: "nat \<Rightarrow> nat \<Rightarrow> nat" where
  "shift k c = (if c < k then c else Suc c)"

lemma ins_0 [simp]: "ins 0 xs = '''' # xs"
  by (simp add: ins_def)

lemma ins_Suc [simp]: "ins (Suc k) (x # xs) = x # ins k xs" "ins (Suc k) [] = []"
  by (simp_all add: ins_def)

lemma normalizeHeader_Nil [simp]: "normalizeHeader '''' = ''''"
  by (simp add: normalizeHeader_def go_fields_def)

lemma trim_space_Nil [simp]: "trim_space '''' = ''''"
  by (simp add: trim_space_def)

text \<open>The first column with a key.\<close>

fun first_col :: "string \<Rightarrow> nat \<Rightarrow> string list \<Rightarrow> nat option" where
  "first_col key c [] = None"
| "first_col key c (h # hs) =
     (if normalizeHeader h \<noteq> '''' \<and> go_lower (normalizeHeader h) = key then Some c else first_col key (Suc c) hs)"

lemma build_index_first:
  "map_of (build_index c hs idx) key = (case map_of idx key of Some v \<Rightarrow> Some v | None \<Rightarrow> first_col key c hs)"
  by (induction hs arbitrary: c idx) (auto simp: Let_def has_key_def map_add_def split: option.splits)

lemma first_col_Suc: "first_col key (Suc c) hs = map_option Suc (first_col key c hs)"
  by (induction hs arbitrary: c) auto

lemma first_col_ins: "first_col key 0 (ins k hs) = map_option (shift k) (first_col key 0 hs)"
proof (induction hs arbitrary: k)
  case Nil
  then show ?case by (cases k) (simp_all add: ins_def)
next
  case (Cons h hs)
  show ?case
  proof (cases k)
    case 0
    have "shift 0 = Suc" by (simp add: shift_def fun_eq_iff)
    then show ?thesis using 0 first_col_Suc [of key 0 "h # hs"] by simp
  next
    case (Suc j)
    have "shift (Suc j) (Suc c) = Suc (shift j c)" for c by (simp add: shift_def)
    with Suc Cons show ?thesis
      by (auto simp: first_col_Suc shift_def option.map_comp comp_def intro: option.map_cong)
  qed
qed

lemma nth_ins:
  "(if shift k c \<ge> length (ins k row) then '''' else trim_space (ins k row ! shift k c))
     = (if c \<ge> length row then '''' else trim_space (row ! c))"
  by (auto simp: ins_def shift_def nth_append min_def Suc_diff_le)

lemma row_map_ins: "row_map_loop (map normalizeHeader (ins k hs)) (ins k row) m = row_map_loop (map normalizeHeader hs) row m"
proof (induction k arbitrary: hs row m)
  case (Suc k)
  then show ?case by (cases hs; cases row) (simp_all add: Let_def)
qed simp

lemma isBlank_ins: "isBlank (ins k row) = isBlank row"
proof (cases "k \<le> length row")
  case True
  have "isBlank row \<longleftrightarrow> isBlank (take k row @ drop k row)" by simp
  also have "\<dots> \<longleftrightarrow> isBlank (take k row @ '''' # drop k row)" unfolding isBlank_def list_all_append by simp
  finally show ?thesis using True by (simp add: ins_def)
qed (simp add: ins_def)

text \<open>A table and the same table with the spacer column.\<close>

definition same_cells :: "nat \<Rightarrow> table \<Rightarrow> table \<Rightarrow> bool" where
  "same_cells k t u \<longleftrightarrow> tb_sheet u = tb_sheet t \<and> tb_rows u = map (ins k) (tb_rows t) \<and> tb_headerRow u = tb_headerRow t
     \<and> (\<forall>row name. cell u (ins k row) name = cell t row name) \<and> (\<forall>row. rowMap u (ins k row) = rowMap t row)
     \<and> (\<forall>names. hasAll u names = hasAll t names)"

lemma tableAt_spaced: "i < length (sh_rows s) \<Longrightarrow> same_cells k (tableAt s i) (tableAt (spaced k s) i)"
proof -
  assume i: "i < length (sh_rows s)"
  let ?t = "tableAt s i" and ?u = "tableAt (spaced k s) i"
  have index: "map_of (tb_index ?u) key = map_option (shift k) (map_of (tb_index ?t) key)" for key
    using i by (simp add: tableAt_def spaced_def build_index_first first_col_ins)
  have "cell ?u (ins k row) name = cell ?t row name" for row name
    using nth_ins [of k row] by (cases "map_of (tb_index ?t) (header_key name)") (simp_all add: cell_def index)
  moreover have "rowMap ?u (ins k row) = rowMap ?t row" for row
    using i row_map_ins [of k "sh_rows s ! i" row] by (simp add: rowMap_def tableAt_def spaced_def)
  moreover have "hasAll ?u names = hasAll ?t names" for names by (simp add: hasAll_def has_key_def index)
  ultimately show ?thesis by (simp add: same_cells_def) (simp add: tableAt_def spaced_def drop_map)
qed

lemma parsePrePassRow_same: "same_cells k t u \<Longrightarrow> parsePrePassRow E u n (ins k raw) = parsePrePassRow E t n raw"
proof -
  assume "same_cells k t u"
  then have cells: "\<And>name. cell u (ins k raw) name = cell t raw name" and raw: "rowMap u (ins k raw) = rowMap t raw"
    by (simp_all add: same_cells_def)
  show ?thesis unfolding parsePrePassRow_def combineDateTime_def cells raw ..
qed

lemma parse_rows_same: "same_cells k t u \<Longrightarrow> parse_rows E u n (map (ins k) raws) res = parse_rows E t n raws res"
  by (induction raws arbitrary: n res) (simp_all add: isBlank_ins parsePrePassRow_same)

lemma find_related:
  "(\<And>x. x \<in> set xs \<Longrightarrow> P' (g x) = P (f x)) \<Longrightarrow> rel_option (\<lambda>a b. \<exists>x\<in>set xs. a = f x \<and> b = g x)
     (find P (map f xs)) (find P' (map g xs))"
proof (induction xs)
  case (Cons x xs)
  then have "rel_option (\<lambda>a b. \<exists>x\<in>set xs. a = f x \<and> b = g x) (find P (map f xs)) (find P' (map g xs))" by simp
  then have "rel_option (\<lambda>a b. \<exists>y\<in>set (x # xs). a = f y \<and> b = g y) (find P (map f xs)) (find P' (map g xs))"
    by (rule option.rel_mono_strong) auto
  with Cons.prems [of x] show ?case by auto
qed simp

lemma table_in_spaced: "rel_option (same_cells k) (table_in required s) (table_in required (spaced k s))"
proof -
  let ?is = "[0..<min (length (sh_rows s)) headerScanDepth]"
  have same: "same_cells k (tableAt s i) (tableAt (spaced k s) i)" if "i \<in> set ?is" for i
    using that tableAt_spaced [of i s k] by simp
  then have "hasAll (tableAt (spaced k s) i) required = hasAll (tableAt s i) required" if "i \<in> set ?is" for i
    using that by (simp add: same_cells_def)
  then have "rel_option (\<lambda>a b. \<exists>i\<in>set ?is. a = tableAt s i \<and> b = tableAt (spaced k s) i)
      (find (\<lambda>t. hasAll t required) (map (tableAt s) ?is)) (find (\<lambda>t. hasAll t required) (map (tableAt (spaced k s)) ?is))"
    by (rule find_related)
  then have "rel_option (same_cells k) (find (\<lambda>t. hasAll t required) (map (tableAt s) ?is))
      (find (\<lambda>t. hasAll t required) (map (tableAt (spaced k s)) ?is))"
    by (rule option.rel_mono_strong) (use same in blast)
  then show ?thesis by (simp add: table_in_def spaced_def)
qed

lemma findTable_spaced: "rel_option (same_cells k) (findTable ss required) (findTable (map (spaced k) ss) required)"
proof (induction ss)
  case (Cons s ss)
  with table_in_spaced [of k required s] show ?case by (auto simp: option.rel_sel split: option.splits)
qed simp

lemma account_in_row_ins: "account_in_row (ins k row) = account_in_row row"
proof (induction row arbitrary: k)
  case Nil
  then show ?case by (cases k) (simp_all add: colAccount_def go_lower_def)
next
  case (Cons c cs)
  have no_key: "go_lower '''' \<noteq> go_lower colAccount" by (simp add: colAccount_def go_lower_def)
  have skip: "find (\<lambda>v. v \<noteq> '''') (map trim_space (ins j cs)) = find (\<lambda>v. v \<noteq> '''') (map trim_space cs)" for j
  proof (induction cs arbitrary: j)
    case Nil
    then show ?case by (cases j) simp_all
  next
    case (Cons d ds)
    then show ?case by (cases j) simp_all
  qed
  show ?case using Cons no_key skip by (cases k) (simp_all split: option.split)
qed

lemma findAccount_spaced: "findAccount (map (spaced k) ss) d = findAccount ss d"
proof -
  have rows: "first_account (map (ins k) rows) = first_account rows" for rows
    by (induction rows) (simp_all add: account_in_row_ins split: option.split)
  have "concat (map sh_rows (filter (\<lambda>s. sh_name s \<noteq> d) (map (spaced k) ss)))
      = map (ins k) (concat (map sh_rows (filter (\<lambda>s. sh_name s \<noteq> d) ss)))"
    by (induction ss) (simp_all add: spaced_def)
  with rows show ?thesis by (simp add: findAccount_def)
qed

text \<open>C26. Columns are addressed by name, not by position: an empty column inserted anywhere in the sheets of
  a file, as PrePass does from week to week, changes nothing in what is read from it: the same rows with the
  same hashes and raw columns, the same errors, the same account.\<close>

theorem spacer_columns_ignored:
  assumes "readSheets E name content = Inr sheets" "readSheets E name' content' = Inr (map (spaced k) sheets)"
  shows "PrePass_Parse E name' content' = PrePass_Parse E name content"
  using findTable_spaced [of k sheets "[colPostDate, colAmount]"]
proof (cases rule: option.rel_cases)
  case None
  with assms show ?thesis by (simp add: PrePass_Parse_def)
next
  case (Some t u)
  then have "tb_sheet u = tb_sheet t" "tb_rows u = map (ins k) (tb_rows t)" "tb_headerRow u = tb_headerRow t"
    by (simp_all add: same_cells_def)
  with Some assms show ?thesis
    by (simp add: PrePass_Parse_def Let_def findAccount_spaced parse_rows_same [OF Some(3)])
qed

lemma spacer_columns_ignored_witness:
  "PrePass_Parse (sample_tenv\<lparr>read_csv := \<lambda>_ c. Some (if c = ''a'' then [[''Post Date'', ''Toll $'']]
        else [[''Post Date'', '''', ''Toll $'']])\<rparr>) ''w'' ''b''
   = PrePass_Parse (sample_tenv\<lparr>read_csv := \<lambda>_ c. Some (if c = ''a'' then [[''Post Date'', ''Toll $'']]
        else [[''Post Date'', '''', ''Toll $'']])\<rparr>) ''w'' ''a''"
  (is "PrePass_Parse ?E _ _ = _")
proof -
  have ext: "go_lower (file_ext ''w'') = ''''" by code_simp
  have "readSheets ?E ''w'' ''a'' = Inr [\<lparr>sh_name = ''csv'', sh_rows = [[''Post Date'', ''Toll $'']]\<rparr>]"
    "readSheets ?E ''w'' ''b'' = Inr (map (spaced 1) [\<lparr>sh_name = ''csv'', sh_rows = [[''Post Date'', ''Toll $'']]\<rparr>])"
    by (simp_all add: readSheets_def ext readCSVSheets_def trim_bom_def Let_def spaced_def ins_def)
  then show ?thesis by (rule spacer_columns_ignored)
qed

subsection \<open>Serial dates\<close>

text \<open>A serial whose seconds fit a \<open>Duration\<close> is read as that many seconds after the epoch. Later ones, from
  the year 2192 on, wrap to wrong dates although the bound admits them up to 9999; and NaN passes both
  comparisons and is read as a date.\<close>

lemma serial_date:
  assumes "parse_float E s = Some f" "\<not> f_lt f (Fin 61)" "\<not> f_lt (Fin maxExcelSerial) f"
    and "0 \<le> serial_seconds E f" "serial_seconds E f < 9223372036"
  shows "parseSerialTime E s = Some (utc_time (excelEpoch + serial_seconds E f * 1000000000))"
  using assms by (simp add: parseSerialTime_def wrap64_id)

lemma serial_date_wraps:
  assumes "parse_float E s = Some (Fin 200000)" "f64 E = (\<lambda>x. x)"
  shows "parseSerialTime E s = Some (utc_time (excelEpoch + (200000 * day_ns - 2 ^ 64)))"
    and "utc_time (excelEpoch + (200000 * day_ns - 2 ^ 64)) \<noteq> utc_time (excelEpoch + 200000 * day_ns)"
proof -
  have "serial_seconds E (Fin 200000) = 200000 * 86400"
    using assms(2) round_away_int [of "200000 * 86400"] by (simp add: serial_seconds_def del: round_away_int)
  with assms(1) show "parseSerialTime E s = Some (utc_time (excelEpoch + (200000 * day_ns - 2 ^ 64)))"
    by (simp add: parseSerialTime_def maxExcelSerial_def wrap64_def day_ns_def)
qed (simp add: utc_time_def)

lemma serial_nan: "parse_float E s = Some NaN \<Longrightarrow> parseSerialTime E s \<noteq> None"
  by (simp add: parseSerialTime_def)

subsection \<open>Providers and credentials\<close>

record credential =
  cr_ProviderType :: string
  cr_AccountName :: string
  cr_Username :: string
  cr_Secret :: string
  cr_Host :: string
  cr_Port :: int
  cr_Directory :: string
  cr_HostKey :: string
  cr_TLSMode :: string
  cr_Passive :: "bool option"
  cr_BaseURL :: string

definition AllProviderTypes :: "string list" where
  "AllProviderTypes = [ProviderPrePassSFTP]"

definition provider_IsValid :: "string \<Rightarrow> bool" where
  "provider_IsValid p = list_ex (\<lambda>x. p = x) AllProviderTypes"

record provider_rules =
  Transport :: string
  RequiresUsername :: bool
  RequiresSecret :: bool
  RequiresHost :: bool
  RequiresBaseURL :: bool
  FileExtensions :: "string list"

definition RulesFor :: "string \<Rightarrow> provider_rules" where
  "RulesFor pt =
     (if pt = ProviderPrePassSFTP then
        \<lparr>Transport = ''sftp'', RequiresUsername = True, RequiresSecret = True, RequiresHost = True,
         RequiresBaseURL = False, FileExtensions = [''.xlsx'', ''.xls'', ''.csv'']\<rparr>
      else \<lparr>Transport = '''', RequiresUsername = False, RequiresSecret = False, RequiresHost = False,
            RequiresBaseURL = False, FileExtensions = []\<rparr>)"

definition Redacted :: "credential \<Rightarrow> credential" where
  "Redacted c = (if cr_Secret c \<noteq> '''' then c\<lparr>cr_Secret := ''[REDACTED]''\<rparr> else c)"

type_synonym getenv = "string \<Rightarrow> string"

definition isNonProdAppEnv :: "getenv \<Rightarrow> bool" where
  "isNonProdAppEnv env \<longleftrightarrow> go_lower (trim_space (env ''APP_ENV'')) \<in> {''dev'', ''stage'', ''staging'', ''local''}"

fun firstNonEmptyEnv :: "getenv \<Rightarrow> string list \<Rightarrow> string" where
  "firstNonEmptyEnv env [] = ''''"
| "firstNonEmptyEnv env (n # ns) = (let v = trim_space (env n) in if v \<noteq> '''' then v else firstNonEmptyEnv env ns)"

datatype credential_error = UnknownProvider | MissingUsername | MissingSecret | MissingBaseURL | MissingHost
  | NoImplementation | EmptyCredentials | BadJSON

definition credential_Validate :: "getenv \<Rightarrow> credential \<Rightarrow> credential_error option" where
  "credential_Validate env c =
     (if \<not> provider_IsValid (cr_ProviderType c) then Some UnknownProvider
      else
        (let r = RulesFor (cr_ProviderType c) in
         if RequiresUsername r \<and> trim_space (cr_Username c) = '''' then Some MissingUsername
         else if RequiresSecret r \<and> cr_Secret c = '''' then Some MissingSecret
         else if RequiresBaseURL r \<and> trim_space (cr_BaseURL c) = '''' then Some MissingBaseURL
         else if RequiresHost r \<and> trim_space (cr_Host c) = '''' \<and> \<not> isNonProdAppEnv env then Some MissingHost
         else None))"

record prepass_sftp =
  pp_host :: string
  pp_port :: int
  pp_directory :: string
  pp_username :: string
  pp_password :: string
  pp_hostKey :: string
  pp_accountName :: string

text \<open>\<open>atoi\<close> is \<open>strconv.Atoi\<close>.\<close>

definition NewPrePassSFTP :: "(string \<Rightarrow> int option) \<Rightarrow> getenv \<Rightarrow> credential \<Rightarrow> prepass_sftp" where
  "NewPrePassSFTP atoi env cred =
     (let nonProd = isNonProdAppEnv env;
          h = firstNonEmptyEnv env [''TEST_PREPASS_SFTP_HOST''];
          p = firstNonEmptyEnv env [''TEST_PREPASS_SFTP_PORT''];
          d = firstNonEmptyEnv env [''TEST_PREPASS_SFTP_DIR''];
          host = (if nonProd \<and> h \<noteq> '''' then h else trim_space (cr_Host cred));
          port = (if nonProd \<and> p \<noteq> '''' then (case atoi p of Some n \<Rightarrow> if n > 0 then n else cr_Port cred | None \<Rightarrow> cr_Port cred)
                  else cr_Port cred);
          dir = (if nonProd \<and> d \<noteq> '''' then d else trim_space (cr_Directory cred))
      in \<lparr>pp_host = host, pp_port = (if port = 0 then 22 else port), pp_directory = dir, pp_username = cr_Username cred,
          pp_password = cr_Secret cred, pp_hostKey = cr_HostKey cred, pp_accountName = trim_space (cr_AccountName cred)\<rparr>)"

definition NewProviderFromCredential :: "(string \<Rightarrow> int option) \<Rightarrow> getenv \<Rightarrow> credential \<Rightarrow> credential_error + prepass_sftp" where
  "NewProviderFromCredential atoi env cred =
     (case credential_Validate env cred of
        Some err \<Rightarrow> Inl err
      | None \<Rightarrow> if cr_ProviderType cred = ProviderPrePassSFTP then Inr (NewPrePassSFTP atoi env cred) else Inl NoImplementation)"

text \<open>\<open>unmarshal\<close> is \<open>json.Unmarshal\<close> into a credential.\<close>

definition NewProviderFromJSON :: "(string \<Rightarrow> credential option) \<Rightarrow> (string \<Rightarrow> int option) \<Rightarrow> getenv \<Rightarrow> string
    \<Rightarrow> credential_error + prepass_sftp" where
  "NewProviderFromJSON unmarshal atoi env s =
     (if length s = 0 then Inl EmptyCredentials
      else (case unmarshal s of None \<Rightarrow> Inl BadJSON | Some cred \<Rightarrow> NewProviderFromCredential atoi env cred))"

subsection \<open>Remote files\<close>

record remote_file =
  rf_Name :: string
  rf_Size :: int
  rf_ModTime :: int

record dir_entry =
  de_file :: remote_file
  de_regular :: bool     \<comment> \<open>not a directory and a regular file\<close>

definition hasAcceptedExt :: "string \<Rightarrow> string list \<Rightarrow> bool" where
  "hasAcceptedExt name exts \<longleftrightarrow> length exts = 0 \<or> list_ex (\<lambda>e. suffix e (go_lower name)) exts"

text \<open>\<open>sort.Slice\<close> is not stable; \<open>ordered\<close> is the order it produces.\<close>

definition sftp_List :: "(remote_file list \<Rightarrow> remote_file list) \<Rightarrow> dir_entry list \<Rightarrow> string list \<Rightarrow> remote_file list" where
  "sftp_List ordered entries exts =
     ordered (map de_file (filter (\<lambda>e. de_regular e \<and> hasAcceptedExt (rf_Name (de_file e)) exts) entries))"

text \<open>\<open>path.Base\<close>.\<close>

definition path_Base :: "string \<Rightarrow> string" where
  "path_Base p =
     (if p = '''' then ''.''
      else (let r = dropWhile (\<lambda>c. c = CHR ''/'') (rev p) in
            if r = '''' then ''/'' else rev (takeWhile (\<lambda>c. c \<noteq> CHR ''/'') r)))"

text \<open>The name under which \<open>Fetch\<close> opens a file in the folder, if it opens one.\<close>

definition fetch_name :: "string \<Rightarrow> string option" where
  "fetch_name name =
     (let base = path_Base (trim_space name) in
      if base \<in> {'''', ''.'', ''/'', ''..''} then None else Some base)"

text \<open>\<open>Fetch\<close>: the bytes; \<open>open_read dir base limit\<close> is opening and reading at most \<open>limit\<close> bytes.\<close>

definition maxRemoteFileSize :: nat where
  "maxRemoteFileSize = 64 * 2 ^ 20"

datatype fetch_error = InvalidFileName | RemoteError | TooLarge

definition sftp_Fetch :: "(string \<Rightarrow> string \<Rightarrow> nat \<Rightarrow> string option) \<Rightarrow> string \<Rightarrow> string \<Rightarrow> fetch_error + string" where
  "sftp_Fetch open_read remoteDir name =
     (case fetch_name name of
        None \<Rightarrow> Inl InvalidFileName
      | Some base \<Rightarrow>
          (case open_read remoteDir base (maxRemoteFileSize + 1) of
             None \<Rightarrow> Inl RemoteError
           | Some data \<Rightarrow> if length data > maxRemoteFileSize then Inl TooLarge else Inr data))"

text \<open>A fetched file lies directly in the folder, whatever name is asked for.\<close>

lemma fetch_stays_in_folder: "fetch_name name = Some base \<Longrightarrow> CHR ''/'' \<notin> set base \<and> base \<notin> {'''', ''.'', ''..''}"
proof -
  assume "fetch_name name = Some base"
  then have base: "base = path_Base (trim_space name)" "base \<notin> {'''', ''.'', ''/'', ''..''}"
    by (auto simp: fetch_name_def Let_def split: if_splits)
  then have "base = rev (takeWhile (\<lambda>c. c \<noteq> CHR ''/'') (dropWhile (\<lambda>c. c = CHR ''/'') (rev (trim_space name))))"
    by (auto simp: path_Base_def Let_def split: if_splits)
  then have "CHR ''/'' \<notin> set base" by (auto dest: set_takeWhileD)
  with base show ?thesis by simp
qed

text \<open>Outside production a configured test folder replaces the stored one.\<close>

lemma test_folder_wins:
  "isNonProdAppEnv env \<Longrightarrow> trim_space (env ''TEST_PREPASS_SFTP_HOST'') \<noteq> '''' \<Longrightarrow>
     pp_host (NewPrePassSFTP atoi env cred) = trim_space (env ''TEST_PREPASS_SFTP_HOST'')"
  "\<not> isNonProdAppEnv env \<Longrightarrow> pp_host (NewPrePassSFTP atoi env cred) = trim_space (cr_Host cred)"
  by (simp_all add: NewPrePassSFTP_def Let_def)

lemma Redacted_hides: "cr_Secret (Redacted c) \<in> {'''', ''[REDACTED]''} \<and> (cr_Secret (Redacted c) = '''' \<longleftrightarrow> cr_Secret c = '''')"
  by (simp add: Redacted_def)

end
