(* ===== verification/Consumer.thy ===== *)
theory Consumer
  imports Outbox Tenancy
begin

text \<open>
  The event consumer (\<open>src/eventlog/consumer.go\<close>) and its rule engine
  (\<open>src/eventlog/rules/engine.go\<close>, \<open>model.go\<close>): the loop that fetches an event from Kafka, runs the
  system handlers registered for it and the actions of the rules that match it, and commits its offset.

  The handlers and actions belong to the services: they are names of a type \<open>'h\<close>, a run of one is an
  \<open>invocation\<close>, and how it ends is a parameter. JSON decoding and the condition evaluator
  (\<open>nikunjy/rules\<close>) are parameters. Kafka is a library; what the loop relies on is its documented
  behaviour: a topic partition is an append-only log, fetching advances the reader's position in it,
  commits are flushed to the broker later (\<open>CommitInterval\<close>) and merged, and a reader that starts again
  resumes at the offset the broker has.
\<close>

subsection \<open>Rules\<close>

record event_rule =
  er_ID :: uuid
  er_Topic :: string
  er_EventType :: string
  er_Conditions :: string
  er_ActionType :: string
  er_ActionConfig :: string
  er_IsActive :: bool

datatype 'd event_data = RawMessage string | GoData 'd

text \<open>\<open>unmarshal\<close> reads a JSON object into a map, \<open>marshal\<close> writes a Go value (nothing when it fails: the
  code drops that error), \<open>evaluate\<close> is the evaluator, \<open>None\<close> its syntax error.\<close>

definition matchesCondition :: "(string \<Rightarrow> 'm option) \<Rightarrow> ('d \<Rightarrow> string) \<Rightarrow> (string \<Rightarrow> 'm \<Rightarrow> bool option)
    \<Rightarrow> string \<Rightarrow> 'd event_data \<Rightarrow> bool" where
  "matchesCondition unmarshal marshal evaluate conditions data =
     (if length conditions = 0 \<or> conditions = ''{}'' \<or> conditions = ''null'' then True
      else
        (case (case data of RawMessage bytesData \<Rightarrow> unmarshal bytesData | GoData d \<Rightarrow> unmarshal (marshal d)) of
           None \<Rightarrow> False
         | Some inputMap \<Rightarrow>
             (case evaluate conditions inputMap of
                None \<Rightarrow> False
              | Some matched \<Rightarrow> matched)))"

text \<open>\<open>table\<close> is what the database holds, in the order it returns it; \<open>None\<close> when the query fails.\<close>

definition GetMatchingRules :: "(string \<Rightarrow> 'm option) \<Rightarrow> ('d \<Rightarrow> string) \<Rightarrow> (string \<Rightarrow> 'm \<Rightarrow> bool option)
    \<Rightarrow> event_rule list option \<Rightarrow> string \<Rightarrow> string \<Rightarrow> 'd event_data \<Rightarrow> event_rule list option" where
  "GetMatchingRules unmarshal marshal evaluate table topic eventType eventData =
     (case table of
        None \<Rightarrow> None
      | Some rows \<Rightarrow>
          (let rules = filter (\<lambda>r. er_Topic r = topic \<and> er_EventType r = eventType \<and> er_IsActive r) rows in
           Some (filter (\<lambda>rule. matchesCondition unmarshal marshal evaluate (er_Conditions rule) eventData) rules)))"

subsection \<open>Dispatch\<close>

record 'h consumer =
  systemHandlers :: "string \<Rightarrow> 'h list option"
  actions :: "string \<Rightarrow> 'h option"
  group_topics :: "string list"

datatype ('h, 'v) invocation =
    SystemRun 'h go_context "'v event_payload"
  | ActionRun 'h go_context "'v event_payload" string

datatype run_end = Returned | Failed | Panicked

text \<open>What a dispatch meets: the rules the database answers with, the evaluator, how each run ends.\<close>

record ('h, 'v, 'm) surroundings =
  unmarshal_map :: "string \<Rightarrow> 'm option"
  evaluate_rule :: "string \<Rightarrow> 'm \<Rightarrow> bool option"
  rules_answer :: "event_rule list option"
  ends :: "('h, 'v) invocation \<Rightarrow> run_end"

definition handlerKey :: "'v event_payload \<Rightarrow> string" where
  "handlerKey event = ev_EntityType event @ ''.'' @ ev_Action event"

definition synthetic_actor :: "'v event_payload \<Rightarrow> actor" where
  "synthetic_actor event =
     (let actorID = (case ev_ActorID event of Some i \<Rightarrow> i | None \<Rightarrow> uuid_Nil) in
      \<lparr>actor_ID = actorID, Claims = Some (zero_claims\<lparr>UserID := actorID, CompanyID := ev_CompanyID event\<rparr>),
       Token = None, IsSystem = True, IsGuest = False\<rparr>)"

definition ctxWithActor :: "go_context \<Rightarrow> 'v event_payload \<Rightarrow> go_context" where
  "ctxWithActor ctx event = WithActor ctx (Some (synthetic_actor event))"

text \<open>A loop over runs: an error is logged and the loop goes on, a panic leaves it. The result is the runs
  begun and whether a panic ended them.\<close>

fun run_all :: "('i \<Rightarrow> run_end) \<Rightarrow> 'i list \<Rightarrow> 'i list \<times> bool" where
  "run_all ends_with [] = ([], False)"
| "run_all ends_with (i # is) =
     (if ends_with i = Panicked then ([i], True)
      else (let (begun, panicked) = run_all ends_with is in (i # begun, panicked)))"

definition system_runs :: "'h consumer \<Rightarrow> go_context \<Rightarrow> 'v event_payload \<Rightarrow> ('h, 'v) invocation list" where
  "system_runs c ctx event =
     (case systemHandlers c (handlerKey event) of
        None \<Rightarrow> []
      | Some handlers \<Rightarrow> map (\<lambda>h. SystemRun h (ctxWithActor ctx event) event) handlers)"

definition action_runs :: "'h consumer \<Rightarrow> go_context \<Rightarrow> 'v event_payload \<Rightarrow> event_rule list \<Rightarrow> ('h, 'v) invocation list" where
  "action_runs c ctx event rules =
     List.map_filter (\<lambda>rule. map_option (\<lambda>h. ActionRun h (ctxWithActor ctx event) event (er_ActionConfig rule))
       (actions c (er_ActionType rule))) rules"

definition dispatch :: "'h consumer \<Rightarrow> ('h, 'v, 'm) surroundings \<Rightarrow> go_context \<Rightarrow> 'v event_payload
    \<Rightarrow> ('h, 'v) invocation list \<times> bool" where
  "dispatch c w ctx event =
     (let (begun, panicked) = run_all (ends w) (system_runs c ctx event) in
      if panicked then (begun, True)
      else
        (case GetMatchingRules (unmarshal_map w) (\<lambda>d. d) (evaluate_rule w) (rules_answer w)
            (ev_EntityType event) (ev_Action event) (RawMessage (ev_Data event)) of
           None \<Rightarrow> (begun, False)
         | Some matchingRules \<Rightarrow>
             (let (more, panicked) = run_all (ends w) (action_runs c ctx event matchingRules) in
              (begun @ more, panicked))))"

subsection \<open>What a dispatch runs\<close>

lemma run_all_prefix: "\<exists>rest. is = fst (run_all ends_with is) @ rest"
  by (induction "is") (auto simp: case_prod_beta)

lemma run_all_complete: "\<not> snd (run_all ends_with is) \<Longrightarrow> fst (run_all ends_with is) = is"
  by (induction "is") (auto simp: case_prod_beta split: if_splits)

lemma run_all_panics: "snd (run_all ends_with is) \<longleftrightarrow> (\<exists>i\<in>set is. ends_with i = Panicked)"
  by (induction "is") (auto simp: case_prod_beta)

lemma dispatch_system:
  assumes "dispatch c w ctx event = (begun, False)"
  shows "set (system_runs c ctx event) \<subseteq> set begun"
proof -
  obtain b p where r: "run_all (ends w) (system_runs c ctx event) = (b, p)" by fastforce
  then have "\<not> p" using assms by (auto simp: dispatch_def)
  then have "b = system_runs c ctx event" using r run_all_complete [of "ends w"] by (metis fst_conv snd_conv)
  then show ?thesis using assms r by (auto simp: dispatch_def case_prod_beta split: if_splits option.splits)
qed

text \<open>A dispatch that no run panics in performs the system handlers of the event's key in their order, then
  the action of each active rule of the entity type and action whose condition holds, whatever errors
  they return.\<close>

definition fires :: "('h, 'v, 'm) surroundings \<Rightarrow> 'v event_payload \<Rightarrow> event_rule \<Rightarrow> bool" where
  "fires w event r \<longleftrightarrow>
     er_Topic r = ev_EntityType event \<and> er_EventType r = ev_Action event \<and> er_IsActive r
     \<and> (er_Conditions r \<in> {'''', ''{}'', ''null''}
        \<or> (\<exists>m. unmarshal_map w (ev_Data event) = Some m \<and> evaluate_rule w (er_Conditions r) m = Some True))"

lemma matchesCondition_iff:
  "matchesCondition u ms e conditions (RawMessage bytes) \<longleftrightarrow>
     conditions \<in> {'''', ''{}'', ''null''} \<or> (\<exists>m. u bytes = Some m \<and> e conditions m = Some True)"
  by (auto simp: matchesCondition_def split: option.splits)

lemma GetMatchingRules_fires:
  "GetMatchingRules (unmarshal_map w) ms (evaluate_rule w) (Some rows) (ev_EntityType event) (ev_Action event)
     (RawMessage (ev_Data event)) = Some (filter (fires w event) rows)"
  by (simp add: GetMatchingRules_def matchesCondition_iff Let_def) (intro filter_cong refl, auto simp: fires_def)

lemma dispatch_runs:
  assumes "\<And>i. ends w i \<noteq> Panicked" and "rules_answer w = Some rows"
  shows "dispatch c w ctx event =
    (system_runs c ctx event @ action_runs c ctx event (filter (fires w event) rows), False)"
proof -
  have "run_all (ends w) is = (is, False)" for "is"
    using run_all_complete [of "ends w" "is"] run_all_panics [of "ends w" "is"] assms(1) by (cases "run_all (ends w) is") auto
  then show ?thesis
    using assms(2) by (simp add: dispatch_def GetMatchingRules_fires)
qed

subsection \<open>The tenant of a handler\<close>

text \<open>Every handler and action runs with a system actor, so the tenant plugin adds no clause to the
  statements it issues with that context: the company put into the claims restricts nothing.\<close>

lemma handlers_unscoped:
  assumes "st_Context st = ctxWithActor ctx event"
  shows "\<exists>cache'. applyScope markers schema_table isRead cache st = Some (st, cache')"
  using assms
  by (auto simp: applyScope_def apply_config_def cached_config_def ctxWithActor_def WithActor_def ctx_actor_def
      synthetic_actor_def Let_def split: option.splits)

lemma handlers_see_company: "ctx_company (ctxWithActor ctx event) = ev_CompanyID event"
  by (simp add: ctxWithActor_def synthetic_actor_def ctx_simps Let_def)

subsection \<open>The loop\<close>

text \<open>An append-only log, as the consumer sees one.\<close>

locale append_log =
  fixes grow :: "'s \<Rightarrow> 's \<Rightarrow> bool" and log_of :: "'s \<Rightarrow> 'a list"
  assumes grows: "grow s t \<Longrightarrow> \<exists>new. log_of t = log_of s @ new"
begin

lemma part_grows: "grow s t \<Longrightarrow> \<exists>new. filter P (log_of t) = filter P (log_of s) @ new"
  using grows [of s t] by auto

lemma part_stable:
  assumes "grow s t" and "i < length (filter P (log_of s))"
  shows "i < length (filter P (log_of t)) \<and> filter P (log_of t) ! i = filter P (log_of s) ! i"
  using part_grows [OF assms(1), of P] assms(2) by (auto simp: nth_append)

end

lemma relay_step_log: "relay_step s t \<Longrightarrow> \<exists>new. s_log t = s_log s @ new"
  by (induction rule: relay_step.induct) (simp_all add: close_tx_def)

interpretation relay_log: append_log relay_step s_log
  by unfold_locales (rule relay_step_log)

text \<open>A topic partition is a topic and a number; \<open>part\<close> tells which one a message is appended to.\<close>

datatype partition = Partition (pt_topic: string) (pt_number: nat)

datatype phase = Fetching | Holding partition nat | Dispatched partition nat | Stopped

record ('h, 'v) delivery =
  d_sys :: sys
  d_pos :: "partition \<Rightarrow> nat"
  d_requested :: "partition \<Rightarrow> nat"
  d_committed :: "partition \<Rightarrow> nat"
  d_phase :: phase
  d_trace :: "('h, 'v) invocation list"

definition part_log :: "(message \<Rightarrow> partition) \<Rightarrow> partition \<Rightarrow> sys \<Rightarrow> message list" where
  "part_log part p s = filter (\<lambda>m. part m = p) (s_log s)"

text \<open>One step of the world around one consumer loop. \<open>decode\<close> is \<open>json.Unmarshal\<close> of the envelope. A
  process can die at any point of a dispatch; a panic ends the loop the same way (\<open>RecoverGoroutine\<close>
  returns from \<open>Start\<close>). \<open>restart\<close> is a new loop, or the broker giving the partitions to another one. The rules in
  the database and how each run ends are any at each step.\<close>

inductive consumer_step :: "'h consumer \<Rightarrow> ('h, 'v, 'm) surroundings \<Rightarrow> (message \<Rightarrow> partition) \<Rightarrow> (string \<Rightarrow> 'v event_payload option) \<Rightarrow> go_context
    \<Rightarrow> ('h, 'v) delivery \<Rightarrow> ('h, 'v) delivery \<Rightarrow> bool"
  for c :: "'h consumer" and w :: "('h, 'v, 'm) surroundings" and part :: "message \<Rightarrow> partition" and decode :: "string \<Rightarrow> 'v event_payload option"
    and ctx :: go_context where
  producers: "relay_step (d_sys d) s \<Longrightarrow> consumer_step c w part decode ctx d (d\<lparr>d_sys := s\<rparr>)"
| fetch_message: "d_phase d = Fetching \<Longrightarrow> pt_topic p \<in> set (group_topics c) \<Longrightarrow> d_pos d p < length (part_log part p (d_sys d)) \<Longrightarrow>
    consumer_step c w part decode ctx d (d\<lparr>d_pos := (d_pos d)(p := d_pos d p + 1), d_phase := Holding p (d_pos d p)\<rparr>)"
| skip_malformed: "d_phase d = Holding p i \<Longrightarrow> decode (m_Value (part_log part p (d_sys d) ! i)) = None \<Longrightarrow>
    consumer_step c w part decode ctx d (d\<lparr>d_phase := Dispatched p i\<rparr>)"
| dispatched: "d_phase d = Holding p i \<Longrightarrow> decode (m_Value (part_log part p (d_sys d) ! i)) = Some event \<Longrightarrow>
    dispatch c (w\<lparr>rules_answer := rows, ends := how\<rparr>) ctx event = (begun, False) \<Longrightarrow>
    consumer_step c w part decode ctx d (d\<lparr>d_phase := Dispatched p i, d_trace := d_trace d @ begun\<rparr>)"
| interrupted: "d_phase d = Holding p i \<Longrightarrow> decode (m_Value (part_log part p (d_sys d) ! i)) = Some event \<Longrightarrow>
    dispatch c (w\<lparr>rules_answer := rows, ends := how\<rparr>) ctx event = (begun, panicked) \<Longrightarrow>
    consumer_step c w part decode ctx d (d\<lparr>d_phase := Stopped, d_trace := d_trace d @ take n begun\<rparr>)"
| commit: "d_phase d = Dispatched p i \<Longrightarrow>
    consumer_step c w part decode ctx d (d\<lparr>d_requested := (d_requested d)(p := i + 1), d_phase := Fetching\<rparr>)"
| commit_fails: "d_phase d = Dispatched p i \<Longrightarrow> consumer_step c w part decode ctx d (d\<lparr>d_phase := Fetching\<rparr>)"
| flush: "consumer_step c w part decode ctx d (d\<lparr>d_committed := (d_committed d)(p := d_requested d p)\<rparr>)"
| restart: "consumer_step c w part decode ctx d
    (d\<lparr>d_pos := d_committed d, d_requested := d_committed d, d_phase := Fetching\<rparr>)"

text \<open>A message has been handled when each system handler registered for its event has been run on it.\<close>

definition handled :: "'h consumer \<Rightarrow> (string \<Rightarrow> 'v event_payload option) \<Rightarrow> go_context \<Rightarrow> ('h, 'v) invocation list
    \<Rightarrow> message \<Rightarrow> bool" where
  "handled c decode ctx trace m \<longleftrightarrow>
     (\<forall>event. decode (m_Value m) = Some event \<longrightarrow> set (system_runs c ctx event) \<subseteq> set trace)"

definition delivery_inv :: "'h consumer \<Rightarrow> (message \<Rightarrow> partition) \<Rightarrow> (string \<Rightarrow> 'v event_payload option) \<Rightarrow> go_context
    \<Rightarrow> ('h, 'v) delivery \<Rightarrow> bool" where
  "delivery_inv c part decode ctx d \<longleftrightarrow>
     sys_inv (d_sys d)
     \<and> (\<forall>p. d_committed d p \<le> d_requested d p \<and> d_requested d p \<le> d_pos d p
          \<and> d_pos d p \<le> length (part_log part p (d_sys d)))
     \<and> (\<forall>p i. i < d_requested d p \<longrightarrow> handled c decode ctx (d_trace d) (part_log part p (d_sys d) ! i))
     \<and> (d_phase d \<noteq> Stopped \<longrightarrow> (\<forall>p i. i < d_pos d p \<longrightarrow> d_phase d = Holding p i
          \<or> handled c decode ctx (d_trace d) (part_log part p (d_sys d) ! i)))
     \<and> (\<forall>p i. d_phase d = Holding p i \<or> d_phase d = Dispatched p i \<longrightarrow> i < d_pos d p \<and> d_requested d p \<le> i)"

lemma handled_mono: "handled c decode ctx tr m \<Longrightarrow> handled c decode ctx (tr @ later) m"
  by (auto simp: handled_def)

lemma part_log_stable:
  assumes "relay_step s t" and "i < length (part_log part p s)"
  shows "part_log part p t ! i = part_log part p s ! i"
  using relay_log.part_stable [OF assms(1)] assms(2) by (simp add: part_log_def)

lemma part_log_grows: "relay_step s t \<Longrightarrow> length (part_log part p s) \<le> length (part_log part p t)"
  using relay_log.part_grows [of s t "\<lambda>m. part m = p"] by (auto simp: part_log_def)

lemma consumer_step_inv:
  assumes "consumer_step c w part decode ctx d e" and "delivery_inv c part decode ctx d"
  shows "delivery_inv c part decode ctx e"
  using assms
proof (induction rule: consumer_step.induct)
  case (producers d s)
  have len: "d_pos d p \<le> length (part_log part p (d_sys d))" for p
    using producers.prems by (simp add: delivery_inv_def)
  then have same: "part_log part p s ! i = part_log part p (d_sys d) ! i" if "i < d_pos d p" for p i
    using part_log_stable [OF producers.hyps, of i part p] that by (meson order_less_le_trans)
  have pos: "d_pos d p \<le> length (part_log part p s)" for p
    using len [of p] part_log_grows [OF producers.hyps, of part p] by (rule order_trans)
  have "d_requested d p \<le> d_pos d p" for p
    using producers.prems by (simp add: delivery_inv_def)
  then have req: "part_log part p s ! i = part_log part p (d_sys d) ! i" if "i < d_requested d p" for p i
    using same that by (meson order_less_le_trans)
  show ?case
    using producers.prems relay_step_inv [OF producers.hyps] by (auto simp: delivery_inv_def same req pos)
next
  case (fetch_message d p)
  then show ?case by (auto simp: delivery_inv_def le_Suc_eq less_Suc_eq)
next
  case (skip_malformed d p i)
  have "handled c decode ctx (d_trace d) (part_log part p (d_sys d) ! i)"
    using skip_malformed.hyps(2) by (simp add: handled_def)
  then show ?case using skip_malformed.prems skip_malformed.hyps(1) by (auto simp: delivery_inv_def)
next
  case (dispatched d p i event rows how begun)
  have "handled c decode ctx (d_trace d @ begun) (part_log part p (d_sys d) ! i)"
    using dispatch_system [OF dispatched.hyps(3)] dispatched.hyps(2) by (auto simp: handled_def)
  moreover have "Holding p i = Holding q j \<or> handled c decode ctx (d_trace d) (part_log part q (d_sys d) ! j)"
    if "j < d_pos d q" for q j
    using that dispatched.prems dispatched.hyps(1) by (simp add: delivery_inv_def)
  ultimately have "handled c decode ctx (d_trace d @ begun) (part_log part q (d_sys d) ! j)" if "j < d_pos d q" for q j
    using that handled_mono [of c decode ctx "d_trace d"] by blast
  then show ?case
    using dispatched.prems dispatched.hyps(1) by (auto simp: delivery_inv_def intro: handled_mono)
next
  case (interrupted d p i event rows how begun panicked n)
  then show ?case by (auto simp: delivery_inv_def intro: handled_mono)
next
  case (commit d p i)
  have "i < d_pos d p \<and> d_requested d p \<le> i" "\<forall>p i. i < d_pos d p \<longrightarrow> handled c decode ctx (d_trace d) (part_log part p (d_sys d) ! i)"
    using commit by (simp_all add: delivery_inv_def)
  moreover have "d_committed d p \<le> Suc i"
    using commit calculation(1) by (auto simp: delivery_inv_def intro: le_SucI order_trans)
  ultimately show ?case
    using commit.prems by (auto simp: delivery_inv_def)
next
  case (commit_fails d p i)
  then show ?case by (auto simp: delivery_inv_def)
next
  case (flush d p)
  then show ?case by (auto simp: delivery_inv_def)
next
  case (restart d)
  then have "d_committed d p \<le> d_requested d p" "d_requested d p \<le> d_pos d p" "d_pos d p \<le> length (part_log part p (d_sys d))" for p
    by (simp_all add: delivery_inv_def)
  then have "d_committed d p \<le> length (part_log part p (d_sys d))" "i < d_committed d p \<Longrightarrow> i < d_requested d p" for p i
    by (meson order_trans order_less_le_trans)+
  then show ?case using restart by (simp add: delivery_inv_def)
qed

lemma consumer_run_inv:
  "(consumer_step c w part decode ctx)\<^sup>*\<^sup>* d e \<Longrightarrow> delivery_inv c part decode ctx d \<Longrightarrow> delivery_inv c part decode ctx e"
  by (induction rule: rtranclp_induct) (auto intro: consumer_step_inv)

lemma handledD:
  "handled c decode ctx tr m \<Longrightarrow> decode (m_Value m) = Some event \<Longrightarrow> systemHandlers c (handlerKey event) = Some hs \<Longrightarrow>
     h \<in> set hs \<Longrightarrow> SystemRun h (ctxWithActor ctx event) event \<in> set tr"
  by (auto simp: handled_def system_runs_def)

definition fresh :: "('h, 'v) delivery \<Rightarrow> bool" where
  "fresh d \<longleftrightarrow> initial (d_sys d) \<and> (\<forall>p. d_pos d p = 0 \<and> d_requested d p = 0 \<and> d_committed d p = 0)
     \<and> d_phase d = Fetching"

lemma fresh_inv: "fresh d \<Longrightarrow> delivery_inv c part decode ctx d"
  by (simp add: fresh_def delivery_inv_def initial_def sys_inv_def)

text \<open>C27. End-to-end delivery, from the outbox through the relays and Kafka to the consumer. Whatever the
  interleaving of producers, relays and the consumer, whatever publishing, handlers and commits fail, and
  wherever processes die or partitions move: in every reachable state each event ever committed to the
  outbox is still in the outbox table or lies in its partition of the Kafka log; and below the offset a
  partition has committed, each message that is an event has had every system handler registered for its
  entity type and action run on it, with the event's company on the context. So an event's handlers are
  skipped only by not yet being reached: no fault can move the committed offset past an event whose
  handlers did not run.\<close>

theorem event_delivery:
  assumes "fresh d" and "(consumer_step c w part decode ctx)\<^sup>*\<^sup>* d e"
  shows "(\<forall>r\<in>set (s_all (d_sys e)). r \<in> set (s_table (d_sys e))
        \<or> (\<exists>i. i < length (part_log part (part (message_of r)) (d_sys e))
             \<and> part_log part (part (message_of r)) (d_sys e) ! i = message_of r))
    \<and> (\<forall>p i. i < d_committed e p \<longrightarrow> i < length (part_log part p (d_sys e))
         \<and> (\<forall>event hs h. decode (m_Value (part_log part p (d_sys e) ! i)) = Some event
              \<and> systemHandlers c (handlerKey event) = Some hs \<and> h \<in> set hs \<longrightarrow>
              SystemRun h (ctxWithActor ctx event) event \<in> set (d_trace e)
              \<and> ctx_company (ctxWithActor ctx event) = ev_CompanyID event))"
proof -
  have inv: "delivery_inv c part decode ctx e"
    using consumer_run_inv [OF assms(2)] fresh_inv [OF assms(1)] by blast
  have "r \<in> set (s_table (d_sys e)) \<or> message_of r \<in> set (part_log part (part (message_of r)) (d_sys e))"
    if "r \<in> set (s_all (d_sys e))" for r
    using inv that by (auto simp: delivery_inv_def sys_inv_def part_log_def)
  then have kept: "\<forall>r\<in>set (s_all (d_sys e)). r \<in> set (s_table (d_sys e))
        \<or> (\<exists>i. i < length (part_log part (part (message_of r)) (d_sys e))
             \<and> part_log part (part (message_of r)) (d_sys e) ! i = message_of r)"
    by (metis in_set_conv_nth)
  have "i < length (part_log part p (d_sys e)) \<and> handled c decode ctx (d_trace e) (part_log part p (d_sys e) ! i)"
    if "i < d_committed e p" for p i
  proof -
    have "d_committed e p \<le> d_requested e p" "d_requested e p \<le> d_pos e p" "d_pos e p \<le> length (part_log part p (d_sys e))"
      using inv by (simp_all add: delivery_inv_def)
    with that have "i < d_requested e p" "i < length (part_log part p (d_sys e))" by auto
    then show ?thesis using inv by (simp add: delivery_inv_def)
  qed
  then show ?thesis
    using kept handledD [of c decode ctx "d_trace e"] by (simp only: handlers_see_company) blast
qed

definition example_payload :: "unit event_payload" where
  "example_payload = \<lparr>ev_SourceService = ''trips'', ev_EventID = ''e1'', ev_ActorID = None, ev_CompanyID = Some ''c1'',
     ev_EntityType = ''trips'', ev_EntityID = ''t1'', ev_Action = ''updated'', ev_Data = ''{}'', ev_Changes = [],
     ev_Reason = None, ev_ActorIP = None, ev_UserAgent = None, ev_Timestamp = 0, ev_RootEntityType = ''trips'',
     ev_RootEntityID = ''t1'', ev_Sensitivity = '''', ev_Participants = []\<rparr>"

definition example_consumer :: "string consumer" where
  "example_consumer = \<lparr>systemHandlers = [''trips.updated'' \<mapsto> [''index'', ''notify'']], actions = (\<lambda>_. None),
     group_topics = [''trips'']\<rparr>"

definition example_surroundings :: "(string, unit, unit) surroundings" where
  "example_surroundings = \<lparr>unmarshal_map = (\<lambda>_. None), evaluate_rule = (\<lambda>_ _. None), rules_answer = None,
     ends = (\<lambda>_. Failed)\<rparr>"

definition example_decode :: "string \<Rightarrow> unit event_payload option" where
  "example_decode v = (if v = ''a'' then Some example_payload else None)"

definition example_part :: "message \<Rightarrow> partition" where
  "example_part m = Partition (m_Topic m) 0"

definition example_delivery :: "(string, unit) delivery" where
  "example_delivery = \<lparr>d_sys = idle, d_pos = (\<lambda>_. 0), d_requested = (\<lambda>_. 0), d_committed = (\<lambda>_. 0),
     d_phase = Fetching, d_trace = []\<rparr>"

lemma example_run:
  defines "step \<equiv> consumer_step example_consumer example_surroundings example_part example_decode background"
  shows "\<exists>e. step\<^sup>*\<^sup>* example_delivery e \<and> d_committed e (Partition ''trips'' 0) = 1
     \<and> part_log example_part (Partition ''trips'' 0) (d_sys e) = [message_of row_a]"
proof -
  let ?h = "(\<lambda>_. [])(0::nat := [row_a])" and ?n = "(\<lambda>_. False)::nat \<Rightarrow> bool" and ?p = "Partition ''trips'' 0"
  let ?s1 = "\<lparr>s_table = [row_a], s_log = [], s_held = (\<lambda>_. []), s_sent = ?n, s_all = [row_a]\<rparr>"
  let ?s2 = "\<lparr>s_table = [row_a], s_log = [], s_held = ?h, s_sent = ?n, s_all = [row_a]\<rparr>"
  let ?s3 = "\<lparr>s_table = [row_a], s_log = [message_of row_a], s_held = ?h, s_sent = ?n(0 := True), s_all = [row_a]\<rparr>"
  let ?s4 = "\<lparr>s_table = [], s_log = [message_of row_a], s_held = (\<lambda>_. []), s_sent = ?n, s_all = [row_a]\<rparr>"
  let ?d = "example_delivery\<lparr>d_sys := ?s4\<rparr>"
  have row: "pending {} row_a" by (simp add: pending_def row_a_def example_row_def example_event_def)
  have locked: "locked_ids ?s1 = {}" by (simp add: locked_ids_def)
  have 1: "relay_step idle ?s1" using relay_step.produce [of row_a idle] by (simp add: idle_def)
  have 2: "relay_step ?s1 ?s2"
    using relay_step.fetch [of ?s1 0 50] by (simp add: locked FetchPendingBatch_def row fun_upd_idem)
  have 3: "relay_step ?s2 ?s3" using relay_step.send [of ?s2 0] by simp
  have 4: "relay_step ?s3 ?s4"
    using relay_step.delete_commit [of ?s3 0] by (simp add: close_tx_def DeleteBatch_def fun_upd_idem)
  have lift: "step (example_delivery\<lparr>d_sys := s\<rparr>) (example_delivery\<lparr>d_sys := t\<rparr>)" if "relay_step s t" for s t
    using consumer_step.producers [of "example_delivery\<lparr>d_sys := s\<rparr>" t] that by (simp add: step_def)
  have start: "example_delivery = example_delivery\<lparr>d_sys := idle\<rparr>" by (simp add: example_delivery_def)
  have "step example_delivery (example_delivery\<lparr>d_sys := ?s1\<rparr>)" by (subst start) (rule lift [OF 1])
  then have sys: "step\<^sup>*\<^sup>* example_delivery ?d"
    using lift [OF 2] lift [OF 3] lift [OF 4] by (meson converse_rtranclp_into_rtranclp rtranclp.rtrancl_refl)
  have msg: "m_Topic (message_of row_a) = ''trips''" "m_Value (message_of row_a) = ''a''"
    by (simp_all add: message_of_def row_a_def example_row_def example_event_def Let_def)
  have log: "part_log example_part ?p (d_sys ?d) = [message_of row_a]"
    by (simp add: part_log_def example_part_def msg)
  obtain begun where run: "dispatch example_consumer (example_surroundings\<lparr>rules_answer := None, ends := (\<lambda>_. Failed)\<rparr>)
      background example_payload = (begun, False)"
    using run_all_panics [of "\<lambda>_. Failed"] by (fastforce simp: dispatch_def GetMatchingRules_def case_prod_beta)
  let ?d1 = "?d\<lparr>d_pos := (d_pos ?d)(?p := 1), d_phase := Holding ?p 0\<rparr>"
  let ?d2 = "?d1\<lparr>d_phase := Dispatched ?p 0, d_trace := d_trace ?d1 @ begun\<rparr>"
  let ?d3 = "?d2\<lparr>d_requested := (d_requested ?d2)(?p := 1), d_phase := Fetching\<rparr>"
  let ?d4 = "?d3\<lparr>d_committed := (d_committed ?d3)(?p := d_requested ?d3 ?p)\<rparr>"
  have "step ?d ?d1"
    using consumer_step.fetch_message [of ?d ?p example_consumer example_part example_surroundings example_decode background] log
    by (simp add: step_def example_delivery_def example_consumer_def)
  moreover have "step ?d1 ?d2"
    unfolding step_def
    by (rule consumer_step.dispatched [of ?d1 ?p 0 _ _ example_payload, OF _ _ run])
      (use log msg in \<open>simp_all add: example_decode_def\<close>)
  moreover have "step ?d2 ?d3"
    using consumer_step.commit [of ?d2 ?p 0] by (simp add: step_def)
  moreover have "step ?d3 ?d4"
    unfolding step_def by (rule consumer_step.flush)
  ultimately have "step\<^sup>*\<^sup>* example_delivery ?d4"
    using sys by (meson rtranclp.rtrancl_into_rtrancl)
  then show ?thesis using log by (intro exI [of _ ?d4]) simp
qed

lemma event_delivery_witness:
  "\<exists>e. (consumer_step example_consumer example_surroundings example_part example_decode background)\<^sup>*\<^sup>* example_delivery e
     \<and> SystemRun ''notify'' (ctxWithActor background example_payload) example_payload \<in> set (d_trace e)"
proof -
  let ?p = "Partition ''trips'' 0"
  obtain e where run: "(consumer_step example_consumer example_surroundings example_part example_decode background)\<^sup>*\<^sup>* example_delivery e"
      and e: "d_committed e ?p = 1" "part_log example_part ?p (d_sys e) = [message_of row_a]"
    using example_run by blast
  have "fresh example_delivery" by (simp add: fresh_def example_delivery_def initial_def idle_def)
  note all = event_delivery [OF this run, THEN conjunct2, rule_format, of 0 ?p, THEN conjunct2, rule_format,
      of example_payload "[''index'', ''notify'']" "''notify''"]
  have "example_decode (m_Value (part_log example_part ?p (d_sys e) ! 0)) = Some example_payload"
    by (simp add: e example_decode_def message_of_def row_a_def example_row_def example_event_def Let_def)
  moreover have "systemHandlers example_consumer (handlerKey example_payload) = Some [''index'', ''notify'']"
    by (simp add: example_consumer_def handlerKey_def example_payload_def)
  ultimately have "SystemRun ''notify'' (ctxWithActor background example_payload) example_payload \<in> set (d_trace e)"
    using all e(1) by simp
  with run show ?thesis by blast
qed

subsection \<open>A panicking handler\<close>

text \<open>A handler that panics on an event keeps the consumer from ever getting past it: the loop stops
  before the commit, and a restarted one fetches the same event again. Here \<open>Start\<close> is the loop without
  other faults on the messages of one partition from the committed offset on; the result is the number of
  messages it commits and whether it still runs.\<close>

fun start_loop :: "'h consumer \<Rightarrow> ('h, 'v, 'm) surroundings \<Rightarrow> (string \<Rightarrow> 'v event_payload option) \<Rightarrow> go_context
    \<Rightarrow> message list \<Rightarrow> nat \<times> bool" where
  "start_loop c w decode ctx [] = (0, True)"
| "start_loop c w decode ctx (m # ms) =
     (case decode (m_Value m) of
        None \<Rightarrow> (let (n, running) = start_loop c w decode ctx ms in (Suc n, running))
      | Some event \<Rightarrow>
          if snd (dispatch c w ctx event) then (0, False)
          else (let (n, running) = start_loop c w decode ctx ms in (Suc n, running)))"

lemma poison_event:
  assumes "decode (m_Value m) = Some event" and "systemHandlers c (handlerKey event) = Some hs" and "h \<in> set hs"
    and "ends w (SystemRun h (ctxWithActor ctx event) event) = Panicked"
  shows "\<exists>n \<le> length before. start_loop c w decode ctx (before @ m # after) = (n, False)"
proof (induction before)
  case Nil
  have "snd (run_all (ends w) (system_runs c ctx event))"
    using assms(2-4) by (auto simp: run_all_panics system_runs_def)
  then have "snd (dispatch c w ctx event)" by (simp add: dispatch_def case_prod_beta)
  then show ?case using assms(1) by simp
next
  case (Cons b before)
  then obtain n where "n \<le> length before" "start_loop c w decode ctx (before @ m # after) = (n, False)" by blast
  then show ?case by (auto split: option.split)
qed

lemma start_loop_drains:
  assumes "\<And>i. ends w i \<noteq> Panicked"
  shows "start_loop c w decode ctx ms = (length ms, True)"
proof -
  have "\<not> snd (run_all (ends w) is)" for "is" using assms by (simp add: run_all_panics)
  then have "\<not> snd (dispatch c w ctx event)" for event
    by (simp add: dispatch_def case_prod_beta split: option.split)
  then show ?thesis by (induction ms) (auto split: option.split)
qed

end
