(* ===== verification/Go_Csv.thy ===== *)
theory Go_Csv
  imports Go_Prelude
begin

text \<open>
  What the code uses of Go's \<open>encoding/csv\<close> (a \<open>Writer\<close> with \<open>UseCRLF\<close> over a buffer, which never
  fails) and \<open>path\<close> (\<open>Clean\<close>, \<open>Join\<close>), and a reader of RFC 4180 against which the writer is judged.
\<close>

subsection \<open>Writing\<close>

definition CR :: char where "CR = CHR 0x0D"
definition LF :: char where "LF = CHR 0x0A"
definition QT :: char where "QT = CHR 0x22"

text \<open>\<open>unicode.IsSpace\<close> of the first rune: the ASCII spaces, and the encodings of the others.\<close>

definition wide_spaces :: "string list" where
  "wide_spaces = [[CHR 0xC2, CHR 0x85], [CHR 0xC2, CHR 0xA0], [CHR 0xE1, CHR 0x9A, CHR 0x80],
     [CHR 0xE2, CHR 0x80, CHR 0x80], [CHR 0xE2, CHR 0x80, CHR 0x81], [CHR 0xE2, CHR 0x80, CHR 0x82],
     [CHR 0xE2, CHR 0x80, CHR 0x83], [CHR 0xE2, CHR 0x80, CHR 0x84], [CHR 0xE2, CHR 0x80, CHR 0x85],
     [CHR 0xE2, CHR 0x80, CHR 0x86], [CHR 0xE2, CHR 0x80, CHR 0x87], [CHR 0xE2, CHR 0x80, CHR 0x88],
     [CHR 0xE2, CHR 0x80, CHR 0x89], [CHR 0xE2, CHR 0x80, CHR 0x8A], [CHR 0xE2, CHR 0x80, CHR 0xA8],
     [CHR 0xE2, CHR 0x80, CHR 0xA9], [CHR 0xE2, CHR 0x80, CHR 0xAF], [CHR 0xE2, CHR 0x81, CHR 0x9F],
     [CHR 0xE3, CHR 0x80, CHR 0x80]]"

definition starts_space :: "string \<Rightarrow> bool" where
  "starts_space s \<longleftrightarrow> (s \<noteq> [] \<and> go_space (hd s)) \<or> list_ex (\<lambda>w. prefix w s) wide_spaces"

definition fieldNeedsQuotes :: "string \<Rightarrow> bool" where
  "fieldNeedsQuotes field =
     (if field = '''' then False
      else if field = [CHR 0x5C, CHR ''.''] then True
      else if list_ex (\<lambda>c. c = LF \<or> c = CR \<or> c = QT \<or> c = CHR '','') field then True
      else starts_space field)"

definition quoted_char :: "char \<Rightarrow> string" where
  "quoted_char c = (if c = QT then [QT, QT] else if c = CR then [] else if c = LF then [CR, LF] else [c])"

definition csv_field :: "string \<Rightarrow> string" where
  "csv_field field = (if fieldNeedsQuotes field then QT # concat (map quoted_char field) @ [QT] else field)"

definition csv_row :: "string list \<Rightarrow> string" where
  "csv_row fields = join_with '','' (map csv_field fields) @ [CR, LF]"

definition csv_write :: "string list list \<Rightarrow> string" where
  "csv_write rows = concat (map csv_row rows)"

subsection \<open>Reading it back\<close>

text \<open>RFC 4180: rows end in CR LF, fields are separated by commas, a field in quotes may hold anything, a
  quote in it doubled.\<close>

datatype csv_mode = AtField | InPlain | InQuotes | QuoteSeen | AfterCR

fun rfc4180 :: "csv_mode \<Rightarrow> string \<Rightarrow> string list \<Rightarrow> string \<Rightarrow> string list list option" where
  "rfc4180 m fld row [] = (if m = AtField \<and> row = [] then Some [] else None)"
| "rfc4180 AtField fld row (c # cs) =
     (if c = QT then rfc4180 InQuotes [] row cs
      else if c = CHR '','' then rfc4180 AtField [] (row @ [[]]) cs
      else if c = CR then rfc4180 AfterCR [] (row @ [[]]) cs
      else if c = LF then None
      else rfc4180 InPlain [c] row cs)"
| "rfc4180 InPlain fld row (c # cs) =
     (if c = QT \<or> c = LF then None
      else if c = CHR '','' then rfc4180 AtField [] (row @ [fld]) cs
      else if c = CR then rfc4180 AfterCR [] (row @ [fld]) cs
      else rfc4180 InPlain (fld @ [c]) row cs)"
| "rfc4180 InQuotes fld row (c # cs) =
     (if c = QT then rfc4180 QuoteSeen fld row cs else rfc4180 InQuotes (fld @ [c]) row cs)"
| "rfc4180 QuoteSeen fld row (c # cs) =
     (if c = QT then rfc4180 InQuotes (fld @ [QT]) row cs
      else if c = CHR '','' then rfc4180 AtField [] (row @ [fld]) cs
      else if c = CR then rfc4180 AfterCR [] (row @ [fld]) cs
      else None)"
| "rfc4180 AfterCR fld row (c # cs) =
     (if c = LF then map_option (\<lambda>rows. row # rows) (rfc4180 AtField [] [] cs) else None)"

definition csv_read :: "string \<Rightarrow> string list list option" where
  "csv_read s = rfc4180 AtField [] [] s"

text \<open>What the writer does to the line ends inside a field.\<close>

definition crlf :: "string \<Rightarrow> string" where
  "crlf s = concat (map (\<lambda>c. if c = CR then [] else if c = LF then [CR, LF] else [c]) s)"

lemma csv_chars [simp]: "CR \<noteq> LF" "LF \<noteq> CR" "QT \<noteq> CR" "CR \<noteq> QT" "QT \<noteq> LF" "LF \<noteq> QT"
  "CHR '','' \<noteq> CR" "CHR '','' \<noteq> LF" "CHR '','' \<noteq> QT" "CR \<noteq> CHR '',''" "LF \<noteq> CHR '',''" "QT \<noteq> CHR '',''"
  by (simp_all add: CR_def LF_def QT_def)

lemma read_quoted:
  "rfc4180 InQuotes fld row (concat (map quoted_char s) @ rest) = rfc4180 InQuotes (fld @ crlf s) row rest"
  by (induction s arbitrary: fld) (simp_all add: quoted_char_def crlf_def)

lemma read_plain:
  "list_all (\<lambda>c. c \<noteq> LF \<and> c \<noteq> CR \<and> c \<noteq> QT \<and> c \<noteq> CHR '','') s \<Longrightarrow>
     rfc4180 InPlain fld row (s @ rest) = rfc4180 InPlain (fld @ s) row rest"
  by (induction s arbitrary: fld) simp_all

lemma crlf_id: "CR \<notin> set s \<Longrightarrow> LF \<notin> set s \<Longrightarrow> crlf s = s"
  by (induction s) (auto simp: crlf_def)

lemma plain_field:
  "\<not> fieldNeedsQuotes s \<Longrightarrow> list_all (\<lambda>c. c \<noteq> LF \<and> c \<noteq> CR \<and> c \<noteq> QT \<and> c \<noteq> CHR '','') s"
  by (auto simp: fieldNeedsQuotes_def list_ex_iff list_all_iff split: if_splits)

lemma read_field:
  "rfc4180 AtField [] row (csv_field s @ CHR '','' # rest) = rfc4180 AtField [] (row @ [crlf s]) rest"
  "rfc4180 AtField [] row (csv_field s @ CR # rest) = rfc4180 AfterCR [] (row @ [crlf s]) rest"
proof -
  have same: "crlf s = s" if "\<not> fieldNeedsQuotes s"
    using plain_field [OF that] by (auto intro!: crlf_id simp: list_all_iff)
  have "rfc4180 AtField [] row (csv_field s @ d # rest) =
      (if d = CR then rfc4180 AfterCR [] (row @ [crlf s]) rest else rfc4180 AtField [] (row @ [crlf s]) rest)"
    if "d = CR \<or> d = CHR '',''" for d
  proof (cases "fieldNeedsQuotes s")
    case True
    then show ?thesis using that by (auto simp: csv_field_def read_quoted)
  next
    case False
    show ?thesis
    proof (cases s)
      case Nil
      then show ?thesis using that by (auto simp: csv_field_def fieldNeedsQuotes_def crlf_def)
    next
      case (Cons c t)
      with False have "list_all (\<lambda>c. c \<noteq> LF \<and> c \<noteq> CR \<and> c \<noteq> QT \<and> c \<noteq> CHR '','') (c # t)"
        using plain_field [of "c # t"] by simp
      then have "rfc4180 AtField [] row (c # t @ d # rest) = rfc4180 InPlain (c # t) row (d # rest)"
        using read_plain [of t "[c]" row "d # rest"] by simp
      then show ?thesis using that False same Cons by (auto simp: csv_field_def)
    qed
  qed
  from this [of "CHR '',''"] this [of CR] show
    "rfc4180 AtField [] row (csv_field s @ CHR '','' # rest) = rfc4180 AtField [] (row @ [crlf s]) rest"
    "rfc4180 AtField [] row (csv_field s @ CR # rest) = rfc4180 AfterCR [] (row @ [crlf s]) rest"
    by simp_all
qed

lemma read_row:
  assumes "fields \<noteq> []"
  shows "rfc4180 AtField [] row (csv_row fields @ rest) =
    map_option (\<lambda>rows. (row @ map crlf fields) # rows) (rfc4180 AtField [] [] rest)"
  using assms
proof (induction fields arbitrary: row)
  case (Cons f fs)
  then show ?case
    by (cases fs) (simp_all add: csv_row_def read_field join_with_Cons)
qed simp

lemma csv_read_write:
  "list_all (\<lambda>r. r \<noteq> []) rows \<Longrightarrow> csv_read (csv_write rows) = Some (map (map crlf) rows)"
proof -
  have "list_all (\<lambda>r. r \<noteq> []) rows \<Longrightarrow> rfc4180 AtField [] [] (csv_write rows) = Some (map (map crlf) rows)"
    by (induction rows) (simp_all add: csv_write_def read_row)
  then show "list_all (\<lambda>r. r \<noteq> []) rows \<Longrightarrow> ?thesis" by (simp add: csv_read_def)
qed

subsection \<open>Paths\<close>

text \<open>\<open>path.Clean\<close>: \<open>kept\<close> are the elements kept so far, last first.\<close>

fun clean_elems :: "bool \<Rightarrow> string list \<Rightarrow> string list \<Rightarrow> string list" where
  "clean_elems rooted kept [] = rev kept"
| "clean_elems rooted kept (e # es) =
     (if e = '''' \<or> e = ''.'' then clean_elems rooted kept es
      else if e = ''..'' then
        (case kept of
           k # ks \<Rightarrow> if k = ''..'' then clean_elems rooted (e # kept) es else clean_elems rooted ks es
         | [] \<Rightarrow> if rooted then clean_elems rooted [] es else clean_elems rooted [e] es)
      else clean_elems rooted (e # kept) es)"

definition path_Clean :: "string \<Rightarrow> string" where
  "path_Clean p =
     (let rooted = prefix ''/'' p; out = (if rooted then ''/'' else '''') @ join_with ''/'' (clean_elems rooted [] (split_on CHR ''/'' p)) in
      if out = '''' then ''.'' else out)"

definition path_Join :: "string \<Rightarrow> string \<Rightarrow> string" where
  "path_Join a b =
     (if a = '''' \<and> b = '''' then '''' else path_Clean (join_with ''/'' (filter (\<lambda>e. e \<noteq> '''') [a, b])))"

text \<open>An ordinary name: one element, not a dot name.\<close>

definition plain_name :: "string \<Rightarrow> bool" where
  "plain_name n \<longleftrightarrow> n \<notin> {'''', ''.'', ''..''} \<and> CHR ''/'' \<notin> set n"

lemma clean_elems_last: "plain_name n \<Longrightarrow> clean_elems r kept (es @ [n]) = clean_elems r kept es @ [n]"
  by (induction r kept es rule: clean_elems.induct) (auto simp: plain_name_def split: list.split)

lemma split_on_snoc: "d \<notin> set n \<Longrightarrow> split_on d (p @ d # n) = split_on d p @ [n]"
proof (induction p)
  case (Cons c p)
  then show ?case by (cases "split_on d p") auto
qed (simp add: split_on_free)

lemma join_with_snoc: "join_with s (ps @ [n]) = (if ps = [] then n else join_with s ps @ s @ n)"
  by (induction s ps rule: join_with.induct) auto

lemma path_Join_plain:
  assumes "plain_name n"
  shows "\<exists>p. \<forall>n. plain_name n \<longrightarrow> path_Join dir n = p @ n"
proof (cases "dir = ''''")
  case True
  have "path_Join '''' n = n" if "plain_name n" for n
  proof -
    have "split_on CHR ''/'' n = [n]" "\<not> prefix ''/'' n" "n \<noteq> ''''" "n \<noteq> ''.''" "n \<noteq> ''..''"
      using that split_on_free [of "CHR ''/''" n] by (auto simp: plain_name_def prefix_def)
    then show ?thesis by (simp add: path_Join_def path_Clean_def)
  qed
  with True show ?thesis by (intro exI [of _ "''''"]) simp
next
  case False
  let ?es = "clean_elems (prefix ''/'' dir) [] (split_on CHR ''/'' dir)"
  let ?p = "(if prefix ''/'' dir then ''/'' else '''') @ (if ?es = [] then '''' else join_with ''/'' ?es @ ''/'')"
  have "path_Join dir n = ?p @ n" if "plain_name n" for n
  proof -
    have n: "n \<noteq> ''''" "CHR ''/'' \<notin> set n" using that by (auto simp: plain_name_def)
    have "prefix ''/'' (dir @ ''/'' @ n) = prefix ''/'' dir" using False by (cases dir) auto
    then have "path_Clean (dir @ ''/'' @ n) = (if prefix ''/'' dir then ''/'' else '''') @ join_with ''/'' (?es @ [n])"
      using n split_on_snoc [OF n(2), of dir] clean_elems_last [OF that]
      by (auto simp: path_Clean_def Let_def join_with_snoc)
    then show ?thesis using False n by (simp add: path_Join_def join_with_snoc)
  qed
  then show ?thesis by blast
qed

lemma path_Join_inj: "plain_name m \<Longrightarrow> plain_name n \<Longrightarrow> path_Join dir m = path_Join dir n \<longleftrightarrow> m = n"
  using path_Join_plain [of m dir] by auto

end
