(* ===== verification/Factoring.thy ===== *)
theory Factoring
  imports RateLimit Go_Time Go_Float Go_Csv
begin

text \<open>
  Submitting invoice batches to factoring companies (\<open>src/client/factoring/\<close>): provider types and
  credentials (\<open>factoring.go\<close>, \<open>registry.go\<close>), a provider's rules (\<open>rules.go\<close>), the CSV manifests
  (\<open>csv.go\<close>) and the two SFTP providers (\<open>triumphsftp.go\<close>, \<open>rtssftp.go\<close>, \<open>sftp.go\<close>).

  The SFTP server is a map from paths to contents. A submission yields every state of that map a party
  polling the folder can see while it runs, also when an operation fails half-way; which operations fail
  is an argument. SSH and the dialing of it are libraries. An amount is a \<open>float64\<close> without negative zero.
\<close>

subsection \<open>Provider types and credentials\<close>

definition ProviderTriumphSFTP :: string where "ProviderTriumphSFTP = ''triumph_sftp''"
definition ProviderRTSSFTP :: string where "ProviderRTSSFTP = ''rts_sftp''"
definition ProviderRTSTestSFTP :: string where "ProviderRTSTestSFTP = ''rts_test_sftp''"

lemmas provider_defs = ProviderTriumphSFTP_def ProviderRTSSFTP_def ProviderRTSTestSFTP_def

definition FactoringProviderTypes :: "string list" where
  "FactoringProviderTypes = [ProviderTriumphSFTP, ProviderRTSSFTP, ProviderRTSTestSFTP]"

definition IsRTS :: "string \<Rightarrow> bool" where
  "IsRTS pt \<longleftrightarrow> pt = ProviderRTSSFTP \<or> pt = ProviderRTSTestSFTP"

definition FactoringIsValid :: "string \<Rightarrow> bool" where
  "FactoringIsValid p = list_ex (\<lambda>x. p = x) FactoringProviderTypes"

text \<open>\<open>UnmarshalGQL\<close> of a value that is a string or not.\<close>

datatype provider_err = NotAString | UnknownProviderType

definition ProviderType_UnmarshalGQL :: "string option \<Rightarrow> provider_err + string" where
  "ProviderType_UnmarshalGQL v =
     (case v of None \<Rightarrow> Inl NotAString | Some s \<Rightarrow> if FactoringIsValid s then Inr s else Inl UnknownProviderType)"

record factoring_credential =
  fc_ProviderType :: string
  FactoringCompanyName :: string
  fc_Username :: string
  AccessKey :: string
  fc_Password :: string
  BillingAddress :: string
  RemitNotice :: string

subsection \<open>Batches\<close>

record invoice_line =
  DebtorName :: string
  InvoiceNumber :: string
  InvoiceDate :: go_time
  PONumber :: string
  AmountUSD :: flt

record invoice_pdf =
  pdf_Number :: string
  pdf_Bytes :: string

record batch =
  bt_SubmittedAt :: "go_time option"    \<comment> \<open>\<open>None\<close> is the zero time\<close>
  bt_Invoices :: "invoice_line list"
  bt_PDFs :: "invoice_pdf list"

datatype invalid_batch = NoInvoices | CountMismatch | MissingNumber nat | NumberMismatch nat | EmptyPDF nat

text \<open>The loop of \<open>validate\<close>, run where both slices have the same length.\<close>

fun validate_from :: "nat \<Rightarrow> invoice_line list \<Rightarrow> invoice_pdf list \<Rightarrow> invalid_batch option" where
  "validate_from i (line # lines) (pdf # pdfs) =
     (if InvoiceNumber line = '''' then Some (MissingNumber i)
      else if pdf_Number pdf \<noteq> InvoiceNumber line then Some (NumberMismatch i)
      else if length (pdf_Bytes pdf) = 0 then Some (EmptyPDF i)
      else validate_from (i + 1) lines pdfs)"
| "validate_from i _ _ = None"

definition batch_validate :: "batch \<Rightarrow> invalid_batch option" where
  "batch_validate b =
     (if length (bt_Invoices b) = 0 then Some NoInvoices
      else if length (bt_Invoices b) \<noteq> length (bt_PDFs b) then Some CountMismatch
      else validate_from 0 (bt_Invoices b) (bt_PDFs b))"

subsection \<open>Rules\<close>

record factoring_rules =
  MaxRecords :: nat
  MinSubmissionGap :: int      \<comment> \<open>nanoseconds\<close>
  RequireUniqueInvoiceNumbers :: bool
  RequirePositiveAmounts :: bool
  RequireAllFields :: bool
  TriggerAndClear :: bool

definition unconstrained :: factoring_rules where
  "unconstrained = \<lparr>MaxRecords = 0, MinSubmissionGap = 0, RequireUniqueInvoiceNumbers = False,
     RequirePositiveAmounts = False, RequireAllFields = False, TriggerAndClear = False\<rparr>"

definition FactoringRulesFor :: "string \<Rightarrow> factoring_rules" where
  "FactoringRulesFor pt =
     (if IsRTS pt then
        \<lparr>MaxRecords = 999, MinSubmissionGap = 5 * 60 * 1000000000, RequireUniqueInvoiceNumbers = True,
         RequirePositiveAmounts = True, RequireAllFields = True, TriggerAndClear = True\<rparr>
      else unconstrained)"

datatype violation_reason = TooManyInvoices | DuplicateNumber | BlankNumber | BlankDebtor | BlankPO | AmountNotPositive

record violation =
  vl_ProviderType :: string
  vl_InvoiceNumber :: string
  vl_Field :: string
  vl_Reason :: violation_reason

definition violated :: "string \<Rightarrow> string \<Rightarrow> string \<Rightarrow> violation_reason \<Rightarrow> violation" where
  "violated pt number field reason = \<lparr>vl_ProviderType = pt, vl_InvoiceNumber = number, vl_Field = field, vl_Reason = reason\<rparr>"

fun first_duplicate :: "string set \<Rightarrow> invoice_line list \<Rightarrow> string option" where
  "first_duplicate seen [] = None"
| "first_duplicate seen (line # lines) =
     (if InvoiceNumber line \<in> seen then Some (InvoiceNumber line)
      else first_duplicate (insert (InvoiceNumber line) seen) lines)"

definition check_line :: "string \<Rightarrow> factoring_rules \<Rightarrow> invoice_line \<Rightarrow> violation option" where
  "check_line pt rules line =
     (if RequireAllFields rules \<and> trim_space (InvoiceNumber line) = '''' then Some (violated pt '''' ''invoice number'' BlankNumber)
      else if RequireAllFields rules \<and> trim_space (DebtorName line) = '''' then
        Some (violated pt (InvoiceNumber line) ''debtor name'' BlankDebtor)
      else if RequireAllFields rules \<and> trim_space (PONumber line) = '''' then
        Some (violated pt (InvoiceNumber line) ''po number'' BlankPO)
      else if RequirePositiveAmounts rules \<and> f_le (AmountUSD line) (Fin 0) then
        Some (violated pt (InvoiceNumber line) ''invoice amount'' AmountNotPositive)
      else None)"

fun first_violation :: "string \<Rightarrow> factoring_rules \<Rightarrow> invoice_line list \<Rightarrow> violation option" where
  "first_violation pt rules [] = None"
| "first_violation pt rules (line # lines) =
     (case check_line pt rules line of Some v \<Rightarrow> Some v | None \<Rightarrow> first_violation pt rules lines)"

definition ValidateInvoicesForProvider :: "string \<Rightarrow> invoice_line list \<Rightarrow> violation option" where
  "ValidateInvoicesForProvider pt invoices =
     (let rules = FactoringRulesFor pt in
      if MaxRecords rules > 0 \<and> length invoices > MaxRecords rules then Some (violated pt '''' '''' TooManyInvoices)
      else
        (case (if RequireUniqueInvoiceNumbers rules then first_duplicate {} invoices else None) of
           Some number \<Rightarrow> Some (violated pt number '''' DuplicateNumber)
         | None \<Rightarrow> first_violation pt rules invoices))"

subsection \<open>Manifests\<close>

text \<open>\<open>strconv.FormatFloat(f, 'f', 2, 64)\<close>: the exact value rounded to hundredths, a tie to the even one.\<close>

definition round_even :: "real \<Rightarrow> int" where
  "round_even x =
     (let n = \<lfloor>x\<rfloor>; d = x - of_int n in
      if d < 1 / 2 then n else if d > 1 / 2 then n + 1 else if even n then n else n + 1)"

fun format_amount :: "flt \<Rightarrow> string" where
  "format_amount NaN = ''NaN''"
| "format_amount PosInf = ''+Inf''"
| "format_amount NegInf = ''-Inf''"
| "format_amount (Fin x) =
     (let cents = nat (round_even (100 * \<bar>x\<bar>)) in
      (if x < 0 then ''-'' else '''') @ itoa (cents div 100) @ ''.'' @ pad 2 (cents mod 100))"

text \<open>\<open>Format("01/02/2006")\<close> and \<open>UTC().Format("20060102_150405")\<close>.\<close>

definition fmt_us_date :: "go_time \<Rightarrow> string" where
  "fmt_us_date t = (case gt_date t of (y, m, d) \<Rightarrow> pad 2 (nat m) @ ''/'' @ pad 2 (nat d) @ ''/'' @ fmt_year y)"

definition fmt_stamp :: "go_time \<Rightarrow> string" where
  "fmt_stamp t =
     (let u = gt_UTC t in
      (case gt_date u of (y, m, d) \<Rightarrow> fmt_year y @ pad 2 (nat m) @ pad 2 (nat d)) @ ''_''
        @ pad 2 (nat (gt_hour u)) @ pad 2 (nat (gt_minute u)) @ pad 2 (nat (gt_second u)))"

datatype manifest_err = BlankClientNumber | ZeroInvoices | MissingInvoiceNumber nat

definition triumphCSVHeader :: "string list" where
  "triumphCSVHeader = [''DTR_NAME'', ''INVOICE#'', ''INV_DATE'', ''PO'', ''INVAMT'']"

definition rtsCSVHeader :: "string list" where
  "rtsCSVHeader = [''Client'', ''Invoice#'', ''DebtorNo'', ''Debtor Name'', ''Load #'', ''InvDate'', ''InvAmt'']"

definition triumph_row :: "invoice_line \<Rightarrow> string list" where
  "triumph_row line = [DebtorName line, InvoiceNumber line, fmt_us_date (InvoiceDate line), PONumber line,
     format_amount (AmountUSD line)]"

definition rts_row :: "string \<Rightarrow> invoice_line \<Rightarrow> string list" where
  "rts_row clientNumber line = [clientNumber, InvoiceNumber line, DebtorName line, DebtorName line, PONumber line,
     fmt_us_date (InvoiceDate line), format_amount (AmountUSD line)]"

fun missing_number :: "nat \<Rightarrow> invoice_line list \<Rightarrow> nat option" where
  "missing_number i [] = None"
| "missing_number i (line # lines) = (if InvoiceNumber line = '''' then Some i else missing_number (i + 1) lines)"

definition BuildTriumphCSV :: "invoice_line list \<Rightarrow> manifest_err + string" where
  "BuildTriumphCSV invoices =
     (if length invoices = 0 then Inl ZeroInvoices
      else
        (case missing_number 0 invoices of
           Some i \<Rightarrow> Inl (MissingInvoiceNumber i)
         | None \<Rightarrow> Inr (csv_write (triumphCSVHeader # map triumph_row invoices))))"

definition BuildRTSCSV :: "string \<Rightarrow> invoice_line list \<Rightarrow> manifest_err + string" where
  "BuildRTSCSV clientNumber invoices =
     (if trim_space clientNumber = '''' then Inl BlankClientNumber
      else if length invoices = 0 then Inl ZeroInvoices
      else
        (case missing_number 0 invoices of
           Some i \<Rightarrow> Inl (MissingInvoiceNumber i)
         | None \<Rightarrow> Inr (csv_write (rtsCSVHeader # map (rts_row clientNumber) invoices))))"

lemma triumph_manifest_reads:
  "BuildTriumphCSV invoices = Inr csv \<Longrightarrow>
     csv_read csv = Some (map (map crlf) (triumphCSVHeader # map triumph_row invoices))"
  by (auto simp: BuildTriumphCSV_def triumph_row_def triumphCSVHeader_def csv_read_write list_all_iff split: if_splits option.splits)

lemma rts_manifest_reads:
  "BuildRTSCSV client invoices = Inr csv \<Longrightarrow>
     csv_read csv = Some (map (map crlf) (rtsCSVHeader # map (rts_row client) invoices))"
  by (auto simp: BuildRTSCSV_def rts_row_def rtsCSVHeader_def csv_read_write list_all_iff split: if_splits option.splits)

subsection \<open>The SFTP server\<close>

type_synonym files = "string \<Rightarrow> string option"

text \<open>How an upload ends: the file is not created, \<open>n\<close> bytes arrive and the write fails, all arrive and the
  close fails, or it succeeds. \<open>RenameLost\<close> is a rename the server did but whose answer never came.\<close>

datatype upload_end = CreateFails | WriteFails nat | CloseFails | UploadOk
datatype rename_end = RenameOk | RenameFails | RenameLost

text \<open>\<open>Upload\<close>: whether it succeeded, the states of the server on the way, and the last one.\<close>

definition sftp_Upload :: "upload_end \<Rightarrow> string \<Rightarrow> string \<Rightarrow> string \<Rightarrow> files \<Rightarrow> bool \<times> files list \<times> files" where
  "sftp_Upload how remoteDir filename content fs =
     (if how = CreateFails then (False, [], fs)
      else
        (let remotePath = path_Join remoteDir filename;
             n = (case how of WriteFails k \<Rightarrow> min k (length content) | _ \<Rightarrow> length content)
         in (how = UploadOk, map (\<lambda>k. fs(remotePath \<mapsto> take k content)) [0..<Suc n], fs(remotePath \<mapsto> take n content))))"

definition sftp_Rename :: "rename_end \<Rightarrow> string \<Rightarrow> string \<Rightarrow> string \<Rightarrow> files \<Rightarrow> bool \<times> files" where
  "sftp_Rename how remoteDir from_name to_name fs =
     (if how = RenameFails then (False, fs)
      else (how = RenameOk, fs(path_Join remoteDir from_name := None, path_Join remoteDir to_name := fs (path_Join remoteDir from_name))))"

text \<open>A rune that is not a letter, a digit, a dot, an underscore or a dash becomes one underscore; a byte
  that starts no rune is a rune of its own.\<close>

definition safe_char :: "char \<Rightarrow> bool" where
  "safe_char c \<longleftrightarrow> byte_in CHR ''A'' CHR ''Z'' c \<or> byte_in CHR ''a'' CHR ''z'' c \<or> byte_in CHR ''0'' CHR ''9'' c
     \<or> c = CHR ''.'' \<or> c = CHR ''_'' \<or> c = CHR ''-''"

function sanitize :: "string \<Rightarrow> string" where
  "sanitize [] = []"
| "sanitize (c # cs) =
     (if safe_char c then c # sanitize cs
      else CHR ''_'' # sanitize (drop (rune_len (c # cs) - 1) cs))"
  by pat_completeness auto
termination by (relation "measure length") auto

definition sanitizePDFName :: "string \<Rightarrow> string" where
  "sanitizePDFName invoiceNumber = sanitize invoiceNumber @ ''.pdf''"

record sftp_provider =
  sp_username :: string
  sp_password :: string
  sp_host :: string
  sp_port :: int
  sp_inboundDir :: string
  sp_providerType :: string

datatype dial_end = DialOk | TcpFails | HandshakeFails string | SubsystemFails

subsection \<open>Building a provider\<close>

text \<open>\<open>env\<close> is \<open>os.Getenv\<close>; the overrides apply outside production only.\<close>

fun firstNonEmpty :: "env \<Rightarrow> string list \<Rightarrow> string" where
  "firstNonEmpty env [] = ''''"
| "firstNonEmpty env (name # names) = (let v = trim_space (env name) in if v \<noteq> '''' then v else firstNonEmpty env names)"

definition factoringNonProd :: "env \<Rightarrow> bool" where
  "factoringNonProd env \<longleftrightarrow> go_lower (trim_space (env ''APP_ENV'')) \<in> {''dev'', ''stage'', ''staging'', ''local''}"

definition override_port :: "string \<Rightarrow> int \<Rightarrow> int" where
  "override_port raw port =
     (if raw \<noteq> '''' then (case atoi raw of Some n \<Rightarrow> if n > 0 then n else port | None \<Rightarrow> port) else port)"

definition NewTriumphSFTP :: "env \<Rightarrow> factoring_credential \<Rightarrow> sftp_provider" where
  "NewTriumphSFTP env cred =
     (let nonProd = factoringNonProd env;
          h = firstNonEmpty env [''TEST_TRIUMPH_SFTP_HOST'', ''TEST_SFTP_HOST''];
          raw = firstNonEmpty env [''TEST_TRIUMPH_SFTP_PORT'', ''TEST_SFTP_PORT''];
          d = firstNonEmpty env [''TEST_TRIUMPH_SFTP_INBOUND_DIR'', ''TEST_SFTP_INBOUND_DIR'']
      in \<lparr>sp_username = fc_Username cred, sp_password = fc_Password cred,
          sp_host = (if nonProd \<and> h \<noteq> '''' then h else ''files.triumphbcap.com''),
          sp_port = (if nonProd then override_port raw 22 else 22),
          sp_inboundDir = (if nonProd \<and> d \<noteq> '''' then d else ''TMS_INPUT''),
          sp_providerType = ProviderTriumphSFTP\<rparr>)"

definition newRTSSFTP :: "env \<Rightarrow> factoring_credential \<Rightarrow> string \<Rightarrow> string \<Rightarrow> sftp_provider" where
  "newRTSSFTP env cred host pt =
     (let nonProd = factoringNonProd env;
          h = trim_space (env ''TEST_RTS_SFTP_HOST'');
          raw = trim_space (env ''TEST_RTS_SFTP_PORT'');
          d = trim_space (env ''TEST_RTS_SFTP_INBOUND_DIR'')
      in \<lparr>sp_username = fc_Username cred, sp_password = fc_Password cred,
          sp_host = (if nonProd \<and> h \<noteq> '''' then h else host),
          sp_port = (if nonProd then override_port raw 22 else 22),
          sp_inboundDir = (if nonProd \<and> d \<noteq> '''' then d else ''''),
          sp_providerType = pt\<rparr>)"

definition NewRTSSFTP :: "env \<Rightarrow> factoring_credential \<Rightarrow> sftp_provider" where
  "NewRTSSFTP env cred = newRTSSFTP env cred ''ftps.rtsfinancial.com'' ProviderRTSSFTP"

definition NewRTSTestSFTP :: "env \<Rightarrow> factoring_credential \<Rightarrow> sftp_provider" where
  "NewRTSTestSFTP env cred = newRTSSFTP env cred ''ftps.rtsfinancial.com'' ProviderRTSTestSFTP"

datatype registry_err = UnknownProviderTypeErr | MissingLogin | NoImplementationErr | EmptyCredentialsErr | ParseErr

definition FactoringProviderFromCredential :: "env \<Rightarrow> factoring_credential \<Rightarrow> registry_err + sftp_provider" where
  "FactoringProviderFromCredential env cred =
     (if \<not> FactoringIsValid (fc_ProviderType cred) then Inl UnknownProviderTypeErr
      else if fc_Username cred = '''' \<or> fc_Password cred = '''' then Inl MissingLogin
      else if fc_ProviderType cred = ProviderTriumphSFTP then Inr (NewTriumphSFTP env cred)
      else if fc_ProviderType cred = ProviderRTSSFTP then Inr (NewRTSSFTP env cred)
      else if fc_ProviderType cred = ProviderRTSTestSFTP then Inr (NewRTSTestSFTP env cred)
      else Inl NoImplementationErr)"

text \<open>\<open>unmarshal\<close> is \<open>json.Unmarshal\<close>.\<close>

definition FactoringProviderFromJSON :: "(string \<Rightarrow> factoring_credential option) \<Rightarrow> env \<Rightarrow> string \<Rightarrow> registry_err + sftp_provider" where
  "FactoringProviderFromJSON unmarshal env s =
     (if length s = 0 then Inl EmptyCredentialsErr
      else (case unmarshal s of None \<Rightarrow> Inl ParseErr | Some cred \<Rightarrow> FactoringProviderFromCredential env cred))"

subsection \<open>Submitting a batch\<close>

text \<open>What a submission meets: the dial, the creation of the folder, whether the context is cancelled
  before the \<open>i\<close>-th PDF, how each upload ends (the manifest's is the one after the PDFs'), the rename and
  the clock.\<close>

record submission =
  sn_dial :: dial_end
  sn_mkdir :: bool
  sn_cancelled :: "nat \<Rightarrow> bool"
  sn_upload :: "nat \<Rightarrow> upload_end"
  sn_rename :: rename_end
  sn_now :: go_time

datatype submit_err = InvalidBatch invalid_batch | RuleViolated violation | NoManifest manifest_err | DialErr | AuthErr string
  | MkdirErr | ContextErr | UploadPDF nat | UploadCSV | ActivateCSV

record submit_result =
  CSVFileName :: string
  Uploaded :: "string list"

record progress =
  pr_Done :: nat
  pr_Total :: nat
  pr_Detail :: string

definition no_result :: submit_result where
  "no_result = \<lparr>CSVFileName = '''', Uploaded = []\<rparr>"

text \<open>The loop over the PDFs: its error, what it uploaded, the progress it reported, the states of the
  server and the last of them.\<close>

fun upload_pdfs :: "submission \<Rightarrow> string \<Rightarrow> nat \<Rightarrow> nat \<Rightarrow> invoice_pdf list \<Rightarrow> files
    \<Rightarrow> submit_err option \<times> string list \<times> progress list \<times> files list \<times> files" where
  "upload_pdfs sn dir tot i [] fs = (None, [], [], [], fs)"
| "upload_pdfs sn dir tot i (pdf # pdfs) fs =
     (if sn_cancelled sn i then (Some ContextErr, [], [], [], fs)
      else
        (let fileName = sanitizePDFName (pdf_Number pdf); (ok, seen, fs') = sftp_Upload (sn_upload sn i) dir fileName (pdf_Bytes pdf) fs in
         if \<not> ok then (Some (UploadPDF i), [], [], seen, fs')
         else
           (let (err, up, prog, seen', fs'') = upload_pdfs sn dir tot (i + 1) pdfs fs' in
            (err, path_Join dir fileName # up, \<lparr>pr_Done = i + 1, pr_Total = tot, pr_Detail = fileName\<rparr> # prog, seen @ seen', fs''))))"

definition csv_file_name :: "submission \<Rightarrow> batch \<Rightarrow> string" where
  "csv_file_name sn b =
     ''invoices_'' @ fmt_stamp (case bt_SubmittedAt b of Some t \<Rightarrow> t | None \<Rightarrow> sn_now sn) @ ''.csv''"

definition isSSHAuthFailure :: "string \<Rightarrow> bool" where
  "isSSHAuthFailure msg \<longleftrightarrow> go_contains msg ''unable to authenticate'' \<or> go_contains msg ''permission denied''
     \<or> go_contains msg ''no supported methods remain''"

definition dialSFTP :: "submission \<Rightarrow> sftp_provider \<Rightarrow> submit_err option" where
  "dialSFTP sn p =
     (if sp_host p = '''' \<or> sp_username p = '''' \<or> sp_password p = '''' then Some DialErr
      else
        (case sn_dial sn of
           TcpFails \<Rightarrow> Some DialErr
         | HandshakeFails msg \<Rightarrow>
             if isSSHAuthFailure msg
             then Some (AuthErr (if sp_providerType p = '''' then ProviderTriumphSFTP else sp_providerType p))
             else Some DialErr
         | SubsystemFails \<Rightarrow> Some DialErr
         | DialOk \<Rightarrow> None))"

text \<open>\<open>EnsureDir\<close> when \<open>MkdirAll\<close> would fail: a session root is not created.\<close>

definition EnsureDir :: "bool \<Rightarrow> string \<Rightarrow> submit_err option" where
  "EnsureDir fails remoteDir = (if remoteDir \<in> {'''', ''.'', ''/''} then None else if fails then Some MkdirErr else None)"

definition open_session :: "submission \<Rightarrow> sftp_provider \<Rightarrow> submit_err option" where
  "open_session sn p =
     (case dialSFTP sn p of Some e \<Rightarrow> Some e | None \<Rightarrow> EnsureDir (sn_mkdir sn) (sp_inboundDir p))"

text \<open>\<open>TestConnection\<close>: dial and close; nothing is written. \<open>close_fails\<close> is the error of closing.\<close>

definition TestConnection :: "bool \<Rightarrow> submission \<Rightarrow> sftp_provider \<Rightarrow> files \<Rightarrow> bool \<times> files" where
  "TestConnection close_fails sn p fs = (dialSFTP sn p = None \<and> \<not> close_fails, fs)"

text \<open>\<open>SubmitBatch\<close> of the two providers: the error, the result, the progress and the server's states.\<close>

definition Triumph_SubmitBatch :: "submission \<Rightarrow> sftp_provider \<Rightarrow> batch \<Rightarrow> files
    \<Rightarrow> submit_err option \<times> submit_result \<times> progress list \<times> files list" where
  "Triumph_SubmitBatch sn p b fs =
     (case batch_validate b of
        Some e \<Rightarrow> (Some (InvalidBatch e), no_result, [], [])
      | None \<Rightarrow>
     (case BuildTriumphCSV (bt_Invoices b) of
        Inl e \<Rightarrow> (Some (NoManifest e), no_result, [], [])
      | Inr csvBytes \<Rightarrow>
     (case open_session sn p of
        Some e \<Rightarrow> (Some e, no_result, [], [])
      | None \<Rightarrow>
     (let csvFileName = csv_file_name sn b;
          tot = length (bt_PDFs b) + 1;
          (err, up, prog, seen, fs') = upload_pdfs sn (sp_inboundDir p) tot 0 (bt_PDFs b) fs
      in if err \<noteq> None then (err, \<lparr>CSVFileName = csvFileName, Uploaded = up\<rparr>, prog, seen)
         else
           (let (ok, seen', fs'') = sftp_Upload (sn_upload sn (length (bt_PDFs b))) (sp_inboundDir p) csvFileName csvBytes fs' in
            if \<not> ok then (Some UploadCSV, \<lparr>CSVFileName = csvFileName, Uploaded = up\<rparr>, prog, seen @ seen')
            else (None, \<lparr>CSVFileName = csvFileName, Uploaded = up @ [path_Join (sp_inboundDir p) csvFileName]\<rparr>,
                  prog @ [\<lparr>pr_Done = tot, pr_Total = tot, pr_Detail = csvFileName\<rparr>], seen @ seen'))))))"

definition RTS_SubmitBatch :: "submission \<Rightarrow> sftp_provider \<Rightarrow> batch \<Rightarrow> files
    \<Rightarrow> submit_err option \<times> submit_result \<times> progress list \<times> files list" where
  "RTS_SubmitBatch sn p b fs =
     (case batch_validate b of
        Some e \<Rightarrow> (Some (InvalidBatch e), no_result, [], [])
      | None \<Rightarrow>
     (case ValidateInvoicesForProvider (sp_providerType p) (bt_Invoices b) of
        Some v \<Rightarrow> (Some (RuleViolated v), no_result, [], [])
      | None \<Rightarrow>
     (case BuildRTSCSV (sp_username p) (bt_Invoices b) of
        Inl e \<Rightarrow> (Some (NoManifest e), no_result, [], [])
      | Inr csvBytes \<Rightarrow>
     (case open_session sn p of
        Some e \<Rightarrow> (Some e, no_result, [], [])
      | None \<Rightarrow>
     (let csvFileName = csv_file_name sn b;
          tmpName = csvFileName @ ''.uploading'';
          tot = length (bt_PDFs b) + 1;
          (err, up, prog, seen, fs') = upload_pdfs sn (sp_inboundDir p) tot 0 (bt_PDFs b) fs
      in if err \<noteq> None then (err, \<lparr>CSVFileName = csvFileName, Uploaded = up\<rparr>, prog, seen)
         else
           (let (ok, seen', fs'') = sftp_Upload (sn_upload sn (length (bt_PDFs b))) (sp_inboundDir p) tmpName csvBytes fs' in
            if \<not> ok then (Some UploadCSV, \<lparr>CSVFileName = csvFileName, Uploaded = up\<rparr>, prog, seen @ seen')
            else
              (let (renamed, fs3) = sftp_Rename (sn_rename sn) (sp_inboundDir p) tmpName csvFileName fs'' in
               if \<not> renamed then (Some ActivateCSV, \<lparr>CSVFileName = csvFileName, Uploaded = up\<rparr>, prog, seen @ seen' @ [fs3])
               else (None, \<lparr>CSVFileName = csvFileName, Uploaded = up @ [path_Join (sp_inboundDir p) csvFileName]\<rparr>,
                     prog @ [\<lparr>pr_Done = tot, pr_Total = tot, pr_Detail = csvFileName\<rparr>], seen @ seen' @ [fs3]))))))))"

subsection \<open>Names in the folder\<close>

lemma safe_not_slash: "safe_char c \<Longrightarrow> c \<noteq> CHR ''/''"
  by (auto simp: safe_char_def byte_in_def)

lemma sanitize_safe: "c \<in> set (sanitize s) \<Longrightarrow> safe_char c"
  by (induction s rule: sanitize.induct) (auto split: if_splits, simp add: safe_char_def)

lemma sanitize_id: "list_all safe_char s \<Longrightarrow> sanitize s = s"
  by (induction s rule: sanitize.induct) auto

lemma plain_ext: "CHR ''/'' \<notin> set s \<Longrightarrow> CHR ''/'' \<notin> set e \<Longrightarrow> 3 \<le> length e \<Longrightarrow> plain_name (s @ e)"
  by (auto simp: plain_name_def append_eq_Cons_conv)

lemma sanitizePDFName_plain: "plain_name (sanitizePDFName s)"
  unfolding sanitizePDFName_def using sanitize_safe safe_not_slash by (intro plain_ext) auto

lemma pad_no_slash: "CHR ''/'' \<notin> set (pad w n)"
  using itoa_digits [of "CHR ''/''" n] by (auto simp: pad_def Let_def dig_def byte_in_def)

lemma csv_file_name_plain: "plain_name (csv_file_name sn b)"
proof -
  have "CHR ''/'' \<notin> set (fmt_stamp t)" for t
    by (auto simp: fmt_stamp_def fmt_year_def pad_no_slash Let_def split: prod.splits if_splits)
  then show ?thesis
    unfolding csv_file_name_def by (subst append_assoc [symmetric], intro plain_ext) auto
qed

lemma uploading_plain: "plain_name (csv_file_name sn b @ ''.uploading'')"
  using csv_file_name_plain [of sn b] by (intro plain_ext) (auto simp: plain_name_def)

lemma pdf_not_csv: "sanitizePDFName s \<noteq> csv_file_name sn b" "sanitizePDFName s \<noteq> csv_file_name sn b @ ''.uploading''"
proof -
  have "last (sanitizePDFName s) = CHR ''f''" by (simp add: sanitizePDFName_def)
  moreover have "last (csv_file_name sn b) = CHR ''v''" by (simp add: csv_file_name_def)
  moreover have "last (csv_file_name sn b @ ''.uploading'') = CHR ''g''" by simp
  ultimately show "sanitizePDFName s \<noteq> csv_file_name sn b" "sanitizePDFName s \<noteq> csv_file_name sn b @ ''.uploading''"
    by auto
qed

lemma folder_paths [simp]:
  "path_Join dir (sanitizePDFName s) = path_Join dir (sanitizePDFName t) \<longleftrightarrow> sanitizePDFName s = sanitizePDFName t"
  "path_Join dir (sanitizePDFName s) \<noteq> path_Join dir (csv_file_name sn b)"
  "path_Join dir (csv_file_name sn b) \<noteq> path_Join dir (sanitizePDFName s)"
  "path_Join dir (sanitizePDFName s) \<noteq> path_Join dir (csv_file_name sn b @ ''.uploading'')"
  "path_Join dir (csv_file_name sn b @ ''.uploading'') \<noteq> path_Join dir (sanitizePDFName s)"
  "path_Join dir (csv_file_name sn b @ ''.uploading'') \<noteq> path_Join dir (csv_file_name sn b)"
  "path_Join dir (csv_file_name sn b) \<noteq> path_Join dir (csv_file_name sn b @ ''.uploading'')"
  using pdf_not_csv [of s sn b]
  by (simp_all add: path_Join_inj sanitizePDFName_plain csv_file_name_plain uploading_plain)

subsection \<open>Uploading\<close>

lemma sftp_Upload_frame:
  assumes "sftp_Upload how dir n content fs = (ok, seen, fs')" and "q \<noteq> path_Join dir n"
  shows "\<forall>m\<in>insert fs' (set seen). m q = fs q"
  using assms by (auto simp: sftp_Upload_def Let_def split: if_splits)

lemma sftp_Upload_ok:
  "sftp_Upload how dir n content fs = (True, seen, fs') \<Longrightarrow> fs' = fs(path_Join dir n \<mapsto> content)"
  by (auto simp: sftp_Upload_def Let_def split: if_splits)

lemma upload_pdfs_frame:
  assumes "upload_pdfs sn dir t i pdfs fs = (err, up, prog, seen, fs')"
    and "\<forall>pdf\<in>set pdfs. q \<noteq> path_Join dir (sanitizePDFName (pdf_Number pdf))"
  shows "\<forall>m\<in>insert fs' (set seen). m q = fs q"
  using assms
proof (induction pdfs arbitrary: i fs err up prog seen fs')
  case (Cons pdf pdfs)
  obtain ok seen1 fs1 where up1: "sftp_Upload (sn_upload sn i) dir (sanitizePDFName (pdf_Number pdf)) (pdf_Bytes pdf) fs = (ok, seen1, fs1)"
    by (metis prod_cases3)
  obtain err2 up2 prog2 seen2 fs2 where rest: "upload_pdfs sn dir t (i + 1) pdfs fs1 = (err2, up2, prog2, seen2, fs2)"
    by (metis prod_cases5)
  have "\<forall>m\<in>insert fs1 (set seen1). m q = fs q" using sftp_Upload_frame [OF up1] Cons.prems(2) by simp
  moreover have "\<forall>m\<in>insert fs2 (set seen2). m q = fs1 q" using Cons.IH [OF rest] Cons.prems(2) by simp
  ultimately show ?case using Cons.prems(1) up1 rest by (auto simp: Let_def split: if_splits)
qed simp

lemma upload_pdfs_ok:
  assumes "upload_pdfs sn dir t i pdfs fs = (None, up, prog, seen, fs')"
    and "distinct (map (sanitizePDFName \<circ> pdf_Number) pdfs)"
  shows "(\<forall>pdf\<in>set pdfs. fs' (path_Join dir (sanitizePDFName (pdf_Number pdf))) = Some (pdf_Bytes pdf))
    \<and> up = map (\<lambda>pdf. path_Join dir (sanitizePDFName (pdf_Number pdf))) pdfs
    \<and> map pr_Done prog = [i + 1..<i + 1 + length pdfs]"
  using assms
proof (induction pdfs arbitrary: i fs up prog seen fs')
  case (Cons pdf pdfs)
  obtain ok seen1 fs1 where up1: "sftp_Upload (sn_upload sn i) dir (sanitizePDFName (pdf_Number pdf)) (pdf_Bytes pdf) fs = (ok, seen1, fs1)"
    by (metis prod_cases3)
  obtain err2 up2 prog2 seen2 fs2 where rest: "upload_pdfs sn dir t (i + 1) pdfs fs1 = (err2, up2, prog2, seen2, fs2)"
    by (metis prod_cases5)
  have eqs: "ok" "err2 = None" "fs2 = fs'" "up = path_Join dir (sanitizePDFName (pdf_Number pdf)) # up2"
      "map pr_Done prog = (i + 1) # map pr_Done prog2"
    using Cons.prems(1) up1 rest by (auto simp: Let_def split: if_splits)
  have "\<forall>p\<in>set pdfs. fs2 (path_Join dir (sanitizePDFName (pdf_Number p))) = Some (pdf_Bytes p)"
      "up2 = map (\<lambda>pdf. path_Join dir (sanitizePDFName (pdf_Number pdf))) pdfs"
      "map pr_Done prog2 = [i + 2..<i + 2 + length pdfs]"
    using Cons.IH [of "i + 1" fs1 up2 prog2 seen2 fs2] rest eqs Cons.prems(2) by simp_all
  moreover have "fs2 (path_Join dir (sanitizePDFName (pdf_Number pdf))) = fs1 (path_Join dir (sanitizePDFName (pdf_Number pdf)))"
    using upload_pdfs_frame [OF rest] Cons.prems(2) by (auto simp: image_iff)
  moreover have "fs1 (path_Join dir (sanitizePDFName (pdf_Number pdf))) = Some (pdf_Bytes pdf)"
    using sftp_Upload_ok up1 eqs(1) by fastforce
  ultimately show ?case using eqs by (simp add: upt_conv_Cons del: upt_Suc)
qed simp

subsection \<open>What reaches a provider that is triggered by the manifest\<close>

lemma validate_from_ok:
  "validate_from i lines pdfs = None \<Longrightarrow> length lines = length pdfs \<Longrightarrow>
     map pdf_Number pdfs = map InvoiceNumber lines \<and> (\<forall>pdf\<in>set pdfs. pdf_Bytes pdf \<noteq> '''')"
  by (induction i lines pdfs rule: validate_from.induct) (auto split: if_splits)

lemma batch_validate_ok:
  assumes "batch_validate b = None"
  shows "bt_Invoices b \<noteq> []" and "map pdf_Number (bt_PDFs b) = map InvoiceNumber (bt_Invoices b)"
    and "\<forall>pdf\<in>set (bt_PDFs b). pdf_Bytes pdf \<noteq> ''''"
  using assms validate_from_ok [of 0 "bt_Invoices b" "bt_PDFs b"] by (auto simp: batch_validate_def split: if_splits)

definition acceptable :: "invoice_line \<Rightarrow> bool" where
  "acceptable line \<longleftrightarrow> trim_space (InvoiceNumber line) \<noteq> '''' \<and> trim_space (DebtorName line) \<noteq> ''''
     \<and> trim_space (PONumber line) \<noteq> '''' \<and> \<not> f_le (AmountUSD line) (Fin 0)"

lemma first_violation_ok: "first_violation pt rules lines = None \<longleftrightarrow> (\<forall>line\<in>set lines. check_line pt rules line = None)"
  by (induction lines) (auto split: option.split)

lemma first_duplicate_ok:
  "first_duplicate seen lines = None \<longleftrightarrow> distinct (map InvoiceNumber lines) \<and> seen \<inter> InvoiceNumber ` set lines = {}"
  by (induction lines arbitrary: seen) auto

text \<open>The rules of RTS, as one condition: a batch passes exactly when it has at most 999 lines, no two of
  one number, and no blank field or amount of zero or less.\<close>

lemma rts_rules_exact:
  "IsRTS pt \<Longrightarrow> ValidateInvoicesForProvider pt lines = None \<longleftrightarrow>
     length lines \<le> 999 \<and> distinct (map InvoiceNumber lines) \<and> list_all acceptable lines"
  using first_duplicate_ok [of "{}" lines]
  by (cases "first_duplicate {} lines")
    (auto simp: ValidateInvoicesForProvider_def FactoringRulesFor_def Let_def first_violation_ok
      check_line_def acceptable_def list_all_iff split: if_splits)

lemma triumph_has_no_rules: "\<not> IsRTS pt \<Longrightarrow> ValidateInvoicesForProvider pt lines = None"
  by (simp add: ValidateInvoicesForProvider_def FactoringRulesFor_def unconstrained_def first_violation_ok check_line_def Let_def)

text \<open>The states before the rename do not have the manifest's name; the one after it has the whole batch.\<close>

definition batch_there :: "sftp_provider \<Rightarrow> batch \<Rightarrow> files \<Rightarrow> bool" where
  "batch_there p b m \<longleftrightarrow> (\<forall>pdf\<in>set (bt_PDFs b).
     m (path_Join (sp_inboundDir p) (sanitizePDFName (pdf_Number pdf))) = Some (pdf_Bytes pdf))"

lemma RTS_states:
  assumes run: "RTS_SubmitBatch sn p b fs = (err, res, prog, seen)"
    and new: "fs (path_Join (sp_inboundDir p) (csv_file_name sn b)) = None"
    and names: "distinct (map (sanitizePDFName \<circ> pdf_Number) (bt_PDFs b))"
    and m: "m \<in> set seen" "m (path_Join (sp_inboundDir p) (csv_file_name sn b)) = Some c"
  shows "batch_validate b = None \<and> ValidateInvoicesForProvider (sp_providerType p) (bt_Invoices b) = None
    \<and> BuildRTSCSV (sp_username p) (bt_Invoices b) = Inr c \<and> batch_there p b m \<and> (err = None \<or> err = Some ActivateCSV)"
proof -
  let ?dir = "sp_inboundDir p" and ?csv = "csv_file_name sn b" and ?n = "length (bt_PDFs b)"
  obtain csv where ok: "batch_validate b = None" "ValidateInvoicesForProvider (sp_providerType p) (bt_Invoices b) = None"
      "BuildRTSCSV (sp_username p) (bt_Invoices b) = Inr csv" "open_session sn p = None"
    using run m(1) by (auto simp: RTS_SubmitBatch_def split: option.splits sum.splits)
  obtain e1 up1 prog1 seen1 fs1 where pdfs: "upload_pdfs sn ?dir (?n + 1) 0 (bt_PDFs b) fs = (e1, up1, prog1, seen1, fs1)"
    by (metis prod_cases5)
  obtain ok2 seen2 fs2 where tmp: "sftp_Upload (sn_upload sn ?n) ?dir (?csv @ ''.uploading'') csv fs1 = (ok2, seen2, fs2)"
    by (metis prod_cases3)
  obtain ok3 fs3 where ren: "sftp_Rename (sn_rename sn) ?dir (?csv @ ''.uploading'') ?csv fs2 = (ok3, fs3)" by fastforce
  have before1: "\<forall>m\<in>insert fs1 (set seen1). m (path_Join ?dir ?csv) = None"
    using upload_pdfs_frame [OF pdfs, of "path_Join ?dir ?csv"] new by simp
  have before2: "\<forall>m\<in>insert fs2 (set seen2). m (path_Join ?dir ?csv) = None"
    using sftp_Upload_frame [OF tmp, of "path_Join ?dir ?csv"] before1 by simp
  have "m \<notin> set seen1" "m \<notin> set seen2" using m(2) before1 before2 by auto
  then have last: "e1 = None" "ok2" "m = fs3"
    using run m(1) ok pdfs tmp ren by (auto simp: RTS_SubmitBatch_def Let_def split: if_splits)
  have "fs2 = fs1(path_Join ?dir (?csv @ ''.uploading'') \<mapsto> csv)"
    using sftp_Upload_ok tmp last(2) by simp
  moreover have "batch_there p b fs1"
    using upload_pdfs_ok [of sn ?dir "?n + 1" 0 "bt_PDFs b" fs up1 prog1 seen1 fs1] pdfs last(1) names
    by (simp add: batch_there_def)
  moreover have "fs3 = fs2 \<or> fs3 = fs2(path_Join ?dir (?csv @ ''.uploading'') := None, path_Join ?dir ?csv := fs2 (path_Join ?dir (?csv @ ''.uploading'')))"
    using ren by (auto simp: sftp_Rename_def split: if_splits)
  ultimately have "c = csv" "batch_there p b m"
    using m(2) last(3) before2 by (auto simp: batch_there_def)
  moreover have "err = None \<or> err = Some ActivateCSV"
    using run ok pdfs tmp ren last(1,2) by (auto simp: RTS_SubmitBatch_def Let_def split: if_splits)
  ultimately show ?thesis using ok by simp
qed

lemma RTS_success:
  assumes run: "RTS_SubmitBatch sn p b fs = (None, res, prog, seen)"
    and names: "distinct (map (sanitizePDFName \<circ> pdf_Number) (bt_PDFs b))"
  shows "seen \<noteq> [] \<and> last seen (path_Join (sp_inboundDir p) (csv_file_name sn b)) \<noteq> None
    \<and> Uploaded res = map (\<lambda>pdf. path_Join (sp_inboundDir p) (sanitizePDFName (pdf_Number pdf))) (bt_PDFs b)
        @ [path_Join (sp_inboundDir p) (csv_file_name sn b)]
    \<and> map pr_Done prog = [1..<length (bt_PDFs b) + 2]"
proof -
  let ?dir = "sp_inboundDir p" and ?csv = "csv_file_name sn b" and ?n = "length (bt_PDFs b)"
  obtain csv where ok: "batch_validate b = None" "ValidateInvoicesForProvider (sp_providerType p) (bt_Invoices b) = None"
      "BuildRTSCSV (sp_username p) (bt_Invoices b) = Inr csv" "open_session sn p = None"
    using run by (auto simp: RTS_SubmitBatch_def split: option.splits sum.splits)
  obtain e1 up1 prog1 seen1 fs1 where pdfs: "upload_pdfs sn ?dir (?n + 1) 0 (bt_PDFs b) fs = (e1, up1, prog1, seen1, fs1)"
    by (metis prod_cases5)
  obtain ok2 seen2 fs2 where tmp: "sftp_Upload (sn_upload sn ?n) ?dir (?csv @ ''.uploading'') csv fs1 = (ok2, seen2, fs2)"
    by (metis prod_cases3)
  obtain ok3 fs3 where ren: "sftp_Rename (sn_rename sn) ?dir (?csv @ ''.uploading'') ?csv fs2 = (ok3, fs3)" by fastforce
  have eqs: "e1 = None" "ok2" "ok3" "seen = seen1 @ seen2 @ [fs3]" "Uploaded res = up1 @ [path_Join ?dir ?csv]"
      "map pr_Done prog = map pr_Done prog1 @ [?n + 1]"
    using run ok pdfs tmp ren by (auto simp: RTS_SubmitBatch_def Let_def split: if_splits)
  have "fs3 (path_Join ?dir ?csv) = fs2 (path_Join ?dir (?csv @ ''.uploading''))"
    using ren eqs(3) by (auto simp: sftp_Rename_def split: if_splits)
  also have "fs2 = fs1(path_Join ?dir (?csv @ ''.uploading'') \<mapsto> csv)" using sftp_Upload_ok tmp eqs(2) by simp
  finally show ?thesis
    using upload_pdfs_ok [of sn ?dir "?n + 1" 0 "bt_PDFs b" fs up1 prog1 seen1 fs1] pdfs eqs names by simp
qed


definition example_line :: "string \<Rightarrow> real \<Rightarrow> invoice_line" where
  "example_line number amount = \<lparr>DebtorName = ''Acme'', InvoiceNumber = number, InvoiceDate = utc_time 0, PONumber = ''P-1'',
     AmountUSD = Fin amount\<rparr>"

definition example_batch :: batch where
  "example_batch = \<lparr>bt_SubmittedAt = None, bt_Invoices = [example_line ''INV-1'' 1500],
     bt_PDFs = [\<lparr>pdf_Number = ''INV-1'', pdf_Bytes = ''%PDF''\<rparr>]\<rparr>"

definition example_rts :: sftp_provider where
  "example_rts = \<lparr>sp_username = ''c77'', sp_password = ''pw'', sp_host = ''ftps.rtsfinancial.com'', sp_port = 22,
     sp_inboundDir = '''', sp_providerType = ProviderRTSSFTP\<rparr>"

definition quiet :: submission where
  "quiet = \<lparr>sn_dial = DialOk, sn_mkdir = False, sn_cancelled = (\<lambda>_. False), sn_upload = (\<lambda>_. UploadOk),
     sn_rename = RenameOk, sn_now = utc_time 0\<rparr>"

lemma example_rts_runs:
  "fst (RTS_SubmitBatch quiet example_rts example_batch (\<lambda>_. None)) = None"
proof -
  have "trim_space ''Acme'' = ''Acme''" "trim_space ''INV-1'' = ''INV-1''" "trim_space ''P-1'' = ''P-1''" "trim_space ''c77'' = ''c77''"
    by code_simp+
  then have "ValidateInvoicesForProvider ProviderRTSSFTP (bt_Invoices example_batch) = None"
      "BuildRTSCSV ''c77'' (bt_Invoices example_batch) = Inr (csv_write (rtsCSVHeader # map (rts_row ''c77'') (bt_Invoices example_batch)))"
    by (simp_all add: rts_rules_exact IsRTS_def example_batch_def example_line_def acceptable_def f_le_def f_eq_def BuildRTSCSV_def)
  then show ?thesis
    by (simp add: RTS_SubmitBatch_def example_batch_def batch_validate_def example_line_def example_rts_def quiet_def
        open_session_def dialSFTP_def EnsureDir_def sftp_Upload_def sftp_Rename_def Let_def)
qed


subsection \<open>What the rules let through\<close>

text \<open>Two numbers that differ only in a character the file name drops are two invoices to the rules and one
  file on the server: the manifest lists both, and the second PDF has replaced the first.\<close>

lemma sanitized_clash:
  "ValidateInvoicesForProvider ProviderRTSSFTP [example_line ''INV 1'' 1500, example_line ''INV#1'' 900] = None"
  "sanitizePDFName ''INV 1'' = sanitizePDFName ''INV#1''"
proof -
  have "trim_space ''Acme'' = ''Acme''" "trim_space ''INV 1'' = ''INV 1''" "trim_space ''INV#1'' = ''INV#1''" "trim_space ''P-1'' = ''P-1''"
    by code_simp+
  then show "ValidateInvoicesForProvider ProviderRTSSFTP [example_line ''INV 1'' 1500, example_line ''INV#1'' 900] = None"
    by (simp add: rts_rules_exact IsRTS_def example_line_def acceptable_def f_le_def f_eq_def)
  show "sanitizePDFName ''INV 1'' = sanitizePDFName ''INV#1''"
    by (simp add: sanitizePDFName_def safe_char_def byte_in_def rune_len_def lead_byte_def byte_def)
qed

text \<open>An amount below half a cent, and NaN, pass "greater than zero" and are printed as no such amount.\<close>

lemma amounts_slip_through:
  "\<not> f_le (Fin (1 / 1000)) (Fin 0)" "format_amount (Fin (1 / 1000)) = ''0.00''"
  "\<not> f_le NaN (Fin 0)" "format_amount NaN = ''NaN''"
proof -
  have "digit_char 0 = CHR ''0''" by code_simp
  then show "format_amount (Fin (1 / 1000)) = ''0.00''"
    by (simp add: round_even_def pad_def itoa.simps Let_def)
qed (simp_all add: f_le_def f_eq_def)

text \<open>Triumph's manifest is written in place: an upload cut off leaves part of it under its final name.\<close>

lemma triumph_partial_manifest:
  assumes "batch_validate b = None" and "BuildTriumphCSV (bt_Invoices b) = Inr csv" and "open_session sn p = None"
    and "upload_pdfs sn (sp_inboundDir p) (length (bt_PDFs b) + 1) 0 (bt_PDFs b) fs = (None, up, prog, seen, fs')"
    and "sn_upload sn (length (bt_PDFs b)) = WriteFails k" and "k \<le> length csv"
  shows "\<exists>m \<in> set (snd (snd (snd (Triumph_SubmitBatch sn p b fs)))).
    m (path_Join (sp_inboundDir p) (csv_file_name sn b)) = Some (take k csv)"
  using assms by (simp add: Triumph_SubmitBatch_def sftp_Upload_def Let_def min_absorb1)

lemma override_port_pos: "0 < port \<Longrightarrow> 0 < override_port raw port"
  by (simp add: override_port_def split: option.split)

lemma NewTriumphSFTP_fields [simp]:
  "sp_providerType (NewTriumphSFTP env cred) = ProviderTriumphSFTP" "sp_username (NewTriumphSFTP env cred) = fc_Username cred"
  "sp_password (NewTriumphSFTP env cred) = fc_Password cred" "sp_host (NewTriumphSFTP env cred) \<noteq> []"
  "0 < sp_port (NewTriumphSFTP env cred)"
  by (simp_all add: NewTriumphSFTP_def override_port_pos Let_def)

lemma newRTSSFTP_fields [simp]:
  "sp_providerType (newRTSSFTP env cred h pt) = pt" "sp_username (newRTSSFTP env cred h pt) = fc_Username cred"
  "sp_password (newRTSSFTP env cred h pt) = fc_Password cred" "h \<noteq> [] \<Longrightarrow> sp_host (newRTSSFTP env cred h pt) \<noteq> []"
  "0 < sp_port (newRTSSFTP env cred h pt)"
  by (simp_all add: newRTSSFTP_def override_port_pos Let_def)

lemma registry_cases:
  assumes "FactoringProviderFromCredential env cred = Inr p"
  obtains "fc_ProviderType cred = ProviderTriumphSFTP" "p = NewTriumphSFTP env cred"
    | "IsRTS (fc_ProviderType cred)" "p = newRTSSFTP env cred ''ftps.rtsfinancial.com'' (fc_ProviderType cred)"
  using assms by (auto simp: FactoringProviderFromCredential_def NewRTSSFTP_def NewRTSTestSFTP_def IsRTS_def split: if_splits)

lemma registry_login:
  "FactoringProviderFromCredential env cred = Inr p \<Longrightarrow> fc_Username cred \<noteq> [] \<and> fc_Password cred \<noteq> []"
  by (auto simp: FactoringProviderFromCredential_def split: if_splits)

text \<open>The registry implements every valid type; a provider built in production dials its factor whatever the
  test variables say, and it can always be dialled with the credential it was built from.\<close>

lemma registry_complete:
  "FactoringIsValid (fc_ProviderType cred) \<Longrightarrow> fc_Username cred \<noteq> [] \<Longrightarrow> fc_Password cred \<noteq> [] \<Longrightarrow>
     \<exists>p. FactoringProviderFromCredential env cred = Inr p"
  by (auto simp: FactoringProviderFromCredential_def FactoringIsValid_def FactoringProviderTypes_def)

lemma registry_dials:
  assumes "FactoringProviderFromCredential env cred = Inr p"
  shows "sp_providerType p = fc_ProviderType cred \<and> sp_host p \<noteq> [] \<and> sp_username p \<noteq> [] \<and> sp_password p \<noteq> [] \<and> 0 < sp_port p"
  using registry_login [OF assms] by (cases rule: registry_cases [OF assms]) simp_all

lemma production_host:
  assumes "\<not> factoringNonProd env" and "FactoringProviderFromCredential env cred = Inr p"
  shows "sp_host p = (if IsRTS (sp_providerType p) then ''ftps.rtsfinancial.com'' else ''files.triumphbcap.com'')
    \<and> sp_port p = 22 \<and> sp_inboundDir p = (if IsRTS (sp_providerType p) then [] else ''TMS_INPUT'')"
proof (cases rule: registry_cases [OF assms(2)])
  case 1
  have "\<not> IsRTS ProviderTriumphSFTP" by (simp add: IsRTS_def provider_defs)
  with 1 assms(1) show ?thesis by (simp add: NewTriumphSFTP_def)
next
  case 2
  with assms(1) show ?thesis by (simp add: newRTSSFTP_def Let_def)
qed

text \<open>A login the server refuses is an \<open>AuthError\<close> of the provider's own type.\<close>

lemma auth_error_type:
  assumes "FactoringProviderFromCredential env cred = Inr p" and "isSSHAuthFailure msg" and "sn_dial sn = HandshakeFails msg"
  shows "dialSFTP sn p = Some (AuthErr (fc_ProviderType cred))"
proof -
  have "fc_ProviderType cred \<noteq> []"
    by (cases rule: registry_cases [OF assms(1)]) (auto simp: IsRTS_def provider_defs)
  then show ?thesis using registry_dials [OF assms(1)] assms(2,3) by (simp add: dialSFTP_def)
qed

end
