(* ===== verification/Error_Presenter.thy ===== *)
theory Error_Presenter
  imports Validate
begin

text \<open>
  What a client is told of an error: public errors (\<open>src/response/public_error.go\<close>, \<open>errors.go\<close>), the
  GraphQL error presenter (\<open>src/client/tmsgraphql/errors.go\<close>) with the translation of PostgreSQL
  constraint violations (\<open>src/client/postgresql/postgresql.go\<close>) and of gRPC statuses, and the REST writer
  (\<open>src/response/response.go\<close>, \<open>validation.go\<close>).

  An error is the chain \<open>errors.As\<close> walks, each layer with the text its \<open>Error()\<close> returns; a public error
  is the package's own implementation. gqlgen's default presenter is a parameter. Values of a payload
  are of a type \<open>'d\<close>.
\<close>

subsection \<open>Errors\<close>

record 'd public_error =
  Technical :: string
  pe_User :: string
  pe_Status :: int
  pe_Code :: int
  CodeStr :: string
  pe_Ext :: "(string \<times> 'd) list"

datatype 'd go_error =
    TextErr string
  | WrapErr string "'d go_error"
  | PublicErr "'d public_error"
  | PgErr string string string        \<comment> \<open>code, constraint name, text\<close>
  | GrpcErr nat string string         \<comment> \<open>code, message, text\<close>

fun error_text :: "'d go_error \<Rightarrow> string" where
  "error_text (TextErr s) = s"
| "error_text (WrapErr s e) = s"
| "error_text (PublicErr p) = Technical p"
| "error_text (PgErr code constraint s) = s"
| "error_text (GrpcErr code msg s) = s"

text \<open>\<open>errors.As\<close> for the three types the presenter asks for.\<close>

fun as_public :: "'d go_error \<Rightarrow> 'd public_error option" where
  "as_public (PublicErr p) = Some p"
| "as_public (WrapErr s e) = as_public e"
| "as_public _ = None"

fun as_pg :: "'d go_error \<Rightarrow> (string \<times> string) option" where
  "as_pg (PgErr code constraint s) = Some (code, constraint)"
| "as_pg (WrapErr s e) = as_pg e"
| "as_pg _ = None"

fun as_grpc :: "'d go_error \<Rightarrow> (nat \<times> string) option" where
  "as_grpc (GrpcErr code msg s) = Some (code, msg)"
| "as_grpc (WrapErr s e) = as_grpc e"
| "as_grpc _ = None"

subsection \<open>Constructors\<close>

definition NewCodedError :: "string \<Rightarrow> string \<Rightarrow> string \<Rightarrow> int \<Rightarrow> (string \<times> 'd) list \<Rightarrow> 'd public_error" where
  "NewCodedError code tech user status ext =
     \<lparr>Technical = tech, pe_User = user, pe_Status = status, pe_Code = 0, CodeStr = code, pe_Ext = ext\<rparr>"

definition NewErrorWithExtensions :: "string \<Rightarrow> string \<Rightarrow> int \<Rightarrow> (string \<times> 'd) list \<Rightarrow> 'd public_error" where
  "NewErrorWithExtensions tech user status ext =
     \<lparr>Technical = tech, pe_User = user, pe_Status = status, pe_Code = 0, CodeStr = '''', pe_Ext = ext\<rparr>"

definition NewError :: "string \<Rightarrow> string \<Rightarrow> int \<Rightarrow> 'd public_error" where
  "NewError tech user status =
     \<lparr>Technical = tech, pe_User = user, pe_Status = status, pe_Code = 0, CodeStr = '''', pe_Ext = []\<rparr>"

definition NewNotFound :: "string \<Rightarrow> string \<Rightarrow> 'd public_error" where
  "NewNotFound resource i = NewError (resource @ '' not found: '' @ i) (resource @ '' not found'') 404"

definition NewBadRequest :: "string \<Rightarrow> string \<Rightarrow> 'd public_error" where
  "NewBadRequest tech user = NewError tech user 400"

definition NewConflict :: "string \<Rightarrow> string \<Rightarrow> 'd public_error" where
  "NewConflict tech user = NewError tech user 409"

definition NewConflictWithExtensions :: "string \<Rightarrow> string \<Rightarrow> (string \<times> 'd) list \<Rightarrow> 'd public_error" where
  "NewConflictWithExtensions tech user ext = NewErrorWithExtensions tech user 409 ext"

definition NewCodedConflict :: "string \<Rightarrow> string \<Rightarrow> string \<Rightarrow> (string \<times> 'd) list \<Rightarrow> 'd public_error" where
  "NewCodedConflict code tech user ext = NewCodedError code tech user 409 ext"

definition NewForbidden :: "string \<Rightarrow> string \<Rightarrow> 'd public_error" where
  "NewForbidden tech user = NewError tech user 403"

definition NewUnauthorized :: "string \<Rightarrow> string \<Rightarrow> 'd public_error" where
  "NewUnauthorized tech user = NewError tech user 401"

definition NewInternalError :: "string \<Rightarrow> 'd public_error" where
  "NewInternalError tech = NewError tech ''Something went wrong. Please try again.'' 500"

subsection \<open>PostgreSQL\<close>

definition IsUniqueConstraintError :: "'d go_error \<Rightarrow> bool" where
  "IsUniqueConstraintError err = (case as_pg err of Some (code, constraint) \<Rightarrow> code = ''23505'' | None \<Rightarrow> False)"

definition AsPublicError :: "'d go_error \<Rightarrow> 'd public_error option" where
  "AsPublicError err =
     (case as_pg err of
        None \<Rightarrow> None
      | Some (code, constraint) \<Rightarrow>
          if code = ''23503'' then Some (NewBadRequest (''foreign key violation: '' @ constraint) ''A referenced record was not found.'')
          else if code = ''23505'' then Some (NewConflict (''unique violation: '' @ constraint) ''This record already exists.'')
          else if code = ''23P01'' then Some (NewConflict (''exclusion violation: '' @ constraint) ''This conflicts with an existing record.'')
          else if code = ''23514'' \<or> code = ''23502'' then
            Some (NewBadRequest (''constraint violation: '' @ constraint) ''Some required information is missing or invalid.'')
          else None)"

text \<open>The pool sizes \<open>NewClient\<close> sets.\<close>

definition pool_sizes :: "int \<Rightarrow> int \<Rightarrow> int \<times> int" where
  "pool_sizes cfg_open cfg_idle =
     (let maxOpen = (if cfg_open \<le> 0 then 8 else cfg_open);
          maxIdle = (if cfg_idle \<le> 0 then 2 else cfg_idle)
      in (maxOpen, if maxIdle > maxOpen then maxOpen else maxIdle))"

lemma pool_sizes_ok: "pool_sizes a b = (mo, mi) \<Longrightarrow> 0 < mi \<and> mi \<le> mo"
  by (auto simp: pool_sizes_def Let_def split: if_splits)

subsection \<open>The GraphQL presenter\<close>

definition grpcPublicError :: "'d go_error \<Rightarrow> (string \<times> string \<times> int) option" where
  "grpcPublicError err =
     (case as_grpc err of
        None \<Rightarrow> None
      | Some (code, msg) \<Rightarrow>
          if code = 3 then Some (msg, ''BAD_USER_INPUT'', 400)
          else if code = 9 then Some (msg, ''FAILED_PRECONDITION'', 422)
          else if code = 14 then Some (msg, ''SERVICE_UNAVAILABLE'', 503)
          else if code = 5 then Some (msg, ''NOT_FOUND'', 404)
          else if code = 6 then Some (msg, ''ALREADY_EXISTS'', 409)
          else if code = 7 then Some (msg, ''FORBIDDEN'', 403)
          else if code = 16 then Some (msg, ''UNAUTHENTICATED'', 401)
          else if code = 8 then Some (msg, ''RESOURCE_EXHAUSTED'', 429)
          else None)"

datatype 'd ext_value = NumV int | StrV string | PayloadV 'd | FieldsV "field_error list"

type_synonym 'd extensions = "(string \<times> 'd ext_value) list"

text \<open>\<open>gq_rest\<close> is what else a \<open>gqlerror.Error\<close> shows (path, locations).\<close>

record ('d, 'p) gql_error =
  gq_Message :: string
  gq_Extensions :: "'d extensions"
  gq_rest :: 'p

datatype capture = CaptureError | CaptureWarning | NoCapture

definition put :: "string \<Rightarrow> 'v \<Rightarrow> (string \<times> 'v) list \<Rightarrow> (string \<times> 'v) list" where
  "put k v m = AList.update k v m"

text \<open>The merge loop: it ranges over a Go map, whose keys are distinct.\<close>

fun merge_payload :: "(string \<times> 'd) list \<Rightarrow> 'd extensions \<Rightarrow> 'd extensions" where
  "merge_payload [] m = m"
| "merge_payload ((k, v) # rest) m =
     (if k = ''code'' \<or> k = ''status'' then merge_payload rest m else merge_payload rest (put k (PayloadV v) m))"

definition public_extensions :: "'d public_error \<Rightarrow> 'd go_error \<Rightarrow> 'd extensions" where
  "public_extensions customErr err =
     (let m = merge_payload (pe_Ext customErr) [(''code'', NumV (pe_Code customErr)), (''status'', NumV (pe_Status customErr))] in
      case as_public err of
        Some coded \<Rightarrow> if CodeStr coded \<noteq> '''' then put ''code'' (StrV (CodeStr coded)) m else m
      | None \<Rightarrow> m)"

text \<open>\<open>ve\<close> is the validation collector on the context (\<open>None\<close> when there is none), \<open>def_err\<close> what the
  default presenter makes of the error.\<close>

definition present :: "bool \<Rightarrow> string \<Rightarrow> validation_errors option \<Rightarrow> ('d, 'p) gql_error \<Rightarrow> 'p \<Rightarrow> 'd go_error
    \<Rightarrow> ('d, 'p) gql_error \<times> capture" where
  "present isDebug requestID ve def_err no_path err =
     (if ve \<noteq> None \<and> ve_hasErrs (the ve) then
        (\<lparr>gq_Message = ''Validation failed'',
          gq_Extensions = [(''code'', StrV ''VALIDATION_ERROR''), (''requestId'', StrV requestID), (''validationErrors'', FieldsV (ve_Errors (the ve)))],
          gq_rest = no_path\<rparr>, NoCapture)
      else
        (let customErr = (case as_public err of Some p \<Rightarrow> Some p | None \<Rightarrow> AsPublicError err);
             (gqlErr, cap) =
               (case customErr of
                  Some p \<Rightarrow>
                    (def_err\<lparr>gq_Message := pe_User p, gq_Extensions := public_extensions p err\<rparr>,
                     if pe_Status p \<ge> 500 then CaptureError else CaptureWarning)
                | None \<Rightarrow>
                    (case grpcPublicError err of
                       Some (msg, code, status) \<Rightarrow>
                         (def_err\<lparr>gq_Message := msg, gq_Extensions := [(''code'', StrV code), (''status'', NumV status)]\<rparr>, CaptureWarning)
                     | None \<Rightarrow>
                         (if \<not> isDebug
                          then def_err\<lparr>gq_Message := ''Internal Server Error'', gq_Extensions := [(''code'', StrV ''INTERNAL_SERVER_ERROR'')]\<rparr>
                          else def_err, CaptureError)));
             gqlErr = gqlErr\<lparr>gq_Extensions := put ''requestId'' (StrV requestID) (gq_Extensions gqlErr)\<rparr>;
             gqlErr = (if isDebug then gqlErr\<lparr>gq_Extensions := put ''technical'' (StrV (error_text err)) (gq_Extensions gqlErr)\<rparr> else gqlErr)
         in (gqlErr, cap)))"

definition BatchError :: "'d go_error \<Rightarrow> 'd go_error list" where
  "BatchError err = [err]"

definition FillErrors :: "nat \<Rightarrow> 'd go_error \<Rightarrow> 'd go_error list" where
  "FillErrors n err = replicate n err"

subsection \<open>What a client sees\<close>

text \<open>The part of an error meant for clients: a public error without its technical text, a violated
  constraint without its name, a caller-facing status without its text - and nothing of any other error.\<close>

datatype 'd client_view = PublicView string int int string "(string \<times> 'd) list" | CallerView string string int | InternalView

definition public_view :: "'d go_error \<Rightarrow> 'd client_view" where
  "public_view err =
     (case (case as_public err of Some p \<Rightarrow> Some p | None \<Rightarrow> AsPublicError err) of
        Some p \<Rightarrow> PublicView (pe_User p) (pe_Status p) (pe_Code p)
          (case as_public err of Some p \<Rightarrow> CodeStr p | None \<Rightarrow> '''') (pe_Ext p)
      | None \<Rightarrow> (case grpcPublicError err of Some (msg, code, status) \<Rightarrow> CallerView msg code status | None \<Rightarrow> InternalView))"

fun view_message :: "'d client_view \<Rightarrow> string" where
  "view_message (PublicView user status code codestr ext) = user"
| "view_message (CallerView msg code status) = msg"
| "view_message InternalView = ''Internal Server Error''"

fun view_extensions :: "'d client_view \<Rightarrow> 'd extensions" where
  "view_extensions (PublicView user status code codestr ext) =
     (let m = merge_payload ext [(''code'', NumV code), (''status'', NumV status)] in
      if codestr \<noteq> '''' then put ''code'' (StrV codestr) m else m)"
| "view_extensions (CallerView msg code status) = [(''code'', StrV code), (''status'', NumV status)]"
| "view_extensions InternalView = [(''code'', StrV ''INTERNAL_SERVER_ERROR'')]"

fun view_capture :: "'d client_view \<Rightarrow> capture" where
  "view_capture (PublicView user status code codestr ext) = (if status \<ge> 500 then CaptureError else CaptureWarning)"
| "view_capture (CallerView msg code status) = CaptureWarning"
| "view_capture InternalView = CaptureError"

definition unflagged :: "validation_errors option \<Rightarrow> bool" where
  "unflagged ve \<longleftrightarrow> (case ve of None \<Rightarrow> True | Some v \<Rightarrow> \<not> ve_hasErrs v)"

text \<open>In production the presenter shows a function of the public view and the request id: the technical text
  of no error reaches a client, however it was wrapped.\<close>

lemma presenter_noninterference:
  assumes "unflagged ve"
  shows "present False requestID ve def_err no_path err =
    (def_err\<lparr>gq_Message := view_message (public_view err),
       gq_Extensions := put ''requestId'' (StrV requestID) (view_extensions (public_view err))\<rparr>, view_capture (public_view err))"
proof -
  have "\<not> (ve \<noteq> None \<and> ve_hasErrs (the ve))" using assms by (auto simp: unflagged_def)
  moreover have "CodeStr p = ''''" if "AsPublicError err = Some p" for p
    using that by (auto simp: AsPublicError_def NewBadRequest_def NewConflict_def NewError_def split: option.splits if_splits)
  ultimately show ?thesis
    by (auto simp: present_def public_view_def public_extensions_def Let_def split: option.split)
qed

lemma wrapped [simp]:
  "AsPublicError (WrapErr s e) = AsPublicError e" "grpcPublicError (WrapErr s e) = grpcPublicError e"
  by (simp_all only: AsPublicError_def grpcPublicError_def as_pg.simps as_grpc.simps)

lemma wrapping_is_invisible: "public_view (WrapErr s e) = public_view e"
  by (simp only: public_view_def wrapped as_public.simps)

lemma constraint_name_hidden: "public_view (PgErr code constraint s) = public_view (PgErr code constraint' s')"
  by (simp add: public_view_def AsPublicError_def grpcPublicError_def NewBadRequest_def NewConflict_def NewError_def)

lemma technical_hidden: "public_view (PublicErr p) = public_view (PublicErr (p\<lparr>Technical := t\<rparr>))"
  by (simp add: public_view_def)

text \<open>Paging: exactly the errors shown with a status of 500 and up, or as internal, are captured as errors.\<close>

lemma capture_iff:
  assumes "unflagged ve"
  shows "snd (present isDebug requestID ve def_err no_path err) = CaptureError \<longleftrightarrow>
    (public_view err = InternalView \<or> (\<exists>u s c cs x. public_view err = PublicView u s c cs x \<and> 500 \<le> s))"
proof -
  have "\<not> (ve \<noteq> None \<and> ve_hasErrs (the ve))" using assms by (auto simp: unflagged_def)
  then show ?thesis by (auto simp: present_def public_view_def Let_def split: option.split)
qed

text \<open>A payload cannot shadow \<open>code\<close> and \<open>status\<close>, and cannot replace the request id.\<close>

lemma map_of_put: "map_of (put k v m) = (map_of m)(k \<mapsto> v)"
  by (simp add: put_def update_conv')

lemma merge_payload_reserved:
  "k = ''code'' \<or> k = ''status'' \<Longrightarrow> map_of (merge_payload ext m) k = map_of m k"
  by (induction ext m rule: merge_payload.induct) (auto simp: map_of_put)

lemma reserved_keys:
  assumes "unflagged ve" and "as_public err = Some p"
  shows "let m = map_of (gq_Extensions (fst (present False requestID ve def_err no_path err))) in
    m ''status'' = Some (NumV (pe_Status p)) \<and> m ''requestId'' = Some (StrV requestID)
    \<and> m ''code'' = Some (if CodeStr p = '''' then NumV (pe_Code p) else StrV (CodeStr p))"
  using assms(2)
  by (simp add: presenter_noninterference [OF assms(1)] public_view_def map_of_put merge_payload_reserved Let_def)

text \<open>While a validation error is on the context, any error of the request - an internal one too - is shown
  as a validation failure and not captured.\<close>

lemma validation_masks_internal:
  assumes "ve_hasErrs v"
  shows "snd (present isDebug requestID (Some v) def_err no_path err) = NoCapture
    \<and> gq_Message (fst (present isDebug requestID (Some v) def_err no_path err)) = ''Validation failed''"
  using assms by (simp add: present_def)

lemma BatchError_single: "length (BatchError err) = 1" "set (FillErrors n err) \<subseteq> {err}" "length (FillErrors n err) = n"
  by (auto simp: BatchError_def FillErrors_def)

subsection \<open>REST\<close>

datatype rest_value = RestNum int | RestStr string | RestMeta | RestErrors "(string \<times> string) list"

text \<open>\<open>Error\<close>: the status of the reply and its body.\<close>

definition rest_Error :: "bool \<Rightarrow> int \<Rightarrow> 'd go_error \<Rightarrow> int \<times> (string \<times> rest_value) list" where
  "rest_Error debug code err =
     (let (message, resultCode) = (case as_public err of Some p \<Rightarrow> (pe_User p, pe_Status p) | None \<Rightarrow> (error_text err, code)) in
      (resultCode, (''status'', RestNum resultCode) #
        (if debug then [(''message'', RestStr message), (''technical'', RestStr (error_text err)), (''meta'', RestMeta)]
         else [(''message'', RestStr (if resultCode = 500 then ''Internal Server Error'' else message))])))"

text \<open>\<open>ParseValidationErrors\<close> on the field errors (field, tag, parameter); \<open>messages\<close> are the DTO's own and
  \<open>sprintf\<close> is \<open>fmt.Sprintf\<close> of one string. The map keeps the last message of a field.\<close>

definition getDefaultMessage :: "string \<Rightarrow> string \<Rightarrow> string" where
  "getDefaultMessage tag param =
     (if tag = ''required'' then ''This field is required''
      else if tag = ''email'' then ''Invalid email format''
      else if tag = ''min'' then ''Must be at least '' @ param @ '' characters''
      else ''Failed validation on tag: '' @ tag)"

fun ParseValidationErrors :: "(string \<Rightarrow> string \<Rightarrow> string) \<Rightarrow> (string \<Rightarrow> string option) \<Rightarrow> (string \<times> string \<times> string) list
    \<Rightarrow> (string \<times> string) list \<Rightarrow> (string \<times> string) list" where
  "ParseValidationErrors sprintf messages [] m = m"
| "ParseValidationErrors sprintf messages ((fieldName, tagName, param) # rest) m =
     ParseValidationErrors sprintf messages rest
       (put fieldName
         (case messages (fieldName @ ''.'' @ tagName) of Some msg \<Rightarrow> sprintf msg param | None \<Rightarrow> getDefaultMessage tagName param) m)"

definition rest_ValidationError :: "(string \<times> string) list \<Rightarrow> int \<times> (string \<times> rest_value) list" where
  "rest_ValidationError details =
     (400, [(''status'', RestNum 400), (''message'', RestStr ''Validation failed for one or more fields.''), (''errors'', RestErrors details)])"

lemma ParseValidationErrors_fields:
  "set (map fst (ParseValidationErrors sp ms fes m)) = fst ` set m \<union> fst ` set fes"
proof (induction sp ms fes m rule: ParseValidationErrors.induct)
  case (2 sp ms f t p rest m)
  have "fst ` set (put f v m) = insert f (fst ` set m)" for v :: string
    by (induction m) (auto simp: put_def)
  with 2 show ?case by auto
qed simp

text \<open>Production hides the text of an internal error only at status 500: any other 5xx shows it.\<close>

lemma rest_hides_500:
  "as_public err = None \<Longrightarrow> rest_Error False 500 err = rest_Error False 500 (err' :: 'd go_error) \<or> as_public err' \<noteq> None"
  by (auto simp: rest_Error_def split: option.splits)

lemma rest_leaks_503:
  "rest_Error False 503 (TextErr ''dial tcp 10.0.0.5:5432: refused'') =
     (503, [(''status'', RestNum 503), (''message'', RestStr ''dial tcp 10.0.0.5:5432: refused'')])"
  by (simp add: rest_Error_def)

end
