(* ===== verification/Guest.thy ===== *)
theory Guest
  imports Cache RateLimit Tenancy Go_Time
begin

text \<open>
  Guest access through a share link (\<open>src/guest/guest_handler.go\<close>, \<open>guest_types.go\<close>): the middleware that turns a
  guest token into a guest actor, the \<open>@authGuest\<close> directive with its rate limit, and the access log.

  Verifying a token is a library: \<open>verify\<close> gives the company and share link of a token whose signature holds.
  Redis is the client of \<open>Cache\<close>, its counters those of \<open>RateLimit\<close>; \<open>parse_uuid\<close> is \<open>uuid.Parse\<close>.
  \<open>now\<close> is the clock.
\<close>

record share_link_data =
  sl_Resource :: string
  sl_ResourceID :: string
  sl_CompanyID :: string

record access_log_event =
  al_ShareLinkID :: uuid
  al_IPAddress :: string
  al_UserAgent :: string
  al_AccessedAt :: string

record guest_handler =
  gh_rateLimit :: int
  gh_rateWindow :: int

definition NewHandler :: "(guest_handler \<Rightarrow> guest_handler) list \<Rightarrow> guest_handler" where
  "NewHandler opts = fold (\<lambda>opt h. opt h) opts \<lparr>gh_rateLimit = 60, gh_rateWindow = 60 * 1000000000\<rparr>"

definition WithRateLimit :: "int \<Rightarrow> int \<Rightarrow> guest_handler \<Rightarrow> guest_handler" where
  "WithRateLimit limit window h = h\<lparr>gh_rateLimit := limit, gh_rateWindow := window\<rparr>"

subsection \<open>The middleware\<close>

definition resolveClientIP :: "net \<Rightarrow> request \<Rightarrow> string" where
  "resolveClientIP N r =
     (let fwd = header_Get (Header r) ''X-Forwarded-For'' in
      if fwd \<noteq> '''' then trim_space (hd (split_on CHR '','' fwd))
      else (case SplitHost N (RemoteAddr r) of None \<Rightarrow> RemoteAddr r | Some ip \<Rightarrow> ip))"

definition share_link_key :: "uuid \<Rightarrow> uuid \<Rightarrow> string" where
  "share_link_key companyID shareLinkID = companyID @ '':share_link:'' @ shareLinkID"

definition guest_actor :: "uuid \<Rightarrow> share_link_data \<Rightarrow> uuid \<Rightarrow> actor" where
  "guest_actor companyID data resourceID =
     \<lparr>actor_ID = uuid_Nil, Claims = Some (zero_claims\<lparr>CompanyID := Some companyID, Resource := sl_Resource data, ResourceID := resourceID\<rparr>),
      Token = None, IsSystem = False, IsGuest = True\<rparr>"

text \<open>\<open>maybeLogAccess\<close>: the event it publishes, if any, and Redis afterwards.\<close>

definition maybeLogAccess :: "('s, 'v) redis_client \<Rightarrow> (string \<Rightarrow> 'v option) \<Rightarrow> net \<Rightarrow> go_time \<Rightarrow> go_context \<Rightarrow> uuid \<Rightarrow> request \<Rightarrow> 's
    \<Rightarrow> access_log_event option \<times> 's" where
  "maybeLogAccess R enc N now ctx shareLinkID r s =
     (let ip = resolveClientIP N r in
      case cache_SetNX R enc ctx (''access_seen:'' @ shareLinkID @ '':'' @ ip) ''1'' (180 * 1000000000) s of
        (Inl e, s') \<Rightarrow> (None, s')
      | (Inr set_now, s') \<Rightarrow>
          (if \<not> set_now then (None, s')
           else (Some \<lparr>al_ShareLinkID = shareLinkID, al_IPAddress = ip, al_UserAgent = header_Get (Header r) ''User-Agent'',
             al_AccessedAt = fmt_RFC3339_utc (gt_UTC now)\<rparr>, s')))"

definition guest_Middleware :: "(string \<Rightarrow> (uuid \<times> uuid) option) \<Rightarrow> ('s, 'v) redis_client \<Rightarrow> ('v \<Rightarrow> share_link_data option)
    \<Rightarrow> (string \<Rightarrow> 'v option) \<Rightarrow> (string \<Rightarrow> uuid option) \<Rightarrow> net \<Rightarrow> go_time \<Rightarrow> go_context \<Rightarrow> request \<Rightarrow> 's
    \<Rightarrow> go_context \<times> access_log_event option \<times> 's" where
  "guest_Middleware verify R dec enc parse_uuid N now ctx r s =
     (case GetActor ctx of
        Some a \<Rightarrow> (ctx, None, s)
      | None \<Rightarrow>
     (let token = header_Get (Header r) ''X-Guest-Token'' in
      if token = '''' then (ctx, None, s)
      else
        (case verify token of
           None \<Rightarrow> (ctx, None, s)
         | Some (companyID, shareLinkID) \<Rightarrow>
             (case cache_Get R dec ctx (share_link_key companyID shareLinkID) s of
                Inl e \<Rightarrow> (ctx, None, s)
              | Inr data \<Rightarrow>
                  (case parse_uuid (sl_ResourceID data) of
                     None \<Rightarrow> (ctx, None, s)
                   | Some resourceID \<Rightarrow>
                       (let guestCtx = WithActor ctx (Some (guest_actor companyID data resourceID));
                            (event, s') = maybeLogAccess R enc N now guestCtx shareLinkID r s
                        in (guestCtx, event, s')))))))"

subsection \<open>The directive\<close>

datatype guest_err = Unauthorized | WrongResource | TooManyRequests
datatype guest_answer = GuestNext | GuestErr guest_err | GuestPanic

definition guest_key :: "user_claims \<Rightarrow> string" where
  "guest_key cl = ''guest:'' @ (case CompanyID cl of Some c \<Rightarrow> c | None \<Rightarrow> '''') @ '':'' @ Resource cl @ '':'' @ ResourceID cl"

definition guest_Directive :: "guest_handler \<Rightarrow> 's limiter \<Rightarrow> go_context \<Rightarrow> string \<Rightarrow> 's \<Rightarrow> guest_answer \<times> 's" where
  "guest_Directive gh allow ctx resource s =
     (case GetActor ctx of
        None \<Rightarrow> (GuestErr Unauthorized, s)
      | Some None \<Rightarrow> (GuestPanic, s)
      | Some (Some actor) \<Rightarrow>
          (if \<not> IsGuest actor then (GuestNext, s)
           else
             (case Claims actor of
                None \<Rightarrow> (GuestPanic, s)
              | Some cl \<Rightarrow>
                  if Resource cl \<noteq> resource then (GuestErr WrongResource, s)
                  else (case allow (guest_key cl) (gh_rateLimit gh) (gh_rateWindow gh) s of
                          ((allowed, _), s') \<Rightarrow> (if \<not> allowed then GuestErr TooManyRequests else GuestNext, s')))))"

subsection \<open>What a guest can do\<close>

lemma guest_actor_powers [simp]:
  "IsGuest (guest_actor c d i)" "\<not> IsSystem (guest_actor c d i)" "\<not> IsSuperAdmin (guest_actor c d i)"
  "\<not> IsAdmin (guest_actor c d i)" "GetCompanyID (guest_actor c d i) = Some c" "ordinary (guest_actor c d i)"
  by (simp_all add: guest_actor_def IsSuperAdmin_iff IsAdmin_iff zero_claims_def GetCompanyID_def ordinary_def)

text \<open>The middleware changes nothing for a request that already has an identity, and otherwise makes a
  guest only of a verified token whose share link is stored under the token's company.\<close>

lemma guest_Middleware_sound:
  assumes "redis_laws R" and "guest_Middleware verify R dec enc parse_uuid N now ctx r s = (ctx', event, s')"
  shows "ctx' = ctx \<and> event = None \<and> s' = s
    \<or> (\<exists>c l v d i. GetActor ctx = None \<and> verify (header_Get (Header r) ''X-Guest-Token'') = Some (c, l)
         \<and> r_data R s (share_link_key c l) = Some v \<and> dec v = Some d \<and> parse_uuid (sl_ResourceID d) = Some i
         \<and> ctx' = WithActor ctx (Some (guest_actor c d i)))"
proof (cases "ctx' = ctx \<and> event = None \<and> s' = s")
  case False
  let ?tok = "header_Get (Header r) ''X-Guest-Token''"
  have no: "GetActor ctx = None" "?tok \<noteq> ''''"
    using False assms(2) by (cases "GetActor ctx"; simp add: guest_Middleware_def Let_def split: if_splits)+
  obtain c l where v: "verify ?tok = Some (c, l)"
    using False assms(2) no by (cases "verify ?tok") (auto simp: guest_Middleware_def Let_def)
  obtain d where d: "cache_Get R dec ctx (share_link_key c l) s = Inr d"
    using False assms(2) no v by (cases "cache_Get R dec ctx (share_link_key c l) s") (simp_all add: guest_Middleware_def Let_def)
  obtain i where i: "parse_uuid (sl_ResourceID d) = Some i"
    using False assms(2) no v d by (cases "parse_uuid (sl_ResourceID d)") (simp_all add: guest_Middleware_def Let_def)
  have "ctx' = WithActor ctx (Some (guest_actor c d i))"
    using assms(2) no v d i by (simp add: guest_Middleware_def Let_def split: prod.splits)
  note run = no(1) v d i this
  have "ctx_actor ctx = None" using run(1) by (simp add: ctx_simps)
  then have "buildKey ctx (share_link_key c l) = share_link_key c l" by (simp add: buildKey_def)
  then have "cache_GetGlobal R dec (share_link_key c l) s = Inr d" using run(3) by (simp only: cache_Get_def)
  then have "\<exists>v. r_get R (share_link_key c l) s = Reply v \<and> dec v = Some d"
    by (simp add: cache_GetGlobal_def split: reply.splits option.splits)
  moreover have "r_get R (share_link_key c l) s = RedisErr
      \<or> r_get R (share_link_key c l) s = (case r_data R s (share_link_key c l) of Some v \<Rightarrow> Reply v | None \<Rightarrow> RedisNil)"
    using assms(1) by (simp add: redis_laws_def get_law_def)
  ultimately have "\<exists>v. r_data R s (share_link_key c l) = Some v \<and> dec v = Some d"
    by (cases "r_data R s (share_link_key c l)") auto
  with run show ?thesis by blast
qed blast

text \<open>The entry a guest is looked up under is the one its company writes as \<open>share_link:<id>\<close>.\<close>

lemma share_link_key_tenant:
  "ctx_company ctx = Some c \<Longrightarrow> uuid_text c \<Longrightarrow> buildKey ctx (''share_link:'' @ l) = share_link_key c l"
  by (simp add: buildKey_company share_link_key_def)

text \<open>A revoked link ends the access: without the entry the token makes no guest.\<close>

lemma revoked_link:
  assumes "redis_laws R" and "verify (header_Get (Header r) ''X-Guest-Token'') = Some (c, l)"
    and "r_data R s (share_link_key c l) = None"
  shows "fst (guest_Middleware verify R dec enc parse_uuid N now ctx r s) = ctx"
  using guest_Middleware_sound [OF assms(1), of verify dec enc parse_uuid N now ctx r s] assms(2,3)
  by (cases "guest_Middleware verify R dec enc parse_uuid N now ctx r s") auto

text \<open>A guest passes the directive only for the resource of its link, and is then one of the share link's
  counted requests.\<close>

lemma guest_only_its_resource:
  assumes "GetActor ctx = Some (Some (guest_actor c d i))" and "fst (guest_Directive gh allow ctx resource s) = GuestNext"
  shows "resource = sl_Resource d
    \<and> fst (fst (allow (''guest:'' @ c @ '':'' @ sl_Resource d @ '':'' @ i) (gh_rateLimit gh) (gh_rateWindow gh) s))"
proof -
  have cl: "Claims (guest_actor c d i) = Some (zero_claims\<lparr>CompanyID := Some c, Resource := sl_Resource d, ResourceID := i\<rparr>)"
    by (simp add: guest_actor_def)
  show ?thesis
    using assms by (auto simp: guest_Directive_def cl guest_key_def split: prod.splits if_splits)
qed

text \<open>A guest's statements are scoped to the link's company, and a guest creates nothing.\<close>

lemma guest_create_forbidden:
  "ctx_actor ctx = Some (guest_actor c d i) \<Longrightarrow> \<exists>m. cb_BeforeCreate ctx companyID = HookErr m"
  by (simp add: cb_BeforeCreate_def)

lemma guest_scoped:
  assumes "cache_ok markers cache" and "tenant_statement markers schema_table st"
    and "ctx_actor (st_Context st) = Some (guest_actor c d i)" and "st_errors st = []" and "row \<in> rows"
  shows "\<exists>st' cache'. applyScope markers schema_table False cache st = Some (st', cache')
    \<and> (row \<in> selected st' rows \<longrightarrow> stb_CompanyID row = Some c)"
proof -
  obtain t cache' where "target_type st = Some t" "cache_ok markers cache'"
      and eq: "applyScope markers schema_table False cache st =
        Some ((case GetCompanyID (guest_actor c d i) of
         None \<Rightarrow> st\<lparr>st_errors := st_errors st @ [''tenant_plugin: non-admin actor missing company_id'']\<rparr>
       | Some c \<Rightarrow> st\<lparr>wheres := wheres st @
           [if False \<and> isShared (evaluateType markers t) then CompanyIsOrSystem (resolve_table schema_table st t) c
            else CompanyIs (resolve_table schema_table st t) c]\<rparr>), cache')"
    using applyScope_eq [OF assms(1-3) guest_actor_powers(6)] by blast
  then show ?thesis by (auto simp: selected_def)
qed

text \<open>The address in the access log is the client's to choose: the first entry of the header, where
  \<open>ResolveClientIP\<close> takes the one its own proxy added. So is whether an access is logged at all.\<close>

lemma access_log_forgeable:
  assumes "map_of (Header r) ''X-Forwarded-For'' = Some ((client @ '','' @ rest) # lines)" and "CHR '','' \<notin> set client"
  shows "resolveClientIP N r = trim_space client"
proof -
  have "hd (split_on CHR '','' (client @ '','' @ rest)) = client"
    using split_on_append [OF assms(2)] by simp
  then show ?thesis using assms(1) by (simp add: resolveClientIP_def header_Get_def)
qed
end
