(* ===== verification/SavedFilter.thy ===== *)
theory SavedFilter
  imports Tenancy
begin

text \<open>
  Saved list filters (\<open>src/savedfilter/\<close>): each user keeps up to ten per kind of entity and can change only
  their own.

  The table is a list of rows. What the database layer does to a statement is \<open>Tenancy\<close>: \<open>scope\<close> says which
  rows the tenant plugin leaves visible to a context, and a row is created through \<open>CompanyBase\<close>'s hook.
  A repository call may fail; \<open>fails\<close> says which (its number in the run). An operation returns a
  result, or \<open>Panicked\<close> where the code dereferences a nil pointer (an actor without claims), and the
  table.
\<close>

record saved_filter =
  sf_ID :: uuid
  sf_CompanyID :: uuid
  sf_UserID :: uuid
  sf_Entity :: string
  sf_Name :: string
  sf_Filter :: string
  sf_View :: string
  sf_Pinned :: bool
  sf_CreatedAt :: int
  sf_UpdatedAt :: int

record create_input =
  ci_Name :: string
  ci_Entity :: string
  ci_Filter :: string
  ci_View :: string

record update_input =
  ui_Name :: "string option"
  ui_Filter :: "string option"
  ui_View :: "string option"
  ui_Pinned :: "bool option"

datatype filter_err = MaxFiltersReached | AccessDenied | RowNotFound | RepoErr | HookFailed string | CountErr
datatype 'a answer = Done 'a | Refused filter_err | Panicked

type_synonym filters = "saved_filter list"

definition maxFiltersPerUser :: nat where "maxFiltersPerUser = 10"

text \<open>The user the code reads as \<open>actor.Claims.UserID\<close>.\<close>

definition acting_user :: "go_context \<Rightarrow> uuid answer" where
  "acting_user ctx =
     (case GetActor ctx of
        None \<Rightarrow> Refused AccessDenied
      | Some None \<Rightarrow> Panicked
      | Some (Some a) \<Rightarrow> (case Claims a of None \<Rightarrow> Panicked | Some cl \<Rightarrow> Done (UserID cl)))"

subsection \<open>The repository\<close>

definition visible :: "(go_context \<Rightarrow> saved_filter \<Rightarrow> bool) \<Rightarrow> go_context \<Rightarrow> filters \<Rightarrow> filters" where
  "visible scope ctx t = filter (scope ctx) t"

definition CountByUserAndEntity :: "(go_context \<Rightarrow> saved_filter \<Rightarrow> bool) \<Rightarrow> go_context \<Rightarrow> uuid \<Rightarrow> string \<Rightarrow> filters \<Rightarrow> nat" where
  "CountByUserAndEntity scope ctx u e t = length (filter (\<lambda>f. sf_UserID f = u \<and> sf_Entity f = e) (visible scope ctx t))"

text \<open>\<open>ORDER BY pinned DESC, created_at DESC\<close>.\<close>

definition ListByUserAndEntity :: "(go_context \<Rightarrow> saved_filter \<Rightarrow> bool) \<Rightarrow> go_context \<Rightarrow> uuid \<Rightarrow> string \<Rightarrow> filters \<Rightarrow> filters" where
  "ListByUserAndEntity scope ctx u e t =
     sort_key (\<lambda>f. \<not> sf_Pinned f) (sort_key (\<lambda>f. - sf_CreatedAt f)
       (filter (\<lambda>f. sf_UserID f = u \<and> sf_Entity f = e) (visible scope ctx t)))"

definition filter_row :: "(go_context \<Rightarrow> saved_filter \<Rightarrow> bool) \<Rightarrow> bool \<Rightarrow> go_context \<Rightarrow> uuid \<Rightarrow> filters \<Rightarrow> saved_filter answer" where
  "filter_row scope failing ctx i t =
     (if failing then Refused RepoErr
      else (case find (\<lambda>f. sf_ID f = i) (visible scope ctx t) of None \<Rightarrow> Refused RowNotFound | Some f \<Rightarrow> Done f))"

text \<open>\<open>Save\<close> and \<open>Delete\<close> on the visible rows of that id; deleting none is \<open>ErrNotFound\<close>.\<close>

definition filter_save :: "(go_context \<Rightarrow> saved_filter \<Rightarrow> bool) \<Rightarrow> bool \<Rightarrow> go_context \<Rightarrow> saved_filter \<Rightarrow> filters \<Rightarrow> unit answer \<times> filters" where
  "filter_save scope failing ctx f t =
     (if failing then (Refused RepoErr, t)
      else (Done (), map (\<lambda>g. if sf_ID g = sf_ID f \<and> scope ctx g then f else g) t))"

definition filter_remove :: "(go_context \<Rightarrow> saved_filter \<Rightarrow> bool) \<Rightarrow> bool \<Rightarrow> go_context \<Rightarrow> uuid \<Rightarrow> filters \<Rightarrow> unit answer \<times> filters" where
  "filter_remove scope failing ctx i t =
     (if failing then (Refused RepoErr, t)
      else if list_ex (\<lambda>g. sf_ID g = i) (visible scope ctx t)
      then (Done (), filter (\<lambda>g. \<not> (sf_ID g = i \<and> scope ctx g)) t)
      else (Refused RowNotFound, t))"

subsection \<open>The service\<close>

definition checkOwnership :: "go_context \<Rightarrow> saved_filter \<Rightarrow> unit answer" where
  "checkOwnership ctx f =
     (case acting_user ctx of
        Done u \<Rightarrow> if sf_UserID f \<noteq> u then Refused AccessDenied else Done ()
      | Refused e \<Rightarrow> Refused e
      | Panicked \<Rightarrow> Panicked)"

text \<open>\<open>fresh_id\<close> is the id the database generates, \<open>now\<close> the time.\<close>

definition filter_Create :: "(go_context \<Rightarrow> saved_filter \<Rightarrow> bool) \<Rightarrow> (nat \<Rightarrow> bool) \<Rightarrow> uuid \<Rightarrow> int \<Rightarrow> go_context \<Rightarrow> create_input
    \<Rightarrow> filters \<Rightarrow> saved_filter answer \<times> filters" where
  "filter_Create scope fails fresh_id now ctx input t =
     (case acting_user ctx of
        Panicked \<Rightarrow> (Panicked, t)
      | Refused e \<Rightarrow> (Refused e, t)
      | Done u \<Rightarrow>
          (if fails 0 then (Refused RepoErr, t)
           else if CountByUserAndEntity scope ctx u (ci_Entity input) t \<ge> maxFiltersPerUser then (Refused MaxFiltersReached, t)
           else
             (case cb_BeforeCreate ctx uuid_Nil of
                HookErr m \<Rightarrow> (Refused (HookFailed m), t)
              | HookPanic \<Rightarrow> (Panicked, t)
              | HookOk companyID \<Rightarrow>
                  if fails 1 then (Refused RepoErr, t)
                  else
                    (let f = \<lparr>sf_ID = fresh_id, sf_CompanyID = companyID, sf_UserID = u, sf_Entity = ci_Entity input,
                              sf_Name = ci_Name input, sf_Filter = ci_Filter input, sf_View = ci_View input,
                              sf_Pinned = True, sf_CreatedAt = now, sf_UpdatedAt = now\<rparr>
                     in (Done f, t @ [f])))))"

definition apply_update :: "update_input \<Rightarrow> int \<Rightarrow> saved_filter \<Rightarrow> saved_filter" where
  "apply_update input now f =
     f\<lparr>sf_Name := (case ui_Name input of Some n \<Rightarrow> n | None \<Rightarrow> sf_Name f),
       sf_Filter := (case ui_Filter input of Some n \<Rightarrow> n | None \<Rightarrow> sf_Filter f),
       sf_View := (case ui_View input of Some n \<Rightarrow> n | None \<Rightarrow> sf_View f),
       sf_Pinned := (case ui_Pinned input of Some n \<Rightarrow> n | None \<Rightarrow> sf_Pinned f),
       sf_UpdatedAt := now\<rparr>"

text \<open>The start of the operations on one filter: look it up and check its owner.\<close>

definition owned :: "(go_context \<Rightarrow> saved_filter \<Rightarrow> bool) \<Rightarrow> bool \<Rightarrow> go_context \<Rightarrow> uuid \<Rightarrow> filters \<Rightarrow> saved_filter answer" where
  "owned scope failing ctx i t =
     (case filter_row scope failing ctx i t of
        Done f \<Rightarrow> (case checkOwnership ctx f of Done _ \<Rightarrow> Done f | Refused e \<Rightarrow> Refused e | Panicked \<Rightarrow> Panicked)
      | Refused e \<Rightarrow> Refused e
      | Panicked \<Rightarrow> Panicked)"

definition save_as :: "(go_context \<Rightarrow> saved_filter \<Rightarrow> bool) \<Rightarrow> bool \<Rightarrow> go_context \<Rightarrow> saved_filter \<Rightarrow> filters \<Rightarrow> saved_filter answer \<times> filters" where
  "save_as scope failing ctx f t =
     (case filter_save scope failing ctx f t of
        (Done _, t') \<Rightarrow> (Done f, t') | (Refused e, t') \<Rightarrow> (Refused e, t') | (Panicked, t') \<Rightarrow> (Panicked, t'))"

definition filter_Update :: "(go_context \<Rightarrow> saved_filter \<Rightarrow> bool) \<Rightarrow> (nat \<Rightarrow> bool) \<Rightarrow> int \<Rightarrow> go_context \<Rightarrow> uuid \<Rightarrow> update_input
    \<Rightarrow> filters \<Rightarrow> saved_filter answer \<times> filters" where
  "filter_Update scope fails now ctx i input t =
     (case owned scope (fails 0) ctx i t of
        Done f \<Rightarrow> save_as scope (fails 1) ctx (apply_update input now f) t
      | Refused e \<Rightarrow> (Refused e, t)
      | Panicked \<Rightarrow> (Panicked, t))"

definition filter_SetPinned :: "(go_context \<Rightarrow> saved_filter \<Rightarrow> bool) \<Rightarrow> (nat \<Rightarrow> bool) \<Rightarrow> int \<Rightarrow> go_context \<Rightarrow> uuid \<Rightarrow> bool
    \<Rightarrow> filters \<Rightarrow> saved_filter answer \<times> filters" where
  "filter_SetPinned scope fails now ctx i pinned t =
     (case owned scope (fails 0) ctx i t of
        Done f \<Rightarrow>
          if sf_Pinned f = pinned then (Done f, t)
          else save_as scope (fails 1) ctx (f\<lparr>sf_Pinned := pinned, sf_UpdatedAt := now\<rparr>) t
      | Refused e \<Rightarrow> (Refused e, t)
      | Panicked \<Rightarrow> (Panicked, t))"

definition filter_Delete :: "(go_context \<Rightarrow> saved_filter \<Rightarrow> bool) \<Rightarrow> (nat \<Rightarrow> bool) \<Rightarrow> go_context \<Rightarrow> uuid \<Rightarrow> filters \<Rightarrow> unit answer \<times> filters" where
  "filter_Delete scope fails ctx i t =
     (case owned scope (fails 0) ctx i t of
        Done f \<Rightarrow> filter_remove scope (fails 1) ctx i t
      | Refused e \<Rightarrow> (Refused e, t)
      | Panicked \<Rightarrow> (Panicked, t))"

subsection \<open>Counting\<close>

text \<open>The registry of counting callbacks, keyed by the lower-cased entity type; a callback counts the
  entities a stored filter matches, or fails.\<close>

type_synonym count_funcs = "string \<Rightarrow> (string \<Rightarrow> int option) option"

definition RegisterCountFunc :: "string \<Rightarrow> (string \<Rightarrow> int option) \<Rightarrow> count_funcs \<Rightarrow> count_funcs" where
  "RegisterCountFunc entityType fn m = m(go_lower entityType \<mapsto> fn)"

definition getCountFunc :: "count_funcs \<Rightarrow> string \<Rightarrow> (string \<Rightarrow> int option) option" where
  "getCountFunc m entityType = m (go_lower entityType)"

definition filter_Count :: "count_funcs \<Rightarrow> string \<Rightarrow> string \<Rightarrow> int option" where
  "filter_Count m entityType flt = (case getCountFunc m entityType of None \<Rightarrow> Some 0 | Some fn \<Rightarrow> fn flt)"

text \<open>The loop of \<open>List\<close>: the first failing count ends it.\<close>

fun count_all :: "(string \<Rightarrow> int option) option \<Rightarrow> saved_filter list \<Rightarrow> (saved_filter \<times> int) list option" where
  "count_all fn [] = Some []"
| "count_all fn (f # fs) =
     (case (case fn of None \<Rightarrow> Some 0 | Some g \<Rightarrow> g (sf_Filter f)) of
        None \<Rightarrow> None
      | Some n \<Rightarrow> map_option (\<lambda>rest. (f, n) # rest) (count_all fn fs))"

definition filter_List :: "(go_context \<Rightarrow> saved_filter \<Rightarrow> bool) \<Rightarrow> (nat \<Rightarrow> bool) \<Rightarrow> count_funcs \<Rightarrow> go_context \<Rightarrow> string \<Rightarrow> filters
    \<Rightarrow> (saved_filter \<times> int) list answer" where
  "filter_List scope fails m ctx entityType t =
     (case acting_user ctx of
        Panicked \<Rightarrow> Panicked
      | Refused e \<Rightarrow> Refused e
      | Done u \<Rightarrow>
          if fails 0 then Refused RepoErr
          else (case count_all (getCountFunc m entityType) (ListByUserAndEntity scope ctx u entityType t) of
                  None \<Rightarrow> Refused CountErr | Some xs \<Rightarrow> Done xs))"

definition filter_GetByID :: "(go_context \<Rightarrow> saved_filter \<Rightarrow> bool) \<Rightarrow> (nat \<Rightarrow> bool) \<Rightarrow> count_funcs \<Rightarrow> go_context \<Rightarrow> uuid \<Rightarrow> filters
    \<Rightarrow> (saved_filter \<times> int) answer" where
  "filter_GetByID scope fails m ctx i t =
     (case owned scope (fails 0) ctx i t of
        Done f \<Rightarrow> (case filter_Count m (sf_Entity f) (sf_Filter f) of None \<Rightarrow> Refused CountErr | Some n \<Rightarrow> Done (f, n))
      | Refused e \<Rightarrow> Refused e
      | Panicked \<Rightarrow> Panicked)"

subsection \<open>Ownership\<close>

lemma owned_Done:
  assumes "owned scope failing ctx i t = Done f"
  shows "f \<in> set t \<and> sf_ID f = i \<and> scope ctx f \<and> acting_user ctx = Done (sf_UserID f)"
proof -
  obtain g where "filter_row scope failing ctx i t = Done g" "checkOwnership ctx g = Done ()" "f = g"
    using assms by (auto simp: owned_def split: answer.splits)
  moreover from this(2) have "acting_user ctx = Done (sf_UserID g)"
    by (auto simp: checkOwnership_def split: answer.splits if_splits)
  moreover have "find (\<lambda>f. sf_ID f = i) (visible scope ctx t) = Some g"
    using calculation(1) by (auto simp: filter_row_def split: if_splits option.splits)
  then have "g \<in> set (visible scope ctx t)" "sf_ID g = i" by (auto simp: find_Some_iff)
  ultimately show ?thesis by (simp add: visible_def)
qed

lemma filter_map_irrelevant:
  "\<forall>g\<in>set t. h g = g \<or> \<not> P g \<and> \<not> P (h g) \<Longrightarrow> filter P (map h t) = filter P t"
  by (induction t) auto

lemma save_others:
  assumes "f \<in> set t" and "distinct (map sf_ID t)" and "sf_ID f' = sf_ID f" and "sf_UserID f = u" and "sf_UserID f' = u"
    and "save_as scope failing ctx f' t = (ans, t')"
  shows "filter (\<lambda>g. sf_UserID g \<noteq> u) t' = filter (\<lambda>g. sf_UserID g \<noteq> u) t"
proof -
  have "\<forall>g\<in>set t. sf_ID g = sf_ID f \<longrightarrow> g = f" using assms(1,2) by (auto simp: distinct_map dest: inj_onD)
  moreover have "t' = t \<or> t' = map (\<lambda>g. if sf_ID g = sf_ID f' \<and> scope ctx g then f' else g) t"
    using assms(6) by (auto simp: save_as_def filter_save_def split: if_splits)
  moreover have "filter (\<lambda>g. sf_UserID g \<noteq> u) (map (\<lambda>g. if sf_ID g = sf_ID f' \<and> scope ctx g then f' else g) t)
      = filter (\<lambda>g. sf_UserID g \<noteq> u) t"
    using calculation(1) assms(3-5) by (intro filter_map_irrelevant ballI) (simp, metis)
  ultimately show ?thesis by auto
qed

text \<open>Whatever a user does, the filters of every other user stay as they are.\<close>

lemma Update_others:
  assumes "distinct (map sf_ID t)" and "acting_user ctx = Done u" and "filter_Update scope fails now ctx i input t = (ans, t')"
  shows "filter (\<lambda>g. sf_UserID g \<noteq> u) t' = filter (\<lambda>g. sf_UserID g \<noteq> u) t"
proof (cases "owned scope (fails 0) ctx i t")
  case (Done f)
  note o = owned_Done [OF Done]
  have "sf_ID (apply_update input now f) = sf_ID f" "sf_UserID (apply_update input now f) = sf_UserID f"
    by (simp_all add: apply_update_def)
  with o assms Done show ?thesis
    by (intro save_others [of f t "apply_update input now f"]) (auto simp: filter_Update_def)
qed (use assms in \<open>auto simp: filter_Update_def\<close>)

lemma SetPinned_others:
  assumes "distinct (map sf_ID t)" and "acting_user ctx = Done u" and "filter_SetPinned scope fails now ctx i pinned t = (ans, t')"
  shows "filter (\<lambda>g. sf_UserID g \<noteq> u) t' = filter (\<lambda>g. sf_UserID g \<noteq> u) t"
proof (cases "owned scope (fails 0) ctx i t")
  case (Done f)
  note o = owned_Done [OF Done]
  show ?thesis
  proof (cases "sf_Pinned f = pinned")
    case False
    with o assms Done show ?thesis
      by (intro save_others [of f t "f\<lparr>sf_Pinned := pinned, sf_UpdatedAt := now\<rparr>"]) (auto simp: filter_SetPinned_def)
  qed (use assms Done in \<open>auto simp: filter_SetPinned_def\<close>)
qed (use assms in \<open>auto simp: filter_SetPinned_def\<close>)

lemma Delete_others:
  assumes "distinct (map sf_ID t)" and "acting_user ctx = Done u" and "filter_Delete scope fails ctx i t = (ans, t')"
  shows "filter (\<lambda>g. sf_UserID g \<noteq> u) t' = filter (\<lambda>g. sf_UserID g \<noteq> u) t"
proof (cases "owned scope (fails 0) ctx i t")
  case (Done f)
  note o = owned_Done [OF Done]
  have "\<forall>g\<in>set t. sf_ID g = i \<longrightarrow> g = f" using o assms(1) by (auto simp: distinct_map dest: inj_onD)
  then have "filter (\<lambda>g. sf_UserID g \<noteq> u) (filter (\<lambda>g. \<not> (sf_ID g = i \<and> scope ctx g)) t) = filter (\<lambda>g. sf_UserID g \<noteq> u) t"
    unfolding filter_filter using o assms(2) by (intro filter_cong refl) auto
  moreover have "t' = t \<or> t' = filter (\<lambda>g. \<not> (sf_ID g = i \<and> scope ctx g)) t"
    using assms(3) Done by (auto simp: filter_Delete_def filter_remove_def split: if_splits)
  ultimately show ?thesis by auto
qed (use assms in \<open>auto simp: filter_Delete_def\<close>)

lemma Create_others:
  assumes "acting_user ctx = Done u" and "filter_Create scope fails fresh_id now ctx input t = (ans, t')"
  shows "filter (\<lambda>g. sf_UserID g \<noteq> u) t' = filter (\<lambda>g. sf_UserID g \<noteq> u) t"
  using assms by (auto simp: filter_Create_def Let_def split: if_splits hook.splits)

text \<open>What is read is one's own, too.\<close>

lemma GetByID_own:
  assumes "filter_GetByID scope fails m ctx i t = Done (f, n)"
  shows "f \<in> set t \<and> sf_ID f = i \<and> acting_user ctx = Done (sf_UserID f)"
proof -
  have "owned scope (fails 0) ctx i t = Done f"
    using assms by (auto simp: filter_GetByID_def split: answer.splits option.splits)
  then show ?thesis using owned_Done by blast
qed

lemma count_all_fst: "count_all fn fs = Some xs \<Longrightarrow> map fst xs = fs"
  by (induction fs arbitrary: xs) (auto split: option.splits)

lemma List_own:
  assumes "filter_List scope fails m ctx e t = Done xs" and "acting_user ctx = Done u"
  shows "set (map fst xs) = {f \<in> set t. scope ctx f \<and> sf_UserID f = u \<and> sf_Entity f = e}"
proof -
  have "map fst xs = ListByUserAndEntity scope ctx u e t"
    using assms by (auto simp: filter_List_def dest: count_all_fst split: if_splits option.splits)
  then show ?thesis by (auto simp: ListByUserAndEntity_def visible_def simp del: set_map)
qed

subsection \<open>The limit\<close>

lemma Create_limit:
  assumes "acting_user ctx = Done u" and "filter_Create scope fails fresh_id now ctx input t = (ans, t')"
    and "CountByUserAndEntity scope ctx u e t \<le> maxFiltersPerUser"
  shows "CountByUserAndEntity scope ctx u e t' \<le> maxFiltersPerUser"
  using assms by (auto simp: filter_Create_def CountByUserAndEntity_def visible_def Let_def split: if_splits hook.splits)

lemma Create_at_limit:
  assumes "acting_user ctx = Done u" and "\<not> fails 0" and "CountByUserAndEntity scope ctx u (ci_Entity input) t = maxFiltersPerUser"
  shows "filter_Create scope fails fresh_id now ctx input t = (Refused MaxFiltersReached, t)"
  using assms by (simp add: filter_Create_def)

text \<open>The count and the insertion are two statements without a transaction: two creations that count
  before either inserts go over the limit.\<close>

lemma limit_race:
  assumes "acting_user ctx = Done u" and "\<And>n. \<not> fails n" and "cb_BeforeCreate ctx uuid_Nil = HookOk c"
    and "CountByUserAndEntity scope ctx u (ci_Entity input) t < maxFiltersPerUser"
  shows "\<exists>f. filter_Create scope fails i now ctx input t = (Done f, t @ [f]) \<and> sf_UserID f = u \<and> sf_Entity f = ci_Entity input
    \<and> (\<forall>g. scope ctx f \<and> scope ctx g \<and> sf_UserID g = u \<and> sf_Entity g = ci_Entity input
         \<and> CountByUserAndEntity scope ctx u (ci_Entity input) t = 9 \<longrightarrow>
         CountByUserAndEntity scope ctx u (ci_Entity input) (t @ [g] @ [f]) = 11)"
  using assms by (simp add: filter_Create_def Let_def CountByUserAndEntity_def visible_def)

text \<open>Counting ignores the case of the entity type, the limit and the list do not: "Shipment" and
  "shipment" are one kind to the callbacks and two to the limit.\<close>

lemma count_ignores_case: "go_lower a = go_lower b \<Longrightarrow> filter_Count m a flt = filter_Count m b flt"
  by (simp add: filter_Count_def getCountFunc_def)

lemma registered_found: "getCountFunc (RegisterCountFunc e fn m) e' = (if go_lower e' = go_lower e then Some fn else getCountFunc m e')"
  by (simp add: getCountFunc_def RegisterCountFunc_def)

lemma limit_keeps_case:
  "e \<noteq> e' \<Longrightarrow> CountByUserAndEntity scope ctx u e (t @ [f\<lparr>sf_Entity := e'\<rparr>]) = CountByUserAndEntity scope ctx u e t"
  by (simp add: CountByUserAndEntity_def visible_def)

text \<open>A context with a system actor has no claims to read a user from.\<close>

lemma system_actor_panics: "filter_Create scope fails i now (WithSystemActor ctx) input t = (Panicked, t)"
  by (simp add: filter_Create_def acting_user_def ctx_simps system_actor_def)

end
