(* ===== verification/Repository.thy ===== *)
theory Repository
  imports Query_Filter
begin

text \<open>
  The generic repository (\<open>src/tmsdb/repository.go\<close>), the reading of update inputs (\<open>src/utils/utils.go\<close>) and the
  filters that another service resolves (\<open>src/tmsdb/cross_service.go\<close>, \<open>struct_filter.go\<close>).

  A table is the list of its rows of a type \<open>'r\<close>; an environment gives a row's id and which rows the statement
  can touch (what the tenant plugin leaves). \<open>failing\<close> says that the statement's execution fails. A column
  is a function of the row. Loading through GORM and soft deletion are not modelled.
\<close>

subsection \<open>Update inputs\<close>

datatype 'v field_value = PtrField "'v option" | PlainField 'v

record 'v input_field =
  tag_mapstructure :: string
  tag_json :: string
  field_val :: "'v field_value"

datatype 'v update_source = NilPointer | NotAStruct | StructInput "'v input_field list"

definition field_tag :: "'v input_field \<Rightarrow> string" where
  "field_tag f =
     (let tag = (if tag_mapstructure f = '''' then tag_json f else tag_mapstructure f) in
      takeWhile (\<lambda>c. c \<noteq> CHR '','') tag)"

fun struct_fields :: "'v input_field list \<Rightarrow> (string \<times> 'v) list \<Rightarrow> (string \<times> 'v) list" where
  "struct_fields [] out = out"
| "struct_fields (f # fs) out =
     (let tag = field_tag f in
      if tag = '''' \<or> tag = ''-'' then struct_fields fs out
      else
        (case field_val f of
           PtrField None \<Rightarrow> struct_fields fs out
         | PtrField (Some v) \<Rightarrow> struct_fields fs (AList.update tag v out)
         | PlainField v \<Rightarrow> struct_fields fs (AList.update tag v out)))"

definition StructToMap :: "'v update_source \<Rightarrow> (string \<times> 'v) list" where
  "StructToMap input = (case input of NilPointer \<Rightarrow> [] | NotAStruct \<Rightarrow> [] | StructInput fs \<Rightarrow> struct_fields fs [])"

text \<open>\<open>sets f k v\<close>: the field writes \<open>v\<close> under \<open>k\<close>.\<close>

definition sets :: "'v input_field \<Rightarrow> string \<Rightarrow> 'v \<Rightarrow> bool" where
  "sets f k v \<longleftrightarrow> field_tag f = k \<and> k \<noteq> '''' \<and> k \<noteq> ''-'' \<and> (field_val f = PtrField (Some v) \<or> field_val f = PlainField v)"

lemma struct_fields_map:
  "map_of (struct_fields fs out) k =
     (case filter (\<lambda>f. \<exists>v. sets f k v) fs of [] \<Rightarrow> map_of out k | gs \<Rightarrow> Some (THE v. sets (last gs) k v))"
proof (induction fs arbitrary: out)
  case (Cons f fs)
  have the: "(THE v. sets f k v) = v" if "sets f k v" for v
    using that by (auto simp: sets_def)
  show ?case
  proof (cases "\<exists>v. sets f k v")
    case True
    then obtain v where v: "sets f k v" by blast
    then have "struct_fields (f # fs) out = struct_fields fs (AList.update k v out)"
      by (auto simp: sets_def Let_def)
    then show ?thesis using v the [OF v] Cons.IH [of "AList.update k v out"]
      by (auto simp: update_conv' split: list.split)
  next
    case False
    have "map_of (AList.update (field_tag f) v out) k = map_of out k" if "field_tag f \<noteq> k" for v
      using that by (simp add: update_conv')
    then have "map_of (struct_fields (f # fs) out) k = map_of (struct_fields fs out) k \<or>
        (\<exists>v. struct_fields (f # fs) out = struct_fields fs (AList.update (field_tag f) v out) \<and> field_tag f \<noteq> k)"
      using False by (auto simp: sets_def Let_def split: field_value.split option.split)
    then show ?thesis using False Cons.IH by (auto simp: update_conv' split: list.split)
  qed
qed simp

text \<open>A nil pointer never reaches the update; a field that is no pointer always does, its zero value too.\<close>

lemma StructToMap_keys:
  "k \<in> fst ` set (StructToMap (StructInput fs)) \<longleftrightarrow> (\<exists>f\<in>set fs. \<exists>v. sets f k v)"
proof -
  have "k \<in> fst ` set (StructToMap (StructInput fs)) \<longleftrightarrow> map_of (StructToMap (StructInput fs)) k \<noteq> None"
    by (simp add: map_of_eq_None_iff)
  also have "\<dots> \<longleftrightarrow> filter (\<lambda>f. \<exists>v. sets f k v) fs \<noteq> []"
    by (simp add: StructToMap_def struct_fields_map split: list.split)
  finally show ?thesis by (simp add: filter_empty_conv)
qed

lemma StructToMap_nil_skipped: "field_val f = PtrField None \<Longrightarrow> \<not> sets f k v"
  by (simp add: sets_def)

subsection \<open>The repository\<close>

record 'r repo_env =
  row_id :: "'r \<Rightarrow> string"
  in_scope :: "'r \<Rightarrow> bool"

datatype repo_err = ErrNotFound | DbErr

definition repo_Create :: "bool \<Rightarrow> 'r \<Rightarrow> 'r list \<Rightarrow> repo_err option \<times> 'r list" where
  "repo_Create failing e t = (if failing then (Some DbErr, t) else (None, t @ [e]))"

text \<open>\<open>Save\<close> is GORM's; \<open>save\<close> says whether it fails and what the table is then.\<close>

definition repo_Update :: "('r \<Rightarrow> 'r list \<Rightarrow> bool \<times> 'r list) \<Rightarrow> 'r \<Rightarrow> 'r list \<Rightarrow> repo_err option \<times> 'r list" where
  "repo_Update save e t = (case save e t of (ok, t') \<Rightarrow> (if ok then None else Some DbErr, t'))"

definition touched :: "'r repo_env \<Rightarrow> string \<Rightarrow> 'r \<Rightarrow> bool" where
  "touched E i r \<longleftrightarrow> row_id E r = i \<and> in_scope E r"

text \<open>\<open>set_columns\<close> is the effect of the SET clause on a row.\<close>

definition repo_UpdateFields :: "'r repo_env \<Rightarrow> ((string \<times> 'v) list \<Rightarrow> 'r \<Rightarrow> 'r) \<Rightarrow> bool \<Rightarrow> string \<Rightarrow> 'v update_source
    \<Rightarrow> 'r list \<Rightarrow> repo_err option \<times> 'r list" where
  "repo_UpdateFields E set_columns failing i input t =
     (let updates = StructToMap input in
      if length updates = 0 then (None, t)
      else if failing then (Some DbErr, t)
      else if length (filter (touched E i) t) = 0 then (Some ErrNotFound, t)
      else (None, map (\<lambda>r. if touched E i r then set_columns updates r else r) t))"

definition repo_Delete :: "'r repo_env \<Rightarrow> bool \<Rightarrow> string \<Rightarrow> 'r list \<Rightarrow> repo_err option \<times> 'r list" where
  "repo_Delete E failing i t =
     (if failing then (Some DbErr, t)
      else if length (filter (touched E i) t) = 0 then (Some ErrNotFound, t)
      else (None, filter (\<lambda>r. \<not> touched E i r) t))"

definition repo_GetByID :: "'r repo_env \<Rightarrow> bool \<Rightarrow> string \<Rightarrow> 'r list \<Rightarrow> repo_err + 'r" where
  "repo_GetByID E failing i t =
     (if failing then Inl DbErr else (case find (touched E i) t of None \<Rightarrow> Inl ErrNotFound | Some r \<Rightarrow> Inr r))"

definition repo_GetByColumn :: "'r repo_env \<Rightarrow> bool \<Rightarrow> ('r \<Rightarrow> 'c) \<Rightarrow> 'c \<Rightarrow> 'r list \<Rightarrow> repo_err + 'r list" where
  "repo_GetByColumn E failing column v t =
     (if failing then Inl DbErr else Inr (filter (\<lambda>r. column r = v \<and> in_scope E r) t))"

text \<open>\<open>First\<close> orders by the primary key; \<open>by_key\<close> sorts so.\<close>

definition repo_GetFirstByColumn :: "'r repo_env \<Rightarrow> ('r list \<Rightarrow> 'r list) \<Rightarrow> bool \<Rightarrow> ('r \<Rightarrow> 'c) \<Rightarrow> 'c \<Rightarrow> 'r list \<Rightarrow> repo_err + 'r" where
  "repo_GetFirstByColumn E by_key failing column v t =
     (if failing then Inl DbErr
      else (case by_key (filter (\<lambda>r. column r = v \<and> in_scope E r) t) of [] \<Rightarrow> Inl ErrNotFound | r # _ \<Rightarrow> Inr r))"

definition repo_GetByIDs :: "'r repo_env \<Rightarrow> bool \<Rightarrow> string list \<Rightarrow> 'r list \<Rightarrow> repo_err + 'r list" where
  "repo_GetByIDs E failing ids t =
     (if length ids = 0 then Inr []
      else if failing then Inl DbErr
      else Inr (filter (\<lambda>r. row_id E r \<in> set ids \<and> in_scope E r) t))"

text \<open>\<open>List\<close> and \<open>Count\<close>: the caller's filters on a builder of the model, then the builder's query.\<close>

definition repo_List :: "dialect \<Rightarrow> (string list \<Rightarrow> row list \<Rightarrow> row list) \<Rightarrow> row list \<Rightarrow> bool \<times> bool \<Rightarrow> condition option
    \<Rightarrow> pagination_input option \<Rightarrow> (row list \<times> pagination) option" where
  "repo_List D order_rows table fails applyFilters p =
     (let fb = newFilterBuilder; fb = (case applyFilters of Some f \<Rightarrow> f fb | None \<Rightarrow> fb) in
      FindWithCount D order_rows table fails p fb)"

definition repo_Count :: "dialect \<Rightarrow> row list \<Rightarrow> condition option \<Rightarrow> int" where
  "repo_Count D table applyFilters =
     (let fb = newFilterBuilder; fb = (case applyFilters of Some f \<Rightarrow> f fb | None \<Rightarrow> fb) in fb_Count D table fb)"

subsection \<open>What the operations keep\<close>

text \<open>Rows outside the scope are untouched by every operation, and are in none of its results.\<close>

lemma repo_scope:
  "repo_GetByID E failing i t = Inr r \<Longrightarrow> r \<in> set t \<and> row_id E r = i \<and> in_scope E r"
  "repo_GetByIDs E failing ids t = Inr rs \<Longrightarrow> r \<in> set rs \<Longrightarrow> r \<in> set t \<and> row_id E r \<in> set ids \<and> in_scope E r"
  "repo_GetByColumn E failing column v t = Inr rs \<Longrightarrow> r \<in> set rs \<Longrightarrow> r \<in> set t \<and> column r = v \<and> in_scope E r"
  by (auto simp: repo_GetByID_def repo_GetByIDs_def repo_GetByColumn_def touched_def find_Some_iff split: if_splits option.splits)

lemma repo_Delete_scope:
  "repo_Delete E failing i t = (err, t') \<Longrightarrow> filter (\<lambda>r. \<not> in_scope E r) t' = filter (\<lambda>r. \<not> in_scope E r) t"
proof -
  have "filter (\<lambda>r. \<not> in_scope E r) (filter (\<lambda>r. \<not> touched E i r) t) = filter (\<lambda>r. \<not> in_scope E r) t"
    unfolding filter_filter by (intro filter_cong refl) (auto simp: touched_def)
  then show "repo_Delete E failing i t = (err, t') \<Longrightarrow> ?thesis" by (auto simp: repo_Delete_def split: if_splits)
qed

lemma repo_Delete_then_get:
  assumes "repo_Delete E failing i t = (None, t')"
  shows "repo_GetByID E False i t' = Inl ErrNotFound"
proof -
  have "t' = filter (\<lambda>r. \<not> touched E i r) t" using assms by (auto simp: repo_Delete_def split: if_splits)
  then have "find (touched E i) t' = None" by (auto simp: find_None_iff)
  then show ?thesis by (simp add: repo_GetByID_def)
qed

text \<open>Deleting and updating are "not found" exactly where reading is - but an update with nothing to write
  succeeds for an id that does not exist.\<close>

lemma not_found_agrees:
  assumes "length (StructToMap input) \<noteq> 0"
  shows "repo_GetByID E False i t = Inl ErrNotFound \<longleftrightarrow> fst (repo_Delete E False i t) = Some ErrNotFound"
    and "repo_GetByID E False i t = Inl ErrNotFound \<longleftrightarrow> fst (repo_UpdateFields E g False i input t) = Some ErrNotFound"
proof -
  have "find (touched E i) t = None \<longleftrightarrow> filter (touched E i) t = []" by (auto simp: find_None_iff filter_empty_conv)
  then show "repo_GetByID E False i t = Inl ErrNotFound \<longleftrightarrow> fst (repo_Delete E False i t) = Some ErrNotFound"
      "repo_GetByID E False i t = Inl ErrNotFound \<longleftrightarrow> fst (repo_UpdateFields E g False i input t) = Some ErrNotFound"
    using assms by (auto simp: repo_GetByID_def repo_Delete_def repo_UpdateFields_def Let_def split: option.split)
qed

lemma empty_update_succeeds: "StructToMap input = [] \<Longrightarrow> repo_UpdateFields E g failing i input t = (None, t)"
  by (simp add: repo_UpdateFields_def)

lemma GetByIDs_no_filter_widening: "repo_GetByIDs E failing [] t = Inr []"
  by (simp add: repo_GetByIDs_def)

text \<open>What \<open>Save\<close> is known to do: it updates the row of the entity's id where the statement can touch it; when it touched none, it
  inserts the entity, and on a conflict of ids updates all columns - a statement the plugin does not narrow.\<close>

definition save_law :: "'r repo_env \<Rightarrow> ('r \<Rightarrow> 'r list \<Rightarrow> bool \<times> 'r list) \<Rightarrow> bool" where
  "save_law E save \<longleftrightarrow> (\<forall>e t t'. save e t = (True, t') \<longrightarrow>
     t' = (if filter (touched E (row_id E e)) t \<noteq> [] then map (\<lambda>r. if touched E (row_id E e) r then e else r) t
           else if filter (\<lambda>r. row_id E r = row_id E e) t = [] then t @ [e]
           else map (\<lambda>r. if row_id E r = row_id E e then e else r) t))"

lemma Update_saves:
  assumes "save_law E save" "repo_Update save e t = (None, t')"
  shows "e \<in> set t'" and "\<forall>r\<in>set t. row_id E r \<noteq> row_id E e \<longrightarrow> r \<in> set t'"
proof -
  have "save e t = (True, t')" using assms(2) by (auto simp: repo_Update_def split: prod.splits if_splits)
  then have t': "t' = (if filter (touched E (row_id E e)) t \<noteq> [] then map (\<lambda>r. if touched E (row_id E e) r then e else r) t
           else if filter (\<lambda>r. row_id E r = row_id E e) t = [] then t @ [e]
           else map (\<lambda>r. if row_id E r = row_id E e then e else r) t)"
    using assms(1) unfolding save_law_def by blast
  show "e \<in> set t'" using t' by (auto simp: filter_empty_conv image_iff)
  show "\<forall>r\<in>set t. row_id E r \<noteq> row_id E e \<longrightarrow> r \<in> set t'" using t' by (auto simp: touched_def image_iff)
qed

text \<open>So an update with the id of a row outside the caller's scope replaces that row.\<close>

lemma Update_crosses_scope:
  assumes "save_law E save" "repo_Update save e t = (None, t')"
    and "r \<in> set t" "row_id E r = row_id E e" "\<not> in_scope E r" "\<And>q. q \<in> set t \<Longrightarrow> row_id E q = row_id E e \<Longrightarrow> q = r" "r \<noteq> e"
  shows "r \<notin> set t' \<and> e \<in> set t'"
proof -
  have "save e t = (True, t')" using assms(2) by (auto simp: repo_Update_def split: prod.splits if_splits)
  moreover have "filter (touched E (row_id E e)) t = []" using assms(5,6) by (auto simp: touched_def filter_empty_conv)
  moreover have "filter (\<lambda>r. row_id E r = row_id E e) t \<noteq> []" using assms(3,4) by (auto simp: filter_empty_conv)
  ultimately have "t' = map (\<lambda>r. if row_id E r = row_id E e then e else r) t"
    using assms(1) unfolding save_law_def by presburger
  then show ?thesis using assms(3,4,7) by (auto simp: image_iff)
qed

subsection \<open>Filters resolved by another service\<close>

text \<open>A resolver answers with ids or an error; it is \<open>None\<close> when the interface is nil.\<close>

record ('f, 'e) cross_filter =
  LocalField :: string
  Resolver :: "('f \<Rightarrow> 'e + string list) option"
  RemoteFilter :: "'f option"

definition resolve :: "('f, 'e) cross_filter option \<Rightarrow> ('e + string list) option" where
  "resolve csf =
     (case csf of
        None \<Rightarrow> None
      | Some c \<Rightarrow> (case (Resolver c, RemoteFilter c) of (Some r, Some f) \<Rightarrow> Some (r f) | _ \<Rightarrow> None))"

definition ApplyCrossService :: "('f, 'e) cross_filter option \<Rightarrow> filter_builder \<Rightarrow> 'e option \<times> filter_builder" where
  "ApplyCrossService csf fb =
     (case resolve csf of
        None \<Rightarrow> (None, fb)
      | Some (Inl e) \<Rightarrow> (Some e, fb)
      | Some (Inr ids) \<Rightarrow> (None, fb_InIDs (LocalField (the csf)) ids fb))"

record 'e cross_result =
  cr_LocalField :: string
  cr_IDs :: "string list"
  cr_Error :: "'e option"

text \<open>The slot a filter's goroutine fills; a skipped filter leaves the zero value.\<close>

definition cross_slot :: "('f, 'e) cross_filter option \<Rightarrow> 'e cross_result" where
  "cross_slot csf =
     (case resolve csf of
        None \<Rightarrow> \<lparr>cr_LocalField = '''', cr_IDs = [], cr_Error = None\<rparr>
      | Some (Inl e) \<Rightarrow> \<lparr>cr_LocalField = LocalField (the csf), cr_IDs = [], cr_Error = Some e\<rparr>
      | Some (Inr ids) \<Rightarrow> \<lparr>cr_LocalField = LocalField (the csf), cr_IDs = ids, cr_Error = None\<rparr>)"

fun apply_slots :: "'e cross_result list \<Rightarrow> filter_builder \<Rightarrow> filter_builder" where
  "apply_slots [] fb = fb"
| "apply_slots (r # rs) fb =
     apply_slots rs (if cr_Error r = None \<and> cr_LocalField r \<noteq> '''' then fb_InIDs (cr_LocalField r) (cr_IDs r) fb else fb)"

definition ApplyCrossServiceBatch :: "('f, 'e) cross_filter option list \<Rightarrow> filter_builder \<Rightarrow> 'e cross_result list \<times> filter_builder" where
  "ApplyCrossServiceBatch filters fb =
     (if length filters = 0 then ([], fb)
      else (let results = map cross_slot filters in (results, apply_slots results fb)))"

text \<open>One filter after the other with \<open>ApplyCrossService\<close>, stopping at the first error.\<close>

fun one_by_one :: "('f, 'e) cross_filter option list \<Rightarrow> filter_builder \<Rightarrow> 'e option \<times> filter_builder" where
  "one_by_one [] fb = (None, fb)"
| "one_by_one (c # cs) fb =
     (case ApplyCrossService c fb of (Some e, fb') \<Rightarrow> (Some e, fb') | (None, fb') \<Rightarrow> one_by_one cs fb')"

text \<open>The parallel batch is the sequential application when every resolver answers (and the fields are
  named).\<close>

lemma slots_step:
  assumes "ApplyCrossService c fb = (None, fb')" and "c = None \<or> LocalField (the c) \<noteq> ''''"
  shows "apply_slots (cross_slot c # rs) fb = apply_slots rs fb'"
  using assms by (auto simp: ApplyCrossService_def cross_slot_def resolve_def split: option.splits sum.splits)

lemma batch_is_sequential:
  assumes "one_by_one filters fb = (None, fb')" and "\<forall>c\<in>set filters. c = None \<or> LocalField (the c) \<noteq> ''''"
  shows "snd (ApplyCrossServiceBatch filters fb) = fb'"
proof -
  have "apply_slots (map cross_slot filters) fb = fb'"
    using assms
  proof (induction filters arbitrary: fb)
    case (Cons c cs)
    obtain fb1 where "ApplyCrossService c fb = (None, fb1)" "one_by_one cs fb1 = (None, fb')"
      using Cons.prems(1) by (auto split: prod.splits option.splits)
    then show ?case using Cons.IH [of fb1] Cons.prems(2) slots_step [of c fb fb1] by auto
  qed simp
  then show ?thesis by (auto simp: ApplyCrossServiceBatch_def Let_def)
qed

text \<open>A resolved filter selects only rows whose field is among the ids, and none when there are none; it never
  widens the query.\<close>

lemma resolved_selects:
  assumes "resolve (Some c) = Some (Inr ids)" and "matches D (snd (ApplyCrossService (Some c) fb)) r"
  shows "matches D fb r \<and> (\<exists>s\<in>set ids. r (LocalField c) = Some (VString s))"
  using assms by (auto simp: ApplyCrossService_def fb_InIDs_def matches_add_where split: if_splits option.splits)

text \<open>When its resolver fails, one filter alone is an error; in a batch it is silently left out, and the query
  answers with the rows it should have excluded.\<close>

lemma single_fails_closed: "resolve c = Some (Inl e) \<Longrightarrow> ApplyCrossService c fb = (Some e, fb)"
  by (simp add: ApplyCrossService_def)

lemma batch_fails_open: "resolve c = Some (Inl e) \<Longrightarrow> snd (ApplyCrossServiceBatch [c] fb) = fb"
  by (simp add: ApplyCrossServiceBatch_def cross_slot_def)

subsection \<open>Filters from a protobuf struct\<close>

text \<open>\<open>raw\<close> are the fields of the struct as JSON texts, \<open>decode\<close> is \<open>json.Unmarshal\<close> into the filter's type: an absent or
  malformed field is no filter.\<close>

definition NewStructFilter :: "'s option \<Rightarrow> ('s \<Rightarrow> (string \<times> string) list option) \<Rightarrow> (string \<times> string) list" where
  "NewStructFilter s marshal = (case s of None \<Rightarrow> [] | Some v \<Rightarrow> (case marshal v of None \<Rightarrow> [] | Some raw \<Rightarrow> raw))"

definition struct_get :: "(string \<Rightarrow> 'f option) \<Rightarrow> (string \<times> string) list \<Rightarrow> string \<Rightarrow> 'f option" where
  "struct_get decode raw key = (case map_of raw key of None \<Rightarrow> None | Some d \<Rightarrow> decode d)"

text \<open>\<open>ToFilterStruct\<close>: each value through JSON; a nil value and one that cannot be converted are left out.\<close>

fun filter_fields :: "('v \<Rightarrow> 'j option) \<Rightarrow> (string \<times> 'v option) list \<Rightarrow> (string \<times> 'j) list" where
  "filter_fields convert [] = []"
| "filter_fields convert ((k, v) # rest) =
     (case v of None \<Rightarrow> filter_fields convert rest
      | Some x \<Rightarrow> (case convert x of None \<Rightarrow> filter_fields convert rest | Some j \<Rightarrow> (k, j) # filter_fields convert rest))"

definition ToFilterStruct :: "('v \<Rightarrow> 'j option) \<Rightarrow> ((string \<times> 'j) list \<Rightarrow> 's option) \<Rightarrow> (string \<times> 'v option) list \<Rightarrow> 's option" where
  "ToFilterStruct convert new_struct flds = (if length flds = 0 then None else new_struct (filter_fields convert flds))"

text \<open>A filter a client packs is the one the server reads, when JSON round-trips it and keeps the fields.\<close>

lemma filter_fields_lookup:
  "distinct (map fst flds) \<Longrightarrow> map_of flds k = Some (Some x) \<Longrightarrow> convert x = Some j \<Longrightarrow>
     map_of (filter_fields convert flds) k = Some j"
  by (induction convert flds rule: filter_fields.induct) (auto split: option.splits if_splits simp: rev_image_eqI dest: map_of_SomeD)

lemma struct_filter_roundtrip:
  assumes "ToFilterStruct convert new_struct flds = Some s" and "distinct (map fst flds)"
    and "map_of flds k = Some (Some x)" and "convert x = Some j"
    and "\<And>m s. new_struct m = Some s \<Longrightarrow> marshal s = Some (map (\<lambda>(k, j). (k, text j)) m)"
    and "decode (text j) = Some y"
  shows "struct_get decode (NewStructFilter (Some s) marshal) k = Some y"
proof -
  have "new_struct (filter_fields convert flds) = Some s" using assms(1) by (auto simp: ToFilterStruct_def split: if_splits)
  then have "NewStructFilter (Some s) marshal = map (\<lambda>(k, j). (k, text j)) (filter_fields convert flds)"
    using assms(5) by (simp add: NewStructFilter_def)
  then show ?thesis
    using filter_fields_lookup [where convert = convert, OF assms(2-4)] assms(6) by (simp add: struct_get_def map_of_map)
qed

end
