(* ===== verification/Go_Text.thy ===== *)
theory Go_Text
  imports Go_Csv
begin

text \<open>
  Go's \<open>strings\<close> functions on UTF-8 text, where the difference from the ASCII ones of \<open>Go_Prelude\<close> matters:
  white space is Unicode's, and lowering and raising reach the letters outside ASCII whose image can be ASCII
  or Latin-1.
\<close>

definition ascii_spaces :: "string list" where
  "ascii_spaces = [[CHR '' ''], [CHR 0x09], [CHR 0x0A], [CHR 0x0B], [CHR 0x0C], [CHR 0x0D]]"

definition all_spaces :: "string list" where
  "all_spaces = ascii_spaces @ wide_spaces"

text \<open>What is left once no word of \<open>ws\<close> starts the text.\<close>

function drop_leading :: "string list \<Rightarrow> string \<Rightarrow> string" where
  "drop_leading ws [] = []"
| "drop_leading ws (c # cs) =
     (case find (\<lambda>w. prefix w (c # cs)) ws of
        Some w \<Rightarrow> drop_leading ws (drop (length w - 1) cs)
      | None \<Rightarrow> c # cs)"
  by pat_completeness auto
termination by (relation "measure (\<lambda>(ws, s). length s)") auto

text \<open>\<open>strings.TrimSpace\<close>: the last rune of a text is a wide space exactly when its encoding ends the text,
  since no encoding of a space is the tail of another rune's.\<close>

definition TrimSpace :: "string \<Rightarrow> string" where
  "TrimSpace s = rev (drop_leading (map rev all_spaces) (rev (drop_leading all_spaces s)))"

definition starts_blank :: "string \<Rightarrow> bool" where
  "starts_blank s \<longleftrightarrow> s \<noteq> [] \<and> (\<exists>w \<in> set all_spaces. prefix w s)"

definition ends_blank :: "string \<Rightarrow> bool" where
  "ends_blank s \<longleftrightarrow> s \<noteq> [] \<and> (\<exists>w \<in> set all_spaces. suffix w s)"

lemma find_in: "find P xs = Some x \<Longrightarrow> x \<in> set xs \<and> P x"
  by (auto simp: find_Some_iff)

lemma drop_leading_id: "\<forall>w \<in> set ws. \<not> prefix w s \<Longrightarrow> drop_leading ws s = s"
  by (cases s) (auto split: option.split dest: find_in)

lemma drop_leading_suffix: "suffix (drop_leading ws s) s"
proof (induction ws s rule: drop_leading.induct)
  case (2 ws c cs)
  show ?case
  proof (cases "find (\<lambda>w. prefix w (c # cs)) ws")
    case (Some w)
    then have "suffix (drop_leading ws (drop (length w - 1) cs)) (drop (length w - 1) cs)" by (rule "2.IH")
    then have "suffix (drop_leading ws (drop (length w - 1) cs)) cs"
      using suffix_drop suffix_order.trans by blast
    then show ?thesis using Some by (simp add: suffix_ConsI)
  qed simp
qed simp

lemma drop_leading_done: "[] \<notin> set ws \<Longrightarrow> w \<in> set ws \<Longrightarrow> \<not> prefix w (drop_leading ws s)"
  by (induction ws s rule: drop_leading.induct) (auto simp: find_None_iff split: option.split)

lemma spaces_nonempty: "[] \<notin> set all_spaces"
  by (simp add: all_spaces_def ascii_spaces_def wide_spaces_def)

lemma TrimSpace_id: "\<not> starts_blank s \<Longrightarrow> \<not> ends_blank s \<Longrightarrow> TrimSpace s = s"
  using spaces_nonempty
  by (cases "s = []") (auto simp: TrimSpace_def starts_blank_def ends_blank_def drop_leading_id suffix_to_prefix)

lemma TrimSpace_not_ends_blank: "\<not> ends_blank (TrimSpace s)"
  using drop_leading_done [of "map rev all_spaces"] spaces_nonempty
  by (auto simp: TrimSpace_def ends_blank_def suffix_to_prefix)

lemma TrimSpace_infix: "\<exists>a b. s = a @ TrimSpace s @ b"
proof -
  obtain a where "s = a @ drop_leading all_spaces s"
    using drop_leading_suffix [of all_spaces s] by (auto simp: suffix_def)
  moreover obtain b where "rev (drop_leading all_spaces s) = b @ rev (TrimSpace s)"
    using drop_leading_suffix [of "map rev all_spaces" "rev (drop_leading all_spaces s)"]
    by (auto simp: suffix_def TrimSpace_def)
  then have "drop_leading all_spaces s = TrimSpace s @ rev b"
    by (metis rev_append rev_rev_ident)
  ultimately show ?thesis by metis
qed

lemma TrimSpace_not_starts_blank: "\<not> starts_blank (TrimSpace s)"
proof
  assume "starts_blank (TrimSpace s)"
  then obtain w where w: "w \<in> set all_spaces" "prefix w (TrimSpace s)" by (auto simp: starts_blank_def)
  have "suffix (rev (TrimSpace s)) (rev (drop_leading all_spaces s))"
    using drop_leading_suffix [of "map rev all_spaces" "rev (drop_leading all_spaces s)"] by (simp add: TrimSpace_def)
  then have "prefix (TrimSpace s) (drop_leading all_spaces s)" by (simp add: suffix_to_prefix)
  then show False using w drop_leading_done [OF spaces_nonempty] prefix_order.trans by blast
qed

lemma TrimSpace_idem: "TrimSpace (TrimSpace s) = TrimSpace s"
  by (simp add: TrimSpace_id TrimSpace_not_starts_blank TrimSpace_not_ends_blank)

subsection \<open>Fields and case\<close>

text \<open>Every white space as a blank, for \<open>strings.Fields\<close>.\<close>

function blank_spaces :: "string \<Rightarrow> string" where
  "blank_spaces [] = []"
| "blank_spaces (c # cs) =
     (case find (\<lambda>w. prefix w (c # cs)) wide_spaces of
        Some w \<Rightarrow> CHR '' '' # blank_spaces (drop (length w - 1) cs)
      | None \<Rightarrow> c # blank_spaces cs)"
  by pat_completeness auto
termination by (relation "measure length") auto

text \<open>Lowering maps ASCII, the Latin-1 letters and the two other letters whose lower case is ASCII (the Kelvin
  sign and the dotted capital I); raising maps ASCII and the two letters whose upper case is ASCII (dotless i,
  long s). The other letters are left as they are: what Go makes of them is no text the callers look for.\<close>

fun lower_utf8 :: "string \<Rightarrow> string" where
  "lower_utf8 (a # b # c # s) =
     (if a = CHR 0xE2 \<and> b = CHR 0x84 \<and> c = CHR 0xAA then CHR ''k'' # lower_utf8 s
      else if a = CHR 0xC4 \<and> b = CHR 0xB0 then CHR ''i'' # lower_utf8 (c # s)
      else if a = CHR 0xC3 \<and> byte_in (CHR 0x80) (CHR 0x9E) b \<and> b \<noteq> CHR 0x97
      then a # char_of (of_char b + (32 :: nat)) # lower_utf8 (c # s)
      else to_lower_char a # lower_utf8 (b # c # s))"
| "lower_utf8 [a, b] =
     (if a = CHR 0xC4 \<and> b = CHR 0xB0 then ''i''
      else if a = CHR 0xC3 \<and> byte_in (CHR 0x80) (CHR 0x9E) b \<and> b \<noteq> CHR 0x97 then [a, char_of (of_char b + (32 :: nat))]
      else [to_lower_char a, to_lower_char b])"
| "lower_utf8 s = map to_lower_char s"

fun upper_utf8 :: "string \<Rightarrow> string" where
  "upper_utf8 (a # b # s) =
     (if a = CHR 0xC4 \<and> b = CHR 0xB1 then CHR ''I'' # upper_utf8 s
      else if a = CHR 0xC5 \<and> b = CHR 0xBF then CHR ''S'' # upper_utf8 s
      else to_upper_char a # upper_utf8 (b # s))"
| "upper_utf8 s = map to_upper_char s"

lemma lower_utf8_ascii: "\<forall>c \<in> set s. (of_char c :: nat) < 128 \<Longrightarrow> lower_utf8 s = map to_lower_char s"
  by (induction s rule: lower_utf8.induct) auto

end
