(* ===== verification/Address.thy ===== *)
theory Address
  imports Go_Text
begin

text \<open>
  The state normalizer of postal addresses (\<open>src/address/state.go\<close>): a US state or territory or a Canadian
  province, by name or code, to its two-letter code.
\<close>

subsection \<open>The normalizer\<close>

definition stateNameToCode :: "(string \<times> string) list" where
  "stateNameToCode = [
     (''alabama'', ''AL''), (''alaska'', ''AK''), (''arizona'', ''AZ''), (''arkansas'', ''AR''),
     (''california'', ''CA''), (''colorado'', ''CO''), (''connecticut'', ''CT''), (''delaware'', ''DE''),
     (''florida'', ''FL''), (''georgia'', ''GA''), (''hawaii'', ''HI''), (''idaho'', ''ID''),
     (''illinois'', ''IL''), (''indiana'', ''IN''), (''iowa'', ''IA''), (''kansas'', ''KS''),
     (''kentucky'', ''KY''), (''louisiana'', ''LA''), (''maine'', ''ME''), (''maryland'', ''MD''),
     (''massachusetts'', ''MA''), (''michigan'', ''MI''), (''minnesota'', ''MN''), (''mississippi'', ''MS''),
     (''missouri'', ''MO''), (''montana'', ''MT''), (''nebraska'', ''NE''), (''nevada'', ''NV''),
     (''new hampshire'', ''NH''), (''new jersey'', ''NJ''), (''new mexico'', ''NM''), (''new york'', ''NY''),
     (''north carolina'', ''NC''), (''north dakota'', ''ND''), (''ohio'', ''OH''), (''oklahoma'', ''OK''),
     (''oregon'', ''OR''), (''pennsylvania'', ''PA''), (''rhode island'', ''RI''), (''south carolina'', ''SC''),
     (''south dakota'', ''SD''), (''tennessee'', ''TN''), (''texas'', ''TX''), (''utah'', ''UT''),
     (''vermont'', ''VT''), (''virginia'', ''VA''), (''washington'', ''WA''), (''west virginia'', ''WV''),
     (''wisconsin'', ''WI''), (''wyoming'', ''WY''), (''district of columbia'', ''DC''), (''puerto rico'', ''PR''),
     (''guam'', ''GU''), (''american samoa'', ''AS''), (''virgin islands'', ''VI''),
     (''u.s. virgin islands'', ''VI''), (''us virgin islands'', ''VI''), (''northern mariana islands'', ''MP''),
     (''federated states of micronesia'', ''FM''), (''micronesia'', ''FM''), (''marshall islands'', ''MH''),
     (''palau'', ''PW''), (''united states minor outlying islands'', ''UM''), (''alberta'', ''AB''),
     (''british columbia'', ''BC''), (''manitoba'', ''MB''), (''new brunswick'', ''NB''),
     (''newfoundland and labrador'', ''NL''), (''newfoundland'', ''NL''), (''nova scotia'', ''NS''),
     (''northwest territories'', ''NT''), (''nunavut'', ''NU''), (''ontario'', ''ON''),
     (''prince edward island'', ''PE''), (''quebec'', ''QC''),
     ((''qu'' @ [CHR 0xC3] @ [CHR 0xA9] @ ''bec''), ''QC''), (''saskatchewan'', ''SK''), (''yukon'', ''YT'')]"

definition validCodes :: "string list" where
  "validCodes = map snd stateNameToCode"

definition StateCode :: "string \<Rightarrow> string" where
  "StateCode state =
     (let s = join_with '' '' (go_fields (blank_spaces state)) in
      if s = [] then []
      else if length s = 2 then (let up = upper_utf8 s in if up \<in> set validCodes then up else [])
      else (case map_of stateNameToCode (lower_utf8 s) of Some code \<Rightarrow> code | None \<Rightarrow> []))"

definition IsValidCode :: "string \<Rightarrow> bool" where
  "IsValidCode code \<longleftrightarrow> upper_utf8 (TrimSpace code) \<in> set validCodes"

definition Normalize :: "string option \<Rightarrow> string option" where
  "Normalize state =
     (case state of None \<Rightarrow> None | Some s \<Rightarrow> (let code = StateCode s in if code \<noteq> [] then Some code else None))"

definition Clean :: "string option \<Rightarrow> string option" where
  "Clean state =
     (case state of None \<Rightarrow> None | Some s \<Rightarrow> (let code = StateCode s in if code \<noteq> [] then Some code else state))"

definition CleanString :: "string \<Rightarrow> string" where
  "CleanString state = (let code = StateCode state in if code \<noteq> [] then code else state)"

subsection \<open>What it answers\<close>

lemma StateCode_valid: "StateCode s = [] \<or> StateCode s \<in> set validCodes"
  by (force simp: StateCode_def validCodes_def Let_def split: option.split dest: map_of_SomeD)

definition plain_code :: "string \<Rightarrow> bool" where
  "plain_code c \<longleftrightarrow> length c = 2 \<and> StateCode c = c \<and> IsValidCode c"

lemma codes_plain: "list_all plain_code validCodes"
  by code_simp

text \<open>A code is its own code, and the only answers are codes: normalizing twice changes nothing.\<close>

lemma StateCode_code: "c \<in> set validCodes \<Longrightarrow> StateCode c = c \<and> c \<noteq> [] \<and> length c = 2 \<and> IsValidCode c"
  using codes_plain by (auto simp: list_all_iff plain_code_def)

lemma StateCode_idem: "StateCode (StateCode s) = StateCode s"
  using StateCode_valid [of s] StateCode_code by (auto simp: StateCode_def go_fields_def)

lemma Normalize_idem: "Normalize (Normalize s) = Normalize s"
  by (cases s) (auto simp: Normalize_def Let_def StateCode_idem)

lemma Clean_idem: "Clean (Clean s) = Clean s"
  by (cases s) (auto simp: Clean_def Let_def StateCode_idem)

lemma CleanString_idem: "CleanString (CleanString s) = CleanString s"
  by (simp add: CleanString_def Let_def StateCode_idem)

text \<open>What is written back reads as the original did: cleaning on write never changes what a client is shown.\<close>

lemma Clean_then_Normalize: "Normalize (Clean s) = Normalize s"
  by (cases s) (auto simp: Normalize_def Clean_def Let_def StateCode_idem)


lemma StateCode_examples:
  "StateCode ''  new   york '' = ''NY''" "StateCode ''ca'' = ''CA''" "StateCode ''XX'' = []"
  "StateCode (''QU'' @ [CHR 0xC3, CHR 0x89] @ ''BEC'') = ''QC''" "StateCode ''Jalisco'' = []"
  by code_simp+

end
