(* ===== verification/Rms_Gate.thy ===== *)
theory Rms_Gate
  imports Go_Text
begin

text \<open>
  The client of the policy gate (\<open>src/rmsgate\<close>) and the registration of a service's operations
  (\<open>src/rmsreg\<close>): the fail modes of the processes, the contract of required steps, the decision with its
  circuit breaker, and the registration with its retries.

  The gate is a remote service. Its answer to a request, the check of the facts by \<open>structpb.NewStruct\<close>, the
  clock readings and the replies of the HTTP registry are parameters.
\<close>

subsection \<open>Processes\<close>

datatype FailMode = FailClosed | FailOpen

definition FailMode_String :: "FailMode \<Rightarrow> string" where
  "FailMode_String m = (if m = FailOpen then ''fail-open'' else ''fail-closed'')"

record ProcessDef =
  p_Process :: string
  p_Mode :: FailMode
  p_Timeout :: int

text \<open>The registry may be absent: \<open>None\<close> is the nil pointer.\<close>

type_synonym gate_registry = "(string \<rightharpoonup> ProcessDef) option"

definition NewRegistry :: "ProcessDef list \<Rightarrow> gate_registry" where
  "NewRegistry defs = Some (fold (\<lambda>d m. m(p_Process d \<mapsto> d)) defs Map.empty)"

definition reg_Mode :: "gate_registry \<Rightarrow> string \<Rightarrow> FailMode" where
  "reg_Mode r process =
     (case r of None \<Rightarrow> FailClosed
      | Some defs \<Rightarrow> (case defs process of Some d \<Rightarrow> p_Mode d | None \<Rightarrow> FailClosed))"

definition reg_Timeout :: "gate_registry \<Rightarrow> string \<Rightarrow> int" where
  "reg_Timeout r process =
     (case r of None \<Rightarrow> 0
      | Some defs \<Rightarrow> (case defs process of Some d \<Rightarrow> p_Timeout d | None \<Rightarrow> 0))"

subsection \<open>Required steps\<close>

record rms_step =
  Kind :: string
  Arg :: string

definition FormatStep :: "string \<Rightarrow> string \<Rightarrow> string" where
  "FormatStep kind arg = (if arg = [] then kind else kind @ '':'' @ arg)"

definition ParseStep :: "string \<Rightarrow> rms_step" where
  "ParseStep raw =
     (let s = TrimSpace raw in
      if CHR '':'' \<in> set s
      then \<lparr>Kind = TrimSpace (takeWhile (\<lambda>c. c \<noteq> CHR '':'') s), Arg = tl (dropWhile (\<lambda>c. c \<noteq> CHR '':'') s)\<rparr>
      else \<lparr>Kind = s, Arg = []\<rparr>)"

definition ParseSteps :: "string list \<Rightarrow> rms_step list" where
  "ParseSteps steps = filter (\<lambda>step. Kind step \<noteq> []) (map ParseStep steps)"

lemma spaces_plain: "list_all (\<lambda>w. CHR '':'' \<notin> set w) all_spaces"
  by code_simp

lemma spaces_no_colon: "w \<in> set all_spaces \<Longrightarrow> CHR '':'' \<notin> set w"
  using spaces_plain by (auto simp: list_all_iff)

lemma prefix_before: "prefix w (a @ x # b) \<Longrightarrow> x \<notin> set w \<Longrightarrow> prefix w a"
  by (auto simp: prefix_append prefix_Cons)

lemma suffix_after: "suffix w (a @ x # b) \<Longrightarrow> x \<notin> set w \<Longrightarrow> suffix w b"
  using prefix_before [of "rev w" "rev b" x "rev a"] by (simp add: suffix_to_prefix)

lemma blank_ends:
  assumes "CHR '':'' \<notin> set kind"
  shows "starts_blank (kind @ CHR '':'' # arg) \<Longrightarrow> starts_blank kind"
    and "ends_blank (kind @ CHR '':'' # arg) \<Longrightarrow> ends_blank arg"
proof -
  assume "starts_blank (kind @ CHR '':'' # arg)"
  then obtain w where w: "w \<in> set all_spaces" "prefix w (kind @ CHR '':'' # arg)" by (auto simp: starts_blank_def)
  have "prefix w kind" using prefix_before [OF w(2)] spaces_no_colon [OF w(1)] by blast
  moreover have "w \<noteq> []" using w(1) spaces_nonempty by auto
  ultimately show "starts_blank kind" using w(1) by (cases kind) (auto simp: starts_blank_def)
next
  assume "ends_blank (kind @ CHR '':'' # arg)"
  then obtain w where w: "w \<in> set all_spaces" "suffix w (kind @ CHR '':'' # arg)" by (auto simp: ends_blank_def)
  have "suffix w arg" using suffix_after [OF w(2)] spaces_no_colon [OF w(1)] by blast
  moreover have "w \<noteq> []" using w(1) spaces_nonempty by auto
  ultimately show "ends_blank arg" using w(1) by (cases arg) (auto simp: ends_blank_def)
qed

text \<open>A step reads back as it was written when its kind is a plain word and its argument does not end in white
  space.\<close>

lemma step_roundtrip:
  assumes "CHR '':'' \<notin> set kind" and "TrimSpace kind = kind" and "\<not> ends_blank arg"
  shows "ParseStep (FormatStep kind arg) = \<lparr>Kind = kind, Arg = arg\<rparr>"
proof (cases "arg = []")
  case True
  then show ?thesis using assms by (simp add: ParseStep_def FormatStep_def)
next
  case False
  have "\<not> starts_blank kind" using TrimSpace_not_starts_blank [of kind] assms(2) by simp
  then have "TrimSpace (kind @ CHR '':'' # arg) = kind @ CHR '':'' # arg"
    using assms(3) blank_ends [OF assms(1), of arg] by (blast intro: TrimSpace_id)
  then show ?thesis
    using False assms(1,2) by (simp add: ParseStep_def FormatStep_def takeWhile_append dropWhile_append)
qed

text \<open>White space at the end of an argument is lost.\<close>

lemma step_argument_trimmed: "ParseStep (FormatStep ''notify'' ''sms '') = \<lparr>Kind = ''notify'', Arg = ''sms''\<rparr>"
  by code_simp

lemma ParseSteps_kinds: "step \<in> set (ParseSteps steps) \<Longrightarrow> Kind step \<noteq> []"
  by (simp add: ParseSteps_def)

subsection \<open>The decision\<close>

record pb_decision =
  GetAllow :: bool
  GetReasons :: "string list"
  GetRequiredSteps :: "string list"

record Decision =
  d_Allow :: bool
  d_Reasons :: "string list"
  d_RequiredSteps :: "rms_step list"
  d_FailedOpen :: bool

record 'st evaluate_request =
  q_Process :: string
  q_Transition :: string
  q_Tenant :: string
  q_Facts :: 'st

type_synonym md = "(string \<times> string) list"

text \<open>What the client is configured with, and what the world gives one call: the deadline-bound exchange with
  the gate, the clock when \<open>Decide\<close> starts and the clock when a failure is recorded. \<open>w_struct\<close> is
  \<open>structpb.NewStruct\<close>.\<close>

record gate_options =
  o_timeout :: int
  o_reg :: gate_registry

record ('f, 'st) rms_world =
  w_now :: int
  w_later :: int
  w_struct :: "'f \<Rightarrow> string + 'st"
  w_rpc :: "int \<Rightarrow> md \<Rightarrow> 'st evaluate_request \<Rightarrow> string + pb_decision"

record 'f gate_args =
  a_md :: md
  a_process :: string
  a_transition :: string
  a_tenant :: string
  a_facts :: 'f

definition defaultTimeout :: int where "defaultTimeout = 150000000"
definition circuitThreshold :: int where "circuitThreshold = 5"
definition circuitCooldown :: int where "circuitCooldown = 2000000000"

text \<open>The raw call: its result, and the exchanges it tried with the gate.\<close>

definition Evaluate :: "('f, 'st) rms_world \<Rightarrow> int \<Rightarrow> 'f gate_args
    \<Rightarrow> (string + Decision) \<times> (int \<times> md \<times> 'st evaluate_request) list" where
  "Evaluate w timeout a =
     (case w_struct w (a_facts a) of
        Inl err \<Rightarrow> (Inl err, [])
      | Inr st \<Rightarrow>
          (let md = a_md a @ [(''x-tenant-id'', a_tenant a)];
               q = \<lparr>q_Process = a_process a, q_Transition = a_transition a, q_Tenant = a_tenant a, q_Facts = st\<rparr> in
           (case w_rpc w timeout md q of
              Inl err \<Rightarrow> Inl err
            | Inr resp \<Rightarrow> Inr \<lparr>d_Allow = GetAllow resp, d_Reasons = GetReasons resp,
                d_RequiredSteps = ParseSteps (GetRequiredSteps resp), d_FailedOpen = False\<rparr>,
            [(timeout, md, q)])))"

definition failDecision :: "gate_options \<Rightarrow> string \<Rightarrow> string \<Rightarrow> Decision" where
  "failDecision opt process reason =
     (let mode = reg_Mode (o_reg opt) process in
      \<lparr>d_Allow = (mode = FailOpen),
       d_Reasons = [''rmsgate: '' @ reason @ '' ('' @ FailMode_String mode @ '')''],
       d_RequiredSteps = [], d_FailedOpen = True\<rparr>)"

text \<open>The two atomic counters of the client.\<close>

record circuit =
  failures :: int
  openUntil :: int

definition call_timeout :: "gate_options \<Rightarrow> string \<Rightarrow> int" where
  "call_timeout opt process =
     (let timeout = reg_Timeout (o_reg opt) process in if timeout \<le> 0 then o_timeout opt else timeout)"

definition Decide :: "gate_options \<Rightarrow> ('f, 'st) rms_world \<Rightarrow> 'f gate_args \<Rightarrow> circuit
    \<Rightarrow> Decision \<times> (int \<times> md \<times> 'st evaluate_request) list \<times> circuit" where
  "Decide opt w a c =
     (if openUntil c > 0 \<and> w_now w < openUntil c
      then (failDecision opt (a_process a) ''gate circuit open'', [], c)
      else
        (case Evaluate w (call_timeout opt (a_process a)) a of
           (Inl err, tried) \<Rightarrow>
             (let n = failures c + 1 in
              (failDecision opt (a_process a) (''gate unavailable: '' @ err), tried,
               if n \<ge> circuitThreshold then \<lparr>failures = 0, openUntil = w_later w + circuitCooldown\<rparr>
               else c\<lparr>failures := n\<rparr>))
         | (Inr dec, tried) \<Rightarrow> (dec, tried, c\<lparr>failures := 0\<rparr>)))"

fun run_gate :: "gate_options \<Rightarrow> (('f, 'st) rms_world \<times> 'f gate_args) list \<Rightarrow> circuit
    \<Rightarrow> (Decision \<times> (int \<times> md \<times> 'st evaluate_request) list) list \<times> circuit" where
  "run_gate opt [] c = ([], c)"
| "run_gate opt ((w, a) # calls) c =
     (case Decide opt w a c of (d, tried, c1) \<Rightarrow>
      (case run_gate opt calls c1 of (ds, c2) \<Rightarrow> ((d, tried) # ds, c2)))"

text \<open>RMS is down for a call when its exchange fails; the clock of a sequence of calls does not go back.\<close>

definition down :: "gate_options \<Rightarrow> ('f, 'st) rms_world \<times> 'f gate_args \<Rightarrow> bool" where
  "down opt x = (case x of (w, a) \<Rightarrow> isl (fst (Evaluate w (call_timeout opt (a_process a)) a)))"

fun clocked :: "int \<Rightarrow> (('f, 'st) rms_world \<times> 'f gate_args) list \<Rightarrow> bool" where
  "clocked t [] = True"
| "clocked t ((w, a) # calls) = (t \<le> w_now w \<and> w_now w \<le> w_later w \<and> clocked (w_later w) calls)"

lemma reg_Mode_New: "reg_Mode (NewRegistry defs) process = FailOpen
    \<Longrightarrow> \<exists>d \<in> set defs. p_Process d = process \<and> p_Mode d = FailOpen"
proof (induction defs rule: rev_induct)
  case (snoc d defs)
  then show ?case by (auto simp: reg_Mode_def NewRegistry_def split: if_splits)
qed (simp add: reg_Mode_def NewRegistry_def)

lemma reg_Mode_last: "reg_Mode (NewRegistry (defs @ [d])) (p_Process d) = p_Mode d"
  by (simp add: reg_Mode_def NewRegistry_def)

lemma run_gate_nth:
  assumes "i < length calls" and "calls ! i = (w, a)"
  shows "\<exists>c' c''. Decide opt w a c' = (fst (fst (run_gate opt calls c) ! i), snd (fst (run_gate opt calls c) ! i), c'')"
  using assms
proof (induction calls arbitrary: c i)
  case (Cons x calls)
  obtain v b where x: "x = (v, b)" by (cases x)
  obtain d tried c1 where D: "Decide opt v b c = (d, tried, c1)" by (metis prod_cases3)
  obtain ds c2 where R: "run_gate opt calls c1 = (ds, c2)" by fastforce
  show ?case
  proof (cases i)
    case 0
    then show ?thesis using Cons.prems D R x by auto
  next
    case (Suc j)
    then have "\<exists>c' c''. Decide opt w a c' = (fst (ds ! j), snd (ds ! j), c'')"
      using Cons.IH [of j c1] Cons.prems R by simp
    then show ?thesis using D R x Suc by simp
  qed
qed simp

lemma Decide_allows:
  assumes "Decide opt w a c = (d, tried, c')" and "d_Allow d" and "reg_Mode (o_reg opt) (a_process a) \<noteq> FailOpen"
  shows "\<exists>st resp. w_struct w (a_facts a) = Inr st
    \<and> (let md = a_md a @ [(''x-tenant-id'', a_tenant a)];
           q = \<lparr>q_Process = a_process a, q_Transition = a_transition a, q_Tenant = a_tenant a, q_Facts = st\<rparr>
       in tried = [(call_timeout opt (a_process a), md, q)]
          \<and> w_rpc w (call_timeout opt (a_process a)) md q = Inr resp \<and> GetAllow resp
          \<and> d_RequiredSteps d = ParseSteps (GetRequiredSteps resp) \<and> \<not> d_FailedOpen d)"
  using assms
  by (auto simp: Decide_def Evaluate_def failDecision_def Let_def split: if_splits sum.splits prod.splits)

text \<open>C29. A process no definition declares fail-open moves only when the gate answered yes: in any run of calls,
  whatever the clock and the failures were, an allowing decision for it comes from an exchange of this very call,
  made for the caller's tenant with the facts given, and carries the steps RMS required.\<close>

theorem fail_closed_needs_gate:
  assumes "o_reg opt = None \<or> o_reg opt = NewRegistry ps"
    and "\<forall>p \<in> set ps. p_Process p = a_process a \<longrightarrow> p_Mode p \<noteq> FailOpen"
    and "i < length calls" and "calls ! i = (w, a)"
    and "fst (run_gate opt calls c) ! i = (d, tried)" and "d_Allow d"
  shows "\<exists>st resp. w_struct w (a_facts a) = Inr st
    \<and> (let md = a_md a @ [(''x-tenant-id'', a_tenant a)];
           q = \<lparr>q_Process = a_process a, q_Transition = a_transition a, q_Tenant = a_tenant a, q_Facts = st\<rparr>
       in tried = [(call_timeout opt (a_process a), md, q)]
          \<and> w_rpc w (call_timeout opt (a_process a)) md q = Inr resp \<and> GetAllow resp
          \<and> d_RequiredSteps d = ParseSteps (GetRequiredSteps resp) \<and> \<not> d_FailedOpen d)"
proof -
  have closed: "reg_Mode (o_reg opt) (a_process a) \<noteq> FailOpen"
    using assms(1,2) reg_Mode_New [of ps "a_process a"] by (auto simp: reg_Mode_def [of None])
  obtain c' c'' where "Decide opt w a c' = (d, tried, c'')"
    using run_gate_nth [OF assms(3,4), of opt c] assms(5) by auto
  then show ?thesis using assms(6) closed by (rule Decide_allows)
qed

definition gate_says :: "(string + pb_decision) \<Rightarrow> int \<Rightarrow> int \<Rightarrow> (string, string) rms_world" where
  "gate_says answer now later = \<lparr>w_now = now, w_later = later, w_struct = Inr, w_rpc = \<lambda>_ _ _. answer\<rparr>"

definition billing_call :: "string gate_args" where
  "billing_call = \<lparr>a_md = [], a_process = ''billing'', a_transition = ''APPROVE'', a_tenant = ''acme'', a_facts = ''total''\<rparr>"

definition billing_options :: gate_options where
  "billing_options = \<lparr>o_timeout = defaultTimeout, o_reg = NewRegistry
     [\<lparr>p_Process = ''shipment'', p_Mode = FailOpen, p_Timeout = 0\<rparr>, \<lparr>p_Process = ''billing'', p_Mode = FailClosed, p_Timeout = 0\<rparr>]\<rparr>"

lemma billing_run:
  "fst (run_gate billing_options [(gate_says (Inl ''timeout'') 1 2, billing_call),
      (gate_says (Inr \<lparr>GetAllow = True, GetReasons = [], GetRequiredSteps = [''manual_approval'', '' '']\<rparr>) 3 4, billing_call)]
      \<lparr>failures = 0, openUntil = 0\<rparr>)
   = [(\<lparr>d_Allow = False, d_Reasons = [''rmsgate: gate unavailable: timeout (fail-closed)''], d_RequiredSteps = [], d_FailedOpen = True\<rparr>,
        [(150000000, [(''x-tenant-id'', ''acme'')],
          \<lparr>q_Process = ''billing'', q_Transition = ''APPROVE'', q_Tenant = ''acme'', q_Facts = ''total''\<rparr>)]),
      (\<lparr>d_Allow = True, d_Reasons = [], d_RequiredSteps = [\<lparr>Kind = ''manual_approval'', Arg = []\<rparr>], d_FailedOpen = False\<rparr>,
        [(150000000, [(''x-tenant-id'', ''acme'')],
          \<lparr>q_Process = ''billing'', q_Transition = ''APPROVE'', q_Tenant = ''acme'', q_Facts = ''total''\<rparr>)])]"
  by code_simp

lemma fail_closed_needs_gate_witness:
  "\<exists>st resp. w_struct (gate_says (Inr \<lparr>GetAllow = True, GetReasons = [], GetRequiredSteps = [''manual_approval'', '' '']\<rparr>) 3 4) ''total'' = Inr st
     \<and> w_rpc (gate_says (Inr \<lparr>GetAllow = True, GetReasons = [], GetRequiredSteps = [''manual_approval'', '' '']\<rparr>) 3 4) 150000000
         [(''x-tenant-id'', ''acme'')]
         \<lparr>q_Process = ''billing'', q_Transition = ''APPROVE'', q_Tenant = ''acme'', q_Facts = st\<rparr> = Inr resp \<and> GetAllow resp"
  using fail_closed_needs_gate [of billing_options
      "[\<lparr>p_Process = ''shipment'', p_Mode = FailOpen, p_Timeout = 0\<rparr>, \<lparr>p_Process = ''billing'', p_Mode = FailClosed, p_Timeout = 0\<rparr>]"
      billing_call 1
      "[(gate_says (Inl ''timeout'') 1 2, billing_call),
        (gate_says (Inr \<lparr>GetAllow = True, GetReasons = [], GetRequiredSteps = [''manual_approval'', '' '']\<rparr>) 3 4, billing_call)]"
      _ "\<lparr>failures = 0, openUntil = 0\<rparr>"]
  by (simp add: billing_run billing_options_def NewRegistry_def billing_call_def gate_says_def)

subsection \<open>The circuit breaker\<close>

text \<open>The calls that tried an exchange and started within the two seconds from \<open>t\<close>.\<close>

definition waited_in :: "int \<Rightarrow> (('f, 'st) rms_world \<times> 'f gate_args) \<times> Decision \<times> (int \<times> md \<times> 'st evaluate_request) list \<Rightarrow> bool" where
  "waited_in t x \<longleftrightarrow> (case x of ((w, a), d, tried) \<Rightarrow> t \<le> w_now w \<and> w_now w < t + circuitCooldown \<and> tried \<noteq> [])"

abbreviation gate_waits :: "gate_options \<Rightarrow> int \<Rightarrow> (('f, 'st) rms_world \<times> 'f gate_args) list \<Rightarrow> circuit \<Rightarrow> nat" where
  "gate_waits opt t calls c \<equiv> length (filter (waited_in t) (zip calls (fst (run_gate opt calls c))))"

text \<open>One call while RMS is down: refused while the circuit is open, else one more failure.\<close>

lemma Decide_down:
  assumes "down opt (w, a)"
  shows "Decide opt w a c =
     (if openUntil c > 0 \<and> w_now w < openUntil c then (failDecision opt (a_process a) ''gate circuit open'', [], c)
      else (failDecision opt (a_process a) (''gate unavailable: '' @ projl (fst (Evaluate w (call_timeout opt (a_process a)) a))),
            snd (Evaluate w (call_timeout opt (a_process a)) a),
            if failures c + 1 \<ge> circuitThreshold then \<lparr>failures = 0, openUntil = w_later w + circuitCooldown\<rparr>
            else c\<lparr>failures := failures c + 1\<rparr>))"
  using assms by (cases "Evaluate w (call_timeout opt (a_process a)) a") (auto simp: Decide_def down_def Let_def split: sum.split)

lemma gate_waits_Cons:
  assumes "Decide opt w a c = (d, tried, c1)"
  shows "gate_waits opt t ((w, a) # calls) c =
    (if t \<le> w_now w \<and> w_now w < t + circuitCooldown \<and> tried \<noteq> [] then 1 else 0) + gate_waits opt t calls c1"
  using assms by (simp add: waited_in_def case_prod_unfold)

lemma clocked_mono: "clocked t calls \<Longrightarrow> s \<le> t \<Longrightarrow> clocked s calls"
  by (cases calls) auto

text \<open>Once it is open past a window, nothing in the window waits any more.\<close>

lemma gate_waits_open:
  "clocked s calls \<Longrightarrow> 0 < s \<Longrightarrow> \<forall>x \<in> set calls. down opt x \<Longrightarrow> t + circuitCooldown \<le> openUntil c
    \<Longrightarrow> gate_waits opt t calls c = 0"
proof (induction calls arbitrary: c s)
  case (Cons x calls)
  obtain w a where x: "x = (w, a)" by (cases x)
  obtain d tried c1 where D: "Decide opt w a c = (d, tried, c1)" by (metis prod_cases3)
  have clk: "s \<le> w_now w" "w_now w \<le> w_later w" "clocked (w_later w) calls" using Cons.prems x by auto
  show ?case
  proof (cases "openUntil c > 0 \<and> w_now w < openUntil c")
    case True
    then have "tried = []" "c1 = c" using D Decide_down [of opt w a c] Cons.prems(3) x by simp_all
    then show ?thesis using Cons x gate_waits_Cons [OF D] clk by auto
  next
    case False
    then have "openUntil c \<le> w_now w" using Cons.prems(2) clk(1) by auto
    then have "t + circuitCooldown \<le> w_now w" "t + circuitCooldown \<le> openUntil c1"
      using D Decide_down [of opt w a c] Cons.prems(3,4) x False clk
      by (auto simp: circuitCooldown_def split: if_splits)
    then show ?thesis
      using Cons.IH [of "w_later w" c1] Cons.prems x gate_waits_Cons [OF D, of t] clk by auto
  qed
qed simp

lemma gate_waits_later: "clocked s calls \<Longrightarrow> t + circuitCooldown \<le> s \<Longrightarrow> gate_waits opt t calls c = 0"
proof (induction calls arbitrary: c s)
  case (Cons x calls)
  obtain w a where x: "x = (w, a)" by (cases x)
  obtain d tried c1 where D: "Decide opt w a c = (d, tried, c1)" by (metis prod_cases3)
  show ?case using Cons.IH [of "w_later w" c1] Cons.prems x gate_waits_Cons [OF D, of t] by auto
qed simp

lemma gate_waits_from:
  "clocked s calls \<Longrightarrow> 0 < s \<Longrightarrow> t \<le> s \<Longrightarrow> \<forall>x \<in> set calls. down opt x
    \<Longrightarrow> 0 \<le> failures c \<Longrightarrow> failures c < circuitThreshold
    \<Longrightarrow> gate_waits opt t calls c \<le> nat (circuitThreshold - failures c)"
proof (induction calls arbitrary: c s)
  case (Cons x calls)
  obtain w a where x: "x = (w, a)" by (cases x)
  obtain d tried c1 where D: "Decide opt w a c = (d, tried, c1)" by (metis prod_cases3)
  have clk: "s \<le> w_now w" "w_now w \<le> w_later w" "clocked (w_later w) calls" using Cons.prems x by auto
  have down: "\<forall>x \<in> set calls. down opt x" using Cons.prems by simp
  note eq = Decide_down [of opt w a c, unfolded D]
  consider (refused) "openUntil c > 0 \<and> w_now w < openUntil c"
    | (opens) "\<not> (openUntil c > 0 \<and> w_now w < openUntil c)" "failures c + 1 \<ge> circuitThreshold"
    | (counts) "\<not> (openUntil c > 0 \<and> w_now w < openUntil c)" "failures c + 1 < circuitThreshold"
    by fastforce
  then show ?case
  proof cases
    case refused
    then have "tried = []" "c1 = c" using eq Cons.prems(4) x by simp_all
    then show ?thesis using Cons.IH [of "w_later w" c] Cons.prems x gate_waits_Cons [OF D] clk by auto
  next
    case opens
    then have "openUntil c1 = w_later w + circuitCooldown" using eq Cons.prems(4) x by (simp split: if_splits)
    then have "gate_waits opt t calls c1 = 0"
      using gate_waits_open [OF clk(3) _ down, of t c1] Cons.prems(2,3) clk by simp
    then show ?thesis using gate_waits_Cons [OF D, of t calls] x Cons.prems(6) by auto
  next
    case counts
    then have "failures c1 = failures c + 1" using eq Cons.prems(4) x by (simp split: if_splits)
    then have "gate_waits opt t calls c1 \<le> nat (circuitThreshold - (failures c + 1))"
      using Cons.IH [of "w_later w" c1] Cons.prems clk down counts by auto
    then show ?thesis using gate_waits_Cons [OF D, of t calls] x Cons.prems(6) counts by auto
  qed
qed simp

lemma Decide_down_failures:
  "down opt (w, a) \<Longrightarrow> Decide opt w a c = (d, tried, c1) \<Longrightarrow> 0 \<le> failures c \<Longrightarrow> failures c < circuitThreshold
    \<Longrightarrow> 0 \<le> failures c1 \<and> failures c1 < circuitThreshold"
  by (auto simp: Decide_down circuitThreshold_def split: if_splits)


definition outage :: "((string, string) rms_world \<times> string gate_args) list" where
  "outage = map (\<lambda>k. (gate_says (Inl ''timeout'') k k, billing_call)) [1, 2, 3, 4, 5, 6, 7]"

lemma outage_waits:
  "map (\<lambda>(d, tried). tried \<noteq> []) (fst (run_gate billing_options outage \<lparr>failures = 0, openUntil = 0\<rparr>))
   = [True, True, True, True, True, False, False]"
  by code_simp


text \<open>The first call after the cooldown is tried again, and an answer is RMS's own and closes the circuit.\<close>

lemma gate_recovers:
  assumes "openUntil c \<le> w_now w" and "Evaluate w (call_timeout opt (a_process a)) a = (Inr dec, tried)"
  shows "Decide opt w a c = (dec, tried, c\<lparr>failures := 0\<rparr>)"
  using assms by (simp add: Decide_def)

text \<open>Facts that \<open>structpb.NewStruct\<close> refuses never reach RMS, yet count as its failures: five calls with such
  facts, of one process and tenant, stop the exchanges of every process and every tenant for two seconds.\<close>

definition bad_facts :: "int \<Rightarrow> (string, string) rms_world \<times> string gate_args" where
  "bad_facts k = ((gate_says (Inl []) k k)\<lparr>w_struct := \<lambda>_. Inl ''invalid type''\<rparr>,
     billing_call\<lparr>a_process := ''shipment'', a_tenant := ''umbrella''\<rparr>)"

lemma bad_facts_open_circuit:
  "map (\<lambda>(d, tried). (d_Allow d, length tried)) (fst (run_gate billing_options
      (map bad_facts [1, 2, 3, 4, 5] @
        [(gate_says (Inr \<lparr>GetAllow = True, GetReasons = [], GetRequiredSteps = []\<rparr>) 6 7, billing_call)])
      \<lparr>failures = 0, openUntil = 0\<rparr>))
   = [(True, 0), (True, 0), (True, 0), (True, 0), (True, 0), (False, 0)]"
  by code_simp

subsection \<open>Concurrent callers\<close>

text \<open>The counters are shared by the goroutines of a service, which access them by single atomic operations. A call
  is idle, waits for its exchange, has seen the threshold and is about to store \<open>openUntil\<close>, or has stored it and
  is about to store zero failures. Anything may happen between.\<close>

datatype gate_phase = Idle | Waiting | Opening | Resetting

record gate_state =
  gs_failures :: int
  gs_openUntil :: int
  gs_phase :: "nat \<Rightarrow> gate_phase"
  gs_clock :: int

inductive gate_step :: "gate_state \<Rightarrow> gate_state \<Rightarrow> bool" where
  tick: "0 \<le> dt \<Longrightarrow> gate_step g (g\<lparr>gs_clock := gs_clock g + dt\<rparr>)"
| enter: "gs_phase g i = Idle \<Longrightarrow> \<not> (gs_openUntil g > 0 \<and> gs_clock g < gs_openUntil g)
    \<Longrightarrow> gate_step g (g\<lparr>gs_phase := (gs_phase g)(i := Waiting)\<rparr>)"
| answered: "gs_phase g i = Waiting \<Longrightarrow> gate_step g (g\<lparr>gs_failures := 0, gs_phase := (gs_phase g)(i := Idle)\<rparr>)"
| failed: "gs_phase g i = Waiting
    \<Longrightarrow> gate_step g (g\<lparr>gs_failures := gs_failures g + 1,
          gs_phase := (gs_phase g)(i := (if gs_failures g + 1 \<ge> circuitThreshold then Opening else Idle))\<rparr>)"
| opens: "gs_phase g i = Opening
    \<Longrightarrow> gate_step g (g\<lparr>gs_openUntil := gs_clock g + circuitCooldown, gs_phase := (gs_phase g)(i := Resetting)\<rparr>)"
| resets: "gs_phase g i = Resetting
    \<Longrightarrow> gate_step g (g\<lparr>gs_failures := 0, gs_phase := (gs_phase g)(i := Idle)\<rparr>)"

definition gate_inv :: "gate_state \<Rightarrow> bool" where
  "gate_inv g \<longleftrightarrow> 0 \<le> gs_failures g
     \<and> (gs_failures g \<ge> circuitThreshold \<longrightarrow> (\<exists>i. gs_phase g i \<in> {Opening, Resetting}))
     \<and> gs_openUntil g \<le> gs_clock g + circuitCooldown"

lemma gate_step_inv: "gate_step g g' \<Longrightarrow> gate_inv g \<Longrightarrow> gate_inv g'"
proof (induction rule: gate_step.induct)
  case (enter g i)
  then have "gs_phase g j \<in> {Opening, Resetting} \<Longrightarrow> j \<noteq> i" for j by auto
  then show ?case using enter.prems unfolding gate_inv_def by auto
next
  case (failed g i)
  then have "gs_phase g j \<in> {Opening, Resetting} \<Longrightarrow> j \<noteq> i" for j by auto
  then show ?case using failed.prems unfolding gate_inv_def by (auto simp: circuitThreshold_def)
next
  case (opens g i)
  then show ?case unfolding gate_inv_def by (auto simp: circuitCooldown_def)
qed (auto simp: gate_inv_def circuitThreshold_def circuitCooldown_def)

text \<open>However the callers interleave, when none of them is in the middle of its bookkeeping the counter is below the
  threshold again, and the circuit never stays open longer than two seconds from now.\<close>

lemma gate_never_stuck:
  assumes "gate_step\<^sup>*\<^sup>* \<lparr>gs_failures = 0, gs_openUntil = 0, gs_phase = \<lambda>_. Idle, gs_clock = t\<rparr> g" and "0 \<le> t"
  shows "((\<forall>i. gs_phase g i \<in> {Idle, Waiting}) \<longrightarrow> gs_failures g < circuitThreshold)
    \<and> gs_openUntil g \<le> gs_clock g + circuitCooldown"
proof -
  have "gate_inv g"
    using assms(1)
  proof (induction rule: rtranclp_induct)
    case base
    then show ?case using assms(2) by (simp add: gate_inv_def circuitThreshold_def circuitCooldown_def)
  next
    case (step g g')
    then show ?case using gate_step_inv by blast
  qed
  moreover have "gs_phase g i \<in> {Opening, Resetting} \<Longrightarrow> gs_phase g i \<notin> {Idle, Waiting}" for i by auto
  ultimately show ?thesis unfolding gate_inv_def by (metis not_le)
qed

text \<open>A call on its own is a run of these steps.\<close>

abbreviation gate_at :: "circuit \<Rightarrow> int \<Rightarrow> gate_state" where
  "gate_at c t \<equiv> \<lparr>gs_failures = failures c, gs_openUntil = openUntil c, gs_phase = \<lambda>_. Idle, gs_clock = t\<rparr>"

lemma Decide_steps:
  assumes "Decide opt w a c = (d, tried, c')" and "w_now w \<le> w_later w"
  shows "gate_step\<^sup>*\<^sup>* (gate_at c (w_now w)) (gate_at c' (w_later w))"
proof -
  let ?open = "openUntil c > 0 \<and> w_now w < openUntil c"
  have tick: "gate_step g (g\<lparr>gs_clock := w_later w\<rparr>)" if "gs_clock g = w_now w" for g
    using gate_step.tick [of "w_later w - w_now w" g] assms(2) that by simp
  show ?thesis
  proof (cases ?open)
    case True
    then have "c' = c" using assms(1) by (simp add: Decide_def)
    then show ?thesis using tick [of "gate_at c (w_now w)"] by simp
  next
    case False
    let ?w = "(gate_at c (w_now w))\<lparr>gs_phase := (\<lambda>_. Idle)(0 := Waiting)\<rparr>"
    let ?l = "?w\<lparr>gs_clock := w_later w\<rparr>"
    have "gate_step (gate_at c (w_now w)) ?w" using enter [of "gate_at c (w_now w)" 0] False by simp
    moreover have "gate_step ?w ?l" by (rule tick) simp
    ultimately have pre: "gate_step\<^sup>*\<^sup>* (gate_at c (w_now w)) ?l" by (meson converse_rtranclp_into_rtranclp rtranclp.rtrancl_refl)
    have idle: "(\<lambda>_. Idle)(0 := Idle) = (\<lambda>_ :: nat. Idle)" by auto
    show ?thesis
    proof (cases "Evaluate w (call_timeout opt (a_process a)) a")
      case (Pair r tr)
      show ?thesis
      proof (cases r)
        case (Inr dec)
        then have "c' = c\<lparr>failures := 0\<rparr>" using assms(1) False Pair by (simp add: Decide_def)
        then have "gate_step ?l (gate_at c' (w_later w))" using answered [of ?l 0] idle by simp
        then show ?thesis using pre by (rule rtranclp.rtrancl_into_rtrancl [rotated])
      next
        case (Inl err)
        show ?thesis
        proof (cases "failures c + 1 \<ge> circuitThreshold")
          case False
          then have "c' = c\<lparr>failures := failures c + 1\<rparr>"
            using assms(1) \<open>\<not> ?open\<close> Pair Inl by (simp add: Decide_def Let_def)
          then have "gate_step ?l (gate_at c' (w_later w))" using failed [of ?l 0] idle False by simp
          then show ?thesis using pre by (rule rtranclp.rtrancl_into_rtrancl [rotated])
        next
          case True
          then have c': "c' = \<lparr>failures = 0, openUntil = w_later w + circuitCooldown\<rparr>"
            using assms(1) \<open>\<not> ?open\<close> Pair Inl by (simp add: Decide_def Let_def)
          let ?f = "?l\<lparr>gs_failures := failures c + 1, gs_phase := (\<lambda>_. Idle)(0 := Opening)\<rparr>"
          let ?o = "?f\<lparr>gs_openUntil := w_later w + circuitCooldown, gs_phase := (\<lambda>_. Idle)(0 := Resetting)\<rparr>"
          have "gate_step ?l ?f" using failed [of ?l 0] True by simp
          moreover have "gate_step ?f ?o" using opens [of ?f 0] by simp
          moreover have "gate_step ?o (gate_at c' (w_later w))" using resets [of ?o 0] c' idle by simp
          ultimately show ?thesis using pre by (meson rtranclp.rtrancl_into_rtrancl)
        qed
      qed
    qed
  qed
qed

subsection \<open>Registration\<close>

text \<open>One reply of the registry: its status line, code and body, or the failure of the exchange. \<open>cancelled i\<close> is
  the error of a context that ends before the pause after attempt \<open>i\<close> is over.\<close>

datatype http_reply = NetErr string | HttpStatus int string string

definition register_refused :: "string \<Rightarrow> string \<Rightarrow> string \<Rightarrow> string" where
  "register_refused what status body = what @ '': '' @ status @ '': '' @ TrimSpace (take 4096 body)"

text \<open>The loop over the attempts: the error returned, if any, and how many requests were sent.\<close>

fun register_loop :: "string \<Rightarrow> (nat \<Rightarrow> http_reply) \<Rightarrow> (nat \<Rightarrow> string option) \<Rightarrow> nat list \<Rightarrow> string option
    \<Rightarrow> string option \<times> nat" where
  "register_loop what reply cancelled [] lastErr = (lastErr, 0)"
| "register_loop what reply cancelled (i # is) lastErr =
     (let pause = (\<lambda>err. case cancelled i of
                     Some e \<Rightarrow> (Some e, 1)
                   | None \<Rightarrow> (case register_loop what reply cancelled is (Some err) of (r, n) \<Rightarrow> (r, Suc n))) in
      case reply i of
        HttpStatus code status body \<Rightarrow>
          (if code < 300 then (None, 1)
           else if code < 500 then (Some (register_refused what status body), 1)
           else pause (register_refused what status body))
      | NetErr e \<Rightarrow> pause e)"

definition registerJSON :: "('p \<Rightarrow> string + string) \<Rightarrow> string option \<Rightarrow> (nat \<Rightarrow> http_reply) \<Rightarrow> (nat \<Rightarrow> string option)
    \<Rightarrow> string \<Rightarrow> 'p \<Rightarrow> string option \<times> nat" where
  "registerJSON marshal bad_url reply cancelled url payload =
     (case marshal payload of
        Inl err \<Rightarrow> (Some (''rmsgate: marshal: '' @ err), 0)
      | Inr body \<Rightarrow>
          (case bad_url of
             Some err \<Rightarrow> (Some err, 0)
           | None \<Rightarrow> register_loop (''rmsgate: register '' @ url) reply cancelled [1, 2, 3] None))"

definition RegisterContracts :: "('p \<Rightarrow> string + string) \<Rightarrow> string option \<Rightarrow> (nat \<Rightarrow> http_reply) \<Rightarrow> (nat \<Rightarrow> string option)
    \<Rightarrow> string \<Rightarrow> 'p \<Rightarrow> string option \<times> nat" where
  "RegisterContracts marshal bad_url reply cancelled rmsURL defs =
     registerJSON marshal bad_url reply cancelled (rmsURL @ ''/contracts/register'') defs"

definition RegisterCapabilities :: "('p \<Rightarrow> string + string) \<Rightarrow> string option \<Rightarrow> (nat \<Rightarrow> http_reply) \<Rightarrow> (nat \<Rightarrow> string option)
    \<Rightarrow> 'p \<Rightarrow> string option \<times> nat" where
  "RegisterCapabilities marshal bad_url reply cancelled defs =
     (case marshal defs of
        Inl err \<Rightarrow> (Some (''rmsreg: marshal: '' @ err), 0)
      | Inr body \<Rightarrow>
          (case bad_url of
             Some err \<Rightarrow> (Some err, 0)
           | None \<Rightarrow> register_loop ''rmsreg: register'' reply cancelled [1, 2, 3] None))"

definition may_retry :: "http_reply \<Rightarrow> bool" where
  "may_retry r = (case r of NetErr e \<Rightarrow> True | HttpStatus code status body \<Rightarrow> 500 \<le> code)"

definition accepted :: "http_reply \<Rightarrow> bool" where
  "accepted r = (case r of NetErr e \<Rightarrow> False | HttpStatus code status body \<Rightarrow> code < 300)"

text \<open>At most one request per attempt; another one only after a failed exchange or a 5xx and while the context
  lives; and success is reported exactly when the last request sent was accepted.\<close>

lemma register_loop_sent:
  "register_loop what reply cancelled is e = (r, n) \<Longrightarrow>
     n \<le> length is
     \<and> (\<forall>k. Suc k < n \<longrightarrow> may_retry (reply (is ! k)) \<and> cancelled (is ! k) = None)
     \<and> (r = None \<longleftrightarrow> (if n = 0 then e = None else accepted (reply (is ! (n - 1)))))"
proof (induction "is" arbitrary: e r n)
  case (Cons i "is")
  show ?case
  proof (cases "may_retry (reply i) \<and> cancelled i = None")
    case True
    then obtain err m where m: "register_loop what reply cancelled is (Some err) = (r, m)" "n = Suc m"
      using Cons.prems by (auto simp: may_retry_def Let_def split: http_reply.splits prod.splits if_splits)
    have rest: "m \<le> length is" "\<And>k. Suc k < m \<Longrightarrow> may_retry (reply (is ! k)) \<and> cancelled (is ! k) = None"
        "r = None \<longleftrightarrow> m \<noteq> 0 \<and> accepted (reply (is ! (m - 1)))"
      using Cons.IH [OF m(1)] by auto
    have "may_retry (reply ((i # is) ! k)) \<and> cancelled ((i # is) ! k) = None" if "Suc k < n" for k
      using True rest(2) m(2) that by (cases k) auto
    moreover have "\<not> accepted (reply i)"
      using True by (auto simp: may_retry_def accepted_def split: http_reply.splits)
    ultimately show ?thesis using rest(1,3) m(2) by (cases m) auto
  next
    case False
    then show ?thesis
      using Cons.prems
      by (cases "reply i"; cases "cancelled i"; cases r) (auto simp: may_retry_def accepted_def Let_def split: if_splits)
  qed
qed auto

lemma RegisterContracts_sent:
  assumes "RegisterContracts marshal None reply cancelled rmsURL defs = (r, n)" and "marshal defs = Inr body"
  shows "1 \<le> n \<and> n \<le> 3 \<and> (\<forall>k. 1 \<le> k \<and> k < n \<longrightarrow> may_retry (reply k) \<and> cancelled k = None)
    \<and> (r = None \<longleftrightarrow> accepted (reply n))"
proof -
  have run: "register_loop (''rmsgate: register '' @ rmsURL @ ''/contracts/register'') reply cancelled [1, 2, 3] None = (r, n)"
    using assms by (simp add: RegisterContracts_def registerJSON_def)
  have pos: "1 \<le> n"
    using run by (auto simp: Let_def split: http_reply.splits if_splits option.splits prod.splits)
  note sent = register_loop_sent [OF run]
  then have n: "n \<in> {1, 2, 3}" using pos by auto
  have "[1 :: nat, 2, 3] ! (k - 1) = k" if "1 \<le> k" "k \<le> 3" for k
    using that by (cases "k = 1"; cases "k = 2"; cases "k = 3") auto
  then have nth: "[1 :: nat, 2, 3] ! (n - 1) = n" "\<And>k. 1 \<le> k \<Longrightarrow> k < n \<Longrightarrow> [1 :: nat, 2, 3] ! (k - 1) = k"
    using n by auto
  have "may_retry (reply k) \<and> cancelled k = None" if "1 \<le> k" "k < n" for k
    using sent nth(2) [OF that] that by (metis Suc_pred' less_eq_Suc_le One_nat_def)
  then show ?thesis using sent nth(1) pos n by auto
qed

text \<open>Both registrations answer the same up to the text of the error.\<close>

lemma registrations_agree:
  "marshal defs = Inr body \<Longrightarrow>
     RegisterCapabilities marshal bad reply cancelled defs = (r, n) \<Longrightarrow>
     RegisterContracts marshal bad reply cancelled url defs = (r', n') \<Longrightarrow> n = n' \<and> (r = None \<longleftrightarrow> r' = None)"
  by (auto simp: RegisterContracts_def registerJSON_def RegisterCapabilities_def Let_def
      split: option.splits http_reply.splits if_splits)

end
