(* ===== verification/Settings.thy ===== *)
theory Settings
  imports Cache Go_Text
begin

text \<open>
  The settings of a company and the clients built from them (\<open>src/settings/company_settings.go\<close>,
  \<open>src/client/provider\<close>, \<open>src/enums/settings_enums.go\<close>).

  A setting is a Redis entry under the company's prefix. It is read in two ways: by \<open>cache.Get\<close> with the company
  of the context's actor, and straight from the Redis client with a company id given by the caller. \<open>dec\<close> is
  \<open>json.Unmarshal\<close> into a string; the factories that build the remote clients are parameters.
\<close>

subsection \<open>Keys of the settings\<close>

definition CompanySettingsGeneralKeyTimezone :: string where
  "CompanySettingsGeneralKeyTimezone = ''timezone''"
definition CompanySettingsGeneralKeySamsaraAssetTrackingEnabled :: string where
  "CompanySettingsGeneralKeySamsaraAssetTrackingEnabled = ''samsara_asset_tracking_enabled''"
definition CompanySettingsGeneralKeyEmptyMilesWorkflow :: string where
  "CompanySettingsGeneralKeyEmptyMilesWorkflow = ''empty_miles_workflow''"

definition AllCompanySettingsGeneralKey :: "string list" where
  "AllCompanySettingsGeneralKey =
     [''logo'', CompanySettingsGeneralKeyTimezone, ''hazmat_enabled'', ''reefer_enabled'', ''broker_has_verify_shipments'',
      ''trip_assignment_buffer_hours'', CompanySettingsGeneralKeySamsaraAssetTrackingEnabled, ''use_here_in_risk'',
      CompanySettingsGeneralKeyEmptyMilesWorkflow]"

definition AllCompanySettingsIntegrationKey :: "string list" where
  "AllCompanySettingsIntegrationKey =
     [''here_api_key'', ''samsara_api_key'', ''relay_api_key'', ''usps_credentials'', ''google_maps_api_key'',
      ''google_sheets_api_key'', ''ringcentral_credentials'']"

definition AllCompanySettingsScoringKey :: "string list" where
  "AllCompanySettingsScoringKey = [''scoring_samsara_weight'', ''scoring_internal_weight'']"

definition AllCompanySettingsSplitTripKey :: "string list" where
  "AllCompanySettingsSplitTripKey =
     [''max_recovery_radius_miles'', ''split_margin_warning_threshold'', ''deadhead_rate_per_mile'']"

text \<open>The keys are string types; each \<open>IsValid\<close> is a switch over the constants of its own type.\<close>

definition GeneralKey_IsValid :: "string \<Rightarrow> bool" where
  "GeneralKey_IsValid e \<longleftrightarrow> e \<in> {''logo'', ''timezone'', ''hazmat_enabled'', ''reefer_enabled'', ''broker_has_verify_shipments'',
     ''trip_assignment_buffer_hours'', ''samsara_asset_tracking_enabled'', ''use_here_in_risk'', ''empty_miles_workflow''}"

definition IntegrationKey_IsValid :: "string \<Rightarrow> bool" where
  "IntegrationKey_IsValid e \<longleftrightarrow> e \<in> {''here_api_key'', ''samsara_api_key'', ''relay_api_key'', ''usps_credentials'',
     ''google_maps_api_key'', ''google_sheets_api_key'', ''ringcentral_credentials''}"

definition ScoringKey_IsValid :: "string \<Rightarrow> bool" where
  "ScoringKey_IsValid e \<longleftrightarrow> e \<in> {''scoring_samsara_weight'', ''scoring_internal_weight''}"

definition SplitTripKey_IsValid :: "string \<Rightarrow> bool" where
  "SplitTripKey_IsValid e \<longleftrightarrow> e \<in> {''max_recovery_radius_miles'', ''split_margin_warning_threshold'', ''deadhead_rate_per_mile''}"

lemma IsValid_listed:
  "GeneralKey_IsValid e \<longleftrightarrow> e \<in> set AllCompanySettingsGeneralKey"
  "IntegrationKey_IsValid e \<longleftrightarrow> e \<in> set AllCompanySettingsIntegrationKey"
  "ScoringKey_IsValid e \<longleftrightarrow> e \<in> set AllCompanySettingsScoringKey"
  "SplitTripKey_IsValid e \<longleftrightarrow> e \<in> set AllCompanySettingsSplitTripKey"
  by (simp_all add: GeneralKey_IsValid_def IntegrationKey_IsValid_def ScoringKey_IsValid_def SplitTripKey_IsValid_def
      AllCompanySettingsGeneralKey_def AllCompanySettingsIntegrationKey_def AllCompanySettingsScoringKey_def
      AllCompanySettingsSplitTripKey_def CompanySettingsGeneralKeyTimezone_def
      CompanySettingsGeneralKeySamsaraAssetTrackingEnabled_def CompanySettingsGeneralKeyEmptyMilesWorkflow_def)

text \<open>A GraphQL argument is a string or something else. \<open>UnmarshalGQL\<close> assigns before it checks: the error comes
  with the invalid value already in place.\<close>

datatype gql_value = GString string | GOther

definition unmarshal_key :: "(string \<Rightarrow> bool) \<Rightarrow> string \<Rightarrow> gql_value \<Rightarrow> string \<Rightarrow> string option \<times> string" where
  "unmarshal_key valid kind v e =
     (case v of
        GOther \<Rightarrow> (Some ''enums must be strings'', e)
      | GString str \<Rightarrow> (if valid str then None else Some (str @ '' is not a valid '' @ kind), str))"

definition GeneralKey_UnmarshalGQL :: "gql_value \<Rightarrow> string \<Rightarrow> string option \<times> string" where
  "GeneralKey_UnmarshalGQL = unmarshal_key GeneralKey_IsValid ''CompanySettingsGeneralKey''"
definition IntegrationKey_UnmarshalGQL :: "gql_value \<Rightarrow> string \<Rightarrow> string option \<times> string" where
  "IntegrationKey_UnmarshalGQL = unmarshal_key IntegrationKey_IsValid ''CompanySettingsIntegrationKey''"
definition ScoringKey_UnmarshalGQL :: "gql_value \<Rightarrow> string \<Rightarrow> string option \<times> string" where
  "ScoringKey_UnmarshalGQL = unmarshal_key ScoringKey_IsValid ''CompanySettingsScoringKey''"
definition SplitTripKey_UnmarshalGQL :: "gql_value \<Rightarrow> string \<Rightarrow> string option \<times> string" where
  "SplitTripKey_UnmarshalGQL = unmarshal_key SplitTripKey_IsValid ''CompanySettingsSplitTripKey''"

lemma unmarshal_key_accepts: "fst (unmarshal_key valid kind v e) = None \<longleftrightarrow> (\<exists>s. v = GString s \<and> valid s)"
  by (cases v) (auto simp: unmarshal_key_def)

lemma unmarshal_key_value: "fst (unmarshal_key valid kind v e) = None \<Longrightarrow> valid (snd (unmarshal_key valid kind v e))"
  by (cases v) (auto simp: unmarshal_key_def split: if_splits)

text \<open>A rejected string has replaced the key.\<close>

lemma unmarshal_key_assigns: "snd (unmarshal_key valid kind (GString s) e) = s"
  by (simp add: unmarshal_key_def)

text \<open>JSON goes through \<open>strconv.Quote\<close> and \<open>strconv.Unquote\<close>.\<close>

definition key_MarshalJSON :: "(string \<Rightarrow> string) \<Rightarrow> string \<Rightarrow> string" where
  "key_MarshalJSON quote e = quote e"

definition key_UnmarshalJSON :: "(string \<Rightarrow> string + string) \<Rightarrow> (gql_value \<Rightarrow> string \<Rightarrow> string option \<times> string) \<Rightarrow> string \<Rightarrow> string
    \<Rightarrow> string option \<times> string" where
  "key_UnmarshalJSON unquote unmarshal b e =
     (case unquote b of Inl err \<Rightarrow> (Some err, e) | Inr s \<Rightarrow> unmarshal (GString s) e)"

lemma key_json_roundtrip:
  assumes "\<And>s. unquote (quote s) = Inr s"
  shows "key_UnmarshalJSON unquote (unmarshal_key valid kind) (key_MarshalJSON quote k) e
    = (if valid k then None else Some (k @ '' is not a valid '' @ kind), k)"
  using assms by (simp add: key_UnmarshalJSON_def key_MarshalJSON_def unmarshal_key_def)

subsection \<open>Reading a setting\<close>

definition setting_key :: "string \<Rightarrow> string" where
  "setting_key k = ''setting:'' @ k"

definition company_setting_key :: "string \<Rightarrow> string \<Rightarrow> string" where
  "company_setting_key companyID k = companyID @ '':setting:'' @ k"

text \<open>\<open>cache.Client().Get(ctx, key).Bytes()\<close> and then \<open>json.Unmarshal\<close>.\<close>

definition read_company_setting :: "('s, 'v) redis_client \<Rightarrow> ('v \<Rightarrow> string option) \<Rightarrow> string \<Rightarrow> string \<Rightarrow> 's \<Rightarrow> cache_err + string" where
  "read_company_setting R dec companyID k s = cache_GetGlobal R dec (company_setting_key companyID k) s"

text \<open>The time zone ignores the error: whatever the read left in the variable counts.\<close>

definition GetCompanyTimezone :: "('s, 'v) redis_client \<Rightarrow> ('v \<Rightarrow> string option) \<Rightarrow> go_context \<Rightarrow> 's \<Rightarrow> string" where
  "GetCompanyTimezone R dec ctx s =
     (let tz = (case cache_Get R dec ctx (setting_key CompanySettingsGeneralKeyTimezone) s of Inr v \<Rightarrow> v | Inl _ \<Rightarrow> []) in
      if tz = [] then ''UTC'' else tz)"

definition samsaraTrackingFromCache :: "cache_err + string \<Rightarrow> bool" where
  "samsaraTrackingFromCache r = (case r of Inr v \<Rightarrow> v \<noteq> ''false'' | Inl KeyNil \<Rightarrow> True | Inl _ \<Rightarrow> False)"

definition SamsaraAssetTrackingOn :: "('s, 'v) redis_client \<Rightarrow> ('v \<Rightarrow> string option) \<Rightarrow> go_context \<Rightarrow> 's \<Rightarrow> bool" where
  "SamsaraAssetTrackingOn R dec ctx s =
     samsaraTrackingFromCache (cache_Get R dec ctx (setting_key CompanySettingsGeneralKeySamsaraAssetTrackingEnabled) s)"

definition SamsaraAssetTrackingOnForCompany :: "('s, 'v) redis_client \<Rightarrow> ('v \<Rightarrow> string option) \<Rightarrow> string \<Rightarrow> 's \<Rightarrow> bool" where
  "SamsaraAssetTrackingOnForCompany R dec companyID s =
     samsaraTrackingFromCache (read_company_setting R dec companyID CompanySettingsGeneralKeySamsaraAssetTrackingEnabled s)"

definition EmptyMilesWorkflowAuto :: string where "EmptyMilesWorkflowAuto = ''auto''"
definition EmptyMilesWorkflowDeferred :: string where "EmptyMilesWorkflowDeferred = ''deferred''"

definition DefaultEmptyMilesWorkflow :: string where
  "DefaultEmptyMilesWorkflow = EmptyMilesWorkflowAuto"

definition EmptyMiles_IsValid :: "string \<Rightarrow> bool" where
  "EmptyMiles_IsValid w \<longleftrightarrow> w = EmptyMilesWorkflowAuto \<or> w = EmptyMilesWorkflowDeferred"

definition EmptyMiles_IsDeferred :: "string \<Rightarrow> bool" where
  "EmptyMiles_IsDeferred w \<longleftrightarrow> w = EmptyMilesWorkflowDeferred"

definition emptyMilesWorkflowFromCache :: "cache_err + string \<Rightarrow> string" where
  "emptyMilesWorkflowFromCache r =
     (case r of
        Inr v \<Rightarrow> (let w = lower_utf8 (TrimSpace v) in if EmptyMiles_IsValid w then w else DefaultEmptyMilesWorkflow)
      | Inl _ \<Rightarrow> DefaultEmptyMilesWorkflow)"

definition EmptyMilesWorkflowFor :: "('s, 'v) redis_client \<Rightarrow> ('v \<Rightarrow> string option) \<Rightarrow> go_context \<Rightarrow> 's \<Rightarrow> string" where
  "EmptyMilesWorkflowFor R dec ctx s =
     emptyMilesWorkflowFromCache (cache_Get R dec ctx (setting_key CompanySettingsGeneralKeyEmptyMilesWorkflow) s)"

definition EmptyMilesWorkflowForCompany :: "('s, 'v) redis_client \<Rightarrow> ('v \<Rightarrow> string option) \<Rightarrow> string \<Rightarrow> 's \<Rightarrow> string" where
  "EmptyMilesWorkflowForCompany R dec companyID s =
     emptyMilesWorkflowFromCache (read_company_setting R dec companyID CompanySettingsGeneralKeyEmptyMilesWorkflow s)"

text \<open>Both ways of reading agree for an actor of the company; without one, the context variant reads the bare key.\<close>

lemma setting_read_agrees:
  assumes "ctx_company ctx = Some c" and "uuid_text c"
  shows "cache_Get R dec ctx (setting_key k) s = read_company_setting R dec c k s"
  using assms by (simp add: cache_Get_def read_company_setting_def company_setting_key_def setting_key_def buildKey_company)

lemma setting_read_bare:
  "ctx_company ctx = None \<Longrightarrow> cache_Get R dec ctx (setting_key k) s = cache_GetGlobal R dec (setting_key k) s"
  by (simp add: cache_Get_def buildKey_no_company)

lemma company_settings_agree:
  assumes "ctx_company ctx = Some c" and "uuid_text c"
  shows "SamsaraAssetTrackingOn R dec ctx s = SamsaraAssetTrackingOnForCompany R dec c s"
    and "EmptyMilesWorkflowFor R dec ctx s = EmptyMilesWorkflowForCompany R dec c s"
  using assms
  by (simp_all add: SamsaraAssetTrackingOn_def SamsaraAssetTrackingOnForCompany_def EmptyMilesWorkflowFor_def
      EmptyMilesWorkflowForCompany_def setting_read_agrees)

text \<open>The tracking fails closed on a broken read and is on by default; the empty-miles mode is always a valid mode, and
  deferred only when the stored value says so.\<close>

lemma tracking_off_iff:
  "\<not> samsaraTrackingFromCache r \<longleftrightarrow> r = Inr ''false'' \<or> r = Inl StoreErr \<or> r = Inl UnmarshalErr \<or> r = Inl MarshalErr"
  by (auto simp: samsaraTrackingFromCache_def split: sum.splits cache_err.splits)

lemma empty_miles_valid: "EmptyMiles_IsValid (emptyMilesWorkflowFromCache r)"
  by (auto simp: emptyMilesWorkflowFromCache_def Let_def DefaultEmptyMilesWorkflow_def EmptyMiles_IsValid_def split: sum.split)

lemma empty_miles_deferred_iff:
  "EmptyMiles_IsDeferred (emptyMilesWorkflowFromCache r) \<longleftrightarrow> (\<exists>v. r = Inr v \<and> lower_utf8 (TrimSpace v) = ''deferred'')"
  by (auto simp: emptyMilesWorkflowFromCache_def Let_def DefaultEmptyMilesWorkflow_def EmptyMiles_IsValid_def
      EmptyMiles_IsDeferred_def EmptyMilesWorkflowAuto_def EmptyMilesWorkflowDeferred_def split: sum.split)

text \<open>The same stored text is read more strictly by the one than by the other.\<close>

lemma capital_false_is_on: "samsaraTrackingFromCache (Inr ''False'')" "EmptyMiles_IsDeferred (emptyMilesWorkflowFromCache (Inr '' Deferred ''))"
  by code_simp+

subsection \<open>Clients of a company\<close>

text \<open>\<open>PNilActor\<close> stands for the panic on a nil actor; the other errors are the provider's. A client is built by the
  factory, which may fail with a text.\<close>

datatype client_err =
  PNilActor | PNoActor | PNoCompany | PNotFound cache_err | PUnmarshal | PParse | PEmpty | PFactory string

definition fetchAPIKey :: "('s, 'v) redis_client \<Rightarrow> ('v \<Rightarrow> string option) \<Rightarrow> string \<Rightarrow> string \<Rightarrow> 's \<Rightarrow> client_err + string" where
  "fetchAPIKey R dec settingKey companyID s =
     (case r_get R (company_setting_key companyID settingKey) s of
        RedisNil \<Rightarrow> Inl (PNotFound KeyNil)
      | RedisErr \<Rightarrow> Inl (PNotFound StoreErr)
      | Reply data \<Rightarrow>
          (case dec data of
             None \<Rightarrow> Inl PUnmarshal
           | Some apiKey \<Rightarrow> if apiKey = [] then Inl PEmpty else Inr apiKey))"

definition GetAPIKey :: "('s, 'v) redis_client \<Rightarrow> ('v \<Rightarrow> string option) \<Rightarrow> string \<Rightarrow> string \<Rightarrow> 's \<Rightarrow> client_err + string" where
  "GetAPIKey R dec settingKey companyID s = fetchAPIKey R dec settingKey companyID s"

definition build_client :: "('c \<Rightarrow> string + 't) \<Rightarrow> client_err + 'c \<Rightarrow> client_err + 't" where
  "build_client factory cred =
     (case cred of Inl err \<Rightarrow> Inl err | Inr c \<Rightarrow> (case factory c of Inl e \<Rightarrow> Inl (PFactory e) | Inr t \<Rightarrow> Inr t))"

definition provider_GetByCompanyID :: "('s, 'v) redis_client \<Rightarrow> ('v \<Rightarrow> string option) \<Rightarrow> string \<Rightarrow> (string \<Rightarrow> string + 't) \<Rightarrow> string
    \<Rightarrow> 's \<Rightarrow> client_err + 't" where
  "provider_GetByCompanyID R dec settingKey factory companyID s =
     build_client factory (fetchAPIKey R dec settingKey companyID s)"

text \<open>The company of the request's actor, as both providers take it.\<close>

definition provider_company :: "go_context \<Rightarrow> client_err + string" where
  "provider_company ctx =
     (case GetActor ctx of
        None \<Rightarrow> Inl PNoActor
      | Some None \<Rightarrow> Inl PNilActor
      | Some (Some a) \<Rightarrow> (case GetCompanyID a of None \<Rightarrow> Inl PNoCompany | Some c \<Rightarrow> Inr c))"

definition provider_Get :: "('s, 'v) redis_client \<Rightarrow> ('v \<Rightarrow> string option) \<Rightarrow> string \<Rightarrow> (string \<Rightarrow> string + 't) \<Rightarrow> go_context
    \<Rightarrow> 's \<Rightarrow> client_err + 't" where
  "provider_Get R dec settingKey factory ctx s =
     (case provider_company ctx of
        Inl err \<Rightarrow> Inl err | Inr c \<Rightarrow> provider_GetByCompanyID R dec settingKey factory c s)"

text \<open>A typed credential: the stored document is decoded directly, or as a JSON string whose text is then decoded.\<close>

record ('v, 'c) cred_codec =
  dec_cred :: "'v \<Rightarrow> 'c option"
  dec_string :: "'v \<Rightarrow> string option"
  dec_text :: "string \<Rightarrow> 'c option"

definition fetchCredential :: "('s, 'v) redis_client \<Rightarrow> ('v, 'c) cred_codec \<Rightarrow> string \<Rightarrow> string \<Rightarrow> 's \<Rightarrow> client_err + 'c" where
  "fetchCredential R D settingKey companyID s =
     (case r_get R (company_setting_key companyID settingKey) s of
        RedisNil \<Rightarrow> Inl (PNotFound KeyNil)
      | RedisErr \<Rightarrow> Inl (PNotFound StoreErr)
      | Reply data \<Rightarrow>
          (case dec_cred D data of
             Some cred \<Rightarrow> Inr cred
           | None \<Rightarrow>
               (case dec_string D data of
                  None \<Rightarrow> Inl PUnmarshal
                | Some jsonStr \<Rightarrow> (case dec_text D jsonStr of None \<Rightarrow> Inl PParse | Some cred \<Rightarrow> Inr cred))))"

definition GetCredential :: "('s, 'v) redis_client \<Rightarrow> ('v, 'c) cred_codec \<Rightarrow> string \<Rightarrow> string \<Rightarrow> 's \<Rightarrow> client_err + 'c" where
  "GetCredential R D settingKey companyID s = fetchCredential R D settingKey companyID s"

definition json_GetByCompanyID :: "('s, 'v) redis_client \<Rightarrow> ('v, 'c) cred_codec \<Rightarrow> string \<Rightarrow> ('c \<Rightarrow> string + 't) \<Rightarrow> string
    \<Rightarrow> 's \<Rightarrow> client_err + 't" where
  "json_GetByCompanyID R D settingKey factory companyID s =
     build_client factory (fetchCredential R D settingKey companyID s)"

definition json_Get :: "('s, 'v) redis_client \<Rightarrow> ('v, 'c) cred_codec \<Rightarrow> string \<Rightarrow> ('c \<Rightarrow> string + 't) \<Rightarrow> go_context
    \<Rightarrow> 's \<Rightarrow> client_err + 't" where
  "json_Get R D settingKey factory ctx s =
     (case provider_company ctx of
        Inl err \<Rightarrow> Inl err | Inr c \<Rightarrow> json_GetByCompanyID R D settingKey factory c s)"

subsection \<open>The life of a credential\<close>

text \<open>What any service does to the cache, in the order it happens.\<close>

datatype 'a cache_op =
  OpSet go_context string 'a int | OpSetNX go_context string 'a int | OpDelete go_context string | OpDeleteKeys go_context "string list"

fun op_ctx :: "'a cache_op \<Rightarrow> go_context" where
  "op_ctx (OpSet ctx k v ttl) = ctx"
| "op_ctx (OpSetNX ctx k v ttl) = ctx"
| "op_ctx (OpDelete ctx k) = ctx"
| "op_ctx (OpDeleteKeys ctx ks) = ctx"

fun do_op :: "('s, 'v) redis_client \<Rightarrow> ('a \<Rightarrow> 'v option) \<Rightarrow> 'a cache_op \<Rightarrow> 's \<Rightarrow> 's" where
  "do_op R enc (OpSet ctx k v ttl) s = snd (cache_Set R enc ctx k v ttl s)"
| "do_op R enc (OpSetNX ctx k v ttl) s = snd (cache_SetNX R enc ctx k v ttl s)"
| "do_op R enc (OpDelete ctx k) s = snd (cache_Delete R ctx k s)"
| "do_op R enc (OpDeleteKeys ctx ks) s = snd (snd (cache_DeleteKeys R ctx ks s))"

fun do_ops :: "('s, 'v) redis_client \<Rightarrow> ('a \<Rightarrow> 'v option) \<Rightarrow> 'a cache_op list \<Rightarrow> 's \<Rightarrow> 's" where
  "do_ops R enc [] s = s"
| "do_ops R enc (x # ops) s = do_ops R enc ops (do_op R enc x s)"

definition of_other_company :: "uuid \<Rightarrow> 'a cache_op \<Rightarrow> bool" where
  "of_other_company c x \<longleftrightarrow> (case ctx_company (op_ctx x) of Some d \<Rightarrow> uuid_text d \<and> d \<noteq> c | None \<Rightarrow> False)"

lemma do_op_other:
  assumes "redis_laws R" and "uuid_text c" and "of_other_company c x"
  shows "r_data R (do_op R enc x s) (c @ '':'' @ k) = r_data R s (c @ '':'' @ k)"
proof -
  obtain d where d: "ctx_company (op_ctx x) = Some d" "uuid_text d" "d \<noteq> c"
    using assms(3) by (auto simp: of_other_company_def split: option.splits)
  have apart: "c @ '':'' @ k \<noteq> d @ '':'' @ l" for l
    using company_keys_apart [OF assms(2) d(2)] d(3) by blast
  then have notin: "c @ '':'' @ k \<notin> (\<lambda>l. d @ '':'' @ l) ` A" for A by blast
  show ?thesis
    using d apart notin
    by (cases x) (simp_all add: cache_Set_def cache_Delete_def cache_DeleteKeys_def cache_DeleteGlobal_eq
        case_prod_unfold Let_def buildKey_company untouched_SetGlobal [OF assms(1)]
        untouched_SetNX [OF assms(1)] untouched_DeleteKeysGlobal [OF assms(1)] image_def)
qed

lemma do_ops_other:
  "redis_laws R \<Longrightarrow> uuid_text c \<Longrightarrow> list_all (of_other_company c) ops
    \<Longrightarrow> r_data R (do_ops R enc ops s) (c @ '':'' @ k) = r_data R s (c @ '':'' @ k)"
proof (induction ops arbitrary: s)
  case (Cons x ops)
  then show ?case using do_op_other [of R c x enc s k] by simp
qed simp

lemma provider_company_actor: "ctx_company ctx = Some c \<Longrightarrow> provider_company ctx = Inr c"
  by (auto simp: provider_company_def ctx_company_def ctx_actor_def GetActor_def split: option.splits)

lemma cache_Set_stores:
  assumes "redis_laws R" and "ctx_company ctx = Some c" and "uuid_text c"
    and "cache_Set R enc ctx k v ttl s = (None, s1)"
  shows "\<exists>data. enc v = Some data \<and> r_data R s1 (c @ '':'' @ k) = Some data"
proof -
  obtain data where data: "enc v = Some data"
    using assms(4) by (cases "enc v") (auto simp: cache_Set_def cache_SetGlobal_def)
  obtain ok s' where S: "r_set R (c @ '':'' @ k) data ttl s = (ok, s')" by fastforce
  then have "ok" "s' = s1"
    using assms data by (auto simp: cache_Set_def cache_SetGlobal_def buildKey_company split: if_splits)
  moreover have "r_data R s' = (r_data R s)(c @ '':'' @ k \<mapsto> data) \<or> \<not> ok \<and> r_data R s' = r_data R s"
    using assms(1) S unfolding redis_laws_def set_law_def Let_def case_prod_unfold by (metis fst_conv snd_conv)
  ultimately show ?thesis using data by auto
qed

lemma cache_Delete_drops:
  assumes "redis_laws R" and "ctx_company ctx = Some c" and "uuid_text c"
    and "cache_Delete R ctx k s = (None, s1)"
  shows "r_data R s1 (c @ '':'' @ k) = None"
proof -
  obtain ok s' where S: "r_del R [c @ '':'' @ k] s = (ok, s')" by fastforce
  then have "ok" "s' = s1"
    using assms by (auto simp: cache_Delete_def cache_DeleteGlobal_def buildKey_company split: if_splits)
  moreover have "r_data R s' = (r_data R s) |` (- {c @ '':'' @ k}) \<or> \<not> ok \<and> r_data R s' = r_data R s"
    using assms(1) S unfolding redis_laws_def del_law_def Let_def case_prod_unfold
    by (metis fst_conv snd_conv list.set(1) list.set(2))
  ultimately show ?thesis by auto
qed

lemma fetchAPIKey_data:
  assumes "redis_laws R"
  shows "fetchAPIKey R dec settingKey c s = Inl (PNotFound StoreErr)
    \<or> fetchAPIKey R dec settingKey c s =
        (case r_data R s (c @ '':'' @ setting_key settingKey) of
           None \<Rightarrow> Inl (PNotFound KeyNil)
         | Some data \<Rightarrow> (case dec data of None \<Rightarrow> Inl PUnmarshal | Some key \<Rightarrow> if key = [] then Inl PEmpty else Inr key))"
proof -
  have "r_get R k s = RedisErr \<or> r_get R k s = (case r_data R s k of Some v \<Rightarrow> Reply v | None \<Rightarrow> RedisNil)" for k
    using assms by (simp add: redis_laws_def get_law_def)
  from this [of "c @ '':'' @ setting_key settingKey"] show ?thesis
    by (auto simp: fetchAPIKey_def company_setting_key_def setting_key_def split: option.splits)
qed


definition company_actor :: "uuid \<Rightarrow> go_context" where
  "company_actor c = WithActor background (Some (system_actor\<lparr>Claims := Some (zero_claims\<lparr>CompanyID := Some c\<rparr>)\<rparr>))"

lemma company_actor_company [simp]: "ctx_company (company_actor c) = Some c"
  by (simp add: company_actor_def ctx_simps)


text \<open>A stored JSON \<open>null\<close> leaves the target untouched without an error. The provider of plain keys then refuses the
  empty key; the one of typed credentials hands the zero credential to the factory.\<close>

lemma null_credential:
  assumes "r_get R (company_setting_key c k) s = Reply null"
    and "dec null = Some []" and "dec_cred D null = Some zero_cred"
  shows "provider_GetByCompanyID R dec k factory c s = Inl PEmpty"
    and "json_GetByCompanyID R D k jfactory c s = build_client jfactory (Inr zero_cred)"
  using assms
  by (simp_all add: provider_GetByCompanyID_def fetchAPIKey_def json_GetByCompanyID_def fetchCredential_def build_client_def)

text \<open>The credential is found however the value was wrapped.\<close>

lemma credential_wrapped:
  assumes "r_get R (company_setting_key c k) s = Reply data"
    and "dec_cred D data = Some cred \<or> dec_cred D data = None \<and> dec_string D data = Some text \<and> dec_text D text = Some cred"
  shows "GetCredential R D k c s = Inr cred"
  using assms by (auto simp: GetCredential_def fetchCredential_def)

end
