(* ===== verification/Vocabulary.thy ===== *)
theory Vocabulary
  imports Permissions Go_Text
begin

text \<open>
  The shared vocabularies: the whitelist of record fields a board or report column may bind
  (\<open>src/fieldcatalog\<close>), the string enumerations of \<open>src/enums\<close>, and the key derived from a display name
  (\<open>src/utils/slug.go\<close>).
\<close>

subsection \<open>Field catalog\<close>

definition ValueString :: string where "ValueString = ''STRING''"
definition ValueNumber :: string where "ValueNumber = ''NUMBER''"
definition ValueDate :: string where "ValueDate = ''DATE''"
definition ValueBool :: string where "ValueBool = ''BOOL''"
definition ValueID :: string where "ValueID = ''ID''"
definition ValueStatus :: string where "ValueStatus = ''STATUS''"

lemmas value_types = ValueString_def ValueNumber_def ValueDate_def ValueBool_def ValueID_def ValueStatus_def

definition ValueType_IsValid :: "string \<Rightarrow> bool" where
  "ValueType_IsValid v \<longleftrightarrow> v \<in> {ValueString, ValueNumber, ValueDate, ValueBool, ValueID, ValueStatus}"

record field_entry =
  RecordType :: string
  Path :: string
  Label :: string
  ValueType :: string
  fe_Permission :: string
  Sortable :: bool
  WriteBackKey :: string
  Held :: bool

definition fc_entry :: "string \<Rightarrow> string \<Rightarrow> string \<Rightarrow> string \<Rightarrow> string \<Rightarrow> bool \<Rightarrow> bool \<Rightarrow> field_entry" where
  "fc_entry r p l v perm sortable held = \<lparr>RecordType = r, Path = p, Label = l, ValueType = v, fe_Permission = perm,
     Sortable = sortable, WriteBackKey = [], Held = held\<rparr>"

definition Catalog :: "field_entry list" where
  "Catalog = [
     fc_entry ''TRUCK'' ''truck.id'' ''ID'' ValueID ''fleet.trucks.view'' False False,
     fc_entry ''TRUCK'' ''truck.number'' ''Truck #'' ValueString ''fleet.trucks.view'' True False,
     fc_entry ''TRUCK'' ''truck.primaryDriverName'' ''Primary driver'' ValueString ''fleet.trucks.view'' False False,
     fc_entry ''TRUCK'' ''truck.createdAt'' ''Created'' ValueDate ''fleet.trucks.view'' True False,
     fc_entry ''TRAILER'' ''trailer.number'' ''Trailer #'' ValueString ''fleet.trailers.view'' True False,
     fc_entry ''TRAILER'' ''trailer.primaryDriverName'' ''Primary driver'' ValueString ''fleet.trailers.view'' False False,
     fc_entry ''TRAILER'' ''trailer.isCompanyTrailer'' ''Company trailer'' ValueBool ''fleet.trailers.view'' False False,
     fc_entry ''TRIP'' ''trip.tripNumber'' ''Trip #'' ValueString ''shipments.trips.view'' True False,
     fc_entry ''TRIP'' ''trip.status'' ''Status'' ValueStatus ''shipments.trips.view'' True False,
     fc_entry ''TRIP'' ''trip.loadedMiles'' ''Loaded miles'' ValueNumber ''shipments.trips.view'' False False,
     fc_entry ''TRIP'' ''trip.emptyMiles'' ''Empty miles'' ValueNumber ''shipments.trips.view'' True False,
     fc_entry ''TRIP'' ''trip.grossRate'' ''Gross rate'' ValueNumber ''shipments.trips.view'' False False,
     fc_entry ''DRIVER_CREW'' ''driverCrew.primaryDriver.name'' ''Primary driver'' ValueString ''teams.crews.view'' False True,
     fc_entry ''DRIVER_CREW'' ''driverCrew.secondaryDriver.name'' ''Secondary driver'' ValueString ''teams.crews.view'' False True,
     fc_entry ''DRIVER_CREW'' ''driverCrew.truck.number'' ''Truck #'' ValueString ''teams.crews.view'' False True,
     fc_entry ''DRIVER_CREW'' ''driverCrew.trailer.number'' ''Trailer #'' ValueString ''teams.crews.view'' False True,
     fc_entry ''DRIVER_CREW'' ''driverCrew.status'' ''Crew status'' ValueStatus ''teams.crews.view'' False True]"

definition Bindable :: "field_entry \<Rightarrow> bool" where
  "Bindable e \<longleftrightarrow> \<not> Held e"

definition zero_entry :: field_entry where
  "zero_entry = fc_entry [] [] [] [] [] False False"

definition buildIndex :: "field_entry list \<Rightarrow> string \<rightharpoonup> field_entry" where
  "buildIndex cat = fold (\<lambda>e m. m(Path e \<mapsto> e)) cat Map.empty"

definition byPath :: "string \<rightharpoonup> field_entry" where
  "byPath = buildIndex Catalog"

definition fc_Lookup :: "string \<Rightarrow> field_entry \<times> bool" where
  "fc_Lookup path = (case byPath path of Some e \<Rightarrow> (e, True) | None \<Rightarrow> (zero_entry, False))"

definition fc_Get :: "string \<Rightarrow> string \<Rightarrow> field_entry \<times> bool" where
  "fc_Get recordType path =
     (case byPath path of
        None \<Rightarrow> (zero_entry, False)
      | Some e \<Rightarrow> if RecordType e \<noteq> recordType then (zero_entry, False) else (e, True))"

definition IsBindablePath :: "string \<Rightarrow> bool" where
  "IsBindablePath path = (case byPath path of Some e \<Rightarrow> Bindable e | None \<Rightarrow> False)"

definition ByRecordType :: "string \<Rightarrow> field_entry list" where
  "ByRecordType recordType = filter (\<lambda>e. RecordType e = recordType) Catalog"

definition RecordTypes :: "string list" where
  "RecordTypes = sort (remdups (map RecordType Catalog))"

definition fc_Entries :: "field_entry list" where
  "fc_Entries = Catalog"

text \<open>What a reviewed entry satisfies: its path starts with its record's name, its type is declared, and its
  permission is a leaf of the permission catalog.\<close>

definition entry_sound :: "field_entry \<Rightarrow> bool" where
  "entry_sound e \<longleftrightarrow> CHR ''.'' \<in> set (Path e) \<and> ValueType_IsValid (ValueType e) \<and> IsValidPermissionCode (fe_Permission e)
     \<and> WriteBackKey e = []"

lemma Catalog_distinct: "distinct (map Path Catalog)"
  by (simp add: Catalog_def fc_entry_def)

lemma catalog_permissions:
  "IsValidPermissionCode ''fleet.trucks.view''" "IsValidPermissionCode ''fleet.trailers.view''"
  "IsValidPermissionCode ''shipments.trips.view''" "IsValidPermissionCode ''teams.crews.view''"
  by (simp_all add: IsValidPermissionCode_def buildValidPermissionCodes_def PermissionCatalog_def perm_entry_def
      entry_codes_def leaf_code_def)

lemma Catalog_sound: "list_all entry_sound Catalog"
  by (simp add: Catalog_def fc_entry_def entry_sound_def ValueType_IsValid_def catalog_permissions)

lemma buildIndex_map_of: "distinct (map Path cat) \<Longrightarrow> buildIndex cat = map_of (map (\<lambda>e. (Path e, e)) cat)"
proof (induction cat rule: rev_induct)
  case (snoc e cat)
  then have "buildIndex (cat @ [e]) = (map_of (map (\<lambda>e. (Path e, e)) cat))(Path e \<mapsto> e)" by (simp add: buildIndex_def)
  moreover have "Path e \<notin> dom (map_of (map (\<lambda>e. (Path e, e)) cat))"
    using snoc.prems by (auto simp: dom_map_of_conv_image_fst)
  ultimately show ?case by (auto simp: map_add_def fun_eq_iff split: option.split)
qed (simp add: buildIndex_def)

lemma byPath_Some: "byPath p = Some e \<longleftrightarrow> e \<in> set Catalog \<and> Path e = p"
proof -
  have "distinct (map fst (map (\<lambda>e. (Path e, e)) Catalog))" using Catalog_distinct by (simp add: comp_def)
  then have "map_of (map (\<lambda>e. (Path e, e)) Catalog) p = Some e \<longleftrightarrow> (p, e) \<in> set (map (\<lambda>e. (Path e, e)) Catalog)"
    by (rule map_of_eq_Some_iff)
  then show ?thesis by (auto simp: byPath_def buildIndex_map_of [OF Catalog_distinct])
qed

text \<open>A column can be created exactly for a catalogued path under its own record type, a board can bind exactly the
  paths not held back, and what is accepted is gated by a permission that exists.\<close>

lemma fc_Get_iff: "fc_Get r p = (e, True) \<longleftrightarrow> e \<in> set Catalog \<and> Path e = p \<and> RecordType e = r"
proof (cases "byPath p")
  case None
  then show ?thesis using byPath_Some [of p e] by (auto simp: fc_Get_def)
next
  case (Some d)
  then show ?thesis using byPath_Some [of p e] by (auto simp: fc_Get_def)
qed

lemma fc_Get_gated: "fc_Get r p = (e, True) \<Longrightarrow> IsValidPermissionCode (fe_Permission e)"
  using Catalog_sound by (auto simp: fc_Get_iff list_all_iff entry_sound_def)

lemma fc_Get_Lookup: "snd (fc_Get r p) \<Longrightarrow> fc_Lookup p = fc_Get r p"
  by (auto simp: fc_Get_def fc_Lookup_def split: option.splits)

lemma IsBindablePath_iff: "IsBindablePath p \<longleftrightarrow> (\<exists>e \<in> set Catalog. Path e = p \<and> \<not> Held e)"
proof -
  have "IsBindablePath p \<longleftrightarrow> (\<exists>e. byPath p = Some e \<and> \<not> Held e)"
    by (auto simp: IsBindablePath_def Bindable_def split: option.split)
  then show ?thesis unfolding byPath_Some by blast
qed

lemma held_not_bindable: "list_all (\<lambda>e. Held e = (RecordType e = ''DRIVER_CREW'')) Catalog"
  by code_simp

lemma ByRecordType_iff: "e \<in> set (ByRecordType r) \<longleftrightarrow> fc_Get r (Path e) = (e, True)"
  by (auto simp: ByRecordType_def fc_Get_iff)

lemma RecordTypes_value: "RecordTypes = [''DRIVER_CREW'', ''TRAILER'', ''TRIP'', ''TRUCK'']"
  by code_simp

lemma RecordTypes_all: "(\<Union>r \<in> set RecordTypes. set (ByRecordType r)) = set Catalog"
  by (auto simp: RecordTypes_def ByRecordType_def)

subsection \<open>String enumerations\<close>

definition CustomerType_IsValid :: "string \<Rightarrow> bool" where
  "CustomerType_IsValid c \<longleftrightarrow> c \<in> {''BROKER'', ''SHIPPER''}"

definition BillingType_IsValid :: "string \<Rightarrow> bool" where
  "BillingType_IsValid b \<longleftrightarrow> b \<in> {''FACTORING_COMPANY'', ''EMAIL'', ''MANUAL'', ''WEB_PORTAL'', ''EDI''}"

definition PaymentMethodType_IsValid :: "string \<Rightarrow> bool" where
  "PaymentMethodType_IsValid p \<longleftrightarrow> p \<in> {''OTHER'', ''BANK'', ''ZELLE'', ''FACTORING'', ''CASH'', ''CUSTOMER''}"

definition WarningType_IsValid :: "string \<Rightarrow> bool" where
  "WarningType_IsValid w \<longleftrightarrow> w \<in> {''DO_NOT_WORK'', ''WORK_WITH_CAUTION'', ''TEMPORARY_HOLD'', ''REVIEW_REQUIRED'', ''BLACKLIST''}"

definition CompanyStatus_IsValid :: "string \<Rightarrow> bool" where
  "CompanyStatus_IsValid s \<longleftrightarrow> s \<in> {''INACTIVE'', ''ACTIVE'', ''BLOCKED''}"

definition SystemDocTypeCodes :: "string list" where
  "SystemDocTypeCodes =
    [''CERTIFICATE_OF_LIABILITY_INSURANCE'', ''CARB_CERTIFICATE'', ''CT_PERMIT'',
     ''DRIVER_POLICY_AND_SAFETY_MANUAL'', ''ELD_MANUAL'', ''IFTA_LICENSE'', ''KY_PERMIT'', ''MC_AUTHORITY'',
     ''PS_SPOTTED_LANTERNFLY_PERMIT'', ''PS_SPOTTED_LANTERNFLY_QUARANTINE_REGULATIONS'', ''NM_PERMIT'',
     ''NY_PERMIT'', ''OR_PERMIT'', ''TRUCK_ANNUAL_INSPECTION'', ''TRUCK_REGISTRATION'',
     ''VEHICLE_LEASE_AGREEMENT'', ''TRAILER_ANNUAL_INSPECTION'', ''TRAILER_REGISTRATION'', ''RC'', ''BOL'',
     ''POD'', ''INVOICE'', ''SHIPMENT_OTHER'', ''PAY_STATEMENT'']"

definition SystemDocTypeCode_IsValid :: "string \<Rightarrow> bool" where
  "SystemDocTypeCode_IsValid c \<longleftrightarrow> c \<in> set SystemDocTypeCodes"

text \<open>\<open>UserStatus\<close> is an integer; the database driver hands over nothing, an \<open>int64\<close>, an \<open>int\<close> or something else.\<close>

definition UserStatusInactive :: int where "UserStatusInactive = 0"
definition UserStatusActive :: int where "UserStatusActive = 1"
definition UserStatusBanned :: int where "UserStatusBanned = 2"

lemmas user_status = UserStatusInactive_def UserStatusActive_def UserStatusBanned_def

definition UserStatus_String :: "int \<Rightarrow> string" where
  "UserStatus_String s =
     (if s = UserStatusInactive then ''inactive'' else if s = UserStatusActive then ''active''
      else if s = UserStatusBanned then ''banned'' else ''unknown'')"

definition UserStatus_IsValid :: "int \<Rightarrow> bool" where
  "UserStatus_IsValid s \<longleftrightarrow> s \<in> {UserStatusActive, UserStatusInactive, UserStatusBanned}"

datatype driver_value = DNull | DInt64 int | DInt int | DOther string

definition UserStatus_Value :: "int \<Rightarrow> driver_value" where
  "UserStatus_Value s = DInt64 s"

text \<open>The error, if any, and the status after the scan.\<close>

definition UserStatus_Scan :: "driver_value \<Rightarrow> int \<Rightarrow> string option \<times> int" where
  "UserStatus_Scan v s =
     (case v of
        DNull \<Rightarrow> (None, UserStatusActive)
      | DInt64 x \<Rightarrow> (None, x)
      | DInt x \<Rightarrow> (None, x)
      | DOther t \<Rightarrow> (Some (''cannot scan '' @ t @ '' into UserStatus''), s))"

lemma UserStatus_roundtrip: "UserStatus_Scan (UserStatus_Value s) s' = (None, s)"
  by (simp add: UserStatus_Scan_def UserStatus_Value_def)

text \<open>A missing status reads as active; a number outside the enumeration is read without an error.\<close>

lemma UserStatus_Scan_lenient:
  "UserStatus_Scan DNull s = (None, UserStatusActive)" "UserStatus_Scan (DInt64 7) s = (None, 7)" "\<not> UserStatus_IsValid 7"
  by (simp_all add: UserStatus_Scan_def UserStatus_IsValid_def user_status)

subsection \<open>Keys from display names\<close>

definition alnum :: "char \<Rightarrow> bool" where
  "alnum c \<longleftrightarrow> byte_in CHR ''0'' CHR ''9'' c \<or> byte_in CHR ''A'' CHR ''Z'' c \<or> byte_in CHR ''a'' CHR ''z'' c"

text \<open>\<open>strings.NewReplacer\<close> of one character, and a regular expression that matches the longest runs of characters
  outside the alphabet; no byte of a letter outside ASCII is in it, so runs of runes are runs of bytes.\<close>

definition replace_ampersand :: "string \<Rightarrow> string" where
  "replace_ampersand s = concat (map (\<lambda>c. if c = CHR ''&'' then '' and '' else [c]) s)"

fun underscore_runs :: "bool \<Rightarrow> string \<Rightarrow> string" where
  "underscore_runs inside [] = []"
| "underscore_runs inside (c # cs) =
     (if alnum c then c # underscore_runs False cs
      else if inside then underscore_runs True cs
      else CHR ''_'' # underscore_runs True cs)"

definition trim_underscores :: "string \<Rightarrow> string" where
  "trim_underscores s = rev (dropWhile (\<lambda>c. c = CHR ''_'') (rev (dropWhile (\<lambda>c. c = CHR ''_'') s)))"

definition SlugifyUpperSnake :: "string \<Rightarrow> string" where
  "SlugifyUpperSnake s = go_upper (trim_underscores (underscore_runs False (replace_ampersand s)))"

lemma SlugifyUpperSnake_example:
  "SlugifyUpperSnake ''DRIVER POLICY & SAFETY MANUAL'' = ''DRIVER_POLICY_AND_SAFETY_MANUAL''"
  "SlugifyUpperSnake ''  a--b& '' = ''A_B_AND''"
  by code_simp+

text \<open>The key consists of capitals, digits and single underscores inside it, and is its own key.\<close>

abbreviation not_both_under :: "char \<Rightarrow> char \<Rightarrow> bool" where
  "not_both_under a b \<equiv> \<not> (a = CHR ''_'' \<and> b = CHR ''_'')"

definition slug_char :: "char \<Rightarrow> bool" where
  "slug_char c \<longleftrightarrow> byte_in CHR ''0'' CHR ''9'' c \<or> byte_in CHR ''A'' CHR ''Z'' c \<or> c = CHR ''_''"

definition is_slug :: "string \<Rightarrow> bool" where
  "is_slug k \<longleftrightarrow> list_all slug_char k \<and> successively not_both_under k
     \<and> (k \<noteq> [] \<longrightarrow> hd k \<noteq> CHR ''_'' \<and> last k \<noteq> CHR ''_'')"

lemma underscore_runs_shape:
  "list_all (\<lambda>c. alnum c \<or> c = CHR ''_'') (underscore_runs b s) \<and> successively not_both_under (underscore_runs b s)
    \<and> (b \<longrightarrow> underscore_runs b s \<noteq> [] \<longrightarrow> hd (underscore_runs b s) \<noteq> CHR ''_'')"
proof (induction b s rule: underscore_runs.induct)
  case (2 inside c cs)
  have "\<not> alnum CHR ''_''" by code_simp
  then show ?case using 2 by (auto simp: successively_Cons)
qed simp

lemma successively_suffix: "successively P (xs @ ys) \<Longrightarrow> successively P ys \<and> successively P xs"
  by (auto simp: successively_append_iff)

lemma trim_underscores_shape:
  assumes "successively P s" and "list_all Q s"
  shows "successively P (trim_underscores s) \<and> list_all Q (trim_underscores s)
    \<and> (trim_underscores s \<noteq> [] \<longrightarrow> hd (trim_underscores s) \<noteq> CHR ''_'' \<and> last (trim_underscores s) \<noteq> CHR ''_'')"
proof -
  let ?u = "\<lambda>c. c = CHR ''_''" and ?a = "dropWhile (\<lambda>c. c = CHR ''_'') s"
  have s: "s = takeWhile ?u s @ ?a" by simp
  have a: "?a = trim_underscores s @ rev (takeWhile ?u (rev ?a))"
    unfolding trim_underscores_def by (metis rev_append rev_rev_ident takeWhile_dropWhile_id)
  have "successively P ?a" "list_all Q ?a"
    using assms successively_suffix [of P "takeWhile ?u s" ?a] by (auto simp: list_all_iff dest: set_dropWhileD)
  then have shape: "successively P (trim_underscores s)" "list_all Q (trim_underscores s)"
    using a successively_suffix [of P "trim_underscores s"] by (metis, metis list_all_append)
  have "hd (trim_underscores s) \<noteq> CHR ''_''" if "trim_underscores s \<noteq> []"
  proof -
    have "?a \<noteq> []" using a that by (metis append_is_Nil_conv)
    then have "hd ?a \<noteq> CHR ''_''" using hd_dropWhile [of ?u s] by blast
    then show ?thesis using a that by (metis hd_append)
  qed
  moreover have "last (trim_underscores s) \<noteq> CHR ''_''" if "trim_underscores s \<noteq> []"
    using that hd_dropWhile [of ?u "rev ?a"] by (simp add: trim_underscores_def last_rev)
  ultimately show ?thesis using shape by blast
qed

lemma underscore_code: "c = CHR ''_'' \<longleftrightarrow> of_char c = (95 :: nat)"
proof -
  have "of_char CHR ''_'' = (95 :: nat)" by simp
  then show ?thesis by (metis of_char_eq_iff)
qed

lemma upper_alnum:
  assumes "alnum c \<or> c = CHR ''_''"
  shows "slug_char (to_upper_char c) \<and> (to_upper_char c = CHR ''_'' \<longleftrightarrow> c = CHR ''_'')"
proof (cases "byte_in CHR ''a'' CHR ''z'' c")
  case True
  define n where "n = (of_char c :: nat)"
  have n: "97 \<le> n" "n \<le> 122" using True by (simp_all add: byte_in_def n_def)
  then have up: "of_char (to_upper_char c) = n - 32"
    using True by (simp add: to_upper_char_def n_def [symmetric])
  then show ?thesis using n by (auto simp: slug_char_def byte_in_def underscore_code n_def [symmetric])
next
  case False
  then show ?thesis using assms by (auto simp: to_upper_char_def alnum_def slug_char_def)
qed

lemma is_slug_SlugifyUpperSnake: "is_slug (SlugifyUpperSnake s)"
proof -
  define t where "t = trim_underscores (underscore_runs False (replace_ampersand s))"
  have t: "successively not_both_under t" "list_all (\<lambda>c. alnum c \<or> c = CHR ''_'') t"
      "t \<noteq> [] \<longrightarrow> hd t \<noteq> CHR ''_'' \<and> last t \<noteq> CHR ''_''"
    using trim_underscores_shape [of not_both_under "underscore_runs False (replace_ampersand s)"]
      underscore_runs_shape [of False "replace_ampersand s"] by (auto simp: t_def)
  have up: "to_upper_char c = CHR ''_'' \<longleftrightarrow> c = CHR ''_''" "slug_char (to_upper_char c)" if "c \<in> set t" for c
    using that t(2) upper_alnum by (auto simp: list_all_iff)
  have "successively not_both_under (map to_upper_char t)"
    using t(1) up(1) by (auto simp: successively_map intro: successively_cong [THEN iffD1, rotated -1])
  moreover have "list_all slug_char (map to_upper_char t)" using up(2) by (simp add: list_all_iff)
  moreover have "t \<noteq> [] \<longrightarrow> hd (map to_upper_char t) \<noteq> CHR ''_'' \<and> last (map to_upper_char t) \<noteq> CHR ''_''"
    using t(3) up(1) by (auto simp: hd_map last_map)
  ultimately show ?thesis by (auto simp: is_slug_def SlugifyUpperSnake_def go_upper_def t_def)
qed

lemma slug_char_cases: "slug_char c \<Longrightarrow> (alnum c \<or> c = CHR ''_'') \<and> c \<noteq> CHR ''&'' \<and> to_upper_char c = c"
  by (auto simp: slug_char_def alnum_def byte_in_def to_upper_char_def)

lemma underscore_runs_id:
  "list_all slug_char k \<Longrightarrow> successively not_both_under k \<Longrightarrow> (b \<longrightarrow> k \<noteq> [] \<longrightarrow> hd k \<noteq> CHR ''_'') \<Longrightarrow> underscore_runs b k = k"
proof (induction k arbitrary: b)
  case (Cons c k)
  have "\<not> alnum CHR ''_''" by code_simp
  then show ?case
    using Cons.prems slug_char_cases [of c] Cons.IH [of False] Cons.IH [of True]
    by (auto simp: successively_Cons)
qed simp

lemma trim_underscores_id:
  assumes "k \<noteq> [] \<longrightarrow> hd k \<noteq> CHR ''_'' \<and> last k \<noteq> CHR ''_''"
  shows "trim_underscores k = k"
proof -
  have "dropWhile (\<lambda>c. c = CHR ''_'') k = k" using assms by (cases k) auto
  moreover have "dropWhile (\<lambda>c. c = CHR ''_'') (rev k) = rev k" using assms by (cases "rev k") (auto simp: last_rev [symmetric])
  ultimately show ?thesis by (simp add: trim_underscores_def)
qed

lemma SlugifyUpperSnake_slug: "is_slug k \<Longrightarrow> SlugifyUpperSnake k = k"
proof -
  assume k: "is_slug k"
  then have chars: "\<And>c. c \<in> set k \<Longrightarrow> c \<noteq> CHR ''&'' \<and> to_upper_char c = c"
    using slug_char_cases by (auto simp: is_slug_def list_all_iff)
  have "map (\<lambda>c. if c = CHR ''&'' then '' and '' else [c]) k = map (\<lambda>c. [c]) k"
    using chars by (intro map_cong) auto
  then have amp: "replace_ampersand k = k"
    unfolding replace_ampersand_def by (simp only: concat_map_singleton list.map_ident)
  have "underscore_runs False k = k" using k by (intro underscore_runs_id) (auto simp: is_slug_def)
  then show ?thesis
    using k amp chars by (simp add: SlugifyUpperSnake_def trim_underscores_id is_slug_def go_upper_def map_idI)
qed

lemma SlugifyUpperSnake_idem: "SlugifyUpperSnake (SlugifyUpperSnake s) = SlugifyUpperSnake s"
  by (simp add: SlugifyUpperSnake_slug is_slug_SlugifyUpperSnake)

end
