(* ===== verification/Http_Client.thy ===== *)
theory Http_Client
  imports Go_Text Go_Time
begin

text \<open>
  What the clients of the remote services share: requests, replies and the loop over the pages of a listing.

  A remote service is a state machine of which only its answers are seen: \<open>http_server\<close> maps a request and the
  state of the world to the outcome of \<open>http.Client.Do\<close> and the next state. JSON decoding is a parameter of every
  operation that decodes: the error text or the value.
\<close>

subsection \<open>Requests and replies\<close>

record http_request =
  rq_method :: string
  rq_url :: string
  rq_headers :: "(string \<times> string) list"
  rq_body :: "string option"

text \<open>The URL may be unusable, the exchange may fail, or there is an answer: its status, its headers and its body.\<close>

record http_response =
  rs_status :: int
  rs_headers :: "(string \<times> string) list"
  rs_body :: string

datatype http_outcome = BadUrl string | NoAnswer string | Answer http_response

type_synonym 's http_server = "http_request \<Rightarrow> 's \<Rightarrow> http_outcome \<times> 's"

definition header_of :: "(string \<times> string) list \<Rightarrow> string \<Rightarrow> string" where
  "header_of hs k = (case map_of hs k of Some v \<Rightarrow> v | None \<Rightarrow> [])"

definition show_int :: "int \<Rightarrow> string" where
  "show_int n = (if n < 0 then CHR ''-'' # itoa (nat (- n)) else itoa (nat n))"

text \<open>\<open>t.UTC().Format(time.RFC3339)\<close> is \<open>fmt_RFC3339_utc (gt_UTC t)\<close>; the time's own zone shows its offset.\<close>

definition fmt_zone :: "int \<Rightarrow> string" where
  "fmt_zone offset =
     (let m = sgn offset * (\<bar>offset\<bar> div 60000000000) in
      if offset = 0 then ''Z''
      else (if m < 0 then ''-'' else ''+'') @ pad 2 (nat (\<bar>m\<bar> div 60)) @ '':'' @ pad 2 (nat (\<bar>m\<bar> mod 60)))"

definition fmt_RFC3339 :: "go_time \<Rightarrow> string" where
  "fmt_RFC3339 t = fmt_date t @ ''T'' @ pad 2 (nat (gt_hour t)) @ '':'' @ pad 2 (nat (gt_minute t)) @ '':''
     @ pad 2 (nat (gt_second t)) @ fmt_zone (gt_offset t)"

lemma fmt_RFC3339_at_utc: "gt_offset t = 0 \<Longrightarrow> fmt_RFC3339 t = fmt_RFC3339_utc t"
  by (simp add: fmt_RFC3339_def fmt_RFC3339_utc_def fmt_zone_def)

text \<open>Instants count from the year 1, Unix times from 1970.\<close>

definition unix_epoch :: int where
  "unix_epoch = days_of 1970 1 1 * day_ns"

definition UnixMilli :: "go_time \<Rightarrow> int" where
  "UnixMilli t = (gt_instant t - unix_epoch) div 1000000"

definition time_Unix :: "int \<Rightarrow> int \<Rightarrow> int" where
  "time_Unix sec nsec = unix_epoch + sec * 1000000000 + nsec"

text \<open>The layout \<open>time.RFC3339\<close>, and the zero \<open>time.Time\<close>: midnight of the first of January of the year 1.\<close>

definition RFC3339_layout :: "element list" where
  "RFC3339_layout = [Year4, Lit CHR ''-'', Month2, Lit CHR ''-'', Day2, Lit CHR ''T'', Hour24, Lit CHR '':'', Minute2, Lit CHR '':'',
     Second2, Zone07]"

definition zero_time :: go_time where
  "zero_time = utc_time (days_of 1 1 1 * day_ns)"

definition IsZero :: "go_time \<Rightarrow> bool" where
  "IsZero t \<longleftrightarrow> gt_instant t = gt_instant zero_time"

subsection \<open>Pages\<close>

record 'a page =
  pg_data :: "'a list"
  EndCursor :: string
  HasNextPage :: bool

type_synonym ('e, 'a, 's) fetch = "string \<Rightarrow> 's \<Rightarrow> ('e + 'a page) \<times> 's"

text \<open>The loop that asks for the next page while \<open>goes_on\<close> says so. It may run forever, so its value is \<open>None\<close> when it
  does.\<close>

partial_function (option) page_loop ::
    "('a page \<Rightarrow> bool) \<Rightarrow> ('e, 'a, 's) fetch \<Rightarrow> string \<Rightarrow> 'a list \<Rightarrow> 's \<Rightarrow> (('e + 'a list \<times> string) \<times> 's) option" where
  "page_loop goes_on fetch cursor acc s =
     (case fetch cursor s of
        (Inl e, s') \<Rightarrow> Some (Inl e, s')
      | (Inr p, s') \<Rightarrow>
          if goes_on p then page_loop goes_on fetch (EndCursor p) (acc @ pg_data p) s'
          else Some (Inr (acc @ pg_data p, EndCursor p), s'))"

text \<open>What the service answered along the way: the pages in order, and the error that ended the run, if one did.\<close>

inductive page_run ::
    "('a page \<Rightarrow> bool) \<Rightarrow> ('e, 'a, 's) fetch \<Rightarrow> string \<Rightarrow> 's \<Rightarrow> 'a page list \<Rightarrow> 'e option \<Rightarrow> 's \<Rightarrow> bool"
  for goes_on :: "'a page \<Rightarrow> bool" and fetch :: "('e, 'a, 's) fetch" where
  failing: "fetch c s = (Inl e, s') \<Longrightarrow> page_run goes_on fetch c s [] (Some e) s'"
| final: "fetch c s = (Inr p, s') \<Longrightarrow> \<not> goes_on p \<Longrightarrow> page_run goes_on fetch c s [p] None s'"
| further: "fetch c s = (Inr p, s1) \<Longrightarrow> goes_on p \<Longrightarrow> page_run goes_on fetch (EndCursor p) s1 ps r s'
    \<Longrightarrow> page_run goes_on fetch c s (p # ps) r s'"

inductive_cases page_runE: "page_run goes_on fetch c s ps r s'"

definition page_result :: "'a list \<Rightarrow> 'a page list \<Rightarrow> 'e option \<Rightarrow> 'e + 'a list \<times> string" where
  "page_result acc ps r =
     (case r of Some e \<Rightarrow> Inl e | None \<Rightarrow> Inr (acc @ concat (map pg_data ps), EndCursor (last ps)))"

lemma page_run_final:
  "page_run goes_on fetch c s ps r s' \<Longrightarrow> r = None \<longrightarrow> ps \<noteq> [] \<and> \<not> goes_on (last ps) \<and> (\<forall>p \<in> set (butlast ps). goes_on p)"
  by (induction rule: page_run.induct) auto

lemma page_result_further:
  assumes "page_run goes_on fetch c s ps r s'"
  shows "page_result (acc @ pg_data p) ps r = page_result acc (p # ps) r"
  using page_run_final [OF assms] by (auto simp: page_result_def split: option.split)

lemma page_loop_of_run: "page_run goes_on fetch c s ps r s' \<Longrightarrow> page_loop goes_on fetch c acc s = Some (page_result acc ps r, s')"
proof (induction arbitrary: acc rule: page_run.induct)
  case (failing c s e s')
  then show ?case by (subst page_loop.simps) (simp add: page_result_def)
next
  case (final c s p s')
  then show ?case by (subst page_loop.simps) (simp add: page_result_def)
next
  case (further c s p s1 ps r s')
  then show ?case by (subst page_loop.simps) (simp add: page_result_further)
qed

lemma page_run_of_loop:
  assumes "page_loop goes_on fetch c acc s = Some out"
  shows "\<exists>ps r. page_run goes_on fetch c s ps r (snd out) \<and> fst out = page_result acc ps r"
proof (rule page_loop.raw_induct [where P = "\<lambda>goes_on fetch c acc s out.
    \<exists>ps r. page_run goes_on fetch c s ps r (snd out) \<and> fst out = page_result acc ps r", OF _ assms])
  fix loop goes_on fetch c acc s out
  assume IH: "\<And>goes_on fetch c acc s out. loop goes_on fetch c acc s = Some out
      \<Longrightarrow> \<exists>ps r. page_run goes_on fetch c s ps r (snd out) \<and> fst out = page_result acc ps r"
    and body: "(case fetch c s of (Inl e, s') \<Rightarrow> Some (Inl e, s')
      | (Inr p, s') \<Rightarrow> if goes_on p then loop goes_on fetch (EndCursor p) (acc @ pg_data p) s'
                       else Some (Inr (acc @ pg_data p, EndCursor p), s')) = Some out"
  show "\<exists>ps r. page_run goes_on fetch c s ps r (snd out) \<and> fst out = page_result acc ps r"
  proof (cases "fetch c s")
    case (Pair a s1)
    show ?thesis
    proof (cases a)
      case (Inl e)
      then have "out = (Inl e, s1)" using body Pair by simp
      moreover have "page_run goes_on fetch c s [] (Some e) s1" using Pair Inl by (simp add: failing)
      ultimately show ?thesis by (force simp: page_result_def)
    next
      case (Inr p)
      show ?thesis
      proof (cases "goes_on p")
        case True
        then have "loop goes_on fetch (EndCursor p) (acc @ pg_data p) s1 = Some out" using body Pair Inr by simp
        from IH [OF this] obtain ps r where
          ps: "page_run goes_on fetch (EndCursor p) s1 ps r (snd out)" "fst out = page_result (acc @ pg_data p) ps r"
          by blast
        have "page_run goes_on fetch c s (p # ps) r (snd out)" using Pair Inr True ps(1) by (simp add: further)
        then show ?thesis using ps(2) page_result_further [OF ps(1)] by metis
      next
        case False
        then have "out = (Inr (acc @ pg_data p, EndCursor p), s1)" using body Pair Inr by simp
        moreover have "page_run goes_on fetch c s [p] None s1" using Pair Inr False by (simp add: final)
        ultimately show ?thesis by (force simp: page_result_def)
      qed
    qed
  qed
qed

text \<open>The loop returns exactly when the service's pages come to an end, and then it returns all their data in order.\<close>

lemma page_loop_iff:
  "page_loop goes_on fetch c acc s = Some (out, s') \<longleftrightarrow> (\<exists>ps r. page_run goes_on fetch c s ps r s' \<and> out = page_result acc ps r)"
  using page_run_of_loop [of goes_on fetch c acc s "(out, s')"] page_loop_of_run by fastforce

text \<open>They come to an end when every page that promises another one is followed by one that is closer to the end.\<close>

lemma page_run_exists:
  fixes m :: "string \<Rightarrow> 's \<Rightarrow> nat"
  assumes "\<And>c s p s'. fetch c s = (Inr p, s') \<Longrightarrow> goes_on p \<Longrightarrow> m (EndCursor p) s' < m c s"
  shows "\<exists>ps r s'. page_run goes_on fetch c s ps r s'"
proof (induction "m c s" arbitrary: c s rule: less_induct)
  case less
  obtain a s1 where f: "fetch c s = (a, s1)" by fastforce
  show ?case
  proof (cases a)
    case (Inl e)
    then show ?thesis using f failing [of fetch c s e s1 goes_on] by blast
  next
    case (Inr p)
    show ?thesis
    proof (cases "goes_on p")
      case True
      then have "m (EndCursor p) s1 < m c s" using assms f Inr by blast
      then obtain ps r s' where "page_run goes_on fetch (EndCursor p) s1 ps r s'" using less by blast
      then have "page_run goes_on fetch c s (p # ps) r s'" using f Inr True by (simp add: further)
      then show ?thesis by blast
    next
      case False
      then show ?thesis using f Inr final [of fetch c s p s1 goes_on] by blast
    qed
  qed
qed

text \<open>And it never returns from a service that answers a cursor with a page that promises more under the same cursor.\<close>

lemma page_loop_spins:
  assumes "\<And>s. \<exists>p s'. fetch c s = (Inr p, s') \<and> goes_on p \<and> EndCursor p = c"
  shows "page_loop goes_on fetch c acc s = None"
proof -
  have "page_run goes_on fetch c' s ps r s' \<Longrightarrow> c' \<noteq> c" for c' s ps r s'
  proof (induction rule: page_run.induct)
    case (failing c' s e s')
    then show ?case using assms [of s] by auto
  next
    case (final c' s p s')
    then show ?case using assms [of s] by auto
  next
    case (further c' s p s1 ps r s')
    then show ?case using assms [of s] by auto
  qed
  then show ?thesis using page_run_of_loop [of goes_on fetch c acc s] by (cases "page_loop goes_on fetch c acc s") blast+
qed

end
