(* ===== verification/Samsara.thy ===== *)
theory Samsara
  imports Http_Client RateLimit Go_Float
begin

text \<open>
  The Samsara client and its service (\<open>src/client/samsara/samsara.go\<close>, \<open>service.go\<close>): the authenticated request,
  the listings with their pages, the vehicles' positions, the drivers, addresses, webhooks and alerts.
\<close>

subsection \<open>The request\<close>

record samsara_client =
  sc_host :: string
  sc_apiKey :: string

definition NewClientWithToken :: "string \<Rightarrow> samsara_client" where
  "NewClientWithToken apiKey = \<lparr>sc_host = ''https://api.samsara.com'', sc_apiKey = apiKey\<rparr>"

definition NewClient :: "string \<Rightarrow> string \<Rightarrow> samsara_client" where
  "NewClient host apiKey = \<lparr>sc_host = host, sc_apiKey = apiKey\<rparr>"

text \<open>Errors wrap one another (\<open>%w\<close>); one of them is the typed \<open>AuthError\<close>.\<close>

datatype samsara_err = AuthError int string string | PlainErr string | WrapErr string samsara_err

fun err_Error :: "samsara_err \<Rightarrow> string" where
  "err_Error (AuthError status body rid) =
     ''samsara auth failed (status '' @ show_int status @ '', request_id='' @ rid @ ''): '' @ body"
| "err_Error (PlainErr t) = t"
| "err_Error (WrapErr t e) = t @ '': '' @ err_Error e"

fun IsAuthError :: "samsara_err \<Rightarrow> bool" where
  "IsAuthError (AuthError status body rid) = True"
| "IsAuthError (PlainErr t) = False"
| "IsAuthError (WrapErr t e) = IsAuthError e"

definition status_failed :: "int \<Rightarrow> string \<Rightarrow> samsara_err" where
  "status_failed status body = PlainErr (''API request failed with status '' @ show_int status @ '': '' @ body)"

definition auth_headers :: "samsara_client \<Rightarrow> bool \<Rightarrow> (string \<times> string) list" where
  "auth_headers c json = (''Authorization'', ''Bearer '' @ sc_apiKey c) # (if json then [(''Content-Type'', ''application/json'')] else [])"

definition samsara_request :: "samsara_client \<Rightarrow> string \<Rightarrow> string \<Rightarrow> string option \<Rightarrow> http_request" where
  "samsara_request c method path body = \<lparr>rq_method = method, rq_url = sc_host c @ path,
     rq_headers = auth_headers c (body \<noteq> None), rq_body = body\<rparr>"

text \<open>\<open>doRequest\<close> answers with the body of a 2xx reply.\<close>

definition doRequest :: "'s http_server \<Rightarrow> samsara_client \<Rightarrow> string \<Rightarrow> string \<Rightarrow> string option \<Rightarrow> 's \<Rightarrow> (samsara_err + string) \<times> 's" where
  "doRequest srv c method path body s =
     (case srv (samsara_request c method path body) s of
        (BadUrl e, s') \<Rightarrow> (Inl (PlainErr (''failed to create request: '' @ e)), s')
      | (NoAnswer e, s') \<Rightarrow> (Inl (PlainErr (''failed to execute request: '' @ e)), s')
      | (Answer r, s') \<Rightarrow>
          (if rs_status r = 401 \<or> rs_status r = 403
           then Inl (AuthError (rs_status r) (rs_body r) (header_of (rs_headers r) ''X-Request-Id''))
           else if rs_status r < 200 \<or> rs_status r \<ge> 300 then Inl (status_failed (rs_status r) (rs_body r))
           else Inr (rs_body r), s'))"

text \<open>A GET whose answer is decoded; \<open>wrap\<close> is what the caller puts around a failed request.\<close>

definition get_json :: "'s http_server \<Rightarrow> samsara_client \<Rightarrow> (samsara_err \<Rightarrow> samsara_err) \<Rightarrow> string \<Rightarrow> (string \<Rightarrow> string + 'a)
    \<Rightarrow> string \<Rightarrow> 's \<Rightarrow> (samsara_err + 'a) \<times> 's" where
  "get_json srv c wrap what dec path s =
     (case doRequest srv c ''GET'' path None s of
        (Inl e, s') \<Rightarrow> (Inl (wrap e), s')
      | (Inr body, s') \<Rightarrow> (case dec body of Inl e \<Rightarrow> Inl (PlainErr (what @ '': '' @ e)) | Inr v \<Rightarrow> Inr v, s'))"

definition decoding :: string where "decoding = ''failed to decode response''"

text \<open>The writing operations build their request themselves: any status outside \<open>good\<close> is a plain error.\<close>

definition send_json :: "'s http_server \<Rightarrow> samsara_client \<Rightarrow> int set \<Rightarrow> string \<Rightarrow> string \<Rightarrow> string \<Rightarrow> 's \<Rightarrow> (samsara_err + string) \<times> 's" where
  "send_json srv c good method path body s =
     (case srv (samsara_request c method path (Some body)) s of
        (BadUrl e, s') \<Rightarrow> (Inl (PlainErr (''failed to create request: '' @ e)), s')
      | (NoAnswer e, s') \<Rightarrow> (Inl (PlainErr (''failed to execute request: '' @ e)), s')
      | (Answer r, s') \<Rightarrow> (if rs_status r \<in> good then Inr (rs_body r) else Inl (status_failed (rs_status r) (rs_body r)), s'))"

definition write_json :: "'s http_server \<Rightarrow> samsara_client \<Rightarrow> int set \<Rightarrow> string \<Rightarrow> ('x \<Rightarrow> string + string) \<Rightarrow> (string \<Rightarrow> string + 'a)
    \<Rightarrow> string \<Rightarrow> string \<Rightarrow> 'x \<Rightarrow> 's \<Rightarrow> (samsara_err + 'a) \<times> 's" where
  "write_json srv c good marshalling enc dec method path x s =
     (case enc x of
        Inl e \<Rightarrow> (Inl (PlainErr (marshalling @ '': '' @ e)), s)
      | Inr body \<Rightarrow>
          (case send_json srv c good method path body s of
             (Inl e, s') \<Rightarrow> (Inl e, s')
           | (Inr answer, s') \<Rightarrow> (case dec answer of Inl e \<Rightarrow> Inl (PlainErr (decoding @ '': '' @ e)) | Inr v \<Rightarrow> Inr v, s')))"

text \<open>\<open>TestConnection\<close>: nothing, the invalid-credentials error, or another one.\<close>

datatype connection_test = Connected | ErrInvalidCredentials | ConnErr string

definition samsara_TestConnection :: "'s http_server \<Rightarrow> samsara_client \<Rightarrow> 's \<Rightarrow> connection_test \<times> 's" where
  "samsara_TestConnection srv c s =
     (case srv (samsara_request c ''GET'' ''/fleet/vehicles?limit=1'' None) s of
        (BadUrl e, s') \<Rightarrow> (ConnErr (''samsara: failed to create request: '' @ e), s')
      | (NoAnswer e, s') \<Rightarrow> (ConnErr (''samsara: network error: '' @ e), s')
      | (Answer r, s') \<Rightarrow>
          (if rs_status r = 401 \<or> rs_status r = 403 then ErrInvalidCredentials
           else if rs_status r < 200 \<or> rs_status r \<ge> 300
           then ConnErr (''samsara: status '' @ show_int (rs_status r) @ '': '' @ rs_body r)
           else Connected, s'))"

text \<open>A rejected key is recognised by every reading operation, and by none of the writing ones.\<close>

lemma auth_error_read:
  assumes "srv (samsara_request c ''GET'' path None) s = (Answer r, s')" and "rs_status r \<in> {401, 403}"
  shows "\<exists>e. get_json srv c (WrapErr t) what dec path s = (Inl e, s') \<and> IsAuthError e"
    and "\<exists>e. get_json srv c id what dec path s = (Inl e, s') \<and> IsAuthError e"
  using assms by (auto simp: get_json_def doRequest_def)

lemma auth_error_write:
  assumes "write_json srv c good marshalling enc dec method path x s = (Inl e, s')"
  shows "\<not> IsAuthError e"
  using assms
  by (auto simp: write_json_def send_json_def status_failed_def split: sum.splits prod.splits http_outcome.splits if_splits)

subsection \<open>Data\<close>

record gps_coordinates =
  g_Time :: string
  g_Latitude :: flt
  g_Longitude :: flt
  g_Heading :: flt
  g_Speed :: flt

record fuel_percent =
  f_Value :: flt
  f_Time :: string

record vehicle_info =
  vi_ID :: string
  vi_Name :: string
  vi_Vin :: string

record vehicle_location =
  vl_ID :: string
  vl_Name :: string
  vl_Vin :: string
  vl_ExternalIDs :: "(string \<times> string) list"
  vl_Gps :: "gps_coordinates option"
  vl_Fuel :: "fuel_percent option"

text \<open>The feed lists the readings since the last call, oldest first.\<close>

record vehicle_feed =
  vf_ID :: string
  vf_Name :: string
  vf_ExternalIDs :: "(string \<times> string) list"
  vf_Gps :: "gps_coordinates list"
  vf_Fuel :: "fuel_percent list"

subsection \<open>Listings\<close>

definition ListVehicles :: "'s http_server \<Rightarrow> samsara_client \<Rightarrow> (string \<Rightarrow> string + vehicle_info list) \<Rightarrow> 's
    \<Rightarrow> (samsara_err + vehicle_info list) \<times> 's" where
  "ListVehicles srv c dec s = get_json srv c id decoding dec ''/fleet/vehicles'' s"

definition GetVehiclesStats :: "'s http_server \<Rightarrow> samsara_client \<Rightarrow> (string \<Rightarrow> string + vehicle_location page) \<Rightarrow> int list \<Rightarrow> 's
    \<Rightarrow> (samsara_err + vehicle_location list) \<times> 's" where
  "GetVehiclesStats srv c dec vehicleIDs s =
     (if vehicleIDs = [] then (Inr [], s)
      else map_prod (map_sum id pg_data) id (get_json srv c id decoding dec
             (''/fleet/vehicles/stats?types=gps&vehicleIds='' @ join_with '','' (map show_int vehicleIDs)) s))"

definition GetVehicleCoordinates :: "'s http_server \<Rightarrow> samsara_client \<Rightarrow> (string \<Rightarrow> string + vehicle_location) \<Rightarrow> int \<Rightarrow> 's
    \<Rightarrow> (samsara_err + vehicle_location) \<times> 's" where
  "GetVehicleCoordinates srv c dec vehicleID s =
     get_json srv c id decoding dec (''/fleet/vehicles/'' @ show_int vehicleID @ ''/locations'') s"

definition GetVehicleByVIN :: "'s http_server \<Rightarrow> samsara_client \<Rightarrow> (string \<Rightarrow> string + vehicle_info) \<Rightarrow> string \<Rightarrow> 's
    \<Rightarrow> (samsara_err + vehicle_info) \<times> 's" where
  "GetVehicleByVIN srv c dec vin s =
     (if vin = [] then (Inl (PlainErr ''VIN cannot be empty''), s)
      else get_json srv c id (''failed to decode response for VIN '' @ [CHR 0x27] @ vin @ [CHR 0x27]) dec (''/fleet/vehicles?vin='' @ vin) s)"

definition GetAllVehiclesLocations :: "'s http_server \<Rightarrow> samsara_client \<Rightarrow> (string \<Rightarrow> string + vehicle_location page) \<Rightarrow> 's
    \<Rightarrow> (samsara_err + vehicle_location list) \<times> 's" where
  "GetAllVehiclesLocations srv c dec s =
     map_prod (map_sum id pg_data) id (get_json srv c (WrapErr ''failed to get all vehicles locations'')
       ''failed to decode vehicles locations response'' dec ''/fleet/vehicles/locations'' s)"

definition GetAllVehiclesLocationsWithTime :: "'s http_server \<Rightarrow> samsara_client \<Rightarrow> (string \<Rightarrow> string + vehicle_location page)
    \<Rightarrow> go_time \<Rightarrow> go_time \<Rightarrow> 's \<Rightarrow> (samsara_err + vehicle_location list) \<times> 's" where
  "GetAllVehiclesLocationsWithTime srv c dec startTime endTime s =
     map_prod (map_sum id pg_data) id (get_json srv c (WrapErr ''failed to get vehicles locations with time filter'')
       ''failed to decode vehicles locations response'' dec
       (''/fleet/vehicles/locations?startTime='' @ fmt_RFC3339 startTime @ ''&endTime='' @ fmt_RFC3339 endTime) s)"

definition GetAllVehiclesStats :: "'s http_server \<Rightarrow> samsara_client \<Rightarrow> (string \<Rightarrow> string + vehicle_location page) \<Rightarrow> 's
    \<Rightarrow> (samsara_err + vehicle_location list) \<times> 's" where
  "GetAllVehiclesStats srv c dec s =
     map_prod (map_sum id pg_data) id (get_json srv c id decoding dec ''/fleet/vehicles/stats?types=gps,fuelPercents'' s)"

text \<open>One row per position of the feed, each with the vehicle's latest fuel reading; a vehicle without a position
  gives none.\<close>

definition feed_rows :: "vehicle_feed \<Rightarrow> vehicle_location list" where
  "feed_rows v =
     (let fuel = (if vf_Fuel v = [] then None else Some (last (vf_Fuel v))) in
      map (\<lambda>gps. \<lparr>vl_ID = vf_ID v, vl_Name = vf_Name v, vl_Vin = [], vl_ExternalIDs = vf_ExternalIDs v,
                   vl_Gps = Some gps, vl_Fuel = fuel\<rparr>) (vf_Gps v))"

definition convert_feed :: "vehicle_feed page \<Rightarrow> vehicle_location page" where
  "convert_feed p = \<lparr>pg_data = concat (map feed_rows (pg_data p)), EndCursor = EndCursor p, HasNextPage = HasNextPage p\<rparr>"

definition feed_page :: "'s http_server \<Rightarrow> samsara_client \<Rightarrow> (string \<Rightarrow> string + vehicle_feed page)
    \<Rightarrow> (samsara_err, vehicle_feed, 's) fetch" where
  "feed_page srv c dec cursor s =
     get_json srv c (WrapErr ''failed to get vehicle stats feed page'') ''failed to decode feed response'' dec
       (''/fleet/vehicles/stats/feed?types=gps,fuelPercents'' @ (if cursor \<noteq> [] then ''&after='' @ cursor else [])) s"

definition fetchStatsFeedPage :: "'s http_server \<Rightarrow> samsara_client \<Rightarrow> (string \<Rightarrow> string + vehicle_feed page)
    \<Rightarrow> (samsara_err, vehicle_location, 's) fetch" where
  "fetchStatsFeedPage srv c dec cursor s = map_prod (map_sum id convert_feed) id (feed_page srv c dec cursor s)"

text \<open>The feed and the addresses go on as long as the service says so; the other listings stop at an empty cursor
  too.\<close>

definition unguarded :: "'a page \<Rightarrow> bool" where
  "unguarded p \<longleftrightarrow> HasNextPage p"

definition guarded :: "'a page \<Rightarrow> bool" where
  "guarded p \<longleftrightarrow> HasNextPage p \<and> EndCursor p \<noteq> []"

record stats_feed =
  sf_Data :: "vehicle_location list"
  sf_EndCursor :: string
  sf_HasMore :: bool

definition GetVehicleStatsFeed :: "'s http_server \<Rightarrow> samsara_client \<Rightarrow> (string \<Rightarrow> string + vehicle_feed page) \<Rightarrow> string \<Rightarrow> 's
    \<Rightarrow> ((samsara_err + stats_feed) \<times> 's) option" where
  "GetVehicleStatsFeed srv c dec cursor s =
     map_option (map_prod (map_sum id (\<lambda>(rows, cur). \<lparr>sf_Data = rows, sf_EndCursor = cur, sf_HasMore = False\<rparr>)) id)
       (page_loop unguarded (fetchStatsFeedPage srv c dec) cursor [] s)"

definition fetchVehicleStatsPage :: "'s http_server \<Rightarrow> samsara_client \<Rightarrow> (string \<Rightarrow> string + 'v page) \<Rightarrow> string
    \<Rightarrow> (samsara_err, 'v, 's) fetch" where
  "fetchVehicleStatsPage srv c dec basePath cursor s =
     get_json srv c (WrapErr ''failed to get vehicle stats page'') ''failed to decode vehicle stats response'' dec
       (if cursor \<noteq> [] then basePath @ (if go_contains basePath ''?'' then ''&'' else ''?'') @ ''after='' @ cursor else basePath) s"

definition GetVehicleStatsSnapshot :: "'s http_server \<Rightarrow> samsara_client \<Rightarrow> (string \<Rightarrow> string + 'v page) \<Rightarrow> string list \<Rightarrow> string list
    \<Rightarrow> 's \<Rightarrow> ((samsara_err + 'v list) \<times> 's) option" where
  "GetVehicleStatsSnapshot srv c dec types vehicleIDs s =
     (if types = [] then Some (Inl (PlainErr ''types cannot be empty''), s)
      else let path = ''/fleet/vehicles/stats?types='' @ join_with '','' types
                      @ (if vehicleIDs \<noteq> [] then ''&vehicleIds='' @ join_with '','' vehicleIDs else []) in
           map_option (map_prod (map_sum id fst) id) (page_loop guarded (fetchVehicleStatsPage srv c dec path) [] [] s))"

definition hos_base :: "string list \<Rightarrow> go_time \<Rightarrow> go_time \<Rightarrow> string" where
  "hos_base driverIDs startTime endTime =
     ''/fleet/hos/logs?startTime='' @ fmt_RFC3339_utc (gt_UTC startTime) @ ''&endTime='' @ fmt_RFC3339_utc (gt_UTC endTime)
     @ (if driverIDs \<noteq> [] then ''&driverIds='' @ join_with '','' driverIDs else [])"

definition hos_page :: "'s http_server \<Rightarrow> samsara_client \<Rightarrow> (string \<Rightarrow> string + 'h page) \<Rightarrow> string \<Rightarrow> (samsara_err, 'h, 's) fetch" where
  "hos_page srv c dec basePath cursor s =
     get_json srv c (WrapErr ''failed to get HOS logs'') ''failed to decode HOS logs response'' dec
       (basePath @ (if cursor \<noteq> [] then ''&after='' @ cursor else [])) s"

definition GetHOSLogs :: "'s http_server \<Rightarrow> samsara_client \<Rightarrow> (string \<Rightarrow> string + 'h page) \<Rightarrow> string list \<Rightarrow> go_time \<Rightarrow> go_time \<Rightarrow> 's
    \<Rightarrow> ((samsara_err + 'h list) \<times> 's) option" where
  "GetHOSLogs srv c dec driverIDs startTime endTime s =
     map_option (map_prod (map_sum id fst) id) (page_loop guarded (hos_page srv c dec (hos_base driverIDs startTime endTime)) [] [] s)"

definition driver_page :: "'s http_server \<Rightarrow> samsara_client \<Rightarrow> (string \<Rightarrow> string + 'd page) \<Rightarrow> (samsara_err, 'd, 's) fetch" where
  "driver_page srv c dec cursor s =
     get_json srv c id ''failed to decode drivers response'' dec
       (''/fleet/drivers'' @ (if cursor \<noteq> [] then ''?after='' @ cursor else [])) s"

definition ListDrivers :: "'s http_server \<Rightarrow> samsara_client \<Rightarrow> (string \<Rightarrow> string + 'd page) \<Rightarrow> 's \<Rightarrow> ((samsara_err + 'd list) \<times> 's) option" where
  "ListDrivers srv c dec s = map_option (map_prod (map_sum id fst) id) (page_loop guarded (driver_page srv c dec) [] [] s)"

definition after_query :: "string \<Rightarrow> string \<Rightarrow> string" where
  "after_query path cursor = (if cursor \<noteq> [] then path @ ''?after='' @ cursor else path)"

definition ListAddresses :: "'s http_server \<Rightarrow> samsara_client \<Rightarrow> (string \<Rightarrow> string + 'a page) \<Rightarrow> (samsara_err, 'a, 's) fetch" where
  "ListAddresses srv c dec cursor s = get_json srv c id decoding dec (after_query ''/addresses'' cursor) s"

definition GetAllAddresses :: "'s http_server \<Rightarrow> samsara_client \<Rightarrow> (string \<Rightarrow> string + 'a page) \<Rightarrow> 's \<Rightarrow> ((samsara_err + 'a list) \<times> 's) option" where
  "GetAllAddresses srv c dec s =
     map_option (map_prod (map_sum id fst) id) (page_loop unguarded (ListAddresses srv c dec) [] [] s)"

definition ListWebhooks :: "'s http_server \<Rightarrow> samsara_client \<Rightarrow> (string \<Rightarrow> string + 'w page) \<Rightarrow> (samsara_err, 'w, 's) fetch" where
  "ListWebhooks srv c dec cursor s = get_json srv c id decoding dec (after_query ''/webhooks'' cursor) s"

subsection \<open>What the listings return\<close>

definition listing_result :: "('a list \<times> string \<Rightarrow> 'b) \<Rightarrow> 'a page list \<Rightarrow> 'e option \<Rightarrow> 'e + 'b" where
  "listing_result f ps r = (case r of Some e \<Rightarrow> Inl e | None \<Rightarrow> Inr (f (concat (map pg_data ps), EndCursor (last ps))))"

lemma listing_result_page: "map_sum id f (page_result [] ps r) = listing_result f ps r"
  by (simp add: page_result_def listing_result_def split: option.split)

lemma page_loop_listing:
  "map_option (map_prod (map_sum id f) id) (page_loop goes_on fetch c [] s) = Some (out, s') \<longleftrightarrow>
     (\<exists>ps r. page_run goes_on fetch c s ps r s' \<and> out = listing_result f ps r)"
proof -
  have "map_option (map_prod (map_sum id f) id) (page_loop goes_on fetch c [] s) = Some (out, s')
      \<longleftrightarrow> (\<exists>out'. page_loop goes_on fetch c [] s = Some (out', s') \<and> out = map_sum id f out')"
    by auto
  also have "\<dots> \<longleftrightarrow> (\<exists>ps r. page_run goes_on fetch c s ps r s' \<and> out = listing_result f ps r)"
    unfolding page_loop_iff listing_result_page [symmetric] by blast
  finally show ?thesis .
qed

text \<open>The run of a converted listing is that of the service's own pages.\<close>

lemma page_run_map:
  assumes "\<And>c s. fetch' c s = map_prod (map_sum id f) id (fetch c s)"
    and "\<And>p. goes_on (f p) \<longleftrightarrow> goes_on' p" and "\<And>p. EndCursor (f p) = EndCursor p"
  shows "page_run goes_on' fetch c s ps r s' \<Longrightarrow> page_run goes_on fetch' c s (map f ps) r s'"
proof (induction rule: page_run.induct)
  case (failing c s e s')
  then show ?case by (simp add: page_run.failing assms)
next
  case (final c s p s')
  then show ?case by (simp add: page_run.final assms)
next
  case (further c s p s1 ps r s')
  have "fetch' c s = (Inr (f p), s1)" using further.hyps(1) by (simp add: assms(1))
  then show ?case using page_run.further [of fetch' c s "f p" s1 goes_on "map f ps" r s'] further.hyps(2) further.IH
    by (simp add: assms(2,3))
qed

text \<open>C32. The feed of vehicle statistics, called with the cursor of the last call, returns, provided the service's
  cursors lead to an end: every page that promises another one is followed by one closer to it. It returns one row for
  every position of every vehicle on all the service's pages, page by page and in the order of the pages, with the
  vehicle's latest fuel reading, together with the cursor of the last page, which has no successor; or the error of the
  first page that failed, and then no rows at all.\<close>

theorem stats_feed_complete:
  fixes m :: "string \<Rightarrow> 's \<Rightarrow> nat"
  assumes "\<And>c s p s'. feed_page srv cl dec c s = (Inr p, s') \<Longrightarrow> HasNextPage p \<Longrightarrow> m (EndCursor p) s' < m c s"
  shows "\<exists>ps r s'. page_run HasNextPage (feed_page srv cl dec) cursor s ps r s'
    \<and> GetVehicleStatsFeed srv cl dec cursor s =
        Some (case r of
                Some e \<Rightarrow> Inl e
              | None \<Rightarrow> Inr \<lparr>sf_Data = concat (map feed_rows (concat (map pg_data ps))), sf_EndCursor = EndCursor (last ps),
                            sf_HasMore = False\<rparr>, s')
    \<and> (r = None \<longrightarrow> ps \<noteq> [] \<and> \<not> HasNextPage (last ps))"
proof -
  obtain ps r s' where run: "page_run HasNextPage (feed_page srv cl dec) cursor s ps r s'"
    using page_run_exists [of "feed_page srv cl dec" HasNextPage m, OF assms] by blast
  note end_page = page_run_final [OF run]
  have converted: "page_run unguarded (fetchStatsFeedPage srv cl dec) cursor s (map convert_feed ps) r s'"
    by (rule page_run_map [OF _ _ _ run]) (simp_all add: fetchStatsFeedPage_def unguarded_def convert_feed_def)
  have rows: "concat (map (pg_data \<circ> convert_feed) qs) = concat (map feed_rows (concat (map pg_data qs)))" for qs
    by (induction qs) (simp_all add: convert_feed_def)
  have "EndCursor (last (map convert_feed ps)) = EndCursor (last ps)" if "r = None"
    using end_page that by (simp add: last_map convert_feed_def)
  then have "GetVehicleStatsFeed srv cl dec cursor s =
      Some (case r of
              Some e \<Rightarrow> Inl e
            | None \<Rightarrow> Inr \<lparr>sf_Data = concat (map feed_rows (concat (map pg_data ps))), sf_EndCursor = EndCursor (last ps),
                          sf_HasMore = False\<rparr>, s')"
    unfolding GetVehicleStatsFeed_def page_loop_listing using converted
    by (intro exI [of _ "map convert_feed ps"] exI [of _ r]) (simp add: listing_result_def rows split: option.split)
  then show ?thesis using run end_page by blast
qed

text \<open>A service with two pages, to run the feed on.\<close>

definition two_pages :: "unit http_server" where
  "two_pages rq s = (Answer \<lparr>rs_status = 200, rs_headers = [],
     rs_body = (if go_contains (rq_url rq) ''after='' then ''second'' else ''first'')\<rparr>, s)"

definition truck_feed :: "string \<Rightarrow> vehicle_feed" where
  "truck_feed t = \<lparr>vf_ID = ''281474'', vf_Name = ''Truck 7'', vf_ExternalIDs = [],
     vf_Gps = [\<lparr>g_Time = t, g_Latitude = Fin 0, g_Longitude = Fin 0, g_Heading = Fin 0, g_Speed = Fin 0\<rparr>], vf_Fuel = []\<rparr>"

definition dec_two_pages :: "string \<Rightarrow> string + vehicle_feed page" where
  "dec_two_pages body = Inr \<lparr>pg_data = [truck_feed body], EndCursor = ''c2'', HasNextPage = (body = ''first'')\<rparr>"

lemma two_pages_fetch:
  "feed_page two_pages (NewClientWithToken k) dec_two_pages c s
   = (Inr \<lparr>pg_data = [truck_feed (if c \<noteq> [] then ''second'' else ''first'')], EndCursor = ''c2'', HasNextPage = (c = [])\<rparr>, s)"
proof -
  have no: "\<not> go_contains ''https://api.samsara.com/fleet/vehicles/stats/feed?types=gps,fuelPercents'' ''after=''"
    by (simp add: go_contains_def)
  have yes: "go_contains (''https://api.samsara.com/fleet/vehicles/stats/feed?types=gps,fuelPercents&after='' @ c) ''after=''"
    by (simp add: go_contains_def)
  show ?thesis
    using no yes by (simp add: feed_page_def get_json_def doRequest_def two_pages_def samsara_request_def
        NewClientWithToken_def dec_two_pages_def del: suffixes.simps)
qed

lemma two_pages_advance:
  "feed_page two_pages (NewClientWithToken ''k'') dec_two_pages c s = (Inr p, s') \<Longrightarrow> HasNextPage p
    \<Longrightarrow> (if EndCursor p = [] then 1 else 0) < (if c = [] then 1 else 0 :: nat)"
  by (auto simp: two_pages_fetch)

lemma stats_feed_complete_witness:
  "\<exists>ps r s'. page_run HasNextPage (feed_page two_pages (NewClientWithToken ''k'') dec_two_pages) [] () ps r s'
    \<and> GetVehicleStatsFeed two_pages (NewClientWithToken ''k'') dec_two_pages [] () =
        Some (case r of
                Some e \<Rightarrow> Inl e
              | None \<Rightarrow> Inr \<lparr>sf_Data = concat (map feed_rows (concat (map pg_data ps))), sf_EndCursor = EndCursor (last ps),
                            sf_HasMore = False\<rparr>, s')
    \<and> (r = None \<longrightarrow> ps \<noteq> [] \<and> \<not> HasNextPage (last ps))"
  by (rule stats_feed_complete [of two_pages "NewClientWithToken ''k''" dec_two_pages "\<lambda>c s. if c = [] then 1 else 0"])
    (rule two_pages_advance)

text \<open>The other listings, in the same terms.\<close>

lemma GetHOSLogs_iff:
  "GetHOSLogs srv c dec ds t1 t2 s = Some (out, s') \<longleftrightarrow>
     (\<exists>ps r. page_run guarded (hos_page srv c dec (hos_base ds t1 t2)) [] s ps r s' \<and> out = listing_result fst ps r)"
  unfolding GetHOSLogs_def by (rule page_loop_listing)

lemma ListDrivers_iff:
  "ListDrivers srv c dec s = Some (out, s') \<longleftrightarrow>
     (\<exists>ps r. page_run guarded (driver_page srv c dec) [] s ps r s' \<and> out = listing_result fst ps r)"
  unfolding ListDrivers_def by (rule page_loop_listing)

lemma GetAllAddresses_iff:
  "GetAllAddresses srv c dec s = Some (out, s') \<longleftrightarrow>
     (\<exists>ps r. page_run unguarded (ListAddresses srv c dec) [] s ps r s' \<and> out = listing_result fst ps r)"
  unfolding GetAllAddresses_def by (rule page_loop_listing)

text \<open>A service that promises more without naming a cursor: the guarded listings return after that page, the feed and
  the addresses ask for the first page for ever.\<close>

lemma guarded_returns:
  assumes "driver_page srv c dec [] s = (Inr p, s')" and "EndCursor p = []"
  shows "ListDrivers srv c dec s = Some (Inr (pg_data p), s')"
proof -
  have "page_run guarded (driver_page srv c dec) [] s [p] None s'"
    using assms by (simp add: final guarded_def)
  then show ?thesis unfolding ListDrivers_iff by (intro exI [of _ "[p]"] exI [of _ None]) (simp add: listing_result_def)
qed

lemma unguarded_spins:
  assumes "\<And>s. \<exists>p s'. ListAddresses srv c dec [] s = (Inr p, s') \<and> HasNextPage p \<and> EndCursor p = []"
  shows "GetAllAddresses srv c dec s = None"
  using page_loop_spins [of "ListAddresses srv c dec" "[]" unguarded "[]" s] assms
  by (simp add: GetAllAddresses_def unguarded_def)

lemma feed_spins:
  assumes "\<And>s. \<exists>p s'. fetchStatsFeedPage srv c dec cursor s = (Inr p, s') \<and> HasNextPage p \<and> EndCursor p = cursor"
  shows "GetVehicleStatsFeed srv c dec cursor s = None"
  using page_loop_spins [of "fetchStatsFeedPage srv c dec" cursor unguarded "[]" s] assms
  by (simp add: GetVehicleStatsFeed_def unguarded_def)

text \<open>The listings that are said to cover all vehicles read one page and drop its cursor: what comes after it is
  never asked for.\<close>

lemma all_vehicles_first_page:
  assumes "get_json srv c id decoding dec ''/fleet/vehicles/stats?types=gps,fuelPercents'' s = (Inr p, s')"
  shows "GetAllVehiclesStats srv c dec s = (Inr (pg_data p), s')"
  using assms by (simp add: GetAllVehiclesStats_def)

lemma convert_feed_rows:
  "length (pg_data (convert_feed p)) = (\<Sum>v \<leftarrow> pg_data p. length (vf_Gps v))"
  by (simp add: convert_feed_def feed_rows_def length_concat comp_def)

lemma feed_rows_fuel:
  assumes "row \<in> set (feed_rows v)"
  shows "vl_ID row = vf_ID v \<and> vl_Gps row \<noteq> None \<and> vl_Fuel row = (if vf_Fuel v = [] then None else Some (last (vf_Fuel v)))"
  using assms by (auto simp: feed_rows_def Let_def)

text \<open>A fuel reading without a position is not in any row, and the cursor has passed it.\<close>

lemma fuel_without_position: "vf_Gps v = [] \<Longrightarrow> feed_rows v = []"
  by (simp add: feed_rows_def)

subsection \<open>The service\<close>

record location_data =
  ld_Latitude :: flt
  ld_Longitude :: flt
  ld_Heading :: flt
  ld_Speed :: flt
  ld_Timestamp :: go_time
  ld_SamsaraID :: string
  ld_VehicleName :: string
  ld_VIN :: string

text \<open>A position without a readable time is dated \<open>now\<close>, which is \<open>time.Now()\<close>.\<close>

definition position_time :: "go_time \<Rightarrow> string \<Rightarrow> go_time" where
  "position_time now t =
     (case (if t \<noteq> [] then parse_time RFC3339_layout t else None) of
        None \<Rightarrow> now
      | Some ts \<Rightarrow> if IsZero ts then now else ts)"

definition location_data_of :: "go_time \<Rightarrow> gps_coordinates \<Rightarrow> string \<Rightarrow> string \<Rightarrow> string \<Rightarrow> location_data" where
  "location_data_of now g i n v = \<lparr>ld_Latitude = g_Latitude g, ld_Longitude = g_Longitude g, ld_Heading = g_Heading g,
     ld_Speed = g_Speed g, ld_Timestamp = position_time now (g_Time g), ld_SamsaraID = i, ld_VehicleName = n, ld_VIN = v\<rparr>"

definition not_configured :: samsara_err where
  "not_configured = PlainErr ''samsara client is not configured''"

definition GetVehicleLocationByVIN :: "'s http_server \<Rightarrow> samsara_client option \<Rightarrow> (string \<Rightarrow> string + vehicle_info)
    \<Rightarrow> (string \<Rightarrow> string + vehicle_location) \<Rightarrow> go_time \<Rightarrow> string \<Rightarrow> 's \<Rightarrow> (samsara_err + location_data) \<times> 's" where
  "GetVehicleLocationByVIN srv client decV decL now vin s =
     (case client of
        None \<Rightarrow> (Inl not_configured, s)
      | Some c \<Rightarrow>
          if vin = [] then (Inl (PlainErr ''VIN cannot be empty''), s)
          else (case GetVehicleByVIN srv c decV vin s of
            (Inl e, s1) \<Rightarrow> (Inl (WrapErr (''failed to find vehicle by VIN '' @ vin) e), s1)
          | (Inr vehicle, s1) \<Rightarrow>
              (case atoi (vi_ID vehicle) of
                 None \<Rightarrow> (Inl (PlainErr (''invalid samsara vehicle ID format: '' @ vi_ID vehicle)), s1)
               | Some samsaraID \<Rightarrow>
                   (case GetVehicleCoordinates srv c decL samsaraID s1 of
                      (Inl e, s2) \<Rightarrow> (Inl (WrapErr (''failed to get coordinates for vehicle '' @ vin @ '' (samsara ID: ''
                                            @ show_int samsaraID @ '')'') e), s2)
                    | (Inr location, s2) \<Rightarrow>
                        (case vl_Gps location of
                           None \<Rightarrow> Inl (PlainErr (''no GPS data available for vehicle: '' @ vin))
                         | Some g \<Rightarrow> Inr (location_data_of now g (vi_ID vehicle) (vi_Name vehicle) (vi_Vin vehicle)), s2)))))"

definition GetVehicleLocationBySamsaraID :: "'s http_server \<Rightarrow> samsara_client option
    \<Rightarrow> (string \<Rightarrow> string + vehicle_location) \<Rightarrow> go_time \<Rightarrow> int \<Rightarrow> 's \<Rightarrow> (samsara_err + location_data) \<times> 's" where
  "GetVehicleLocationBySamsaraID srv client decL now samsaraID s =
     (case client of
        None \<Rightarrow> (Inl not_configured, s)
      | Some c \<Rightarrow>
          (case GetVehicleCoordinates srv c decL samsaraID s of
             (Inl e, s1) \<Rightarrow> (Inl (WrapErr (''failed to get coordinates for samsara ID '' @ show_int samsaraID) e), s1)
           | (Inr location, s1) \<Rightarrow>
               (case vl_Gps location of
                  None \<Rightarrow> Inl (PlainErr (''no GPS data available for samsara ID: '' @ show_int samsaraID))
                | Some g \<Rightarrow> Inr (location_data_of now g (vl_ID location) (vl_Name location) (vl_Vin location)), s1)))"

definition positioned :: "go_time \<Rightarrow> vehicle_location \<Rightarrow> location_data list" where
  "positioned now loc =
     (case vl_Gps loc of None \<Rightarrow> [] | Some g \<Rightarrow> [location_data_of now g (vl_ID loc) (vl_Name loc) (vl_Vin loc)])"

definition svc_GetAllVehiclesLocations :: "'s http_server \<Rightarrow> samsara_client option \<Rightarrow> (string \<Rightarrow> string + vehicle_location page)
    \<Rightarrow> go_time \<Rightarrow> 's \<Rightarrow> (samsara_err + location_data list) \<times> 's" where
  "svc_GetAllVehiclesLocations srv client dec now s =
     (case client of
        None \<Rightarrow> (Inl not_configured, s)
      | Some c \<Rightarrow>
          (case GetAllVehiclesLocations srv c dec s of
             (Inl e, s1) \<Rightarrow> (Inl (WrapErr ''failed to get all vehicles locations'' e), s1)
           | (Inr locations, s1) \<Rightarrow> (Inr (concat (map (positioned now) locations)), s1)))"

text \<open>A rejected key stays recognisable through the service.\<close>

lemma service_auth_error:
  assumes "srv (samsara_request c ''GET'' (''/fleet/vehicles/'' @ show_int i @ ''/locations'') None) s = (Answer r, s')"
    and "rs_status r \<in> {401, 403}"
  shows "\<exists>e. GetVehicleLocationBySamsaraID srv (Some c) decL now i s = (Inl e, s') \<and> IsAuthError e"
  using auth_error_read(2) [where srv = srv and c = c and path = "''/fleet/vehicles/'' @ show_int i @ ''/locations''" and s = s
      and what = decoding and dec = decL, OF assms]
  by (auto simp: GetVehicleLocationBySamsaraID_def GetVehicleCoordinates_def)

text \<open>A position with a time that cannot be read, or with none, is dated now.\<close>

lemma undated_position: "parse_time RFC3339_layout t = None \<Longrightarrow> position_time now t = now"
  by (simp add: position_time_def)

lemma dated_position:
  "position_time now ''2024-09-02T17:23:46.5-05:00'' = \<lparr>gt_instant = (days_of 2024 9 2 * 86400 + 80626) * 1000000000 + 500000000,
     gt_offset = - 18000000000000\<rparr>"
  by code_simp

text \<open>A time of a zone east of Greenwich puts a plus sign into the query, which a server reads as a blank; the HOS logs
  convert to UTC first.\<close>

lemma window_plus_sign:
  assumes "gt_offset t \<ge> 60000000000"
  shows "CHR ''+'' \<in> set (fmt_RFC3339 t)"
  using assms by (auto simp: fmt_RFC3339_def fmt_zone_def Let_def sgn_if)

subsection \<open>Drivers, addresses, webhooks and alerts\<close>

definition GetDriver :: "'s http_server \<Rightarrow> samsara_client \<Rightarrow> (string \<Rightarrow> string + 'd) \<Rightarrow> string \<Rightarrow> 's \<Rightarrow> (samsara_err + 'd) \<times> 's" where
  "GetDriver srv c dec driverID s =
     get_json srv c id ''failed to decode driver response'' dec (''/fleet/drivers/'' @ driverID) s"

definition GetDriverSafetyScore :: "'s http_server \<Rightarrow> samsara_client \<Rightarrow> (string \<Rightarrow> string + 'd) \<Rightarrow> string \<Rightarrow> go_time \<Rightarrow> go_time \<Rightarrow> 's
    \<Rightarrow> (samsara_err + 'd) \<times> 's" where
  "GetDriverSafetyScore srv c dec driverID startTime endTime s =
     get_json srv c id ''failed to decode safety score response'' dec
       (''/v1/fleet/drivers/'' @ driverID @ ''/safety/score?startMs='' @ show_int (UnixMilli startTime)
        @ ''&endMs='' @ show_int (UnixMilli endTime)) s"

definition created :: "int set" where "created = {200, 201}"

definition CreateAddress :: "'s http_server \<Rightarrow> samsara_client \<Rightarrow> ('x \<Rightarrow> string + string) \<Rightarrow> (string \<Rightarrow> string + 'x) \<Rightarrow> 'x \<Rightarrow> 's
    \<Rightarrow> (samsara_err + 'x) \<times> 's" where
  "CreateAddress srv c enc dec address s =
     write_json srv c created ''failed to marshal address'' enc dec ''POST'' ''/addresses'' address s"

definition GetAddress :: "'s http_server \<Rightarrow> samsara_client \<Rightarrow> (string \<Rightarrow> string + 'x) \<Rightarrow> string \<Rightarrow> 's \<Rightarrow> (samsara_err + 'x) \<times> 's" where
  "GetAddress srv c dec addressID s = get_json srv c id decoding dec (''/addresses/'' @ addressID) s"

definition UpdateAddress :: "'s http_server \<Rightarrow> samsara_client \<Rightarrow> ('u \<Rightarrow> string + string) \<Rightarrow> (string \<Rightarrow> string + 'x) \<Rightarrow> string \<Rightarrow> 'u \<Rightarrow> 's
    \<Rightarrow> (samsara_err + 'x) \<times> 's" where
  "UpdateAddress srv c enc dec addressID updates s =
     write_json srv c {200} ''failed to marshal updates'' enc dec ''PATCH'' (''/addresses/'' @ addressID) updates s"

text \<open>A deletion looks at the status only: the error, if any.\<close>

definition delete_path :: "'s http_server \<Rightarrow> samsara_client \<Rightarrow> string \<Rightarrow> 's \<Rightarrow> samsara_err option \<times> 's" where
  "delete_path srv c path s =
     (case doRequest srv c ''DELETE'' path None s of (Inl e, s') \<Rightarrow> (Some e, s') | (Inr body, s') \<Rightarrow> (None, s'))"

definition DeleteAddress :: "'s http_server \<Rightarrow> samsara_client \<Rightarrow> string \<Rightarrow> 's \<Rightarrow> samsara_err option \<times> 's" where
  "DeleteAddress srv c addressID s = delete_path srv c (''/addresses/'' @ addressID) s"

record polygon_vertex =
  pv_Latitude :: flt
  pv_Longitude :: flt

record samsara_address =
  ad_ID :: string
  ad_Name :: string
  ad_FormattedAddress :: string
  ad_Circle :: "int option"
  ad_Polygon :: "polygon_vertex list option"
  ad_Latitude :: flt
  ad_Longitude :: flt

definition CreateCircularGeofence :: "'s http_server \<Rightarrow> samsara_client \<Rightarrow> (samsara_address \<Rightarrow> string + string)
    \<Rightarrow> (string \<Rightarrow> string + samsara_address) \<Rightarrow> string \<Rightarrow> string \<Rightarrow> int \<Rightarrow> flt \<Rightarrow> flt \<Rightarrow> 's \<Rightarrow> (samsara_err + samsara_address) \<times> 's" where
  "CreateCircularGeofence srv c enc dec name formattedAddress radiusMeters lat lon s =
     (let address = \<lparr>ad_ID = [], ad_Name = name, ad_FormattedAddress = formattedAddress, ad_Circle = Some radiusMeters,
                      ad_Polygon = None, ad_Latitude = Fin 0, ad_Longitude = Fin 0\<rparr> in
      CreateAddress srv c enc dec
        (if \<not> f_eq lat (Fin 0) \<and> \<not> f_eq lon (Fin 0) then address\<lparr>ad_Latitude := lat, ad_Longitude := lon\<rparr> else address) s)"

definition CreatePolygonalGeofence :: "'s http_server \<Rightarrow> samsara_client \<Rightarrow> (samsara_address \<Rightarrow> string + string)
    \<Rightarrow> (string \<Rightarrow> string + samsara_address) \<Rightarrow> string \<Rightarrow> string \<Rightarrow> polygon_vertex list \<Rightarrow> 's
    \<Rightarrow> (samsara_err + samsara_address) \<times> 's" where
  "CreatePolygonalGeofence srv c enc dec name formattedAddress vertices s =
     (if length vertices < 3 then (Inl (PlainErr ''polygon must have at least 3 vertices''), s)
      else CreateAddress srv c enc dec
        \<lparr>ad_ID = [], ad_Name = name, ad_FormattedAddress = formattedAddress, ad_Circle = None,
         ad_Polygon = Some vertices, ad_Latitude = Fin 0, ad_Longitude = Fin 0\<rparr> s)"

record webhook_definition =
  wh_ID :: string
  wh_Name :: string
  wh_URL :: string
  wh_Version :: string
  wh_EventTypes :: "string list"
  wh_CustomHeaders :: "(string \<times> string) list"
  wh_Enabled :: bool
  wh_SecretKey :: string

text \<open>The answer to a created webhook is read as \<open>{"data": ...}\<close> and then bare; one with an id counts. The first two
  parameters of decoding are these two readings.\<close>

definition CreateWebhook :: "'s http_server \<Rightarrow> samsara_client \<Rightarrow> (webhook_definition \<Rightarrow> string + string)
    \<Rightarrow> (string \<Rightarrow> webhook_definition option) \<Rightarrow> (string \<Rightarrow> webhook_definition option) \<Rightarrow> webhook_definition \<Rightarrow> 's
    \<Rightarrow> (samsara_err + webhook_definition) \<times> 's" where
  "CreateWebhook srv c enc dec_wrapped dec_direct webhook s =
     (let webhook = (if wh_Version webhook = [] then webhook\<lparr>wh_Version := ''2018-01-01''\<rparr> else webhook) in
      case enc webhook of
        Inl e \<Rightarrow> (Inl (PlainErr (''failed to marshal webhook: '' @ e)), s)
      | Inr body \<Rightarrow>
          (case send_json srv c created ''POST'' ''/webhooks'' body s of
             (Inl e, s') \<Rightarrow> (Inl e, s')
           | (Inr respBody, s') \<Rightarrow>
               (case dec_wrapped respBody of
                  Some w \<Rightarrow> if wh_ID w \<noteq> [] then Inr w
                            else (case dec_direct respBody of
                                    Some d \<Rightarrow> if wh_ID d \<noteq> [] then Inr d
                                              else Inl (PlainErr (''webhook created but failed to parse ID. Response: '' @ respBody))
                                  | None \<Rightarrow> Inl (PlainErr (''webhook created but failed to parse ID. Response: '' @ respBody)))
                | None \<Rightarrow> (case dec_direct respBody of
                             Some d \<Rightarrow> if wh_ID d \<noteq> [] then Inr d
                                       else Inl (PlainErr (''webhook created but failed to parse ID. Response: '' @ respBody))
                           | None \<Rightarrow> Inl (PlainErr (''webhook created but failed to parse ID. Response: '' @ respBody))), s')))"

definition GetWebhook :: "'s http_server \<Rightarrow> samsara_client \<Rightarrow> (string \<Rightarrow> string + webhook_definition) \<Rightarrow> string \<Rightarrow> 's
    \<Rightarrow> (samsara_err + webhook_definition) \<times> 's" where
  "GetWebhook srv c dec webhookID s = get_json srv c id decoding dec (''/webhooks/'' @ webhookID) s"

definition UpdateWebhook :: "'s http_server \<Rightarrow> samsara_client \<Rightarrow> ('u \<Rightarrow> string + string) \<Rightarrow> (string \<Rightarrow> string + webhook_definition) \<Rightarrow> string
    \<Rightarrow> 'u \<Rightarrow> 's \<Rightarrow> (samsara_err + webhook_definition) \<times> 's" where
  "UpdateWebhook srv c enc dec webhookID updates s =
     write_json srv c {200} ''failed to marshal updates'' enc dec ''PATCH'' (''/webhooks/'' @ webhookID) updates s"

definition DeleteWebhook :: "'s http_server \<Rightarrow> samsara_client \<Rightarrow> string \<Rightarrow> 's \<Rightarrow> samsara_err option \<times> 's" where
  "DeleteWebhook srv c webhookID s = delete_path srv c (''/webhooks/'' @ webhookID) s"

definition CreateGeofenceWebhook :: "'s http_server \<Rightarrow> samsara_client \<Rightarrow> (webhook_definition \<Rightarrow> string + string)
    \<Rightarrow> (string \<Rightarrow> webhook_definition option) \<Rightarrow> (string \<Rightarrow> webhook_definition option) \<Rightarrow> string \<Rightarrow> string \<Rightarrow> (string \<times> string) list
    \<Rightarrow> 's \<Rightarrow> (samsara_err + webhook_definition) \<times> 's" where
  "CreateGeofenceWebhook srv c enc dw dd name url customHeaders s =
     CreateWebhook srv c enc dw dd
       \<lparr>wh_ID = [], wh_Name = name, wh_URL = url, wh_Version = ''2018-01-01'', wh_EventTypes = [''GeofenceEntry'', ''GeofenceExit''],
        wh_CustomHeaders = customHeaders, wh_Enabled = True, wh_SecretKey = []\<rparr> s"

subsection \<open>Alerts\<close>

text \<open>The parameters of triggers and actions are free-form JSON objects.\<close>

datatype json = JStr string | JInt int | JList "json list" | JObj "(string \<times> json) list"

record alert_configuration =
  ac_ID :: string
  ac_Name :: string
  ac_IsEnabled :: bool
  ac_All :: bool
  ac_Triggers :: "(int \<times> json) list"
  ac_Actions :: "(int \<times> json) list"

definition TriggerTypeInsideGeofence :: int where "TriggerTypeInsideGeofence = 1017"
definition TriggerTypeOutsideGeofence :: int where "TriggerTypeOutsideGeofence = 1018"
definition TriggerTypeTemperatureAbove :: int where "TriggerTypeTemperatureAbove = 1033"
definition TriggerTypeTemperatureBelow :: int where "TriggerTypeTemperatureBelow = 1034"
definition TriggerTypeHumidityAbove :: int where "TriggerTypeHumidityAbove = 1035"
definition TriggerTypeHumidityBelow :: int where "TriggerTypeHumidityBelow = 1036"
definition TriggerTypeDoorOpen :: int where "TriggerTypeDoorOpen = 1037"
definition ActionTypeWebhook :: int where "ActionTypeWebhook = 4"

lemmas trigger_types = TriggerTypeInsideGeofence_def TriggerTypeOutsideGeofence_def TriggerTypeTemperatureAbove_def
  TriggerTypeTemperatureBelow_def TriggerTypeHumidityAbove_def TriggerTypeHumidityBelow_def TriggerTypeDoorOpen_def

text \<open>An alert of one trigger whose action is a webhook.\<close>

definition webhook_alert :: "string \<Rightarrow> string \<Rightarrow> bool \<Rightarrow> int \<Rightarrow> json \<Rightarrow> alert_configuration" where
  "webhook_alert name webhookID applyToAll triggerTypeID triggerParams =
     \<lparr>ac_ID = [], ac_Name = name, ac_IsEnabled = True, ac_All = applyToAll, ac_Triggers = [(triggerTypeID, triggerParams)],
      ac_Actions = [(ActionTypeWebhook, JObj [(''webhooks'', JObj [(''webhookIds'', JList [JStr webhookID]),
                                                                    (''payloadType'', JStr ''enriched'')])])]\<rparr>"

definition CreateAlertConfiguration :: "'s http_server \<Rightarrow> samsara_client \<Rightarrow> (alert_configuration \<Rightarrow> string + string)
    \<Rightarrow> (string \<Rightarrow> string + alert_configuration) \<Rightarrow> alert_configuration \<Rightarrow> 's \<Rightarrow> (samsara_err + alert_configuration) \<times> 's" where
  "CreateAlertConfiguration srv c enc dec config s =
     write_json srv c created ''failed to marshal alert configuration'' enc dec ''POST'' ''/alerts/configurations'' config s"

definition GetAlertConfiguration :: "'s http_server \<Rightarrow> samsara_client \<Rightarrow> (string \<Rightarrow> string + alert_configuration) \<Rightarrow> string \<Rightarrow> 's
    \<Rightarrow> (samsara_err + alert_configuration) \<times> 's" where
  "GetAlertConfiguration srv c dec alertID s = get_json srv c id decoding dec (''/alerts/configurations/'' @ alertID) s"

definition UpdateAlertConfiguration :: "'s http_server \<Rightarrow> samsara_client \<Rightarrow> ('u \<Rightarrow> string + string) \<Rightarrow> (string \<Rightarrow> string + alert_configuration)
    \<Rightarrow> string \<Rightarrow> 'u \<Rightarrow> 's \<Rightarrow> (samsara_err + alert_configuration) \<times> 's" where
  "UpdateAlertConfiguration srv c enc dec alertID updates s =
     write_json srv c {200} ''failed to marshal updates'' enc dec ''PATCH'' (''/alerts/configurations/'' @ alertID) updates s"

definition DeleteAlertConfiguration :: "'s http_server \<Rightarrow> samsara_client \<Rightarrow> string \<Rightarrow> 's \<Rightarrow> samsara_err option \<times> 's" where
  "DeleteAlertConfiguration srv c alertID s = delete_path srv c (''/alerts/configurations/'' @ alertID) s"

definition geofence_alert :: "string \<Rightarrow> string \<Rightarrow> string \<Rightarrow> bool \<Rightarrow> int option \<Rightarrow> bool \<Rightarrow> alert_configuration" where
  "geofence_alert name addressID webhookID onEntry durationMs applyToAll =
     webhook_alert name webhookID applyToAll (if onEntry then TriggerTypeInsideGeofence else TriggerTypeOutsideGeofence)
       (JObj [(''geofence'', JObj ((''addressIds'', JList [JStr addressID])
          # (case durationMs of None \<Rightarrow> [] | Some ms \<Rightarrow> [(''minDurationMilliseconds'', JInt ms)])))])"

definition CreateGeofenceAlert :: "'s http_server \<Rightarrow> samsara_client \<Rightarrow> (alert_configuration \<Rightarrow> string + string)
    \<Rightarrow> (string \<Rightarrow> string + alert_configuration) \<Rightarrow> string \<Rightarrow> string \<Rightarrow> string \<Rightarrow> bool \<Rightarrow> bool \<Rightarrow> 's
    \<Rightarrow> (samsara_err + alert_configuration) \<times> 's" where
  "CreateGeofenceAlert srv c enc dec name addressID webhookID onEntry applyToAll s =
     CreateAlertConfiguration srv c enc dec (geofence_alert name addressID webhookID onEntry None applyToAll) s"

definition CreateGeofenceAlertWithDuration :: "'s http_server \<Rightarrow> samsara_client \<Rightarrow> (alert_configuration \<Rightarrow> string + string)
    \<Rightarrow> (string \<Rightarrow> string + alert_configuration) \<Rightarrow> string \<Rightarrow> string \<Rightarrow> string \<Rightarrow> bool \<Rightarrow> int \<Rightarrow> bool \<Rightarrow> 's
    \<Rightarrow> (samsara_err + alert_configuration) \<times> 's" where
  "CreateGeofenceAlertWithDuration srv c enc dec name addressID webhookID onEntry durationMs applyToAll s =
     CreateAlertConfiguration srv c enc dec (geofence_alert name addressID webhookID onEntry (Some durationMs) applyToAll) s"

definition sensor_alert :: "string \<Rightarrow> string \<Rightarrow> bool \<Rightarrow> int \<Rightarrow> string \<Rightarrow> int \<Rightarrow> (string \<times> json) list \<Rightarrow> int \<Rightarrow> alert_configuration" where
  "sensor_alert name webhookID applyToAll triggerTypeID kind sensorID threshold durationMs =
     webhook_alert name webhookID applyToAll triggerTypeID
       (JObj [(kind, JObj ((''sensorIds'', JList [JInt sensorID]) # threshold @ [(''minDurationMilliseconds'', JInt durationMs)]))])"

text \<open>\<open>milli\<close> is \<open>int(thresholdCelsius * 1000)\<close>, floating-point product and truncation included.\<close>

definition CreateTemperatureAlert :: "'s http_server \<Rightarrow> samsara_client \<Rightarrow> (alert_configuration \<Rightarrow> string + string)
    \<Rightarrow> (string \<Rightarrow> string + alert_configuration) \<Rightarrow> (flt \<Rightarrow> int) \<Rightarrow> string \<Rightarrow> int \<Rightarrow> string \<Rightarrow> flt \<Rightarrow> bool \<Rightarrow> int \<Rightarrow> bool \<Rightarrow> 's
    \<Rightarrow> (samsara_err + alert_configuration) \<times> 's" where
  "CreateTemperatureAlert srv c enc dec milli name sensorID webhookID thresholdCelsius isAbove durationMs applyToAll s =
     CreateAlertConfiguration srv c enc dec
       (sensor_alert name webhookID applyToAll (if isAbove then TriggerTypeTemperatureAbove else TriggerTypeTemperatureBelow)
          ''temperature'' sensorID [(''thresholdMilliC'', JInt (milli thresholdCelsius))] durationMs) s"

definition CreateHumidityAlert :: "'s http_server \<Rightarrow> samsara_client \<Rightarrow> (alert_configuration \<Rightarrow> string + string)
    \<Rightarrow> (string \<Rightarrow> string + alert_configuration) \<Rightarrow> string \<Rightarrow> int \<Rightarrow> string \<Rightarrow> int \<Rightarrow> bool \<Rightarrow> int \<Rightarrow> bool \<Rightarrow> 's
    \<Rightarrow> (samsara_err + alert_configuration) \<times> 's" where
  "CreateHumidityAlert srv c enc dec name sensorID webhookID thresholdPercent isAbove durationMs applyToAll s =
     CreateAlertConfiguration srv c enc dec
       (sensor_alert name webhookID applyToAll (if isAbove then TriggerTypeHumidityAbove else TriggerTypeHumidityBelow)
          ''humidity'' sensorID [(''thresholdPercent'', JInt thresholdPercent)] durationMs) s"

definition CreateDoorOpenAlert :: "'s http_server \<Rightarrow> samsara_client \<Rightarrow> (alert_configuration \<Rightarrow> string + string)
    \<Rightarrow> (string \<Rightarrow> string + alert_configuration) \<Rightarrow> string \<Rightarrow> int \<Rightarrow> string \<Rightarrow> int \<Rightarrow> bool \<Rightarrow> 's
    \<Rightarrow> (samsara_err + alert_configuration) \<times> 's" where
  "CreateDoorOpenAlert srv c enc dec name sensorID webhookID durationMs applyToAll s =
     CreateAlertConfiguration srv c enc dec
       (sensor_alert name webhookID applyToAll TriggerTypeDoorOpen ''door'' sensorID [] durationMs) s"

text \<open>The set-up of a geofence: the zone, the webhook, and the alerts of entry and exit, one after the other.\<close>

record ('s) samsara_codecs =
  co_server :: "'s http_server"
  co_encA :: "samsara_address \<Rightarrow> string + string"
  co_decA :: "string \<Rightarrow> string + samsara_address"
  co_encW :: "webhook_definition \<Rightarrow> string + string"
  co_decW :: "string \<Rightarrow> webhook_definition option"
  co_decD :: "string \<Rightarrow> webhook_definition option"
  co_encC :: "alert_configuration \<Rightarrow> string + string"
  co_decC :: "string \<Rightarrow> string + alert_configuration"

definition CreateFullGeofenceSetup :: "'s samsara_codecs \<Rightarrow> samsara_client \<Rightarrow> string \<Rightarrow> string \<Rightarrow> int \<Rightarrow> string \<Rightarrow> 's
    \<Rightarrow> samsara_err option \<times> 's" where
  "CreateFullGeofenceSetup K c name address radius webhookURL s =
     (case CreateCircularGeofence (co_server K) c (co_encA K) (co_decA K) name address radius (Fin 0) (Fin 0) s of
        (Inl e, s1) \<Rightarrow> (Some (WrapErr ''failed to create geofence'' e), s1)
      | (Inr geofence, s1) \<Rightarrow>
          (case CreateGeofenceWebhook (co_server K) c (co_encW K) (co_decW K) (co_decD K) (name @ '' Webhook'') webhookURL [] s1 of
             (Inl e, s2) \<Rightarrow> (Some (WrapErr ''failed to create webhook'' e), s2)
           | (Inr webhook, s2) \<Rightarrow>
               (case CreateGeofenceAlert (co_server K) c (co_encC K) (co_decC K) (name @ '' Entry'') (ad_ID geofence) (wh_ID webhook)
                       True True s2 of
                  (Inl e, s3) \<Rightarrow> (Some (WrapErr ''failed to create entry alert'' e), s3)
                | (Inr _, s3) \<Rightarrow>
                    (case CreateGeofenceAlert (co_server K) c (co_encC K) (co_decC K) (name @ '' Exit'') (ad_ID geofence) (wh_ID webhook)
                            False True s3 of
                       (Inl e, s4) \<Rightarrow> (Some (WrapErr ''failed to create exit alert'' e), s4)
                     | (Inr _, s4) \<Rightarrow> (None, s4)))))"

text \<open>A created webhook always has an id, so the alerts of a set-up that succeeds name a real webhook.\<close>

lemma CreateWebhook_id: "CreateWebhook srv c enc dw dd webhook s = (Inr w, s') \<Longrightarrow> wh_ID w \<noteq> []"
  by (auto simp: CreateWebhook_def Let_def split: sum.splits prod.splits option.splits if_splits)

lemma geofence_alert_kinds:
  "map fst (ac_Triggers (geofence_alert n a w True d all)) = [1017]"
  "map fst (ac_Triggers (geofence_alert n a w False d all)) = [1018]"
  "map fst (ac_Actions (geofence_alert n a w e d all)) = [4]"
  by (simp_all add: geofence_alert_def webhook_alert_def trigger_types ActionTypeWebhook_def)

lemma polygon_needs_three: "length vs < 3 \<Longrightarrow> snd (CreatePolygonalGeofence srv c enc dec n f vs s) = s"
  by (simp add: CreatePolygonalGeofence_def)

text \<open>A zone on the equator or on the zero meridian is sent without its coordinates.\<close>

lemma equator_dropped:
  "CreateCircularGeofence srv c enc dec n f r (Fin 0) lon s = CreateCircularGeofence srv c enc dec n f r (Fin 0) (Fin 0) s"
  by (simp add: CreateCircularGeofence_def Let_def f_eq_def)

text \<open>The same with a webhook for alerts and two temperature alerts, ten degrees apart; \<open>milli\<close> and \<open>minus10\<close> are
  the floating-point \<open>int(t * 1000)\<close> and \<open>t - 10\<close>.\<close>

definition temperature_webhook :: "string \<Rightarrow> string \<Rightarrow> webhook_definition" where
  "temperature_webhook name webhookURL =
     \<lparr>wh_ID = [], wh_Name = name @ '' Temperature Webhook'', wh_URL = webhookURL, wh_Version = [], wh_EventTypes = [''AlertIncident''],
      wh_CustomHeaders = [], wh_Enabled = False, wh_SecretKey = []\<rparr>"

definition CreateFullTemperatureMonitoringSetup :: "'s samsara_codecs \<Rightarrow> samsara_client \<Rightarrow> (flt \<Rightarrow> int) \<Rightarrow> (flt \<Rightarrow> flt)
    \<Rightarrow> string \<Rightarrow> int \<Rightarrow> string \<Rightarrow> flt \<Rightarrow> 's \<Rightarrow> samsara_err option \<times> 's" where
  "CreateFullTemperatureMonitoringSetup K c milli minus10 name sensorID webhookURL tempThresholdCelsius s =
     (case CreateWebhook (co_server K) c (co_encW K) (co_decW K) (co_decD K) (temperature_webhook name webhookURL) s of
        (Inl e, s1) \<Rightarrow> (Some (WrapErr ''failed to create webhook'' e), s1)
      | (Inr webhook, s1) \<Rightarrow>
          (case CreateTemperatureAlert (co_server K) c (co_encC K) (co_decC K) milli (name @ '' High Temp'') sensorID (wh_ID webhook)
                  tempThresholdCelsius True 0 False s1 of
             (Inl e, s2) \<Rightarrow> (Some (WrapErr ''failed to create high temperature alert'' e), s2)
           | (Inr _, s2) \<Rightarrow>
               (case CreateTemperatureAlert (co_server K) c (co_encC K) (co_decC K) milli (name @ '' Low Temp'') sensorID (wh_ID webhook)
                       (minus10 tempThresholdCelsius) False 0 False s2 of
                  (Inl e, s3) \<Rightarrow> (Some (WrapErr ''failed to create low temperature alert'' e), s3)
                | (Inr _, s3) \<Rightarrow> (None, s3))))"

subsection \<open>Sensors\<close>

text \<open>The readings are asked for with a POST of the sensors' ids; \<open>enc\<close> is \<open>json.Marshal\<close> on the body.\<close>

definition GetSensors :: "'s http_server \<Rightarrow> samsara_client \<Rightarrow> (string \<Rightarrow> string + 'v list) \<Rightarrow> 's \<Rightarrow> (samsara_err + 'v list) \<times> 's" where
  "GetSensors srv c dec s = get_json srv c (WrapErr ''failed to get sensors'') decoding dec ''/v1/sensors'' s"

definition sensor_readings :: "'s http_server \<Rightarrow> samsara_client \<Rightarrow> (json \<Rightarrow> string + string) \<Rightarrow> (string \<Rightarrow> string + 'v list) \<Rightarrow> string
    \<Rightarrow> int list \<Rightarrow> 's \<Rightarrow> (samsara_err + 'v list) \<times> 's" where
  "sensor_readings srv c enc dec path sensorIDs s =
     (if sensorIDs = [] then (Inl (PlainErr ''sensor IDs cannot be empty''), s)
      else write_json srv c {200} ''failed to marshal request'' enc dec ''POST'' path (JObj [(''sensors'', JList (map JInt sensorIDs))]) s)"

definition GetSensorTemperature :: "'s http_server \<Rightarrow> samsara_client \<Rightarrow> (json \<Rightarrow> string + string) \<Rightarrow> (string \<Rightarrow> string + 'v list)
    \<Rightarrow> int list \<Rightarrow> 's \<Rightarrow> (samsara_err + 'v list) \<times> 's" where
  "GetSensorTemperature srv c enc dec sensorIDs s = sensor_readings srv c enc dec ''/v1/sensors/temperature'' sensorIDs s"

definition GetSensorHumidity :: "'s http_server \<Rightarrow> samsara_client \<Rightarrow> (json \<Rightarrow> string + string) \<Rightarrow> (string \<Rightarrow> string + 'v list)
    \<Rightarrow> int list \<Rightarrow> 's \<Rightarrow> (samsara_err + 'v list) \<times> 's" where
  "GetSensorHumidity srv c enc dec sensorIDs s = sensor_readings srv c enc dec ''/v1/sensors/humidity'' sensorIDs s"

definition history_body :: "int \<Rightarrow> go_time \<Rightarrow> go_time \<Rightarrow> string \<Rightarrow> json" where
  "history_body sensorID startTime endTime field =
     JObj [(''series'', JList [JObj [(''widgetId'', JInt sensorID), (''field'', JStr field)]]),
           (''startMs'', JInt (UnixMilli startTime)), (''endMs'', JInt (UnixMilli endTime)),
           (''stepMs'', JInt 60000), (''fillMissing'', JStr ''null'')]"

definition GetSensorHistory :: "'s http_server \<Rightarrow> samsara_client \<Rightarrow> (json \<Rightarrow> string + string) \<Rightarrow> (string \<Rightarrow> string + 'h list)
    \<Rightarrow> int \<Rightarrow> go_time \<Rightarrow> go_time \<Rightarrow> string \<Rightarrow> 's \<Rightarrow> (samsara_err + 'h) \<times> 's" where
  "GetSensorHistory srv c enc dec sensorID startTime endTime field s =
     (case write_json srv c {200} ''failed to marshal request'' enc dec ''POST'' ''/v1/sensors/history''
             (history_body sensorID startTime endTime field) s of
        (Inl e, s') \<Rightarrow> (Inl e, s')
      | (Inr [], s') \<Rightarrow> (Inl (PlainErr ''no history data found''), s')
      | (Inr (r # rs), s') \<Rightarrow> (Inr r, s'))"

text \<open>The conversions round after every operation; \<open>rnd\<close> is the rounding to a double.\<close>

definition ConvertMilliCelsiusToCelsius :: "(real \<Rightarrow> real) \<Rightarrow> int \<Rightarrow> real" where
  "ConvertMilliCelsiusToCelsius rnd milliC = rnd (rnd (of_int milliC) / 1000)"

definition ConvertMilliCelsiusToFahrenheit :: "(real \<Rightarrow> real) \<Rightarrow> int \<Rightarrow> real" where
  "ConvertMilliCelsiusToFahrenheit rnd milliC =
     rnd (rnd (rnd (ConvertMilliCelsiusToCelsius rnd milliC * 9) / 5) + 32)"

lemma Fahrenheit_mono:
  assumes "mono rnd" and "m \<le> n"
  shows "ConvertMilliCelsiusToFahrenheit rnd m \<le> ConvertMilliCelsiusToFahrenheit rnd n"
  using assms by (auto simp: ConvertMilliCelsiusToFahrenheit_def ConvertMilliCelsiusToCelsius_def intro!: monoD [OF assms(1)] divide_right_mono)

lemma no_sensors_no_request: "snd (GetSensorTemperature srv c enc dec [] s) = s"
  by (simp add: GetSensorTemperature_def sensor_readings_def)

text \<open>The two alerts of the temperature set-up differ in their condition: above the threshold, and below one ten degrees
  lower.\<close>

lemma sensor_alert_trigger: "map fst (ac_Triggers (sensor_alert n w all t k i th d)) = [t]"
  by (simp add: sensor_alert_def webhook_alert_def)

end
