(* ===== verification/Go_Hex.thy ===== *)
theory Go_Hex
  imports Go_Text
begin

text \<open>
  Go's \<open>encoding/hex\<close>: the lower-case hexadecimal text of bytes, by which signatures are compared.
\<close>

definition hexdig :: "nat \<Rightarrow> char" where
  "hexdig n = ''0123456789abcdef'' ! n"

fun hexenc :: "string \<Rightarrow> string" where
  "hexenc [] = []"
| "hexenc (c # cs) = hexdig (of_char c div 16) # hexdig (of_char c mod 16) # hexenc cs"

lemma hexdig_inj: "m < 16 \<Longrightarrow> n < 16 \<Longrightarrow> hexdig m = hexdig n \<longleftrightarrow> m = n"
proof -
  have "distinct ''0123456789abcdef''" by simp
  then show "m < 16 \<Longrightarrow> n < 16 \<Longrightarrow> hexdig m = hexdig n \<longleftrightarrow> m = n"
    unfolding hexdig_def by (rule nth_eq_iff_index_eq) simp_all
qed

lemma hexenc_inj: "hexenc s = hexenc t \<Longrightarrow> s = t"
proof (induction s arbitrary: t)
  case Nil
  then show ?case by (cases t) auto
next
  case (Cons c s)
  then obtain d u where t: "t = d # u" by (cases t) auto
  have lt: "of_char c div 16 < (16 :: nat)" "of_char d div 16 < (16 :: nat)"
    using of_char_mod_256 [of c] of_char_mod_256 [of d] by (simp_all add: less_mult_imp_div_less)
  have "of_char c div 16 = (of_char d div 16 :: nat)" "of_char c mod 16 = (of_char d mod 16 :: nat)"
    using Cons.prems t lt by (simp_all add: hexdig_inj)
  then have "of_char c = (of_char d :: nat)" by (metis div_mult_mod_eq)
  then show ?case using Cons t by (auto simp: of_char_eq_iff)
qed

lemma hexdig_lower: "n < 16 \<Longrightarrow> to_lower_char (hexdig n) = hexdig n \<and> (of_char (hexdig n) :: nat) < 128"
proof -
  have "list_all (\<lambda>n. to_lower_char (hexdig n) = hexdig n \<and> (of_char (hexdig n) :: nat) < 128) [0 ..< 16]"
    by code_simp
  then show "n < 16 \<Longrightarrow> to_lower_char (hexdig n) = hexdig n \<and> (of_char (hexdig n) :: nat) < 128"
    by (auto simp: list_all_iff)
qed

lemma hexenc_chars: "c \<in> set (hexenc s) \<Longrightarrow> to_lower_char c = c \<and> (of_char c :: nat) < 128"
proof (induction s)
  case (Cons d s)
  have "of_char d div 16 < (16 :: nat)" using of_char_mod_256 [of d] by (simp add: less_mult_imp_div_less)
  then show ?case using Cons hexdig_lower [of "of_char d div 16"] hexdig_lower [of "of_char d mod 16"] by auto
qed simp

lemma hexenc_lower: "lower_utf8 (hexenc s) = hexenc s"
  using hexenc_chars [of _ s] by (simp add: lower_utf8_ascii map_idI)

lemma hexenc_set: "set (hexenc s) \<subseteq> set ''0123456789abcdef''"
proof (induction s)
  case (Cons c s)
  have "of_char c div 16 < (16 :: nat)" using of_char_mod_256 [of c] by (simp add: less_mult_imp_div_less)
  then have "hexdig (of_char c div 16) \<in> set ''0123456789abcdef''" "hexdig (of_char c mod 16) \<in> set ''0123456789abcdef''"
    unfolding hexdig_def by (intro nth_mem; simp)+
  then show ?case using Cons by simp
qed simp

end
