(* ===== verification/Samsara_Webhook.thy ===== *)
theory Samsara_Webhook
  imports Samsara Go_Hex
begin

text \<open>
  The receiving side of the Samsara client (\<open>src/client/samsara/samsara.go\<close>): the check of a webhook's signature, the
  dispatch of the events to the callbacks, the HTTP handler and the two monitors built on it.

  HMAC-SHA256 is a parameter: a function of the key and the message. So is the decoding of the payloads.
\<close>

subsection \<open>The signature\<close>

text \<open>What follows the first equals sign, unless nothing does.\<close>

definition signature_part :: "string \<Rightarrow> string" where
  "signature_part h =
     (let idx = length (takeWhile (\<lambda>c. c \<noteq> CHR ''='') h) in
      if CHR ''='' \<in> set h \<and> idx < length h - 1 then drop (idx + 1) h else h)"

definition VerifyWebhookSignature :: "(string \<Rightarrow> string \<Rightarrow> string) \<Rightarrow> string \<Rightarrow> string \<Rightarrow> string \<Rightarrow> bool" where
  "VerifyWebhookSignature hmac body secretKey signatureHeader =
     (if secretKey = [] \<or> signatureHeader = [] then False
      else lower_utf8 (signature_part signatureHeader) = hexenc (hmac secretKey body))"

lemma signature_part_plain: "CHR ''='' \<notin> set h \<Longrightarrow> signature_part h = h"
  by (simp add: signature_part_def)

lemma signature_part_prefixed: "CHR ''='' \<notin> set p \<Longrightarrow> h \<noteq> [] \<Longrightarrow> signature_part (p @ CHR ''='' # h) = h"
  by (simp add: signature_part_def takeWhile_append Let_def)

text \<open>Whatever the sender prefixes, a header signed with the secret is accepted; and a header that is accepted for two
  bodies means that their codes are the same: to pass a changed body off is to find a second message of the same HMAC.\<close>

lemma signature_accepts:
  assumes "secret \<noteq> []" and "hmac secret body \<noteq> []"
  shows "VerifyWebhookSignature hmac body secret (hexenc (hmac secret body))"
    and "CHR ''='' \<notin> set p \<Longrightarrow> VerifyWebhookSignature hmac body secret (p @ CHR ''='' # hexenc (hmac secret body))"
proof -
  have ne: "hexenc (hmac secret body) \<noteq> []" using assms(2) by (cases "hmac secret body") auto
  have "CHR ''='' \<notin> set (hexenc (hmac secret body))" using hexenc_set [of "hmac secret body"] by auto
  then show "VerifyWebhookSignature hmac body secret (hexenc (hmac secret body))"
    using ne assms(1) by (simp add: VerifyWebhookSignature_def signature_part_plain hexenc_lower)
  show "CHR ''='' \<notin> set p \<Longrightarrow> VerifyWebhookSignature hmac body secret (p @ CHR ''='' # hexenc (hmac secret body))"
    using ne assms(1) by (simp add: VerifyWebhookSignature_def signature_part_prefixed hexenc_lower)
qed

lemma signature_binds:
  assumes "VerifyWebhookSignature hmac body secret h" and "VerifyWebhookSignature hmac body' secret h"
  shows "hmac secret body = hmac secret body'"
  using assms by (auto simp: VerifyWebhookSignature_def split: if_splits intro: hexenc_inj)

lemma signature_needs_secret: "\<not> VerifyWebhookSignature hmac body [] h" "\<not> VerifyWebhookSignature hmac body secret []"
  by (simp_all add: VerifyWebhookSignature_def)

subsection \<open>Events\<close>

record samsara_device =
  dv_ID :: int
  dv_Name :: string
  dv_VIN :: string

record alert_event =
  ae_ConditionID :: string
  ae_Details :: string
  ae_StartMs :: int
  ae_Resolved :: bool
  ae_Device :: "samsara_device option"

record webhook_event =
  we_EventID :: string
  we_EventMs :: int
  we_EventType :: string
  we_Event :: string

type_synonym alert_callback = "(alert_event \<Rightarrow> string option) option"
type_synonym raw_callback = "(string \<Rightarrow> int \<Rightarrow> string \<Rightarrow> string option) option"

text \<open>A callback returns its error, if any; one that is not set is nil.\<close>

record webhook_handler =
  OnGeofenceEntry :: alert_callback
  OnGeofenceExit :: alert_callback
  OnMovement :: alert_callback
  OnSpeeding :: alert_callback
  OnEngineIdle :: alert_callback
  OnVehicleFault :: alert_callback
  OnHarshEvent :: alert_callback
  OnEngineFaultOn :: raw_callback
  OnEngineFaultOff :: raw_callback
  OnIssueCreated :: raw_callback
  OnPredictiveMaintenance :: raw_callback
  OnGatewayUnplugged :: raw_callback
  OnDvirSubmitted :: raw_callback
  OnTemperatureAbove :: alert_callback
  OnTemperatureBelow :: alert_callback
  OnHumidityAbove :: alert_callback
  OnHumidityBelow :: alert_callback
  OnDoorOpen :: alert_callback
  OnDoorClosed :: alert_callback
  OnReeferTempAbove :: alert_callback
  OnReeferTempBelow :: alert_callback
  OnAddressCreated :: "(samsara_address \<Rightarrow> string option) option"
  OnAddressUpdated :: "(samsara_address \<Rightarrow> string option) option"
  OnAddressDeleted :: "(string \<Rightarrow> string option) option"

text \<open>The decoding of payloads; \<open>pl_fill\<close> decodes into an event that is already partly filled and ignores errors.\<close>

record payload_codec =
  pl_event :: "string \<Rightarrow> string + webhook_event"
  pl_alert :: "string \<Rightarrow> string + alert_event"
  pl_fill :: "alert_event \<Rightarrow> string \<Rightarrow> alert_event"
  pl_address :: "string \<Rightarrow> string + samsara_address"
  pl_address_id :: "string \<Rightarrow> string + string"

definition NewWebhookHandler :: webhook_handler where
  "NewWebhookHandler = \<lparr>OnGeofenceEntry = None, OnGeofenceExit = None, OnMovement = None, OnSpeeding = None, OnEngineIdle = None,
     OnVehicleFault = None, OnHarshEvent = None, OnEngineFaultOn = None, OnEngineFaultOff = None, OnIssueCreated = None,
     OnPredictiveMaintenance = None, OnGatewayUnplugged = None, OnDvirSubmitted = None, OnTemperatureAbove = None,
     OnTemperatureBelow = None, OnHumidityAbove = None, OnHumidityBelow = None, OnDoorOpen = None, OnDoorClosed = None,
     OnReeferTempAbove = None, OnReeferTempBelow = None, OnAddressCreated = None, OnAddressUpdated = None, OnAddressDeleted = None\<rparr>"

definition call_back :: "('a \<Rightarrow> string option) option \<Rightarrow> 'a \<Rightarrow> string option" where
  "call_back cb x = (case cb of None \<Rightarrow> None | Some f \<Rightarrow> f x)"

definition call_raw :: "raw_callback \<Rightarrow> webhook_event \<Rightarrow> string option" where
  "call_raw cb e = (case cb of None \<Rightarrow> None | Some f \<Rightarrow> f (we_EventID e) (we_EventMs e) (we_Event e))"

text \<open>A callback that is set gets the decoded payload, and the payload is decoded only for it.\<close>

definition call_decoded :: "string \<Rightarrow> (string \<Rightarrow> string + 'a) \<Rightarrow> ('a \<Rightarrow> string option) option \<Rightarrow> string \<Rightarrow> string option" where
  "call_decoded what dec cb payload =
     (case cb of
        None \<Rightarrow> None
      | Some f \<Rightarrow> (case dec payload of Inl e \<Rightarrow> Some (what @ '': '' @ e) | Inr x \<Rightarrow> f x))"

text \<open>The callback an alert's condition selects.\<close>

definition alert_target :: "webhook_handler \<Rightarrow> string \<Rightarrow> alert_callback" where
  "alert_target h cond =
     (if cond = ''DeviceLocationInsideGeofence'' then OnGeofenceEntry h
      else if cond = ''DeviceLocationOutsideGeofence'' then OnGeofenceExit h
      else if cond = ''DeviceMovement'' then OnMovement h
      else if cond = ''DeviceSpeedAbove'' \<or> cond = ''DeviceSpeedAboveSpeedLimit'' then OnSpeeding h
      else if cond = ''EngineIdle'' then OnEngineIdle h
      else if cond = ''DeviceHasVehicleFault'' then OnVehicleFault h
      else if cond = ''HarshEvent'' then OnHarshEvent h
      else if cond = ''TemperatureAbove'' then OnTemperatureAbove h
      else if cond = ''TemperatureBelow'' then OnTemperatureBelow h
      else if cond = ''HumidityAbove'' then OnHumidityAbove h
      else if cond = ''HumidityBelow'' then OnHumidityBelow h
      else if cond = ''ReeferTemperatureAboveSetPoint'' then OnReeferTempAbove h
      else if cond = ''ReeferTemperatureBelowSetPoint'' then OnReeferTempBelow h
      else if cond = ''DoorActivated'' then OnDoorOpen h
      else if cond = ''DoorDeactivated'' then OnDoorClosed h
      else None)"

definition handleAlertEvent :: "payload_codec \<Rightarrow> webhook_handler \<Rightarrow> webhook_event \<Rightarrow> string option" where
  "handleAlertEvent P h e =
     (case pl_alert P (we_Event e) of
        Inl err \<Rightarrow> Some (''failed to parse alert event: '' @ err)
      | Inr a \<Rightarrow> call_back (alert_target h (ae_ConditionID a)) a)"

definition geofence_event :: "payload_codec \<Rightarrow> string \<Rightarrow> webhook_event \<Rightarrow> alert_event" where
  "geofence_event P details e =
     pl_fill P \<lparr>ae_ConditionID = [], ae_Details = details, ae_StartMs = we_EventMs e, ae_Resolved = False, ae_Device = None\<rparr> (we_Event e)"

definition HandleWebhook :: "payload_codec \<Rightarrow> webhook_handler \<Rightarrow> webhook_event \<Rightarrow> string option" where
  "HandleWebhook P h e =
     (let t = we_EventType e in
      if t = ''AlertIncident'' then handleAlertEvent P h e
      else if t = ''AddressCreated'' then call_decoded ''failed to parse address event'' (pl_address P) (OnAddressCreated h) (we_Event e)
      else if t = ''AddressUpdated'' then call_decoded ''failed to parse address event'' (pl_address P) (OnAddressUpdated h) (we_Event e)
      else if t = ''AddressDeleted'' then call_decoded ''failed to parse address deletion'' (pl_address_id P) (OnAddressDeleted h) (we_Event e)
      else if t = ''GeofenceEntry'' then call_back (OnGeofenceEntry h) (geofence_event P ''Vehicle entered geofence'' e)
      else if t = ''GeofenceExit'' then call_back (OnGeofenceExit h) (geofence_event P ''Vehicle exited geofence'' e)
      else if t = ''EngineFaultOn'' then call_raw (OnEngineFaultOn h) e
      else if t = ''EngineFaultOff'' then call_raw (OnEngineFaultOff h) e
      else if t = ''IssueCreated'' then call_raw (OnIssueCreated h) e
      else if t = ''PredictiveMaintenanceAlert'' then call_raw (OnPredictiveMaintenance h) e
      else if t = ''GatewayUnplugged'' then call_raw (OnGatewayUnplugged h) e
      else if t = ''DvirSubmitted'' then call_raw (OnDvirSubmitted h) e
      else None)"

definition ParseWebhookRequest :: "payload_codec \<Rightarrow> string \<Rightarrow> string + webhook_event" where
  "ParseWebhookRequest P body =
     (case pl_event P body of Inl e \<Rightarrow> Inl (''failed to parse webhook event: '' @ e) | Inr ev \<Rightarrow> Inr ev)"

text \<open>The HTTP handler: the request's method, its headers and its body (nothing when it cannot be read), to status and
  text.\<close>

record hook_request =
  hr_Method :: string
  hr_Headers :: "(string \<times> string) list"
  hr_Body :: "string option"

definition HTTPHandler :: "payload_codec \<Rightarrow> webhook_handler \<Rightarrow> hook_request \<Rightarrow> int \<times> string" where
  "HTTPHandler P h r =
     (if hr_Method r \<noteq> ''POST'' then (405, ''Method not allowed'')
      else (case hr_Body r of
              None \<Rightarrow> (400, ''Failed to read request body'')
            | Some body \<Rightarrow>
                (case ParseWebhookRequest P body of
                   Inl err \<Rightarrow> (400, ''Failed to parse webhook: '' @ err)
                 | Inr event \<Rightarrow>
                     (case HandleWebhook P h event of
                        Some err \<Rightarrow> (500, ''Failed to handle webhook: '' @ err)
                      | None \<Rightarrow> (200, ''OK'')))))"

text \<open>The handler answers by method and body alone. No header counts, so a request without the signature, or with a
  wrong one, reaches the callbacks like a signed one.\<close>

lemma HTTPHandler_unsigned: "HTTPHandler P h r = HTTPHandler P h (r\<lparr>hr_Headers := hs\<rparr>)"
  by (simp add: HTTPHandler_def)

lemma forged_event_handled:
  assumes "pl_event P body = Inr e" and "we_EventType e = ''GatewayUnplugged''" and "OnGatewayUnplugged h = Some f"
    and "f (we_EventID e) (we_EventMs e) (we_Event e) = None" and "\<not> VerifyWebhookSignature hmac body secret signature"
  shows "HTTPHandler P h \<lparr>hr_Method = ''POST'', hr_Headers = [(''X-Samsara-Signature'', signature)], hr_Body = Some body\<rparr> = (200, ''OK'')"
  using assms by (simp add: HTTPHandler_def ParseWebhookRequest_def HandleWebhook_def call_raw_def)

text \<open>Each event is for one callback: the others may be anything. An event nobody handles is acknowledged.\<close>

lemma alert_one_callback:
  assumes "we_EventType e = ''AlertIncident''" and "pl_alert P (we_Event e) = Inr a"
    and "alert_target h (ae_ConditionID a) = alert_target h' (ae_ConditionID a)"
  shows "HandleWebhook P h e = HandleWebhook P h' e"
  using assms by (simp add: HandleWebhook_def handleAlertEvent_def)

lemma unset_acknowledged: "we_EventType e \<noteq> ''AlertIncident'' \<Longrightarrow> HandleWebhook P NewWebhookHandler e = None"
  by (simp add: HandleWebhook_def NewWebhookHandler_def call_decoded_def call_back_def call_raw_def Let_def)

lemma handler_status: "fst (HTTPHandler P h r) \<in> {200, 400, 405, 500}"
  by (simp add: HTTPHandler_def split: option.split sum.split)

subsection \<open>Monitors\<close>

text \<open>\<open>time.Unix(ms/1000, (ms%1000)*1000000)\<close>; both operators truncate.\<close>

definition event_time :: "int \<Rightarrow> int" where
  "event_time ms = time_Unix (sgn ms * (\<bar>ms\<bar> div 1000)) (sgn ms * (\<bar>ms\<bar> mod 1000) * 1000000)"

definition with_device :: "string \<Rightarrow> (samsara_device \<Rightarrow> alert_event \<Rightarrow> int \<Rightarrow> string option) \<Rightarrow> alert_event \<Rightarrow> string option" where
  "with_device missing f e =
     (case ae_Device e of Some d \<Rightarrow> f d e (event_time (ae_StartMs e)) | None \<Rightarrow> Some missing)"

type_synonym vehicle_callback = "int \<Rightarrow> string \<Rightarrow> string \<Rightarrow> string \<Rightarrow> int \<Rightarrow> string option"
type_synonym reading_callback = "int \<Rightarrow> string \<Rightarrow> flt \<Rightarrow> string \<Rightarrow> int \<Rightarrow> string option"
type_synonym door_callback = "int \<Rightarrow> string \<Rightarrow> string \<Rightarrow> int \<Rightarrow> string option"

definition OnVehicleEntersGeofence :: "vehicle_callback \<Rightarrow> webhook_handler \<Rightarrow> webhook_handler" where
  "OnVehicleEntersGeofence cb h = h\<lparr>OnGeofenceEntry := Some (with_device ''no device information in geofence entry event''
     (\<lambda>d e t. cb (dv_ID d) (dv_Name d) (dv_VIN d) (ae_Details e) t))\<rparr>"

definition OnVehicleExitsGeofence :: "vehicle_callback \<Rightarrow> webhook_handler \<Rightarrow> webhook_handler" where
  "OnVehicleExitsGeofence cb h = h\<lparr>OnGeofenceExit := Some (with_device ''no device information in geofence exit event''
     (\<lambda>d e t. cb (dv_ID d) (dv_Name d) (dv_VIN d) (ae_Details e) t))\<rparr>"

definition OnTemperatureExceedsThreshold :: "reading_callback \<Rightarrow> webhook_handler \<Rightarrow> webhook_handler" where
  "OnTemperatureExceedsThreshold cb h = h\<lparr>OnTemperatureAbove := Some (with_device ''no sensor information in temperature event''
     (\<lambda>d e t. cb (dv_ID d) (dv_Name d) (Fin 0) (ae_Details e) t))\<rparr>"

definition OnTemperatureBelowThreshold :: "reading_callback \<Rightarrow> webhook_handler \<Rightarrow> webhook_handler" where
  "OnTemperatureBelowThreshold cb h = h\<lparr>OnTemperatureBelow := Some (with_device ''no sensor information in temperature event''
     (\<lambda>d e t. cb (dv_ID d) (dv_Name d) (Fin 0) (ae_Details e) t))\<rparr>"

definition OnHumidityExceedsThreshold :: "reading_callback \<Rightarrow> webhook_handler \<Rightarrow> webhook_handler" where
  "OnHumidityExceedsThreshold cb h = h\<lparr>OnHumidityAbove := Some (with_device ''no sensor information in humidity event''
     (\<lambda>d e t. cb (dv_ID d) (dv_Name d) (Fin 0) (ae_Details e) t))\<rparr>"

definition mon_OnDoorOpen :: "door_callback \<Rightarrow> webhook_handler \<Rightarrow> webhook_handler" where
  "mon_OnDoorOpen cb h = h\<lparr>OnDoorOpen := Some (with_device ''no sensor information in door event''
     (\<lambda>d e t. cb (dv_ID d) (dv_Name d) (ae_Details e) t))\<rparr>"

definition mon_OnDoorClosed :: "door_callback \<Rightarrow> webhook_handler \<Rightarrow> webhook_handler" where
  "mon_OnDoorClosed cb h = h\<lparr>OnDoorClosed := Some (with_device ''no sensor information in door event''
     (\<lambda>d e t. cb (dv_ID d) (dv_Name d) (ae_Details e) t))\<rparr>"

text \<open>The two parts add up to the instant, also before 1970.\<close>

lemma event_time_eq: "event_time ms = unix_epoch + ms * 1000000"
proof -
  have q: "\<bar>ms\<bar> div 1000 * 1000 + \<bar>ms\<bar> mod 1000 = \<bar>ms\<bar>" by simp
  have "sgn ms * (\<bar>ms\<bar> div 1000) * 1000000000 + sgn ms * (\<bar>ms\<bar> mod 1000) * 1000000
      = sgn ms * (\<bar>ms\<bar> div 1000 * 1000 + \<bar>ms\<bar> mod 1000) * 1000000" by (simp only: distrib_left distrib_right)
  also have "\<dots> = sgn ms * \<bar>ms\<bar> * 1000000" by (simp only: q)
  finally show ?thesis by (simp add: event_time_def time_Unix_def sgn_mult_abs)
qed

text \<open>An alert reaches the monitor's callback with the device, the details and the instant; the reading passed to a
  temperature callback is zero whatever the event says.\<close>

lemma temperature_alert_reading:
  assumes "we_EventType e = ''AlertIncident''" and "pl_alert P (we_Event e) = Inr a" and "ae_ConditionID a = ''TemperatureAbove''"
    and "ae_Device a = Some d"
  shows "HandleWebhook P (OnTemperatureExceedsThreshold cb h) e
    = cb (dv_ID d) (dv_Name d) (Fin 0) (ae_Details a) (event_time (ae_StartMs a))"
  using assms
  by (simp add: HandleWebhook_def handleAlertEvent_def alert_target_def OnTemperatureExceedsThreshold_def call_back_def with_device_def)

lemma geofence_alert_callback:
  assumes "we_EventType e = ''AlertIncident''" and "pl_alert P (we_Event e) = Inr a" and "ae_ConditionID a = ''DeviceLocationInsideGeofence''"
  shows "HandleWebhook P (OnVehicleEntersGeofence cb h) e =
    (case ae_Device a of
       Some d \<Rightarrow> cb (dv_ID d) (dv_Name d) (dv_VIN d) (ae_Details a) (event_time (ae_StartMs a))
     | None \<Rightarrow> Some ''no device information in geofence entry event'')"
  using assms
  by (simp add: HandleWebhook_def handleAlertEvent_def alert_target_def OnVehicleEntersGeofence_def call_back_def with_device_def)

end
