(* ===== verification/Go_Url.thy ===== *)
theory Go_Url
  imports Http_Client
begin

text \<open>
  Go's \<open>net/url\<close> and \<open>encoding/base64\<close> as far as the HTTP clients use them: the escaping of query values, the parts of a
  parsed URL that decide where a request goes, and standard base64.
\<close>

subsection \<open>Query values\<close>

definition url_alnum :: "char \<Rightarrow> bool" where
  "url_alnum c \<longleftrightarrow> byte_in (CHR ''a'') (CHR ''z'') c \<or> byte_in (CHR ''A'') (CHR ''Z'') c \<or> byte_in (CHR ''0'') (CHR ''9'') c"

definition upper_hex :: "nat \<Rightarrow> char" where
  "upper_hex n = ''0123456789ABCDEF'' ! n"

definition unhex :: "char \<Rightarrow> nat option" where
  "unhex c =
     (if byte_in (CHR ''0'') (CHR ''9'') c then Some (of_char c - 48)
      else if byte_in (CHR ''a'') (CHR ''f'') c then Some (of_char c - 87)
      else if byte_in (CHR ''A'') (CHR ''F'') c then Some (of_char c - 55)
      else None)"

definition unreserved :: "char \<Rightarrow> bool" where
  "unreserved c \<longleftrightarrow> url_alnum c \<or> c \<in> {CHR ''-'', CHR ''_'', CHR ''.'', CHR ''~''}"

definition escape_byte :: "char \<Rightarrow> string" where
  "escape_byte c = [CHR ''%'', upper_hex (of_char c div 16), upper_hex (of_char c mod 16)]"

fun QueryEscape :: "string \<Rightarrow> string" where
  "QueryEscape [] = []"
| "QueryEscape (c # s) =
     (if c = CHR '' '' then [CHR ''+''] else if unreserved c then [c] else escape_byte c) @ QueryEscape s"

fun QueryUnescape :: "string \<Rightarrow> string option" where
  "QueryUnescape [] = Some []"
| "QueryUnescape (c # s) =
     (if c = CHR ''+'' then map_option (Cons (CHR '' '')) (QueryUnescape s)
      else if c = CHR ''%'' then
        (case s of
           a # b # s' \<Rightarrow>
             (case (unhex a, unhex b) of
                (Some x, Some y) \<Rightarrow> map_option (Cons (char_of (16 * x + y))) (QueryUnescape s')
              | _ \<Rightarrow> None)
         | _ \<Rightarrow> None)
      else map_option (Cons c) (QueryUnescape s))"

lemma unhex_upper_hex: "n < 16 \<Longrightarrow> unhex (upper_hex n) = Some n"
proof -
  have "\<forall>n < 16. unhex (upper_hex n) = Some n" by code_simp
  then show "n < 16 \<Longrightarrow> unhex (upper_hex n) = Some n" by blast
qed

text \<open>What a query value says is what was put into it.\<close>

lemma QueryUnescape_QueryEscape: "QueryUnescape (QueryEscape s) = Some s"
proof (induction s)
  case (Cons c s)
  have byte: "(of_char c :: nat) < 256" by simp
  have "unhex (upper_hex (of_char c div 16)) = Some (of_char c div 16)" "unhex (upper_hex (of_char c mod 16)) = Some (of_char c mod 16)"
    using byte by (simp_all add: unhex_upper_hex less_mult_imp_div_less)
  then show ?case using Cons by (auto simp: escape_byte_def unreserved_def url_alnum_def byte_in_def)
qed simp

text \<open>\<open>url.Values.Encode\<close>: the pairs in the order of their keys. The callers set each key once.\<close>

definition values_Encode :: "(string \<times> string) list \<Rightarrow> string" where
  "values_Encode kvs = join_with ''&'' (map (\<lambda>(k, v). QueryEscape k @ ''='' @ QueryEscape v) (sort_key fst kvs))"

text \<open>\<open>url.PathEscape\<close>: one segment of a path.\<close>

definition segment_byte :: "char \<Rightarrow> bool" where
  "segment_byte c \<longleftrightarrow> unreserved c \<or> c \<in> set ''$&+:=@''"

definition PathEscape :: "string \<Rightarrow> string" where
  "PathEscape s = concat (map (\<lambda>c. if segment_byte c then [c] else escape_byte c) s)"

lemma PathEscape_one_segment: "CHR ''/'' \<notin> set (PathEscape s)" "CHR ''?'' \<notin> set (PathEscape s)"
proof -
  have "\<forall>n < 16. upper_hex n \<noteq> CHR ''/'' \<and> upper_hex n \<noteq> CHR ''?''" by code_simp
  then have "CHR ''/'' \<notin> set (escape_byte c) \<and> CHR ''?'' \<notin> set (escape_byte c)" for c
    using less_mult_imp_div_less [of "of_char c" 16 16] by (simp add: escape_byte_def) (metis mod_less_divisor zero_less_numeral)
  then show "CHR ''/'' \<notin> set (PathEscape s)" "CHR ''?'' \<notin> set (PathEscape s)"
    by (auto simp: PathEscape_def segment_byte_def unreserved_def url_alnum_def byte_in_def split: if_splits)
qed

subsection \<open>URLs\<close>

text \<open>Percent encoding in the parts of a URL. A host may percent-encode bytes outside ASCII only, its zone more; the
  ASCII bytes of both are restricted.\<close>

datatype url_part = PartHost | PartZone | PartOther

definition host_byte :: "char \<Rightarrow> bool" where
  "host_byte c \<longleftrightarrow> (of_char c :: nat) \<ge> 128 \<or> url_alnum c \<or> c \<in> set ''-_.~!$&()*+,;=:[]<>'' \<or> c = CHR 0x27 \<or> c = CHR 0x22"

fun url_unescape :: "url_part \<Rightarrow> string \<Rightarrow> string option" where
  "url_unescape part [] = Some []"
| "url_unescape part (c # s) =
     (if c = CHR ''%'' then
        (case s of
           a # b # s' \<Rightarrow>
             (case (unhex a, unhex b) of
                (Some x, Some y) \<Rightarrow>
                  (if (part = PartHost \<and> x < 8 \<and> [a, b] \<noteq> ''25'')
                      \<or> (part = PartZone \<and> [a, b] \<noteq> ''25'' \<and> char_of (16 * x + y) \<noteq> CHR '' '' \<and> \<not> (host_byte (char_of (16 * x + y))))
                   then None
                   else map_option (Cons (char_of (16 * x + y))) (url_unescape part s'))
              | _ \<Rightarrow> None)
         | _ \<Rightarrow> None)
      else if part \<noteq> PartOther \<and> \<not> host_byte c then None
      else map_option (Cons c) (url_unescape part s))"

text \<open>\<open>strings.Cut\<close> and \<open>LastIndex\<close> on one byte.\<close>

definition cut_at :: "char \<Rightarrow> string \<Rightarrow> string \<times> string" where
  "cut_at c s = (takeWhile (\<lambda>x. x \<noteq> c) s, drop 1 (dropWhile (\<lambda>x. x \<noteq> c) s))"

definition cut_last :: "char \<Rightarrow> string \<Rightarrow> (string \<times> string) option" where
  "cut_last c s =
     (if c \<in> set s
      then Some (rev (drop 1 (dropWhile (\<lambda>x. x \<noteq> c) (rev s))), rev (takeWhile (\<lambda>x. x \<noteq> c) (rev s)))
      else None)"

text \<open>The scheme and the rest; no scheme when another character comes before a colon, an error for a leading one.\<close>

fun getScheme :: "string \<Rightarrow> string \<Rightarrow> string \<Rightarrow> (string \<times> string) option" where
  "getScheme raw acc [] = Some ([], raw)"
| "getScheme raw acc (c # s) =
     (if byte_in (CHR ''a'') (CHR ''z'') c \<or> byte_in (CHR ''A'') (CHR ''Z'') c then getScheme raw (acc @ [c]) s
      else if byte_in (CHR ''0'') (CHR ''9'') c \<or> c \<in> {CHR ''+'', CHR ''-'', CHR ''.''}
      then (if acc = [] then Some ([], raw) else getScheme raw (acc @ [c]) s)
      else if c = CHR '':'' then (if acc = [] then None else Some (acc, s))
      else Some ([], raw))"

definition validOptionalPort :: "string \<Rightarrow> bool" where
  "validOptionalPort p \<longleftrightarrow> p = [] \<or> (hd p = CHR '':'' \<and> list_all (byte_in (CHR ''0'') (CHR ''9'')) (tl p))"

definition is_prefix :: "string \<Rightarrow> string \<Rightarrow> bool" where
  "is_prefix p s \<longleftrightarrow> take (length p) s = p"

text \<open>The zone of an IPv6 address begins at its first escaped percent sign.\<close>

fun cut_zone :: "string \<Rightarrow> string \<Rightarrow> (string \<times> string) option" where
  "cut_zone acc [] = None"
| "cut_zone acc (c # s) = (if is_prefix ''%25'' (c # s) then Some (acc, c # s) else cut_zone (acc @ [c]) s)"

definition parseHost :: "string \<Rightarrow> string option" where
  "parseHost h =
     (if is_prefix ''['' h then
        (case cut_last (CHR '']'') h of
           None \<Rightarrow> None
         | Some (inner, colonPort) \<Rightarrow>
             if \<not> validOptionalPort colonPort then None
             else (case cut_zone [] inner of
                     None \<Rightarrow> url_unescape PartHost h
                   | Some (h1, zone) \<Rightarrow>
                       (case (url_unescape PartHost h1, url_unescape PartZone zone, url_unescape PartHost ('']'' @ colonPort)) of
                          (Some a, Some b, Some c) \<Rightarrow> Some (a @ b @ c)
                        | _ \<Rightarrow> None)))
      else (case cut_last (CHR '':'') h of
              None \<Rightarrow> url_unescape PartHost h
            | Some (_, port) \<Rightarrow> if validOptionalPort ('':'' @ port) then url_unescape PartHost h else None))"

definition userinfo_byte :: "char \<Rightarrow> bool" where
  "userinfo_byte c \<longleftrightarrow> url_alnum c \<or> c \<in> set ''-._:~!$&()*+,;=%@'' \<or> c = CHR 0x27"

text \<open>The host is what follows the last at sign; what precedes it must be well formed.\<close>

definition parseAuthority :: "string \<Rightarrow> string option" where
  "parseAuthority authority =
     (case cut_last (CHR ''@'') authority of
        None \<Rightarrow> parseHost authority
      | Some (userinfo, h) \<Rightarrow>
          (case parseHost h of
             None \<Rightarrow> None
           | Some host \<Rightarrow>
               if list_all userinfo_byte userinfo \<and> url_unescape PartOther userinfo \<noteq> None then Some host else None))"

record url =
  u_Scheme :: string
  u_Host :: string

definition control_byte :: "char \<Rightarrow> bool" where
  "control_byte c \<longleftrightarrow> (of_char c :: nat) < 32 \<or> c = CHR 0x7F"

text \<open>\<open>url.Parse\<close>: the scheme and the host, and whether the other parts are well formed.\<close>

definition url_Parse :: "string \<Rightarrow> url option" where
  "url_Parse raw =
     (let (body, fragment) = cut_at (CHR ''#'') raw in
      if list_ex control_byte body \<or> url_unescape PartOther fragment = None then None
      else (case getScheme body [] body of
        None \<Rightarrow> None
      | Some (sch, rest0) \<Rightarrow>
          let scheme = map to_lower_char sch; rest = fst (cut_at (CHR ''?'') rest0) in
          if \<not> is_prefix ''/'' rest then
            (if scheme \<noteq> [] then Some \<lparr>u_Scheme = scheme, u_Host = []\<rparr>
             else if CHR '':'' \<in> set (fst (cut_at (CHR ''/'') rest)) then None
             else if url_unescape PartOther rest = None then None
             else Some \<lparr>u_Scheme = [], u_Host = []\<rparr>)
          else if (scheme \<noteq> [] \<or> \<not> is_prefix ''///'' rest) \<and> is_prefix ''//'' rest then
            (let authority = takeWhile (\<lambda>c. c \<noteq> CHR ''/'') (drop 2 rest);
                 path = dropWhile (\<lambda>c. c \<noteq> CHR ''/'') (drop 2 rest) in
             case parseAuthority authority of
               None \<Rightarrow> None
             | Some host \<Rightarrow> if url_unescape PartOther path = None then None else Some \<lparr>u_Scheme = scheme, u_Host = host\<rparr>)
          else if url_unescape PartOther rest = None then None
          else Some \<lparr>u_Scheme = scheme, u_Host = []\<rparr>))"

text \<open>\<open>Hostname\<close>: the host without its port and without the brackets of an IPv6 address.\<close>

definition strip_brackets :: "string \<Rightarrow> string" where
  "strip_brackets h = (if is_prefix ''['' h \<and> h \<noteq> [] \<and> last h = CHR '']'' then butlast (tl h) else h)"

definition Hostname :: "url \<Rightarrow> string" where
  "Hostname u =
     (case cut_last (CHR '':'') (u_Host u) of
        None \<Rightarrow> strip_brackets (u_Host u)
      | Some (h, port) \<Rightarrow> strip_brackets (if validOptionalPort ('':'' @ port) then h else u_Host u))"

lemmas url_simps = url_Parse_def cut_at_def getScheme.simps is_prefix_def parseAuthority_def parseHost_def cut_last_def host_byte_def
  userinfo_byte_def control_byte_def url_alnum_def byte_in_def unhex_def validOptionalPort_def Hostname_def strip_brackets_def
  to_lower_char_def

lemma char_of_percent: "char_of (37 :: nat) = CHR ''%''"
  by code_simp

text \<open>What precedes an at sign is no part of the host; the last one counts.\<close>

lemma hostname_examples:
  "map_option Hostname (url_Parse ''https://media.ringcentral.com@evil.example.com/x'') = Some ''evil.example.com''"
  "map_option Hostname (url_Parse ''HTTPS://a@b@Media.Example.COM:443/p?q#f'') = Some ''Media.Example.COM''"
  "map_option Hostname (url_Parse ''https://[::1%25eth0]:80/x'') = Some ''::1%eth0''"
  "map_option Hostname (url_Parse ''https:media.example.com/x'') = Some []"
  "map_option Hostname (url_Parse ''https://media.example.com:x/'') = None"
  "map_option Hostname (url_Parse ''https://media example.com/'') = None"
  "map_option Hostname (url_Parse '' https://media.example.com/'') = None"
  by (simp_all add: url_simps char_of_percent)

text \<open>\<open>strings.TrimSuffix\<close>, and \<open>TrimRight\<close> of slashes.\<close>

definition trim_suffix :: "string \<Rightarrow> string \<Rightarrow> string" where
  "trim_suffix suf s = (if length suf \<le> length s \<and> drop (length s - length suf) s = suf then take (length s - length suf) s else s)"

definition trim_slashes :: "string \<Rightarrow> string" where
  "trim_slashes s = rev (dropWhile (\<lambda>c. c = CHR ''/'') (rev s))"

subsection \<open>Base64\<close>

definition b64_digit :: "nat \<Rightarrow> char" where
  "b64_digit n = ''ABCDEFGHIJKLMNOPQRSTUVWXYZabcdefghijklmnopqrstuvwxyz0123456789+/'' ! n"

fun base64 :: "string \<Rightarrow> string" where
  "base64 (a # b # c # s) =
     (let n = (of_char a * 256 + of_char b) * 256 + of_char c :: nat in
      [b64_digit (n div 262144), b64_digit (n div 4096 mod 64), b64_digit (n div 64 mod 64), b64_digit (n mod 64)] @ base64 s)"
| "base64 [a, b] =
     (let n = (of_char a * 256 + of_char b) * 256 :: nat in
      [b64_digit (n div 262144), b64_digit (n div 4096 mod 64), b64_digit (n div 64 mod 64), CHR ''=''])"
| "base64 [a] =
     (let n = of_char a * 65536 :: nat in [b64_digit (n div 262144), b64_digit (n div 4096 mod 64), CHR ''='', CHR ''=''])"
| "base64 [] = []"

lemma base64_examples: "base64 ''id:secret'' = ''aWQ6c2VjcmV0''" "base64 ''ab'' = ''YWI=''" "base64 ''a'' = ''YQ==''"
  by (simp_all add: b64_digit_def Let_def)

end
