(* ===== verification/RingCentral.thy ===== *)
theory RingCentral
  imports Go_Url Go_Float
begin

text \<open>
  The RingCentral client (\<open>src/client/ringcentral\<close>): the token exchange, the company's numbers and call log with their
  bounded paging, and the guard on the address a recording is fetched from.
\<close>

subsection \<open>Credentials and errors\<close>

record rc_cred =
  rc_ClientID :: string
  rc_ClientSecret :: string
  rc_JWT :: string
  rc_ServerURL :: string

definition cred_Validate :: "rc_cred \<Rightarrow> string option" where
  "cred_Validate c =
     (if TrimSpace (rc_ClientID c) = [] then Some ''ringcentral: client_id is required''
      else if TrimSpace (rc_ClientSecret c) = [] then Some ''ringcentral: client_secret is required''
      else if TrimSpace (rc_JWT c) = [] then Some ''ringcentral: jwt is required''
      else None)"

record rc_client =
  rc_serverURL :: string
  rc_cred_of :: rc_cred

definition DefaultServerURL :: string where "DefaultServerURL = ''https://platform.ringcentral.com''"

definition NewClientWithCred :: "rc_cred \<Rightarrow> string + rc_client" where
  "NewClientWithCred cred =
     (case cred_Validate cred of
        Some err \<Rightarrow> Inl err
      | None \<Rightarrow>
          let server = (if TrimSpace (rc_ServerURL cred) = [] then DefaultServerURL else TrimSpace (rc_ServerURL cred)) in
          Inr \<lparr>rc_serverURL = rev (dropWhile (\<lambda>c. c = CHR ''/'') (rev server)), rc_cred_of = cred\<rparr>)"

text \<open>Why a recording's address is refused.\<close>

datatype media_refusal = NotAUrl | NotHttps string | ForeignHost string

datatype rc_err =
    RcInvalidCredentials
  | RcInsufficientPermissions
  | RcAuthError int string string
  | RcMedia media_refusal
  | RcErr string

definition rc_IsAuthError :: "rc_err \<Rightarrow> bool" where
  "rc_IsAuthError e \<longleftrightarrow> (case e of RcAuthError status code body \<Rightarrow> True | _ \<Rightarrow> False)"

record error_response =
  er_Error :: string
  er_Description :: string
  er_Message :: string

definition describe :: "error_response \<Rightarrow> string \<Rightarrow> string" where
  "describe er body =
     (if er_Description er \<noteq> [] then er_Description er
      else if er_Message er \<noteq> [] then er_Message er
      else take 256 (TrimSpace body))"

definition isAuthRejection :: "int \<Rightarrow> string \<Rightarrow> bool" where
  "isAuthRejection status code \<longleftrightarrow> status = 401 \<or> status = 403
     \<or> (status = 400 \<and> code \<in> {''invalid_grant'', ''invalid_client'', ''unauthorized_client'', ''invalid_request_credentials''})"

subsection \<open>Records of the account\<close>

text \<open>An identifier arrives as a JSON string or as a number; \<open>str\<close> and \<open>num\<close> decode the two.\<close>

definition flexID_UnmarshalJSON :: "(string \<Rightarrow> string option) \<Rightarrow> (string \<Rightarrow> string option) \<Rightarrow> string \<Rightarrow> string option" where
  "flexID_UnmarshalJSON str num b =
     (let s = TrimSpace b in
      if s = [] \<or> s = ''null'' then Some []
      else if hd s = CHR 0x22 then str b
      else num b)"

record raw_party =
  rp_PhoneNumber :: string
  rp_ExtensionID :: string
  rp_ExtensionNumber :: string
  rp_Name :: string

record raw_recording =
  rr_ID :: string
  rr_Type :: string
  rr_ContentURI :: string

record raw_call =
  rw_ID :: string
  rw_SessionID :: string
  rw_TelephonySessionID :: string
  rw_Direction :: string
  rw_Result :: string
  rw_StartTime :: string
  rw_Duration :: int
  rw_From :: raw_party
  rw_To :: raw_party
  rw_Recording :: "raw_recording option"

record call_party =
  cp_PhoneNumber :: string
  cp_ExtensionID :: string
  cp_ExtensionNumber :: string
  cp_Name :: string

record recording =
  rec_ID :: string
  rec_Type :: string
  rec_ContentURI :: string

record call_record =
  cr_ID :: string
  cr_SessionID :: string
  cr_Direction :: string
  cr_Result :: string
  cr_From :: call_party
  cr_To :: call_party
  cr_StartTime :: go_time
  cr_DurationSeconds :: int
  cr_Recording :: "recording option"

definition toParty :: "raw_party \<Rightarrow> call_party" where
  "toParty p = \<lparr>cp_PhoneNumber = TrimSpace (rp_PhoneNumber p), cp_ExtensionID = rp_ExtensionID p,
     cp_ExtensionNumber = rp_ExtensionNumber p, cp_Name = rp_Name p\<rparr>"

definition toCallRecord :: "raw_call \<Rightarrow> call_record" where
  "toCallRecord r =
     \<lparr>cr_ID = rw_ID r,
      cr_SessionID = (if TrimSpace (rw_TelephonySessionID r) = [] then TrimSpace (rw_SessionID r) else TrimSpace (rw_TelephonySessionID r)),
      cr_Direction = rw_Direction r, cr_Result = rw_Result r, cr_From = toParty (rw_From r), cr_To = toParty (rw_To r),
      cr_StartTime = (case parse_time RFC3339_layout (rw_StartTime r) of Some t \<Rightarrow> gt_UTC t | None \<Rightarrow> zero_time),
      cr_DurationSeconds = rw_Duration r,
      cr_Recording = map_option (\<lambda>rr. \<lparr>rec_ID = rr_ID rr, rec_Type = rr_Type rr, rec_ContentURI = TrimSpace (rr_ContentURI rr)\<rparr>)
        (rw_Recording r)\<rparr>"

record raw_extension =
  re_ID :: string
  re_ExtensionNumber :: string
  re_Name :: string

record raw_number =
  rn_ID :: string
  rn_PhoneNumber :: string
  rn_UsageType :: string
  rn_Type :: string
  rn_Status :: string
  rn_Label :: string
  rn_Extension :: "raw_extension option"

record phone_number =
  pn_ID :: string
  pn_PhoneNumber :: string
  pn_UsageType :: string
  pn_Type :: string
  pn_Status :: string
  pn_Label :: string
  pn_ExtensionID :: string
  pn_ExtensionNumber :: string
  pn_ExtensionName :: string

definition toPhoneNumber :: "raw_number \<Rightarrow> phone_number" where
  "toPhoneNumber r =
     \<lparr>pn_ID = rn_ID r, pn_PhoneNumber = TrimSpace (rn_PhoneNumber r), pn_UsageType = rn_UsageType r, pn_Type = rn_Type r,
      pn_Status = rn_Status r, pn_Label = rn_Label r,
      pn_ExtensionID = (case rn_Extension r of Some e \<Rightarrow> re_ID e | None \<Rightarrow> []),
      pn_ExtensionNumber = (case rn_Extension r of Some e \<Rightarrow> re_ExtensionNumber e | None \<Rightarrow> []),
      pn_ExtensionName = (case rn_Extension r of Some e \<Rightarrow> re_Name e | None \<Rightarrow> [])\<rparr>"

subsection \<open>The exchange\<close>

text \<open>The client's own transport follows redirects inside \<open>rn_server\<close>; recordings go through \<open>rn_direct\<close>, whose answer
  may be a redirect. The codec decodes bodies: \<open>rk_error\<close> ignores its error, the others report theirs.\<close>

record 's rc_net =
  rn_server :: "'s http_server"
  rn_direct :: "'s http_server"

record token_response =
  tr_AccessToken :: string
  tr_ExpiresIn :: int

record rc_codec =
  rk_error :: "string \<Rightarrow> error_response"
  rk_token :: "string \<Rightarrow> string + token_response"
  rk_calls :: "string \<Rightarrow> string + raw_call list \<times> int"
  rk_numbers :: "string \<Rightarrow> string + raw_number list \<times> int"

definition jwtGrantType :: string where "jwtGrantType = ''urn:ietf:params:oauth:grant-type:jwt-bearer''"

definition token_request :: "rc_client \<Rightarrow> http_request" where
  "token_request c = \<lparr>rq_method = ''POST'', rq_url = rc_serverURL c @ ''/restapi/oauth/token'',
     rq_headers = [(''Authorization'', ''Basic '' @ base64 (rc_ClientID (rc_cred_of c) @ '':'' @ rc_ClientSecret (rc_cred_of c))),
       (''Content-Type'', ''application/x-www-form-urlencoded''), (''Accept'', ''application/json'')],
     rq_body = Some (values_Encode [(''grant_type'', jwtGrantType), (''assertion'', rc_JWT (rc_cred_of c))])\<rparr>"

text \<open>Durations are 64-bit counts of nanoseconds.\<close>

definition AccessToken :: "'s rc_net \<Rightarrow> rc_codec \<Rightarrow> rc_client \<Rightarrow> 's \<Rightarrow> (rc_err + string \<times> int) \<times> 's" where
  "AccessToken N K c s =
     (case rn_server N (token_request c) s of
        (BadUrl e, s') \<Rightarrow> (Inl (RcErr (''ringcentral: failed to create token request: '' @ e)), s')
      | (NoAnswer e, s') \<Rightarrow> (Inl (RcErr (''ringcentral: network error: '' @ e)), s')
      | (Answer r, s') \<Rightarrow>
          (if rs_status r < 200 \<or> rs_status r \<ge> 300 then
             (let er = rk_error K (rs_body r) in
              if isAuthRejection (rs_status r) (er_Error er)
              then Inl (RcAuthError (rs_status r) (er_Error er) (describe er (rs_body r)))
              else Inl (RcErr (''ringcentral: token request failed with status '' @ show_int (rs_status r) @ '': ''
                          @ describe er (rs_body r))))
           else (case rk_token K (rs_body r) of
                   Inl e \<Rightarrow> Inl (RcErr (''ringcentral: failed to decode token response: '' @ e))
                 | Inr tok \<Rightarrow>
                     if tr_AccessToken tok = [] then Inl (RcErr ''ringcentral: token response missing access_token'')
                     else Inr (tr_AccessToken tok, wrap64 (tr_ExpiresIn tok * 1000000000))), s'))"

definition rc_TestConnection :: "'s rc_net \<Rightarrow> rc_codec \<Rightarrow> rc_client \<Rightarrow> 's \<Rightarrow> rc_err option \<times> 's" where
  "rc_TestConnection N K c s =
     (case AccessToken N K c s of
        (Inl e, s') \<Rightarrow> (Some (if rc_IsAuthError e then RcInvalidCredentials else e), s')
      | (Inr _, s') \<Rightarrow> (None, s'))"

text \<open>What the operations that need a token make of a failed exchange.\<close>

definition with_token :: "'s rc_net \<Rightarrow> rc_codec \<Rightarrow> rc_client \<Rightarrow> (string \<Rightarrow> 's \<Rightarrow> (rc_err + 'a) \<times> 's) \<Rightarrow> 's \<Rightarrow> (rc_err + 'a) \<times> 's" where
  "with_token N K c use s =
     (case AccessToken N K c s of
        (Inl e, s') \<Rightarrow> (Inl (if rc_IsAuthError e then RcInvalidCredentials else e), s')
      | (Inr (token, ttl), s') \<Rightarrow> use token s')"

definition get_request :: "rc_client \<Rightarrow> string \<Rightarrow> string \<Rightarrow> http_request" where
  "get_request c token path = \<lparr>rq_method = ''GET'', rq_url = rc_serverURL c @ path,
     rq_headers = [(''Authorization'', ''Bearer '' @ token), (''Accept'', ''application/json'')], rq_body = None\<rparr>"

definition rc_get :: "'s rc_net \<Rightarrow> rc_codec \<Rightarrow> rc_client \<Rightarrow> string \<Rightarrow> string \<Rightarrow> 's \<Rightarrow> (rc_err + string) \<times> 's" where
  "rc_get N K c token path s =
     (case rn_server N (get_request c token path) s of
        (BadUrl e, s') \<Rightarrow> (Inl (RcErr (''ringcentral: failed to create request: '' @ e)), s')
      | (NoAnswer e, s') \<Rightarrow> (Inl (RcErr (''ringcentral: network error: '' @ e)), s')
      | (Answer r, s') \<Rightarrow>
          (if rs_status r = 401 \<or> rs_status r = 403 then Inl RcInvalidCredentials
           else if rs_status r < 200 \<or> rs_status r \<ge> 300
           then Inl (RcErr (''ringcentral: request failed with status '' @ show_int (rs_status r) @ '': ''
                       @ describe (rk_error K (rs_body r)) (rs_body r)))
           else Inr (rs_body r), s'))"

subsection \<open>Listings\<close>

text \<open>The loop over numbered pages: it stops at the last page by the service's count or at an empty one; the flag says
  that the pages allowed ran out first.\<close>

fun numbered_pages :: "(nat \<Rightarrow> 's \<Rightarrow> ('e + 'r list \<times> int) \<times> 's) \<Rightarrow> nat \<Rightarrow> nat \<Rightarrow> 'r list \<Rightarrow> 's \<Rightarrow> ('e + 'r list \<times> bool) \<times> 's" where
  "numbered_pages fetch page 0 acc s = (Inr (acc, True), s)"
| "numbered_pages fetch page (Suc left) acc s =
     (case fetch page s of
        (Inl e, s') \<Rightarrow> (Inl e, s')
      | (Inr (rs, pages), s') \<Rightarrow>
          if pages \<le> int page \<or> rs = [] then (Inr (acc @ rs, False), s')
          else numbered_pages fetch (Suc page) left (acc @ rs) s')"

definition maxCallLogPages :: nat where "maxCallLogPages = 20"
definition maxNumberPages :: nat where "maxNumberPages = 10"

text \<open>A page of a listing: the path with its query, decoded.\<close>

definition rc_page :: "'s rc_net \<Rightarrow> rc_codec \<Rightarrow> rc_client \<Rightarrow> string \<Rightarrow> string \<Rightarrow> (string \<Rightarrow> string + 'r list \<times> int) \<Rightarrow> string
    \<Rightarrow> (string \<times> string) list \<Rightarrow> nat \<Rightarrow> 's \<Rightarrow> (rc_err + 'r list \<times> int) \<times> 's" where
  "rc_page N K c token what dec path query page s =
     (case rc_get N K c token (path @ ''?'' @ values_Encode (query @ [(''perPage'', ''1000''), (''page'', itoa page)])) s of
        (Inl e, s') \<Rightarrow> (Inl e, s')
      | (Inr body, s') \<Rightarrow>
          (case dec body of
             Inl e \<Rightarrow> Inl (RcErr (''ringcentral: failed to decode '' @ what @ '': '' @ e))
           | Inr p \<Rightarrow> Inr p, s'))"

definition number_page :: "'s rc_net \<Rightarrow> rc_codec \<Rightarrow> rc_client \<Rightarrow> string \<Rightarrow> nat \<Rightarrow> 's \<Rightarrow> (rc_err + raw_number list \<times> int) \<times> 's" where
  "number_page N K c token =
     rc_page N K c token ''phone numbers'' (rk_numbers K) ''/restapi/v1.0/account/~/phone-number'' []"

definition ListPhoneNumbers :: "'s rc_net \<Rightarrow> rc_codec \<Rightarrow> rc_client \<Rightarrow> 's \<Rightarrow> (rc_err + phone_number list) \<times> 's" where
  "ListPhoneNumbers N K c =
     with_token N K c (\<lambda>token s.
       map_prod (map_sum id (\<lambda>(rs, capped). map toPhoneNumber rs)) id
         (numbered_pages (number_page N K c token) 1 maxNumberPages [] s))"

record call_log_query =
  clq_From :: go_time
  clq_To :: go_time

record call_log =
  cl_Records :: "call_record list"
  cl_Truncated :: bool

definition call_page :: "'s rc_net \<Rightarrow> rc_codec \<Rightarrow> rc_client \<Rightarrow> call_log_query \<Rightarrow> string \<Rightarrow> nat \<Rightarrow> 's \<Rightarrow> (rc_err + raw_call list \<times> int) \<times> 's" where
  "call_page N K c q token =
     rc_page N K c token ''call log'' (rk_calls K) ''/restapi/v1.0/account/~/call-log''
       [(''view'', ''Detailed''), (''dateFrom'', fmt_RFC3339_utc (gt_UTC (clq_From q))), (''dateTo'', fmt_RFC3339_utc (gt_UTC (clq_To q)))]"

definition ListCallLog :: "'s rc_net \<Rightarrow> rc_codec \<Rightarrow> rc_client \<Rightarrow> call_log_query \<Rightarrow> 's \<Rightarrow> (rc_err + call_log) \<times> 's" where
  "ListCallLog N K c q s =
     (if IsZero (clq_From q) \<or> IsZero (clq_To q) then (Inl (RcErr ''ringcentral: call log window requires both From and To''), s)
      else if gt_instant (clq_To q) < gt_instant (clq_From q)
      then (Inl (RcErr ''ringcentral: call log window ends before it starts''), s)
      else with_token N K c (\<lambda>token s.
             map_prod (map_sum id (\<lambda>(rs, capped). \<lparr>cl_Records = map toCallRecord rs, cl_Truncated = capped\<rparr>)) id
               (numbered_pages (call_page N K c q token) 1 maxCallLogPages [] s)) s)"

subsection \<open>Recordings\<close>

definition has_suffix :: "string \<Rightarrow> string \<Rightarrow> bool" where
  "has_suffix suf s \<longleftrightarrow> length suf \<le> length s \<and> drop (length s - length suf) s = suf"

definition mediaHostSuffix :: string where "mediaHostSuffix = ''.ringcentral.com''"

definition checkMediaURI :: "string \<Rightarrow> media_refusal option" where
  "checkMediaURI raw =
     (case url_Parse (TrimSpace raw) of
        None \<Rightarrow> Some NotAUrl
      | Some u \<Rightarrow>
          if u_Scheme u \<noteq> ''https'' then Some (NotHttps (u_Scheme u))
          else let host = lower_utf8 (Hostname u) in
               if host \<noteq> ''ringcentral.com'' \<and> \<not> has_suffix mediaHostSuffix host then Some (ForeignHost host) else None)"

definition recording_request :: "string \<Rightarrow> string \<Rightarrow> http_request" where
  "recording_request token contentURI = \<lparr>rq_method = ''GET'', rq_url = contentURI,
     rq_headers = [(''Authorization'', ''Bearer '' @ token)], rq_body = None\<rparr>"

text \<open>The body, unread, and its type; of an error's body no more than 4096 bytes are read.\<close>

definition fetchRecordingAt :: "'s rc_net \<Rightarrow> rc_codec \<Rightarrow> rc_client \<Rightarrow> string \<Rightarrow> 's \<Rightarrow> (rc_err + string \<times> string) \<times> 's" where
  "fetchRecordingAt N K c contentURI =
     with_token N K c (\<lambda>token s.
       if url_Parse contentURI = None then (Inl (RcErr ''ringcentral: failed to create recording request''), s)
       else (case rn_direct N (recording_request token contentURI) s of
          (BadUrl e, s') \<Rightarrow> (Inl (RcErr (''ringcentral: failed to create recording request: '' @ e)), s')
        | (NoAnswer e, s') \<Rightarrow> (Inl (RcErr (''ringcentral: network error fetching recording: '' @ e)), s')
        | (Answer r, s') \<Rightarrow>
            (if rs_status r = 401 then Inl RcInvalidCredentials
             else if rs_status r = 403 then Inl RcInsufficientPermissions
             else if rs_status r < 200 \<or> rs_status r \<ge> 300 then
               (let body = take 4096 (rs_body r) in
                Inl (RcErr (''ringcentral: recording request failed with status '' @ show_int (rs_status r) @ '': ''
                       @ describe (rk_error K body) body)))
             else Inr (rs_body r, header_of (rs_headers r) ''Content-Type''), s')))"

definition FetchRecording :: "'s rc_net \<Rightarrow> rc_codec \<Rightarrow> rc_client \<Rightarrow> string \<Rightarrow> 's \<Rightarrow> (rc_err + string \<times> string) \<times> 's" where
  "FetchRecording N K c contentURI s =
     (case checkMediaURI contentURI of
        Some refusal \<Rightarrow> (Inl (RcMedia refusal), s)
      | None \<Rightarrow> fetchRecordingAt N K c contentURI s)"

subsection \<open>What the listings return\<close>

text \<open>A page promises another one when the service's count says so and the page is not empty; \<open>answered\<close> are the pages
  the service gave, one request each.\<close>

definition promises :: "nat \<Rightarrow> 'r list \<times> int \<Rightarrow> bool" where
  "promises page p \<longleftrightarrow> fst p \<noteq> [] \<and> int page < snd p"

fun answered :: "(nat \<Rightarrow> 's \<Rightarrow> ('e + 'r list \<times> int) \<times> 's) \<Rightarrow> nat \<Rightarrow> 's \<Rightarrow> ('r list \<times> int) list \<Rightarrow> 's \<Rightarrow> bool" where
  "answered fetch page s [] s' \<longleftrightarrow> s' = s"
| "answered fetch page s (p # ps) s' \<longleftrightarrow> (\<exists>s1. fetch page s = (Inr p, s1) \<and> answered fetch (Suc page) s1 ps s')"

fun all_promise :: "nat \<Rightarrow> ('r list \<times> int) list \<Rightarrow> bool" where
  "all_promise page [] \<longleftrightarrow> True"
| "all_promise page (p # ps) \<longleftrightarrow> promises page p \<and> all_promise (Suc page) ps"

lemma numbered_pages_answered:
  assumes "numbered_pages fetch page left acc s = (Inr (rs, capped), s')"
  shows "\<exists>ps. answered fetch page s ps s' \<and> rs = acc @ concat (map fst ps)
    \<and> (if capped then length ps = left \<and> all_promise page ps
       else \<exists>qs q. ps = qs @ [q] \<and> length ps \<le> left \<and> all_promise page qs \<and> \<not> promises (page + length qs) q)"
  using assms
proof (induction fetch page left acc s rule: numbered_pages.induct)
  case (1 fetch page acc s)
  then show ?case by (intro exI [of _ "[]"]) simp
next
  case (2 fetch page left acc s)
  obtain a s1 where f: "fetch page s = (a, s1)" by fastforce
  obtain p where a: "a = Inr p" using "2.prems" f by (cases a) auto
  obtain xs n where p: "p = (xs, n)" by fastforce
  show ?case
  proof (cases "promises page p")
    case True
    then have "\<not> (n \<le> int page \<or> xs = [])" by (auto simp: promises_def p)
    with "2.prems" f a p have "numbered_pages fetch (Suc page) left (acc @ xs) s1 = (Inr (rs, capped), s')" by simp
    from "2.IH" [OF f [symmetric] _ _ _ this] a p \<open>\<not> (n \<le> int page \<or> xs = [])\<close>
    obtain ps where ps: "answered fetch (Suc page) s1 ps s'" "rs = (acc @ xs) @ concat (map fst ps)"
      "if capped then length ps = left \<and> all_promise (Suc page) ps
       else \<exists>qs q. ps = qs @ [q] \<and> length ps \<le> left \<and> all_promise (Suc page) qs \<and> \<not> promises (Suc page + length qs) q"
      by blast
    have "answered fetch page s (p # ps) s'" using f a ps(1) by auto
    moreover have "rs = acc @ concat (map fst (p # ps))" using ps(2) p by simp
    moreover have "if capped then length (p # ps) = Suc left \<and> all_promise page (p # ps)
       else \<exists>qs q. p # ps = qs @ [q] \<and> length (p # ps) \<le> Suc left \<and> all_promise page qs \<and> \<not> promises (page + length qs) q"
    proof (cases capped)
      case True
      then show ?thesis using ps(3) \<open>promises page p\<close> by simp
    next
      case False
      with ps(3) obtain qs q where "ps = qs @ [q]" "length ps \<le> left" "all_promise (Suc page) qs" "\<not> promises (Suc page + length qs) q"
        by auto
      then have "p # ps = (p # qs) @ [q] \<and> length (p # ps) \<le> Suc left \<and> all_promise page (p # qs) \<and> \<not> promises (page + length (p # qs)) q"
        using \<open>promises page p\<close> by simp
      then show ?thesis using False by (metis (full_types))
    qed
    ultimately show ?thesis by blast
  next
    case False
    then have "n \<le> int page \<or> xs = []" by (auto simp: promises_def p)
    with "2.prems" f a p have "rs = acc @ xs" "\<not> capped" "s' = s1" by auto
    then show ?thesis using f a p False by (intro exI [of _ "[p]"]) auto
  qed
qed

lemma with_token_Inr:
  assumes "with_token N K c use s = (Inr v, s')"
  shows "\<exists>token ttl s1. AccessToken N K c s = (Inr (token, ttl), s1) \<and> use token s1 = (Inr v, s')"
  using assms by (auto simp: with_token_def split: prod.splits sum.splits)

text \<open>C34. A call log is what it says it is. When the call returns one, its records are all the records of the pages the
  service gave for this window, from the first on, in order, one request per page. A log that is not marked as
  truncated ends with the page the service named the last (or with an empty one), so nothing was left out; one that is
  marked holds twenty full pages with another one promised.\<close>

theorem call_log_complete:
  assumes "ListCallLog N K c q s = (Inr calls, s')"
  shows "\<exists>token ttl s1 ps. AccessToken N K c s = (Inr (token, ttl), s1)
    \<and> answered (call_page N K c q token) 1 s1 ps s'
    \<and> cl_Records calls = map toCallRecord (concat (map fst ps))
    \<and> (if cl_Truncated calls then length ps = 20 \<and> all_promise 1 ps
       else \<exists>qs p. ps = qs @ [p] \<and> length ps \<le> 20 \<and> all_promise 1 qs \<and> \<not> promises (length ps) p)"
proof -
  let ?use = "\<lambda>token s. map_prod (map_sum id (\<lambda>(rs, capped). \<lparr>cl_Records = map toCallRecord rs, cl_Truncated = capped\<rparr>)) id
      (numbered_pages (call_page N K c q token) 1 maxCallLogPages [] s)"
  have "with_token N K c ?use s = (Inr calls, s')"
    using assms by (simp add: ListCallLog_def split: if_splits)
  from with_token_Inr [OF this] obtain token ttl s1 where
    token: "AccessToken N K c s = (Inr (token, ttl), s1)" and use: "?use token s1 = (Inr calls, s')" by blast
  obtain out s2 where "numbered_pages (call_page N K c q token) 1 maxCallLogPages [] s1 = (out, s2)" by fastforce
  with use obtain rs capped where
    run: "numbered_pages (call_page N K c q token) 1 maxCallLogPages [] s1 = (Inr (rs, capped), s')"
    and calls: "cl_Records calls = map toCallRecord rs" "cl_Truncated calls = capped"
    by (cases out) auto
  from numbered_pages_answered [OF run] obtain ps where
    ps: "answered (call_page N K c q token) 1 s1 ps s'" "rs = concat (map fst ps)"
      "if capped then length ps = 20 \<and> all_promise 1 ps
       else \<exists>qs p. ps = qs @ [p] \<and> length ps \<le> 20 \<and> all_promise 1 qs \<and> \<not> promises (1 + length qs) p"
    unfolding maxCallLogPages_def by auto
  then have "if cl_Truncated calls then length ps = 20 \<and> all_promise 1 ps
       else \<exists>qs p. ps = qs @ [p] \<and> length ps \<le> 20 \<and> all_promise 1 qs \<and> \<not> promises (length ps) p"
    by (auto simp: calls(2) split: if_splits)
  then show ?thesis using token ps calls by blast
qed

text \<open>The numbers of the account have the same loop and drop the flag: after ten pages the listing ends as if it were
  whole.\<close>

lemma number_listing_capped:
  assumes "AccessToken N K c s = (Inr (token, ttl), s1)" and "answered (number_page N K c token) 1 s1 ps s'"
    and "length ps = 10" and "all_promise 1 ps"
  shows "ListPhoneNumbers N K c s = (Inr (map toPhoneNumber (concat (map fst ps))), s')"
proof -
  have all: "answered fetch page s ps s' \<Longrightarrow> all_promise page ps
      \<Longrightarrow> numbered_pages fetch page (length ps) acc s = (Inr (acc @ concat (map fst ps), True), s')"
    for fetch :: "nat \<Rightarrow> 's \<Rightarrow> (rc_err + 'r list \<times> int) \<times> 's" and page s ps s' acc
  proof (induction ps arbitrary: page s acc)
    case (Cons p ps)
    then show ?case by (cases p) (auto simp: promises_def)
  qed simp
  from all [OF assms(2,4), of "[]"] assms(1,3) show ?thesis
    by (simp add: ListPhoneNumbers_def with_token_def maxNumberPages_def)
qed

subsection \<open>Where the token goes\<close>

text \<open>A server that keeps the requests it got.\<close>

definition logged :: "'s http_server \<Rightarrow> ('s \<times> http_request list) http_server" where
  "logged srv rq sl = (case srv rq (fst sl) of (a, s') \<Rightarrow> (a, (s', snd sl @ [rq])))"

definition logged_net :: "'s rc_net \<Rightarrow> ('s \<times> http_request list) rc_net" where
  "logged_net N = \<lparr>rn_server = logged (rn_server N), rn_direct = logged (rn_direct N)\<rparr>"

definition ringcentral_host :: "string \<Rightarrow> bool" where
  "ringcentral_host h \<longleftrightarrow> h = ''ringcentral.com'' \<or> suffix ''.ringcentral.com'' h"

lemma has_suffix_iff: "has_suffix suf s \<longleftrightarrow> suffix suf s"
proof
  assume "has_suffix suf s"
  then show "suffix suf s" unfolding has_suffix_def by (metis suffix_drop)
qed (auto simp: has_suffix_def suffix_def)

lemma checkMediaURI_None:
  "checkMediaURI raw = None \<longleftrightarrow>
     (\<exists>u. url_Parse (TrimSpace raw) = Some u \<and> u_Scheme u = ''https'' \<and> ringcentral_host (lower_utf8 (Hostname u)))"
  by (auto simp: checkMediaURI_def Let_def ringcentral_host_def has_suffix_iff mediaHostSuffix_def split: option.splits)

lemma AccessToken_logged:
  "AccessToken (logged_net N) K c (s, reqs) = (out, s') \<Longrightarrow> snd s' = reqs @ [token_request c]"
  by (auto simp: AccessToken_def logged_net_def logged_def Let_def split: prod.splits http_outcome.splits if_splits sum.splits)

lemma recording_trimmed: "cr_Recording (toCallRecord r) = Some rec \<Longrightarrow> TrimSpace (rec_ContentURI rec) = rec_ContentURI rec"
  by (auto simp: toCallRecord_def TrimSpace_idem)


definition sample_call :: raw_call where
  "sample_call = \<lparr>rw_ID = ''AbC123'', rw_SessionID = ''77'', rw_TelephonySessionID = [], rw_Direction = ''Inbound'', rw_Result = ''Accepted'',
     rw_StartTime = ''2024-09-02T17:23:46Z'', rw_Duration = 40,
     rw_From = \<lparr>rp_PhoneNumber = ''+15551230000'', rp_ExtensionID = [], rp_ExtensionNumber = [], rp_Name = []\<rparr>,
     rw_To = \<lparr>rp_PhoneNumber = ''+15551230001'', rp_ExtensionID = ''9'', rp_ExtensionNumber = ''101'', rp_Name = []\<rparr>,
     rw_Recording = Some \<lparr>rr_ID = ''9001'', rr_Type = ''Automatic'', rr_ContentURI = ''https://media.ringcentral.com:443/r/9001''\<rparr>\<rparr>"

definition sample_rc_codec :: rc_codec where
  "sample_rc_codec = \<lparr>rk_error = (\<lambda>b. \<lparr>er_Error = [], er_Description = [], er_Message = b\<rparr>),
     rk_token = (\<lambda>b. Inr \<lparr>tr_AccessToken = ''t'', tr_ExpiresIn = 3600\<rparr>), rk_calls = (\<lambda>b. Inr ([sample_call], 1)),
     rk_numbers = (\<lambda>b. Inr ([], 1))\<rparr>"

definition answering_net :: "unit rc_net" where
  "answering_net = (let srv = (\<lambda>rq s. (Answer \<lparr>rs_status = 200, rs_headers = [], rs_body = ''x''\<rparr>, s)) in
     \<lparr>rn_server = srv, rn_direct = srv\<rparr>)"

definition sample_rc_client :: rc_client where
  "sample_rc_client = \<lparr>rc_serverURL = DefaultServerURL,
     rc_cred_of = \<lparr>rc_ClientID = ''i'', rc_ClientSecret = ''s'', rc_JWT = ''j'', rc_ServerURL = []\<rparr>\<rparr>"


lemma numbered_pages_single:
  "fetch page s = (Inr (rs, n), s') \<Longrightarrow> n \<le> int page \<Longrightarrow> 0 < left \<Longrightarrow> numbered_pages fetch page left acc s = (Inr (acc @ rs, False), s')"
  by (cases left) auto

lemma sample_call_log:
  assumes "q = \<lparr>clq_From = utc_time unix_epoch, clq_To = utc_time (unix_epoch + 1)\<rparr>"
  shows "ListCallLog answering_net sample_rc_codec sample_rc_client q ()
    = (Inr \<lparr>cl_Records = [toCallRecord sample_call], cl_Truncated = False\<rparr>, ())"
proof -
  have window: "\<not> IsZero (utc_time unix_epoch)" "\<not> IsZero (utc_time (unix_epoch + 1))" by code_simp+
  have page: "call_page answering_net sample_rc_codec sample_rc_client q token 1 () = (Inr ([sample_call], 1), ())" for token
    by (simp add: call_page_def rc_page_def rc_get_def answering_net_def sample_rc_codec_def Let_def)
  have token: "AccessToken answering_net sample_rc_codec sample_rc_client () = (Inr (''t'', wrap64 3600000000000), ())"
    by (simp add: AccessToken_def answering_net_def sample_rc_codec_def Let_def)
  show ?thesis
    using numbered_pages_single [of "call_page answering_net sample_rc_codec sample_rc_client q ''t''" 1 "()", OF page, of maxCallLogPages "[]"]
      window
    by (simp add: ListCallLog_def with_token_def token maxCallLogPages_def assms utc_time_def)
qed

lemma call_log_complete_witness:
  "\<exists>q calls token ttl s1 ps. ListCallLog answering_net sample_rc_codec sample_rc_client q () = (Inr calls, ())
    \<and> cl_Records calls = map toCallRecord (concat (map fst ps)) \<and> length ps \<le> 20
    \<and> answered (call_page answering_net sample_rc_codec sample_rc_client q token) 1 s1 ps ()"
proof -
  note call = sample_call_log [OF refl]
  from call_log_complete [OF call] obtain token ttl s1 ps where
    "answered (call_page answering_net sample_rc_codec sample_rc_client \<lparr>clq_From = utc_time unix_epoch, clq_To = utc_time (unix_epoch + 1)\<rparr>
        token) 1 s1 ps ()"
    "cl_Records \<lparr>cl_Records = [toCallRecord sample_call], cl_Truncated = False\<rparr> = map toCallRecord (concat (map fst ps))" "length ps \<le> 20"
    by (auto split: if_splits)
  then show ?thesis using call by blast
qed

text \<open>For a host name in ASCII the comparison is DNS's own. Outside ASCII lowering can turn another name into
  RingCentral's: the dotted capital I becomes an i.\<close>

lemma ascii_host:
  "\<forall>c \<in> set h. (of_char c :: nat) < 128 \<Longrightarrow> ringcentral_host (lower_utf8 h) \<longleftrightarrow> ringcentral_host (map to_lower_char h)"
  by (simp add: lower_utf8_ascii)

lemma dotted_capital_accepted:
  "checkMediaURI (''https://r'' @ [CHR 0xC4, CHR 0xB0] @ ''ngcentral.com/x'') = None"
  by code_simp

end
