(* ===== verification/Utils.thy ===== *)
theory Utils
  imports Query_Filter Go_Time
begin

text \<open>
  Dates, weeks and page numbers of \<open>src/utils\<close> (\<open>date.go\<close>, \<open>pagination.go\<close>), the pointer helpers of
  \<open>utils.go\<close> and the loading of keys (\<open>keys.go\<close>). A time is an instant with its zone; \<open>Calendar\<close> has Go's calendar arithmetic.
\<close>

subsection \<open>Dates\<close>

definition iso_layout :: "element list" where
  "iso_layout = [Year4, Lit CHR ''-'', Month2, Lit CHR ''-'', Day2]"

definition european_layout :: "element list" where
  "european_layout = [Day2, Lit CHR ''-'', Month2, Lit CHR ''-'', Year4]"

definition rfc3339_layout :: "element list" where
  "rfc3339_layout = iso_layout @ [Lit CHR ''T'', Hour24, Lit CHR '':'', Minute2, Lit CHR '':'', Second2, Zone07]"

text \<open>Midnight UTC of the date the time shows in its own zone.\<close>

definition AsDateInUTC :: "go_time \<Rightarrow> go_time" where
  "AsDateInUTC t = (case gt_date t of (y, m, d) \<Rightarrow> utc_time (go_Date utc y m d 0))"

text \<open>The layouts in the order of the code; a fraction of a second is read whether the layout names it or not, so
  \<open>RFC3339Nano\<close> reads what \<open>RFC3339\<close> reads.\<close>

fun parse_first :: "element list list \<Rightarrow> string \<Rightarrow> go_time option" where
  "parse_first [] s = None"
| "parse_first (l # ls) s = (case parse_time l s of Some t \<Rightarrow> Some (AsDateInUTC t) | None \<Rightarrow> parse_first ls s)"

definition ParseDateString :: "string \<Rightarrow> string + go_time" where
  "ParseDateString s =
     (case parse_first [rfc3339_layout, rfc3339_layout, iso_layout, european_layout] s of
        Some t \<Rightarrow> Inr t
      | None \<Rightarrow> Inl (''invalid date format: '' @ [CHR 0x27] @ s @ [CHR 0x27]))"

definition TruncateToDay :: "zone \<Rightarrow> int \<Rightarrow> int" where
  "TruncateToDay z t = (case date_of z t of (y, m, d) \<Rightarrow> go_Date z y m d 0)"

definition GetTimeOrMax :: "int option \<Rightarrow> int" where
  "GetTimeOrMax t = (case t of None \<Rightarrow> go_Date utc 2100 1 1 0 | Some t \<Rightarrow> t)"

text \<open>No date is no time; otherwise the two texts with a blank between them.\<close>

definition CombineDateAndTime :: "string \<Rightarrow> string \<Rightarrow> go_time option option" where
  "CombineDateAndTime dateStr timeStr =
     (if dateStr = [] then Some None
      else (case parse_time (iso_layout @ [Lit CHR '' '', Hour24, Lit CHR '':'', Minute2]) (dateStr @ '' '' @ timeStr) of
              None \<Rightarrow> None
            | Some t \<Rightarrow> Some (Some t)))"

subsection \<open>Weeks\<close>

text \<open>Sunday is the seventh day.\<close>

definition weekday_7 :: "int \<Rightarrow> int" where
  "weekday_7 n = (if Weekday n = 0 then 7 else Weekday n)"

definition GetWeekStart :: "zone \<Rightarrow> int \<Rightarrow> int" where
  "GetWeekStart z t =
     (let offset = weekday_7 (wall_of z t div day_ns) - 1; start = AddDate z t 0 0 (- offset) in
      case date_of z start of (y, m, d) \<Rightarrow> go_Date utc y m d 0)"

definition GetWeekEnd :: "zone \<Rightarrow> int \<Rightarrow> int" where
  "GetWeekEnd z t =
     (let end = AddDate utc (GetWeekStart z t) 0 0 6 in
      case date_of utc end of (y, m, d) \<Rightarrow> go_Date utc y m d (day_ns - 1))"

definition GetWeekRange :: "zone \<Rightarrow> int \<Rightarrow> int \<times> int" where
  "GetWeekRange z t = (GetWeekStart z t, GetWeekEnd z t)"

text \<open>\<open>time.ISOWeek\<close>: the year of the week's Thursday and the number of that Thursday in it.\<close>

definition ISOWeek :: "zone \<Rightarrow> int \<Rightarrow> int \<times> int" where
  "ISOWeek z t =
     (let day = wall_of z t div day_ns; thursday = day + (4 - weekday_7 day); y = year_of thursday in
      (y, (thursday - days_before_year y) div 7 + 1))"

definition IsSameWeek :: "zone \<Rightarrow> int \<Rightarrow> zone \<Rightarrow> int \<Rightarrow> bool" where
  "IsSameWeek z1 t1 z2 t2 \<longleftrightarrow> fst (ISOWeek z1 t1) = fst (ISOWeek z2 t2) \<and> snd (ISOWeek z1 t1) = snd (ISOWeek z2 t2)"

text \<open>Day 0, the first of January of the year 1, is a Monday.\<close>

lemma weekday_7_mod: "weekday_7 n = n mod 7 + 1"
proof -
  have "n mod 7 \<in> {0, 1, 2, 3, 4, 5, 6}" using pos_mod_bound [of 7 n] pos_mod_sign [of 7 n] by auto
  moreover have "(n + 1) mod 7 = (n mod 7 + 1) mod 7" by (simp add: mod_simps)
  ultimately show ?thesis by (auto simp: weekday_7_def Weekday_def)
qed

definition week_monday :: "int \<Rightarrow> int" where
  "week_monday n = n - n mod 7"

lemma monday_mod: "week_monday n mod 7 = 0"
  by (simp add: week_monday_def)

lemma go_Date_civil: "case civil_of n of (y, m, d) \<Rightarrow> go_Date utc y m d tod = n * day_ns + tod"
proof -
  obtain y m d where civil: "civil_of n = (y, m, d)" "valid_date y m d" "days_of y m d = n" by (rule civil_cases)
  then show ?thesis by (simp add: go_Date_in_year valid_date_def)
qed

lemma date_utc: "(case date_of z t of (y, m, d) \<Rightarrow> go_Date utc y m d tod) = wall_of z t div day_ns * day_ns + tod"
  using go_Date_civil [of tod "wall_of z t div day_ns"] by (simp add: date_of_def split: prod.splits)

text \<open>The wall clock of the same time of the week's Monday exists in the zone.\<close>

definition monday_shown :: "zone \<Rightarrow> int \<Rightarrow> bool" where
  "monday_shown z t \<longleftrightarrow> shown z (wall_of z t - wall_of z t div day_ns mod 7 * day_ns)"

lemma GetWeekStart_monday:
  assumes "monday_shown z t"
  shows "GetWeekStart z t = week_monday (wall_of z t div day_ns) * day_ns"
proof -
  let ?w = "wall_of z t" and ?n = "wall_of z t div day_ns"
  have "AddDate z t 0 0 (- (weekday_7 ?n - 1)) = instant_of z (?w - ?n mod 7 * day_ns)"
    by (simp add: AddDate_days weekday_7_mod)
  moreover have "wall_of z (instant_of z (?w - ?n mod 7 * day_ns)) = ?w - ?n mod 7 * day_ns"
    using assms by (simp add: monday_shown_def shown_def)
  moreover have "(?w - ?n mod 7 * day_ns) div day_ns = week_monday ?n"
    using div_mult_self1 [of day_ns ?w "- (?n mod 7)"] by (simp add: week_monday_def)
  ultimately show ?thesis by (simp add: GetWeekStart_def Let_def date_utc)
qed

lemma GetWeekEnd_sunday:
  assumes "monday_shown z t"
  shows "GetWeekEnd z t = (week_monday (wall_of z t div day_ns) + 7) * day_ns - 1"
proof -
  have "(week_monday (wall_of z t div day_ns) * day_ns + 6 * day_ns) div day_ns = week_monday (wall_of z t div day_ns) + 6"
    by (simp add: distrib_right [symmetric])
  then show ?thesis
    by (simp add: GetWeekEnd_def Let_def AddDate_days date_utc GetWeekStart_monday [OF assms] algebra_simps)
qed

lemma thursday_number:
  assumes "year_of a = year_of b" and "(a - days_before_year (year_of a)) div 7 = (b - days_before_year (year_of b)) div 7"
    and "a mod 7 = b mod 7"
  shows "a = b"
proof -
  let ?y = "days_before_year (year_of a)"
  have "(a - ?y) mod 7 = (b - ?y) mod 7" using assms(3) by (metis mod_diff_left_eq)
  then have "a - ?y = b - ?y" using assms(1,2) by (metis div_mult_mod_eq)
  then show ?thesis by simp
qed

text \<open>The two ways the code has to tell weeks apart agree: two times are in the same ISO week exactly when their
  weeks start on the same Monday, whatever their zones. The week of a time is the seven days from midnight of that
  Monday to the last nanosecond of Sunday, as the calendar of the time's own zone shows it, and the time's wall clock
  lies in it. (The Monday's wall clock must exist, which only fails where a zone skips it.)\<close>

theorem weeks_agree:
  assumes "monday_shown z1 t1" and "monday_shown z2 t2"
  shows "(IsSameWeek z1 t1 z2 t2 \<longleftrightarrow> GetWeekRange z1 t1 = GetWeekRange z2 t2)
    \<and> fst (GetWeekRange z1 t1) \<le> wall_of z1 t1 \<and> wall_of z1 t1 \<le> snd (GetWeekRange z1 t1)
    \<and> Weekday (fst (GetWeekRange z1 t1) div day_ns) = 1
    \<and> snd (GetWeekRange z1 t1) = fst (GetWeekRange z1 t1) + 7 * day_ns - 1"
proof -
  let ?n = "\<lambda>z t. wall_of z t div day_ns"
  have range: "GetWeekRange z t = (week_monday (?n z t) * day_ns, (week_monday (?n z t) + 7) * day_ns - 1)" if "monday_shown z t" for z t
    using that by (simp add: GetWeekRange_def GetWeekStart_monday GetWeekEnd_sunday)
  have thursday: "n + (4 - weekday_7 n) = week_monday n + 3" for n by (simp add: weekday_7_mod week_monday_def)
  have "week_monday (?n z1 t1) = week_monday (?n z2 t2)" if "IsSameWeek z1 t1 z2 t2"
  proof -
    let ?a = "week_monday (?n z1 t1) + 3" and ?b = "week_monday (?n z2 t2) + 3"
    have number: "year_of ?a = year_of ?b \<and> (?a - days_before_year (year_of ?a)) div 7 = (?b - days_before_year (year_of ?b)) div 7"
      using that unfolding IsSameWeek_def ISOWeek_def Let_def thursday fst_conv snd_conv by (elim conjE) (intro conjI, assumption, linarith)
    have "(week_monday n + 3) mod 7 = 3" for n using mod_add_left_eq [of "week_monday n" 7 3] monday_mod [of n] by simp
    then have "?a = ?b" using thursday_number [OF conjunct1 [OF number] conjunct2 [OF number]] by simp
    then show ?thesis by simp
  qed
  moreover have "IsSameWeek z1 t1 z2 t2" if "week_monday (?n z1 t1) = week_monday (?n z2 t2)"
    using that by (simp add: IsSameWeek_def ISOWeek_def Let_def thursday)
  ultimately have same: "IsSameWeek z1 t1 z2 t2 \<longleftrightarrow> GetWeekRange z1 t1 = GetWeekRange z2 t2"
    unfolding range [OF assms(1)] range [OF assms(2)] by (auto simp: day_ns_def)
  have "week_monday (?n z1 t1) \<le> ?n z1 t1" "?n z1 t1 \<le> week_monday (?n z1 t1) + 6"
    using pos_mod_bound [of 7 "?n z1 t1"] by (auto simp: week_monday_def)
  then have "day_ns * week_monday (?n z1 t1) \<le> day_ns * ?n z1 t1" "day_ns * ?n z1 t1 \<le> day_ns * (week_monday (?n z1 t1) + 6)"
    using day_ns_pos(1) by simp_all
  then have "day_ns * week_monday (?n z1 t1) \<le> wall_of z1 t1" "wall_of z1 t1 < day_ns * (week_monday (?n z1 t1) + 6) + day_ns"
    using div_bounds [of day_ns "wall_of z1 t1"] day_ns_pos(1) by linarith+
  then have inside: "week_monday (?n z1 t1) * day_ns \<le> wall_of z1 t1" "wall_of z1 t1 \<le> (week_monday (?n z1 t1) + 7) * day_ns - 1"
    by (simp_all add: algebra_simps)
  have "Weekday (week_monday n) = 1" for n
    using mod_add_left_eq [of "week_monday n" 7 1] monday_mod [of n] by (simp add: Weekday_def)
  then show ?thesis using same inside range [OF assms(1)] by (simp add: algebra_simps)
qed

lemma weeks_agree_witness:
  "let t1 = days_of 2024 12 30 * day_ns; t2 = days_of 2025 1 5 * day_ns + 5; z = (\<lambda>_. - 18000000000000) in
     (IsSameWeek utc t1 utc t2 \<longleftrightarrow> GetWeekRange utc t1 = GetWeekRange utc t2)
     \<and> (IsSameWeek z t1 utc t1 \<longleftrightarrow> GetWeekRange z t1 = GetWeekRange utc t1)"
proof -
  have "monday_shown utc t" for t by (simp add: monday_shown_def)
  moreover have "monday_shown (\<lambda>_. - 18000000000000) t" for t unfolding monday_shown_def by (rule shown_fixed) simp
  ultimately show ?thesis unfolding Let_def using weeks_agree by blast
qed

text \<open>The days on both sides of a new year are of one week, and the same instant can be of two.\<close>

lemma week_examples:
  "IsSameWeek utc (days_of 2024 12 30 * day_ns) utc (days_of 2025 1 5 * day_ns)"
  "ISOWeek utc (days_of 2024 12 30 * day_ns) = (2025, 1)"
  "\<not> IsSameWeek (\<lambda>_. - 18000000000000) (days_of 2024 12 30 * day_ns) utc (days_of 2024 12 30 * day_ns)"
  by code_simp+

subsection \<open>Texts of dates\<close>

lemma digit_char_0: "digit_char 0 = CHR ''0''"
  by code_simp

lemma dig_val_digit_char: "n < 10 \<Longrightarrow> dig_val (digit_char n) = int n"
proof -
  assume "n < 10"
  then have "(of_char (digit_char n) :: nat) = 48 + n" by (simp add: digit_char_def)
  then have "(of_char (digit_char n) :: int) = 48 + int n" using of_nat_of_char [of "digit_char n", where ?'a = int] by simp
  then show ?thesis by (simp add: dig_val_def)
qed

text \<open>The last \<open>w\<close> digits.\<close>

fun last_digits :: "nat \<Rightarrow> nat \<Rightarrow> string" where
  "last_digits 0 n = []"
| "last_digits (Suc w) n = last_digits w (n div 10) @ [digit_char (n mod 10)]"

lemma last_digits_0: "last_digits w 0 = replicate w CHR ''0''"
  by (induction w) (simp_all add: digit_char_0 replicate_append_same)

lemma pad_last_digits: "0 < w \<Longrightarrow> n < 10 ^ w \<Longrightarrow> pad w n = last_digits w n"
proof (induction w n rule: last_digits.induct)
  case (2 w n)
  show ?case
  proof (cases "n < 10")
    case True
    then show ?thesis by (simp add: pad_def itoa.simps [of n] last_digits_0)
  next
    case False
    then have "0 < w" using 2 by (cases w) auto
    moreover have "n div 10 < 10 ^ w" using "2.prems" by (simp add: less_mult_imp_div_less mult.commute)
    ultimately have "pad w (n div 10) = last_digits w (n div 10)" using 2 by simp
    then show ?thesis using False by (simp add: pad_def Let_def itoa.simps [of n])
  qed
qed simp

lemma last_digits_length [simp]: "length (last_digits w n) = w"
  by (induction w n rule: last_digits.induct) simp_all

lemma last_digits_dig: "list_all dig (last_digits w n)"
  by (induction w n rule: last_digits.induct) (simp_all add: dig_digit_char)

lemma last_digits_value:
  "foldl (\<lambda>acc c. 10 * acc + dig_val c) a (last_digits w n) = a * 10 ^ w + int (n mod 10 ^ w)"
proof (induction w n rule: last_digits.induct)
  case (2 w n)
  have "n mod 10 ^ Suc w = 10 * (n div 10 mod 10 ^ w) + n mod 10" by (simp add: mod_mult2_eq)
  then have "int (n mod 10 ^ Suc w) = 10 * int (n div 10 mod 10 ^ w) + int (n mod 10)" by (simp only: of_nat_add of_nat_mult of_nat_numeral)
  then show ?case using 2 by (simp add: dig_val_digit_char del: power_Suc) (simp add: algebra_simps)
qed simp

lemma read_year_pad: "n < 10000 \<Longrightarrow> read_year (pad 4 n @ rest) = Some (int n, rest)"
  using last_digits_value [of 0 4 n] last_digits_dig [of 4 n] by (simp add: read_year_def pad_last_digits)

lemma getnum_pad: "n < 100 \<Longrightarrow> getnum (pad 2 n @ rest) fixed = Some (int n, rest)"
proof -
  assume n: "n < 100"
  obtain c d where cd: "last_digits 2 n = [c, d]" by (simp add: numeral_2_eq_2)
  moreover have "dig c" "dig d" using last_digits_dig [of 2 n] cd by simp_all
  moreover have "10 * dig_val c + dig_val d = int n" using last_digits_value [of 0 2 n] cd n by simp
  ultimately show ?thesis using n by (simp add: pad_last_digits getnum_def)
qed

lemma read_iso_prefix:
  assumes "0 \<le> y" "y < 10000" "1 \<le> m" "m \<le> 12" "0 \<le> d" "d < 100"
  shows "read_layout (iso_layout @ ls) p (pad 4 (nat y) @ ''-'' @ pad 2 (nat m) @ ''-'' @ pad 2 (nat d) @ rest)
    = read_layout ls (p\<lparr>pd_year := y, pd_month := m, pd_day := d\<rparr>) rest"
  using assms by (simp add: iso_layout_def read_element_def read_year_pad getnum_pad ranged_def)

lemma read_european:
  assumes "0 \<le> y" "y < 10000" "1 \<le> m" "m \<le> 12" "0 \<le> d" "d < 100"
  shows "read_layout european_layout p (pad 2 (nat d) @ ''-'' @ pad 2 (nat m) @ ''-'' @ pad 4 (nat y))
    = Some (p\<lparr>pd_day := d, pd_month := m, pd_year := y\<rparr>)"
  using assms read_year_pad [of "nat y" "[]"] by (simp add: european_layout_def read_element_def getnum_pad ranged_def)

lemma european_not_iso:
  assumes "0 \<le> d" "d < 100"
  shows "read_year (pad 2 (nat d) @ ''-'' @ rest) = None"
proof -
  have "\<not> dig CHR ''-''" by code_simp
  moreover obtain a b where "pad 2 (nat d) = [a, b]"
    using assms pad_last_digits [of 2 "nat d"] by (simp add: numeral_2_eq_2)
  ultimately show ?thesis by (simp add: read_year_def eval_nat_numeral)
qed

lemma AsDateInUTC_day: "AsDateInUTC t = utc_time (gt_wall t div day_ns * day_ns)"
  using go_Date_civil [of 0 "gt_wall t div day_ns"] by (simp add: AsDateInUTC_def gt_date_def split: prod.splits)

definition no_zone :: "parsed \<Rightarrow> bool" where
  "no_zone p \<longleftrightarrow> pd_zone p = None \<and> pd_hour p = 0 \<and> pd_min p = 0 \<and> pd_sec p = 0 \<and> pd_nsec p = 0 \<and> \<not> pd_pm p \<and> \<not> pd_am p"

lemma parse_time_date:
  assumes "read_layout l nothing_parsed s = Some p" and "no_zone p" and "valid_date (pd_year p) (pd_month p) (pd_day p)"
  shows "parse_time l s = Some (utc_time (days_of (pd_year p) (pd_month p) (pd_day p) * day_ns))"
  using assms by (simp add: parse_time_def no_zone_def clock_ns_def)

lemma read_zone_no_fraction:
  assumes "read_zone s = Some r"
  shows "skip_fraction s = (0, s)"
proof (cases s)
  case (Cons c t)
  then have "c = CHR ''Z'' \<or> c = CHR ''+'' \<or> c = CHR ''-''"
    using assms by (auto simp: read_zone_def split: if_splits option.splits prod.splits)
  then show ?thesis using Cons by (auto simp: skip_fraction_def split: list.split)
qed (use assms in \<open>simp add: read_zone_def\<close>)

text \<open>A date survives its text. For every date of the years 0 to 9999 \<open>ParseDateString\<close> reads both the text
  with the year first and the European one, as midnight UTC of that date, and never takes one for the
  other; and it reads an RFC 3339 time with any offset as the date the text shows, not the date it is in UTC.\<close>

theorem date_texts_roundtrip:
  assumes "valid_date y m d" and "0 \<le> y" and "y < 10000" and "0 \<le> h" "h < 24" "0 \<le> mi" "mi < 60" "0 \<le> sec" "sec < 60"
    and "read_zone zone = Some (z, [])"
    and "date = pad 4 (nat y) @ ''-'' @ pad 2 (nat m) @ ''-'' @ pad 2 (nat d)"
  shows "ParseDateString date = Inr (utc_time (days_of y m d * day_ns))
    \<and> ParseDateString (pad 2 (nat d) @ ''-'' @ pad 2 (nat m) @ ''-'' @ pad 4 (nat y)) = Inr (utc_time (days_of y m d * day_ns))
    \<and> ParseDateString (date @ ''T'' @ pad 2 (nat h) @ '':'' @ pad 2 (nat mi) @ '':'' @ pad 2 (nat sec) @ zone)
        = Inr (utc_time (days_of y m d * day_ns))"
proof -
  have md: "1 \<le> m" "m \<le> 12" "0 \<le> d" "d < 100"
    using assms(1) month_len_pos(2) [of y m] by (auto simp: valid_date_def)
  have zone: "read_zone zone = Some (z, [])" "skip_fraction zone = (0, zone)"
    using assms(10) read_zone_no_fraction by auto
  note iso = read_iso_prefix [OF assms(2,3) md]
  have midnight: "AsDateInUTC (utc_time (days_of y m d * day_ns)) = utc_time (days_of y m d * day_ns)"
    by (simp add: AsDateInUTC_day utc_time_def gt_wall_def)
  have rfc_iso: "parse_time rfc3339_layout date = None"
    using iso [of _ nothing_parsed "[]"] by (simp add: parse_time_def rfc3339_layout_def assms(11) read_element_def)
  have "parse_time iso_layout date = Some (utc_time (days_of y m d * day_ns))"
    using iso [of "[]" nothing_parsed "[]"] parse_time_date [of iso_layout date] assms(1)
    by (simp add: assms(11) no_zone_def nothing_parsed_def)
  then have first: "ParseDateString date = Inr (utc_time (days_of y m d * day_ns))"
    using rfc_iso midnight by (simp add: ParseDateString_def)
  let ?eu = "pad 2 (nat d) @ ''-'' @ pad 2 (nat m) @ ''-'' @ pad 4 (nat y)"
  have "parse_time rfc3339_layout ?eu = None" "parse_time iso_layout ?eu = None"
    using european_not_iso [OF md(3,4)] by (simp_all add: parse_time_def rfc3339_layout_def iso_layout_def read_element_def)
  moreover have "parse_time european_layout ?eu = Some (utc_time (days_of y m d * day_ns))"
    using read_european [OF assms(2,3) md, of nothing_parsed] parse_time_date [of european_layout ?eu] assms(1)
    by (simp add: no_zone_def nothing_parsed_def)
  ultimately have second: "ParseDateString ?eu = Inr (utc_time (days_of y m d * day_ns))"
    using midnight by (simp add: ParseDateString_def)
  let ?rfc = "date @ ''T'' @ pad 2 (nat h) @ '':'' @ pad 2 (nat mi) @ '':'' @ pad 2 (nat sec) @ zone"
  have "read_layout rfc3339_layout nothing_parsed ?rfc
      = Some (nothing_parsed\<lparr>pd_year := y, pd_month := m, pd_day := d, pd_hour := h, pd_min := mi, pd_sec := sec, pd_zone := Some z\<rparr>)"
    using assms(4-9) zone iso [of "[Lit CHR ''T'', Hour24, Lit CHR '':'', Minute2, Lit CHR '':'', Second2, Zone07]" nothing_parsed]
    by (simp add: rfc3339_layout_def assms(11) read_element_def getnum_pad ranged_def nothing_parsed_def)
  then have "parse_time rfc3339_layout ?rfc = Some \<lparr>gt_instant = days_of y m d * day_ns + clock_ns h mi sec 0 - z * 1000000000,
      gt_offset = z * 1000000000\<rparr>"
    using assms(1) by (simp add: parse_time_def nothing_parsed_def)
  moreover have "(days_of y m d * day_ns + clock_ns h mi sec 0) div day_ns = days_of y m d"
    using assms(4-9) by (simp add: clock_ns_def day_ns_def)
  ultimately have "ParseDateString ?rfc = Inr (utc_time (days_of y m d * day_ns))"
    by (simp add: ParseDateString_def AsDateInUTC_day gt_wall_def)
  with first second show ?thesis by simp
qed

lemma date_texts_roundtrip_witness:
  "ParseDateString ''2025-12-12'' = Inr (utc_time (days_of 2025 12 12 * day_ns))
   \<and> ParseDateString ''12-12-2025'' = Inr (utc_time (days_of 2025 12 12 * day_ns))
   \<and> ParseDateString ''2025-12-12T23:30:00-05:00'' = Inr (utc_time (days_of 2025 12 12 * day_ns))"
proof -
  have v: "valid_date 2025 12 12" by (simp add: valid_date_def month_len_def)
  have zone: "read_zone ''-05:00'' = Some (- 18000, [])" by code_simp
  have texts: "pad 2 (nat 23) = ''23''" "pad 2 (nat 30) = ''30''" "pad 2 (nat 0) = ''00''" "pad 2 (nat 12) = ''12''" "pad 4 (nat 2025) = ''2025''"
    by code_simp+
  have date: "''2025-12-12'' = pad 4 (nat 2025) @ ''-'' @ pad 2 (nat 12) @ ''-'' @ pad 2 (nat 12)"
    unfolding texts by (simp only: append_Cons append_Nil)
  have bounds: "0 \<le> (2025 :: int)" "(2025 :: int) < 10000" "0 \<le> (23 :: int)" "(23 :: int) < 24" "0 \<le> (30 :: int)" "(30 :: int) < 60"
    "0 \<le> (0 :: int)" "(0 :: int) < 60" by simp_all
  from date_texts_roundtrip [OF v bounds zone date] show ?thesis unfolding texts by (simp only: append_Cons append_Nil)
qed

subsection \<open>Page numbers\<close>

record page_counts =
  pc_Page :: int
  pc_Limit :: int
  pc_Total :: int
  pc_TotalPages :: int

text \<open>The rows of a page: all arithmetic is in 32 bits, and the database takes an offset that is not positive as none.\<close>

definition clamp_limit :: "int \<Rightarrow> int" where
  "clamp_limit limit = (if limit > 100 then 100 else if limit \<le> 0 then 10 else limit)"

definition PaginateScope :: "int \<Rightarrow> int \<Rightarrow> 'r list \<Rightarrow> 'r list" where
  "PaginateScope page limit rows =
     (let page' = (if page \<le> 0 then 1 else page); limit' = clamp_limit limit; offset = to_int32 ((page' - 1) * limit') in
      take (nat limit') (if 0 < offset then drop (nat offset) rows else rows))"

text \<open>\<open>rnd\<close> rounds to a double.\<close>

definition CalculatePagination :: "(real \<Rightarrow> real) \<Rightarrow> int \<Rightarrow> int \<Rightarrow> int \<Rightarrow> page_counts" where
  "CalculatePagination rnd count page limit =
     (let limit' = (if limit \<le> 0 then 10 else limit); page' = (if page \<le> 0 then 1 else page) in
      \<lparr>pc_Page = page', pc_Limit = limit', pc_Total = count,
       pc_TotalPages = to_int32 \<lceil>rnd (rnd (of_int count) / rnd (of_int limit'))\<rceil>\<rparr>)"

text \<open>What IEEE 754 says of rounding to a double, away from overflow: small integers are exact, the order is kept, and
  the relative error is at most \<open>2 ^ -53\<close>.\<close>

definition double_rounding :: "(real \<Rightarrow> real) \<Rightarrow> bool" where
  "double_rounding rnd \<longleftrightarrow> (\<forall>k :: int. \<bar>k\<bar> \<le> 2 ^ 53 \<longrightarrow> rnd (of_int k) = of_int k) \<and> mono rnd
     \<and> (\<forall>x. \<bar>rnd x - x\<bar> \<le> \<bar>x\<bar> / 2 ^ 53)"

lemma double_rounding_id: "double_rounding (\<lambda>x. x)"
  by (simp add: double_rounding_def mono_def)

lemma ceiling_rounded:
  assumes "double_rounding rnd" and "0 \<le> a" "a < 2 ^ 53" and "0 < b" "b < 2 ^ 53"
  shows "\<lceil>rnd (rnd (of_int a) / rnd (of_int b))\<rceil> = \<lceil>of_int a / of_int b :: real\<rceil>"
proof -
  let ?x = "of_int a / of_int b :: real" and ?q = "\<lceil>of_int a / of_int b :: real\<rceil>"
  have exact: "rnd (of_int a) = of_int a" "rnd (of_int b) = of_int b" using assms by (simp_all add: double_rounding_def)
  have x: "0 \<le> ?x" "?x \<le> of_int a" using assms(2,4) by (simp_all add: divide_le_eq mult_le_cancel_left1)
  then have q: "0 \<le> ?q" "?q \<le> a" by (simp_all add: ceiling_le_iff)
  have "rnd ?x \<le> rnd (of_int ?q)" using assms(1) by (simp add: double_rounding_def mono_def)
  also have "\<bar>?q\<bar> \<le> 2 ^ 53" using assms(3) q by linarith
  then have "rnd (of_int ?q) = of_int ?q" using assms(1) unfolding double_rounding_def by blast
  finally have upper: "rnd ?x \<le> of_int ?q" .
  have "(?q - 1) * b < a"
  proof -
    have "of_int (?q - 1) < ?x" by linarith
    then have "of_int ((?q - 1) * b) < (of_int a :: real)" using assms(4) by (simp add: less_divide_eq)
    then show ?thesis by (simp only: of_int_less_iff)
  qed
  then have "of_int ((?q - 1) * b + 1) \<le> (of_int a :: real)" by (simp only: of_int_le_iff)
  then have "of_int ((?q - 1) * b + 1) / of_int b \<le> ?x" using assms(4) by (intro divide_right_mono) simp_all
  moreover have "of_int ((?q - 1) * b + 1) / of_int b = of_int (?q - 1) + 1 / (of_int b :: real)"
    using assms(4) by (simp add: add_divide_distrib)
  moreover have "?x / 2 ^ 53 < 1 / of_int b"
    using assms(3,4) by (simp add: field_simps)
  moreover have "\<bar>rnd ?x - ?x\<bar> \<le> \<bar>?x\<bar> / 2 ^ 53" using assms(1) unfolding double_rounding_def by blast
  ultimately have "of_int (?q - 1) < rnd ?x" using x by linarith
  then show ?thesis unfolding exact using upper by (intro ceiling_unique) simp_all
qed

lemma concat_windows: "concat (map (\<lambda>k. take n (drop (k * n) xs)) [0..<m]) = take (m * n) xs"
proof (induction m)
  case (Suc m)
  have "take (Suc m * n) xs = take (m * n) xs @ take n (drop (m * n) xs)"
    unfolding mult_Suc add.commute [of n] by (rule take_add)
  then show ?case using Suc by simp
qed simp

text \<open>The pages that \<open>PaginateScope\<close> serves, up to the number \<open>CalculatePagination\<close> announces, are the
  first rows of the result in order, each once: all of them when the page size asked for is at most 100. A larger page
  size is cut to 100 for the rows and not for the number of pages, so then only the first 100 rows per announced page are on any page.\<close>

theorem announced_pages:
  assumes "double_rounding rnd" and "0 < limit" "limit < 2 ^ 31" and "int (length rows) < 2 ^ 31"
    and "pages = nat (pc_TotalPages (CalculatePagination rnd (int (length rows)) 1 limit))"
  shows "concat (map (\<lambda>k. PaginateScope (int k + 1) limit rows) [0..<pages]) = take (pages * nat (min limit 100)) rows
    \<and> pages = nat \<lceil>of_nat (length rows) / of_int limit :: real\<rceil>
    \<and> (limit \<le> 100 \<longrightarrow> concat (map (\<lambda>k. PaginateScope (int k + 1) limit rows) [0..<pages]) = rows)"
proof -
  let ?n = "int (length rows)" and ?q = "\<lceil>of_nat (length rows) / of_int limit :: real\<rceil>"
  have x: "0 \<le> (of_nat (length rows) / of_int limit :: real)" using assms(2) by simp
  have q_le: "?q \<le> ?n"
    using assms(2) by (simp add: ceiling_le_iff divide_le_eq mult_le_cancel_left1)
  have q: "0 \<le> ?q" "?q < 2 ^ 31" using x q_le assms(4) by linarith+
  have "\<lceil>rnd (rnd (of_int ?n) / rnd (of_int limit))\<rceil> = ?q"
    using ceiling_rounded [OF assms(1), of ?n limit] assms(2-4) by simp
  then have pages: "pages = nat ?q" using assms(2,5) q by (simp add: CalculatePagination_def Let_def to_int32_id)
  have page: "PaginateScope (int k + 1) limit rows = take (nat (min limit 100)) (drop (k * nat (min limit 100)) rows)" if k: "k < pages" for k
  proof -
    have "of_int (?q - 1) < (of_nat (length rows) / of_int limit :: real)" by linarith
    then have "of_int ((?q - 1) * limit) < (of_int ?n :: real)" using assms(2) by (simp add: less_divide_eq)
    then have "(?q - 1) * limit < ?n" by (simp only: of_int_less_iff)
    moreover have kq: "int k \<le> ?q - 1" using k unfolding pages zless_nat_eq_int_zless by linarith
    then have "int k * min limit 100 \<le> (?q - 1) * limit" using assms(2) by (intro mult_mono) linarith+
    ultimately have small: "int k * min limit 100 < 2 ^ 31" "0 \<le> int k * min limit 100" using assms(2,4) by simp_all
    have clamp: "clamp_limit limit = min limit 100" using assms(2) by (simp add: clamp_limit_def)
    have "nat (int k * min limit 100) = k * nat (min limit 100)" using assms(2) by (simp add: nat_mult_distrib)
    then show ?thesis
      using small by (simp add: PaginateScope_def Let_def clamp to_int32_id)
  qed
  have all: "concat (map (\<lambda>k. PaginateScope (int k + 1) limit rows) [0..<pages]) = take (pages * nat (min limit 100)) rows"
    unfolding concat_windows [symmetric] using page by (intro arg_cong [where f = concat] map_cong) simp_all
  have "take (pages * nat limit) rows = rows"
  proof -
    have "0 < (of_int limit :: real)" using assms(2) by simp
    from iffD1 [OF pos_divide_le_eq [OF this] le_of_int_ceiling]
    have "of_int ?n \<le> (of_int (?q * limit) :: real)" by simp
    then have "?n \<le> ?q * limit" by (simp only: of_int_le_iff)
    also have "\<dots> = int (pages * nat limit)" using pages q assms(2) by simp
    finally have "length rows \<le> pages * nat limit" by (simp only: of_nat_le_iff)
    then show ?thesis by simp
  qed
  then show ?thesis using all pages by simp
qed

lemma announced_pages_witness:
  "let rows = [''a'', ''b'', ''c'', ''d'', ''e'']; pages = nat (pc_TotalPages (CalculatePagination (\<lambda>x. x) (int (length rows)) 1 2)) in
   concat (map (\<lambda>k. PaginateScope (int k + 1) 2 rows) [0..<pages]) = rows"
  using announced_pages [OF double_rounding_id, of 2 "[''a'', ''b'', ''c'', ''d'', ''e'']"] unfolding Let_def by fastforce

text \<open>Two hundred and fifty rows asked for in one page: one page is announced, and it holds a hundred.\<close>

lemma clamped_page_loses:
  "pc_TotalPages (CalculatePagination (\<lambda>x. x) 250 1 250) = 1" "length (PaginateScope 1 250 [0..<250]) = 100"
  by (simp_all add: CalculatePagination_def PaginateScope_def clamp_limit_def to_int32_def)

text \<open>The offset wraps around: a page far beyond the end is the first page again.\<close>

lemma page_wraps: "PaginateScope 21474838 100 rows = PaginateScope 1 100 rows"
  by (simp add: PaginateScope_def clamp_limit_def to_int32_def)

subsection \<open>Pointers\<close>

definition ValOrEmpty :: "string option \<Rightarrow> string" where
  "ValOrEmpty s = (case s of None \<Rightarrow> [] | Some v \<Rightarrow> v)"

definition Int32Ptr :: "int option \<Rightarrow> int option" where
  "Int32Ptr v = (case v of None \<Rightarrow> None | Some x \<Rightarrow> Some (to_int32 x))"

text \<open>\<open>zero\<close> is the zero value of the type.\<close>

definition Deref :: "'a \<Rightarrow> 'a option \<Rightarrow> 'a" where
  "Deref zero p = (case p of None \<Rightarrow> zero | Some v \<Rightarrow> v)"

definition DerefOr :: "'a option \<Rightarrow> 'a \<Rightarrow> 'a" where
  "DerefOr p d = (case p of None \<Rightarrow> d | Some v \<Rightarrow> v)"

definition ValOrZero :: "'a \<Rightarrow> 'a option \<Rightarrow> 'a" where
  "ValOrZero zero v = (case v of None \<Rightarrow> zero | Some x \<Rightarrow> x)"

subsection \<open>Keys\<close>

text \<open>The keys services are configured with. \<open>parse\<close> reads a PEM block, \<open>file\<close> a file, \<open>b64\<close> decodes standard base64.\<close>

definition LoadRSAPrivateKey :: "(string \<Rightarrow> string + 'k) \<Rightarrow> string \<Rightarrow> string + 'k" where
  "LoadRSAPrivateKey parse keyStr =
     (if keyStr = [] then Inl ''RSA_PRIVATE_KEY is empty or not set in environment''
      else map_sum (\<lambda>e. ''parse private key from env: '' @ e) id (parse keyStr))"

definition LoadRSAPrivateKeyFromPath :: "(string \<Rightarrow> string + string) \<Rightarrow> (string \<Rightarrow> string + 'k) \<Rightarrow> string \<Rightarrow> string + 'k" where
  "LoadRSAPrivateKeyFromPath file parse path =
     (case file path of
        Inl e \<Rightarrow> Inl (''read private key: '' @ e)
      | Inr bytes \<Rightarrow> map_sum (\<lambda>e. ''parse private key: '' @ e) id (parse bytes))"

definition LoadRSAPublicKey :: "(string \<Rightarrow> string + 'k) \<Rightarrow> string \<Rightarrow> string + 'k" where
  "LoadRSAPublicKey parse keyStr =
     (if keyStr = [] then Inl ''RSA_PUBLIC_KEY is empty or not set in environment''
      else map_sum (\<lambda>e. ''parse public key from env: '' @ e) id (parse keyStr))"

definition LoadRSAPublicKeyFromPath :: "(string \<Rightarrow> string + string) \<Rightarrow> (string \<Rightarrow> string + 'k) \<Rightarrow> string \<Rightarrow> string + 'k" where
  "LoadRSAPublicKeyFromPath file parse path =
     (case file path of
        Inl e \<Rightarrow> Inl (''read public key: '' @ e)
      | Inr bytes \<Rightarrow> map_sum (\<lambda>e. ''parse public key: '' @ e) id (parse bytes))"

datatype key_error = KeyMissing string | KeyEncoding string | KeyLength string nat nat

definition load_ed25519 :: "string \<Rightarrow> nat \<Rightarrow> (string \<Rightarrow> string + string) \<Rightarrow> string \<Rightarrow> key_error + string" where
  "load_ed25519 what bytes b64 base64Key =
     (if base64Key = [] then Inl (KeyMissing what)
      else (case b64 base64Key of
              Inl e \<Rightarrow> Inl (KeyEncoding e)
            | Inr decoded \<Rightarrow> if length decoded \<noteq> bytes then Inl (KeyLength what bytes (length decoded)) else Inr decoded))"

definition LoadEd25519PrivateKey :: "(string \<Rightarrow> string + string) \<Rightarrow> string \<Rightarrow> key_error + string" where
  "LoadEd25519PrivateKey = load_ed25519 ''private'' 64"

definition LoadEd25519PublicKey :: "(string \<Rightarrow> string + string) \<Rightarrow> string \<Rightarrow> key_error + string" where
  "LoadEd25519PublicKey = load_ed25519 ''public'' 32"

text \<open>A private key is never taken for a public one, nor the other way round.\<close>

lemma ed25519_kinds: "LoadEd25519PrivateKey b64 k = Inr a \<Longrightarrow> \<exists>e. LoadEd25519PublicKey b64 k = Inl e"
  by (auto simp: LoadEd25519PrivateKey_def LoadEd25519PublicKey_def load_ed25519_def split: if_splits sum.splits)

end
