(* ===== verification/Here.thy ===== *)
theory Here
  imports Go_Url Go_Float Polyline
begin

text \<open>
  The HERE client (\<open>src/client/here\<close>): the requests with their parameters and the record of every billed call
  (\<open>here.go\<close>, \<open>truck.go\<close>, \<open>caller.go\<close>), routes with one and with many stops (\<open>service.go\<close>), and turn-by-turn
  navigation (\<open>navigation.go\<close>).
\<close>

subsection \<open>Data\<close>

record coordinates =
  co_lat :: flt
  co_lng :: flt

record truck_attributes =
  ta_GrossWeightKg :: int
  ta_WeightPerAxleKg :: int
  ta_HeightCm :: int
  ta_WidthCm :: int
  ta_LengthCm :: int
  ta_AxleCount :: int
  ta_TrailerCount :: int
  ta_TunnelCategory :: string
  ta_ShippedHazardousGoods :: "string list"

record avoid_options =
  av_Features :: "string list"
  av_Countries :: "string list"

record route_request =
  rt_Origin :: coordinates
  rt_Destination :: coordinates
  rt_DepartureTime :: "go_time option"
  rt_TransportMode :: string
  rt_Currency :: string
  rt_ReturnOptions :: "string list"
  rt_Via :: "coordinates list"
  rt_TruckAttrs :: "truck_attributes option"
  rt_Avoid :: "avoid_options option"
  rt_Alternatives :: int
  rt_Lang :: string
  rt_Units :: string

record route_summary =
  sm_Duration :: int
  sm_Length :: int
  sm_BaseDuration :: int

record route_notice =
  no_Title :: string
  no_Code :: string
  no_Severity :: string

text \<open>A road is the list of its names.\<close>

record route_action =
  ra_Action :: string
  ra_Duration :: int
  ra_Length :: int
  ra_Instruction :: string
  ra_Offset :: int
  ra_Direction :: string
  ra_NextRoad :: "string list option"
  ra_CurrentRoad :: "string list option"

record route_section =
  se_Summary :: "route_summary option"
  se_Polyline :: string
  se_Actions :: "route_action list"
  se_Notices :: "route_notice list"

record route =
  ro_ID :: string
  ro_Sections :: "route_section list"

record address_info =
  ai_Label :: string
  ai_CountryCode :: string
  ai_CountryName :: string
  ai_State :: string
  ai_StateCode :: string
  ai_County :: string
  ai_City :: string
  ai_Street :: string
  ai_HouseNumber :: string
  ai_PostalCode :: string

record geocode_item =
  gi_Title :: string
  gi_ID :: string
  gi_Address :: "address_info option"
  gi_Position :: "(flt \<times> flt) option"

record geocode_request =
  gq_Query :: string
  gq_At :: "coordinates option"
  gq_In :: "string option"
  gq_Limit :: int
  gq_Language :: string

record here_client =
  hc_routerHost :: string
  hc_geocodeHost :: string
  hc_lookupHost :: string
  hc_apiKey :: string

definition or_default :: "string \<Rightarrow> string \<Rightarrow> string" where
  "or_default s d = (if s = [] then d else s)"

definition here_NewClient :: "string \<Rightarrow> string \<Rightarrow> string \<Rightarrow> string \<Rightarrow> string + here_client" where
  "here_NewClient routerHost geocodeHost lookupHost apiKey =
     (if apiKey = [] then Inl ''API key cannot be empty''
      else Inr \<lparr>hc_routerHost = or_default routerHost ''https://router.hereapi.com'',
                hc_geocodeHost = or_default geocodeHost ''https://geocode.search.hereapi.com'',
                hc_lookupHost = or_default lookupHost ''https://lookup.search.hereapi.com'', hc_apiKey = apiKey\<rparr>)"

definition here_NewClientWithToken :: "string \<Rightarrow> string + here_client" where
  "here_NewClientWithToken apiKey = here_NewClient [] [] [] apiKey"

subsection \<open>Errors and the record of calls\<close>

datatype here_err =
    HereAuth int string
  | HereErr string
  | HereWrap string here_err
  | NoTruckRoute "string option"
  | HereInvalidCredentials

fun here_Error :: "here_err \<Rightarrow> string" where
  "here_Error (HereAuth status body) = ''here auth failed (status '' @ show_int status @ ''): '' @ body"
| "here_Error (HereErr t) = t"
| "here_Error (HereWrap t e) = t @ '': '' @ here_Error e"
| "here_Error (NoTruckRoute cause) = ''here: no truck route found for given constraints''
     @ (case cause of None \<Rightarrow> [] | Some c \<Rightarrow> '': '' @ c)"
| "here_Error HereInvalidCredentials = ''here: invalid credentials''"

fun here_IsAuthError :: "here_err \<Rightarrow> bool" where
  "here_IsAuthError (HereAuth status body) = True"
| "here_IsAuthError (HereWrap t e) = here_IsAuthError e"
| "here_IsAuthError e = False"

definition callerChainDepth :: nat where "callerChainDepth = 5"
definition pkgPrefix :: string where "pkgPrefix = ''github.com/TMS360/backend-pkg/client/here.''"

text \<open>\<open>package.Function\<close> of a qualified name.\<close>

definition shortFuncName :: "string \<Rightarrow> string" where
  "shortFuncName fn =
     (let fn' = (case cut_last (CHR ''/'') fn of Some (_, f) \<Rightarrow> f | None \<Rightarrow> fn); parts = split_on (CHR ''.'') fn' in
      if length parts < 2 then fn' else hd parts @ ''.'' @ trim_suffix ''-fm'' (last parts))"

definition chainFrom :: "string list \<Rightarrow> string" where
  "chainFrom fnNames =
     (let names = take callerChainDepth (map shortFuncName (filter (\<lambda>fn. \<not> is_prefix pkgPrefix fn) fnNames)) in
      if names = [] then ''unknown'' else join_with ''<-'' names)"

text \<open>What surrounds a call: the caller's tag in the context, the frames of the stack, whether the context is done,
  the time, and the printing of a coordinate (\<open>%f\<close>).\<close>

record here_env =
  he_tag :: string
  he_stack :: "string list"
  he_done :: bool
  he_now :: go_time
  he_fmt :: "flt \<Rightarrow> string"

definition resolveCaller :: "here_env \<Rightarrow> string" where
  "resolveCaller E = (if he_tag E \<noteq> [] then he_tag E else chainFrom (he_stack E))"

definition WithCaller :: "here_env \<Rightarrow> string \<Rightarrow> here_env" where
  "WithCaller E tag = E\<lparr>he_tag := tag\<rparr>"

definition outcomeOf :: "here_env \<Rightarrow> int \<Rightarrow> here_err option \<Rightarrow> string" where
  "outcomeOf E status err =
     (case err of
        None \<Rightarrow> ''ok''
      | Some e \<Rightarrow>
          if he_done E then ''ctx_canceled''
          else if here_IsAuthError e then ''auth''
          else if status \<ge> 500 then ''http_5xx''
          else if status \<ge> 400 then ''http_4xx''
          else if status > 0 then ''http_other''
          else ''transport'')"

text \<open>A line of the log; the request's URL, which carries the key, has no place in it.\<close>

record here_call =
  hl_op :: string
  hl_caller :: string
  hl_outcome :: string
  hl_status :: int

type_synonym 's here_state = "'s \<times> here_call list"

definition logCall :: "here_env \<Rightarrow> string \<Rightarrow> int \<Rightarrow> here_err option \<Rightarrow> 's here_state \<Rightarrow> 's here_state" where
  "logCall E op status err sl =
     (fst sl, snd sl @ [\<lparr>hl_op = op, hl_caller = resolveCaller E, hl_outcome = outcomeOf E status err, hl_status = status\<rparr>])"

subsection \<open>Requests\<close>

definition here_request :: "string \<Rightarrow> http_request" where
  "here_request fullURL = \<lparr>rq_method = ''GET'', rq_url = fullURL, rq_headers = [(''Accept'', ''application/json'')], rq_body = None\<rparr>"

definition here_doRequest :: "'s http_server \<Rightarrow> here_env \<Rightarrow> string \<Rightarrow> string \<Rightarrow> 's here_state \<Rightarrow> (here_err + string) \<times> 's here_state" where
  "here_doRequest srv E op fullURL sl =
     (case srv (here_request fullURL) (fst sl) of
        (BadUrl e, s') \<Rightarrow> (Inl (HereErr (''failed to create request: '' @ e)), (s', snd sl))
      | (NoAnswer e, s') \<Rightarrow>
          (Inl (HereErr (''failed to execute request: '' @ e)), logCall E op 0 (Some (HereErr e)) (s', snd sl))
      | (Answer r, s') \<Rightarrow>
          if rs_status r = 401 \<or> rs_status r = 403
          then (Inl (HereAuth (rs_status r) (rs_body r)),
                logCall E op (rs_status r) (Some (HereAuth (rs_status r) (rs_body r))) (s', snd sl))
          else if rs_status r < 200 \<or> rs_status r \<ge> 300
          then (let err = HereErr (''received non-2xx status code: '' @ show_int (rs_status r) @ '', body: '' @ rs_body r) in
                (Inl err, logCall E op (rs_status r) (Some err) (s', snd sl)))
          else (Inr (rs_body r), logCall E op (rs_status r) None (s', snd sl)))"

definition here_json :: "'s http_server \<Rightarrow> here_env \<Rightarrow> string \<Rightarrow> string \<Rightarrow> string \<Rightarrow> (string \<Rightarrow> string + 'a) \<Rightarrow> string \<Rightarrow> 's here_state
    \<Rightarrow> (here_err + 'a) \<times> 's here_state" where
  "here_json srv E op failed what dec fullURL sl =
     (case here_doRequest srv E op fullURL sl of
        (Inl e, sl') \<Rightarrow> (Inl (HereWrap failed e), sl')
      | (Inr body, sl') \<Rightarrow> (case dec body of Inl e \<Rightarrow> Inl (HereErr (what @ '': '' @ e)) | Inr v \<Rightarrow> Inr v, sl'))"

text \<open>Parameters are lists of pairs; each key is set once, \<open>via\<close> as often as there are points.\<close>

definition unless_empty :: "string \<Rightarrow> string \<Rightarrow> (string \<times> string) list" where
  "unless_empty key v = (if v \<noteq> [] then [(key, v)] else [])"

definition if_positive :: "string \<Rightarrow> int \<Rightarrow> (string \<times> string) list" where
  "if_positive key v = (if v > 0 then [(key, show_int v)] else [])"

definition unless_none :: "string \<Rightarrow> string list \<Rightarrow> (string \<times> string) list" where
  "unless_none key vs = (if vs \<noteq> [] then [(key, join_with '','' vs)] else [])"

definition truck_applyTo :: "truck_attributes option \<Rightarrow> (string \<times> string) list" where
  "truck_applyTo t =
     (case t of
        None \<Rightarrow> []
      | Some t \<Rightarrow>
          if_positive ''truck[grossWeight]'' (ta_GrossWeightKg t) @ if_positive ''truck[weightPerAxle]'' (ta_WeightPerAxleKg t)
          @ if_positive ''truck[height]'' (ta_HeightCm t) @ if_positive ''truck[width]'' (ta_WidthCm t)
          @ if_positive ''truck[length]'' (ta_LengthCm t) @ if_positive ''truck[axleCount]'' (ta_AxleCount t)
          @ if_positive ''truck[trailerCount]'' (ta_TrailerCount t)
          @ unless_empty ''vehicle[tunnelCategory]'' (ta_TunnelCategory t)
          @ unless_none ''vehicle[shippedHazardousGoods]'' (ta_ShippedHazardousGoods t))"

definition avoid_applyTo :: "avoid_options option \<Rightarrow> (string \<times> string) list" where
  "avoid_applyTo a =
     (case a of
        None \<Rightarrow> []
      | Some a \<Rightarrow> unless_none ''avoid[features]'' (av_Features a) @ unless_none ''exclude[countries]'' (av_Countries a))"

definition point :: "here_env \<Rightarrow> coordinates \<Rightarrow> string" where
  "point E c = he_fmt E (co_lat c) @ '','' @ he_fmt E (co_lng c)"

definition route_params :: "here_env \<Rightarrow> here_client \<Rightarrow> route_request \<Rightarrow> (string \<times> string) list" where
  "route_params E c req =
     [(''origin'', point E (rt_Origin req)), (''destination'', point E (rt_Destination req)), (''apiKey'', hc_apiKey c),
      (''transportMode'', or_default (rt_TransportMode req) ''truck''),
      (''return'', if rt_ReturnOptions req \<noteq> [] then join_with '','' (rt_ReturnOptions req) else ''summary'')]
     @ unless_empty ''currency'' (rt_Currency req)
     @ (case rt_DepartureTime req of None \<Rightarrow> [] | Some t \<Rightarrow> [(''departureTime'', fmt_RFC3339 t)])
     @ map (\<lambda>v. (''via'', point E v)) (rt_Via req)
     @ truck_applyTo (rt_TruckAttrs req) @ avoid_applyTo (rt_Avoid req)
     @ if_positive ''alternatives'' (rt_Alternatives req)
     @ unless_empty ''lang'' (rt_Lang req) @ unless_empty ''units'' (rt_Units req)"

definition GetRoute :: "'s http_server \<Rightarrow> here_env \<Rightarrow> (string \<Rightarrow> string + route list) \<Rightarrow> here_client \<Rightarrow> route_request \<Rightarrow> 's here_state
    \<Rightarrow> (here_err + route list) \<times> 's here_state" where
  "GetRoute srv E dec c req =
     here_json srv E ''routes'' ''failed to get route'' ''failed to decode route response'' dec
       (hc_routerHost c @ ''/v8/routes?'' @ values_Encode (route_params E c req))"

definition plain_route :: "coordinates \<Rightarrow> coordinates \<Rightarrow> go_time option \<Rightarrow> string \<Rightarrow> string \<Rightarrow> string list \<Rightarrow> coordinates list \<Rightarrow> route_request" where
  "plain_route origin destination departure mode currency options via =
     \<lparr>rt_Origin = origin, rt_Destination = destination, rt_DepartureTime = departure, rt_TransportMode = mode, rt_Currency = currency,
      rt_ReturnOptions = options, rt_Via = via, rt_TruckAttrs = None, rt_Avoid = None, rt_Alternatives = 0, rt_Lang = [], rt_Units = []\<rparr>"

definition GetTruckRoute :: "'s http_server \<Rightarrow> here_env \<Rightarrow> (string \<Rightarrow> string + route list) \<Rightarrow> here_client \<Rightarrow> coordinates \<Rightarrow> coordinates
    \<Rightarrow> go_time option \<Rightarrow> 's here_state \<Rightarrow> (here_err + route list) \<times> 's here_state" where
  "GetTruckRoute srv E dec c origin destination departureTime =
     GetRoute srv E dec c (plain_route origin destination departureTime ''truck'' ''USD'' [''summary'', ''polyline''] [])"

definition Geocode :: "'s http_server \<Rightarrow> here_env \<Rightarrow> (string \<Rightarrow> string + geocode_item list) \<Rightarrow> here_client \<Rightarrow> geocode_request
    \<Rightarrow> 's here_state \<Rightarrow> (here_err + geocode_item list) \<times> 's here_state" where
  "Geocode srv E dec c req =
     here_json srv E ''geocode'' ''failed to geocode'' ''failed to decode geocode response'' dec
       (hc_geocodeHost c @ ''/v1/geocode?'' @ values_Encode
          ([(''q'', gq_Query req), (''apiKey'', hc_apiKey c)]
           @ (case gq_At req of None \<Rightarrow> [] | Some p \<Rightarrow> [(''at'', point E p)])
           @ [(''in'', case gq_In req of Some area \<Rightarrow> area | None \<Rightarrow> ''countryCode:USA'')]
           @ if_positive ''limit'' (gq_Limit req) @ unless_empty ''lang'' (gq_Language req)))"

definition first_item :: "string \<Rightarrow> (here_err + 'i list) \<times> 't \<Rightarrow> (here_err + 'i) \<times> 't" where
  "first_item missing r =
     (case r of
        (Inl e, s) \<Rightarrow> (Inl e, s)
      | (Inr [], s) \<Rightarrow> (Inl (HereErr missing), s)
      | (Inr (i # is), s) \<Rightarrow> (Inr i, s))"

definition GeocodeAddress :: "'s http_server \<Rightarrow> here_env \<Rightarrow> (string \<Rightarrow> string + geocode_item list) \<Rightarrow> here_client \<Rightarrow> string
    \<Rightarrow> 's here_state \<Rightarrow> (here_err + geocode_item) \<times> 's here_state" where
  "GeocodeAddress srv E dec c address sl =
     first_item (''no results found for address: '' @ address)
       (Geocode srv E dec c \<lparr>gq_Query = address, gq_At = None, gq_In = None, gq_Limit = 1, gq_Language = []\<rparr> sl)"

definition ReverseGeocode :: "'s http_server \<Rightarrow> here_env \<Rightarrow> (string \<Rightarrow> string + geocode_item list) \<Rightarrow> here_client \<Rightarrow> flt \<Rightarrow> flt
    \<Rightarrow> 's here_state \<Rightarrow> (here_err + geocode_item) \<times> 's here_state" where
  "ReverseGeocode srv E dec c lat lng sl =
     first_item (''no results found for coordinates: '' @ he_fmt E lat @ '', '' @ he_fmt E lng)
       (here_json srv E ''revgeocode'' ''failed to reverse geocode'' ''failed to decode reverse geocode response'' dec
          (hc_geocodeHost c @ ''/v1/revgeocode?'' @ values_Encode
             [(''at'', he_fmt E lat @ '','' @ he_fmt E lng), (''apiKey'', hc_apiKey c), (''limit'', ''1'')]) sl)"

definition Lookup :: "'s http_server \<Rightarrow> here_env \<Rightarrow> (string \<Rightarrow> string + geocode_item) \<Rightarrow> here_client \<Rightarrow> string \<Rightarrow> string
    \<Rightarrow> 's here_state \<Rightarrow> (here_err + geocode_item) \<times> 's here_state" where
  "Lookup srv E dec c i language sl =
     (if i = [] then (Inl (HereErr ''ID cannot be empty''), sl)
      else here_json srv E ''lookup'' ''failed to lookup'' ''failed to decode lookup response'' dec
             (hc_lookupHost c @ ''/v1/lookup?'' @ values_Encode ([(''id'', i), (''apiKey'', hc_apiKey c)] @ unless_empty ''lang'' language)) sl)"

text \<open>The probe of the settings page has its own errors and is logged like any other call.\<close>

definition here_TestConnection :: "'s http_server \<Rightarrow> here_env \<Rightarrow> here_client \<Rightarrow> 's here_state \<Rightarrow> here_err option \<times> 's here_state" where
  "here_TestConnection srv E c sl =
     (let op = ''revgeocode_testconn''; params = [(''at'', ''0,0''), (''limit'', ''1''), (''apiKey'', hc_apiKey c)] in
      case srv (here_request (hc_geocodeHost c @ ''/v1/revgeocode?'' @ values_Encode params)) (fst sl) of
        (BadUrl e, s') \<Rightarrow> (Some (HereErr (''here: failed to create request: '' @ e)), (s', snd sl))
      | (NoAnswer e, s') \<Rightarrow>
          (let err = HereErr (''here: network error: '' @ e) in (Some err, logCall E op 0 (Some err) (s', snd sl)))
      | (Answer r, s') \<Rightarrow>
          if rs_status r = 401 \<or> rs_status r = 403
          then (Some HereInvalidCredentials, logCall E op (rs_status r) (Some (HereAuth (rs_status r) [])) (s', snd sl))
          else if rs_status r < 200 \<or> rs_status r \<ge> 300
          then (let err = HereErr (''here: status '' @ show_int (rs_status r) @ '': '' @ rs_body r) in
                (Some err, logCall E op (rs_status r) (Some err) (s', snd sl)))
          else (None, logCall E op (rs_status r) None (s', snd sl)))"

subsection \<open>The service\<close>

record address_data =
  ad_Location :: string
  ad_Latitude :: flt
  ad_Longitude :: flt
  ad_CountryCode :: "string option"
  ad_CountryName :: "string option"
  ad_StateCode :: "string option"
  ad_State :: "string option"
  ad_County :: "string option"
  ad_City :: "string option"
  ad_Street :: "string option"
  ad_PostalCode :: "string option"
  ad_HouseNumber :: "string option"
  ad_HereID :: string

definition component :: "(address_info \<Rightarrow> string) \<Rightarrow> geocode_item \<Rightarrow> string option" where
  "component f item = (case gi_Address item of Some a \<Rightarrow> if f a \<noteq> [] then Some (f a) else None | None \<Rightarrow> None)"

definition NewAddressDataFromItem :: "geocode_item \<Rightarrow> address_data" where
  "NewAddressDataFromItem item =
     \<lparr>ad_Location = (if gi_Title item = [] then case_option [] id (component ai_Label item) else gi_Title item),
      ad_Latitude = (case gi_Position item of Some p \<Rightarrow> fst p | None \<Rightarrow> Fin 0),
      ad_Longitude = (case gi_Position item of Some p \<Rightarrow> snd p | None \<Rightarrow> Fin 0),
      ad_CountryCode = component ai_CountryCode item, ad_CountryName = component ai_CountryName item,
      ad_StateCode = component ai_StateCode item, ad_State = component ai_State item, ad_County = component ai_County item,
      ad_City = component ai_City item, ad_Street = component ai_Street item, ad_PostalCode = component ai_PostalCode item,
      ad_HouseNumber = component ai_HouseNumber item, ad_HereID = gi_ID item\<rparr>"

definition no_client :: here_err where "no_client = HereErr ''HERE client is not configured''"

definition svc_LookupByID :: "'s http_server \<Rightarrow> here_env \<Rightarrow> (string \<Rightarrow> string + geocode_item) \<Rightarrow> here_client option \<Rightarrow> string
    \<Rightarrow> 's here_state \<Rightarrow> (here_err + address_data) \<times> 's here_state" where
  "svc_LookupByID srv E dec client hereID sl =
     (case client of
        None \<Rightarrow> (Inl no_client, sl)
      | Some c \<Rightarrow>
          if hereID = [] then (Inl (HereErr ''here_id cannot be empty''), sl)
          else (case Lookup srv E dec c hereID [] sl of
                  (Inl e, sl') \<Rightarrow> (Inl (HereWrap (''failed to lookup HERE ID '' @ hereID) e), sl')
                | (Inr item, sl') \<Rightarrow> (Inr ((NewAddressDataFromItem item)\<lparr>ad_HereID := hereID\<rparr>), sl')))"

record route_info =
  ri_DistanceMeters :: int
  ri_DurationSeconds :: int
  ri_DurationWithTrafficSeconds :: int
  ri_EstimatedArrival :: go_time
  ri_Polyline :: string

text \<open>\<open>t.Add(time.Duration(n) * time.Second)\<close>; the location stays.\<close>

definition add_seconds :: "go_time \<Rightarrow> int \<Rightarrow> go_time" where
  "add_seconds t n = t\<lparr>gt_instant := gt_instant t + wrap64 (n * 1000000000)\<rparr>"

definition summary_of :: "route_section \<Rightarrow> route_summary" where
  "summary_of s = (case se_Summary s of Some m \<Rightarrow> m | None \<Rightarrow> \<lparr>sm_Duration = 0, sm_Length = 0, sm_BaseDuration = 0\<rparr>)"

definition departs :: "here_env \<Rightarrow> go_time option \<Rightarrow> go_time" where
  "departs E departureTime = (case departureTime of Some t \<Rightarrow> t | None \<Rightarrow> he_now E)"

text \<open>The first section of the first route.\<close>

definition parseRouteResponse :: "here_env \<Rightarrow> route_section \<Rightarrow> go_time option \<Rightarrow> route_info" where
  "parseRouteResponse E section departureTime =
     \<lparr>ri_DistanceMeters = sm_Length (summary_of section), ri_DurationSeconds = sm_BaseDuration (summary_of section),
      ri_DurationWithTrafficSeconds = sm_Duration (summary_of section),
      ri_EstimatedArrival = add_seconds (departs E departureTime) (sm_Duration (summary_of section)), ri_Polyline = se_Polyline section\<rparr>"

definition first_section :: "route list \<Rightarrow> route_section option" where
  "first_section routes =
     (case routes of [] \<Rightarrow> None | r # rs \<Rightarrow> (case ro_Sections r of [] \<Rightarrow> None | s # ss \<Rightarrow> Some s))"

definition route_info_of :: "here_env \<Rightarrow> string \<Rightarrow> go_time option \<Rightarrow> (here_err + route list) \<times> 't \<Rightarrow> (here_err + route_info) \<times> 't" where
  "route_info_of E failed departureTime r =
     (case r of
        (Inl e, sl) \<Rightarrow> (Inl (HereWrap failed e), sl)
      | (Inr routes, sl) \<Rightarrow>
          (case first_section routes of
             None \<Rightarrow> Inl (HereErr ''no route found'')
           | Some s \<Rightarrow> Inr (parseRouteResponse E s departureTime), sl))"

definition CalculateRoute :: "'s http_server \<Rightarrow> here_env \<Rightarrow> (string \<Rightarrow> string + route list) \<Rightarrow> here_client option \<Rightarrow> coordinates \<Rightarrow> coordinates
    \<Rightarrow> go_time option \<Rightarrow> 's here_state \<Rightarrow> (here_err + route_info) \<times> 's here_state" where
  "CalculateRoute srv E dec client origin destination departureTime sl =
     (case client of
        None \<Rightarrow> (Inl no_client, sl)
      | Some c \<Rightarrow> route_info_of E ''failed to calculate route'' departureTime
                    (GetRoute srv E dec c (plain_route origin destination departureTime ''car'' ''USD'' [''summary''] []) sl))"

definition CalculateTruckRoute :: "'s http_server \<Rightarrow> here_env \<Rightarrow> (string \<Rightarrow> string + route list) \<Rightarrow> here_client option \<Rightarrow> coordinates \<Rightarrow> coordinates
    \<Rightarrow> go_time option \<Rightarrow> 's here_state \<Rightarrow> (here_err + route_info) \<times> 's here_state" where
  "CalculateTruckRoute srv E dec client origin destination departureTime sl =
     (case client of
        None \<Rightarrow> (Inl no_client, sl)
      | Some c \<Rightarrow> route_info_of E ''failed to calculate truck route'' departureTime
                    (GetTruckRoute srv E dec c origin destination departureTime sl))"

definition GetETA :: "'s http_server \<Rightarrow> here_env \<Rightarrow> (string \<Rightarrow> string + route list) \<Rightarrow> here_client option \<Rightarrow> coordinates \<Rightarrow> coordinates
    \<Rightarrow> 's here_state \<Rightarrow> (here_err + go_time) \<times> 's here_state" where
  "GetETA srv E dec client origin destination sl =
     map_prod (map_sum id ri_EstimatedArrival) id (CalculateTruckRoute srv E dec client origin destination (Some (he_now E)) sl)"

text \<open>\<open>CalculateDistance\<close>: metres and seconds of the first section.\<close>

definition CalculateDistance :: "'s http_server \<Rightarrow> here_env \<Rightarrow> (string \<Rightarrow> string + route list) \<Rightarrow> here_client \<Rightarrow> coordinates \<Rightarrow> coordinates
    \<Rightarrow> 's here_state \<Rightarrow> (here_err + int \<times> int) \<times> 's here_state" where
  "CalculateDistance srv E dec c origin destination sl =
     (case GetRoute srv E dec c (plain_route origin destination None ''car'' [] [''summary''] []) sl of
        (Inl e, sl') \<Rightarrow> (Inl e, sl')
      | (Inr routes, sl') \<Rightarrow>
          (case first_section routes of
             None \<Rightarrow> Inl (HereErr ''no route found'')
           | Some s \<Rightarrow> (case se_Summary s of
                         None \<Rightarrow> Inl (HereErr ''no summary information in route'')
                       | Some m \<Rightarrow> Inr (sm_Length m, sm_Duration m)), sl'))"

definition GetDistance :: "'s http_server \<Rightarrow> here_env \<Rightarrow> (string \<Rightarrow> string + route list) \<Rightarrow> here_client option \<Rightarrow> coordinates \<Rightarrow> coordinates
    \<Rightarrow> 's here_state \<Rightarrow> (here_err + int) \<times> 's here_state" where
  "GetDistance srv E dec client origin destination sl =
     (case client of
        None \<Rightarrow> (Inl no_client, sl)
      | Some c \<Rightarrow> map_prod (map_sum (HereWrap ''failed to calculate distance'') fst) id (CalculateDistance srv E dec c origin destination sl))"

subsection \<open>Routes with many stops\<close>

record route_leg =
  lg_Index :: nat
  lg_Origin :: coordinates
  lg_Destination :: coordinates
  lg_DistanceMeters :: int
  lg_DurationSeconds :: int
  lg_EstimatedArrival :: go_time
  lg_Polyline :: string

record multi_stop_route =
  ms_TotalDistanceMeters :: int
  ms_TotalDurationSeconds :: int
  ms_Legs :: "route_leg list"

definition empty_multi_stop :: multi_stop_route where
  "empty_multi_stop = \<lparr>ms_TotalDistanceMeters = 0, ms_TotalDurationSeconds = 0, ms_Legs = []\<rparr>"

definition add_leg :: "multi_stop_route \<Rightarrow> route_leg \<Rightarrow> multi_stop_route" where
  "add_leg r l = \<lparr>ms_TotalDistanceMeters = ms_TotalDistanceMeters r + lg_DistanceMeters l,
     ms_TotalDurationSeconds = ms_TotalDurationSeconds r + lg_DurationSeconds l, ms_Legs = ms_Legs r @ [l]\<rparr>"

text \<open>The sections of one answer as legs between the waypoints.\<close>

fun section_legs :: "nat \<Rightarrow> go_time \<Rightarrow> coordinates list \<Rightarrow> route_section list \<Rightarrow> multi_stop_route \<Rightarrow> multi_stop_route" where
  "section_legs i arrival (a # b # ws) (s # ss) acc =
     (let arrival' = add_seconds arrival (sm_Duration (summary_of s)) in
      section_legs (Suc i) arrival' (b # ws) ss
        (add_leg acc \<lparr>lg_Index = i, lg_Origin = a, lg_Destination = b, lg_DistanceMeters = sm_Length (summary_of s),
           lg_DurationSeconds = sm_BaseDuration (summary_of s), lg_EstimatedArrival = arrival', lg_Polyline = se_Polyline s\<rparr>))"
| "section_legs i arrival ws ss acc = acc"

text \<open>One request for every pair of waypoints, each departing when the one before arrives.\<close>

fun per_leg :: "'s http_server \<Rightarrow> here_env \<Rightarrow> (string \<Rightarrow> string + route list) \<Rightarrow> here_client \<Rightarrow> nat \<Rightarrow> go_time \<Rightarrow> coordinates list
    \<Rightarrow> multi_stop_route \<Rightarrow> 's here_state \<Rightarrow> (here_err + multi_stop_route) \<times> 's here_state" where
  "per_leg srv E dec c i departure (a # b # ws) acc sl =
     (case CalculateTruckRoute srv E dec (Some c) a b (Some departure) sl of
        (Inl e, sl') \<Rightarrow> (Inl (HereWrap (''failed to calculate route for leg '' @ itoa i) e), sl')
      | (Inr info, sl') \<Rightarrow>
          per_leg srv E dec c (Suc i) (ri_EstimatedArrival info) (b # ws)
            (add_leg acc \<lparr>lg_Index = i, lg_Origin = a, lg_Destination = b, lg_DistanceMeters = ri_DistanceMeters info,
               lg_DurationSeconds = ri_DurationSeconds info, lg_EstimatedArrival = ri_EstimatedArrival info, lg_Polyline = ri_Polyline info\<rparr>)
            sl')"
| "per_leg srv E dec c i departure ws acc sl = (Inr acc, sl)"

definition calculateMultiStopPerLeg :: "'s http_server \<Rightarrow> here_env \<Rightarrow> (string \<Rightarrow> string + route list) \<Rightarrow> here_client \<Rightarrow> coordinates list
    \<Rightarrow> go_time \<Rightarrow> 's here_state \<Rightarrow> (here_err + multi_stop_route) \<times> 's here_state" where
  "calculateMultiStopPerLeg srv E dec c waypoints departure sl = per_leg srv E dec c 0 departure waypoints empty_multi_stop sl"

definition multi_stop_request :: "coordinates list \<Rightarrow> go_time \<Rightarrow> route_request" where
  "multi_stop_request waypoints departure =
     plain_route (hd waypoints) (last waypoints) (Some departure) ''truck'' ''USD'' [''summary'', ''polyline''] (butlast (tl waypoints))"

definition CalculateMultiStopRoute :: "'s http_server \<Rightarrow> here_env \<Rightarrow> (string \<Rightarrow> string + route list) \<Rightarrow> here_client option \<Rightarrow> coordinates list
    \<Rightarrow> go_time option \<Rightarrow> 's here_state \<Rightarrow> (here_err + multi_stop_route) \<times> 's here_state" where
  "CalculateMultiStopRoute srv E dec client waypoints departureTime sl =
     (case client of
        None \<Rightarrow> (Inl no_client, sl)
      | Some c \<Rightarrow>
          if length waypoints < 2 then (Inl (HereErr ''at least 2 waypoints required''), sl)
          else let departure = departs E departureTime in
            (case GetRoute srv E dec c (multi_stop_request waypoints departure) sl of
               (Inl e, sl') \<Rightarrow> (Inl (HereWrap ''failed to calculate multi-stop route'' e), sl')
             | (Inr [], sl') \<Rightarrow> (Inl (HereErr ''no route found''), sl')
             | (Inr (r # rs), sl') \<Rightarrow>
                 if length (ro_Sections r) \<noteq> length waypoints - 1
                 then calculateMultiStopPerLeg srv E dec c waypoints departure sl'
                 else (Inr (section_legs 0 departure waypoints (ro_Sections r) empty_multi_stop), sl')))"

subsection \<open>What a route with many stops says\<close>

definition leg_of :: "nat \<Rightarrow> go_time \<Rightarrow> coordinates list \<Rightarrow> route_section list \<Rightarrow> nat \<Rightarrow> route_leg" where
  "leg_of i arrival ws ss k = \<lparr>lg_Index = i + k, lg_Origin = ws ! k, lg_Destination = ws ! Suc k,
     lg_DistanceMeters = sm_Length (summary_of (ss ! k)), lg_DurationSeconds = sm_BaseDuration (summary_of (ss ! k)),
     lg_EstimatedArrival = foldl add_seconds arrival (map (sm_Duration \<circ> summary_of) (take (Suc k) ss)), lg_Polyline = se_Polyline (ss ! k)\<rparr>"

lemma leg_of_Suc:
  "leg_of i arrival (a # ws) (s # ss) (Suc k) = leg_of (Suc i) (add_seconds arrival (sm_Duration (summary_of s))) ws ss k"
  by (simp add: leg_of_def)

lemma section_legs_are:
  assumes "length ws = Suc (length ss)"
  shows "section_legs i arrival ws ss acc =
     \<lparr>ms_TotalDistanceMeters = ms_TotalDistanceMeters acc + (\<Sum>s \<leftarrow> ss. sm_Length (summary_of s)),
      ms_TotalDurationSeconds = ms_TotalDurationSeconds acc + (\<Sum>s \<leftarrow> ss. sm_BaseDuration (summary_of s)),
      ms_Legs = ms_Legs acc @ map (leg_of i arrival ws ss) [0..<length ss]\<rparr>"
  using assms
proof (induction i arrival ws ss acc rule: section_legs.induct)
  case (1 i arrival a b ws s ss acc)
  have "map (leg_of i arrival (a # b # ws) (s # ss)) [0..<Suc (length ss)]
      = leg_of i arrival (a # b # ws) (s # ss) 0
        # map (leg_of (Suc i) (add_seconds arrival (sm_Duration (summary_of s))) (b # ws) ss) [0..<length ss]"
    by (simp add: upt_conv_Cons map_Suc_upt [symmetric] leg_of_Suc comp_def del: upt_Suc)
  moreover have "leg_of i arrival (a # b # ws) (s # ss) 0
      = \<lparr>lg_Index = i, lg_Origin = a, lg_Destination = b, lg_DistanceMeters = sm_Length (summary_of s),
         lg_DurationSeconds = sm_BaseDuration (summary_of s),
         lg_EstimatedArrival = add_seconds arrival (sm_Duration (summary_of s)), lg_Polyline = se_Polyline s\<rparr>"
    by (simp add: leg_of_def)
  ultimately show ?case using 1 by (simp add: Let_def add_leg_def del: upt_Suc)
qed auto

text \<open>The service answers the legs one by one with the sections it gives for the whole: to a request for a leg, departing
  when the legs before it arrive, with a route whose first section is that leg's.\<close>

fun legs_answered :: "'s http_server \<Rightarrow> here_env \<Rightarrow> (string \<Rightarrow> string + route list) \<Rightarrow> here_client \<Rightarrow> go_time \<Rightarrow> coordinates list
    \<Rightarrow> route_section list \<Rightarrow> bool" where
  "legs_answered srv E dec c departure (a # b # ws) (s # ss) \<longleftrightarrow>
     (\<forall>sl. \<exists>routes s' sl'. GetTruckRoute srv E dec c a b (Some departure) sl = (Inr routes, sl') \<and> first_section routes = Some s'
        \<and> summary_of s' = summary_of s \<and> se_Polyline s' = se_Polyline s)
     \<and> legs_answered srv E dec c (add_seconds departure (sm_Duration (summary_of s))) (b # ws) ss"
| "legs_answered srv E dec c departure ws ss \<longleftrightarrow> length ws = 1 \<and> ss = []"

lemma per_leg_sections:
  "legs_answered srv E dec c departure ws ss \<Longrightarrow> \<exists>sl'. per_leg srv E dec c i departure ws acc sl = (Inr (section_legs i departure ws ss acc), sl')"
proof (induction srv E dec c departure ws ss arbitrary: i acc sl rule: legs_answered.induct)
  case (1 srv E dec c departure a b ws s ss)
  then obtain routes s' sl1 where
    "GetTruckRoute srv E dec c a b (Some departure) sl = (Inr routes, sl1)" "first_section routes = Some s'"
    "summary_of s' = summary_of s" "se_Polyline s' = se_Polyline s"
    by (metis legs_answered.simps(1))
  then have "CalculateTruckRoute srv E dec (Some c) a b (Some departure) sl = (Inr \<lparr>ri_DistanceMeters = sm_Length (summary_of s),
      ri_DurationSeconds = sm_BaseDuration (summary_of s), ri_DurationWithTrafficSeconds = sm_Duration (summary_of s),
      ri_EstimatedArrival = add_seconds departure (sm_Duration (summary_of s)), ri_Polyline = se_Polyline s\<rparr>, sl1)"
    by (simp add: CalculateTruckRoute_def route_info_of_def parseRouteResponse_def departs_def)
  then show ?case using 1 by (simp add: Let_def)
qed (auto simp: length_Suc_conv)

text \<open>C35. One request does the work of one per leg. It goes by all waypoints in their order. When the service splits its
  route at the stops, the answer of this request becomes one leg per pair of neighbouring waypoints, in order, with the section's distance, duration
  without traffic and polyline; each leg arrives when the durations with traffic of it and the legs before it have
  passed since the departure; and the totals are the sums. A service that answers the legs one by one with the same
  sections is made the same of by the walk leg by leg.\<close>

theorem multi_stop_one_call:
  assumes "2 \<le> length waypoints" and "GetRoute srv E dec c (multi_stop_request waypoints (departs E departureTime)) sl = (Inr (r # rs), sl1)"
    and "length (ro_Sections r) = length waypoints - 1" and "departure = departs E departureTime" and "secs = ro_Sections r"
  shows "rt_Origin (multi_stop_request waypoints departure) # rt_Via (multi_stop_request waypoints departure)
        @ [rt_Destination (multi_stop_request waypoints departure)] = waypoints
    \<and> (\<exists>res. CalculateMultiStopRoute srv E dec (Some c) waypoints departureTime sl = (Inr res, sl1)
      \<and> ms_TotalDistanceMeters res = (\<Sum>s \<leftarrow> secs. sm_Length (summary_of s))
      \<and> ms_TotalDurationSeconds res = (\<Sum>s \<leftarrow> secs. sm_BaseDuration (summary_of s))
      \<and> length (ms_Legs res) = length waypoints - 1
      \<and> (\<forall>i < length waypoints - 1. ms_Legs res ! i = \<lparr>lg_Index = i, lg_Origin = waypoints ! i, lg_Destination = waypoints ! Suc i,
           lg_DistanceMeters = sm_Length (summary_of (secs ! i)), lg_DurationSeconds = sm_BaseDuration (summary_of (secs ! i)),
           lg_EstimatedArrival = foldl add_seconds departure (map (sm_Duration \<circ> summary_of) (take (Suc i) secs)),
           lg_Polyline = se_Polyline (secs ! i)\<rparr>))
    \<and> (legs_answered srv E dec c departure waypoints secs \<longrightarrow>
         fst (CalculateMultiStopRoute srv E dec (Some c) waypoints departureTime sl)
         = fst (calculateMultiStopPerLeg srv E dec c waypoints departure sl1))"
proof -
  let ?res = "section_legs 0 departure waypoints secs empty_multi_stop"
  have run: "CalculateMultiStopRoute srv E dec (Some c) waypoints departureTime sl = (Inr ?res, sl1)"
    using assms by (simp add: CalculateMultiStopRoute_def Let_def)
  have len: "length waypoints = Suc (length secs)" using assms(1,3,5) by simp
  have "?res = \<lparr>ms_TotalDistanceMeters = (\<Sum>s \<leftarrow> secs. sm_Length (summary_of s)),
      ms_TotalDurationSeconds = (\<Sum>s \<leftarrow> secs. sm_BaseDuration (summary_of s)),
      ms_Legs = map (leg_of 0 departure waypoints secs) [0..<length secs]\<rparr>"
    by (simp add: section_legs_are [OF len] empty_multi_stop_def)
  moreover have "legs_answered srv E dec c departure waypoints secs \<Longrightarrow>
      fst (calculateMultiStopPerLeg srv E dec c waypoints departure sl1) = Inr ?res"
    using per_leg_sections [of srv E dec c departure waypoints secs 0 empty_multi_stop sl1] by (auto simp: calculateMultiStopPerLeg_def)
  moreover have "rt_Origin (multi_stop_request waypoints departure) # rt_Via (multi_stop_request waypoints departure)
      @ [rt_Destination (multi_stop_request waypoints departure)] = waypoints"
    using assms(1) by (cases waypoints; cases "tl waypoints") (auto simp: multi_stop_request_def plain_route_def)
  ultimately show ?thesis using run len by (auto simp: leg_of_def)
qed

text \<open>Where a leg itself has more than one section, as with a ferry, only the first is looked at.\<close>

lemma first_section_only:
  assumes "GetTruckRoute srv E dec c a b (Some t) sl = (Inr (\<lparr>ro_ID = i, ro_Sections = s # ss\<rparr> # rs), sl')"
  shows "CalculateTruckRoute srv E dec (Some c) a b (Some t) sl = (Inr (parseRouteResponse E s (Some t)), sl')"
  using assms by (simp add: CalculateTruckRoute_def route_info_of_def first_section_def)

definition answering_server :: "unit http_server" where
  "answering_server rq s = (Answer \<lparr>rs_status = 200, rs_headers = [], rs_body = ''route''\<rparr>, s)"

definition sample_section :: route_section where
  "sample_section = \<lparr>se_Summary = Some \<lparr>sm_Duration = 3600, sm_Length = 90000, sm_BaseDuration = 3000\<rparr>, se_Polyline = ''BFoz5xJ67i1B1B7PzIhaxL7Y'',
     se_Actions = [], se_Notices = []\<rparr>"

definition sample_here_env :: here_env where
  "sample_here_env = \<lparr>he_tag = ''trip'', he_stack = [], he_done = False, he_now = utc_time 0, he_fmt = (\<lambda>_. ''0.000000'')\<rparr>"

definition sample_point :: coordinates where
  "sample_point = \<lparr>co_lat = Fin 0, co_lng = Fin 0\<rparr>"

definition sample_here_client :: here_client where
  "sample_here_client = \<lparr>hc_routerHost = ''https://router.hereapi.com'', hc_geocodeHost = ''https://geocode.search.hereapi.com'',
     hc_lookupHost = ''https://lookup.search.hereapi.com'', hc_apiKey = ''k''\<rparr>"

lemma multi_stop_one_call_witness:
  "\<exists>res sl. fst (CalculateMultiStopRoute answering_server sample_here_env (\<lambda>_. Inr [\<lparr>ro_ID = ''r'', ro_Sections = [sample_section, sample_section]\<rparr>])
        (Some sample_here_client) [sample_point, sample_point, sample_point] (Some (utc_time 0)) ((), [])) = Inr res
     \<and> fst (calculateMultiStopPerLeg answering_server sample_here_env (\<lambda>_. Inr [\<lparr>ro_ID = ''r'', ro_Sections = [sample_section, sample_section]\<rparr>])
        sample_here_client [sample_point, sample_point, sample_point] (utc_time 0) sl) = Inr res
     \<and> ms_TotalDistanceMeters res = 180000"
proof -
  let ?route = "\<lparr>ro_ID = ''r'', ro_Sections = [sample_section, sample_section]\<rparr>" and ?ws = "[sample_point, sample_point, sample_point]"
  let ?dec = "\<lambda>_. Inr [?route]"
  have any: "\<exists>sl'. GetRoute answering_server sample_here_env ?dec sample_here_client req sl = (Inr [?route], sl')" for req sl
    by (cases sl) (simp add: GetRoute_def here_json_def here_doRequest_def answering_server_def logCall_def)
  then obtain sl1 where whole:
    "GetRoute answering_server sample_here_env ?dec sample_here_client (multi_stop_request ?ws (departs sample_here_env (Some (utc_time 0)))) ((), [])
     = (Inr [?route], sl1)" by blast
  have one: "\<exists>routes s' sl'. GetTruckRoute answering_server sample_here_env ?dec sample_here_client a b t sl = (Inr routes, sl')
      \<and> first_section routes = Some s' \<and> summary_of s' = summary_of sample_section \<and> se_Polyline s' = se_Polyline sample_section" for a b t sl
  proof -
    obtain sl' where "GetTruckRoute answering_server sample_here_env ?dec sample_here_client a b t sl = (Inr [?route], sl')"
      unfolding GetTruckRoute_def using any by blast
    then show ?thesis by (intro exI [of _ "[?route]"] exI [of _ sample_section] exI [of _ sl']) (simp add: first_section_def)
  qed
  have legs: "legs_answered answering_server sample_here_env ?dec sample_here_client (utc_time 0) ?ws [sample_section, sample_section]"
    unfolding legs_answered.simps by (intro conjI allI one) simp_all
  have dep: "utc_time 0 = departs sample_here_env (Some (utc_time 0))" by (simp add: departs_def)
  have "2 \<le> length ?ws" "length (ro_Sections ?route) = length ?ws - 1" "[sample_section, sample_section] = ro_Sections ?route" by simp_all
  note both = multi_stop_one_call [OF this(1) whole this(2) dep this(3)]
  from both [THEN conjunct2, THEN conjunct1] obtain res where res:
    "CalculateMultiStopRoute answering_server sample_here_env ?dec (Some sample_here_client) ?ws (Some (utc_time 0)) ((), []) = (Inr res, sl1)"
    "ms_TotalDistanceMeters res = (\<Sum>s \<leftarrow> [sample_section, sample_section]. sm_Length (summary_of s))" by blast
  moreover have "fst (calculateMultiStopPerLeg answering_server sample_here_env ?dec sample_here_client ?ws (utc_time 0) sl1) = Inr res"
    using both [THEN conjunct2, THEN conjunct2] legs res(1) by (metis fst_conv)
  moreover have "(\<Sum>s \<leftarrow> [sample_section, sample_section]. sm_Length (summary_of s)) = 180000"
    by (simp add: summary_of_def sample_section_def)
  ultimately show ?thesis by (intro exI [of _ res] exI [of _ sl1]) simp
qed

subsection \<open>Every billed call is on record\<close>

text \<open>A server that counts the requests that leave the process.\<close>

definition billed :: "'s http_server \<Rightarrow> ('s \<times> nat) http_server" where
  "billed srv rq sn = (case srv rq (fst sn) of (BadUrl e, s') \<Rightarrow> (BadUrl e, (s', snd sn)) | (out, s') \<Rightarrow> (out, (s', Suc (snd sn))))"

text \<open>The lines logged since are as many as the requests sent since, and all of one operation.\<close>

definition accounted :: "string \<Rightarrow> ('s \<times> nat) here_state \<Rightarrow> ('s \<times> nat) here_state \<Rightarrow> bool" where
  "accounted op sl sl' \<longleftrightarrow> (\<exists>lines. snd sl' = snd sl @ lines \<and> snd (fst sl') = snd (fst sl) + length lines \<and> (\<forall>l \<in> set lines. hl_op l = op))"

definition calls_between :: "('s \<times> nat) here_state \<Rightarrow> ('s \<times> nat) here_state \<Rightarrow> nat" where
  "calls_between sl sl' = snd (fst sl') - snd (fst sl)"

lemma accounted_refl: "accounted op sl sl"
  by (simp add: accounted_def)

lemma accounted_trans: "accounted op a b \<Longrightarrow> accounted op b c \<Longrightarrow> accounted op a c \<and> calls_between a c = calls_between a b + calls_between b c"
  by (fastforce simp: accounted_def calls_between_def)

lemma doRequest_accounted:
  "here_doRequest (billed srv) E op url sl = (out, sl') \<Longrightarrow> accounted op sl sl' \<and> calls_between sl sl' \<le> 1"
  by (auto simp: here_doRequest_def billed_def logCall_def accounted_def calls_between_def Let_def
      split: prod.splits http_outcome.splits if_splits)

lemma GetRoute_accounted:
  assumes "GetRoute (billed srv) E dec c req sl = (out, sl')"
  shows "accounted ''routes'' sl sl' \<and> calls_between sl sl' \<le> 1"
proof -
  let ?url = "hc_routerHost c @ ''/v8/routes?'' @ values_Encode (route_params E c req)"
  obtain r sl1 where r: "here_doRequest (billed srv) E ''routes'' ?url sl = (r, sl1)" by (metis prod.collapse)
  then have "sl' = sl1" using assms by (auto simp: GetRoute_def here_json_def split: sum.splits)
  then show ?thesis using doRequest_accounted [OF r] by simp
qed

lemma truck_accounted:
  assumes "CalculateTruckRoute (billed srv) E dec client a b t sl = (out, sl')"
  shows "accounted ''routes'' sl sl' \<and> calls_between sl sl' \<le> 1"
proof (cases client)
  case None
  then show ?thesis using assms by (simp add: CalculateTruckRoute_def accounted_refl calls_between_def)
next
  case (Some c)
  then have "sl' = snd (GetTruckRoute (billed srv) E dec c a b t sl)"
    using assms by (auto simp: CalculateTruckRoute_def route_info_of_def split: prod.splits sum.splits option.splits)
  then show ?thesis using GetRoute_accounted by (metis GetTruckRoute_def prod.collapse)
qed

lemma per_leg_accounted:
  "per_leg (billed srv) E dec c i t ws acc sl = (out, sl') \<Longrightarrow> accounted ''routes'' sl sl' \<and> calls_between sl sl' \<le> length ws - 1"
proof (induction "billed srv" E dec c i t ws acc sl arbitrary: out sl' rule: per_leg.induct)
  case (1 E dec c i t a b ws acc sl)
  obtain r sl1 where r: "CalculateTruckRoute (billed srv) E dec (Some c) a b (Some t) sl = (r, sl1)" by (metis prod.collapse)
  note one = truck_accounted [OF r]
  show ?case
  proof (cases r)
    case (Inl e)
    then show ?thesis using 1 r one by auto
  next
    case (Inr info)
    with "1.hyps" [OF r [symmetric] Inr] "1.prems" r
    have "accounted ''routes'' sl1 sl' \<and> calls_between sl1 sl' \<le> length (b # ws) - 1" by simp
    then show ?thesis using one accounted_trans [of "''routes''" sl sl1 sl'] by auto
  qed
qed (auto simp: accounted_refl calls_between_def)

text \<open>C36. Every request of a route with many stops that leaves the process, which is what HERE bills, has exactly one
  line in the log, of the routing operation, and there is nothing in the log that was not sent. There are never more
  than one per waypoint, and just one when the first answer has a section per leg, or is an error or empty.\<close>

theorem multi_stop_billing:
  assumes "CalculateMultiStopRoute (billed srv) E dec client waypoints departureTime sl = (out, sl')"
  shows "\<exists>lines. snd sl' = snd sl @ lines \<and> snd (fst sl') = snd (fst sl) + length lines \<and> (\<forall>l \<in> set lines. hl_op l = ''routes'')
    \<and> length lines \<le> length waypoints
    \<and> (length lines \<le> 1 \<or> (\<exists>c r rs sl1. client = Some c
         \<and> GetRoute (billed srv) E dec c (multi_stop_request waypoints (departs E departureTime)) sl = (Inr (r # rs), sl1)
         \<and> length (ro_Sections r) \<noteq> length waypoints - 1))"
proof -
  have lines: "\<exists>lines. snd sl' = snd sl @ lines \<and> snd (fst sl') = snd (fst sl) + length lines \<and> (\<forall>l \<in> set lines. hl_op l = ''routes'')
      \<and> length lines = calls_between sl sl'" if "accounted ''routes'' sl sl'"
    using that by (auto simp: accounted_def calls_between_def)
  consider "sl' = sl" | c where "client = Some c" "2 \<le> length waypoints"
    using assms by (cases client) (auto simp: CalculateMultiStopRoute_def split: if_splits)
  then show ?thesis
  proof cases
    case 1
    then show ?thesis by auto
  next
    case (2 c)
    let ?dep = "departs E departureTime"
    obtain a sl1 where a: "GetRoute (billed srv) E dec c (multi_stop_request waypoints ?dep) sl = (a, sl1)" by (metis prod.collapse)
    note one = GetRoute_accounted [OF a]
    show ?thesis
    proof (cases "\<exists>r rs. a = Inr (r # rs) \<and> length (ro_Sections r) \<noteq> length waypoints - 1")
      case True
      then obtain r rs where r: "a = Inr (r # rs)" "length (ro_Sections r) \<noteq> length waypoints - 1" by blast
      then have "per_leg (billed srv) E dec c 0 ?dep waypoints empty_multi_stop sl1 = (out, sl')"
        using assms 2 a by (simp add: CalculateMultiStopRoute_def calculateMultiStopPerLeg_def Let_def)
      from per_leg_accounted [OF this] one accounted_trans [of "''routes''" sl sl1 sl']
      have "accounted ''routes'' sl sl'" "calls_between sl sl' \<le> length waypoints" using 2(2) by auto
      then obtain ls where "snd sl' = snd sl @ ls" "snd (fst sl') = snd (fst sl) + length ls" "\<forall>l \<in> set ls. hl_op l = ''routes''"
        "length ls \<le> length waypoints" using lines by metis
      then show ?thesis using 2(1) a r by (intro exI [of _ ls]) metis
    next
      case False
      then have "sl' = sl1"
        using assms 2 a by (auto simp: CalculateMultiStopRoute_def Let_def split: sum.split_asm list.split_asm if_split_asm)
      then obtain ls where "snd sl' = snd sl @ ls" "snd (fst sl') = snd (fst sl) + length ls" "\<forall>l \<in> set ls. hl_op l = ''routes''" "length ls \<le> 1"
        using one lines by metis
      then show ?thesis using 2(2) by (intro exI [of _ ls]) auto
    qed
  qed
qed

definition one_section_dec :: "string \<Rightarrow> string + route list" where
  "one_section_dec body = Inr [\<lparr>ro_ID = ''r'', ro_Sections = [sample_section]\<rparr>]"

text \<open>Two legs, and an answer of one section: the whole route is asked for, and then each leg.\<close>

lemma multi_stop_billing_witness:
  "\<exists>out sl'. CalculateMultiStopRoute (billed answering_server) sample_here_env one_section_dec (Some sample_here_client)
       [sample_point, sample_point, sample_point] None (((), 0), []) = (out, sl') \<and> length (snd sl') = snd (fst sl') \<and> length (snd sl') \<le> 3"
proof -
  obtain out sl' where run: "CalculateMultiStopRoute (billed answering_server) sample_here_env one_section_dec (Some sample_here_client)
       [sample_point, sample_point, sample_point] None (((), 0), []) = (out, sl')" by (metis prod.collapse)
  show ?thesis using run multi_stop_billing [OF run] by (intro exI [of _ out] exI [of _ sl']) auto
qed

subsection \<open>Truck navigation\<close>

text \<open>Go's \<open>int\<close> totals are not wrapped here; a route is far too short for that. A panic is \<open>None\<close>.\<close>

record truck_nav_request =
  tq_Origin :: coordinates
  tq_Destination :: coordinates
  tq_DepartureTime :: "go_time option"
  tq_Truck :: truck_attributes
  tq_Avoid :: "avoid_options option"
  tq_Lang :: string
  tq_Currency :: string
  tq_Alternatives :: int

record truck_nav_multi_stop_request =
  tm_Stops :: "coordinates list"
  tm_DepartureTime :: "go_time option"
  tm_Truck :: truck_attributes
  tm_Avoid :: "avoid_options option"
  tm_Lang :: string
  tm_Currency :: string
  tm_Alternatives :: int

record nav_step =
  ns_Index :: nat
  ns_Action :: string
  ns_Direction :: string
  ns_Instruction :: string
  ns_DistanceM :: int
  ns_DurationSec :: int
  ns_RoadName :: string
  ns_PolyStart :: int
  ns_PolyEnd :: int

text \<open>\<open>TruckNavResult\<close>; an alternative has no alternatives of its own.\<close>

record nav_route =
  nr_RouteID :: string
  nr_DistanceMeters :: int
  nr_DurationSeconds :: int
  nr_BaseDurationSeconds :: int
  nr_EstimatedArrival :: go_time
  nr_PolylineEncoded :: string
  nr_PolylineDecoded :: "(flt \<times> flt) list"
  nr_Steps :: "nav_step list"
  nr_Notices :: "route_notice list"

record nav_result = nav_route +
  nr_Alternatives :: "nav_route list"

definition navReturnOptions :: "string list" where
  "navReturnOptions = [''polyline'', ''summary'', ''actions'', ''instructions'', ''spans'', ''notices'', ''travelSummary'']"

definition cloneTruck :: "truck_attributes \<Rightarrow> truck_attributes option" where
  "cloneTruck t =
     (if ta_GrossWeightKg t = 0 \<and> ta_WeightPerAxleKg t = 0 \<and> ta_HeightCm t = 0 \<and> ta_WidthCm t = 0 \<and> ta_LengthCm t = 0
         \<and> ta_AxleCount t = 0 \<and> ta_TrailerCount t = 0 \<and> ta_TunnelCategory t = [] \<and> length (ta_ShippedHazardousGoods t) = 0
      then None else Some t)"

lemma cloneTruck_params [simp]: "truck_applyTo (cloneTruck t) = truck_applyTo (Some t)"
  by (simp add: cloneTruck_def truck_applyTo_def if_positive_def unless_empty_def unless_none_def)

definition sanitizeOffset :: "int \<Rightarrow> int \<Rightarrow> int" where
  "sanitizeOffset offset len = (if len = 0 then 0 else if offset < 0 then 0 else if offset \<ge> len then len - 1 else offset)"

lemma sanitizeOffset_bounds: "0 \<le> len \<Longrightarrow> 0 \<le> sanitizeOffset offset len \<and> (sanitizeOffset offset len < len \<or> len = 0 \<and> sanitizeOffset offset len = 0)"
  by (simp add: sanitizeOffset_def)

lemma sanitizeOffset_mono: "a \<le> b \<Longrightarrow> 0 \<le> len \<Longrightarrow> sanitizeOffset a len \<le> sanitizeOffset b len"
  by (simp add: sanitizeOffset_def)

text \<open>The road a step is on: the first name of the next road, or else of the current one.\<close>

definition road_name :: "route_action \<Rightarrow> string" where
  "road_name a =
     (case ra_NextRoad a of
        Some (n # ns) \<Rightarrow> n
      | _ \<Rightarrow> (case ra_CurrentRoad a of Some (n # ns) \<Rightarrow> n | _ \<Rightarrow> []))"

definition nav_step_of :: "nat \<Rightarrow> nat \<Rightarrow> route_action \<Rightarrow> nav_step" where
  "nav_step_of len i a = \<lparr>ns_Index = i, ns_Action = ra_Action a, ns_Direction = ra_Direction a, ns_Instruction = ra_Instruction a,
     ns_DistanceM = ra_Length a, ns_DurationSec = ra_Duration a, ns_RoadName = road_name a,
     ns_PolyStart = sanitizeOffset (ra_Offset a) (int len), ns_PolyEnd = 0\<rparr>"

text \<open>The loop over the sections and, inside it, over the actions; the result and \<open>stepIdx\<close> are threaded through.\<close>

fun section_steps :: "nat \<Rightarrow> nat \<Rightarrow> route_action list \<Rightarrow> nav_step list \<Rightarrow> nat \<times> nav_step list" where
  "section_steps len i [] acc = (i, acc)"
| "section_steps len i (a # as) acc = section_steps len (Suc i) as (acc @ [nav_step_of len i a])"

fun add_sections :: "nat \<Rightarrow> route_section list \<Rightarrow> nav_route \<Rightarrow> nav_route" where
  "add_sections i [] out = out"
| "add_sections i (s # ss) out =
     (let out1 = (case se_Summary s of
                    None \<Rightarrow> out
                  | Some m \<Rightarrow> out\<lparr>nr_DistanceMeters := nr_DistanceMeters out + sm_Length m, nr_DurationSeconds := nr_DurationSeconds out + sm_Duration m,
                                  nr_BaseDurationSeconds := nr_BaseDurationSeconds out + sm_BaseDuration m\<rparr>);
          out2 = out1\<lparr>nr_Notices := nr_Notices out1 @ se_Notices s\<rparr>;
          (i', steps) = section_steps (length (nr_PolylineDecoded out)) i (se_Actions s) (nr_Steps out2)
      in add_sections i' ss (out2\<lparr>nr_Steps := steps\<rparr>))"

fun fill_ends :: "nat \<Rightarrow> nav_step list \<Rightarrow> nav_step list" where
  "fill_ends len (s # t # ss) = s\<lparr>ns_PolyEnd := ns_PolyStart t\<rparr> # fill_ends len (t # ss)"
| "fill_ends len [s] = [if len > 0 then s\<lparr>ns_PolyEnd := int len - 1\<rparr> else s]"
| "fill_ends len [] = []"

definition buildResultFromRoute :: "(int \<Rightarrow> int \<Rightarrow> flt) \<Rightarrow> here_env \<Rightarrow> route \<Rightarrow> go_time option \<Rightarrow> nav_route option" where
  "buildResultFromRoute quot E r departureTime =
     (case ro_Sections r of
        [] \<Rightarrow> None
      | s # ss \<Rightarrow>
          let decoded = (if se_Polyline s \<noteq> [] then (case DecodeFlexiblePolyline quot (se_Polyline s) of Inl e \<Rightarrow> [] | Inr coords \<Rightarrow> coords) else []);
              out = add_sections 0 (s # ss)
                      \<lparr>nr_RouteID = ro_ID r, nr_DistanceMeters = 0, nr_DurationSeconds = 0, nr_BaseDurationSeconds = 0, nr_EstimatedArrival = zero_time,
                       nr_PolylineEncoded = se_Polyline s, nr_PolylineDecoded = decoded, nr_Steps = [], nr_Notices = []\<rparr>
          in Some (out\<lparr>nr_Steps := fill_ends (length decoded) (nr_Steps out),
                       nr_EstimatedArrival := add_seconds (departs E departureTime) (nr_DurationSeconds out)\<rparr>))"

fun all_somes :: "'a option list \<Rightarrow> 'a list option" where
  "all_somes [] = Some []"
| "all_somes (x # xs) = Option.bind x (\<lambda>v. Option.bind (all_somes xs) (\<lambda>vs. Some (v # vs)))"

text \<open>The answer of the service as a navigation result, the same in both operations.\<close>

definition nav_answer :: "(int \<Rightarrow> int \<Rightarrow> flt) \<Rightarrow> here_env \<Rightarrow> go_time option \<Rightarrow> here_err + route list \<Rightarrow> (here_err + nav_result) option" where
  "nav_answer quot E departureTime resp =
     (case resp of
        Inl e \<Rightarrow> Some (Inl (NoTruckRoute (Some (here_Error e))))
      | Inr [] \<Rightarrow> Some (Inl (NoTruckRoute None))
      | Inr (r # rs) \<Rightarrow>
          if ro_Sections r = [] then Some (Inl (NoTruckRoute None))
          else Option.bind (buildResultFromRoute quot E r departureTime) (\<lambda>primary.
               Option.bind (all_somes (map (\<lambda>r. buildResultFromRoute quot E r departureTime) rs)) (\<lambda>alts.
               Some (Inr (nav_route.extend primary \<lparr>nr_Alternatives = alts\<rparr>)))))"

definition BuildTruckRoute :: "(int \<Rightarrow> int \<Rightarrow> flt) \<Rightarrow> 's http_server \<Rightarrow> here_env \<Rightarrow> (string \<Rightarrow> string + route list) \<Rightarrow> here_client option
    \<Rightarrow> truck_nav_request \<Rightarrow> 's here_state \<Rightarrow> (here_err + nav_result) option \<times> 's here_state" where
  "BuildTruckRoute quot srv E dec client req sl =
     (case client of
        None \<Rightarrow> (Some (Inl (HereErr ''here: navigation client is not configured'')), sl)
      | Some c \<Rightarrow>
          let rr = \<lparr>rt_Origin = tq_Origin req, rt_Destination = tq_Destination req, rt_DepartureTime = tq_DepartureTime req,
                    rt_TransportMode = ''truck'', rt_Currency = or_default (tq_Currency req) ''USD'', rt_ReturnOptions = navReturnOptions,
                    rt_Via = [], rt_TruckAttrs = cloneTruck (tq_Truck req), rt_Avoid = tq_Avoid req, rt_Alternatives = tq_Alternatives req,
                    rt_Lang = or_default (tq_Lang req) ''en-US'', rt_Units = []\<rparr>
          in map_prod (nav_answer quot E (tq_DepartureTime req)) id (GetRoute srv E dec c rr sl))"

text \<open>Here the client is not looked at first.\<close>

definition BuildTruckRouteMultiStop :: "(int \<Rightarrow> int \<Rightarrow> flt) \<Rightarrow> 's http_server \<Rightarrow> here_env \<Rightarrow> (string \<Rightarrow> string + route list) \<Rightarrow> here_client option
    \<Rightarrow> truck_nav_multi_stop_request \<Rightarrow> 's here_state \<Rightarrow> (here_err + nav_result) option \<times> 's here_state" where
  "BuildTruckRouteMultiStop quot srv E dec client req sl =
     (if length (tm_Stops req) < 2 then (Some (Inl (HereErr ''here: multi-stop requires at least 2 stops'')), sl)
      else case client of
        None \<Rightarrow> (None, sl)
      | Some c \<Rightarrow>
          let low = \<lparr>rt_Origin = hd (tm_Stops req), rt_Destination = last (tm_Stops req), rt_DepartureTime = tm_DepartureTime req,
                    rt_TransportMode = ''truck'', rt_Currency = or_default (tm_Currency req) ''USD'', rt_ReturnOptions = navReturnOptions,
                    rt_Via = (if length (tm_Stops req) > 2 then butlast (tl (tm_Stops req)) else []),
                    rt_TruckAttrs = cloneTruck (tm_Truck req), rt_Avoid = tm_Avoid req, rt_Alternatives = tm_Alternatives req,
                    rt_Lang = or_default (tm_Lang req) ''en-US'', rt_Units = []\<rparr>
          in map_prod (nav_answer quot E (tm_DepartureTime req)) id (GetRoute srv E dec c low sl))"

definition RerouteFrom :: "(int \<Rightarrow> int \<Rightarrow> flt) \<Rightarrow> 's http_server \<Rightarrow> here_env \<Rightarrow> (string \<Rightarrow> string + route list) \<Rightarrow> here_client option
    \<Rightarrow> coordinates \<Rightarrow> coordinates list \<Rightarrow> truck_attributes \<Rightarrow> go_time option \<Rightarrow> 's here_state
    \<Rightarrow> (here_err + nav_result) option \<times> 's here_state" where
  "RerouteFrom quot srv E dec client currentPos remainingStops truck departureTime sl =
     (if length remainingStops = 0 then (Some (Inl (HereErr ''here: no remaining stops to reroute to'')), sl)
      else BuildTruckRouteMultiStop quot srv E dec client
             \<lparr>tm_Stops = currentPos # remainingStops, tm_DepartureTime = departureTime, tm_Truck = truck, tm_Avoid = None, tm_Lang = [],
              tm_Currency = [], tm_Alternatives = 0\<rparr> sl)"

subsection \<open>What a navigation result says\<close>

lemma section_steps_are:
  "section_steps len i as acc = (i + length as, acc @ map (\<lambda>k. nav_step_of len (i + k) (as ! k)) [0..<length as])"
proof (induction len i as acc rule: section_steps.induct)
  case (2 len i a as acc)
  have "map (\<lambda>k. nav_step_of len (i + k) ((a # as) ! k)) [0..<Suc (length as)]
      = nav_step_of len i a # map (\<lambda>k. nav_step_of len (Suc i + k) (as ! k)) [0..<length as]"
    by (simp add: upt_conv_Cons map_Suc_upt [symmetric] comp_def del: upt_Suc)
  then show ?case using 2 by (simp del: upt_Suc)
qed simp

definition all_actions :: "route_section list \<Rightarrow> route_action list" where
  "all_actions ss = concat (map se_Actions ss)"

lemma steps_append:
  "map (\<lambda>k. nav_step_of len (i + k) ((as @ bs) ! k)) [0..<length as + length bs]
   = map (\<lambda>k. nav_step_of len (i + k) (as ! k)) [0..<length as] @ map (\<lambda>k. nav_step_of len (i + length as + k) (bs ! k)) [0..<length bs]"
  by (rule nth_equalityI) (auto simp: nth_append)

lemma add_sections_are:
  "nr_DistanceMeters (add_sections i ss out) = nr_DistanceMeters out + (\<Sum>s \<leftarrow> ss. sm_Length (summary_of s))
   \<and> nr_DurationSeconds (add_sections i ss out) = nr_DurationSeconds out + (\<Sum>s \<leftarrow> ss. sm_Duration (summary_of s))
   \<and> nr_BaseDurationSeconds (add_sections i ss out) = nr_BaseDurationSeconds out + (\<Sum>s \<leftarrow> ss. sm_BaseDuration (summary_of s))
   \<and> nr_Notices (add_sections i ss out) = nr_Notices out @ concat (map se_Notices ss)
   \<and> nr_PolylineDecoded (add_sections i ss out) = nr_PolylineDecoded out
   \<and> nr_Steps (add_sections i ss out) = nr_Steps out
        @ map (\<lambda>k. nav_step_of (length (nr_PolylineDecoded out)) (i + k) (all_actions ss ! k)) [0..<length (all_actions ss)]"
proof (induction i ss out rule: add_sections.induct)
  case (2 i s ss out)
  then show ?case
    by (cases "se_Summary s") (simp_all add: section_steps_are Let_def summary_of_def all_actions_def steps_append add.assoc)
qed (simp add: all_actions_def)

lemma fill_ends_length [simp]: "length (fill_ends len ss) = length ss"
  by (induction len ss rule: fill_ends.induct) auto

lemma fill_ends_nth:
  "i < length ss \<Longrightarrow> fill_ends len ss ! i =
     (if Suc i < length ss then (ss ! i)\<lparr>ns_PolyEnd := ns_PolyStart (ss ! Suc i)\<rparr>
      else if len > 0 then (ss ! i)\<lparr>ns_PolyEnd := int len - 1\<rparr> else ss ! i)"
proof (induction len ss arbitrary: i rule: fill_ends.induct)
  case (1 len s t ss)
  then show ?case by (cases i) auto
qed auto

lemma built_route:
  assumes "buildResultFromRoute quot E r dep = Some out" and "start = (\<lambda>a. sanitizeOffset (ra_Offset a) (int (length (nr_PolylineDecoded out))))"
    and "acts = all_actions (ro_Sections r)"
  shows "length (nr_Steps out) = length acts"
    and "i < length acts \<Longrightarrow> nr_Steps out ! i = \<lparr>ns_Index = i, ns_Action = ra_Action (acts ! i), ns_Direction = ra_Direction (acts ! i),
          ns_Instruction = ra_Instruction (acts ! i), ns_DistanceM = ra_Length (acts ! i), ns_DurationSec = ra_Duration (acts ! i),
          ns_RoadName = road_name (acts ! i), ns_PolyStart = start (acts ! i),
          ns_PolyEnd = (if Suc i < length acts then start (acts ! Suc i)
                        else if nr_PolylineDecoded out = [] then 0 else int (length (nr_PolylineDecoded out)) - 1)\<rparr>"
    and "nr_DistanceMeters out = (\<Sum>s \<leftarrow> ro_Sections r. sm_Length (summary_of s))"
    and "nr_DurationSeconds out = (\<Sum>s \<leftarrow> ro_Sections r. sm_Duration (summary_of s))"
    and "nr_EstimatedArrival out = add_seconds (departs E dep) (nr_DurationSeconds out)"
proof -
  obtain s ss where ss: "ro_Sections r = s # ss" using assms(1) by (cases "ro_Sections r") (auto simp: buildResultFromRoute_def)
  define decoded where "decoded = (if se_Polyline s \<noteq> [] then (case DecodeFlexiblePolyline quot (se_Polyline s) of Inl e \<Rightarrow> [] | Inr coords \<Rightarrow> coords) else [])"
  define out0 where "out0 = \<lparr>nr_RouteID = ro_ID r, nr_DistanceMeters = 0, nr_DurationSeconds = 0, nr_BaseDurationSeconds = 0,
    nr_EstimatedArrival = zero_time, nr_PolylineEncoded = se_Polyline s, nr_PolylineDecoded = decoded, nr_Steps = [], nr_Notices = []\<rparr>"
  let ?out1 = "add_sections 0 (ro_Sections r) out0"
  have out: "out = ?out1\<lparr>nr_Steps := fill_ends (length decoded) (nr_Steps ?out1),
      nr_EstimatedArrival := add_seconds (departs E dep) (nr_DurationSeconds ?out1)\<rparr>"
    using assms(1) ss by (simp add: buildResultFromRoute_def Let_def decoded_def out0_def del: add_sections.simps)
  note are = add_sections_are [of 0 "ro_Sections r" out0]
  have dec: "nr_PolylineDecoded out = decoded" using are by (simp add: out out0_def)
  have steps: "nr_Steps ?out1 = map (\<lambda>k. nav_step_of (length decoded) k (acts ! k)) [0..<length acts]"
    using are assms(3) by (simp add: out0_def)
  show "length (nr_Steps out) = length acts" by (simp add: out steps)
  show "nr_Steps out ! i = \<lparr>ns_Index = i, ns_Action = ra_Action (acts ! i), ns_Direction = ra_Direction (acts ! i),
          ns_Instruction = ra_Instruction (acts ! i), ns_DistanceM = ra_Length (acts ! i), ns_DurationSec = ra_Duration (acts ! i),
          ns_RoadName = road_name (acts ! i), ns_PolyStart = start (acts ! i),
          ns_PolyEnd = (if Suc i < length acts then start (acts ! Suc i)
                        else if nr_PolylineDecoded out = [] then 0 else int (length (nr_PolylineDecoded out)) - 1)\<rparr>" if "i < length acts"
    using that dec by (simp add: out steps fill_ends_nth nav_step_of_def assms(2))
  show "nr_DistanceMeters out = (\<Sum>s \<leftarrow> ro_Sections r. sm_Length (summary_of s))"
    "nr_DurationSeconds out = (\<Sum>s \<leftarrow> ro_Sections r. sm_Duration (summary_of s))"
    "nr_EstimatedArrival out = add_seconds (departs E dep) (nr_DurationSeconds out)"
    using are by (simp_all add: out out0_def)
qed

text \<open>A driver's steps point into the polyline. The steps of a navigation result are the maneuvers of all sections of
  the route, in order and numbered from 0; each ends where the next one starts and the last at the last point; whatever
  offsets the service sends, both ends of a step are points of the decoded polyline, or 0 when there is none; on offsets
  that ascend no step ends before it starts; and distance, duration and arrival are those of the whole route.\<close>

theorem navigation_steps:
  assumes "buildResultFromRoute quot E r dep = Some out" and "acts = all_actions (ro_Sections r)"
  shows "length (nr_Steps out) = length acts
    \<and> (\<forall>i < length acts. \<exists>s. nr_Steps out ! i = s \<and> ns_Index s = i \<and> ns_Instruction s = ra_Instruction (acts ! i)
        \<and> ns_DistanceM s = ra_Length (acts ! i) \<and> ns_DurationSec s = ra_Duration (acts ! i)
        \<and> ns_PolyEnd s = (if Suc i < length acts then ns_PolyStart (nr_Steps out ! Suc i) else max 0 (int (length (nr_PolylineDecoded out)) - 1))
        \<and> 0 \<le> ns_PolyStart s \<and> 0 \<le> ns_PolyEnd s
        \<and> (nr_PolylineDecoded out \<noteq> [] \<longrightarrow> ns_PolyStart s < int (length (nr_PolylineDecoded out)) \<and> ns_PolyEnd s < int (length (nr_PolylineDecoded out)))
        \<and> (sorted (map ra_Offset acts) \<longrightarrow> ns_PolyStart s \<le> ns_PolyEnd s))
    \<and> nr_DistanceMeters out = (\<Sum>s \<leftarrow> ro_Sections r. sm_Length (summary_of s))
    \<and> nr_EstimatedArrival out = add_seconds (departs E dep) (\<Sum>s \<leftarrow> ro_Sections r. sm_Duration (summary_of s))"
proof -
  let ?n = "int (length (nr_PolylineDecoded out))"
  note built = built_route [OF assms(1) refl assms(2)]
  have n: "0 \<le> ?n" by simp
  have rising: "sanitizeOffset (ra_Offset (acts ! i)) ?n \<le> sanitizeOffset (ra_Offset (acts ! Suc i)) ?n"
    if "sorted (map ra_Offset acts)" "Suc i < length acts" for i
    using sorted_nth_mono [OF that(1), of i "Suc i"] that(2) by (intro sanitizeOffset_mono) simp_all
  have range: "0 \<le> sanitizeOffset off ?n" "nr_PolylineDecoded out \<noteq> [] \<Longrightarrow> sanitizeOffset off ?n < ?n" for off
    using sanitizeOffset_bounds [OF n, of off] by auto
  have at_end: "sanitizeOffset off ?n \<le> max 0 (?n - 1)" for off
    using range [of off] by (auto simp: sanitizeOffset_def)
  have step: "\<exists>s. nr_Steps out ! i = s \<and> ns_Index s = i \<and> ns_Instruction s = ra_Instruction (acts ! i)
        \<and> ns_DistanceM s = ra_Length (acts ! i) \<and> ns_DurationSec s = ra_Duration (acts ! i)
        \<and> ns_PolyEnd s = (if Suc i < length acts then ns_PolyStart (nr_Steps out ! Suc i) else max 0 (?n - 1))
        \<and> 0 \<le> ns_PolyStart s \<and> 0 \<le> ns_PolyEnd s
        \<and> (nr_PolylineDecoded out \<noteq> [] \<longrightarrow> ns_PolyStart s < ?n \<and> ns_PolyEnd s < ?n)
        \<and> (sorted (map ra_Offset acts) \<longrightarrow> ns_PolyStart s \<le> ns_PolyEnd s)" if i: "i < length acts" for i
  proof (cases "Suc i < length acts")
    case True
    then show ?thesis using range rising [of i] by (simp add: built(2) [OF i] built(2) [OF True])
  next
    case False
    then show ?thesis
      using range [of "ra_Offset (acts ! i)"] at_end [of "ra_Offset (acts ! i)"]
      by (cases "nr_PolylineDecoded out") (simp_all add: built(2) [OF i])
  qed
  show ?thesis by (intro conjI allI impI step) (simp_all add: built(1,3-5))
qed

definition sample_action :: "string \<Rightarrow> int \<Rightarrow> route_action" where
  "sample_action text off = \<lparr>ra_Action = ''turn'', ra_Duration = 60, ra_Length = 500, ra_Instruction = text, ra_Offset = off, ra_Direction = ''left'',
     ra_NextRoad = Some [''Main St''], ra_CurrentRoad = None\<rparr>"

text \<open>Where the steps of a second section are laid on the polyline of the first, a step may end before it starts.\<close>

lemma second_section_steps:
  "map (\<lambda>s. (ns_PolyStart s, ns_PolyEnd s)) (fill_ends 3 (snd (section_steps 3 2 [sample_action ''C'' 0] (snd (section_steps 3 0
     [sample_action ''A'' 0, sample_action ''B'' 2] []))))) = [(0, 2), (2, 0), (0, 2)]"
  by (simp add: nav_step_of_def sanitizeOffset_def sample_action_def)

definition sample_nav_route :: route where
  "sample_nav_route = \<lparr>ro_ID = ''r'', ro_Sections = [sample_section\<lparr>se_Actions := [sample_action ''Turn'' 0, sample_action ''Arrive'' 9]\<rparr>]\<rparr>"

lemma navigation_steps_witness:
  "\<exists>out. buildResultFromRoute (\<lambda>n d. Fin (real_of_int n / real_of_int d)) sample_here_env sample_nav_route None = Some out
     \<and> length (nr_Steps out) = 2 \<and> ns_Instruction (nr_Steps out ! 1) = ''Arrive'' \<and> nr_DistanceMeters out = 90000"
proof -
  let ?q = "\<lambda>n d. Fin (real_of_int n / real_of_int d)"
  obtain out where built: "buildResultFromRoute ?q sample_here_env sample_nav_route None = Some out"
    by (simp add: buildResultFromRoute_def sample_nav_route_def Let_def)
  have acts: "all_actions (ro_Sections sample_nav_route) = [sample_action ''Turn'' 0, sample_action ''Arrive'' 9]"
    by (simp add: all_actions_def sample_nav_route_def)
  note nav = navigation_steps [OF built acts [symmetric]]
  have "length (nr_Steps out) = 2" "nr_DistanceMeters out = 90000"
    using nav by (simp_all add: sample_nav_route_def sample_section_def summary_of_def)
  moreover have "ns_Instruction (nr_Steps out ! 1) = ''Arrive''" using nav [THEN conjunct2, THEN conjunct1, THEN spec [of _ 1]]
    by (simp add: sample_action_def)
  ultimately show ?thesis using built by blast
qed

text \<open>An error of authorisation is lost on the way; and a missing client is told of in one operation, but a panic in the other.\<close>

lemma nav_auth_lost:
  "GetRoute srv E dec c req sl = (Inl (HereWrap t (HereAuth 401 body)), sl') \<Longrightarrow>
     nav_answer quot E dep (fst (GetRoute srv E dec c req sl)) = Some (Inl e) \<Longrightarrow> \<not> here_IsAuthError e"
  by (auto simp: nav_answer_def)

lemma nav_no_client:
  "fst (BuildTruckRoute quot srv E dec None rq sl) = Some (Inl (HereErr ''here: navigation client is not configured''))"
  "2 \<le> length (tm_Stops mq) \<Longrightarrow> fst (BuildTruckRouteMultiStop quot srv E dec None mq sl) = None"
  by (simp_all add: BuildTruckRoute_def BuildTruckRouteMultiStop_def)

text \<open>A reroute goes by the stops that remain, from where the truck is to the last of them, in their order.\<close>

lemma RerouteFrom_request:
  assumes "RerouteFrom quot srv E dec (Some c) p stops truck dep sl = (r, sl')" "stops \<noteq> []"
  shows "\<exists>rr. (r, sl') = map_prod (nav_answer quot E dep) id (GetRoute srv E dec c rr sl)
      \<and> rt_Origin rr # rt_Via rr @ [rt_Destination rr] = p # stops \<and> rt_TransportMode rr = ''truck''
      \<and> truck_applyTo (rt_TruckAttrs rr) = truck_applyTo (Some truck)"
proof -
  let ?rr = "\<lparr>rt_Origin = p, rt_Destination = last stops, rt_DepartureTime = dep, rt_TransportMode = ''truck'', rt_Currency = ''USD'',
      rt_ReturnOptions = navReturnOptions, rt_Via = butlast stops, rt_TruckAttrs = cloneTruck truck, rt_Avoid = None, rt_Alternatives = 0,
      rt_Lang = ''en-US'', rt_Units = []\<rparr>"
  have "(if Suc 0 < length stops then butlast stops else []) = butlast stops" by (cases stops) auto
  then have "(r, sl') = map_prod (nav_answer quot E dep) id (GetRoute srv E dec c ?rr sl)"
    using assms by (cases "Suc 0 < length stops") (simp_all add: RerouteFrom_def BuildTruckRouteMultiStop_def or_default_def Let_def not_less Suc_le_eq)
  then show ?thesis using assms(2) by (intro exI [of _ ?rr]) simp
qed

end
