(* ===== verification/Usps.thy ===== *)
theory Usps
  imports Go_Url Go_Float
begin

text \<open>
  The USPS client (\<open>src/client/usps/usps.go\<close>, \<open>service.go\<close>): the exchange of a company's credentials for a bearer token,
  the tokens kept for the whole process under a hash of the credentials, the retry after a rejected token, and the check of
  an address. All clients of a process share the tokens, so what matters is whose token a request carries: shown for any
  number of calls at the same time, with one step per exchange and per access to a slot, as the slot's mutex makes them.
  The server, the clock, SHA-256 in hexadecimal and JSON decoding are parameters.
\<close>

subsection \<open>Data\<close>

record usps_cred =
  uc_ConsumerKey :: string
  uc_ConsumerSecret :: string

record address_request =
  aq_StreetAddress :: string
  aq_SecondaryAddress :: string
  aq_City :: string
  aq_State :: string
  aq_ZIPCode :: string
  aq_ZIPPlus4 :: string

record standardized_address =
  sa_StreetAddress :: string
  sa_SecondaryAddress :: string
  sa_City :: string
  sa_State :: string
  sa_ZIPCode :: string
  sa_ZIPPlus4 :: string

record address_result =
  as_Verified :: bool
  as_DPV :: string
  as_Standardized :: standardized_address

record address_response =
  ap_Address :: standardized_address
  ap_DPVConfirmation :: string

record usps_token_response =
  ut_AccessToken :: string
  ut_ExpiresIn :: int

record usps_client =
  us_baseURL :: string
  us_oauthURL :: string
  us_cred :: usps_cred

definition usps_defaultBaseURL :: string where "usps_defaultBaseURL = ''https://apis.usps.com''"
definition tokenPath :: string where "tokenPath = ''/oauth2/v3/token''"
definition addressPath :: string where "addressPath = ''/addresses/v3/address''"

text \<open>Durations in nanoseconds.\<close>

definition tokenRefreshSkew :: int where "tokenRefreshSkew = 60000000000"
definition defaultTokenTTL :: int where "defaultTokenTTL = 8 * 3600000000000"

definition usps_NewClient :: "string \<Rightarrow> string \<Rightarrow> usps_cred \<Rightarrow> usps_client" where
  "usps_NewClient baseURL oauthHost cred =
     (let base = (if baseURL = [] then usps_defaultBaseURL else baseURL); oauth = (if oauthHost = [] then base else oauthHost) in
      \<lparr>us_baseURL = trim_slashes base, us_oauthURL = trim_slashes oauth, us_cred = cred\<rparr>)"

definition usps_NewClientWithCred :: "usps_cred \<Rightarrow> usps_client" where
  "usps_NewClientWithCred cred = usps_NewClient [] [] cred"

datatype usps_err = UspsAuth int string | UspsErr string | UspsWrap string usps_err

fun usps_IsAuthError :: "usps_err \<Rightarrow> bool" where
  "usps_IsAuthError (UspsAuth status body) = True"
| "usps_IsAuthError (UspsErr t) = False"
| "usps_IsAuthError (UspsWrap t e) = usps_IsAuthError e"

record 's usps_env =
  ue_server :: "'s http_server"
  ue_now :: "'s \<Rightarrow> int"
  ue_hash :: "string \<Rightarrow> string"
  ue_token :: "string \<Rightarrow> string + usps_token_response"
  ue_address :: "string \<Rightarrow> string + address_response"

subsection \<open>Tokens\<close>

record cached_token =
  ct_value :: string
  ct_expiresAt :: int

type_synonym token_store = "string \<Rightarrow> cached_token option"

definition zero_token :: cached_token where
  "zero_token = \<lparr>ct_value = [], ct_expiresAt = gt_instant zero_time\<rparr>"

definition cred_text :: "usps_cred \<Rightarrow> string" where
  "cred_text cr = uc_ConsumerKey cr @ '':'' @ uc_ConsumerSecret cr"

definition credKey :: "'s usps_env \<Rightarrow> usps_client \<Rightarrow> string" where
  "credKey E c = ue_hash E (cred_text (us_cred c))"

text \<open>The slot of a client; it is made when it is missing.\<close>

definition tokenSlot :: "'s usps_env \<Rightarrow> usps_client \<Rightarrow> token_store \<Rightarrow> cached_token \<times> token_store" where
  "tokenSlot E c st =
     (case st (credKey E c) of Some ct \<Rightarrow> (ct, st) | None \<Rightarrow> (zero_token, st(credKey E c \<mapsto> zero_token)))"

definition usps_token_request :: "usps_client \<Rightarrow> http_request" where
  "usps_token_request c =
     \<lparr>rq_method = ''POST'', rq_url = us_oauthURL c @ tokenPath,
      rq_headers = [(''Content-Type'', ''application/x-www-form-urlencoded''), (''Accept'', ''application/json'')],
      rq_body = Some (values_Encode [(''grant_type'', ''client_credentials''), (''client_id'', uc_ConsumerKey (us_cred c)),
        (''client_secret'', uc_ConsumerSecret (us_cred c))])\<rparr>"

definition rejected :: "int \<Rightarrow> bool" where
  "rejected status \<longleftrightarrow> status = 401 \<or> status = 403"

text \<open>What the answer to the exchange means: the token and how long it lasts.\<close>

definition token_answer :: "'s usps_env \<Rightarrow> http_outcome \<Rightarrow> usps_err + string \<times> int" where
  "token_answer E a =
     (case a of
        BadUrl e \<Rightarrow> Inl (UspsErr (''failed to create token request: '' @ e))
      | NoAnswer e \<Rightarrow> Inl (UspsErr (''failed to fetch token: '' @ e))
      | Answer r \<Rightarrow>
          if rejected (rs_status r) then Inl (UspsAuth (rs_status r) (rs_body r))
          else if rs_status r < 200 \<or> rs_status r \<ge> 300
          then Inl (UspsErr (''usps token request failed with status '' @ show_int (rs_status r) @ '': '' @ rs_body r))
          else (case ue_token E (rs_body r) of
                  Inl e \<Rightarrow> Inl (UspsErr (''failed to decode token response: '' @ e))
                | Inr tok \<Rightarrow>
                    if ut_AccessToken tok = [] then Inl (UspsErr ''usps token response missing access_token'')
                    else Inr (ut_AccessToken tok,
                              if ut_ExpiresIn tok > 0 then wrap64 (ut_ExpiresIn tok * 1000000000) else defaultTokenTTL)))"

definition fetchToken :: "'s usps_env \<Rightarrow> usps_client \<Rightarrow> 's \<Rightarrow> (usps_err + string \<times> int) \<times> 's" where
  "fetchToken E c w = (case ue_server E (usps_token_request c) w of (a, w') \<Rightarrow> (token_answer E a, w'))"

definition still_good :: "'s usps_env \<Rightarrow> 's \<Rightarrow> cached_token \<Rightarrow> bool" where
  "still_good E w ct \<longleftrightarrow> ct_value ct \<noteq> [] \<and> ct_expiresAt ct - ue_now E w > tokenRefreshSkew"

definition store_token :: "'s usps_env \<Rightarrow> usps_client \<Rightarrow> 's \<Rightarrow> string \<Rightarrow> int \<Rightarrow> token_store \<Rightarrow> token_store" where
  "store_token E c w value ttl st = st(credKey E c \<mapsto> \<lparr>ct_value = value, ct_expiresAt = ue_now E w + ttl\<rparr>)"

type_synonym 's usps_state = "'s \<times> token_store"

definition usps_token :: "'s usps_env \<Rightarrow> usps_client \<Rightarrow> 's usps_state \<Rightarrow> (usps_err + string) \<times> 's usps_state" where
  "usps_token E c ws =
     (case tokenSlot E c (snd ws) of
        (ct, st) \<Rightarrow>
          if still_good E (fst ws) ct then (Inr (ct_value ct), (fst ws, st))
          else (case fetchToken E c (fst ws) of
                  (Inl e, w') \<Rightarrow> (Inl e, (w', st))
                | (Inr (value, ttl), w') \<Rightarrow> (Inr value, (w', store_token E c w' value ttl st))))"

definition invalidateToken :: "'s usps_env \<Rightarrow> usps_client \<Rightarrow> token_store \<Rightarrow> token_store" where
  "invalidateToken E c st = (case tokenSlot E c st of (ct, st') \<Rightarrow> st'(credKey E c \<mapsto> ct\<lparr>ct_value := []\<rparr>))"

subsection \<open>Requests\<close>

definition usps_api_request :: "usps_client \<Rightarrow> string \<Rightarrow> (string \<times> string) list \<Rightarrow> string \<Rightarrow> http_request" where
  "usps_api_request c path query token =
     \<lparr>rq_method = ''GET'', rq_url = us_baseURL c @ path @ (if query \<noteq> [] then ''?'' @ values_Encode query else []),
      rq_headers = [(''Authorization'', ''Bearer '' @ token), (''Accept'', ''application/json'')], rq_body = None\<rparr>"

text \<open>What an answer means when it is not a rejection that is retried.\<close>

definition api_answer :: "http_outcome \<Rightarrow> usps_err + string" where
  "api_answer a =
     (case a of
        BadUrl e \<Rightarrow> Inl (UspsErr (''failed to create request: '' @ e))
      | NoAnswer e \<Rightarrow> Inl (UspsErr (''failed to execute request: '' @ e))
      | Answer r \<Rightarrow>
          if rejected (rs_status r) then Inl (UspsAuth (rs_status r) (rs_body r))
          else if rs_status r < 200 \<or> rs_status r \<ge> 300
          then Inl (UspsErr (''usps request failed with status '' @ show_int (rs_status r) @ '': '' @ rs_body r))
          else Inr (rs_body r))"

definition is_rejection :: "http_outcome \<Rightarrow> bool" where
  "is_rejection a = (case a of Answer r \<Rightarrow> rejected (rs_status r) | _ \<Rightarrow> False)"

function usps_doRequest :: "'s usps_env \<Rightarrow> usps_client \<Rightarrow> string \<Rightarrow> (string \<times> string) list \<Rightarrow> bool \<Rightarrow> 's usps_state
    \<Rightarrow> (usps_err + string) \<times> 's usps_state" where
  "usps_doRequest E c path query retryOnAuth ws =
     (case usps_token E c ws of
        (Inl e, ws1) \<Rightarrow> (Inl e, ws1)
      | (Inr token, (w1, st1)) \<Rightarrow>
          (case ue_server E (usps_api_request c path query token) w1 of
             (a, w2) \<Rightarrow>
               if is_rejection a \<and> retryOnAuth then usps_doRequest E c path query False (w2, invalidateToken E c st1)
               else (api_answer a, (w2, st1))))"
  by pat_completeness auto
termination
  by (relation "measure (\<lambda>(E, c, path, query, retryOnAuth, ws). of_bool retryOnAuth)") auto

declare usps_doRequest.simps [simp del]

definition usps_unless_empty :: "string \<Rightarrow> string \<Rightarrow> (string \<times> string) list" where
  "usps_unless_empty key v = (if v \<noteq> [] then [(key, v)] else [])"

definition address_query :: "address_request \<Rightarrow> (string \<times> string) list" where
  "address_query req =
     [(''streetAddress'', aq_StreetAddress req)] @ usps_unless_empty ''secondaryAddress'' (aq_SecondaryAddress req)
     @ usps_unless_empty ''city'' (aq_City req) @ usps_unless_empty ''state'' (aq_State req)
     @ usps_unless_empty ''ZIPCode'' (aq_ZIPCode req) @ usps_unless_empty ''ZIPPlus4'' (aq_ZIPPlus4 req)"

definition VerifyAddress :: "'s usps_env \<Rightarrow> usps_client \<Rightarrow> address_request \<Rightarrow> 's usps_state \<Rightarrow> (usps_err + address_result) \<times> 's usps_state" where
  "VerifyAddress E c req ws =
     (case usps_doRequest E c addressPath (address_query req) True ws of
        (Inl e, ws') \<Rightarrow> (Inl (UspsWrap ''failed to verify address'' e), ws')
      | (Inr body, ws') \<Rightarrow>
          (case ue_address E body of
             Inl e \<Rightarrow> Inl (UspsErr (''failed to decode address response: '' @ e))
           | Inr raw \<Rightarrow> Inr \<lparr>as_Verified = (ap_DPVConfirmation raw = ''Y''), as_DPV = ap_DPVConfirmation raw, as_Standardized = ap_Address raw\<rparr>,
           ws'))"

definition VerifyUSAddress :: "'s usps_env \<Rightarrow> usps_client option \<Rightarrow> address_request \<Rightarrow> 's usps_state \<Rightarrow> (usps_err + address_result) \<times> 's usps_state" where
  "VerifyUSAddress E client req ws =
     (case client of
        None \<Rightarrow> (Inl (UspsErr ''usps client is not configured''), ws)
      | Some c \<Rightarrow>
          if aq_StreetAddress req = [] then (Inl (UspsErr ''streetAddress cannot be empty''), ws)
          else (case VerifyAddress E c req ws of
                  (Inl e, ws') \<Rightarrow> (Inl (UspsWrap ''failed to verify US address'' e), ws')
                | (Inr result, ws') \<Rightarrow> (Inr result, ws')))"

subsection \<open>Many callers\<close>

text \<open>
  A call of \<open>doRequest\<close> in a process where other calls are under way. The slot's mutex is held while a token is read or
  exchanged, so this is one step; sending the request and dropping the token are further ones. The log keeps for whom
  each request was sent and how it was answered.
\<close>

datatype usps_phase =
    Wants usps_client string "(string \<times> string) list" bool
  | Holds usps_client string "(string \<times> string) list" bool string
  | Rejected usps_client string "(string \<times> string) list"
  | Ended "usps_err + string"

record 's usps_system =
  sy_world :: 's
  sy_store :: token_store
  sy_calls :: "nat \<Rightarrow> usps_phase option"
  sy_log :: "(usps_client \<times> http_request \<times> http_outcome) list"

inductive usps_step :: "'s usps_env \<Rightarrow> 's usps_system \<Rightarrow> 's usps_system \<Rightarrow> bool" for E :: "'s usps_env" where
  call: "sy_calls x i = None \<Longrightarrow> usps_step E x (x\<lparr>sy_calls := (sy_calls x)(i \<mapsto> Wants c path query True)\<rparr>)"
| cached: "sy_calls x i = Some (Wants c path query b) \<Longrightarrow> tokenSlot E c (sy_store x) = (ct, st) \<Longrightarrow> still_good E (sy_world x) ct
    \<Longrightarrow> usps_step E x (x\<lparr>sy_store := st, sy_calls := (sy_calls x)(i \<mapsto> Holds c path query b (ct_value ct))\<rparr>)"
| exchanged: "sy_calls x i = Some (Wants c path query b) \<Longrightarrow> tokenSlot E c (sy_store x) = (ct, st) \<Longrightarrow> \<not> still_good E (sy_world x) ct
    \<Longrightarrow> ue_server E (usps_token_request c) (sy_world x) = (a, w) \<Longrightarrow> token_answer E a = Inr (value, ttl)
    \<Longrightarrow> usps_step E x (x\<lparr>sy_world := w, sy_store := store_token E c w value ttl st,
          sy_calls := (sy_calls x)(i \<mapsto> Holds c path query b value), sy_log := sy_log x @ [(c, usps_token_request c, a)]\<rparr>)"
| refused: "sy_calls x i = Some (Wants c path query b) \<Longrightarrow> tokenSlot E c (sy_store x) = (ct, st) \<Longrightarrow> \<not> still_good E (sy_world x) ct
    \<Longrightarrow> ue_server E (usps_token_request c) (sy_world x) = (a, w) \<Longrightarrow> token_answer E a = Inl e
    \<Longrightarrow> usps_step E x (x\<lparr>sy_world := w, sy_store := st, sy_calls := (sy_calls x)(i \<mapsto> Ended (Inl e)),
          sy_log := sy_log x @ [(c, usps_token_request c, a)]\<rparr>)"
| answered: "sy_calls x i = Some (Holds c path query b token) \<Longrightarrow> ue_server E (usps_api_request c path query token) (sy_world x) = (a, w)
    \<Longrightarrow> usps_step E x (x\<lparr>sy_world := w,
          sy_calls := (sy_calls x)(i \<mapsto> if is_rejection a \<and> b then Rejected c path query else Ended (api_answer a)),
          sy_log := sy_log x @ [(c, usps_api_request c path query token, a)]\<rparr>)"
| dropped: "sy_calls x i = Some (Rejected c path query)
    \<Longrightarrow> usps_step E x (x\<lparr>sy_store := invalidateToken E c (sy_store x), sy_calls := (sy_calls x)(i \<mapsto> Wants c path query False)\<rparr>)"
| tick: "usps_step E x (x\<lparr>sy_world := w\<rparr>)"

inductive usps_steps :: "'s usps_env \<Rightarrow> 's usps_system \<Rightarrow> 's usps_system \<Rightarrow> bool" for E :: "'s usps_env" where
  none: "usps_steps E x x"
| more: "usps_steps E x y \<Longrightarrow> usps_step E y z \<Longrightarrow> usps_steps E x z"

definition fresh_process :: "'s \<Rightarrow> 's usps_system" where
  "fresh_process w = \<lparr>sy_world = w, sy_store = Map.empty, sy_calls = Map.empty, sy_log = []\<rparr>"

lemma usps_steps_trans: "usps_steps E y z \<Longrightarrow> usps_steps E x y \<Longrightarrow> usps_steps E x z"
  by (induction rule: usps_steps.induct) (auto intro: usps_steps.intros)

lemma usps_step_steps: "usps_step E x y \<Longrightarrow> usps_steps E x y"
  by (rule usps_steps.more [OF usps_steps.none])

lemma token_runs:
  assumes "usps_token E c (w, st) = (r, w1, st1)"
    and x: "sy_calls x i = Some (Wants c path query b)" "sy_world x = w" "sy_store x = st"
  shows "\<exists>lg. usps_step E x (x\<lparr>sy_world := w1, sy_store := st1,
      sy_calls := (sy_calls x)(i \<mapsto> case r of Inl e \<Rightarrow> Ended (Inl e) | Inr token \<Rightarrow> Holds c path query b token), sy_log := lg\<rparr>)"
proof -
  obtain ct st0 where slot: "tokenSlot E c (sy_store x) = (ct, st0)" by (metis prod.collapse)
  show ?thesis
  proof (cases "still_good E w ct")
    case True
    then have now: "r = Inr (ct_value ct)" "w1 = w" "st1 = st0" using assms(1) slot x by (auto simp: usps_token_def)
    have eq: "x\<lparr>sy_store := st0, sy_calls := (sy_calls x)(i \<mapsto> Holds c path query b (ct_value ct))\<rparr>
        = x\<lparr>sy_world := w, sy_store := st0, sy_calls := (sy_calls x)(i \<mapsto> Holds c path query b (ct_value ct)), sy_log := sy_log x\<rparr>"
      using x by simp
    have "usps_step E x (x\<lparr>sy_store := st0, sy_calls := (sy_calls x)(i \<mapsto> Holds c path query b (ct_value ct))\<rparr>)"
      using usps_step.cached [OF x(1) slot] x(2) True by simp
    then show ?thesis by (intro exI [of _ "sy_log x"]) (simp only: now sum.case eq)
  next
    case False
    obtain a w' where a: "ue_server E (usps_token_request c) (sy_world x) = (a, w')" by (metis prod.collapse)
    show ?thesis
    proof (cases "token_answer E a")
      case (Inl e)
      then have "r = Inl e" "w1 = w'" "st1 = st0" using assms(1) slot x False a by (auto simp: usps_token_def fetchToken_def)
      then show ?thesis using usps_step.refused [OF x(1) slot _ a Inl] x False
        by (intro exI [of _ "sy_log x @ [(c, usps_token_request c, a)]"]) simp
    next
      case (Inr vt)
      then obtain v ttl where vt: "token_answer E a = Inr (v, ttl)" by (cases vt) simp
      then have "r = Inr v" "w1 = w'" "st1 = store_token E c w' v ttl st0"
        using assms(1) slot x False a by (auto simp: usps_token_def fetchToken_def)
      then show ?thesis using usps_step.exchanged [OF x(1) slot _ a vt] x False
        by (intro exI [of _ "sy_log x @ [(c, usps_token_request c, a)]"]) simp
    qed
  qed
qed

text \<open>A call that nothing comes between does what \<open>doRequest\<close> says.\<close>

lemma doRequest_runs:
  assumes "usps_doRequest E c path query b (w, st) = (res, w', st')"
    and "sy_calls x i = Some (Wants c path query b)" "sy_world x = w" "sy_store x = st"
  shows "\<exists>lg. usps_steps E x (x\<lparr>sy_world := w', sy_store := st', sy_calls := (sy_calls x)(i \<mapsto> Ended res), sy_log := lg\<rparr>)"
  using assms
proof (induction b arbitrary: w st x rule: measure_induct_rule [where f = "of_bool :: bool \<Rightarrow> nat"])
  case (less b)
  obtain r w1 st1 where r: "usps_token E c (w, st) = (r, w1, st1)" by (metis prod.collapse)
  obtain log1 where tok: "usps_step E x (x\<lparr>sy_world := w1, sy_store := st1,
      sy_calls := (sy_calls x)(i \<mapsto> case r of Inl e \<Rightarrow> Ended (Inl e) | Inr token \<Rightarrow> Holds c path query b token), sy_log := log1\<rparr>)"
    (is "usps_step E x ?h") using token_runs [OF r less.prems(2-4)] by blast
  note run = less.prems(1) [unfolded usps_doRequest.simps [of E c path query b] r]
  show ?case
  proof (cases r)
    case (Inl e)
    have now: "res = Inl e" "w' = w1" "st' = st1" using run Inl by simp_all
    show ?thesis using usps_step_steps [OF tok] by (intro exI [of _ log1]) (simp add: now Inl fun_upd_def)
  next
    case (Inr token)
    obtain a w2 where a: "ue_server E (usps_api_request c path query token) w1 = (a, w2)" by (metis prod.collapse)
    have "usps_step E ?h (?h\<lparr>sy_world := w2,
        sy_calls := (sy_calls ?h)(i \<mapsto> if is_rejection a \<and> b then Rejected c path query else Ended (api_answer a)),
        sy_log := sy_log ?h @ [(c, usps_api_request c path query token, a)]\<rparr>)" (is "usps_step E ?h ?s")
      using a Inr by (intro usps_step.answered) auto
    then have to_s: "usps_steps E x ?s" using usps_steps.more [OF usps_step_steps [OF tok]] by blast
    show ?thesis
    proof (cases "is_rejection a \<and> b")
      case True
      let ?d = "?s\<lparr>sy_store := invalidateToken E c (sy_store ?s), sy_calls := (sy_calls ?s)(i \<mapsto> Wants c path query False)\<rparr>"
      have "usps_step E ?s ?d" using True by (intro usps_step.dropped) auto
      then have to_d: "usps_steps E x ?d" using to_s usps_steps.more by blast
      have again: "usps_doRequest E c path query False (w2, invalidateToken E c st1) = (res, w', st')"
        using run Inr a True by simp
      have "\<exists>lg. usps_steps E ?d (?d\<lparr>sy_world := w', sy_store := st', sy_calls := (sy_calls ?d)(i \<mapsto> Ended res), sy_log := lg\<rparr>)"
        using True by (intro less.IH [OF _ again]) auto
      then obtain lg where "usps_steps E ?d (?d\<lparr>sy_world := w', sy_store := st', sy_calls := (sy_calls ?d)(i \<mapsto> Ended res), sy_log := lg\<rparr>)"
        by blast
      from usps_steps_trans [OF this to_d]
      have "usps_steps E x (x\<lparr>sy_world := w', sy_store := st', sy_calls := (sy_calls x)(i \<mapsto> Ended res), sy_log := lg\<rparr>)" by simp
      then show ?thesis by blast
    next
      case False
      then have now: "res = api_answer a" "w' = w2" "st' = st1" using run Inr a by auto
      have "usps_steps E x (x\<lparr>sy_world := w', sy_store := st', sy_calls := (sy_calls x)(i \<mapsto> Ended res), sy_log := sy_log ?s\<rparr>)"
        using to_s False by (cases x) (simp add: now if_not_P)
      then show ?thesis by blast
    qed
  qed
qed

subsection \<open>Whose token a request carries\<close>

text \<open>The token was the answer to an exchange in the log, for credentials that have this key.\<close>

definition minted :: "'s usps_env \<Rightarrow> (usps_client \<times> http_request \<times> http_outcome) list \<Rightarrow> string \<Rightarrow> string \<Rightarrow> bool" where
  "minted E lg k token \<longleftrightarrow> (\<exists>c a ttl. (c, usps_token_request c, a) \<in> set lg \<and> credKey E c = k \<and> token_answer E a = Inr (token, ttl))"

lemma minted_append: "minted E lg k token \<Longrightarrow> minted E (lg @ later) k token"
  by (auto simp: minted_def)

lemma minted_now: "token_answer E a = Inr (token, ttl) \<Longrightarrow> minted E (lg @ [(c, usps_token_request c, a)]) (credKey E c) token"
  by (auto simp: minted_def)

definition log_entry_ok :: "'s usps_env \<Rightarrow> (usps_client \<times> http_request \<times> http_outcome) list \<Rightarrow> usps_client \<times> http_request \<times> http_outcome \<Rightarrow> bool" where
  "log_entry_ok E before entry \<longleftrightarrow>
     (case entry of (c, rq, a) \<Rightarrow>
        rq = usps_token_request c \<or> (\<exists>path query token. rq = usps_api_request c path query token \<and> minted E before (credKey E c) token))"

definition store_minted :: "'s usps_env \<Rightarrow> (usps_client \<times> http_request \<times> http_outcome) list \<Rightarrow> token_store \<Rightarrow> bool" where
  "store_minted E lg st \<longleftrightarrow> (\<forall>k ct. st k = Some ct \<longrightarrow> ct_value ct \<noteq> [] \<longrightarrow> minted E lg k (ct_value ct))"

definition held_minted :: "'s usps_env \<Rightarrow> (usps_client \<times> http_request \<times> http_outcome) list \<Rightarrow> (nat \<Rightarrow> usps_phase option) \<Rightarrow> bool" where
  "held_minted E lg calls \<longleftrightarrow> (\<forall>i c path query b token. calls i = Some (Holds c path query b token) \<longrightarrow> minted E lg (credKey E c) token)"

definition log_ok :: "'s usps_env \<Rightarrow> (usps_client \<times> http_request \<times> http_outcome) list \<Rightarrow> bool" where
  "log_ok E lg \<longleftrightarrow> (\<forall>n < length lg. log_entry_ok E (take n lg) (lg ! n))"

definition tokens_inv :: "'s usps_env \<Rightarrow> 's usps_system \<Rightarrow> bool" where
  "tokens_inv E x \<longleftrightarrow> store_minted E (sy_log x) (sy_store x) \<and> held_minted E (sy_log x) (sy_calls x) \<and> log_ok E (sy_log x)"

lemma log_ok_append: "log_ok E lg \<Longrightarrow> log_entry_ok E lg entry \<Longrightarrow> log_ok E (lg @ [entry])"
  by (auto simp: log_ok_def nth_append less_Suc_eq)

lemma held_minted_append: "held_minted E lg calls \<Longrightarrow> held_minted E (lg @ later) calls"
  unfolding held_minted_def using minted_append by blast

lemma held_minted_Holds:
  "held_minted E lg calls \<Longrightarrow> minted E lg (credKey E c) token \<Longrightarrow> held_minted E lg (calls(i \<mapsto> Holds c path query b token))"
  by (simp add: held_minted_def)

lemma held_minted_other:
  "held_minted E lg calls \<Longrightarrow> \<forall>c path query b token. ph \<noteq> Holds c path query b token \<Longrightarrow> held_minted E lg (calls(i \<mapsto> ph))"
  by (simp add: held_minted_def)

lemma slot_minted:
  assumes "tokenSlot E c st = (ct, st')" "store_minted E lg st"
  shows "store_minted E lg st'" and "ct_value ct \<noteq> [] \<Longrightarrow> minted E lg (credKey E c) (ct_value ct)"
  using assms by (auto simp: tokenSlot_def store_minted_def zero_token_def split: option.splits if_splits)

lemma store_minted_append: "store_minted E lg st \<Longrightarrow> store_minted E (lg @ later) st"
  by (auto simp: store_minted_def intro: minted_append)

lemma dropped_minted: "store_minted E lg st \<Longrightarrow> store_minted E lg (invalidateToken E c st)"
  by (auto simp: store_minted_def invalidateToken_def tokenSlot_def split: option.splits if_splits)

lemma stored_minted: "store_minted E lg st \<Longrightarrow> minted E lg (credKey E c) v \<Longrightarrow> store_minted E lg (store_token E c w v ttl st)"
  by (auto simp: store_minted_def store_token_def)

lemma exchange_entry: "log_entry_ok E lg (c, usps_token_request c, a)"
  by (simp add: log_entry_ok_def)

lemma api_entry: "minted E lg (credKey E c) token \<Longrightarrow> log_entry_ok E lg (c, usps_api_request c path query token, a)"
  unfolding log_entry_ok_def by blast

lemma tokens_inv_step: "usps_step E x y \<Longrightarrow> tokens_inv E x \<Longrightarrow> tokens_inv E y"
proof (induction rule: usps_step.induct)
  case (cached x i c path query b ct st)
  then have "ct_value ct \<noteq> []" by (simp add: still_good_def)
  then show ?case using cached slot_minted [OF cached(2)] by (simp add: tokens_inv_def held_minted_Holds)
next
  case (exchanged x i c path query b ct st a w v ttl)
  have "store_minted E (sy_log x) st" using exchanged slot_minted [OF exchanged(2)] by (auto simp: tokens_inv_def)
  then have "store_minted E (sy_log x @ [(c, usps_token_request c, a)]) (store_token E c w v ttl st)"
    by (intro stored_minted store_minted_append minted_now [OF exchanged(5)])
  moreover have "held_minted E (sy_log x @ [(c, usps_token_request c, a)]) ((sy_calls x)(i \<mapsto> Holds c path query b v))"
    using exchanged(6) by (intro held_minted_Holds held_minted_append minted_now [OF exchanged(5)]) (simp add: tokens_inv_def)
  ultimately show ?case using exchanged(6) by (simp add: tokens_inv_def log_ok_append exchange_entry)
next
  case (refused x i c path query b ct st a w e)
  have "store_minted E (sy_log x) st" using refused slot_minted [OF refused(2)] by (auto simp: tokens_inv_def)
  then show ?case using refused(6)
    by (simp add: tokens_inv_def log_ok_append exchange_entry store_minted_append held_minted_append held_minted_other)
next
  case (answered x i c path query b token a w)
  then have "minted E (sy_log x) (credKey E c) token" by (auto simp: tokens_inv_def held_minted_def)
  then show ?case using answered(3)
    by (simp add: tokens_inv_def log_ok_append api_entry store_minted_append held_minted_append held_minted_other)
qed (simp_all add: tokens_inv_def dropped_minted held_minted_other)

lemma tokens_inv_reached: "usps_steps E (fresh_process w) x \<Longrightarrow> tokens_inv E x"
proof (induction "fresh_process w" x rule: usps_steps.induct)
  case none
  show ?case by (simp add: tokens_inv_def fresh_process_def store_minted_def held_minted_def log_ok_def)
qed (rule tokens_inv_step)

text \<open>A consumer key has no colon, so that the text that is hashed tells key and secret apart.\<close>

lemma cred_text_inj:
  assumes "cred_text a = cred_text b" "CHR '':'' \<notin> set (uc_ConsumerKey a)" "CHR '':'' \<notin> set (uc_ConsumerKey b)"
  shows "a = b"
proof -
  have key: "takeWhile (\<lambda>x. x \<noteq> CHR '':'') (cred_text r) = uc_ConsumerKey r" if "CHR '':'' \<notin> set (uc_ConsumerKey r)" for r
    using that by (subst cred_text_def, subst takeWhile_append2) auto
  then have "uc_ConsumerKey a = uc_ConsumerKey b" using assms by metis
  then show ?thesis using assms(1) by (cases a; cases b) (simp add: cred_text_def)
qed

definition log_creds :: "(usps_client \<times> http_request \<times> http_outcome) list \<Rightarrow> usps_cred set" where
  "log_creds lg = (\<lambda>(c, rq, a). us_cred c) ` set lg"

text \<open>C37. No company's requests go out under another company's USPS account. However many calls of however many clients
  share the process's tokens, and whatever USPS answers, every request is either the exchange of the client's own
  credentials, or carries a token that USPS gave earlier for exactly these credentials, as long as SHA-256 does not
  collide on the credentials in use and no consumer key has a colon in it.\<close>

theorem usps_tokens_apart:
  assumes reached: "usps_steps E (fresh_process w) x" and n: "n < length (sy_log x)" "sy_log x ! n = (c, rq, a)"
    and hash: "\<forall>r \<in> log_creds (sy_log x). \<forall>r' \<in> log_creds (sy_log x). ue_hash E (cred_text r) = ue_hash E (cred_text r') \<longrightarrow> cred_text r = cred_text r'"
    and keys: "\<forall>r \<in> log_creds (sy_log x). CHR '':'' \<notin> set (uc_ConsumerKey r)"
  shows "rq = usps_token_request c
    \<or> (\<exists>path query token m c' a' ttl. rq = usps_api_request c path query token
         \<and> m < n \<and> sy_log x ! m = (c', usps_token_request c', a') \<and> us_cred c' = us_cred c \<and> token_answer E a' = Inr (token, ttl))"
proof -
  have "log_entry_ok E (take n (sy_log x)) (c, rq, a)"
    using tokens_inv_reached [OF reached] n by (metis tokens_inv_def log_ok_def)
  then consider "rq = usps_token_request c"
    | path query token where "rq = usps_api_request c path query token" "minted E (take n (sy_log x)) (credKey E c) token"
    by (auto simp: log_entry_ok_def)
  then show ?thesis
  proof cases
    case (2 path query token)
    then obtain c' a' ttl where e: "(c', usps_token_request c', a') \<in> set (take n (sy_log x))" "credKey E c' = credKey E c"
      "token_answer E a' = Inr (token, ttl)" by (auto simp: minted_def)
    then obtain m where m: "m < n" "sy_log x ! m = (c', usps_token_request c', a')" by (auto simp: in_set_conv_nth)
    have "(c, rq, a) \<in> set (sy_log x)" "(c', usps_token_request c', a') \<in> set (sy_log x)"
      using n m(2) less_trans [OF m(1) n(1)] nth_mem by metis+
    then have "us_cred c \<in> log_creds (sy_log x)" "us_cred c' \<in> log_creds (sy_log x)" by (force simp: log_creds_def)+
    then have "us_cred c' = us_cred c" using hash keys e(2) cred_text_inj by (metis credKey_def)
    then show ?thesis using 2(1) m e(3) by blast
  qed simp
qed

definition usps_sample_env :: "unit usps_env" where
  "usps_sample_env = \<lparr>ue_server = (\<lambda>rq w. (Answer \<lparr>rs_status = 200, rs_headers = [], rs_body = ''{}''\<rparr>, w)), ue_now = (\<lambda>w. 0), ue_hash = (\<lambda>s. s),
     ue_token = (\<lambda>b. Inr \<lparr>ut_AccessToken = ''t'', ut_ExpiresIn = 28800\<rparr>),
     ue_address = (\<lambda>b. Inl ''unexpected end of JSON input'')\<rparr>"

definition usps_sample_client :: usps_client where
  "usps_sample_client = usps_NewClientWithCred \<lparr>uc_ConsumerKey = ''key'', uc_ConsumerSecret = ''secret''\<rparr>"

text \<open>The first call of a process: the exchange and the request.\<close>

lemma first_call_log:
  "\<exists>x a. usps_steps usps_sample_env (fresh_process ()) x
    \<and> sy_log x = [(usps_sample_client, usps_token_request usps_sample_client, a),
         (usps_sample_client, usps_api_request usps_sample_client addressPath [] ''t'', a)]"
proof -
  let ?E = usps_sample_env and ?c = usps_sample_client
  let ?a = "Answer \<lparr>rs_status = 200, rs_headers = [], rs_body = ''{}''\<rparr>"
  let ?st = "Map.empty(credKey ?E ?c \<mapsto> zero_token)" and ?ttl = "wrap64 28800000000000"
  let ?x1 = "(fresh_process ())\<lparr>sy_calls := (sy_calls (fresh_process ()))(0 \<mapsto> Wants ?c addressPath [] True)\<rparr>"
  have call: "usps_step ?E (fresh_process ()) ?x1"
    by (rule usps_step.call) (simp add: fresh_process_def)
  let ?x2 = "?x1\<lparr>sy_world := (), sy_store := store_token ?E ?c () ''t'' ?ttl ?st,
      sy_calls := (sy_calls ?x1)(0 \<mapsto> Holds ?c addressPath [] True ''t''), sy_log := sy_log ?x1 @ [(?c, usps_token_request ?c, ?a)]\<rparr>"
  have token: "usps_step ?E ?x1 ?x2"
  proof (rule usps_step.exchanged)
    show "tokenSlot ?E ?c (sy_store ?x1) = (zero_token, ?st)" by (simp add: fresh_process_def tokenSlot_def)
    show "\<not> still_good ?E (sy_world ?x1) zero_token" by (simp add: still_good_def zero_token_def)
    show "ue_server ?E (usps_token_request ?c) (sy_world ?x1) = (?a, ())" by (simp add: usps_sample_env_def)
    show "token_answer ?E ?a = Inr (''t'', ?ttl)" by (simp add: token_answer_def usps_sample_env_def rejected_def)
  qed simp
  let ?x3 = "?x2\<lparr>sy_world := (), sy_calls := (sy_calls ?x2)(0 \<mapsto> if is_rejection ?a \<and> True then Rejected ?c addressPath [] else Ended (api_answer ?a)),
      sy_log := sy_log ?x2 @ [(?c, usps_api_request ?c addressPath [] ''t'', ?a)]\<rparr>"
  have sent: "usps_step ?E ?x2 ?x3"
    by (rule usps_step.answered) (simp_all add: usps_sample_env_def)
  have "usps_steps ?E (fresh_process ()) ?x3"
    using usps_steps.more [OF usps_steps.more [OF usps_step_steps [OF call] token] sent] .
  moreover have "sy_log ?x3 = [(?c, usps_token_request ?c, ?a), (?c, usps_api_request ?c addressPath [] ''t'', ?a)]"
    by (simp add: fresh_process_def)
  ultimately show ?thesis by blast
qed

lemma usps_tokens_apart_witness:
  "\<exists>x a. usps_steps usps_sample_env (fresh_process ()) x
     \<and> sy_log x ! 1 = (usps_sample_client, usps_api_request usps_sample_client addressPath [] ''t'', a)
     \<and> (\<exists>path query token m c' a' ttl. usps_api_request usps_sample_client addressPath [] ''t'' = usps_api_request usps_sample_client path query token
         \<and> m < 1 \<and> sy_log x ! m = (c', usps_token_request c', a') \<and> us_cred c' = us_cred usps_sample_client
         \<and> token_answer usps_sample_env a' = Inr (token, ttl))"
proof -
  let ?rq = "usps_api_request usps_sample_client addressPath [] ''t''"
  obtain x a1 where x: "usps_steps usps_sample_env (fresh_process ()) x"
    and lg: "sy_log x = [(usps_sample_client, usps_token_request usps_sample_client, a1), (usps_sample_client, ?rq, a1)]"
    using first_call_log by blast
  then have n: "1 < length (sy_log x)" "sy_log x ! 1 = (usps_sample_client, ?rq, a1)" by simp_all
  have creds: "log_creds (sy_log x) = {\<lparr>uc_ConsumerKey = ''key'', uc_ConsumerSecret = ''secret''\<rparr>}"
    by (simp add: lg log_creds_def usps_sample_client_def usps_NewClientWithCred_def usps_NewClient_def Let_def)
  have "?rq \<noteq> usps_token_request usps_sample_client" by (simp add: usps_api_request_def usps_token_request_def)
  moreover have "\<forall>r \<in> log_creds (sy_log x). \<forall>r' \<in> log_creds (sy_log x).
      ue_hash usps_sample_env (cred_text r) = ue_hash usps_sample_env (cred_text r') \<longrightarrow> cred_text r = cred_text r'"
    "\<forall>r \<in> log_creds (sy_log x). CHR '':'' \<notin> set (uc_ConsumerKey r)" by (simp_all add: creds)
  note apart = usps_tokens_apart [OF x n this]
  ultimately have "\<exists>path query token m c' a' ttl. ?rq = usps_api_request usps_sample_client path query token
         \<and> m < 1 \<and> sy_log x ! m = (c', usps_token_request c', a') \<and> us_cred c' = us_cred usps_sample_client
         \<and> token_answer usps_sample_env a' = Inr (token, ttl)" using apart by (simp only: simp_thms)
  then show ?thesis using x n(2) by blast
qed

text \<open>With a colon in a consumer key two companies can share a slot.\<close>

lemma colon_shares_slot:
  "us_cred c = \<lparr>uc_ConsumerKey = ''a:b'', uc_ConsumerSecret = ''c''\<rparr> \<Longrightarrow>
   us_cred c' = \<lparr>uc_ConsumerKey = ''a'', uc_ConsumerSecret = ''b:c''\<rparr> \<Longrightarrow> credKey E c = credKey E c'"
  by (simp add: credKey_def cred_text_def)

subsection \<open>The retry\<close>

lemma slot_dropped: "\<exists>ct. tokenSlot E c (invalidateToken E c st) = (ct, invalidateToken E c st) \<and> ct_value ct = []"
proof -
  obtain ct st' where "tokenSlot E c st = (ct, st')" by (metis prod.collapse)
  then have "invalidateToken E c st = st'(credKey E c \<mapsto> ct\<lparr>ct_value := []\<rparr>)" by (simp add: invalidateToken_def)
  then show ?thesis by (simp add: tokenSlot_def)
qed

text \<open>A kept token that USPS no longer takes is dropped and exchanged, and the call goes on with the new one.\<close>

lemma stale_token_replaced:
  assumes "still_good E w (fst (tokenSlot E c st))"
    and "ue_server E (usps_api_request c path query (ct_value (fst (tokenSlot E c st)))) w = (Answer r, w1)" "rejected (rs_status r)"
    and "fetchToken E c w1 = (Inr (v, ttl), w2)" and "ue_server E (usps_api_request c path query v) w2 = (a, w3)"
  shows "\<exists>st'. usps_doRequest E c path query True (w, st) = (api_answer a, w3, st')"
proof -
  obtain ct st1 where slot: "tokenSlot E c st = (ct, st1)" by (metis prod.collapse)
  then have first: "usps_token E c (w, st) = (Inr (ct_value ct), w, st1)" using assms(1) by (simp add: usps_token_def)
  obtain ct' where drop: "tokenSlot E c (invalidateToken E c st1) = (ct', invalidateToken E c st1)" "ct_value ct' = []"
    using slot_dropped by blast
  then have "usps_token E c (w1, invalidateToken E c st1) = (Inr v, w2, store_token E c w2 v ttl (invalidateToken E c st1))"
    using assms(4) by (simp add: usps_token_def still_good_def)
  then show ?thesis using first slot assms(2,3,5)
    by (simp add: usps_doRequest.simps [of E c path query True] usps_doRequest.simps [of E c path query False] is_rejection_def)
qed

text \<open>A token that lasts no longer than the margin is exchanged anew for every call.\<close>

lemma short_lived_token:
  "token_answer E a = Inr (v, ttl) \<Longrightarrow> ttl \<le> tokenRefreshSkew \<Longrightarrow> ue_now E w \<le> ue_now E w' \<Longrightarrow>
     \<not> still_good E w' (fst (tokenSlot E c (store_token E c w v ttl st)))"
  by (simp add: still_good_def tokenSlot_def store_token_def)

text \<open>An address counts as verified on a \<open>Y\<close> of USPS only; any other answer that can be read is not an error.\<close>

lemma verified_iff:
  "VerifyAddress E c req ws = (Inr result, ws') \<Longrightarrow> as_Verified result \<longleftrightarrow> as_DPV result = ''Y''"
  by (auto simp: VerifyAddress_def split: prod.splits sum.splits)

end
