(* ===== verification/Fmcsa.thy ===== *)
theory Fmcsa
  imports Go_Url Go_Float Request_Context
begin

text \<open>
  The check of a motor carrier or broker: the client of the internal FMCSA service (\<open>src/client/fmcsa/fmcsa_internal.go\<close>,
  \<open>fmcsa_helpers.go\<close>, \<open>fmcsa_dto.go\<close>) with its errors (\<open>fmcsa_errors\<close>), the search of FMCSA itself by name
  (\<open>fmcsa_external\<close>) and the client of the SAFER service (\<open>src/client/saferapi\<close>). The servers and JSON decoding are
  parameters. A call ends in a panic, an error or a value.
\<close>

subsection \<open>Results and errors\<close>

record fm_result =
  fr_DotNumber :: int
  fr_LegalName :: string
  fr_DbaName :: string
  fr_EntityType :: string
  fr_OperatingStatus :: "string option"
  fr_Phone :: string
  fr_PhyStreet :: string
  fr_PhyCity :: string
  fr_PhyState :: string
  fr_PhyZip :: string
  fr_PhyCountry :: string
  fr_MailStreet :: string
  fr_MailCity :: string
  fr_MailState :: string
  fr_MailZip :: string
  fr_MailCountry :: string
  fr_CarrierOperation :: string
  fr_Classdef :: string
  fr_PowerUnits :: int
  fr_TotalDrivers :: int
  fr_IsCarrier :: bool
  fr_IsBroker :: bool
  fr_McNumber :: string
  fr_FfNumber :: string
  fr_StatusCode :: "string option"
  fr_Score :: "flt option"
  fr_AllowedToOperate :: "bool option"
  fr_OutOfServiceDate :: "string option"
  fr_LiveDataAvailable :: "bool option"

record search_params =
  sp_Query :: string
  sp_Limit :: int
  sp_Offset :: int
  sp_ActiveOnly :: bool

datatype fm_err =
    FmErr string
  | FmWrap string fm_err
  | InvalidArgument string
  | MCVerificationError int string "fm_err option"
  | CompanyCheckError int string "fm_err option"
  | CompanyVerificationUnavailable int
  | CompanyNoAuth int
  | CompanyInvalidEntity int string string

text \<open>\<open>%v\<close> of an error, also of the gRPC status errors.\<close>

fun fm_Error :: "fm_err \<Rightarrow> string" where
  "fm_Error (FmErr t) = t"
| "fm_Error (FmWrap t e) = t @ '': '' @ fm_Error e"
| "fm_Error (InvalidArgument t) = ''rpc error: code = InvalidArgument desc = '' @ t"
| "fm_Error (MCVerificationError s mc None) = ''failed to verify MC '' @ mc"
| "fm_Error (MCVerificationError s mc (Some e)) = ''failed to verify MC '' @ mc @ '': '' @ fm_Error e"
| "fm_Error (CompanyCheckError s dot None) = ''failed check company status for DOT '' @ dot"
| "fm_Error (CompanyCheckError s dot (Some e)) = ''failed check company status for DOT '' @ dot @ '': '' @ fm_Error e"
| "fm_Error (CompanyVerificationUnavailable s) = ''FMCSA verification is temporarily unavailable, please try again shortly''"
| "fm_Error (CompanyNoAuth s) = ''current Company Operating Authority Status is not valid for registration''"
| "fm_Error (CompanyInvalidEntity s entity actual) = ''entity must be '' @ upper_utf8 entity @ '': '' @ actual"

fun fm_Unwrap :: "fm_err \<Rightarrow> fm_err option" where
  "fm_Unwrap (FmWrap t e) = Some e"
| "fm_Unwrap (MCVerificationError s mc e) = e"
| "fm_Unwrap (CompanyCheckError s dot e) = e"
| "fm_Unwrap e = None"

datatype 'a attempt = Panics | Fails fm_err | Gives 'a

definition and_then :: "'a attempt \<times> 's \<Rightarrow> ('a \<Rightarrow> 's \<Rightarrow> 'b attempt \<times> 's) \<Rightarrow> 'b attempt \<times> 's" where
  "and_then r f = (case r of (Panics, s) \<Rightarrow> (Panics, s) | (Fails e, s) \<Rightarrow> (Fails e, s) | (Gives v, s) \<Rightarrow> f v s)"

definition on_error :: "'a attempt \<times> 's \<Rightarrow> (fm_err \<Rightarrow> fm_err) \<Rightarrow> 'a attempt \<times> 's" where
  "on_error r f = (case r of (Fails e, s) \<Rightarrow> (Fails (f e), s) | _ \<Rightarrow> r)"

lemma and_then_Gives: "and_then r f = (Gives v, s') \<longleftrightarrow> (\<exists>u s. r = (Gives u, s) \<and> f u s = (Gives v, s'))"
  by (cases r; cases "fst r") (auto simp: and_then_def)

lemma on_error_Gives [simp]: "on_error r f = (Gives v, s') \<longleftrightarrow> r = (Gives v, s')"
  by (cases r; cases "fst r") (auto simp: on_error_def)

lemma and_then_simps [simp]:
  "and_then (Panics, s) f = (Panics, s)" "and_then (Fails e, s) f = (Fails e, s)" "and_then (Gives v, s) f = f v s"
  by (simp_all add: and_then_def)

lemma on_error_simps [simp]:
  "on_error (Panics, s) g = (Panics, s)" "on_error (Fails e, s) g = (Fails (g e), s)" "on_error (Gives v, s) g = (Gives v, s)"
  by (simp_all add: on_error_def)

subsection \<open>The verdict on a company\<close>

definition VerificationUnavailable :: "fm_result \<Rightarrow> bool" where
  "VerificationUnavailable r \<longleftrightarrow> fr_OperatingStatus r = None \<and> fr_LiveDataAvailable r = Some False"

definition fm_IsValid :: "fm_result \<Rightarrow> bool" where
  "fm_IsValid r =
     (case fr_OperatingStatus r of
        None \<Rightarrow> False
      | Some st \<Rightarrow> if TrimSpace (upper_utf8 st) = ''NOT AUTHORIZED'' then False else fr_AllowedToOperate r \<noteq> Some False)"

definition CheckIsCarrier :: "fm_result \<Rightarrow> bool" where
  "CheckIsCarrier r \<longleftrightarrow> fr_IsCarrier r \<or> go_contains (lower_utf8 (fr_EntityType r)) ''carrier''"

definition CheckIsBroker :: "fm_result \<Rightarrow> bool" where
  "CheckIsBroker r \<longleftrightarrow> fr_IsBroker r \<or> go_contains (lower_utf8 (fr_EntityType r)) ''broker''"

definition CheckIs :: "fm_result \<Rightarrow> string \<Rightarrow> bool" where
  "CheckIs r entityType =
     (let entity = lower_utf8 (TrimSpace entityType) in
      if entity = ''carrier'' then CheckIsCarrier r else if entity = ''broker'' then CheckIsBroker r else False)"

subsection \<open>Requests\<close>

record fm_client =
  fc_baseURL :: string
  fc_systemAPIKey :: string

text \<open>The context, with the entry of \<open>WithSystemAuth\<close>.\<close>

record fm_context =
  fx_ctx :: go_context
  fx_system :: bool

definition WithSystemAuth :: "fm_context \<Rightarrow> fm_context" where
  "WithSystemAuth X = X\<lparr>fx_system := True\<rparr>"

definition isSystemAuth :: "fm_context \<Rightarrow> bool" where
  "isSystemAuth X = fx_system X"

text \<open>The caller's own token; the actor of a cleared context is a nil pointer, which is not looked at.\<close>

definition actor_header :: "go_context \<Rightarrow> (string \<times> string) attempt" where
  "actor_header ctx =
     (case GetActor ctx of
        None \<Rightarrow> Fails (FmWrap ''failed to get actor from context'' (FmErr ''actor not found in context''))
      | Some None \<Rightarrow> Panics
      | Some (Some a) \<Rightarrow>
          (case Token a of None \<Rightarrow> Fails (FmErr ''no auth token found in context'') | Some t \<Rightarrow> Gives (''Authorization'', ''Bearer '' @ t)))"

definition fm_setAuthToken :: "fm_client \<Rightarrow> fm_context \<Rightarrow> (string \<times> string) attempt" where
  "fm_setAuthToken c X =
     (if isSystemAuth X
      then (if fc_systemAPIKey c = [] then Fails (FmErr ''system API key is not configured on the client'')
            else Gives (''X-API-Key'', fc_systemAPIKey c))
      else actor_header (fx_ctx X))"

text \<open>What \<open>url.Parse\<close> and \<open>String\<close> make of an address with a path appended, and of its query. The configured address has no
  user, query or fragment and a host that prints as it is written.\<close>

definition path_byte :: "char \<Rightarrow> bool" where
  "path_byte c \<longleftrightarrow> unreserved c \<or> c \<in> set ''$&+,/:;=@''"

definition raw_path_byte :: "char \<Rightarrow> bool" where
  "raw_path_byte c \<longleftrightarrow> path_byte c \<or> c \<in> set ''!()*[]%'' \<or> c = CHR 0x27"

definition escaped_path :: "string \<Rightarrow> string" where
  "escaped_path p =
     (if list_all raw_path_byte p then p
      else concat (map (\<lambda>c. if path_byte c then [c] else escape_byte c) (case url_unescape PartOther p of Some q \<Rightarrow> q | None \<Rightarrow> p)))"

definition split_path :: "string \<Rightarrow> string \<times> string" where
  "split_path raw =
     (case getScheme raw [] raw of
        Some (sch, rest) \<Rightarrow>
          if sch \<noteq> [] \<and> is_prefix ''//'' rest
          then (map to_lower_char sch @ ''://'' @ takeWhile (\<lambda>c. c \<noteq> CHR ''/'') (drop 2 rest), dropWhile (\<lambda>c. c \<noteq> CHR ''/'') (drop 2 rest))
          else ([], raw)
      | None \<Rightarrow> ([], raw))"

definition with_query :: "string \<Rightarrow> (string \<times> string) list \<Rightarrow> fm_err + string" where
  "with_query raw q =
     (if url_Parse raw = None then Inl (FmErr ''failed to parse URL'')
      else Inr (fst (split_path raw) @ escaped_path (snd (split_path raw)) @ ''?'' @ values_Encode q))"

text \<open>JSON decoding: a result, the results of a search (a \<open>null\<close> among them is \<open>None\<close>), the details of a 422 (whether decoding
  failed, and what it left in the list, which may be nil) and the message of a SAFER error.\<close>

record fm_codec =
  fk_result :: "string \<Rightarrow> string + fm_result"
  fk_search :: "string \<Rightarrow> string + fm_result option list"
  fk_details :: "string \<Rightarrow> bool \<times> string list option"

definition details_error :: "(string \<Rightarrow> bool \<times> string list option) \<Rightarrow> string \<Rightarrow> string" where
  "details_error dec body =
     (case dec body of
        (failed, detail) \<Rightarrow>
          if \<not> failed \<and> detail \<noteq> None then ''422 status but decode failed (Body: '' @ body @ '')''
          else (case detail of Some (m # ms) \<Rightarrow> ''validation error: '' @ m | _ \<Rightarrow> ''validation error: unknown details''))"

definition fm_handleAPIError :: "fm_codec \<Rightarrow> int \<Rightarrow> string \<Rightarrow> fm_err" where
  "fm_handleAPIError K status body =
     FmErr (if status = 422 then details_error (fk_details K) body
            else if status = 400 then ''bad request: '' @ body
            else ''api returned unexpected status '' @ show_int status @ '' (Body: '' @ body @ '')'')"

text \<open>An address that \<open>url.Parse\<close> took and \<open>String\<close> printed makes a request, so that the order of this and of the token does
  not matter.\<close>

definition fm_send :: "'s http_server \<Rightarrow> fm_codec \<Rightarrow> (string \<Rightarrow> string + 'a) \<Rightarrow> string \<Rightarrow> string \<times> string \<Rightarrow> 's \<Rightarrow> 'a attempt \<times> 's" where
  "fm_send srv K dec fullURL auth s =
     (case srv \<lparr>rq_method = ''GET'', rq_url = fullURL, rq_headers = [auth], rq_body = None\<rparr> s of
        (BadUrl e, s') \<Rightarrow> (Fails (FmErr (''failed to create request: '' @ e)), s')
      | (NoAnswer e, s') \<Rightarrow> (Fails (FmErr (''fmcsa api call failed: '' @ e)), s')
      | (Answer r, s') \<Rightarrow>
          (if rs_status r > 300 then Fails (fm_handleAPIError K (rs_status r) (rs_body r))
           else (case dec (rs_body r) of Inl e \<Rightarrow> Fails (FmErr (''failed to decode fmcsa response: '' @ e)) | Inr v \<Rightarrow> Gives v), s'))"

definition fm_get :: "'s http_server \<Rightarrow> fm_codec \<Rightarrow> fm_client \<Rightarrow> fm_context \<Rightarrow> (string \<Rightarrow> string + 'a) \<Rightarrow> string \<Rightarrow> (string \<times> string) list
    \<Rightarrow> 's \<Rightarrow> 'a attempt \<times> 's" where
  "fm_get srv K c X dec path q s =
     (case with_query (fc_baseURL c @ path) q of
        Inl e \<Rightarrow> (Fails e, s)
      | Inr fullURL \<Rightarrow>
          and_then (on_error (fm_setAuthToken c X, s) (FmWrap ''failed to set auth token'')) (\<lambda>auth. fm_send srv K dec fullURL auth))"

subsection \<open>Searching\<close>

definition all_digits :: "string \<Rightarrow> bool" where
  "all_digits s \<longleftrightarrow> s \<noteq> [] \<and> list_all (byte_in (CHR ''0'') (CHR ''9'')) s"

definition validateDotNumber :: "string \<Rightarrow> fm_err option" where
  "validateDotNumber dot =
     (let d = TrimSpace dot in
      if d = [] then Some (InvalidArgument ''DOT number cannot be empty'')
      else if \<not> all_digits d then Some (FmErr ''MC number must contain only integers'') else None)"

definition validateMCNumber :: "string \<Rightarrow> fm_err option" where
  "validateMCNumber mc =
     (let d = TrimSpace mc in
      if d = [] then Some (InvalidArgument ''MC number cannot be empty'')
      else if \<not> all_digits d then Some (FmErr ''MC number must contain only integers'') else None)"

definition show_bool :: "bool \<Rightarrow> string" where
  "show_bool b = (if b then ''true'' else ''false'')"

definition executeSearch :: "'s http_server \<Rightarrow> fm_codec \<Rightarrow> fm_client \<Rightarrow> fm_context \<Rightarrow> string \<Rightarrow> search_params \<Rightarrow> 's
    \<Rightarrow> fm_result option list attempt \<times> 's" where
  "executeSearch srv K c X entityType params =
     fm_get srv K c X (fk_search K) (''/api/v1/'' @ entityType)
       [(''q'', sp_Query params), (''limit'', show_int (sp_Limit params)), (''offset'', show_int (sp_Offset params)),
        (''active_only'', show_bool (sp_ActiveOnly params))]"

definition SearchBrokers :: "'s http_server \<Rightarrow> fm_codec \<Rightarrow> fm_client \<Rightarrow> fm_context \<Rightarrow> search_params \<Rightarrow> 's \<Rightarrow> fm_result option list attempt \<times> 's" where
  "SearchBrokers srv K c X = executeSearch srv K c X ''brokers''"

definition SearchCarriers :: "'s http_server \<Rightarrow> fm_codec \<Rightarrow> fm_client \<Rightarrow> fm_context \<Rightarrow> search_params \<Rightarrow> 's \<Rightarrow> fm_result option list attempt \<times> 's" where
  "SearchCarriers srv K c X = executeSearch srv K c X ''carriers''"

definition in_quotes :: "string \<Rightarrow> string" where
  "in_quotes s = [CHR 0x27] @ s @ [CHR 0x27]"

definition FetchFMCSAResults :: "'s http_server \<Rightarrow> fm_codec \<Rightarrow> fm_client \<Rightarrow> fm_context \<Rightarrow> string \<Rightarrow> string \<Rightarrow> 's
    \<Rightarrow> fm_result option list attempt \<times> 's" where
  "FetchFMCSAResults srv K c X query entityType s =
     (let params = \<lparr>sp_Query = query, sp_Limit = 20, sp_Offset = 0, sp_ActiveOnly = True\<rparr>;
          failed = FmWrap (''failed to search FMCSA for '' @ entityType) in
      if TrimSpace entityType = [] then (Fails (InvalidArgument ''entity type is required''), s)
      else if entityType = ''carrier'' then on_error (SearchCarriers srv K c X params s) failed
      else if entityType = ''broker'' then on_error (SearchBrokers srv K c X params s) failed
      else (Fails (InvalidArgument (''entity type must be either '' @ in_quotes ''carrier'' @ '' or '' @ in_quotes ''broker'')), s))"

text \<open>The loop over the results: a \<open>null\<close> is dereferenced.\<close>

fun first_matching :: "(fm_result \<Rightarrow> bool) \<Rightarrow> fm_result option list \<Rightarrow> fm_result option attempt" where
  "first_matching P [] = Gives None"
| "first_matching P (None # rs) = Panics"
| "first_matching P (Some r # rs) = (if P r then Gives (Some r) else first_matching P rs)"

definition SearchByDOT :: "'s http_server \<Rightarrow> fm_codec \<Rightarrow> fm_client \<Rightarrow> fm_context \<Rightarrow> string \<Rightarrow> string \<Rightarrow> 's \<Rightarrow> fm_result option attempt \<times> 's" where
  "SearchByDOT srv K c X dotNumber entityType s =
     (case validateDotNumber dotNumber of
        Some e \<Rightarrow> (Fails e, s)
      | None \<Rightarrow> and_then (FetchFMCSAResults srv K c X dotNumber entityType s)
                  (\<lambda>results s'. (first_matching (\<lambda>r. show_int (fr_DotNumber r) = dotNumber) results, s')))"

text \<open>\<open>strings.ReplaceAll (s, abc, "")\<close>.\<close>

fun remove_three :: "char \<Rightarrow> char \<Rightarrow> char \<Rightarrow> string \<Rightarrow> string" where
  "remove_three a b c (x # y # z # s) =
     (if x = a \<and> y = b \<and> z = c then remove_three a b c s else x # remove_three a b c (y # z # s))"
| "remove_three a b c s = s"

definition cleanMC :: "string \<Rightarrow> string" where
  "cleanMC s = remove_three (CHR ''M'') (CHR ''X'') (CHR ''-'') (remove_three (CHR ''F'') (CHR ''F'') (CHR ''-'')
     (remove_three (CHR ''M'') (CHR ''C'') (CHR ''-'') (upper_utf8 s)))"

definition SearchByMC :: "'s http_server \<Rightarrow> fm_codec \<Rightarrow> fm_client \<Rightarrow> fm_context \<Rightarrow> string \<Rightarrow> string \<Rightarrow> 's \<Rightarrow> fm_result option attempt \<times> 's" where
  "SearchByMC srv K c X mcNumber entityType s =
     (case validateMCNumber mcNumber of
        Some e \<Rightarrow> (Fails e, s)
      | None \<Rightarrow> and_then (FetchFMCSAResults srv K c X (cleanMC mcNumber) entityType s)
                  (\<lambda>results s'. (first_matching (\<lambda>r. cleanMC (fr_McNumber r) = cleanMC mcNumber) results, s')))"

subsection \<open>Checking\<close>

definition GetCompany :: "'s http_server \<Rightarrow> fm_codec \<Rightarrow> fm_client \<Rightarrow> fm_context \<Rightarrow> string \<Rightarrow> 's \<Rightarrow> fm_result attempt \<times> 's" where
  "GetCompany srv K c X dotNumber s =
     (case validateDotNumber dotNumber of
        Some e \<Rightarrow> (Fails e, s)
      | None \<Rightarrow> fm_get srv K c X (fk_result K) (''/api/v1/companies/'' @ dotNumber) [(''dot_number'', dotNumber)] s)"

definition company_verdict :: "fm_result \<Rightarrow> string \<Rightarrow> fm_result attempt" where
  "company_verdict company entityType =
     (if VerificationUnavailable company then Fails (CompanyVerificationUnavailable 503)
      else if \<not> fm_IsValid company then Fails (CompanyNoAuth 400)
      else if \<not> CheckIs company entityType then Fails (CompanyInvalidEntity 400 entityType (fr_EntityType company))
      else Gives company)"

definition VerifyCompany :: "'s http_server \<Rightarrow> fm_codec \<Rightarrow> fm_client \<Rightarrow> fm_context \<Rightarrow> string \<Rightarrow> string \<Rightarrow> 's \<Rightarrow> fm_result attempt \<times> 's" where
  "VerifyCompany srv K c X dotNumber entityType s =
     and_then (on_error (GetCompany srv K c X dotNumber s) (\<lambda>e. CompanyCheckError 400 dotNumber (Some e)))
       (\<lambda>company s'. (company_verdict company entityType, s'))"

definition CheckCompanyByDOT :: "'s http_server \<Rightarrow> fm_codec \<Rightarrow> fm_client \<Rightarrow> fm_context \<Rightarrow> string \<Rightarrow> string \<Rightarrow> 's \<Rightarrow> fm_result attempt \<times> 's" where
  "CheckCompanyByDOT srv K c X dotNumber entityType = VerifyCompany srv K c X dotNumber entityType"

definition CheckCompanyByMC :: "'s http_server \<Rightarrow> fm_codec \<Rightarrow> fm_client \<Rightarrow> fm_context \<Rightarrow> string \<Rightarrow> string \<Rightarrow> 's \<Rightarrow> fm_result attempt \<times> 's" where
  "CheckCompanyByMC srv K c X mcNumber entityType s =
     and_then (on_error (SearchByMC srv K c X mcNumber entityType s) (\<lambda>e. MCVerificationError 400 mcNumber (Some e)))
       (\<lambda>found s'. case found of
          None \<Rightarrow> (Fails (MCVerificationError 400 mcNumber None), s')
        | Some r \<Rightarrow> VerifyCompany srv K c X (show_int (fr_DotNumber r)) entityType s')"

subsection \<open>What the verdict rests on\<close>

text \<open>The search listed a company with this number, and the service answered with \<open>r\<close> for its DOT number.\<close>

definition company_found :: "'s http_server \<Rightarrow> fm_codec \<Rightarrow> fm_client \<Rightarrow> fm_context \<Rightarrow> string \<Rightarrow> string \<Rightarrow> 's \<Rightarrow> fm_result \<Rightarrow> 's \<Rightarrow> bool" where
  "company_found srv K c X mcNumber entityType s r s' \<longleftrightarrow>
     (\<exists>results s1 x. FetchFMCSAResults srv K c X (cleanMC mcNumber) entityType s = (Gives results, s1) \<and> Some x \<in> set results
        \<and> cleanMC (fr_McNumber x) = cleanMC mcNumber \<and> GetCompany srv K c X (show_int (fr_DotNumber x)) s1 = (Gives r, s'))"

lemma first_matching_found: "first_matching P rs = Gives (Some r) \<Longrightarrow> Some r \<in> set rs \<and> P r"
  by (induction P rs rule: first_matching.induct) (auto split: if_splits)

lemma first_matching_total: "first_matching P rs \<noteq> Fails e"
  by (induction P rs rule: first_matching.induct) auto

lemma SearchByMC_found:
  assumes "SearchByMC srv K c X mc entity s = (Gives (Some x), s1)"
  shows "all_digits (TrimSpace mc)" and "\<exists>results. FetchFMCSAResults srv K c X (cleanMC mc) entity s = (Gives results, s1)
      \<and> Some x \<in> set results \<and> cleanMC (fr_McNumber x) = cleanMC mc"
  using assms first_matching_found
  by (auto simp: SearchByMC_def validateMCNumber_def Let_def and_then_Gives split: option.splits if_splits dest!: first_matching_found)

text \<open>The outcome once a company is found.\<close>

lemma CheckCompanyByMC_cases:
  assumes "CheckCompanyByMC srv K c X mc entity s = (out, s')"
  obtains "out = Panics" | e where "out = Fails (MCVerificationError 400 mc e)" | dot e where "out = Fails (CompanyCheckError 400 dot (Some e))"
  | r where "all_digits (TrimSpace mc)" "company_found srv K c X mc entity s r s'" "out = company_verdict r entity"
proof -
  obtain found s1 where search: "SearchByMC srv K c X mc entity s = (found, s1)" by (metis prod.collapse)
  note run = assms [unfolded CheckCompanyByMC_def search]
  show ?thesis
  proof (cases found)
    case (Gives x)
    show ?thesis
    proof (cases x)
      case (Some x')
      obtain got s2 where got: "GetCompany srv K c X (show_int (fr_DotNumber x')) s1 = (got, s2)" by (metis prod.collapse)
      show ?thesis
      proof (cases got)
        case (Gives r)
        have search': "SearchByMC srv K c X mc entity s = (Gives (Some x'), s1)" using search \<open>found = Gives x\<close> Some by simp
        have "out = company_verdict r entity" "s' = s2" using run \<open>found = Gives x\<close> Some got Gives by (simp_all add: VerifyCompany_def)
        moreover have "company_found srv K c X mc entity s r s2"
          using SearchByMC_found(2) [OF search'] got Gives unfolding company_found_def by blast
        ultimately show ?thesis using that(4) SearchByMC_found(1) [OF search'] by simp
      qed (use that run \<open>found = Gives x\<close> Some got in \<open>auto simp: VerifyCompany_def\<close>)
    next
      case None
      then have "out = Fails (MCVerificationError 400 mc None)" using run Gives by simp
      then show ?thesis by (rule that(2))
    qed
  qed (use that run in auto)
qed


definition sample_company :: fm_result where
  "sample_company = \<lparr>fr_DotNumber = 7, fr_LegalName = ''Acme'', fr_DbaName = [], fr_EntityType = ''BROKER'',
     fr_OperatingStatus = Some ''AUTHORIZED FOR Property'', fr_Phone = [], fr_PhyStreet = [], fr_PhyCity = [],
     fr_PhyState = [], fr_PhyZip = [], fr_PhyCountry = [], fr_MailStreet = [], fr_MailCity = [], fr_MailState = [],
     fr_MailZip = [], fr_MailCountry = [], fr_CarrierOperation = [], fr_Classdef = [], fr_PowerUnits = 0,
     fr_TotalDrivers = 0, fr_IsCarrier = False, fr_IsBroker = True, fr_McNumber = ''MC-123'', fr_FfNumber = [],
     fr_StatusCode = None, fr_Score = None, fr_AllowedToOperate = None, fr_OutOfServiceDate = None,
     fr_LiveDataAvailable = Some True\<rparr>"

definition sample_fm_codec :: "fm_result \<Rightarrow> fm_codec" where
  "sample_fm_codec r = \<lparr>fk_result = (\<lambda>b. Inr r), fk_search = (\<lambda>b. Inr [Some r]), fk_details = (\<lambda>b. (True, None))\<rparr>"

definition fm_answering :: "unit http_server" where
  "fm_answering rq s = (Answer \<lparr>rs_status = 200, rs_headers = [], rs_body = ''{}''\<rparr>, s)"

definition sample_fm_client :: fm_client where
  "sample_fm_client = \<lparr>fc_baseURL = ''http://fmcsa'', fc_systemAPIKey = ''k''\<rparr>"

definition sample_fm_context :: fm_context where
  "sample_fm_context = WithSystemAuth \<lparr>fx_ctx = background, fx_system = False\<rparr>"

lemma sample_fm_get:
  assumes "url_Parse (fc_baseURL sample_fm_client @ path) \<noteq> None"
  shows "fm_get fm_answering K sample_fm_client sample_fm_context dec path q s
    = (case dec ''{}'' of Inl e \<Rightarrow> Fails (FmErr (''failed to decode fmcsa response: '' @ e)) | Inr v \<Rightarrow> Gives v, s)"
proof -
  have "fm_setAuthToken sample_fm_client sample_fm_context = Gives (''X-API-Key'', ''k'')"
    by (simp add: sample_fm_client_def sample_fm_context_def fm_setAuthToken_def isSystemAuth_def WithSystemAuth_def)
  then show ?thesis using assms by (auto simp: fm_get_def with_query_def fm_send_def fm_answering_def)
qed

lemma sample_urls: "url_Parse (fc_baseURL sample_fm_client @ ''/api/v1/brokers'') \<noteq> None" "url_Parse (fc_baseURL sample_fm_client @ ''/api/v1/companies/7'') \<noteq> None"
  by (simp_all add: url_simps sample_fm_client_def)

lemma TrimSpace_broker: "TrimSpace ''broker'' = ''broker''"
  by code_simp

lemma sample_search:
  assumes "validateMCNumber mc = None" "cleanMC mc = cleanMC (fr_McNumber r)"
  shows "SearchByMC fm_answering (sample_fm_codec r) sample_fm_client sample_fm_context mc ''broker'' s = (Gives (Some r), s)"
  using assms
  by (simp add: SearchByMC_def FetchFMCSAResults_def SearchBrokers_def executeSearch_def sample_fm_get [OF sample_urls(1)] sample_fm_codec_def
      Let_def TrimSpace_broker)


subsection \<open>What the numbers match\<close>

text \<open>A prefix that would be cleaned away is refused before; blanks are accepted, but nothing ever matches with them; and the
  number of a freight forwarder matches the same digits of a motor carrier.\<close>

lemma prefixed_mc_refused: "fst (SearchByMC srv K c X ''MC-12345'' entity s) = Fails (FmErr ''MC number must contain only integers'')"
proof -
  have "validateMCNumber ''MC-12345'' = Some (FmErr ''MC number must contain only integers'')" by code_simp
  then show ?thesis by (simp add: SearchByMC_def)
qed

lemma ff_number_matches:
  "SearchByMC fm_answering (sample_fm_codec (sample_company\<lparr>fr_McNumber := ''FF-123''\<rparr>)) sample_fm_client sample_fm_context ''123'' ''broker'' s
   = (Gives (Some (sample_company\<lparr>fr_McNumber := ''FF-123''\<rparr>)), s)"
proof -
  have "validateMCNumber ''123'' = None" "cleanMC ''123'' = cleanMC (fr_McNumber (sample_company\<lparr>fr_McNumber := ''FF-123''\<rparr>))" by code_simp+
  then show ?thesis by (rule sample_search)
qed


lemma padded_dot_not_found:
  assumes "validateDotNumber dot = None" "CHR '' '' \<in> set dot" "SearchByDOT srv K c X dot entity s = (Gives found, s')"
  shows "found = None"
proof (rule ccontr)
  assume "found \<noteq> None"
  then obtain r where "found = Some r" by blast
  then obtain results where "first_matching (\<lambda>r. show_int (fr_DotNumber r) = dot) results = Gives (Some r)"
    using assms(1,3) by (auto simp: SearchByDOT_def and_then_Gives)
  from first_matching_found [OF this] have "show_int (fr_DotNumber r) = dot" by simp
  moreover have "CHR '' '' \<notin> set (show_int n)" for n
    using itoa_digits [of "CHR '' ''" "nat (- n)"] itoa_digits [of "CHR '' ''" "nat n"] by (auto simp: show_int_def dig_def byte_in_def)
  ultimately show False using assms(2) by metis
qed

text \<open>A well-formed answer to a malformed request is reported as one that could not be read; and a status of 300 is taken for
  success.\<close>

lemma details_not_shown:
  "fk_details K body = (False, Some (m # ms)) \<Longrightarrow> fm_handleAPIError K 422 body = FmErr (''422 status but decode failed (Body: '' @ body @ '')'')"
  by (simp add: fm_handleAPIError_def details_error_def)

lemma status_300_taken:
  "srv \<lparr>rq_method = ''GET'', rq_url = u, rq_headers = [auth], rq_body = None\<rparr> s = (Answer \<lparr>rs_status = 300, rs_headers = h, rs_body = b\<rparr>, s') \<Longrightarrow>
     dec b = Inr v \<Longrightarrow> fm_send srv K dec u auth s = (Gives v, s')"
  by (simp add: fm_send_def)

subsection \<open>FMCSA itself and SAFER\<close>

text \<open>A carrier is whatever the decoder makes of its JSON; the code only takes it out of its wrapper.\<close>

definition external_base :: string where "external_base = ''https://mobile.fmcsa.dot.gov/qc/services/carriers/''"

definition SearchCompaniesByName :: "'s http_server \<Rightarrow> (string \<Rightarrow> string + 'c list) \<Rightarrow> string \<Rightarrow> string \<Rightarrow> 's \<Rightarrow> (string + 'c list) \<times> 's" where
  "SearchCompaniesByName srv dec apiKey name s =
     (case srv \<lparr>rq_method = ''GET'', rq_url = external_base @ ''name/'' @ PathEscape name @ ''?'' @ values_Encode [(''webKey'', apiKey)],
                rq_headers = [], rq_body = None\<rparr> s of
        (BadUrl e, s') \<Rightarrow> (Inl (''failed to create request: '' @ e), s')
      | (NoAnswer e, s') \<Rightarrow> (Inl (''fmcsa api call failed: '' @ e), s')
      | (Answer r, s') \<Rightarrow>
          (if rs_status r \<noteq> 200 then Inl (''fmcsa returned non-200 status: '' @ show_int (rs_status r))
           else (case dec (rs_body r) of Inl e \<Rightarrow> Inl (''failed to decode fmcsa response: '' @ e) | Inr cs \<Rightarrow> Inr cs), s'))"

text \<open>Raw JSON is its text.\<close>

record safer_company =
  sf_EntityType :: "string option"
  sf_LegalName :: "string option"
  sf_Phone :: "string option"
  sf_DbaName :: "string option"
  sf_DunsNumber :: "string option"
  sf_PhysicalAddress :: "string option"
  sf_MailingAddress :: "string option"
  sf_Usdot :: "string option"
  sf_McMxFfNumbers :: "string option"
  sf_PowerUnits :: "int option"
  sf_Drivers :: "int option"
  sf_Mcs150FormDate :: "string option"
  sf_OutOfServiceDate :: "string option"
  sf_OperatingStatus :: "string option"
  sf_LatestUpdate :: "string option"
  sf_Mcs150MileageYear :: "string option"
  sf_OperationClassification :: "string list"
  sf_CarrierOperation :: "string list"
  sf_CargoCarried :: "string list"
  sf_Url :: "string option"

definition safer_base :: string where "safer_base = ''https://saferwebapi.com/v2''"

definition safer_executeRequest :: "'s http_server \<Rightarrow> (string \<Rightarrow> string option) \<Rightarrow> (string \<Rightarrow> string + safer_company) \<Rightarrow> string \<Rightarrow> string \<Rightarrow> string \<Rightarrow> 's
    \<Rightarrow> (string + safer_company) \<times> 's" where
  "safer_executeRequest srv message dec apiKey url entityType s =
     (case srv \<lparr>rq_method = ''GET'', rq_url = url, rq_headers = [(''x-api-key'', apiKey), (''Accept'', ''application/json'')], rq_body = None\<rparr> s of
        (BadUrl e, s') \<Rightarrow> (Inl (''failed to create request: '' @ e), s')
      | (NoAnswer e, s') \<Rightarrow> (Inl (''network error fetching '' @ entityType @ '' data: '' @ e), s')
      | (Answer r, s') \<Rightarrow>
          (if rs_status r < 200 \<or> rs_status r \<ge> 300
           then (case message (rs_body r) of
                   Some (m # ms) \<Rightarrow> Inl (''safer api: '' @ m # ms)
                 | _ \<Rightarrow> Inl (''external API returned error status: '' @ show_int (rs_status r)))
           else (case dec (rs_body r) of Inl e \<Rightarrow> Inl (''failed to decode Safer response: '' @ e) | Inr v \<Rightarrow> Inr v), s'))"

definition FetchByMCNumber :: "'s http_server \<Rightarrow> (string \<Rightarrow> string option) \<Rightarrow> (string \<Rightarrow> string + safer_company) \<Rightarrow> string \<Rightarrow> string \<Rightarrow> 's
    \<Rightarrow> (string + safer_company) \<times> 's" where
  "FetchByMCNumber srv message dec apiKey mcNumber = safer_executeRequest srv message dec apiKey (safer_base @ ''/mcmx/snapshot/'' @ mcNumber) ''MC''"

definition FetchByDOTNumber :: "'s http_server \<Rightarrow> (string \<Rightarrow> string option) \<Rightarrow> (string \<Rightarrow> string + safer_company) \<Rightarrow> string \<Rightarrow> string \<Rightarrow> 's
    \<Rightarrow> (string + safer_company) \<times> 's" where
  "FetchByDOTNumber srv message dec apiKey dotNumber = safer_executeRequest srv message dec apiKey (safer_base @ ''/usdot/snapshot/'' @ dotNumber) ''DOT''"

definition safer_IsValid :: "safer_company \<Rightarrow> bool" where
  "safer_IsValid d = (case sf_OperatingStatus d of Some st \<Rightarrow> if st = ''NOT AUTHORIZED'' then False else True | None \<Rightarrow> True)"

text \<open>The two checks differ on a company without a status, and on one that is spelled differently.\<close>

lemma safer_more_lenient:
  "fm_IsValid r \<Longrightarrow> sf_OperatingStatus d = fr_OperatingStatus r \<Longrightarrow> safer_IsValid d"
  "fr_OperatingStatus r = None \<Longrightarrow> sf_OperatingStatus d = None \<Longrightarrow> \<not> fm_IsValid r \<and> safer_IsValid d"
proof -
  have "TrimSpace (upper_utf8 ''NOT AUTHORIZED'') = ''NOT AUTHORIZED''" by code_simp
  then show "fm_IsValid r \<Longrightarrow> sf_OperatingStatus d = fr_OperatingStatus r \<Longrightarrow> safer_IsValid d"
    by (auto simp: fm_IsValid_def safer_IsValid_def split: option.splits if_splits)
qed (simp_all add: fm_IsValid_def safer_IsValid_def)

end
