(* ===== verification/Google_Maps.thy ===== *)
theory Google_Maps
  imports Go_Url Go_Float
begin

text \<open>
  The Google Maps client (\<open>src/client/googlemaps\<close>): geocoding, address suggestions and the distance over the stops of a
  trip, with the record of billed calls. Some of Google's services tell a bad key by a status in the body of a good
  answer. The server and JSON are parameters; the state is the server's and the log.
\<close>

subsection \<open>Data\<close>

record gm_component =
  gc_LongName :: string
  gc_ShortName :: string
  gc_Types :: "string list"

record geocode_result =
  gr_FormattedAddress :: string
  gr_PlaceID :: string
  gr_Types :: "string list"
  gr_Location :: "flt \<times> flt"
  gr_LocationType :: string
  gr_AddressComponent :: "gm_component list"

record prediction =
  pr_Description :: string
  pr_PlaceID :: string

text \<open>An answer of the older services: what was asked for, the status and its explanation.\<close>

record 'a status_response =
  sr_Items :: "'a list"
  sr_Status :: string
  sr_ErrorMessage :: string

record gm_point =
  gp_Latitude :: flt
  gp_Longitude :: flt

record compute_routes_request =
  cq_Origin :: gm_point
  cq_Destination :: gm_point
  cq_Intermediates :: "gm_point list"
  cq_TravelMode :: string

record gm_route =
  gt_DistanceMeters :: int
  gt_Duration :: string

record compute_routes_response =
  cs_Routes :: "gm_route list"
  cs_Error :: "(string \<times> string) option"

record route_distance =
  rd_DistanceMeters :: int
  rd_DurationSeconds :: int

record gm_client =
  gm_geocodeHost :: string
  gm_routesHost :: string
  gm_apiKey :: string

definition gm_or :: "string \<Rightarrow> string \<Rightarrow> string" where
  "gm_or s d = (if s = [] then d else s)"

datatype gm_err =
    GmAuth int string string
  | GmErr string
  | GmWrap string gm_err
  | GmInvalidCredentials

fun gm_IsAuthError :: "gm_err \<Rightarrow> bool" where
  "gm_IsAuthError (GmAuth code status body) = True"
| "gm_IsAuthError (GmWrap t e) = gm_IsAuthError e"
| "gm_IsAuthError e = False"

definition gm_NewClient :: "string \<Rightarrow> string \<Rightarrow> string \<Rightarrow> gm_err + gm_client" where
  "gm_NewClient geocodeHost routesHost apiKey =
     (if apiKey = [] then Inl (GmErr ''API key cannot be empty'')
      else Inr \<lparr>gm_geocodeHost = gm_or geocodeHost ''https://maps.googleapis.com'', gm_routesHost = gm_or routesHost ''https://routes.googleapis.com'',
                gm_apiKey = apiKey\<rparr>)"

definition gm_NewClientWithToken :: "string \<Rightarrow> gm_err + gm_client" where
  "gm_NewClientWithToken apiKey = gm_NewClient [] [] apiKey"

subsection \<open>Calls and their record\<close>

record gm_call =
  gl_op :: string
  gl_outcome :: string
  gl_status :: int

type_synonym 's gm_state = "'s \<times> gm_call list"

definition gm_outcomeOf :: "bool \<Rightarrow> int \<Rightarrow> gm_err option \<Rightarrow> string" where
  "gm_outcomeOf done_ctx status err =
     (case err of
        None \<Rightarrow> ''ok''
      | Some e \<Rightarrow>
          if done_ctx then ''ctx_canceled''
          else if gm_IsAuthError e then ''auth''
          else if status \<ge> 500 then ''http_5xx''
          else if status \<ge> 400 then ''http_4xx''
          else if status > 0 then ''http_other''
          else ''transport'')"

definition gm_logCall :: "bool \<Rightarrow> string \<Rightarrow> int \<Rightarrow> gm_err option \<Rightarrow> 's gm_state \<Rightarrow> 's gm_state" where
  "gm_logCall done_ctx op status err sl = (fst sl, snd sl @ [\<lparr>gl_op = op, gl_outcome = gm_outcomeOf done_ctx status err, gl_status = status\<rparr>])"

text \<open>A request that could be made, sent.\<close>

definition gm_finish :: "'s http_server \<Rightarrow> bool \<Rightarrow> string \<Rightarrow> http_request \<Rightarrow> 's gm_state \<Rightarrow> (gm_err + string) \<times> 's gm_state" where
  "gm_finish srv done_ctx op req sl =
     (case srv req (fst sl) of
        (BadUrl e, s') \<Rightarrow> (Inl (GmErr (''failed to create request: '' @ e)), (s', snd sl))
      | (NoAnswer e, s') \<Rightarrow> (Inl (GmErr (''failed to execute request: '' @ e)), gm_logCall done_ctx op 0 (Some (GmErr e)) (s', snd sl))
      | (Answer r, s') \<Rightarrow>
          if rs_status r = 401 \<or> rs_status r = 403
          then (Inl (GmAuth (rs_status r) [] (rs_body r)), gm_logCall done_ctx op (rs_status r) (Some (GmAuth (rs_status r) [] (rs_body r))) (s', snd sl))
          else if rs_status r < 200 \<or> rs_status r \<ge> 300
          then (let err = GmErr (''received non-2xx status code: '' @ show_int (rs_status r) @ '', body: '' @ rs_body r) in
                (Inl err, gm_logCall done_ctx op (rs_status r) (Some err) (s', snd sl)))
          else (Inr (rs_body r), gm_logCall done_ctx op (rs_status r) None (s', snd sl)))"

definition gm_get_request :: "string \<Rightarrow> http_request" where
  "gm_get_request fullURL = \<lparr>rq_method = ''GET'', rq_url = fullURL, rq_headers = [(''Accept'', ''application/json'')], rq_body = None\<rparr>"

definition gm_doGet :: "'s http_server \<Rightarrow> bool \<Rightarrow> string \<Rightarrow> string \<Rightarrow> 's gm_state \<Rightarrow> (gm_err + string) \<times> 's gm_state" where
  "gm_doGet srv done_ctx op fullURL = gm_finish srv done_ctx op (gm_get_request fullURL)"

definition gm_post_request :: "gm_client \<Rightarrow> string \<Rightarrow> string \<Rightarrow> http_request" where
  "gm_post_request c fullURL payload =
     \<lparr>rq_method = ''POST'', rq_url = fullURL,
      rq_headers = [(''Accept'', ''application/json''), (''Content-Type'', ''application/json''), (''X-Goog-Api-Key'', gm_apiKey c),
        (''X-Goog-FieldMask'', ''routes.distanceMeters,routes.duration'')], rq_body = Some payload\<rparr>"

definition gm_doPost :: "'s http_server \<Rightarrow> bool \<Rightarrow> gm_client \<Rightarrow> string \<Rightarrow> string \<Rightarrow> string \<Rightarrow> 's gm_state \<Rightarrow> (gm_err + string) \<times> 's gm_state" where
  "gm_doPost srv done_ctx c op fullURL payload = gm_finish srv done_ctx op (gm_post_request c fullURL payload)"

definition pickMessage :: "string \<Rightarrow> string \<Rightarrow> string" where
  "pickMessage errorMessage body = (if errorMessage \<noteq> [] then errorMessage else body)"

definition statusError :: "string \<Rightarrow> string \<Rightarrow> string \<Rightarrow> gm_err option" where
  "statusError status errorMessage body =
     (if status \<in> {''OK'', ''ZERO_RESULTS'', []} then None
      else if status \<in> {''REQUEST_DENIED'', ''OVER_QUERY_LIMIT''} then Some (GmAuth 200 status (pickMessage errorMessage body))
      else Some (GmErr (''googlemaps: '' @ status @ '': '' @ pickMessage errorMessage body)))"

text \<open>The reading of a body with a status in it.\<close>

definition status_items :: "string \<Rightarrow> (string \<Rightarrow> string + 'a status_response) \<Rightarrow> string \<Rightarrow> gm_err + 'a list" where
  "status_items what dec body =
     (case dec body of
        Inl e \<Rightarrow> Inl (GmErr (''googlemaps: failed to decode '' @ what @ '' response: '' @ e))
      | Inr out \<Rightarrow> (case statusError (sr_Status out) (sr_ErrorMessage out) body of Some e \<Rightarrow> Inl e | None \<Rightarrow> Inr (sr_Items out)))"

definition on_body :: "(gm_err + string) \<times> 't \<Rightarrow> (string \<Rightarrow> gm_err + 'a) \<Rightarrow> (gm_err + 'a) \<times> 't" where
  "on_body r f = (case r of (Inl e, sl) \<Rightarrow> (Inl e, sl) | (Inr body, sl) \<Rightarrow> (f body, sl))"

definition gm_Geocode :: "'s http_server \<Rightarrow> bool \<Rightarrow> (string \<Rightarrow> string + geocode_result status_response) \<Rightarrow> gm_client \<Rightarrow> string \<Rightarrow> 's gm_state
    \<Rightarrow> (gm_err + geocode_result list) \<times> 's gm_state" where
  "gm_Geocode srv done_ctx dec c query sl =
     (if TrimSpace query = [] then (Inl (GmErr ''googlemaps: empty geocode query''), sl)
      else on_body (gm_doGet srv done_ctx ''geocode''
             (gm_geocodeHost c @ ''/maps/api/geocode/json?'' @ values_Encode [(''address'', query), (''key'', gm_apiKey c)]) sl)
             (status_items ''geocode'' dec))"

definition PlacesAutocomplete :: "'s http_server \<Rightarrow> bool \<Rightarrow> (string \<Rightarrow> string + prediction status_response) \<Rightarrow> gm_client \<Rightarrow> string \<Rightarrow> 's gm_state
    \<Rightarrow> (gm_err + prediction list) \<times> 's gm_state" where
  "PlacesAutocomplete srv done_ctx dec c inp sl =
     (if TrimSpace inp = [] then (Inl (GmErr ''googlemaps: empty autocomplete input''), sl)
      else on_body (gm_doGet srv done_ctx ''places_autocomplete''
             (gm_geocodeHost c @ ''/maps/api/place/autocomplete/json?'' @ values_Encode [(''input'', inp), (''key'', gm_apiKey c)]) sl)
             (status_items ''autocomplete'' dec))"

definition gm_TestConnection :: "'s http_server \<Rightarrow> bool \<Rightarrow> (string \<Rightarrow> string + geocode_result status_response) \<Rightarrow> gm_client \<Rightarrow> 's gm_state
    \<Rightarrow> gm_err option \<times> 's gm_state" where
  "gm_TestConnection srv done_ctx dec c sl =
     (case on_body (gm_doGet srv done_ctx ''geocode_testconn''
             (gm_geocodeHost c @ ''/maps/api/geocode/json?''
              @ values_Encode [(''address'', ''1600 Amphitheatre Parkway, Mountain View, CA''), (''key'', gm_apiKey c)]) sl)
             (status_items ''test'' dec) of
        (Inl e, sl') \<Rightarrow> (Some (if gm_IsAuthError e then GmInvalidCredentials else e), sl')
      | (Inr items, sl') \<Rightarrow> (None, sl'))"

subsection \<open>Distances\<close>

definition maxIntermediates :: nat where "maxIntermediates = 25"

text \<open>\<open>fmt.Sscanf (d, "%d")\<close>: leading white space without a line feed, a sign and digits; what follows is not looked at.\<close>

definition scan_int :: "string \<Rightarrow> int option" where
  "scan_int d =
     (let rest = drop_leading all_spaces d; blanks = take (length d - length rest) d;
          (negative, num) = (case rest of c # cs \<Rightarrow> if c = CHR ''-'' then (True, cs) else if c = CHR ''+'' then (False, cs) else (False, rest)
                             | [] \<Rightarrow> (False, []));
          ds = takeWhile dig num; n = foldl (\<lambda>a c. 10 * a + dig_val c) 0 ds; v = (if negative then - n else n) in
      if CHR 0x0A \<in> set blanks \<or> ds = [] \<or> v < - (2 ^ 63) \<or> 2 ^ 63 \<le> v then None else Some v)"

definition parseDurationSeconds :: "string \<Rightarrow> int" where
  "parseDurationSeconds d0 =
     (let d = (if d0 \<noteq> [] \<and> last d0 = CHR ''s'' then butlast d0 else d0) in
      if d = [] then 0 else (case scan_int d of None \<Rightarrow> 0 | Some v \<Rightarrow> v))"

definition routes_request :: "gm_point list \<Rightarrow> compute_routes_request" where
  "routes_request waypoints =
     \<lparr>cq_Origin = hd waypoints, cq_Destination = last waypoints, cq_Intermediates = butlast (tl waypoints), cq_TravelMode = ''DRIVE''\<rparr>"

definition route_distance_of :: "(string \<Rightarrow> string + compute_routes_response) \<Rightarrow> string \<Rightarrow> gm_err + route_distance" where
  "route_distance_of dec body =
     (case dec body of
        Inl e \<Rightarrow> Inl (GmErr (''googlemaps: failed to decode routes response: '' @ e))
      | Inr out \<Rightarrow>
          (case cs_Error out of
             Some (st, message) \<Rightarrow> Inl (GmErr (''googlemaps: routes error '' @ st @ '': '' @ message))
           | None \<Rightarrow>
               (case cs_Routes out of
                  [] \<Rightarrow> Inl (GmErr ''googlemaps: no route between the given waypoints'')
                | r # rs \<Rightarrow> Inr \<lparr>rd_DistanceMeters = gt_DistanceMeters r, rd_DurationSeconds = parseDurationSeconds (gt_Duration r)\<rparr>)))"

definition ComputeRouteDistance :: "'s http_server \<Rightarrow> bool \<Rightarrow> (compute_routes_request \<Rightarrow> string + string) \<Rightarrow> (string \<Rightarrow> string + compute_routes_response)
    \<Rightarrow> gm_client \<Rightarrow> gm_point list \<Rightarrow> 's gm_state \<Rightarrow> (gm_err + route_distance) \<times> 's gm_state" where
  "ComputeRouteDistance srv done_ctx enc dec c waypoints sl =
     (if length waypoints < 2 then (Inl (GmErr (''googlemaps: need at least two waypoints, got '' @ itoa (length waypoints))), sl)
      else if length waypoints - 2 > maxIntermediates
      then (Inl (GmErr (''googlemaps: '' @ itoa (length waypoints - 2) @ '' intermediate waypoints exceeds the Routes API limit of '' @ itoa maxIntermediates)), sl)
      else (case enc (routes_request waypoints) of
              Inl e \<Rightarrow> (Inl (GmErr (''googlemaps: failed to encode routes request: '' @ e)), sl)
            | Inr payload \<Rightarrow>
                on_body (gm_doPost srv done_ctx c ''compute_routes'' (gm_routesHost c @ ''/directions/v2:computeRoutes'') payload sl)
                  (route_distance_of dec)))"

subsection \<open>Components of an address\<close>

fun component_by :: "(gm_component \<Rightarrow> string) \<Rightarrow> gm_component list \<Rightarrow> string \<Rightarrow> string" where
  "component_by f [] typ = []"
| "component_by f (c # cs) typ = (if typ \<in> set (gc_Types c) then f c else component_by f cs typ)"

definition ComponentByType :: "geocode_result \<Rightarrow> string \<Rightarrow> string" where
  "ComponentByType r = component_by gc_LongName (gr_AddressComponent r)"

definition ShortComponentByType :: "geocode_result \<Rightarrow> string \<Rightarrow> string" where
  "ShortComponentByType r = component_by gc_ShortName (gr_AddressComponent r)"

lemma component_by_first:
  "component_by f cs ty = (case find (\<lambda>c. ty \<in> set (gc_Types c)) cs of Some c \<Rightarrow> f c | None \<Rightarrow> [])"
  by (induction f cs ty rule: component_by.induct) auto

subsection \<open>What the calls do\<close>

lemma duration_examples:
  "parseDurationSeconds ''1234s'' = 1234" "parseDurationSeconds ''s'' = 0" "parseDurationSeconds ''-5s'' = - 5"
  "parseDurationSeconds ''12.9s'' = 12" "parseDurationSeconds ''abc'' = 0" "parseDurationSeconds ''99999999999999999999s'' = 0"
  by code_simp+

text \<open>C39. A distance is that of the whole trip or none. When \<open>ComputeRouteDistance\<close> returns a distance, one request was sent, to
  the routes service with the key in its header, and its body is the encoding of all stops of the trip in their order; it is on
  the log as one good call; and the distance is that of the first route of the answer. A trip with more stops than Google
  takes, or fewer than two, is refused before anything is sent or logged.\<close>

theorem route_distance_whole:
  assumes "ComputeRouteDistance srv done_ctx enc dec c waypoints sl = (out, sl')"
  shows "(\<forall>d. out = Inr d \<longrightarrow> (\<exists>rq payload r resp rt rts. 2 \<le> length waypoints \<and> length waypoints \<le> 27
        \<and> cq_Origin rq # cq_Intermediates rq @ [cq_Destination rq] = waypoints \<and> enc rq = Inr payload
        \<and> srv (gm_post_request c (gm_routesHost c @ ''/directions/v2:computeRoutes'') payload) (fst sl) = (Answer r, fst sl')
        \<and> 200 \<le> rs_status r \<and> rs_status r < 300 \<and> snd sl' = snd sl @ [\<lparr>gl_op = ''compute_routes'', gl_outcome = ''ok'', gl_status = rs_status r\<rparr>]
        \<and> dec (rs_body r) = Inr resp \<and> cs_Error resp = None \<and> cs_Routes resp = rt # rts \<and> rd_DistanceMeters d = gt_DistanceMeters rt))
    \<and> (length waypoints < 2 \<or> length waypoints > 27 \<longrightarrow> (\<exists>e. out = Inl e) \<and> sl' = sl)"
proof (intro conjI allI impI)
  fix d assume out: "out = Inr d"
  have len: "2 \<le> length waypoints" "length waypoints \<le> 27"
    using assms out by (auto simp: ComputeRouteDistance_def maxIntermediates_def split: if_splits)
  then obtain payload where enc: "enc (routes_request waypoints) = Inr payload"
    using assms out by (auto simp: ComputeRouteDistance_def split: if_splits sum.splits)
  then have run: "on_body (gm_doPost srv done_ctx c ''compute_routes'' (gm_routesHost c @ ''/directions/v2:computeRoutes'') payload sl)
      (route_distance_of dec) = (Inr d, sl')"
    using assms out len by (auto simp: ComputeRouteDistance_def maxIntermediates_def split: if_splits)
  then obtain body where body: "gm_doPost srv done_ctx c ''compute_routes'' (gm_routesHost c @ ''/directions/v2:computeRoutes'') payload sl = (Inr body, sl')"
    and d: "route_distance_of dec body = Inr d"
    by (auto simp: on_body_def split: prod.splits sum.splits)
  from body obtain r where r: "srv (gm_post_request c (gm_routesHost c @ ''/directions/v2:computeRoutes'') payload) (fst sl) = (Answer r, fst sl')"
    "200 \<le> rs_status r" "rs_status r < 300" "body = rs_body r" "snd sl' = snd sl @ [\<lparr>gl_op = ''compute_routes'', gl_outcome = ''ok'', gl_status = rs_status r\<rparr>]"
    by (auto simp: gm_doPost_def gm_finish_def gm_logCall_def gm_outcomeOf_def Let_def split: prod.splits http_outcome.splits if_splits)
  from d obtain resp rt rts where "dec body = Inr resp" "cs_Error resp = None" "cs_Routes resp = rt # rts" "rd_DistanceMeters d = gt_DistanceMeters rt"
    by (auto simp: route_distance_of_def split: sum.splits option.splits list.splits)
  moreover have "cq_Origin (routes_request waypoints) # cq_Intermediates (routes_request waypoints) @ [cq_Destination (routes_request waypoints)] = waypoints"
    using len(1) by (cases waypoints; cases "tl waypoints") (auto simp: routes_request_def)
  ultimately show "\<exists>rq payload r resp rt rts. 2 \<le> length waypoints \<and> length waypoints \<le> 27
        \<and> cq_Origin rq # cq_Intermediates rq @ [cq_Destination rq] = waypoints \<and> enc rq = Inr payload
        \<and> srv (gm_post_request c (gm_routesHost c @ ''/directions/v2:computeRoutes'') payload) (fst sl) = (Answer r, fst sl')
        \<and> 200 \<le> rs_status r \<and> rs_status r < 300 \<and> snd sl' = snd sl @ [\<lparr>gl_op = ''compute_routes'', gl_outcome = ''ok'', gl_status = rs_status r\<rparr>]
        \<and> dec (rs_body r) = Inr resp \<and> cs_Error resp = None \<and> cs_Routes resp = rt # rts \<and> rd_DistanceMeters d = gt_DistanceMeters rt"
    using enc r len by metis
qed (use assms in \<open>auto simp: ComputeRouteDistance_def maxIntermediates_def split: if_splits\<close>)

definition gm_sample_client :: gm_client where
  "gm_sample_client = \<lparr>gm_geocodeHost = ''https://maps.googleapis.com'', gm_routesHost = ''https://routes.googleapis.com'', gm_apiKey = ''k''\<rparr>"

definition gm_answering :: "unit http_server" where
  "gm_answering rq s = (Answer \<lparr>rs_status = 200, rs_headers = [], rs_body = ''{}''\<rparr>, s)"

lemma route_distance_whole_witness:
  "\<exists>sl' (rq :: compute_routes_request). ComputeRouteDistance gm_answering False (\<lambda>rq. Inr ''{}'') (\<lambda>b. Inr \<lparr>cs_Routes = [\<lparr>gt_DistanceMeters = 5, gt_Duration = ''7s''\<rparr>], cs_Error = None\<rparr>)
       gm_sample_client [\<lparr>gp_Latitude = Fin 1, gp_Longitude = Fin 2\<rparr>, \<lparr>gp_Latitude = Fin 3, gp_Longitude = Fin 4\<rparr>] ((), [])
     = (Inr \<lparr>rd_DistanceMeters = 5, rd_DurationSeconds = 7\<rparr>, sl')
     \<and> cq_Origin rq # cq_Intermediates rq @ [cq_Destination rq] = [\<lparr>gp_Latitude = Fin 1, gp_Longitude = Fin 2\<rparr>, \<lparr>gp_Latitude = Fin 3, gp_Longitude = Fin 4\<rparr>]
     \<and> snd sl' = [\<lparr>gl_op = ''compute_routes'', gl_outcome = ''ok'', gl_status = 200\<rparr>]"
proof -
  have dur: "parseDurationSeconds ''7s'' = 7" by code_simp
  let ?ws = "[\<lparr>gp_Latitude = Fin 1, gp_Longitude = Fin 2\<rparr>, \<lparr>gp_Latitude = Fin 3, gp_Longitude = Fin 4\<rparr>]"
  have run: "ComputeRouteDistance gm_answering False (\<lambda>rq. Inr ''{}'') (\<lambda>b. Inr \<lparr>cs_Routes = [\<lparr>gt_DistanceMeters = 5, gt_Duration = ''7s''\<rparr>], cs_Error = None\<rparr>)
       gm_sample_client ?ws ((), []) = (Inr \<lparr>rd_DistanceMeters = 5, rd_DurationSeconds = 7\<rparr>,
         (), [\<lparr>gl_op = ''compute_routes'', gl_outcome = ''ok'', gl_status = 200\<rparr>])"
    by (simp add: ComputeRouteDistance_def on_body_def gm_doPost_def gm_finish_def gm_answering_def gm_logCall_def gm_outcomeOf_def
        route_distance_of_def dur)
  obtain rq :: compute_routes_request where "cq_Origin rq # cq_Intermediates rq @ [cq_Destination rq] = ?ws"
    using route_distance_whole [OF run, THEN conjunct1, THEN spec, THEN mp, OF refl] by (elim exE conjE) (rule that, assumption)
  then show ?thesis using run
    by (intro exI [of _ "((), [\<lparr>gl_op = ''compute_routes'', gl_outcome = ''ok'', gl_status = 200\<rparr>])"] exI [of _ rq] conjI) simp_all
qed

text \<open>The probe of a key tells a refused one apart, whether the refusal is in the status line or in the body.\<close>

lemma key_verdict:
  assumes "gm_TestConnection srv done_ctx dec c sl = (Some GmInvalidCredentials, sl')"
  shows "\<exists>rq r s'. srv rq (fst sl) = (Answer r, s') \<and> (rs_status r = 401 \<or> rs_status r = 403
     \<or> (\<exists>out. dec (rs_body r) = Inr out \<and> sr_Status out \<in> {''REQUEST_DENIED'', ''OVER_QUERY_LIMIT''}))"
  using assms
  by (auto simp: gm_TestConnection_def on_body_def gm_doGet_def gm_finish_def status_items_def statusError_def Let_def
      split: prod.splits http_outcome.splits if_splits sum.splits option.splits)

text \<open>No result is an answer, not an error.\<close>

lemma zero_results: "dec body = Inr \<lparr>sr_Items = [], sr_Status = ''ZERO_RESULTS'', sr_ErrorMessage = m\<rparr> \<Longrightarrow> status_items what dec body = Inr []"
  by (simp add: status_items_def statusError_def)

text \<open>The log is written before the body is read, so that a refused key is on it as a good call.\<close>

lemma denied_logged_ok:
  assumes "TrimSpace query \<noteq> []" and "\<And>rq. srv rq (fst sl) = (Answer \<lparr>rs_status = 200, rs_headers = [], rs_body = b\<rparr>, s')"
    and "dec b = Inr \<lparr>sr_Items = [], sr_Status = ''REQUEST_DENIED'', sr_ErrorMessage = ''bad key''\<rparr>"
  shows "gm_Geocode srv done_ctx dec c query sl
    = (Inl (GmAuth 200 ''REQUEST_DENIED'' ''bad key''), s', snd sl @ [\<lparr>gl_op = ''geocode'', gl_outcome = ''ok'', gl_status = 200\<rparr>])"
  using assms
  by (simp add: gm_Geocode_def on_body_def gm_doGet_def gm_finish_def gm_logCall_def gm_outcomeOf_def status_items_def statusError_def pickMessage_def)

end
