(* ===== verification/Relay_Payments.thy ===== *)
theory Relay_Payments
  imports Go_Url Go_Hex Go_Float
begin

text \<open>
  The Relay Payments client (\<open>src/client/relaypayments\<close>): drivers, one-time codes, fuel policies and their assignments, fuel
  transactions and the signature of its webhooks. JSON and HMAC-SHA256 are parameters; what an endpoint answers with is
  whatever its decoder makes of the body.
\<close>

subsection \<open>Data\<close>

record rl_driver_data_field =
  df_FieldName :: string
  df_FieldValue :: string

record rl_driver =
  dv_ID :: string
  dv_FirstName :: string
  dv_LastName :: string
  dv_Phone :: string
  dv_Email :: string
  dv_DataFields :: "rl_driver_data_field list"
  dv_IntegrationID :: string
  dv_CreatedAt :: string
  dv_UpdatedAt :: string

record rl_fuel_transaction_driver =
  fd_ID :: string
  fd_FirstName :: string
  fd_LastName :: string
  fd_Phone :: string
  fd_Email :: string
  fd_IntegrationID :: string

record rl_one_time_code =
  oc_ID :: string
  oc_Code :: string
  oc_ConstraintAmount :: string
  oc_Type :: string
  oc_DriverID :: string
  oc_Note :: string
  oc_LocationID :: string
  oc_AllowProhibitedLocationRedemption :: bool
  oc_CreatedAt :: string
  oc_UpdatedAt :: string
  oc_DeletedAt :: string

record rl_authorization_prompt =
  ap_Name :: string
  ap_ValidationMode :: string
  ap_ELDIntegrationField :: string

record rl_fuel_policy_limit =
  fl_Type :: string
  fl_Mode :: string
  fl_Amount :: string
  fl_Unit :: string
  fl_Frequency :: string

record rl_fuel_policy =
  fp_ID :: string
  fp_Name :: string
  fp_ELDEnabled :: bool
  fp_AuthorizationPrompts :: "rl_authorization_prompt list"
  fp_Limits :: "rl_fuel_policy_limit list"

record rl_driver_policy_assignment =
  da_ID :: string
  da_DriverID :: string
  da_PolicyID :: string

record rl_update_policy_assignment =
  ua_Enabled :: bool

record rl_policy_assignment_fuel_policy_limit =
  pl_Type :: string
  pl_Mode :: string
  pl_Amount :: string
  pl_Unit :: string
  pl_Frequency :: string
  pl_Usage :: string
  pl_Remaining :: string

record rl_policy_assignment_fuel_policy =
  pa_ID :: string
  pa_PolicyID :: string
  pa_PolicyName :: string
  pa_Enabled :: bool
  pa_Limits :: "rl_policy_assignment_fuel_policy_limit list"

record rl_merchant =
  mt_ID :: string
  mt_Name :: string
  mt_Number :: string

record rl_location =
  lo_ID :: string
  lo_Name :: string
  lo_FuelMerchantLocationID :: string
  lo_Address :: string
  lo_City :: string
  lo_State :: string
  lo_ZipCode :: string
  lo_Latitude :: flt
  lo_Longitude :: flt
  lo_OPISID :: string
  lo_Timezone :: string

record rl_prompt =
  pm_Label :: string
  pm_Value :: string

record rl_fee =
  fe_Type :: string
  fe_Amount :: string

record rl_fuel_item =
  fi_FuelType :: string
  fi_FuelTypeDescription :: string
  fi_FuelProductCode :: string
  fi_RetailPricePerUnit :: string
  fi_DiscountedPricePerUnit :: string
  fi_Volume :: string
  fi_VolumeUOM :: string
  fi_TotalRetailPrice :: string
  fi_TotalDiscountedPrice :: string
  fi_Fees :: "rl_fee list"

record rl_product =
  pd_ProductType :: string
  pd_ProductTypeDescription :: string
  pd_PurchasePriceTotal :: string
  pd_Quantity :: string
  pd_PricePerUnit :: string
  pd_Fees :: "rl_fee list"

record rl_transaction_fuel_policy =
  tp_ID :: string
  tp_Name :: string

record rl_transaction =
  tx_TransactionID :: string
  tx_CreatedAt :: go_time
  tx_RelayFuelCode :: string
  tx_TotalAmountPaid :: string
  tx_TotalRetailPrice :: string
  tx_TotalAmountSaved :: string
  tx_IsDirectBill :: bool
  tx_CurrencyCode :: string
  tx_CashAdvance :: string
  tx_Driver :: rl_fuel_transaction_driver
  tx_Merchant :: rl_merchant
  tx_Location :: rl_location
  tx_Prompts :: "rl_prompt list"
  tx_FuelItems :: "rl_fuel_item list"
  tx_Products :: "rl_product list"
  tx_Fees :: "rl_fee list"
  tx_FuelPolicy :: "rl_transaction_fuel_policy option"
  tx_FuelCodeType :: string


record relay_client =
  ry_host :: string
  ry_transactionsHost :: string
  ry_apiKey :: string

definition defaultProductionHost :: string where
  "defaultProductionHost = ''https://app.relaypayments.com/api/integrations''"

definition relay_NewClient :: "string \<Rightarrow> string \<Rightarrow> string + relay_client" where
  "relay_NewClient cfgHost apiKey =
     (if apiKey = [] then Inl ''relaypayments: apiKey is empty''
      else let host = (if trim_slashes cfgHost = [] then defaultProductionHost else trim_slashes cfgHost) in
        Inr \<lparr>ry_host = host, ry_transactionsHost = trim_suffix ''/integrations'' host, ry_apiKey = apiKey\<rparr>)"

definition relay_NewClientWithToken :: "string \<Rightarrow> string + relay_client" where
  "relay_NewClientWithToken apiKey = relay_NewClient [] apiKey"

datatype relay_err = RelayAuth int string string | RelayErr string | RelayInvalidCredentials

fun relay_IsAuthError :: "relay_err \<Rightarrow> bool" where
  "relay_IsAuthError (RelayAuth status body requestID) = True"
| "relay_IsAuthError e = False"

subsection \<open>Requests\<close>

text \<open>The message of the error envelope, when the body has one.\<close>

definition decodeAPIError :: "(string \<Rightarrow> string option) \<Rightarrow> int \<Rightarrow> string \<Rightarrow> relay_err" where
  "decodeAPIError message status body =
     RelayErr (''relaypayments: status '' @ show_int status @ '': ''
       @ (if body = [] then body else (case message body of Some m \<Rightarrow> if m \<noteq> [] then m else body | None \<Rightarrow> body)))"

text \<open>A body is what encoding it gave: an error or a text.\<close>

definition relay_request :: "relay_client \<Rightarrow> string \<Rightarrow> string \<Rightarrow> string \<Rightarrow> (string \<times> string) list \<Rightarrow> string option \<Rightarrow> http_request" where
  "relay_request c host method path query body =
     \<lparr>rq_method = method, rq_url = host @ path @ (if query \<noteq> [] then ''?'' @ values_Encode query else []),
      rq_headers = [(''Authorization'', ry_apiKey c), (''Accept'', ''application/json'')]
        @ (if body \<noteq> None then [(''Content-Type'', ''application/json'')] else []), rq_body = body\<rparr>"

definition relay_send :: "'s http_server \<Rightarrow> (string \<Rightarrow> string option) \<Rightarrow> http_request \<Rightarrow> 's \<Rightarrow> (relay_err + string) \<times> 's" where
  "relay_send srv message rq s =
     (case srv rq s of
        (BadUrl e, s') \<Rightarrow> (Inl (RelayErr (''relaypayments: build request: '' @ e)), s')
      | (NoAnswer e, s') \<Rightarrow> (Inl (RelayErr (''relaypayments: execute request: '' @ e)), s')
      | (Answer r, s') \<Rightarrow>
          (if rs_status r = 401 \<or> rs_status r = 403 then Inl (RelayAuth (rs_status r) (rs_body r) (header_of (rs_headers r) ''X-Request-Id''))
           else if rs_status r < 200 \<or> rs_status r \<ge> 300 then Inl (decodeAPIError message (rs_status r) (rs_body r))
           else Inr (rs_body r), s'))"

definition doRequestTo :: "'s http_server \<Rightarrow> (string \<Rightarrow> string option) \<Rightarrow> relay_client \<Rightarrow> string \<Rightarrow> string \<Rightarrow> string \<Rightarrow> (string \<times> string) list
    \<Rightarrow> (string + string) option \<Rightarrow> 's \<Rightarrow> (relay_err + string) \<times> 's" where
  "doRequestTo srv message c host method path query body s =
     (case body of
        Some (Inl e) \<Rightarrow> (Inl (RelayErr (''relaypayments: marshal body: '' @ e)), s)
      | Some (Inr buf) \<Rightarrow> relay_send srv message (relay_request c host method path query (Some buf)) s
      | None \<Rightarrow> relay_send srv message (relay_request c host method path query None) s)"

definition relay_doRequest :: "'s http_server \<Rightarrow> (string \<Rightarrow> string option) \<Rightarrow> relay_client \<Rightarrow> string \<Rightarrow> string \<Rightarrow> (string \<times> string) list
    \<Rightarrow> (string + string) option \<Rightarrow> 's \<Rightarrow> (relay_err + string) \<times> 's" where
  "relay_doRequest srv message c = doRequestTo srv message c (ry_host c)"

definition decodeJSON :: "(string \<Rightarrow> string + 'a) \<Rightarrow> (relay_err + string) \<times> 's \<Rightarrow> (relay_err + 'a) \<times> 's" where
  "decodeJSON dec r =
     (case r of
        (Inl e, s) \<Rightarrow> (Inl e, s)
      | (Inr body, s) \<Rightarrow> (case dec body of Inl e \<Rightarrow> Inl (RelayErr (''relaypayments: decode response: '' @ e)) | Inr v \<Rightarrow> Inr v, s))"

definition discardBody :: "(relay_err + string) \<times> 's \<Rightarrow> relay_err option \<times> 's" where
  "discardBody r = (case r of (Inl e, s) \<Rightarrow> (Some e, s) | (Inr body, s) \<Rightarrow> (None, s))"

definition relay_TestConnection :: "'s http_server \<Rightarrow> (string \<Rightarrow> string option) \<Rightarrow> relay_client \<Rightarrow> 's \<Rightarrow> relay_err option \<times> 's" where
  "relay_TestConnection srv message c s =
     (case relay_doRequest srv message c ''GET'' ''/drivers/'' [(''limit'', ''1'')] None s of
        (Inl e, s') \<Rightarrow> (Some (if relay_IsAuthError e then RelayInvalidCredentials else e), s')
      | (Inr body, s') \<Rightarrow> (None, s'))"

definition text_param :: "string \<Rightarrow> string \<Rightarrow> (string \<times> string) list" where
  "text_param key v = (if v \<noteq> [] then [(key, v)] else [])"

definition int_param :: "string \<Rightarrow> int \<Rightarrow> (string \<times> string) list" where
  "int_param key v = (if v > 0 then [(key, show_int v)] else [])"

definition time_param :: "string \<Rightarrow> go_time \<Rightarrow> (string \<times> string) list" where
  "time_param key t = (if \<not> IsZero t then [(key, fmt_RFC3339_utc (gt_UTC t))] else [])"

subsection \<open>Drivers\<close>

record list_drivers_params =
  lp_IntegrationID :: string
  lp_Offset :: int
  lp_Limit :: int
  lp_Q :: string

definition drivers_values :: "list_drivers_params \<Rightarrow> (string \<times> string) list" where
  "drivers_values p = text_param ''integration_id'' (lp_IntegrationID p) @ int_param ''offset'' (lp_Offset p) @ int_param ''limit'' (lp_Limit p)
     @ text_param ''q'' (lp_Q p)"

text \<open>The parameters of every operation: the server, the message of an error envelope, the encoder and decoder of what the
  endpoint takes and gives.\<close>

type_synonym ('s, 'a) relay_op = "'s \<Rightarrow> (relay_err + 'a) \<times> 's"
type_synonym 'a json_dec = "string \<Rightarrow> string + 'a"
type_synonym 'a json_enc = "'a \<Rightarrow> string + string"

definition CreateDriver :: "'s http_server \<Rightarrow> (string \<Rightarrow> string option) \<Rightarrow> rl_driver json_enc \<Rightarrow> rl_driver json_dec \<Rightarrow> relay_client \<Rightarrow> rl_driver \<Rightarrow> ('s, rl_driver) relay_op" where
  "CreateDriver srv message enc dec c driver s =
     decodeJSON dec (relay_doRequest srv message c ''POST'' ''/drivers/'' [] (Some (enc driver)) s)"

definition relay_ListDrivers :: "'s http_server \<Rightarrow> (string \<Rightarrow> string option) \<Rightarrow> rl_driver list json_dec \<Rightarrow> relay_client \<Rightarrow> list_drivers_params \<Rightarrow> ('s, rl_driver list) relay_op" where
  "relay_ListDrivers srv message dec c params s =
     decodeJSON dec (relay_doRequest srv message c ''GET'' ''/drivers/'' (drivers_values params) None s)"

definition relay_GetDriver :: "'s http_server \<Rightarrow> (string \<Rightarrow> string option) \<Rightarrow> rl_driver json_dec \<Rightarrow> relay_client \<Rightarrow> string \<Rightarrow> ('s, rl_driver) relay_op" where
  "relay_GetDriver srv message dec c i s =
     decodeJSON dec (relay_doRequest srv message c ''GET'' (''/drivers/'' @ PathEscape i) [] None s)"

definition UpdateDriver :: "'s http_server \<Rightarrow> (string \<Rightarrow> string option) \<Rightarrow> rl_driver json_enc \<Rightarrow> rl_driver json_dec \<Rightarrow> relay_client \<Rightarrow> string \<Rightarrow> rl_driver \<Rightarrow> ('s, rl_driver) relay_op" where
  "UpdateDriver srv message enc dec c i driver s =
     decodeJSON dec (relay_doRequest srv message c ''PUT'' (''/drivers/'' @ PathEscape i) [] (Some (enc driver)) s)"

definition DeleteDriver :: "'s http_server \<Rightarrow> (string \<Rightarrow> string option) \<Rightarrow> relay_client \<Rightarrow> string \<Rightarrow> 's \<Rightarrow> relay_err option \<times> 's" where
  "DeleteDriver srv message c i s = discardBody (relay_doRequest srv message c ''DELETE'' (''/drivers/'' @ PathEscape i) [] None s)"

subsection \<open>One-time codes\<close>

record list_one_time_codes_params =
  lc_Offset :: int
  lc_Limit :: int
  lc_DriverID :: string
  lc_DTStart :: go_time
  lc_DTEnd :: go_time

definition codes_values :: "list_one_time_codes_params \<Rightarrow> (string \<times> string) list" where
  "codes_values p = int_param ''offset'' (lc_Offset p) @ int_param ''limit'' (lc_Limit p) @ text_param ''driver_id'' (lc_DriverID p)
     @ time_param ''dtstart'' (lc_DTStart p) @ time_param ''dtend'' (lc_DTEnd p)"

definition CreateOneTimeCode :: "'s http_server \<Rightarrow> (string \<Rightarrow> string option) \<Rightarrow> rl_one_time_code json_enc \<Rightarrow> rl_one_time_code json_dec \<Rightarrow> relay_client \<Rightarrow> rl_one_time_code
    \<Rightarrow> ('s, rl_one_time_code) relay_op" where
  "CreateOneTimeCode srv message enc dec c code s =
     decodeJSON dec (relay_doRequest srv message c ''POST'' ''/fuelcodes/'' [] (Some (enc code)) s)"

definition ListOneTimeCodes :: "'s http_server \<Rightarrow> (string \<Rightarrow> string option) \<Rightarrow> rl_one_time_code list json_dec \<Rightarrow> relay_client \<Rightarrow> list_one_time_codes_params
    \<Rightarrow> ('s, rl_one_time_code list) relay_op" where
  "ListOneTimeCodes srv message dec c params s =
     decodeJSON dec (relay_doRequest srv message c ''GET'' ''/fuelcodes/'' (codes_values params) None s)"

definition GetOneTimeCode :: "'s http_server \<Rightarrow> (string \<Rightarrow> string option) \<Rightarrow> rl_one_time_code json_dec \<Rightarrow> relay_client \<Rightarrow> string \<Rightarrow> ('s, rl_one_time_code) relay_op" where
  "GetOneTimeCode srv message dec c i s =
     decodeJSON dec (relay_doRequest srv message c ''GET'' (''/fuelcodes/'' @ PathEscape i) [] None s)"

definition UpdateOneTimeCode :: "'s http_server \<Rightarrow> (string \<Rightarrow> string option) \<Rightarrow> rl_one_time_code json_enc \<Rightarrow> rl_one_time_code json_dec \<Rightarrow> relay_client \<Rightarrow> string \<Rightarrow> rl_one_time_code
    \<Rightarrow> ('s, rl_one_time_code) relay_op" where
  "UpdateOneTimeCode srv message enc dec c i code s =
     decodeJSON dec (relay_doRequest srv message c ''PUT'' (''/fuelcodes/'' @ PathEscape i) [] (Some (enc code)) s)"

definition DeleteOneTimeCode :: "'s http_server \<Rightarrow> (string \<Rightarrow> string option) \<Rightarrow> relay_client \<Rightarrow> string \<Rightarrow> 's \<Rightarrow> relay_err option \<times> 's" where
  "DeleteOneTimeCode srv message c i s = discardBody (relay_doRequest srv message c ''DELETE'' (''/fuelcodes/'' @ PathEscape i) [] None s)"

subsection \<open>Policies and their assignments\<close>

definition ListFuelPolicies :: "'s http_server \<Rightarrow> (string \<Rightarrow> string option) \<Rightarrow> rl_fuel_policy list json_dec \<Rightarrow> relay_client \<Rightarrow> ('s, rl_fuel_policy list) relay_op" where
  "ListFuelPolicies srv message dec c s = decodeJSON dec (relay_doRequest srv message c ''GET'' ''/fuel/policies/'' [] None s)"

definition GetFuelPolicy :: "'s http_server \<Rightarrow> (string \<Rightarrow> string option) \<Rightarrow> rl_fuel_policy json_dec \<Rightarrow> relay_client \<Rightarrow> string \<Rightarrow> ('s, rl_fuel_policy) relay_op" where
  "GetFuelPolicy srv message dec c i s =
     decodeJSON dec (relay_doRequest srv message c ''GET'' (''/fuel/policies/'' @ PathEscape i) [] None s)"

definition GetPolicyAssignment :: "'s http_server \<Rightarrow> (string \<Rightarrow> string option) \<Rightarrow> rl_policy_assignment_fuel_policy json_dec \<Rightarrow> relay_client \<Rightarrow> string
    \<Rightarrow> ('s, rl_policy_assignment_fuel_policy) relay_op" where
  "GetPolicyAssignment srv message dec c driverID s =
     decodeJSON dec (relay_doRequest srv message c ''GET'' (''/fuel/policies/policy-assignments/'' @ PathEscape driverID) [] None s)"

definition AssignPolicy :: "'s http_server \<Rightarrow> (string \<Rightarrow> string option) \<Rightarrow> rl_driver_policy_assignment json_enc \<Rightarrow> rl_policy_assignment_fuel_policy json_dec \<Rightarrow> relay_client
    \<Rightarrow> rl_driver_policy_assignment \<Rightarrow> ('s, rl_policy_assignment_fuel_policy) relay_op" where
  "AssignPolicy srv message enc dec c assignment s =
     decodeJSON dec (relay_doRequest srv message c ''POST'' ''/fuel/policies/policy-assignments/'' [] (Some (enc assignment)) s)"

definition relay_UpdatePolicyAssignment :: "'s http_server \<Rightarrow> (string \<Rightarrow> string option) \<Rightarrow> rl_update_policy_assignment json_enc \<Rightarrow> rl_policy_assignment_fuel_policy json_dec
    \<Rightarrow> relay_client \<Rightarrow> string \<Rightarrow> rl_update_policy_assignment \<Rightarrow> ('s, rl_policy_assignment_fuel_policy) relay_op" where
  "relay_UpdatePolicyAssignment srv message enc dec c i body s =
     decodeJSON dec (relay_doRequest srv message c ''PUT'' (''/fuel/policies/policy-assignments/'' @ PathEscape i) [] (Some (enc body)) s)"

definition DeletePolicyAssignment :: "'s http_server \<Rightarrow> (string \<Rightarrow> string option) \<Rightarrow> relay_client \<Rightarrow> string \<Rightarrow> 's \<Rightarrow> relay_err option \<times> 's" where
  "DeletePolicyAssignment srv message c i s =
     discardBody (relay_doRequest srv message c ''DELETE'' (''/fuel/policies/policy-assignments/'' @ PathEscape i) [] None s)"

subsection \<open>Transactions\<close>

definition ListTransactions :: "'s http_server \<Rightarrow> (string \<Rightarrow> string option) \<Rightarrow> rl_transaction list json_dec \<Rightarrow> relay_client \<Rightarrow> go_time \<Rightarrow> go_time
    \<Rightarrow> ('s, rl_transaction list) relay_op" where
  "ListTransactions srv message dec c dtstart dtend s =
     (if IsZero dtstart \<or> IsZero dtend then (Inl (RelayErr ''relaypayments: dtstart and dtend are required''), s)
      else decodeJSON dec (doRequestTo srv message c (ry_transactionsHost c) ''GET'' ''/fuel/transactions/''
             [(''dtstart'', fmt_RFC3339_utc (gt_UTC dtstart)), (''dtend'', fmt_RFC3339_utc (gt_UTC dtend))] None s))"

subsection \<open>Webhooks\<close>

definition relay_VerifyWebhookSignature :: "(string \<Rightarrow> string \<Rightarrow> string) \<Rightarrow> string \<Rightarrow> string \<Rightarrow> string \<Rightarrow> bool" where
  "relay_VerifyWebhookSignature hmac body apiKey signatureHeader =
     (if apiKey = [] \<or> signatureHeader = [] then False
      else if CHR ''|'' \<notin> set signatureHeader then False
      else let (timestamp, provided) = cut_at (CHR ''|'') signatureHeader in
        if timestamp = [] \<or> provided = [] then False
        else lower_utf8 provided = hexenc (hmac apiKey (timestamp @ body)))"

text \<open>What is accepted: a time and a code of it and the body, in either case of the digits. What the sender signs is accepted; a
  header that is accepted with two bodies has one code for both; but time and body are signed as one text, so that the
  boundary between them is not.\<close>

lemma cut_unique: "d \<notin> set a \<Longrightarrow> d \<notin> set b \<Longrightarrow> a @ d # s = b @ d # t \<Longrightarrow> a = b \<and> s = t"
proof (induction a arbitrary: b)
  case Nil
  then show ?case by (cases b) auto
next
  case (Cons x a)
  then show ?case by (cases b) auto
qed

lemma cut_at_split: "d \<notin> set a \<Longrightarrow> cut_at d (a @ d # s) = (a, s)"
  by (induction a) (auto simp: cut_at_def)

lemma relay_signature_split:
  assumes "CHR ''|'' \<notin> set ts"
  shows "relay_VerifyWebhookSignature hmac body key (ts @ CHR ''|'' # sig)
    \<longleftrightarrow> key \<noteq> [] \<and> ts \<noteq> [] \<and> sig \<noteq> [] \<and> lower_utf8 sig = hexenc (hmac key (ts @ body))"
  using assms by (auto simp: relay_VerifyWebhookSignature_def cut_at_split)

lemma relay_signature_form:
  assumes "relay_VerifyWebhookSignature hmac body key header"
  shows "\<exists>ts sig. header = ts @ CHR ''|'' # sig \<and> CHR ''|'' \<notin> set ts"
proof -
  have "CHR ''|'' \<in> set header" using assms by (simp add: relay_VerifyWebhookSignature_def split: if_splits)
  then show ?thesis by (rule split_list_first)
qed

lemma relay_signature_accepts:
  assumes "key \<noteq> []" "ts \<noteq> []" "CHR ''|'' \<notin> set ts" "hmac key (ts @ body) \<noteq> []"
  shows "relay_VerifyWebhookSignature hmac body key (ts @ CHR ''|'' # hexenc (hmac key (ts @ body)))"
  using assms by (cases "hmac key (ts @ body)") (simp_all add: relay_signature_split hexenc_lower del: hexenc.simps, simp)

lemma relay_signature_binds:
  assumes "relay_VerifyWebhookSignature hmac body key header" "relay_VerifyWebhookSignature hmac body' key header"
  shows "\<exists>ts. hmac key (ts @ body) = hmac key (ts @ body')"
proof -
  obtain ts sig where h: "header = ts @ CHR ''|'' # sig" "CHR ''|'' \<notin> set ts" using relay_signature_form [OF assms(1)] by blast
  have "hexenc (hmac key (ts @ body)) = lower_utf8 sig" "hexenc (hmac key (ts @ body')) = lower_utf8 sig"
    using assms by (simp_all add: h relay_signature_split)
  then have "hmac key (ts @ body) = hmac key (ts @ body')" by (simp add: hexenc_inj)
  then show ?thesis by blast
qed

lemma relay_signature_boundary:
  assumes "relay_VerifyWebhookSignature hmac body key ((ts @ tail) @ CHR ''|'' # sig)" "CHR ''|'' \<notin> set (ts @ tail)" "ts \<noteq> []"
  shows "relay_VerifyWebhookSignature hmac (tail @ body) key (ts @ CHR ''|'' # sig)"
  using assms(2,3) assms(1) [unfolded relay_signature_split [OF assms(2)]] by (simp add: relay_signature_split)

text \<open>Transactions are read from the address without its last part, everything else from the whole address; a configured
  address may end in slashes.\<close>

lemma trim_slashes_end: "b \<noteq> [] \<Longrightarrow> last b \<noteq> CHR ''/'' \<Longrightarrow> trim_slashes (b @ replicate n (CHR ''/'')) = b"
  by (cases b rule: rev_cases) (auto simp: trim_slashes_def dropWhile_append)

lemma relay_hosts:
  assumes "apiKey \<noteq> []"
  shows "relay_NewClient (base @ ''/integrations'' @ replicate n (CHR ''/'')) apiKey
    = Inr \<lparr>ry_host = base @ ''/integrations'', ry_transactionsHost = base, ry_apiKey = apiKey\<rparr>"
  using assms trim_slashes_end [of "base @ ''/integrations''" n] by (simp add: relay_NewClient_def trim_suffix_def Let_def)

lemma transactions_request:
  assumes "\<not> IsZero dtstart" "\<not> IsZero dtend" "ListTransactions srv message dec c dtstart dtend s = (Inr txs, s')"
  shows "\<exists>r. srv (relay_request c (ry_transactionsHost c) ''GET'' ''/fuel/transactions/''
      [(''dtstart'', fmt_RFC3339_utc (gt_UTC dtstart)), (''dtend'', fmt_RFC3339_utc (gt_UTC dtend))] None) s = (Answer r, s')
    \<and> 200 \<le> rs_status r \<and> rs_status r < 300 \<and> dec (rs_body r) = Inr txs"
  using assms by (auto simp: ListTransactions_def decodeJSON_def doRequestTo_def relay_send_def
      split: prod.splits sum.splits http_outcome.splits if_splits)

text \<open>Whatever an identifier holds, it stays one segment of the path: no slash and no question mark is sent as such.\<close>

lemma driver_path:
  "\<exists>seg. rq_url (relay_request c host ''GET'' (''/drivers/'' @ PathEscape i) [] None) = host @ ''/drivers/'' @ seg
     \<and> CHR ''/'' \<notin> set seg \<and> CHR ''?'' \<notin> set seg"
  by (simp add: relay_request_def PathEscape_one_segment)

end
