(* ===== verification/Rc_Proc.thy ===== *)
theory Rc_Proc
  imports Fmcsa
begin

text \<open>
  The client of the service that reads rate confirmations (\<open>src/client/rcproc\<close>): a file by its address, the state of a
  request, and a file sent along as a multipart form. The server, JSON, the boundary of a form and what \<open>NewRequest\<close> says
  of an address are parameters; an element of type \<open>any\<close> is its JSON text. The caller's token and the shape of errors are
  those of \<open>Fmcsa\<close>.
\<close>

subsection \<open>Data\<close>

record rcp_request =
  rcq_FileURL :: string
  rcq_Provider :: string

record rcp_response =
  rp_RequestID :: string
  rp_Status :: string
  rp_EstimatedSeconds :: int
  rp_Message :: string

record load_details =
  ldd_LoadID :: "string option"
  ldd_ProNumber :: "string option"
  ldd_PoNumber :: "string option"
  ldd_ReferenceNumbers :: "string list"
  ldd_BolNumber :: "string option"
  ldd_ShipmentID :: "string option"
  ldd_LoadPay :: "flt option"
  ldd_Currency :: "string option"
  ldd_DistanceMiles :: "flt option"
  ldd_TotalWeight :: "flt option"
  ldd_WeightUnit :: "string option"
  ldd_DetentionRate :: "flt option"
  ldd_DetentionFreeTime :: "int option"
  ldd_LayoverRate :: "flt option"
  ldd_TonuRate :: "flt option"
  ldd_LumperReimbursement :: "bool option"
  ldd_FuelSurcharge :: "flt option"
  ldd_FuelSurchargeType :: "string option"

record hazmat_details =
  hzd_HazmatClass :: "string option"
  hzd_UnNumber :: "string option"
  hzd_ProperShippingName :: "string option"
  hzd_PackingGroup :: "string option"
  hzd_PlacardRequired :: "bool option"
  hzd_PlacardType :: "string option"
  hzd_EmergencyContactName :: "string option"
  hzd_EmergencyContactPhone :: "string option"
  hzd_ErgGuideNumber :: "string option"
  hzd_ReportableQuantity :: "bool option"
  hzd_MarinePollutant :: "bool option"
  hzd_InhalationHazard :: "bool option"
  hzd_SpecialPermits :: "string list"

record temperature_reqs =
  tmr_TemperatureMin :: "flt option"
  tmr_TemperatureMax :: "flt option"
  tmr_TemperatureSetpoint :: "flt option"
  tmr_TemperatureUnit :: "string option"
  tmr_ContinuousMode :: "bool option"
  tmr_CycleMode :: "bool option"
  tmr_PrecoolRequired :: "bool option"
  tmr_PrecoolTemperature :: "flt option"
  tmr_PulpTemperatureRequired :: "bool option"
  tmr_TemperatureRecorderRequired :: "bool option"
  tmr_FsmaCompliant :: "bool option"

record flatbed_reqs =
  fbr_TarpRequired :: "bool option"
  fbr_TarpType :: "string option"
  fbr_TarpCount :: "int option"
  fbr_ChainsRequired :: "int option"
  fbr_StrapsRequired :: "int option"
  fbr_BindersRequired :: "int option"
  fbr_EdgeProtectorsRequired :: "bool option"
  fbr_CornerProtectorsRequired :: "bool option"
  fbr_CoilRacksRequired :: "bool option"
  fbr_DunnageRequired :: "bool option"
  fbr_Stackable :: "bool option"
  fbr_TopLoadOk :: "bool option"

record oversize_reqs =
  osr_Overwidth :: "bool option"
  osr_Overheight :: "bool option"
  osr_Overlength :: "bool option"
  osr_Overweight :: "bool option"
  osr_LoadWidthInches :: "flt option"
  osr_LoadHeightInches :: "flt option"
  osr_LoadLengthInches :: "flt option"
  osr_PermitsRequired :: "bool option"
  osr_PermitNumbers :: "string list"
  osr_PermitStates :: "string list"
  osr_EscortRequired :: "bool option"
  osr_PilotCarFront :: "bool option"
  osr_PilotCarRear :: "bool option"
  osr_PoliceEscortRequired :: "bool option"
  osr_EscortCount :: "int option"
  osr_FlagsRequired :: "bool option"
  osr_BannersRequired :: "bool option"
  osr_FlashingLightsRequired :: "bool option"
  osr_RotatingBeaconRequired :: "bool option"
  osr_DaylightOnly :: "bool option"
  osr_WeekendRestrictions :: "bool option"
  osr_HolidayRestrictions :: "bool option"
  osr_RestrictedRoutes :: "string option"
  osr_AxleCount :: "int option"
  osr_AxleConfiguration :: "string option"

record equipment =
  eq_Type :: "string option"
  eq_TypeNormalized :: "string option"
  eq_Size :: "string option"
  eq_LengthFeet :: "int option"
  eq_Requirements :: "string option"
  eq_Mode :: "string option"
  eq_TeamRequired :: "bool option"
  eq_Hazmat :: "bool option"
  eq_HazmatEndorsementReq :: "bool option"
  eq_TankerEndorsementReq :: "bool option"
  eq_TwicCardRequired :: "bool option"
  eq_HazmatDetails :: "hazmat_details option"
  eq_TemperatureRequirements :: "temperature_reqs option"
  eq_FlatbedRequirements :: "flatbed_reqs option"
  eq_OversizeRequirements :: "oversize_reqs option"
  eq_TemperatureControlled :: "bool option"
  eq_TemperatureMin :: "flt option"
  eq_TemperatureMax :: "flt option"
  eq_TemperatureUnit :: "string option"
  eq_LiftGateRequired :: "bool option"
  eq_PalletJackRequired :: "bool option"
  eq_LoadBarsRequired :: "bool option"
  eq_ETrackRequired :: "bool option"
  eq_AirRideRequired :: "bool option"
  eq_VentedTrailer :: "bool option"
  eq_FoodGradeTrailer :: "bool option"

record commodity =
  cmd_Description :: "string option"
  cmd_PieceCount :: "int option"
  cmd_PalletCount :: "int option"
  cmd_HandlingUnit :: "string option"
  cmd_Weight :: "flt option"
  cmd_WeightUnit :: "string option"
  cmd_Dimensions :: "string option"
  cmd_Hazmat :: "bool option"
  cmd_HazmatClass :: "string option"
  cmd_UnNumber :: "string option"
  cmd_PackingGroup :: "string option"
  cmd_ProperShippingName :: "string option"
  cmd_NmfcCode :: "string option"
  cmd_FreightClass :: "string option"
  cmd_Value :: "flt option"
  cmd_Stackable :: "bool option"
  cmd_Notes :: "string option"

record load_stop =
  lst_Type :: "string option"
  lst_StopNumber :: "int option"
  lst_FacilityName :: "string option"
  lst_Address :: "string option"
  lst_City :: "string option"
  lst_State :: "string option"
  lst_Zip :: "string option"
  lst_Country :: "string option"
  lst_StartDate :: "string option"
  lst_StartTime :: "string option"
  lst_EndDate :: "string option"
  lst_EndTime :: "string option"
  lst_AppointmentRequired :: "bool option"
  lst_AppointmentNumber :: "string option"
  lst_ContactName :: "string option"
  lst_ContactPhone :: "string option"
  lst_ContactEmail :: "string option"
  lst_ReferenceID :: "string option"
  lst_PickupNumber :: "string option"
  lst_DeliveryNumber :: "string option"
  lst_DockHours :: "string option"
  lst_DetentionFreeTime :: "int option"
  lst_DriverAssist :: "bool option"
  lst_LumperRequired :: "bool option"
  lst_ScaleRequired :: "bool option"
  lst_SealRequired :: "bool option"
  lst_SealNumber :: "string option"
  lst_Notes :: "string option"

record broker_contact =
  bkc_CompanyName :: "string option"
  bkc_ContactName :: "string option"
  bkc_Phone :: "string option"
  bkc_Email :: "string option"
  bkc_Fax :: "string option"
  bkc_McNumber :: "string option"
  bkc_DotNumber :: "string option"
  bkc_Address :: "string option"
  bkc_AfterHoursPhone :: "string option"

record payment_terms =
  pmt_Terms :: "string option"
  pmt_DaysToPay :: "int option"
  pmt_QuickPayAvailable :: "bool option"
  pmt_QuickPayPercentage :: "flt option"
  pmt_QuickPayDays :: "int option"
  pmt_FactoringAllowed :: "bool option"
  pmt_InvoiceEmail :: "string option"
  pmt_PaymentMethod :: "string option"
  pmt_RequiredDocuments :: "string list"

record carrier_reqs =
  crq_MinimumInsurance :: "flt option"
  crq_HazmatInsuranceRequired :: "flt option"
  crq_AutoLiabilityMinimum :: "flt option"
  crq_HazmatEndorsement :: "bool option"
  crq_TankerEndorsement :: "bool option"
  crq_TwicCard :: "bool option"
  crq_PassportRequired :: "bool option"
  crq_FastCardRequired :: "bool option"
  crq_EldRequired :: "bool option"
  crq_GpsTrackingRequired :: "bool option"
  crq_DashcamRequired :: "bool option"
  crq_MinimumSafetyRating :: "string option"
  crq_CsaScoreRequirement :: "string option"

record rate_con =
  rk_ExtractionStatus :: string
  rk_ConfidenceScore :: flt
  rk_LoadDetails :: load_details
  rk_Equipment :: equipment
  rk_Commodities :: "commodity list"
  rk_Stops :: "load_stop list"
  rk_BrokerContact :: broker_contact
  rk_SpecialInstructions :: "string option"
  rk_PaymentTerms :: payment_terms
  rk_CarrierRequirements :: "carrier_reqs option"
  rk_RawExtractedText :: "string option"

record rcp_status =
  rt_RequestID :: string
  rt_Status :: string
  rt_Progress :: int
  rt_Message :: string
  rt_CompanyID :: string
  rt_UserID :: string
  rt_Provider :: string
  rt_FileURL :: string
  rt_Filename :: string
  rt_FileSizeBytes :: int
  rt_CreatedAt :: go_time
  rt_Data :: "rate_con option"

record rcp_validation_error =
  rve_Location :: "string list"
  rve_Message :: string
  rve_Type :: string

record rcp_http_error =
  rhe_Detail :: "rcp_validation_error list"

record rcp_bad_request =
  rbr_Detail :: string

record rcp_client =
  rc_baseURL :: string
  rc_provider :: string

definition rc_NewClient :: "string \<Rightarrow> string \<Rightarrow> rcp_client" where
  "rc_NewClient baseURL provider = \<lparr>rc_baseURL = baseURL, rc_provider = provider\<rparr>"

text \<open>What JSON makes of the bodies: for the two error bodies, what is left in the structure and whether it failed.\<close>

record rcp_codec =
  rk_encode :: "rcp_request \<Rightarrow> string + string"
  rk_process :: "string \<Rightarrow> string + rcp_response"
  rk_status :: "string \<Rightarrow> string + rcp_status"
  rk_rate_con :: "string \<Rightarrow> string + rate_con"
  rk_details :: "string \<Rightarrow> bool \<times> rcp_validation_error list option"
  rk_bad_request :: "string \<Rightarrow> rcp_bad_request option"

subsection \<open>Errors\<close>

definition rc_handleAPIError :: "rcp_codec \<Rightarrow> int \<Rightarrow> string \<Rightarrow> fm_err" where
  "rc_handleAPIError K status body =
     FmErr (if status = 422 then details_error (\<lambda>b. map_prod id (map_option (map rve_Message)) (rk_details K b)) body
            else if status = 400 then
              (case rk_bad_request K body of
                 None \<Rightarrow> ''400 status but decode failed (Body: '' @ body @ '')''
               | Some e \<Rightarrow> ''bad request: '' @ rbr_Detail e)
            else ''api returned unexpected status '' @ show_int status @ '' (Body: '' @ body @ '')'')"

definition rc_SetAuthToken :: "go_context \<Rightarrow> (string \<times> string) attempt" where
  "rc_SetAuthToken ctx = actor_header ctx"

text \<open>A request with its token, and what comes of it: \<open>what\<close> names it in the two errors.\<close>

definition rc_send :: "'s http_server \<Rightarrow> (string \<Rightarrow> string option) \<Rightarrow> rcp_codec \<Rightarrow> go_context \<Rightarrow> (string \<Rightarrow> string + 'a) \<Rightarrow> string \<times> string
    \<Rightarrow> string \<Rightarrow> string \<Rightarrow> string \<Rightarrow> string option \<Rightarrow> 's \<Rightarrow> 'a attempt \<times> 's" where
  "rc_send srv bad_url K ctx dec what method url ctype body s =
     (case bad_url url of
        Some e \<Rightarrow> (Fails (FmErr e), s)
      | None \<Rightarrow>
          (case rc_SetAuthToken ctx of
             Panics \<Rightarrow> (Panics, s)
           | Fails e \<Rightarrow> (Fails (FmWrap ''failed to set auth token'' e), s)
           | Gives auth \<Rightarrow>
               (case srv \<lparr>rq_method = method, rq_url = url, rq_headers = [auth, (''Content-Type'', ctype)], rq_body = body\<rparr> s of
                  (BadUrl e, s') \<Rightarrow> (Fails (FmErr e), s')
                | (NoAnswer e, s') \<Rightarrow> (Fails (FmErr (''rc processor '' @ fst what @ '': '' @ e)), s')
                | (Answer r, s') \<Rightarrow>
                    (if rs_status r > 300 then Fails (rc_handleAPIError K (rs_status r) (rs_body r))
                     else (case dec (rs_body r) of
                             Inl e \<Rightarrow> Fails (FmErr (''failed to decode rc response'' @ snd what @ '': '' @ e))
                           | Inr v \<Rightarrow> Gives v), s'))))"

subsection \<open>Operations\<close>

definition rc_Process :: "'s http_server \<Rightarrow> (string \<Rightarrow> string option) \<Rightarrow> rcp_codec \<Rightarrow> rcp_client \<Rightarrow> go_context \<Rightarrow> string \<Rightarrow> 's \<Rightarrow> rcp_response attempt \<times> 's" where
  "rc_Process srv bad_url K c ctx fileUrl s =
     (case rk_encode K \<lparr>rcq_FileURL = fileUrl, rcq_Provider = rc_provider c\<rparr> of
        Inl e \<Rightarrow> (Fails (FmErr e), s)
      | Inr json \<Rightarrow> rc_send srv bad_url K ctx (rk_process K) (''request failed (async)'', '' (async)'') ''POST'' (rc_baseURL c @ ''/api/v1/process'')
          ''application/json'' (Some json) s)"

definition rc_GetStatus :: "'s http_server \<Rightarrow> (string \<Rightarrow> string option) \<Rightarrow> rcp_codec \<Rightarrow> rcp_client \<Rightarrow> go_context \<Rightarrow> string \<Rightarrow> 's \<Rightarrow> rcp_status attempt \<times> 's" where
  "rc_GetStatus srv bad_url K c ctx requestID s =
     rc_send srv bad_url K ctx (rk_status K) (''status request failed'', []) ''GET'' (rc_baseURL c @ ''/api/v1/status/'' @ requestID)
       ''application/json'' None s"

text \<open>The form: \<open>mime/multipart\<close> writes each part after a delimiter, its headers in the order of their names, and closes the last
  one.\<close>

definition crlf_text :: string where "crlf_text = [CHR 0x0D, CHR 0x0A]"

definition quoted_text :: "string \<Rightarrow> string" where
  "quoted_text s = CHR 0x22 # s @ [CHR 0x22]"

definition provider_head :: string where
  "provider_head = ''Content-Disposition: form-data; name='' @ quoted_text ''provider'' @ crlf_text @ crlf_text"

definition file_head :: "string \<Rightarrow> string \<Rightarrow> string" where
  "file_head filename contentType = ''Content-Disposition: form-data; name='' @ quoted_text ''file'' @ ''; filename='' @ quoted_text filename @ crlf_text
     @ ''Content-Type: '' @ contentType @ crlf_text @ crlf_text"

definition form_body :: "string \<Rightarrow> string \<Rightarrow> string \<Rightarrow> string \<Rightarrow> string \<Rightarrow> string" where
  "form_body boundary provider filename contentType content =
     ''--'' @ boundary @ crlf_text @ provider_head @ provider
     @ crlf_text @ ''--'' @ boundary @ crlf_text @ file_head filename contentType @ content
     @ crlf_text @ ''--'' @ boundary @ ''--'' @ crlf_text"

text \<open>\<open>file\<close> is what reading the file gives.\<close>

definition rc_ProcessSync :: "'s http_server \<Rightarrow> (string \<Rightarrow> string option) \<Rightarrow> rcp_codec \<Rightarrow> string \<Rightarrow> rcp_client \<Rightarrow> go_context \<Rightarrow> string + string
    \<Rightarrow> string \<Rightarrow> string \<Rightarrow> 's \<Rightarrow> rate_con attempt \<times> 's" where
  "rc_ProcessSync srv bad_url K boundary c ctx file filename contentType s =
     (case file of
        Inl e \<Rightarrow> (Fails (FmErr (''failed to copy file content: '' @ e)), s)
      | Inr content \<Rightarrow> rc_send srv bad_url K ctx (rk_rate_con K) (''request failed'', []) ''POST'' (rc_baseURL c @ ''/api/v1/process/sync'')
          (''multipart/form-data; boundary='' @ boundary) (Some (form_body boundary (rc_provider c) filename contentType content)) s)"

subsection \<open>The form arrives as it was sent\<close>

text \<open>How a part is read, as RFC 2046 has it: up to the first delimiter, a line break, two hyphens and the boundary.\<close>

definition delimiter :: "string \<Rightarrow> string" where
  "delimiter boundary = crlf_text @ ''--'' @ boundary"

definition starts :: "string \<Rightarrow> string \<Rightarrow> bool" where
  "starts d s \<longleftrightarrow> take (length d) s = d"

fun read_until :: "string \<Rightarrow> string \<Rightarrow> (string \<times> string) option" where
  "read_until d [] = (if d = [] then Some ([], []) else None)"
| "read_until d (c # s) =
     (if starts d (c # s) then Some ([], drop (length d) (c # s))
      else map_option (\<lambda>(a, b). (c # a, b)) (read_until d s))"

fun has_text :: "string \<Rightarrow> string \<Rightarrow> bool" where
  "has_text d [] \<longleftrightarrow> d = []"
| "has_text d (c # s) \<longleftrightarrow> starts d (c # s) \<or> has_text d s"

lemma starts_append: "starts d (a @ b) \<Longrightarrow> length d \<le> length a \<Longrightarrow> starts d a"
  by (simp add: starts_def)

lemma read_until_append:
  assumes "d \<noteq> []" "hd d \<notin> set (tl d)"
  shows "\<not> has_text d a \<Longrightarrow> read_until d (a @ d @ s) = Some (a, s)"
proof (induction a)
  case Nil
  obtain x xs where "d = x # xs" using assms(1) by (cases d) auto
  then show ?case by (simp add: starts_def)
next
  case (Cons x a)
  have "\<not> starts d ((x # a) @ d @ s)"
  proof
    assume st: "starts d ((x # a) @ d @ s)"
    show False
    proof (cases "length d \<le> length (x # a)")
      case True
      from starts_append [OF st this] Cons.prems show False by simp
    next
      case False
      define n where "n = length (x # a)"
      have n: "n < length d" "0 < n" using False by (simp_all add: n_def)
      have "d ! n = take (length d) ((x # a) @ d @ s) ! n" using st by (simp only: starts_def)
      also have "\<dots> = ((x # a) @ d @ s) ! n" using n by simp
      also have "\<dots> = d ! 0" using n assms(1) by (simp add: n_def nth_append)
      finally have "tl d ! (n - 1) = hd d" using n assms(1) by (simp add: nth_tl hd_conv_nth)
      moreover have "tl d ! (n - 1) \<in> set (tl d)" using n by (intro nth_mem) simp
      ultimately show False using assms(2) by simp
    qed
  qed
  with Cons show ?case by simp
qed

text \<open>For a boundary without line breaks that occurs in neither part after one, the receiver reads the provider and, after the two
  header lines of the file, exactly the file's bytes, then the closing hyphens.\<close>

lemma delimiter_simple: "CHR 0x0D \<notin> set boundary \<Longrightarrow> delimiter boundary \<noteq> [] \<and> hd (delimiter boundary) \<notin> set (tl (delimiter boundary))"
  by (simp add: delimiter_def crlf_text_def)

lemma form_roundtrip:
  assumes "CHR 0x0D \<notin> set boundary"
    and "\<not> has_text (delimiter boundary) (provider_head @ provider)"
    and "\<not> has_text (delimiter boundary) (file_head filename contentType @ content)"
  shows "\<exists>rest rest'. form_body boundary provider filename contentType content = ''--'' @ boundary @ crlf_text @ rest
    \<and> read_until (delimiter boundary) rest = Some (provider_head @ provider, crlf_text @ rest')
    \<and> read_until (delimiter boundary) rest' = Some (file_head filename contentType @ content, ''--'' @ crlf_text)"
proof -
  let ?d = "delimiter boundary"
  let ?rest' = "(file_head filename contentType @ content) @ ?d @ ''--'' @ crlf_text"
  let ?rest = "(provider_head @ provider) @ ?d @ crlf_text @ ?rest'"
  have "form_body boundary provider filename contentType content = ''--'' @ boundary @ crlf_text @ ?rest"
    by (simp add: form_body_def delimiter_def)
  moreover have "read_until ?d ?rest = Some (provider_head @ provider, crlf_text @ ?rest')"
    by (rule read_until_append) (use delimiter_simple [OF assms(1)] assms(2) in auto)
  moreover have "read_until ?d ?rest' = Some (file_head filename contentType @ content, ''--'' @ crlf_text)"
    by (rule read_until_append) (use delimiter_simple [OF assms(1)] assms(3) in auto)
  ultimately show ?thesis by blast
qed

text \<open>A name of a file is written into its header as it is, so one with a line break adds lines of its own - an end of the header
  among them.\<close>

lemma filename_injects:
  "file_head (a @ crlf_text @ crlf_text @ b) contentType
    = (''Content-Disposition: form-data; name='' @ quoted_text ''file'' @ ''; filename='' @ CHR 0x22 # a) @ crlf_text @ crlf_text
      @ b @ CHR 0x22 # crlf_text @ ''Content-Type: '' @ contentType @ crlf_text @ crlf_text"
  by (simp add: file_head_def quoted_text_def)

text \<open>So with the identifier of a request in its address: a slash or a question mark in it leads elsewhere.\<close>

lemma status_address:
  assumes "bad_url (rc_baseURL c @ ''/api/v1/status/'' @ ''../process?x='' @ i) = None" "ctx_actor ctx = Some a" "Token a = Some t"
    and "rc_GetStatus srv bad_url K c ctx (''../process?x='' @ i) s = (Gives r, s')"
  shows "\<exists>rq res. rq_url rq = rc_baseURL c @ ''/api/v1/status/../process?x='' @ i \<and> srv rq s = (Answer res, s')"
  using assms by (auto simp: rc_GetStatus_def rc_send_def rc_SetAuthToken_def actor_header_def ctx_actor_def GetActor_def
      split: option.splits prod.splits http_outcome.splits if_splits sum.splits intro!: exI)

text \<open>A result is the decoded body of the one request made with the caller's own token; a call without one makes no request.\<close>

lemma rc_send_result:
  assumes "rc_send srv bad_url K ctx dec what method url ctype body s = (Gives v, s')"
  shows "\<exists>a t r. GetActor ctx = Some (Some a) \<and> Token a = Some t
    \<and> srv \<lparr>rq_method = method, rq_url = url, rq_headers = [(''Authorization'', ''Bearer '' @ t), (''Content-Type'', ctype)], rq_body = body\<rparr> s = (Answer r, s')
    \<and> rs_status r \<le> 300 \<and> dec (rs_body r) = Inr v"
  using assms by (auto simp: rc_send_def rc_SetAuthToken_def actor_header_def split: option.splits prod.splits http_outcome.splits if_splits sum.splits)

lemma rc_no_token:
  "(\<nexists>a t. GetActor ctx = Some (Some a) \<and> Token a = Some t) \<Longrightarrow>
     snd (rc_send srv bad_url K ctx dec what method url ctype body s) = s"
  by (auto simp: rc_send_def rc_SetAuthToken_def actor_header_def split: option.split)

text \<open>A readable list of validation errors is reported as one that could not be read.\<close>

lemma readable_details_lost:
  "rk_details K body = (False, Some ds) \<Longrightarrow>
     rc_handleAPIError K 422 body = FmErr (''422 status but decode failed (Body: '' @ body @ '')'')"
  by (simp add: rc_handleAPIError_def details_error_def)

lemma unreadable_details:
  "rk_details K body = (True, Some (d # ds)) \<Longrightarrow> rc_handleAPIError K 422 body = FmErr (''validation error: '' @ rve_Message d)"
  by (simp add: rc_handleAPIError_def details_error_def)

end
