(* ===== verification/Proto_Convert.thy ===== *)
theory Proto_Convert
  imports Query_Filter "HOL-Library.Word"
begin

text \<open>
  Filters on the wire between services (\<open>src/tmsdb/proto_convert.go\<close>): the messages of \<open>filters.proto\<close> with presence of
  their optional fields, and the conversions in both directions. A numeric field keeps the 32 bits it has in the message; an
  enum of a message is any number; an element of a repeated message field may be nil.
\<close>

subsection \<open>Messages\<close>

record pb_string_filter =
  ps_Equals :: "string option"
  ps_Not :: "string option"
  ps_In :: "string list"
  ps_NotIn :: "string list"
  ps_Contains :: "string option"
  ps_StartsWith :: "string option"
  ps_EndsWith :: "string option"
  ps_Like :: "string option"
  ps_Regex :: "string option"
  ps_Mode :: int
  ps_IsNull :: "bool option"

record 'a pb_range_filter =
  pr_Equals :: "'a option"
  pr_Not :: "'a option"
  pr_In :: "'a list"
  pr_NotIn :: "'a list"
  pr_Lt :: "'a option"
  pr_Lte :: "'a option"
  pr_Gt :: "'a option"
  pr_Gte :: "'a option"
  pr_IsNull :: "bool option"

record pb_bool_filter =
  pb_Equals :: "bool option"
  pb_IsNull :: "bool option"

record pb_id_filter =
  pi_Equals :: "string option"
  pi_Not :: "string option"
  pi_In :: "string list"
  pi_NotIn :: "string list"
  pi_IsNull :: "bool option"

record pb_timestamp =
  ts_Seconds :: int
  ts_Nanos :: int

definition QueryMode_INSENSITIVE :: int where "QueryMode_INSENSITIVE = 1"
definition QueryModeInsensitive :: string where "QueryModeInsensitive = ''insensitive''"
definition QueryModeDefault :: string where "QueryModeDefault = ''default''"

subsection \<open>From the wire\<close>

definition ConvertStringFilter :: "pb_string_filter option \<Rightarrow> string_filter option" where
  "ConvertStringFilter pf =
     (case pf of None \<Rightarrow> None
      | Some p \<Rightarrow> Some \<lparr>sf_Equals = ps_Equals p, sf_Not = ps_Not p, sf_In = ps_In p, sf_NotIn = ps_NotIn p,
          sf_Contains = ps_Contains p, sf_StartsWith = ps_StartsWith p, sf_EndsWith = ps_EndsWith p,
          sf_Like = ps_Like p, sf_Regex = ps_Regex p,
          sf_Mode = (if ps_Mode p = QueryMode_INSENSITIVE then QueryModeInsensitive else QueryModeDefault),
          sf_IsNull = ps_IsNull p\<rparr>)"

definition int32sToInts :: "32 word list \<Rightarrow> int list" where
  "int32sToInts xs = map sint xs"

definition ConvertIntFilter :: "32 word pb_range_filter option \<Rightarrow> int range_filter option" where
  "ConvertIntFilter pf =
     (case pf of None \<Rightarrow> None
      | Some p \<Rightarrow> Some \<lparr>rf_Equals = map_option sint (pr_Equals p), rf_Not = map_option sint (pr_Not p),
          rf_In = (if 0 < length (pr_In p) then int32sToInts (pr_In p) else []),
          rf_NotIn = (if 0 < length (pr_NotIn p) then int32sToInts (pr_NotIn p) else []),
          rf_Lt = map_option sint (pr_Lt p), rf_Lte = map_option sint (pr_Lte p),
          rf_Gt = map_option sint (pr_Gt p), rf_Gte = map_option sint (pr_Gte p), rf_IsNull = pr_IsNull p\<rparr>)"

definition ConvertFloatFilter :: "real pb_range_filter option \<Rightarrow> real range_filter option" where
  "ConvertFloatFilter pf =
     (case pf of None \<Rightarrow> None
      | Some p \<Rightarrow> Some \<lparr>rf_Equals = pr_Equals p, rf_Not = pr_Not p, rf_In = pr_In p, rf_NotIn = pr_NotIn p,
          rf_Lt = pr_Lt p, rf_Lte = pr_Lte p, rf_Gt = pr_Gt p, rf_Gte = pr_Gte p, rf_IsNull = pr_IsNull p\<rparr>)"

definition ConvertBoolFilter :: "pb_bool_filter option \<Rightarrow> bool_filter option" where
  "ConvertBoolFilter pf =
     (case pf of None \<Rightarrow> None | Some p \<Rightarrow> Some \<lparr>bf_Equals = pb_Equals p, bf_IsNull = pb_IsNull p\<rparr>)"

text \<open>\<open>AsTime\<close>, also of a nil message, whose fields read as zero: nanoseconds since 1970.\<close>

definition AsTime :: "pb_timestamp option \<Rightarrow> int" where
  "AsTime ts = (case ts of None \<Rightarrow> 0 | Some t \<Rightarrow> ts_Seconds t * 1000000000 + ts_Nanos t)"

definition tsToTimePtr :: "pb_timestamp option \<Rightarrow> int option" where
  "tsToTimePtr ts = (case ts of None \<Rightarrow> None | Some t \<Rightarrow> Some (AsTime (Some t)))"

definition tsSliceToTimes :: "pb_timestamp option list \<Rightarrow> int list" where
  "tsSliceToTimes tss = map AsTime tss"

text \<open>A single timestamp of the message is a pointer, and so is an element of a list of them.\<close>

definition ConvertDateTimeFilter :: "pb_timestamp option pb_range_filter option \<Rightarrow> int range_filter option" where
  "ConvertDateTimeFilter pf =
     (case pf of None \<Rightarrow> None
      | Some p \<Rightarrow> Some \<lparr>rf_Equals = Option.bind (pr_Equals p) tsToTimePtr, rf_Not = Option.bind (pr_Not p) tsToTimePtr,
          rf_In = (if 0 < length (pr_In p) then tsSliceToTimes (pr_In p) else []),
          rf_NotIn = (if 0 < length (pr_NotIn p) then tsSliceToTimes (pr_NotIn p) else []),
          rf_Lt = Option.bind (pr_Lt p) tsToTimePtr, rf_Lte = Option.bind (pr_Lte p) tsToTimePtr,
          rf_Gt = Option.bind (pr_Gt p) tsToTimePtr, rf_Gte = Option.bind (pr_Gte p) tsToTimePtr, rf_IsNull = pr_IsNull p\<rparr>)"

definition ConvertIDFilter :: "pb_id_filter option \<Rightarrow> id_filter option" where
  "ConvertIDFilter pf =
     (case pf of None \<Rightarrow> None
      | Some p \<Rightarrow> Some \<lparr>if_Equals = pi_Equals p, if_Not = pi_Not p, if_In = pi_In p, if_NotIn = pi_NotIn p, if_IsNull = pi_IsNull p\<rparr>)"

subsection \<open>To the wire\<close>

definition ToProtoStringFilter :: "string_filter option \<Rightarrow> pb_string_filter option" where
  "ToProtoStringFilter f =
     (case f of None \<Rightarrow> None
      | Some f \<Rightarrow> Some \<lparr>ps_Equals = sf_Equals f, ps_Not = sf_Not f, ps_In = sf_In f, ps_NotIn = sf_NotIn f,
          ps_Contains = sf_Contains f, ps_StartsWith = sf_StartsWith f, ps_EndsWith = sf_EndsWith f,
          ps_Like = sf_Like f, ps_Regex = sf_Regex f,
          ps_Mode = (if sf_Mode f = QueryModeInsensitive then QueryMode_INSENSITIVE else 0),
          ps_IsNull = sf_IsNull f\<rparr>)"

definition ToProtoIDFilter :: "id_filter option \<Rightarrow> pb_id_filter option" where
  "ToProtoIDFilter f =
     (case f of None \<Rightarrow> None
      | Some f \<Rightarrow> Some \<lparr>pi_Equals = if_Equals f, pi_Not = if_Not f, pi_In = if_In f, pi_NotIn = if_NotIn f, pi_IsNull = if_IsNull f\<rparr>)"

subsection \<open>What the receiving service selects\<close>

lemma id_filter_roundtrip: "ConvertIDFilter (ToProtoIDFilter f) = f"
  by (cases f) (simp_all add: ConvertIDFilter_def ToProtoIDFilter_def)

lemma string_filter_mode: "map_option (\<lambda>g. (g\<lparr>sf_Mode := ''''\<rparr>, sf_Mode g = ''insensitive'')) (ConvertStringFilter (ToProtoStringFilter f))
    = map_option (\<lambda>g. (g\<lparr>sf_Mode := ''''\<rparr>, sf_Mode g = ''insensitive'')) f"
  by (cases f) (simp_all add: ConvertStringFilter_def ToProtoStringFilter_def QueryMode_INSENSITIVE_def QueryModeInsensitive_def
      QueryModeDefault_def)

lemma string_conds_mode: "string_conds col f = string_conds col g"
  if "f\<lparr>sf_Mode := ''''\<rparr> = g\<lparr>sf_Mode := ''''\<rparr>" "sf_Mode f = ''insensitive'' \<longleftrightarrow> sf_Mode g = ''insensitive''"
  using that by (cases f; cases g) (simp add: string_conds_def Let_def)

lemma int_filter_values:
  "fb_Int col (ConvertIntFilter (Some p)) fb = add_where (range_conds (\<lambda>v. VInt (sint v)) col
     \<lparr>rf_Equals = pr_Equals p, rf_Not = pr_Not p, rf_In = pr_In p, rf_NotIn = pr_NotIn p, rf_Lt = pr_Lt p, rf_Lte = pr_Lte p,
      rf_Gt = pr_Gt p, rf_Gte = pr_Gte p, rf_IsNull = pr_IsNull p\<rparr>) fb"
  by (simp add: fb_Int_def ConvertIntFilter_def range_conds_def if_set_def if_any_def int32sToInts_def comp_def split: option.split)

text \<open>A filter sent to another service selects there what it selects here: what \<open>ToProto\<close> and \<open>Convert\<close> make of a string or
  identifier filter adds to every builder the very conditions of the filter itself, a filter that is nil stays nil, and a mode
  that is neither of the two, which the wire does not carry, is one that \<open>String\<close> takes for the default.\<close>

theorem filter_crosses_services:
  "fb_String col (ConvertStringFilter (ToProtoStringFilter f)) fb = fb_String col f fb"
  "fb_ID col (ConvertIDFilter (ToProtoIDFilter g)) fb = fb_ID col g fb"
  "ConvertStringFilter (ToProtoStringFilter f) = None \<longleftrightarrow> f = None"
proof -
  show "fb_ID col (ConvertIDFilter (ToProtoIDFilter g)) fb = fb_ID col g fb" by (simp add: id_filter_roundtrip)
  show "ConvertStringFilter (ToProtoStringFilter f) = None \<longleftrightarrow> f = None"
    by (simp add: ConvertStringFilter_def ToProtoStringFilter_def split: option.split)
  show "fb_String col (ConvertStringFilter (ToProtoStringFilter f)) fb = fb_String col f fb"
  proof (cases f)
    case None
    then show ?thesis by (simp add: ConvertStringFilter_def ToProtoStringFilter_def)
  next
    case (Some s)
    then obtain g where g: "ConvertStringFilter (ToProtoStringFilter f) = Some g"
      by (simp add: ConvertStringFilter_def ToProtoStringFilter_def)
    with string_filter_mode [of f] Some have "string_conds col g = string_conds col s"
      by (intro string_conds_mode) simp_all
    then show ?thesis unfolding g by (simp add: Some fb_String_def)
  qed
qed

end
