(* ===== verification/Publishers.thy ===== *)
theory Publishers
  imports Events
begin

text \<open>
  Mail and notifications through the outbox (\<open>src/mail/mail.go\<close>, \<open>src/notify/notify.go\<close>): a service asks for an email or a
  notification by publishing an event in its own transaction. Both use an interface of one operation, \<open>Publish\<close>, whose laws
  are a locale here and hold of the transaction manager of \<open>Events\<close>. The metadata of a notification is a map shared with
  the caller, so it lives in a store. JSON and fresh identifiers are parameters.
\<close>

subsection \<open>The interface\<close>

text \<open>\<open>GormTransactionManager.Publish\<close>; the values an event's fields and identifiers get are those of the \<open>n\<close>th call.\<close>

definition tm_Publish :: "('v go_value \<Rightarrow> string option) \<Rightarrow> ('v event_payload \<Rightarrow> string option) \<Rightarrow> string \<Rightarrow> go_context
    \<Rightarrow> (string \<times> string) option \<Rightarrow> bool \<Rightarrow> (nat \<Rightarrow> uuid \<times> int \<times> faults) \<Rightarrow> string \<Rightarrow> string \<Rightarrow> uuid \<Rightarrow> 'v go_value \<Rightarrow> 'v go_value list
    \<Rightarrow> pg \<times> nat \<Rightarrow> write_err option \<times> (pg \<times> nat)" where
  "tm_Publish md mp svc ctx origin inTx env aggType evtType aggID data oldData st =
     (let (s, n) = st; (u, now, f) = env n;
          b = WithData data (Event aggType evtType aggID);
          b = (case oldData of [] \<Rightarrow> b | old # _ \<Rightarrow> if old = NilIface then b else WithOldData old b);
          (err, s') = writeEvent md mp svc ctx origin u now f inTx b s
      in (err, (s', n + 1)))"

text \<open>What its clients rely on: in a live transaction a call that reports no error adds the event asked for, or nothing - the
  manager drops an event rather than the caller's work -, and one that reports an error adds nothing.\<close>

locale event_outbox =
  fixes publish :: "string \<Rightarrow> string \<Rightarrow> uuid \<Rightarrow> 'd \<Rightarrow> 's \<Rightarrow> 'e option \<times> 's"
    and live :: "'s \<Rightarrow> bool" and rows :: "'s \<Rightarrow> outbox_event list" and carries :: "outbox_event \<Rightarrow> 'd \<Rightarrow> bool"
  assumes publish_ok: "live s \<Longrightarrow> publish agg evt i d s = (None, s') \<Longrightarrow> live s' \<and> (rows s' = rows s \<or>
      (\<exists>e. rows s' = rows s @ [e] \<and> ob_EntityID e = i \<and> ob_EntityType e = agg \<and> ob_EventType e = evt \<and> carries e d))"
    and publish_error: "live s \<Longrightarrow> publish agg evt i d s = (Some err, s') \<Longrightarrow> rows s' = rows s"

subsection \<open>Mail\<close>

record mail_address =
  ma_Email :: string
  ma_Name :: string

record mail_link =
  mk_EntityType :: string
  mk_EntityID :: uuid
  mk_Relation :: string

record mail_attachment =
  mt_FileID :: "uuid option"
  mt_Content :: string
  mt_Filename :: string
  mt_MIMEType :: string

record mail_message =
  ml_ID :: uuid
  ml_MailboxKey :: string
  ml_To :: "mail_address list"
  ml_CC :: "mail_address list"
  ml_BCC :: "mail_address list"
  ml_Subject :: string
  ml_HTML :: string
  ml_Text :: string
  ml_TemplateKey :: string
  ml_Attachments :: "mail_attachment list"
  ml_Links :: "mail_link list"
  ml_ThreadID :: "uuid option"
  ml_Headers :: "(string \<times> string) list"
  ml_Tags :: "(string \<times> string) list"
  ml_ScheduledAt :: "int option"
  ml_Origin :: string
  ml_CompanyID :: "uuid option"
  ml_SentBy :: "uuid option"

definition mail_Topic :: string where "mail_Topic = ''emails''"
definition actionSend :: string where "actionSend = ''send''"
definition MaxInlineAttachmentBytes :: nat where "MaxInlineAttachmentBytes = 2 ^ 20"

datatype invalid_mail = NoRecipient | EmptyRecipient | NoSubject | NoBody | IncompleteLink | NoFilename
  | NoContent string | TooLarge string nat

definition check_attachment :: "mail_attachment \<Rightarrow> invalid_mail option" where
  "check_attachment a =
     (if mt_Filename a = [] then Some NoFilename
      else if mt_FileID a = None \<and> length (mt_Content a) = 0 then Some (NoContent (mt_Filename a))
      else if length (mt_Content a) > MaxInlineAttachmentBytes then Some (TooLarge (mt_Filename a) (length (mt_Content a)))
      else None)"

fun check_attachments :: "mail_attachment list \<Rightarrow> invalid_mail option" where
  "check_attachments [] = None"
| "check_attachments (a # as) = (case check_attachment a of Some e \<Rightarrow> Some e | None \<Rightarrow> check_attachments as)"

definition mail_validate :: "mail_message \<Rightarrow> invalid_mail option" where
  "mail_validate m =
     (if length (ml_To m) = 0 then Some NoRecipient
      else if list_ex (\<lambda>a. ma_Email a = []) (ml_To m) then Some EmptyRecipient
      else if ml_Subject m = [] then Some NoSubject
      else if ml_HTML m = [] \<and> ml_Text m = [] then Some NoBody
      else if list_ex (\<lambda>l. mk_EntityType l = [] \<or> mk_EntityID l = uuid_Nil) (ml_Links m) then Some IncompleteLink
      else check_attachments (ml_Attachments m))"

datatype 'e mail_err = InvalidMail invalid_mail | CompanyRequired | PublishFailed 'e | VerifyFailed string | Dropped uuid
  | BatchItem nat "'e mail_err"

text \<open>The message as it is published.\<close>

definition complete :: "go_context \<Rightarrow> uuid \<Rightarrow> mail_message \<Rightarrow> mail_message" where
  "complete ctx fresh m =
     (let m = (if ml_ID m = uuid_Nil then m\<lparr>ml_ID := fresh\<rparr> else m);
          m = (if ml_Origin m = [] then m\<lparr>ml_Origin := ''system''\<rparr> else m)
      in if ml_CompanyID m = None then m\<lparr>ml_CompanyID := ctx_company ctx\<rparr> else m)"

text \<open>The verifier of a publisher, when it has one, reads in the same session; \<open>fresh\<close> is the new identifier.\<close>

definition mail_SendWithOptions :: "(string \<Rightarrow> string \<Rightarrow> uuid \<Rightarrow> mail_message \<Rightarrow> 's \<Rightarrow> 'e option \<times> 's)
    \<Rightarrow> (uuid \<Rightarrow> 's \<Rightarrow> (string + bool) \<times> 's) option \<Rightarrow> go_context \<Rightarrow> uuid \<Rightarrow> mail_message \<Rightarrow> bool \<Rightarrow> 's \<Rightarrow> ('e mail_err + uuid) \<times> 's" where
  "mail_SendWithOptions publish verifier ctx fresh m guaranteed s =
     (case mail_validate m of
        Some e \<Rightarrow> (Inl (InvalidMail e), s)
      | None \<Rightarrow>
          (let m = complete ctx fresh m in
           if ml_CompanyID m = None then (Inl CompanyRequired, s)
           else
             (case publish mail_Topic actionSend (ml_ID m) m s of
                (Some e, s') \<Rightarrow> (Inl (PublishFailed e), s')
              | (None, s') \<Rightarrow>
                  (case (if guaranteed then verifier else None) of
                     None \<Rightarrow> (Inr (ml_ID m), s')
                   | Some exists \<Rightarrow>
                       (case exists (ml_ID m) s' of
                          (Inl e, s'') \<Rightarrow> (Inl (VerifyFailed e), s'')
                        | (Inr ok, s'') \<Rightarrow> (if ok then Inr (ml_ID m) else Inl (Dropped (ml_ID m)), s''))))))"

definition mail_Send :: "(string \<Rightarrow> string \<Rightarrow> uuid \<Rightarrow> mail_message \<Rightarrow> 's \<Rightarrow> 'e option \<times> 's)
    \<Rightarrow> (uuid \<Rightarrow> 's \<Rightarrow> (string + bool) \<times> 's) option \<Rightarrow> go_context \<Rightarrow> uuid \<Rightarrow> mail_message \<Rightarrow> 's \<Rightarrow> ('e mail_err + uuid) \<times> 's" where
  "mail_Send publish verifier ctx fresh m = mail_SendWithOptions publish verifier ctx fresh m False"

text \<open>The identifiers of the messages sent, with the error that stopped the batch; \<open>i\<close> counts the messages.\<close>

fun batch_loop :: "(string \<Rightarrow> string \<Rightarrow> uuid \<Rightarrow> mail_message \<Rightarrow> 's \<Rightarrow> 'e option \<times> 's)
    \<Rightarrow> (uuid \<Rightarrow> 's \<Rightarrow> (string + bool) \<times> 's) option \<Rightarrow> go_context \<Rightarrow> (nat \<Rightarrow> uuid) \<Rightarrow> nat \<Rightarrow> mail_message list \<Rightarrow> 's
    \<Rightarrow> (uuid list \<times> 'e mail_err option) \<times> 's" where
  "batch_loop publish verifier ctx fresh i [] s = (([], None), s)"
| "batch_loop publish verifier ctx fresh i (m # ms) s =
     (case mail_Send publish verifier ctx (fresh i) m s of
        (Inl e, s') \<Rightarrow> (([], Some (BatchItem i e)), s')
      | (Inr j, s') \<Rightarrow>
          (case batch_loop publish verifier ctx fresh (i + 1) ms s' of ((out, err), s'') \<Rightarrow> ((j # out, err), s'')))"

definition SendBatch :: "(string \<Rightarrow> string \<Rightarrow> uuid \<Rightarrow> mail_message \<Rightarrow> 's \<Rightarrow> 'e option \<times> 's)
    \<Rightarrow> (uuid \<Rightarrow> 's \<Rightarrow> (string + bool) \<times> 's) option \<Rightarrow> go_context \<Rightarrow> (nat \<Rightarrow> uuid) \<Rightarrow> mail_message list \<Rightarrow> 's
    \<Rightarrow> (uuid list \<times> 'e mail_err option) \<times> 's" where
  "SendBatch publish verifier ctx fresh ms = batch_loop publish verifier ctx fresh 0 ms"

subsection \<open>Notifications\<close>

record 'v notification_action =
  na_Type :: string
  na_Params :: "(string \<times> 'v) list"

datatype 'v meta_value = MetaAny 'v | MetaAction "'v notification_action"

text \<open>A map in the store; a notification has the address of its own.\<close>

type_synonym 'v meta_store = "nat \<rightharpoonup> (string \<rightharpoonup> 'v meta_value)"

record 'v notification =
  nt_UserIDs :: "uuid list"
  nt_Title :: string
  nt_Type :: string
  nt_Body :: string
  nt_Priority :: string
  nt_Metadata :: "nat option"
  nt_Action :: "'v notification_action option"
  nt_EntityType :: string
  nt_EntityID :: "uuid option"

text \<open>The payload: the fields that are set only when there is something to say are options.\<close>

record 'v note_data =
  nd_user_ids :: "string list"
  nd_type :: string
  nd_title :: string
  nd_priority :: string
  nd_company_id :: string
  nd_body :: "string option"
  nd_metadata :: "(string \<rightharpoonup> 'v meta_value) option"
  nd_source_entity_type :: "string option"
  nd_source_entity_id :: "uuid option"

definition TypeInfo :: string where "TypeInfo = ''INFO''"
definition PriorityNormal :: string where "PriorityNormal = ''NORMAL''"

text \<open>The address of the metadata after the action was put there, at \<open>new\<close> when there were none, and the store.\<close>

definition put_action :: "nat \<Rightarrow> 'v notification \<Rightarrow> 'v meta_store \<Rightarrow> nat option \<times> 'v meta_store" where
  "put_action new n h =
     (case nt_Action n of
        None \<Rightarrow> (nt_Metadata n, h)
      | Some a \<Rightarrow>
          (let (p, h) = (case nt_Metadata n of None \<Rightarrow> (new, h(new \<mapsto> Map.empty)) | Some p \<Rightarrow> (p, h)) in
           (Some p, h(p \<mapsto> (case h p of Some m \<Rightarrow> m | None \<Rightarrow> Map.empty)(''action'' \<mapsto> MetaAction a)))))"

definition note_payload :: "go_context \<Rightarrow> (string \<rightharpoonup> 'v meta_value) option \<Rightarrow> 'v notification \<Rightarrow> 'v note_data" where
  "note_payload ctx metadata n =
     \<lparr>nd_user_ids = nt_UserIDs n, nd_type = (if nt_Type n = [] then TypeInfo else nt_Type n), nd_title = nt_Title n,
      nd_priority = (if nt_Priority n = [] then PriorityNormal else nt_Priority n),
      nd_company_id = (case ctx_company ctx of Some c \<Rightarrow> c | None \<Rightarrow> []),
      nd_body = (if nt_Body n \<noteq> [] then Some (nt_Body n) else None), nd_metadata = metadata,
      nd_source_entity_type = (if nt_EntityType n \<noteq> [] then Some (nt_EntityType n) else None),
      nd_source_entity_id = nt_EntityID n\<rparr>"

definition notify_Send :: "(string \<Rightarrow> string \<Rightarrow> uuid \<Rightarrow> 'v note_data \<Rightarrow> 's \<Rightarrow> 'e option \<times> 's) \<Rightarrow> go_context \<Rightarrow> uuid \<Rightarrow> nat
    \<Rightarrow> 'v notification \<Rightarrow> 'v meta_store \<Rightarrow> 's \<Rightarrow> 'e option \<times> 'v meta_store \<times> 's" where
  "notify_Send publish ctx aggID new n h s =
     (let (p, h') = put_action new n h;
          (err, s') = publish ''notifications'' ''send'' aggID (note_payload ctx (Option.bind p h') n) s
      in (err, h', s'))"

definition SendJSON :: "(string \<Rightarrow> string \<Rightarrow> uuid \<Rightarrow> 'd \<Rightarrow> 's \<Rightarrow> 'e option \<times> 's) \<Rightarrow> uuid \<Rightarrow> 'd \<Rightarrow> 's \<Rightarrow> 'e option \<times> 's" where
  "SendJSON publish aggID data s = publish ''notifications'' ''send'' aggID data s"

subsection \<open>What the clients may rely on\<close>

lemma complete_ID: "ml_ID (complete ctx fresh m) = (if ml_ID m = uuid_Nil then fresh else ml_ID m)"
  by (simp add: complete_def Let_def)

lemma complete_company: "ml_CompanyID (complete ctx fresh m) = (case ml_CompanyID m of None \<Rightarrow> ctx_company ctx | Some c \<Rightarrow> Some c)"
  by (simp add: complete_def Let_def split: option.split)

text \<open>A verifier that reads the rows of the session it is asked in.\<close>

definition reads_rows :: "('s \<Rightarrow> outbox_event list) \<Rightarrow> ('s \<Rightarrow> bool) \<Rightarrow> (uuid \<Rightarrow> 's \<Rightarrow> (string + bool) \<times> 's) \<Rightarrow> bool" where
  "reads_rows rows live exists \<longleftrightarrow> (\<forall>i s. live s \<longrightarrow> exists i s = (Inr (list_ex (\<lambda>e. ob_EntityID e = i) (rows s)), s))"

locale mail_outbox = event_outbox publish live rows carries
  for publish :: "string \<Rightarrow> string \<Rightarrow> uuid \<Rightarrow> mail_message \<Rightarrow> 's \<Rightarrow> 'e option \<times> 's" and live and rows and carries
begin

lemma send_runs:
  assumes "live s" "mail_SendWithOptions publish verifier ctx fresh m guaranteed s = (res, s')" "rows s' \<noteq> rows s"
    and "\<And>exists. verifier = Some exists \<Longrightarrow> reads_rows rows live exists"
  shows "mail_validate m = None \<and> live s' \<and> (\<exists>e. rows s' = rows s @ [e] \<and> ob_EntityID e = ml_ID (complete ctx fresh m)
    \<and> ob_EntityType e = mail_Topic \<and> ob_EventType e = actionSend \<and> carries e (complete ctx fresh m)
    \<and> ml_CompanyID (complete ctx fresh m) \<noteq> None) \<and> res = Inr (ml_ID (complete ctx fresh m))"
proof -
  let ?m = "complete ctx fresh m"
  have v: "mail_validate m = None" "ml_CompanyID ?m \<noteq> None"
    using assms(2,3) by (auto simp: mail_SendWithOptions_def Let_def split: option.splits if_splits)
  then obtain c where c: "ml_CompanyID ?m = Some c" by blast
  obtain err s1 where p: "publish mail_Topic actionSend (ml_ID ?m) ?m s = (err, s1)" by (metis prod.collapse)
  have run: "mail_SendWithOptions publish verifier ctx fresh m guaranteed s
      = (case err of Some e \<Rightarrow> (Inl (PublishFailed e), s1)
         | None \<Rightarrow> (case (if guaranteed then verifier else None) of
             None \<Rightarrow> (Inr (ml_ID ?m), s1)
           | Some exists \<Rightarrow> (case exists (ml_ID ?m) s1 of
                (Inl e, s2) \<Rightarrow> (Inl (VerifyFailed e), s2)
              | (Inr ok, s2) \<Rightarrow> (if ok then Inr (ml_ID ?m) else Inl (Dropped (ml_ID ?m)), s2))))"
    using v(1) p c by (simp add: mail_SendWithOptions_def Let_def)
  have none: "err = None"
  proof (rule ccontr)
    assume "err \<noteq> None"
    then obtain e where e: "err = Some e" by auto
    with run assms(2) have "s' = s1" by simp
    moreover have "rows s1 = rows s" using publish_error [OF assms(1)] p e by blast
    ultimately show False using assms(3) by simp
  qed
  have ok: "live s1" "rows s1 = rows s \<or> (\<exists>e. rows s1 = rows s @ [e] \<and> ob_EntityID e = ml_ID ?m \<and> ob_EntityType e = mail_Topic
      \<and> ob_EventType e = actionSend \<and> carries e ?m)"
    using publish_ok [OF assms(1)] p none by blast+
  show ?thesis
  proof (cases "if guaranteed then verifier else None")
    case None
    with run none assms(2) have "s' = s1" "res = Inr (ml_ID ?m)" by simp_all
    with ok assms(3) v show ?thesis by auto
  next
    case (Some exists)
    then have "reads_rows rows live exists" using assms(4) by (simp split: if_splits)
    then have "exists (ml_ID ?m) s1 = (Inr (list_ex (\<lambda>e. ob_EntityID e = ml_ID ?m) (rows s1)), s1)"
      using ok(1) by (simp add: reads_rows_def)
    with run none assms(2) Some have s': "s' = s1" and
      res: "res = (if list_ex (\<lambda>e. ob_EntityID e = ml_ID ?m) (rows s1) then Inr (ml_ID ?m) else Inl (Dropped (ml_ID ?m)))" by simp_all
    from ok(2) assms(3) s' obtain e where "rows s1 = rows s @ [e]" "ob_EntityID e = ml_ID ?m" "ob_EntityType e = mail_Topic"
      "ob_EventType e = actionSend" "carries e ?m" by auto
    with res s' ok(1) v show ?thesis by simp
  qed
qed

lemma send_guaranteed:
  assumes "live s" "reads_rows rows live exists" "\<not> list_ex (\<lambda>e. ob_EntityID e = ml_ID (complete ctx fresh m)) (rows s)"
    and "mail_SendWithOptions publish (Some exists) ctx fresh m True s = (Inr i, s')"
  shows "rows s' \<noteq> rows s"
proof
  assume same: "rows s' = rows s"
  let ?m = "complete ctx fresh m"
  obtain err s1 where p: "publish mail_Topic actionSend (ml_ID ?m) ?m s = (err, s1)" by (metis prod.collapse)
  from assms(4) p have "err = None" by (auto simp: mail_SendWithOptions_def Let_def split: option.splits if_splits)
  with p publish_ok [OF assms(1)] have "live s1" by blast
  then have ex: "exists (ml_ID ?m) s1 = (Inr (list_ex (\<lambda>e. ob_EntityID e = ml_ID ?m) (rows s1)), s1)"
    using assms(2) by (simp add: reads_rows_def)
  from assms(4) p ex \<open>err = None\<close> have "list_ex (\<lambda>e. ob_EntityID e = ml_ID ?m) (rows s1)" "s' = s1"
    by (auto simp: mail_SendWithOptions_def Let_def split: option.splits if_splits)
  with same assms(3) show False by simp
qed

end
subsection \<open>On the transaction manager\<close>

text \<open>A transaction that is live, and in which no RELEASE to come fails.\<close>

definition tx_healthy :: "(nat \<Rightarrow> uuid \<times> int \<times> faults) \<Rightarrow> pg \<times> nat \<Rightarrow> bool" where
  "tx_healthy env st \<longleftrightarrow> \<not> pg_aborted (fst st) \<and> (\<forall>k\<ge>snd st. \<not> f_release (snd (snd (env k))))"

definition tx_rows :: "pg \<times> nat \<Rightarrow> outbox_event list" where
  "tx_rows st = pg_rows (fst st)"

definition carries_data :: "('v go_value \<Rightarrow> string option) \<Rightarrow> ('v event_payload \<Rightarrow> string option) \<Rightarrow> go_context \<Rightarrow> outbox_event \<Rightarrow> 'v \<Rightarrow> bool" where
  "carries_data md mp ctx e d \<longleftrightarrow> (\<exists>p. mp p = Some (ob_Payload e) \<and> md (OtherVal d) = Some (ev_Data p)
     \<and> ev_CompanyID p = ctx_company ctx \<and> ev_EntityID p = ob_EntityID e)"

text \<open>The operation a publisher of mail or notifications is given: data that is only marshalled, no old data.\<close>

definition tx_publish :: "('v go_value \<Rightarrow> string option) \<Rightarrow> ('v event_payload \<Rightarrow> string option) \<Rightarrow> string \<Rightarrow> go_context
    \<Rightarrow> (string \<times> string) option \<Rightarrow> (nat \<Rightarrow> uuid \<times> int \<times> faults) \<Rightarrow> string \<Rightarrow> string \<Rightarrow> uuid \<Rightarrow> 'v
    \<Rightarrow> pg \<times> nat \<Rightarrow> write_err option \<times> (pg \<times> nat)" where
  "tx_publish md mp svc ctx origin env agg evt i d st = tm_Publish md mp svc ctx origin True env agg evt i (OtherVal d) [] st"

lemma build_event_row:
  "build_event md mp svc ctx origin u now (WithData (OtherVal d) (Event agg evt i)) = Some e \<Longrightarrow>
     ob_EntityID e = i \<and> ob_EntityType e = agg \<and> ob_EventType e = evt \<and> carries_data md mp ctx e d"
  by (auto simp: build_event_def WithData_def Event_def carries_data_def build_payload_def actorIdentity_def ctx_company_def
      split: option.splits prod.splits)

lemma writeEvent_healthy:
  assumes "\<not> pg_aborted s" "\<not> f_release f" "writeEvent md mp svc ctx origin u now f True b s = (err, s')"
  shows "case err of
      None \<Rightarrow> \<not> pg_aborted s' \<and> (\<exists>e. build_event md mp svc ctx origin u now b = Some e \<and> pg_rows s' = pg_rows s @ (if f_insert f then [] else [e]))
    | Some _ \<Rightarrow> pg_rows s' = pg_rows s"
proof (cases "build_event md mp svc ctx origin u now b")
  case None
  with assms(3) show ?thesis by (auto simp: writeEvent_def)
next
  case (Some e)
  then have "write_row f True e s = (err, s')" using assms(3) by (simp add: writeEvent_def)
  then show ?thesis unfolding write_row_tx [OF assms(1)] using Some assms(1,2) by (auto split: if_splits)
qed

interpretation tx: event_outbox "tx_publish md mp svc ctx origin env" "tx_healthy env" tx_rows "carries_data md mp ctx"
proof
  fix s agg evt i d s'
  assume h: "tx_healthy env s" and run: "tx_publish md mp svc ctx origin env agg evt i d s = (None, s')"
  obtain p n where s: "s = (p, n)" by (cases s)
  obtain u now f where e: "env n = (u, now, f)" by (cases "env n")
  let ?b = "WithData (OtherVal d) (Event agg evt i)"
  obtain err p' where w: "writeEvent md mp svc ctx origin u now f True ?b p = (err, p')" by (metis prod.collapse)
  from run w have err: "err = None" and s': "s' = (p', n + 1)" by (simp_all add: tx_publish_def tm_Publish_def s e Let_def)
  from h have ok: "\<not> pg_aborted p" "\<not> f_release f" by (auto simp: tx_healthy_def s e dest: spec [of _ n])
  from writeEvent_healthy [OF ok w] err obtain ev where "\<not> pg_aborted p'"
    "build_event md mp svc ctx origin u now ?b = Some ev" "pg_rows p' = pg_rows p @ (if f_insert f then [] else [ev])" by auto
  with h build_event_row [of md mp svc ctx origin u now d agg evt i ev] show "tx_healthy env s' \<and> (tx_rows s' = tx_rows s \<or>
      (\<exists>e. tx_rows s' = tx_rows s @ [e] \<and> ob_EntityID e = i \<and> ob_EntityType e = agg \<and> ob_EventType e = evt \<and> carries_data md mp ctx e d))"
    by (simp add: tx_healthy_def tx_rows_def s s')
next
  fix s agg evt i d err s'
  assume h: "tx_healthy env s" and run: "tx_publish md mp svc ctx origin env agg evt i d s = (Some err, s')"
  obtain p n where s: "s = (p, n)" by (cases s)
  obtain u now f where e: "env n = (u, now, f)" by (cases "env n")
  let ?b = "WithData (OtherVal d) (Event agg evt i)"
  obtain err' p' where w: "writeEvent md mp svc ctx origin u now f True ?b p = (err', p')" by (metis prod.collapse)
  from run w have err: "err' = Some err" and s': "s' = (p', n + 1)" by (simp_all add: tx_publish_def tm_Publish_def s e Let_def)
  from h have ok: "\<not> pg_aborted p" "\<not> f_release f" by (auto simp: tx_healthy_def s e dest: spec [of _ n])
  from writeEvent_healthy [OF ok w] err show "tx_rows s' = tx_rows s" by (simp add: tx_rows_def s s')
qed

interpretation tx_mail: mail_outbox "tx_publish md mp svc ctx origin env" "tx_healthy env" tx_rows "carries_data md mp ctx"
  by unfold_locales


definition sample_mail :: mail_message where
  "sample_mail = \<lparr>ml_ID = uuid_Nil, ml_MailboxKey = ''billing'', ml_To = [\<lparr>ma_Email = ''ops@acme.com'', ma_Name = ''Ops''\<rparr>], ml_CC = [], ml_BCC = [],
     ml_Subject = ''Invoice'', ml_HTML = [], ml_Text = ''See attachment'', ml_TemplateKey = [],
     ml_Attachments = [\<lparr>mt_FileID = Some ''f1'', mt_Content = [], mt_Filename = ''invoice.pdf'', mt_MIMEType = []\<rparr>],
     ml_Links = [\<lparr>mk_EntityType = ''invoices'', mk_EntityID = ''i1'', mk_Relation = ''primary''\<rparr>], ml_ThreadID = None, ml_Headers = [],
     ml_Tags = [], ml_ScheduledAt = None, ml_Origin = [], ml_CompanyID = Some ''c1'', ml_SentBy = None\<rparr>"

definition sample_calls :: "nat \<Rightarrow> uuid \<times> int \<times> faults" where
  "sample_calls n = (''ev1'', 0, \<lparr>f_savepoint = False, f_insert = False, f_rollback = False, f_release = False\<rparr>)"


text \<open>Without the verifier, or without asking for it, a message whose event was dropped is reported as sent.\<close>

lemma dropped_mail_unnoticed:
  assumes "tx_healthy env (p, n)" "f_insert (snd (snd (env n)))" "\<not> f_savepoint (snd (snd (env n)))" "\<not> f_rollback (snd (snd (env n)))"
    and "mail_validate m = None" "ml_CompanyID (complete ctx fresh m) = Some c" "md (OtherVal (complete ctx fresh m)) = Some d" "\<And>x. mp x = Some y"
  shows "mail_Send (tx_publish md mp svc ctx origin env) verifier ctx fresh m (p, n) = (Inr (ml_ID (complete ctx fresh m)), (p, n + 1))"
proof -
  obtain u now f where e: "env n = (u, now, f)" by (cases "env n")
  from assms(1) have "\<not> pg_aborted p" "\<not> f_release f" by (auto simp: tx_healthy_def e dest: spec [of _ n])
  moreover have "\<exists>ev. build_event md mp svc ctx origin u now (WithData (OtherVal (complete ctx fresh m)) (Event mail_Topic actionSend (ml_ID (complete ctx fresh m)))) = Some ev"
    using assms(7,8) by (auto simp: build_event_def WithData_def Event_def)
  ultimately show ?thesis using assms
    by (auto simp: mail_Send_def mail_SendWithOptions_def Let_def tx_publish_def tm_Publish_def e writeEvent_def write_row_tx)
qed

text \<open>Outside a transaction the relay may have shipped and deleted the row before the verifier looks: the message is on its way
  and its caller is told it was dropped.\<close>

lemma shipped_mail_called_dropped:
  assumes "mail_validate m = None" "ml_CompanyID (complete ctx fresh m) = Some c"
    and "publish mail_Topic actionSend (ml_ID (complete ctx fresh m)) (complete ctx fresh m) s = (None, s1)"
    and "exists (ml_ID (complete ctx fresh m)) s1 = (Inr False, s2)"
  shows "mail_SendWithOptions publish (Some exists) ctx fresh m True s = (Inl (Dropped (ml_ID (complete ctx fresh m))), s2)"
  using assms by (simp add: mail_SendWithOptions_def Let_def)

lemma relay_beats_verifier:
  fixes m :: mail_message
  assumes "mail_validate m = None" "ml_CompanyID (complete ctx fresh m) = Some c"
  shows "mail_SendWithOptions (\<lambda>agg evt i d q. (None, q @ [i])) (Some (\<lambda>i q. (Inr (i \<in> set []), [] :: uuid list))) ctx fresh m True []
    = (Inl (Dropped (ml_ID (complete ctx fresh m))) :: unit mail_err + uuid, [])"
  by (rule shipped_mail_called_dropped [OF assms]) simp_all

text \<open>A batch names the messages that were sent, in order; it stops at the first that fails.\<close>

lemma batch_prefix:
  "batch_loop publish verifier ctx fresh i ms s = ((out, err), s') \<Longrightarrow>
     length out \<le> length ms \<and> (err = None \<longleftrightarrow> length out = length ms)
     \<and> (\<forall>k<length out. out ! k = ml_ID (complete ctx (fresh (i + k)) (ms ! k)))
     \<and> (\<forall>e. err = Some e \<longrightarrow> (\<exists>e'. e = BatchItem (i + length out) e'))"
proof (induction ms arbitrary: i s out err s')
  case Nil
  then show ?case by simp
next
  case (Cons m ms)
  obtain res s1 where r: "mail_Send publish verifier ctx (fresh i) m s = (res, s1)" by (metis prod.collapse)
  show ?case
  proof (cases res)
    case (Inl e)
    with Cons.prems r show ?thesis by auto
  next
    case (Inr j)
    then have j: "j = ml_ID (complete ctx (fresh i) m)"
      using r by (auto simp: mail_Send_def mail_SendWithOptions_def Let_def split: option.splits prod.splits if_splits)
    obtain out' err' s2 where l: "batch_loop publish verifier ctx fresh (i + 1) ms s1 = ((out', err'), s2)" by (metis prod.collapse)
    with Cons.prems r Inr have o: "out = j # out'" "err = err'" by simp_all
    have "out ! k = ml_ID (complete ctx (fresh (i + k)) ((m # ms) ! k))" if "k < length out" for k
      using that Cons.IH [OF l] j by (cases k) (simp_all add: o)
    with Cons.IH [OF l] show ?thesis by (auto simp: o)
  qed
qed

subsection \<open>Notifications share their metadata\<close>

text \<open>The action goes into the caller's own map, so a later notification with the same map and no action carries it too.\<close>

lemma action_stays:
  assumes "nt_Metadata n = Some p" "nt_Action n = Some a" "nt_Metadata n' = Some p" "nt_Action n' = None"
    and "notify_Send publish ctx i new n h s = (err, h', s')"
  shows "\<exists>meta. h' p = Some meta \<and> meta ''action'' = Some (MetaAction a)
    \<and> notify_Send publish ctx i' new' n' h' s'
        = (let (e, t) = publish ''notifications'' ''send'' i' (note_payload ctx (Some meta) n') s' in (e, h', t))"
  using assms by (auto simp: notify_Send_def put_action_def Let_def split: prod.splits)

lemma own_metadata_untouched:
  "nt_Action n = None \<Longrightarrow> notify_Send publish ctx i new n h s = (err, h', s') \<Longrightarrow> h' = h"
  by (auto simp: notify_Send_def put_action_def split: prod.splits)

text \<open>Nothing about a notification is required: one without recipients or title is published like any other. Its company is the
  caller's, or no text at all.\<close>

lemma empty_notification:
  "nt_Action n = None \<Longrightarrow> nt_UserIDs n = [] \<Longrightarrow> nt_Title n = [] \<Longrightarrow>
     fst (notify_Send publish ctx i new n h s) = fst (publish ''notifications'' ''send'' i (note_payload ctx (Option.bind (nt_Metadata n) h) n) s)"
  by (simp add: notify_Send_def put_action_def split: prod.split)

lemma note_defaults:
  "nd_type (note_payload ctx meta n) \<noteq> []" "nd_priority (note_payload ctx meta n) \<noteq> []"
  "nd_company_id (note_payload ctx meta n) = (case ctx_company ctx of Some c \<Rightarrow> c | None \<Rightarrow> [])"
  by (simp_all add: note_payload_def TypeInfo_def PriorityNormal_def)

lemma notify_outbox:
  assumes "tx_healthy env s" "notify_Send (tx_publish md mp svc ctx origin env) ctx i new n h s = (None, h', s')"
  shows "tx_healthy env s' \<and> (tx_rows s' = tx_rows s \<or> (\<exists>e. tx_rows s' = tx_rows s @ [e] \<and> ob_EntityID e = i
    \<and> ob_EntityType e = ''notifications'' \<and> ob_EventType e = ''send''))"
proof -
  obtain p h1 where p: "put_action new n h = (p, h1)" by (metis prod.collapse)
  have "tx_publish md mp svc ctx origin env ''notifications'' ''send'' i (note_payload ctx (Option.bind p h1) n) s = (None, s')"
    using assms(2) by (auto simp: notify_Send_def p Let_def split: prod.splits)
  from tx.publish_ok [OF assms(1) this] show ?thesis by blast
qed

end
