(* ===== verification/Tasks_Client.thy ===== *)
theory Tasks_Client
  imports Guards
begin

text \<open>
  The client every service opens and closes rule-driven tasks with (\<open>src/tasks/client.go\<close>), and its calls through the
  interceptors of \<open>Guards\<close>. The tasks service itself is a parameter: what it makes of a request in the context its
  interceptor built. \<open>uuid.Parse\<close> is the parameter \<open>parse_uuid\<close>; an error is what it is about, not its text.
\<close>

subsection \<open>Data\<close>

record task_key =
  tk_RuleID :: string
  tk_EntityType :: string
  tk_EntityID :: string
  tk_ValidationInstance :: string

record create_params =
  cp_Key :: task_key
  cp_Title :: string
  cp_Description :: string
  cp_Priority :: string
  cp_AssigneeType :: string
  cp_AssigneeID :: string
  cp_DueAt :: "int option"

record create_result =
  cr_TaskID :: string
  cr_Status :: string
  cr_Created :: bool

record resolve_params =
  rs_Key :: task_key
  rs_Reason :: string

record resolve_result =
  rr_TaskID :: string
  rr_Resolved :: bool

text \<open>The key of a request is the message \<open>DedupKey\<close>, with the same fields; an answer may be nil, and then reads as empty.\<close>

definition toProto :: "task_key \<Rightarrow> task_key" where
  "toProto k = \<lparr>tk_RuleID = tk_RuleID k, tk_EntityType = tk_EntityType k, tk_EntityID = tk_EntityID k,
     tk_ValidationInstance = tk_ValidationInstance k\<rparr>"

record create_request =
  cq_Key :: task_key
  cq_Title :: string
  cq_Description :: string
  cq_Priority :: string
  cq_AssigneeType :: string
  cq_AssigneeId :: string
  cq_DueAt :: "int option"

datatype task_err = MissingRuleID | MissingEntityType | MissingEntityID | MissingInstance | BadEntityID string
  | MissingTitle | MissingAssignee string | BadAssignee string | CallFailed string string | NoAddress | ConnectFailed string string

text \<open>A client: the token its interceptor was made with, if it has the interceptor at all, whether the connection is its own, and
  the time a call may take. A call carries metadata and a deadline.\<close>

record tasks_client =
  tc_interceptor :: "string option"
  tc_owns_conn :: bool
  tc_timeout :: int

type_synonym ('q, 'a, 's) grpc_method = "metadata \<Rightarrow> int option \<Rightarrow> 'q \<Rightarrow> 's \<Rightarrow> (string + 'a option) \<times> 's"

definition tasks_defaultTimeout :: int where
  "tasks_defaultTimeout = 5000000000"

definition WithTimeout :: "int \<Rightarrow> tasks_client \<Rightarrow> tasks_client" where
  "WithTimeout d c = (if d > 0 then c\<lparr>tc_timeout := d\<rparr> else c)"

definition apply_options :: "(tasks_client \<Rightarrow> tasks_client) list \<Rightarrow> tasks_client \<Rightarrow> tasks_client" where
  "apply_options opts c = fold (\<lambda>opt. opt) opts c"

text \<open>\<open>connect\<close> is what \<open>grpc.NewClient\<close> says of an address.\<close>

definition tasks_Dial :: "(string \<Rightarrow> string option) \<Rightarrow> string \<Rightarrow> string \<Rightarrow> (tasks_client \<Rightarrow> tasks_client) list \<Rightarrow> task_err + tasks_client" where
  "tasks_Dial connect addr internalToken opts =
     (if addr = [] then Inl NoAddress
      else (case connect addr of
              Some e \<Rightarrow> Inl (ConnectFailed addr e)
            | None \<Rightarrow> Inr (apply_options opts \<lparr>tc_interceptor = Some internalToken, tc_owns_conn = True, tc_timeout = tasks_defaultTimeout\<rparr>)))"

text \<open>A connection of the caller comes with the interceptor the caller gave it.\<close>

definition NewFromConn :: "string option \<Rightarrow> (tasks_client \<Rightarrow> tasks_client) list \<Rightarrow> tasks_client" where
  "NewFromConn conn opts = apply_options opts \<lparr>tc_interceptor = conn, tc_owns_conn = False, tc_timeout = tasks_defaultTimeout\<rparr>"

definition NewWithClient :: "(tasks_client \<Rightarrow> tasks_client) list \<Rightarrow> tasks_client" where
  "NewWithClient opts = apply_options opts \<lparr>tc_interceptor = None, tc_owns_conn = False, tc_timeout = tasks_defaultTimeout\<rparr>"

definition tasks_Close :: "(unit \<Rightarrow> string option) \<Rightarrow> tasks_client \<Rightarrow> string option" where
  "tasks_Close close c = (if tc_owns_conn c then close () else None)"

definition withTimeout :: "tasks_client \<Rightarrow> int option" where
  "withTimeout c = (if tc_timeout c \<le> 0 then None else Some (tc_timeout c))"

subsection \<open>Calls\<close>

definition key_validate :: "(string \<Rightarrow> uuid option) \<Rightarrow> task_key \<Rightarrow> task_err option" where
  "key_validate parse_uuid k =
     (if tk_RuleID k = [] then Some MissingRuleID
      else if tk_EntityType k = [] then Some MissingEntityType
      else if tk_EntityID k = [] then Some MissingEntityID
      else if tk_ValidationInstance k = [] then Some MissingInstance
      else if parse_uuid (tk_EntityID k) = None then Some (BadEntityID (tk_EntityID k))
      else None)"

definition call_metadata :: "tasks_client \<Rightarrow> go_context \<Rightarrow> metadata" where
  "call_metadata c ctx = (case tc_interceptor c of Some token \<Rightarrow> attach_actor token ctx [] | None \<Rightarrow> [])"

definition check_assignee :: "(string \<Rightarrow> uuid option) \<Rightarrow> create_params \<Rightarrow> task_err option" where
  "check_assignee parse_uuid p =
     (if cp_AssigneeType p \<noteq> [] \<and> cp_AssigneeType p \<noteq> ''all'' then
        (if cp_AssigneeID p = [] then Some (MissingAssignee (cp_AssigneeType p))
         else if parse_uuid (cp_AssigneeID p) = None then Some (BadAssignee (cp_AssigneeID p)) else None)
      else None)"

definition task_request :: "create_params \<Rightarrow> create_request" where
  "task_request p = \<lparr>cq_Key = toProto (cp_Key p), cq_Title = cp_Title p, cq_Description = cp_Description p,
     cq_Priority = cp_Priority p, cq_AssigneeType = cp_AssigneeType p, cq_AssigneeId = cp_AssigneeID p, cq_DueAt = cp_DueAt p\<rparr>"

definition CreateForValidation :: "(string \<Rightarrow> uuid option) \<Rightarrow> (create_request, create_result, 's) grpc_method \<Rightarrow> tasks_client \<Rightarrow> go_context
    \<Rightarrow> create_params \<Rightarrow> 's \<Rightarrow> (task_err + create_result) \<times> 's" where
  "CreateForValidation parse_uuid CreateTask c ctx p s =
     (case key_validate parse_uuid (cp_Key p) of
        Some e \<Rightarrow> (Inl e, s)
      | None \<Rightarrow>
          if cp_Title p = [] then (Inl MissingTitle, s)
          else (case check_assignee parse_uuid p of
                  Some e \<Rightarrow> (Inl e, s)
                | None \<Rightarrow>
                    (case CreateTask (call_metadata c ctx) (withTimeout c) (task_request p) s of
                       (Inl e, s') \<Rightarrow> (Inl (CallFailed ''create'' e), s')
                     | (Inr (Some r), s') \<Rightarrow> (Inr \<lparr>cr_TaskID = cr_TaskID r, cr_Status = cr_Status r, cr_Created = cr_Created r\<rparr>, s')
                     | (Inr None, s') \<Rightarrow> (Inr \<lparr>cr_TaskID = [], cr_Status = [], cr_Created = False\<rparr>, s'))))"

definition ResolveForValidation :: "(string \<Rightarrow> uuid option) \<Rightarrow> (resolve_params, resolve_result, 's) grpc_method \<Rightarrow> tasks_client \<Rightarrow> go_context
    \<Rightarrow> resolve_params \<Rightarrow> 's \<Rightarrow> (task_err + resolve_result) \<times> 's" where
  "ResolveForValidation parse_uuid ResolveTask c ctx p s =
     (case key_validate parse_uuid (rs_Key p) of
        Some e \<Rightarrow> (Inl e, s)
      | None \<Rightarrow>
          (case ResolveTask (call_metadata c ctx) (withTimeout c) \<lparr>rs_Key = toProto (rs_Key p), rs_Reason = rs_Reason p\<rparr> s of
             (Inl e, s') \<Rightarrow> (Inl (CallFailed ''resolve'' e), s')
           | (Inr (Some r), s') \<Rightarrow> (Inr \<lparr>rr_TaskID = rr_TaskID r, rr_Resolved = rr_Resolved r\<rparr>, s')
           | (Inr None, s') \<Rightarrow> (Inr \<lparr>rr_TaskID = [], rr_Resolved = False\<rparr>, s')))"

subsection \<open>Whose task it is\<close>

text \<open>The service behind its interceptor: the handler runs in the context the interceptor built, or not at all.\<close>

definition behind_auth :: "(string \<Rightarrow> user_claims option) \<Rightarrow> (string \<Rightarrow> uuid option) \<Rightarrow> string
    \<Rightarrow> (go_context \<Rightarrow> 'q \<Rightarrow> 's \<Rightarrow> (string + 'a option) \<times> 's) \<Rightarrow> ('q, 'a, 's) grpc_method" where
  "behind_auth verify parse_uuid token handler md deadline q s =
     (case AuthServerInterceptor verify parse_uuid token (Some md) background of
        Inl e \<Rightarrow> (Inl e, s)
      | Inr ctx \<Rightarrow> handler ctx q s)"

lemma toProto_id [simp]: "toProto k = k"
  by (cases k) (simp add: toProto_def)

definition complete_key :: "(string \<Rightarrow> uuid option) \<Rightarrow> task_key \<Rightarrow> bool" where
  "complete_key parse_uuid k \<longleftrightarrow> tk_RuleID k \<noteq> [] \<and> tk_EntityType k \<noteq> [] \<and> tk_EntityID k \<noteq> [] \<and> tk_ValidationInstance k \<noteq> []
     \<and> parse_uuid (tk_EntityID k) \<noteq> None"

lemma key_validate_iff: "key_validate parse_uuid k = None \<longleftrightarrow> complete_key parse_uuid k"
  by (simp add: key_validate_def complete_key_def)

text \<open>An incomplete key, a missing title or assignee is refused before the call: the service's state is as it was.\<close>

lemma create_refused:
  assumes "\<not> complete_key parse_uuid (cp_Key p) \<or> cp_Title p = [] \<or> check_assignee parse_uuid p \<noteq> None"
  shows "snd (CreateForValidation parse_uuid CreateTask c ctx p s) = s"
    and "\<exists>e. fst (CreateForValidation parse_uuid CreateTask c ctx p s) = Inl e"
  using assms by (auto simp: CreateForValidation_def simp flip: key_validate_iff split: option.split)

lemma resolve_refused:
  "\<not> complete_key parse_uuid (rs_Key p) \<Longrightarrow> snd (ResolveForValidation parse_uuid ResolveTask c ctx p s) = s"
  by (auto simp: ResolveForValidation_def simp flip: key_validate_iff)

text \<open>A task opened by a background worker is opened for the worker's own company: the handler runs at most once, with the
  caller's key, in a context whose actor is a system actor of that company.\<close>

lemma task_in_company:
  assumes "ctx_actor ctx = Some a" "IsSystem a" "Token a = None" "GetCompanyID a = Some cid" "token \<noteq> []"
    and "\<forall>u. uuid_text u \<longrightarrow> parse_uuid u = Some u" "uuid_text (actor_ID a)" "uuid_text cid"
    and "tc_interceptor c = Some token"
    and "CreateForValidation parse_uuid (behind_auth verify parse_uuid token handler) c ctx p s = (Inr res, s')"
  shows "\<exists>ctx' r. handler ctx' (task_request p) s = (Inr r, s') \<and> ctx_company ctx' = Some cid
    \<and> (\<exists>b. ctx_actor ctx' = Some b \<and> IsSystem b \<and> actor_ID b = actor_ID a) \<and> complete_key parse_uuid (cp_Key p)"
proof -
  obtain b where b: "extractActorFromIncomingMetadata verify parse_uuid token (Some (attach_actor token ctx [])) = Inr b" "same_identity a b"
    using system_hop [of ctx a parse_uuid token verify] assms(1-8) by auto
  let ?ctx = "WithActor background (Some b)"
  have run: "behind_auth verify parse_uuid token handler (call_metadata c ctx) (withTimeout c) (task_request p) s = handler ?ctx (task_request p) s"
    by (simp add: behind_auth_def call_metadata_def assms(9) AuthServerInterceptor_def b(1))
  from assms(10) have "key_validate parse_uuid (cp_Key p) = None"
    by (auto simp: CreateForValidation_def split: option.splits)
  moreover from assms(10) obtain r where "handler ?ctx (task_request p) s = (Inr r, s')"
    by (auto simp: CreateForValidation_def run split: option.splits if_splits prod.splits sum.splits)
  moreover have "ctx_company ?ctx = Some cid" "ctx_actor ?ctx = Some b" "IsSystem b" "actor_ID b = actor_ID a"
    using b(2) assms(2,4) by (simp_all add: ctx_simps same_identity_def)
  ultimately show ?thesis by (auto simp: key_validate_iff)
qed

text \<open>A call from a context without an actor carries nothing, and the service turns it away.\<close>

lemma anonymous_task_refused:
  assumes "ctx_actor ctx = None" "tc_interceptor c = Some token"
  shows "\<exists>e. fst (CreateForValidation parse_uuid (behind_auth verify parse_uuid token handler) c ctx p s) = Inl e"
    and "snd (CreateForValidation parse_uuid (behind_auth verify parse_uuid token handler) c ctx p s) = s"
  using assms by (auto simp: CreateForValidation_def behind_auth_def call_metadata_def attach_actor_def AuthServerInterceptor_def
      extractActorFromIncomingMetadata_def md_get_def split: option.split)

text \<open>The assignee is required for every type but \<open>all\<close> and none at all.\<close>

lemma assignee_gap: "cp_AssigneeType p = [] \<Longrightarrow> check_assignee parse_uuid p = None"
  by (simp add: check_assignee_def)

text \<open>However the options are given, a client made by the package has a deadline on every call.\<close>

lemma options_timeout: "0 < tc_timeout c \<Longrightarrow> 0 < tc_timeout (apply_options (map WithTimeout ds) c)"
  by (induction ds arbitrary: c) (auto simp: apply_options_def WithTimeout_def)

lemma dialled_deadline:
  "tasks_Dial connect addr token (map WithTimeout ds) = Inr c \<Longrightarrow> \<exists>d>0. withTimeout c = Some d"
  using options_timeout [of "\<lparr>tc_interceptor = Some token, tc_owns_conn = True, tc_timeout = tasks_defaultTimeout\<rparr>" ds]
  by (auto simp: tasks_Dial_def withTimeout_def tasks_defaultTimeout_def split: if_splits option.splits)

end
