(* ===== verification/Observability.thy ===== *)
theory Observability
  imports Error_Presenter Request_Context Go_Text
begin

text \<open>
  What is reported to Sentry and how it is tagged (\<open>src/observability/sentry.go\<close>), the request's id
  (\<open>src/middleware/request_id_middleware.go\<close>) and the service's shared errors (\<open>src/consts/errors_consts.go\<close>).

  A scope is what Sentry attaches to an event; a report runs on a copy of the hub's scope, as documented. Sentry's own
  \<open>Init\<close> is a parameter, log lines and stack traces are left out, the text of the log line that tells a disabled report apart
  is kept as its level.
\<close>

subsection \<open>Shared errors and the request's id\<close>

definition ErrValidation :: "'d public_error" where
  "ErrValidation = NewBadRequest ''validation_error'' ''Validation Error''"

definition ErrInvalidCredentials :: "'d public_error" where
  "ErrInvalidCredentials = NewBadRequest ''invalid_credentials'' ''Invalid Credentials''"

definition ErrUnauthorized :: "'d public_error" where
  "ErrUnauthorized = NewUnauthorized ''unauthorized'' ''Unauthorized!''"

definition ErrForbidden :: "'d public_error" where
  "ErrForbidden = NewForbidden ''forbidden'' ''Forbidden''"

definition ErrInvalidRequestBody :: "'d public_error" where
  "ErrInvalidRequestBody = NewBadRequest ''invalid_request_body'' ''Invalid Request Body''"

text \<open>A request: its context, the id bound there, and the scope of its hub, which Sentry's middleware made.\<close>

record scope =
  sc_Level :: string
  sc_Fingerprint :: "string list"
  sc_Tags :: "string \<rightharpoonup> string"
  sc_User :: "uuid option"

record sentry_request =
  rc_ctx :: go_context
  rc_id :: "string option"
  rc_hub :: "scope option"

definition WithRequestID :: "string \<Rightarrow> sentry_request \<Rightarrow> sentry_request" where
  "WithRequestID i r = r\<lparr>rc_id := Some i\<rparr>"

definition GetRequestID :: "sentry_request \<Rightarrow> string" where
  "GetRequestID r = (case rc_id r of Some i \<Rightarrow> i | None \<Rightarrow> '''')"

text \<open>The request handed on, and the header of the reply; \<open>fresh\<close> is the new UUID.\<close>

definition RequestID_middleware :: "string \<Rightarrow> string \<Rightarrow> sentry_request \<Rightarrow> sentry_request \<times> (string \<times> string)" where
  "RequestID_middleware header fresh r =
     (let i = (if header = [] then fresh else header) in (WithRequestID i r, (''X-Request-ID'', i)))"

subsection \<open>Configuration\<close>

record sentry_config =
  se_DSN :: string
  se_Env :: string
  se_Release :: string
  se_Service :: string
  se_TracesSampleRate :: real

definition LoadConfigFromEnv :: "(string \<Rightarrow> string) \<Rightarrow> string \<Rightarrow> sentry_config" where
  "LoadConfigFromEnv getenv service =
     \<lparr>se_DSN = getenv ''SENTRY_DSN'',
      se_Env = (if getenv ''SENTRY_ENVIRONMENT'' = [] then getenv ''SENTRY_ENV'' else getenv ''SENTRY_ENVIRONMENT''),
      se_Release = getenv ''SENTRY_RELEASE'', se_Service = service, se_TracesSampleRate = 0\<rparr>"

definition isProdEnv :: "string \<Rightarrow> bool" where
  "isProdEnv env \<longleftrightarrow> lower_utf8 (TrimSpace env) \<in> {''prod'', ''production''}"

datatype log_level = LogInfo | LogWarn | LogError

text \<open>The result, the flag it leaves and the level it logs at; \<open>init\<close> tells whether \<open>sentry.Init\<close> succeeds.\<close>

definition sentry_Init :: "(sentry_config \<Rightarrow> bool) \<Rightarrow> sentry_config \<Rightarrow> bool \<Rightarrow> bool \<times> bool \<times> log_level" where
  "sentry_Init init cfg enabled =
     (if se_DSN cfg = [] then (False, enabled, if isProdEnv (se_Env cfg) then LogError else LogWarn)
      else if \<not> init cfg then (False, enabled, LogError)
      else (True, True, LogInfo))"

subsection \<open>Who is reported\<close>

definition isBrokerActor :: "actor \<Rightarrow> bool" where
  "isBrokerActor a = (case Claims a of Some c \<Rightarrow> ActorType c = ''broker'' | None \<Rightarrow> False)"

definition SetTag :: "string \<Rightarrow> string \<Rightarrow> scope \<Rightarrow> scope" where
  "SetTag k v s = s\<lparr>sc_Tags := (sc_Tags s)(k \<mapsto> v)\<rparr>"

definition actor_kind :: "actor \<Rightarrow> string" where
  "actor_kind a =
     (if IsSystem a then ''system'' else if isBrokerActor a then ''broker'' else if IsGuest a then ''guest'' else ''user'')"

definition setActorOnScope :: "go_context \<Rightarrow> scope \<Rightarrow> scope" where
  "setActorOnScope ctx s =
     (case ctx_actor ctx of
        None \<Rightarrow> SetTag ''actor_type'' ''system'' s
      | Some a \<Rightarrow>
          (let s = SetTag ''actor_type'' (actor_kind a) s;
               s = (if actor_ID a \<noteq> uuid_Nil then s\<lparr>sc_User := Some (actor_ID a)\<rparr> else s);
               s = (case GetCompanyID a of Some cid \<Rightarrow> SetTag ''company_id'' cid s | None \<Rightarrow> s)
           in case Claims a of
                None \<Rightarrow> s
              | Some c \<Rightarrow>
                  (let s = (if Resource c \<noteq> [] then SetTag ''share_resource'' (Resource c) s else s)
                   in if ResourceID c \<noteq> uuid_Nil then SetTag ''share_resource_id'' (ResourceID c) s else s)))"

definition SentryUserMiddleware :: "bool \<Rightarrow> sentry_request \<Rightarrow> sentry_request" where
  "SentryUserMiddleware enabled r =
     (if \<not> enabled then r
      else (case rc_hub r of Some s \<Rightarrow> r\<lparr>rc_hub := Some (setActorOnScope (rc_ctx r) s)\<rparr> | None \<Rightarrow> r))"

subsection \<open>What is reported\<close>

definition transientSQLStates :: "string list" where
  "transientSQLStates = [''57P01'', ''57P02'', ''57P03'', ''08006'', ''08001'', ''08003'', ''08004'']"

definition transientPGError :: "'d go_error \<Rightarrow> string option" where
  "transientPGError err =
     (case as_pg err of Some (code, constraint) \<Rightarrow> if code \<in> set transientSQLStates then Some code else None | None \<Rightarrow> None)"

definition unauthorizedFingerprint :: "string list" where
  "unauthorizedFingerprint = [''unauthorized'']"

definition isUnauthorized :: "'d go_error option \<Rightarrow> bool" where
  "isUnauthorized err =
     (case err of None \<Rightarrow> False
      | Some e \<Rightarrow>
          (case as_public e of Some p \<Rightarrow> pe_Status p = 401 | None \<Rightarrow> False)
          \<or> (case as_grpc e of Some (code, msg) \<Rightarrow> code = 16 | None \<Rightarrow> False))"

datatype 'd thrown = ThrownError "'d go_error" | ThrownText string

record 'd sentry_event =
  ve_scope :: scope
  ve_exception :: "'d thrown"

text \<open>\<open>current\<close> is the scope of the process's own hub; the events sent are a list, latest last.\<close>

definition event_scope :: "scope \<Rightarrow> sentry_request \<Rightarrow> scope" where
  "event_scope current r = (case rc_hub r of Some s \<Rightarrow> s | None \<Rightarrow> current)"

definition captureWithLevel :: "bool \<Rightarrow> scope \<Rightarrow> sentry_request \<Rightarrow> 'd go_error option \<Rightarrow> string \<Rightarrow> 'd sentry_event list \<Rightarrow> 'd sentry_event list" where
  "captureWithLevel enabled current r err level sent =
     (case err of
        None \<Rightarrow> sent
      | Some e \<Rightarrow>
          if \<not> enabled then sent
          else let s = (event_scope current r)\<lparr>sc_Level := level\<rparr>;
                   s = (if isUnauthorized err then s\<lparr>sc_Fingerprint := unauthorizedFingerprint\<rparr> else s);
                   s = (if GetRequestID r \<noteq> [] then SetTag ''request_id'' (GetRequestID r) s else s)
               in sent @ [\<lparr>ve_scope = setActorOnScope (rc_ctx r) s, ve_exception = ThrownError e\<rparr>])"

definition CaptureWithCtx :: "bool \<Rightarrow> scope \<Rightarrow> sentry_request \<Rightarrow> 'd go_error option \<Rightarrow> 'd sentry_event list \<Rightarrow> 'd sentry_event list" where
  "CaptureWithCtx enabled current r err sent =
     (if (case err of Some e \<Rightarrow> transientPGError e \<noteq> None | None \<Rightarrow> False) then sent
      else captureWithLevel enabled current r err ''error'' sent)"

definition CaptureWarningWithCtx :: "bool \<Rightarrow> scope \<Rightarrow> sentry_request \<Rightarrow> 'd go_error option \<Rightarrow> 'd sentry_event list \<Rightarrow> 'd sentry_event list" where
  "CaptureWarningWithCtx enabled current r err sent = captureWithLevel enabled current r err ''warning'' sent"

definition CaptureRestError :: "bool \<Rightarrow> scope \<Rightarrow> sentry_request \<Rightarrow> int \<Rightarrow> 'd go_error option \<Rightarrow> 'd sentry_event list \<Rightarrow> 'd sentry_event list" where
  "CaptureRestError enabled current r code err sent =
     (case err of
        None \<Rightarrow> sent
      | Some e \<Rightarrow>
          (let status = (case as_public e of Some p \<Rightarrow> pe_Status p | None \<Rightarrow> code) in
           if status < 500 then sent else CaptureWithCtx enabled current r err sent))"

text \<open>A goroutine that ends in \<open>p\<close>, a panic when it is one; it is over in any case.\<close>

definition RecoverGoroutine :: "bool \<Rightarrow> scope \<Rightarrow> sentry_request \<Rightarrow> 'd thrown option \<Rightarrow> 'd sentry_event list \<Rightarrow> 'd sentry_event list" where
  "RecoverGoroutine enabled current r p sent =
     (case p of
        None \<Rightarrow> sent
      | Some v \<Rightarrow>
          if \<not> enabled then sent
          else let s = SetTag ''source'' ''background'' (event_scope current r);
                   s = (if GetRequestID r \<noteq> [] then SetTag ''request_id'' (GetRequestID r) s else s)
               in sent @ [\<lparr>ve_scope = s,
                    ve_exception = (case v of ThrownError e \<Rightarrow> v | ThrownText t \<Rightarrow> ThrownError (TextErr (''goroutine panic: '' @ t)))\<rparr>])"

subsection \<open>Properties\<close>

lemma setActor_keeps [simp]:
  "sc_Level (setActorOnScope ctx s) = sc_Level s" "sc_Fingerprint (setActorOnScope ctx s) = sc_Fingerprint s"
  "k \<notin> {''actor_type'', ''company_id'', ''share_resource'', ''share_resource_id''} \<Longrightarrow>
     sc_Tags (setActorOnScope ctx s) k = sc_Tags s k"
  by (auto simp: setActorOnScope_def SetTag_def Let_def split: option.split)

lemma setActor_kind [simp]:
  "sc_Tags (setActorOnScope ctx s) ''actor_type'' = Some (case ctx_actor ctx of None \<Rightarrow> ''system'' | Some a \<Rightarrow> actor_kind a)"
  by (auto simp: setActorOnScope_def SetTag_def Let_def split: option.split)

lemma setActor_user:
  "ctx_actor ctx = Some a \<Longrightarrow> actor_ID a \<noteq> uuid_Nil \<Longrightarrow> sc_User (setActorOnScope ctx s) = Some (actor_ID a)"
  "ctx_actor ctx = Some a \<Longrightarrow> GetCompanyID a = Some cid \<Longrightarrow> sc_Tags (setActorOnScope ctx s) ''company_id'' = Some cid"
  by (auto simp: setActorOnScope_def SetTag_def Let_def split: option.split)

text \<open>An error event is one event at the right level, marked as one of the routine 401s exactly when it is one, with the
  request's id and the kind of its actor; warnings differ in their level only.\<close>

lemma capture_event:
  assumes "captureWithLevel True current r (Some e) level sent = sent'"
  shows "\<exists>s. sent' = sent @ [\<lparr>ve_scope = s, ve_exception = ThrownError e\<rparr>] \<and> sc_Level s = level
    \<and> sc_Fingerprint s = (if isUnauthorized (Some e) then [''unauthorized''] else sc_Fingerprint (event_scope current r))
    \<and> (GetRequestID r \<noteq> [] \<longrightarrow> sc_Tags s ''request_id'' = Some (GetRequestID r))
    \<and> sc_Tags s ''actor_type'' = Some (case ctx_actor (rc_ctx r) of None \<Rightarrow> ''system'' | Some a \<Rightarrow> actor_kind a)"
  using assms by (auto simp: captureWithLevel_def Let_def SetTag_def unauthorizedFingerprint_def)

lemma capture_disabled:
  "captureWithLevel False current r err level sent = sent" "RecoverGoroutine False current r p sent = sent"
  by (simp_all add: captureWithLevel_def RecoverGoroutine_def split: option.split)

lemma reports_iff:
  "CaptureWithCtx True current r (Some e) sent = sent \<longleftrightarrow> transientPGError e \<noteq> None"
  by (simp add: CaptureWithCtx_def captureWithLevel_def Let_def)

text \<open>A full database pool is always loud, and so is everything that is no PostgreSQL error.\<close>

lemma full_pool_loud: "transientPGError (PgErr ''53300'' constraint t) = None"
  by (simp add: transientPGError_def transientSQLStates_def)

lemma transient_wrapped: "transientPGError (WrapErr t e) = transientPGError e"
  by (simp add: transientPGError_def)

lemma transient_no_public: "as_pg e = None \<Longrightarrow> transientPGError e = None"
  by (simp add: transientPGError_def)

text \<open>What REST reports, and what a reply with status 500 and up reports: everything but the drops of a connection, which
  this request-scoped path leaves out too.\<close>

lemma rest_reports:
  "CaptureRestError True current r code (Some e) sent \<noteq> sent \<longleftrightarrow>
     500 \<le> (case as_public e of Some p \<Rightarrow> pe_Status p | None \<Rightarrow> code) \<and> transientPGError e = None"
  by (simp add: CaptureRestError_def Let_def reports_iff not_less)

lemma rest_drop_silent:
  "CaptureRestError True current r 500 (Some (PgErr ''57P01'' '''' ''terminating connection'')) sent = sent"
  by (simp add: CaptureRestError_def CaptureWithCtx_def transientPGError_def transientSQLStates_def)

text \<open>Only a status of 401 is grouped: another public error is not, whatever its text.\<close>

lemma grouped_public: "isUnauthorized (Some (PublicErr p)) \<longleftrightarrow> pe_Status p = 401"
  by (simp add: isUnauthorized_def)

lemma grouped_shared:
  "isUnauthorized (Some (PublicErr ErrUnauthorized))" "\<not> isUnauthorized (Some (PublicErr ErrForbidden))"
  by (simp_all add: isUnauthorized_def ErrUnauthorized_def ErrForbidden_def NewUnauthorized_def NewForbidden_def NewError_def)

text \<open>The scope of a request whose actor is known keeps its user in every event, and a report from a context without the actor
  changes the kind of the actor to \<open>system\<close> while it keeps the user.\<close>

lemma report_without_actor:
  assumes "rc_hub r = Some s" "ctx_actor (rc_ctx r) = None" "captureWithLevel True current r (Some e) level [] = [ev]"
  shows "sc_User (ve_scope ev) = sc_User s \<and> sc_Tags (ve_scope ev) ''actor_type'' = Some ''system''"
  using assms by (auto simp: captureWithLevel_def Let_def event_scope_def setActorOnScope_def SetTag_def)

text \<open>A missing configuration is loud in production, and leaves reporting as it was.\<close>

lemma missing_dsn: "se_DSN cfg = [] \<Longrightarrow> isProdEnv (se_Env cfg) \<Longrightarrow> sentry_Init init cfg e = (False, e, LogError)"
  by (simp add: sentry_Init_def)

text \<open>The id is never empty once a request went through, and the reply names it.\<close>

lemma request_id_bound:
  "fresh \<noteq> [] \<Longrightarrow> RequestID_middleware header fresh r = (r', (k, v)) \<Longrightarrow> GetRequestID r' = v \<and> v \<noteq> [] \<and> (header \<noteq> [] \<longrightarrow> v = header)"
  by (auto simp: RequestID_middleware_def WithRequestID_def GetRequestID_def Let_def split: if_splits)

end
