(* ===== verification/App_Config.thy ===== *)
theory App_Config
  imports Go_Text
begin

text \<open>
  The services' configuration (\<open>src/config/config.go\<close>) and the origins their HTTP servers answer to
  (\<open>src/middleware/cors_middleware.go\<close>). Viper is a store of values under lower-case keys, as documented, in which a dot
  leads into a section; how it reads the environment and fills the structure is left out.
\<close>

subsection \<open>The structure\<close>

record http_server_config =
  hs_Timeout :: int
  hs_IdleTimeout :: int
  hs_AllowedOrigins :: "string list"

record postgres_config =
  pc_Host :: string
  pc_Port :: string
  pc_DBName :: string
  pc_DBNameTest :: string
  pc_User :: string
  pc_Password :: string
  pc_SSLMode :: string
  pc_TimeZone :: string
  pc_MaxOpenConns :: int
  pc_MaxIdleConns :: int

record kafka_config =
  kc_Host :: string
  kc_Port :: string
  kc_Brokers :: "string list"
  kc_GroupID :: string
  kc_Topics :: "string list"

record redis_config =
  rd_Host :: string
  rd_Port :: string
  rd_Password :: string

record jwt_config =
  jc_PrivateKey :: string
  jc_PrivateKeyPath :: string
  jc_PublicKey :: string
  jc_PublicKeyPath :: string
  jc_AccessTTL :: int
  jc_RefreshTTL :: int
  jc_CookieDomain :: string
  jc_CookieSecure :: bool
  jc_CookieLaxMode :: int

record mail_config =
  mc_Provider :: string
  mc_APIKey :: string
  mc_Host :: string
  mc_Port :: string
  mc_Username :: string
  mc_Password :: string
  mc_From :: string

record samsara_config =
  sm_Host :: string

record here_config =
  hc_RouterHost :: string
  hc_GeocodeHost :: string
  hc_LookupHost :: string

record google_maps_config =
  gg_GeocodeHost :: string
  gg_RoutesHost :: string

record relay_config =
  rl_Host :: string

record usps_config =
  uc_BaseURL :: string
  uc_OAuthHost :: string

record factoring_config =
  fg_TriumphSFTPHost :: string
  fg_TriumphSFTPPort :: int

record clickhouse_config =
  ck_Host :: string
  ck_Port :: string
  ck_DBName :: string
  ck_User :: string
  ck_Password :: string

record aws_config =
  aw_AccessKeyID :: string
  aw_SecretAccessKey :: string
  aw_Region :: string
  aw_BucketName :: string
  aw_EndpointURL :: string

record service_urls =
  su_AuthURL :: string
  su_BrokersURL :: string
  su_LoadsURL :: string
  su_TeamsURL :: string
  su_FilesURL :: string
  su_MediatorURL :: string
  su_RouterURL :: string

record app_config =
  AppName :: string
  AppEnv :: string
  AppDebug :: bool
  AppPort :: string
  AppURL :: string
  FrontendURL :: string
  MobileAppURL :: string
  SigningKey :: string
  CleanupPassword :: string
  GRPCPort :: string
  cfg_HTTP :: http_server_config
  cfg_DB :: postgres_config
  cfg_Kafka :: kafka_config
  cfg_Redis :: redis_config
  cfg_JWT :: jwt_config
  cfg_Mail :: mail_config
  cfg_Samsara :: samsara_config
  cfg_Here :: here_config
  cfg_GoogleMaps :: google_maps_config
  cfg_Relay :: relay_config
  cfg_Usps :: usps_config
  cfg_Factoring :: factoring_config
  cfg_ClickHouse :: clickhouse_config
  cfg_Aws :: aws_config
  cfg_Services :: service_urls

definition IsProduction :: "app_config \<Rightarrow> bool" where
  "IsProduction c \<longleftrightarrow> AppEnv c = ''prod'' \<or> AppEnv c = ''production''"

subsection \<open>Keys of the environment\<close>

definition Prefixes :: "string list" where
  "Prefixes = [''http'', ''db'', ''kafka'', ''redis'', ''jwt'', ''redis'', ''mail'', ''samsara'', ''here'', ''relay'', ''usps'',
     ''factoring'', ''clickhouse'', ''aws'', ''services'']"

definition strip_section :: "string \<Rightarrow> string \<Rightarrow> string option" where
  "strip_section key p =
     (if take (length p + 1) key = p @ ''_'' then Some (p @ ''.'' @ drop (length p + 1) key) else None)"

text \<open>The new key of a key, for the first prefix that fits it.\<close>

fun new_key :: "string list \<Rightarrow> string \<Rightarrow> string option" where
  "new_key [] key = None"
| "new_key (p # ps) key = (case strip_section key p of Some k \<Rightarrow> Some k | None \<Rightarrow> new_key ps key)"

text \<open>The loop over the keys there were when it began, in the order \<open>AllKeys\<close> gave them.\<close>

fun map_keys :: "string list \<Rightarrow> (string \<rightharpoonup> 'v) \<Rightarrow> (string \<rightharpoonup> 'v)" where
  "map_keys [] V = V"
| "map_keys (key # ks) V = map_keys ks (case new_key Prefixes key of Some k \<Rightarrow> V(k := V key) | None \<Rightarrow> V)"

definition MapConfig :: "string list \<Rightarrow> (string \<rightharpoonup> 'v) \<Rightarrow> (string \<rightharpoonup> 'v)" where
  "MapConfig AllKeys V = map_keys AllKeys V"

subsection \<open>Origins\<close>

record cors_config =
  cr_AllowOrigin :: "string \<Rightarrow> bool"
  cr_AllowMethods :: "string list"
  cr_AllowHeaders :: "string list"
  cr_ExposeHeaders :: "string list"
  cr_AllowCredentials :: bool
  cr_MaxAge :: int

definition Cors :: "string list \<Rightarrow> cors_config" where
  "Cors allowedOrigins =
     \<lparr>cr_AllowOrigin = (\<lambda>origin. True), cr_AllowMethods = [''GET'', ''POST'', ''PUT'', ''DELETE'', ''OPTIONS''],
      cr_AllowHeaders = [''Origin'', ''Content-Type'', ''Authorization'', ''X-Guest-Token''],
      cr_ExposeHeaders = [''Content-Length'', ''Set-Cookie''], cr_AllowCredentials = True, cr_MaxAge = 12 * 3600 * 1000000000\<rparr>"

subsection \<open>Properties\<close>

text \<open>A key with a dot has no new key, so that no value is written where another is read, and the order of the keys does not
  matter: a key of a section ends up under the section's name, and every other value is as it was.\<close>

lemma strip_section_form: "strip_section key p = Some k \<longleftrightarrow> (\<exists>r. key = p @ CHR ''_'' # r \<and> k = p @ CHR ''.'' # r)"
proof
  assume "strip_section key p = Some k"
  then have t: "take (length p + 1) key = p @ ''_''" and k: "k = p @ CHR ''.'' # drop (length p + 1) key"
    by (auto simp: strip_section_def split: if_splits)
  have "key = take (length p + 1) key @ drop (length p + 1) key" by (rule append_take_drop_id [symmetric])
  then have "key = p @ CHR ''_'' # drop (length p + 1) key" unfolding t by simp
  with k show "\<exists>r. key = p @ CHR ''_'' # r \<and> k = p @ CHR ''.'' # r" by blast
next
  assume "\<exists>r. key = p @ CHR ''_'' # r \<and> k = p @ CHR ''.'' # r"
  then show "strip_section key p = Some k" by (auto simp: strip_section_def)
qed

lemma new_key_dot: "new_key ps key = Some k \<Longrightarrow> CHR ''.'' \<in> set k"
  by (induction ps) (auto simp: strip_section_form split: option.splits)

definition section_key :: "string \<Rightarrow> string \<Rightarrow> string" where
  "section_key p r = p @ CHR ''_'' # r"

lemma Prefixes_plain: "p \<in> set Prefixes \<Longrightarrow> CHR ''_'' \<notin> set p \<and> CHR ''.'' \<notin> set p"
proof -
  have "list_all (\<lambda>p. CHR ''_'' \<notin> set p \<and> CHR ''.'' \<notin> set p) Prefixes" by (simp add: Prefixes_def)
  then show "p \<in> set Prefixes \<Longrightarrow> CHR ''_'' \<notin> set p \<and> CHR ''.'' \<notin> set p" by (simp add: list_all_iff)
qed

lemma prefix_unique: "c \<notin> set p \<Longrightarrow> c \<notin> set q \<Longrightarrow> p @ c # r = q @ c # s \<Longrightarrow> p = q \<and> r = s"
  by (induction p arbitrary: q) (auto simp: Cons_eq_append_conv)

lemma new_key_section:
  assumes "CHR ''_'' \<notin> set p" "\<forall>q\<in>set ps. CHR ''_'' \<notin> set q"
  shows "new_key ps (p @ CHR ''_'' # r) = (if p \<in> set ps then Some (p @ CHR ''.'' # r) else None)"
  using assms(2)
proof (induction ps)
  case Nil
  show ?case by simp
next
  case (Cons q ps)
  show ?case
  proof (cases "strip_section (p @ CHR ''_'' # r) q")
    case None
    have "strip_section (p @ CHR ''_'' # r) p = Some (p @ CHR ''.'' # r)" unfolding strip_section_form by blast
    with None have "q \<noteq> p" by auto
    with None Cons show ?thesis by simp
  next
    case (Some k)
    then obtain s where s: "p @ CHR ''_'' # r = q @ CHR ''_'' # s" "k = q @ CHR ''.'' # s" unfolding strip_section_form by blast
    have "q = p \<and> s = r" using prefix_unique [OF assms(1) _ s(1)] Cons.prems by simp
    with s(2) have "q = p \<and> k = p @ CHR ''.'' # r" by simp
    with Some show ?thesis by simp
  qed
qed

lemma new_key_inj: "new_key ps key = Some k \<Longrightarrow> new_key ps key' = Some k \<Longrightarrow> \<forall>q\<in>set ps. CHR ''.'' \<notin> set q \<Longrightarrow> key = key'"
  if "\<forall>q\<in>set ps. CHR ''_'' \<notin> set q" for ps
proof -
  have form: "new_key qs x = Some k \<Longrightarrow> \<exists>p\<in>set qs. \<exists>r. x = p @ CHR ''_'' # r \<and> k = p @ CHR ''.'' # r" for qs x
    by (induction qs) (auto simp: strip_section_form split: option.splits)
  assume "new_key ps key = Some k" "new_key ps key' = Some k" "\<forall>q\<in>set ps. CHR ''.'' \<notin> set q"
  then obtain p r p' r' where "p \<in> set ps" "p' \<in> set ps" "key = p @ CHR ''_'' # r" "key' = p' @ CHR ''_'' # r'"
    "k = p @ CHR ''.'' # r" "k = p' @ CHR ''.'' # r'" "CHR ''.'' \<notin> set p" "CHR ''.'' \<notin> set p'"
    using form [of ps key] form [of ps key'] by blast
  with prefix_unique [of "CHR ''.''" p p' r r'] show ?thesis by simp
qed

lemma Prefixes_sep: "\<forall>q\<in>set Prefixes. CHR ''_'' \<notin> set q" "\<forall>q\<in>set Prefixes. CHR ''.'' \<notin> set q"
  using Prefixes_plain by blast+

lemma map_keys_other: "(\<And>key. key \<in> set ks \<Longrightarrow> new_key Prefixes key \<noteq> Some k) \<Longrightarrow> map_keys ks V k = V k"
  by (induction ks arbitrary: V) (auto split: option.split)

lemma map_keys_source: "(\<And>key. key \<in> set ks \<Longrightarrow> CHR ''.'' \<notin> set key) \<Longrightarrow> CHR ''.'' \<notin> set k \<Longrightarrow> map_keys ks V k = V k"
  by (rule map_keys_other) (auto dest: new_key_dot)

lemma map_keys_target:
  assumes "\<And>x. x \<in> set ks \<Longrightarrow> CHR ''.'' \<notin> set x" "key \<in> set ks" "new_key Prefixes key = Some k"
  shows "map_keys ks V k = V key"
  using assms(1,2)
proof (induction ks arbitrary: V)
  case Nil
  then show ?case by simp
next
  case (Cons x xs)
  define W where "W = (case new_key Prefixes x of Some k \<Rightarrow> V(k := V x) | None \<Rightarrow> V)"
  have key: "W key = V key" using Cons.prems new_key_dot [of Prefixes x] by (auto simp: W_def split: option.split)
  show ?case
  proof (cases "key \<in> set xs")
    case True
    with Cons.IH [of W] Cons.prems key show ?thesis by (simp flip: W_def)
  next
    case False
    with Cons.prems have "x = key" by simp
    moreover have "map_keys xs W k = W k"
      using new_key_inj [OF Prefixes_sep(1) assms(3) _ Prefixes_sep(2)] False by (intro map_keys_other) auto
    ultimately show ?thesis by (simp add: W_def assms(3))
  qed
qed

lemma config_sections:
  assumes "\<And>x. x \<in> set ks \<Longrightarrow> CHR ''.'' \<notin> set x" "p \<in> set Prefixes" "section_key p r \<in> set ks"
  shows "MapConfig ks V (p @ CHR ''.'' # r) = V (section_key p r)"
    and "CHR ''.'' \<notin> set k \<Longrightarrow> MapConfig ks V k = V k"
proof -
  have "new_key Prefixes (section_key p r) = Some (p @ CHR ''.'' # r)"
    using assms(2) Prefixes_plain [OF assms(2)] by (simp add: section_key_def new_key_section Prefixes_sep)
  then show "MapConfig ks V (p @ CHR ''.'' # r) = V (section_key p r)"
    unfolding MapConfig_def by (intro map_keys_target assms)
  show "MapConfig ks V k = V k" if "CHR ''.'' \<notin> set k" unfolding MapConfig_def by (rule map_keys_source) (use assms that in auto)
qed

text \<open>The section of Google Maps has no prefix: its hosts stay where the structure does not look for them.\<close>

lemma google_maps_unmapped: "new_key Prefixes (''google_maps_'' @ r) = None"
  by (simp add: Prefixes_def strip_section_def)

lemma google_maps_never_set:
  assumes "\<And>x. x \<in> set ks \<Longrightarrow> CHR ''.'' \<notin> set x"
  shows "MapConfig ks V (''google_maps.'' @ r) = V (''google_maps.'' @ r)"
proof -
  have "new_key Prefixes key \<noteq> Some (''google_maps.'' @ r)" for key
  proof
    assume "new_key Prefixes key = Some (''google_maps.'' @ r)"
    moreover have "new_key qs x = Some k \<Longrightarrow> \<exists>p\<in>set qs. \<exists>s. k = p @ CHR ''.'' # s" for qs x k
      by (induction qs) (auto simp: strip_section_form split: option.splits)
    ultimately obtain p s where "p \<in> set Prefixes" "''google_maps'' @ CHR ''.'' # r = p @ CHR ''.'' # s" by fastforce
    with prefix_unique [of "CHR ''.''" "''google_maps''" p r s] Prefixes_plain [of p] have "''google_maps'' \<in> set Prefixes" by simp
    then show False by (simp add: Prefixes_def)
  qed
  then show ?thesis by (simp add: MapConfig_def map_keys_other)
qed

text \<open>Every origin is answered, with credentials, whatever origins were configured.\<close>

lemma cors_ignores_configuration: "cr_AllowOrigin (Cors allowed) origin \<and> cr_AllowCredentials (Cors allowed)"
  by (simp add: Cors_def)

end
