(* ===== verification/Mailer.thy ===== *)
theory Mailer
  imports App_Config Go_Url RateLimit
begin

text \<open>
  Sending mail from a service itself (\<open>src/mailer\<close>): through an SMTP server or through Resend's HTTP interface. Templates,
  JSON, gomail's delivery and Resend's server are parameters; an error is what it is about, with the text of its cause.
\<close>

subsection \<open>Data\<close>

record attachment =
  at_Filename :: string
  at_Content :: string
  at_MIMEType :: string

datatype mailer_err = UnknownProvider string | NoAPIKey | NoFrom | InvalidPort string | PortRange int | DialerFailed mailer_err
  | TemplateFailed string | MarshalFailed string | RequestFailed string | DeliveryFailed "string list" string | ResendStatus int string

record email_dialer =
  dl_Host :: string
  dl_Port :: int
  dl_Username :: string
  dl_Password :: string

record smtp_sender =
  ss_dialer :: email_dialer
  ss_from :: string

record resend_sender =
  rs_apiKey :: string
  rs_from :: string
  rs_endpoint :: string

datatype mail_sender = SMTPSender smtp_sender | ResendSender resend_sender

text \<open>A message as gomail is given it: headers, body, and the parts attached with their content type.\<close>

record smtp_message =
  sg_From :: string
  sg_To :: "string list"
  sg_Subject :: string
  sg_Body :: string
  sg_Attached :: "(string \<times> string \<times> string) list"

record resend_attachment =
  ra_Filename :: string
  ra_Content :: string
  ra_ContentType :: string

record resend_payload =
  ry_From :: string
  ry_To :: "string list"
  ry_Subject :: string
  ry_HTML :: string
  ry_Attachments :: "resend_attachment list"
  ry_Tags :: "(string \<times> string) list"

text \<open>The surroundings: rendering a template of the embedded files with its data, JSON, the servers.\<close>

record ('d, 's) mail_world =
  mw_render :: "string \<Rightarrow> 'd \<Rightarrow> string + string"
  mw_marshal :: "resend_payload \<Rightarrow> string + string"
  mw_id :: "string \<Rightarrow> string"
  mw_deliver :: "email_dialer \<Rightarrow> smtp_message \<Rightarrow> 's \<Rightarrow> string option \<times> 's"
  mw_resend :: "'s http_server"

subsection \<open>Construction\<close>

definition resendEmailsEndpoint :: string where
  "resendEmailsEndpoint = ''https://api.resend.com/emails''"

definition NewEmailDialer :: "mail_config \<Rightarrow> mailer_err + email_dialer" where
  "NewEmailDialer cfg =
     (case (if mc_Port cfg \<noteq> [] then atoi (mc_Port cfg) else Some 25) of
        None \<Rightarrow> Inl (InvalidPort (mc_Port cfg))
      | Some port \<Rightarrow>
          if port \<le> 0 \<or> port > 65535 then Inl (PortRange port)
          else Inr \<lparr>dl_Host = mc_Host cfg, dl_Port = port, dl_Username = mc_Username cfg, dl_Password = mc_Password cfg\<rparr>)"

definition NewSMTPSender :: "mail_config \<Rightarrow> mailer_err + smtp_sender" where
  "NewSMTPSender cfg =
     (case NewEmailDialer cfg of Inl e \<Rightarrow> Inl (DialerFailed e) | Inr d \<Rightarrow> Inr \<lparr>ss_dialer = d, ss_from = mc_From cfg\<rparr>)"

definition NewResendSender :: "mail_config \<Rightarrow> mailer_err + resend_sender" where
  "NewResendSender cfg =
     (if mc_APIKey cfg = [] then Inl NoAPIKey
      else if mc_From cfg = [] then Inl NoFrom
      else Inr \<lparr>rs_apiKey = mc_APIKey cfg, rs_from = mc_From cfg, rs_endpoint = resendEmailsEndpoint\<rparr>)"

definition NewSender :: "mail_config \<Rightarrow> mailer_err + mail_sender" where
  "NewSender cfg =
     (if mc_Provider cfg = ''resend'' then map_sum id ResendSender (NewResendSender cfg)
      else if mc_Provider cfg = [] \<or> mc_Provider cfg = ''smtp'' then map_sum id SMTPSender (NewSMTPSender cfg)
      else Inl (UnknownProvider (mc_Provider cfg)))"

subsection \<open>Sending\<close>

definition renderTemplate :: "('d, 's) mail_world \<Rightarrow> string \<Rightarrow> 'd \<Rightarrow> string + string" where
  "renderTemplate W name data = mw_render W (''templates/'' @ name) data"

definition usable :: "attachment \<Rightarrow> bool" where
  "usable a \<longleftrightarrow> \<not> (at_Filename a = [] \<or> length (at_Content a) = 0)"

definition smtp_part :: "attachment \<Rightarrow> string \<times> string \<times> string" where
  "smtp_part a =
     (at_Filename a,
      (if at_MIMEType a = [] then ''application/octet-stream'' else at_MIMEType a) @ ''; name='' @ [CHR 0x22] @ at_Filename a @ [CHR 0x22],
      at_Content a)"

definition smtp_SendEmailWithAttachments :: "('d, 's) mail_world \<Rightarrow> smtp_sender \<Rightarrow> string list \<Rightarrow> string \<Rightarrow> string \<Rightarrow> 'd \<Rightarrow> attachment list
    \<Rightarrow> 's \<Rightarrow> mailer_err option \<times> 's" where
  "smtp_SendEmailWithAttachments W x to subject templateFile data attachments s =
     (case renderTemplate W templateFile data of
        Inl e \<Rightarrow> (Some (TemplateFailed e), s)
      | Inr body \<Rightarrow>
          (case mw_deliver W (ss_dialer x) \<lparr>sg_From = ss_from x, sg_To = to, sg_Subject = subject, sg_Body = body,
                 sg_Attached = map smtp_part (filter usable attachments)\<rparr> s of
             (Some e, s') \<Rightarrow> (Some (DeliveryFailed to e), s')
           | (None, s') \<Rightarrow> (None, s')))"

text \<open>The tags are a map, given here in the order the loop visits them.\<close>

definition resend_message :: "resend_sender \<Rightarrow> string list \<Rightarrow> string \<Rightarrow> string \<Rightarrow> attachment list \<Rightarrow> (string \<times> string) list \<Rightarrow> resend_payload" where
  "resend_message x to subject body attachments tags =
     \<lparr>ry_From = rs_from x, ry_To = to, ry_Subject = subject, ry_HTML = body,
      ry_Attachments = map (\<lambda>a. \<lparr>ra_Filename = at_Filename a, ra_Content = base64 (at_Content a), ra_ContentType = at_MIMEType a\<rparr>)
        (filter usable attachments),
      ry_Tags = filter (\<lambda>t. fst t \<noteq> []) tags\<rparr>"

definition resend_send :: "('d, 's) mail_world \<Rightarrow> resend_sender \<Rightarrow> string list \<Rightarrow> string \<Rightarrow> string \<Rightarrow> 'd \<Rightarrow> attachment list
    \<Rightarrow> (string \<times> string) list \<Rightarrow> 's \<Rightarrow> (mailer_err + string) \<times> 's" where
  "resend_send W x to subject templateFile data attachments tags s =
     (case renderTemplate W templateFile data of
        Inl e \<Rightarrow> (Inl (TemplateFailed e), s)
      | Inr body \<Rightarrow>
          (case mw_marshal W (resend_message x to subject body attachments tags) of
             Inl e \<Rightarrow> (Inl (MarshalFailed e), s)
           | Inr raw \<Rightarrow>
               (case mw_resend W \<lparr>rq_method = ''POST'', rq_url = rs_endpoint x,
                      rq_headers = [(''Authorization'', ''Bearer '' @ rs_apiKey x), (''Content-Type'', ''application/json'')],
                      rq_body = Some raw\<rparr> s of
                  (BadUrl e, s') \<Rightarrow> (Inl (RequestFailed e), s')
                | (NoAnswer e, s') \<Rightarrow> (Inl (DeliveryFailed to e), s')
                | (Answer r, s') \<Rightarrow>
                    (if rs_status r \<ge> 300 then Inl (ResendStatus (rs_status r) (rs_body r)) else Inr (mw_id W (rs_body r)), s'))))"

definition SendEmailWithTags :: "('d, 's) mail_world \<Rightarrow> resend_sender \<Rightarrow> string list \<Rightarrow> string \<Rightarrow> string \<Rightarrow> 'd \<Rightarrow> attachment list
    \<Rightarrow> (string \<times> string) list \<Rightarrow> 's \<Rightarrow> (mailer_err + string) \<times> 's" where
  "SendEmailWithTags W x to subject templateFile data attachments tags s = resend_send W x to subject templateFile data attachments tags s"

definition resend_SendEmailWithAttachments :: "('d, 's) mail_world \<Rightarrow> resend_sender \<Rightarrow> string list \<Rightarrow> string \<Rightarrow> string \<Rightarrow> 'd \<Rightarrow> attachment list
    \<Rightarrow> 's \<Rightarrow> mailer_err option \<times> 's" where
  "resend_SendEmailWithAttachments W x to subject templateFile data attachments s =
     (case resend_send W x to subject templateFile data attachments [] s of (Inl e, s') \<Rightarrow> (Some e, s') | (Inr i, s') \<Rightarrow> (None, s'))"

fun SendEmailWithAttachments :: "('d, 's) mail_world \<Rightarrow> mail_sender \<Rightarrow> string list \<Rightarrow> string \<Rightarrow> string \<Rightarrow> 'd \<Rightarrow> attachment list
    \<Rightarrow> 's \<Rightarrow> mailer_err option \<times> 's" where
  "SendEmailWithAttachments W (SMTPSender x) to subject templateFile data attachments s =
     smtp_SendEmailWithAttachments W x to subject templateFile data attachments s"
| "SendEmailWithAttachments W (ResendSender x) to subject templateFile data attachments s =
     resend_SendEmailWithAttachments W x to subject templateFile data attachments s"

definition SendEmail :: "('d, 's) mail_world \<Rightarrow> mail_sender \<Rightarrow> string list \<Rightarrow> string \<Rightarrow> string \<Rightarrow> 'd \<Rightarrow> 's \<Rightarrow> mailer_err option \<times> 's" where
  "SendEmail W x to subject templateFile data s = SendEmailWithAttachments W x to subject templateFile data [] s"

subsection \<open>Properties\<close>

text \<open>A sender for SMTP always has a port a server can listen on; one for Resend a key and an address to send from.\<close>

lemma smtp_port: "NewSender cfg = Inr (SMTPSender x) \<Longrightarrow> 0 < dl_Port (ss_dialer x) \<and> dl_Port (ss_dialer x) \<le> 65535"
  by (auto simp: NewSender_def NewSMTPSender_def NewEmailDialer_def map_sum_def split: if_splits option.splits sum.splits)

lemma resend_configured: "NewSender cfg = Inr (ResendSender x) \<Longrightarrow> rs_apiKey x \<noteq> [] \<and> rs_from x \<noteq> [] \<and> rs_endpoint x = resendEmailsEndpoint"
  by (auto simp: NewSender_def NewResendSender_def map_sum_def split: if_splits option.splits sum.splits)

lemma unknown_provider:
  "(\<exists>p. NewSender cfg = Inl (UnknownProvider p)) \<longleftrightarrow> mc_Provider cfg \<notin> {[], ''smtp'', ''resend''}"
  by (auto simp: NewSender_def NewSMTPSender_def NewResendSender_def NewEmailDialer_def split: if_splits option.splits sum.splits)

text \<open>A mail reported as sent was delivered as one message with the rendered body, to all recipients, with the attachments that
  have a name and content, in order; nothing is sent when the template fails.\<close>

lemma smtp_sent:
  assumes "smtp_SendEmailWithAttachments W x to subject tpl d as s = (None, s')"
  shows "\<exists>body. renderTemplate W tpl d = Inr body \<and> mw_deliver W (ss_dialer x) \<lparr>sg_From = ss_from x, sg_To = to, sg_Subject = subject,
    sg_Body = body, sg_Attached = map smtp_part (filter usable as)\<rparr> s = (None, s')"
  using assms by (auto simp: smtp_SendEmailWithAttachments_def split: sum.splits prod.splits option.splits)

lemma resend_sent:
  assumes "resend_send W x to subject tpl d as tags s = (Inr i, s')"
  shows "\<exists>body raw r. renderTemplate W tpl d = Inr body \<and> mw_marshal W (resend_message x to subject body as tags) = Inr raw
    \<and> mw_resend W \<lparr>rq_method = ''POST'', rq_url = rs_endpoint x,
        rq_headers = [(''Authorization'', ''Bearer '' @ rs_apiKey x), (''Content-Type'', ''application/json'')], rq_body = Some raw\<rparr> s = (Answer r, s')
    \<and> rs_status r < 300 \<and> i = mw_id W (rs_body r)"
  using assms by (auto simp: resend_send_def split: sum.splits prod.splits http_outcome.splits if_splits)

lemma bad_template_sends_nothing:
  "renderTemplate W tpl d = Inl e \<Longrightarrow> SendEmailWithAttachments W x to subject tpl d as s = (Some (TemplateFailed e), s)"
  by (cases x) (simp_all add: smtp_SendEmailWithAttachments_def resend_SendEmailWithAttachments_def resend_send_def)

text \<open>An attachment without content is left out and the mail still counts as sent.\<close>

lemma empty_attachment_dropped:
  "at_Content a = [] \<Longrightarrow> SendEmailWithAttachments W x to subject tpl d (a # as) s = SendEmailWithAttachments W x to subject tpl d as s"
  by (cases x) (simp_all add: smtp_SendEmailWithAttachments_def resend_SendEmailWithAttachments_def resend_send_def resend_message_def
      usable_def cong: option.case_cong sum.case_cong)

end
