(* ===== verification/Set_Up.thy ===== *)
theory Set_Up
  imports Utils Http_Client
begin

text \<open>
  Edges of a service: the topics it makes sure of in Kafka (\<open>src/client/tmskafka\<close>) and the scalars of its GraphQL schema
  (\<open>src/client/tmsgraphql/scalar\<close>, \<open>json_object.go\<close>). A Kafka cluster is a parameter: connections are named by their
  address, every exchange may fail. \<open>log.Fatalf\<close> ends the process.
\<close>

subsection \<open>Topics\<close>

record topic_config =
  tc_Topic :: string
  tc_NumPartitions :: int
  tc_ReplicationFactor :: int

record 's kafka_cluster =
  kk_dial :: "string \<Rightarrow> 's \<Rightarrow> string option \<times> 's"
  kk_controller :: "string \<Rightarrow> 's \<Rightarrow> (string + string \<times> int) \<times> 's"
  kk_partitions :: "string \<Rightarrow> 's \<Rightarrow> (string + string list) \<times> 's"
  kk_create :: "string \<Rightarrow> topic_config list \<Rightarrow> 's \<Rightarrow> string option \<times> 's"

text \<open>\<open>net.JoinHostPort\<close>.\<close>

definition JoinHostPort :: "string \<Rightarrow> string \<Rightarrow> string" where
  "JoinHostPort host port = (if CHR '':'' \<in> set host then ''['' @ host @ '']:'' @ port else host @ '':'' @ port)"

datatype start_up = Fatal string | Started

definition missing_topics :: "string list \<Rightarrow> topic_config list \<Rightarrow> topic_config list" where
  "missing_topics existing topics = filter (\<lambda>t. tc_Topic t \<notin> set existing) topics"

text \<open>The address of the connection to the controller: the connection made first when it is the controller's or when the
  controller cannot be reached.\<close>

definition controller_conn :: "'s kafka_cluster \<Rightarrow> string \<Rightarrow> string \<Rightarrow> 's \<Rightarrow> string \<times> 's" where
  "controller_conn K addr controllerAddr s =
     (if controllerAddr = addr then (addr, s)
      else (case kk_dial K controllerAddr s of (Some e, s') \<Rightarrow> (addr, s') | (None, s') \<Rightarrow> (controllerAddr, s')))"

definition EnsureTopics :: "'s kafka_cluster \<Rightarrow> string \<Rightarrow> topic_config list \<Rightarrow> 's \<Rightarrow> start_up \<times> 's" where
  "EnsureTopics K addr topics s =
     (case kk_dial K addr s of
        (Some e, s) \<Rightarrow> (Fatal e, s)
      | (None, s) \<Rightarrow>
          (case kk_controller K addr s of
             (Inl e, s) \<Rightarrow> (Fatal e, s)
           | (Inr (host, port), s) \<Rightarrow>
               (case controller_conn K addr (JoinHostPort host (show_int port)) s of
                  (conn, s) \<Rightarrow>
                    (case kk_partitions K conn s of
                       (Inl e, s) \<Rightarrow> (Fatal e, s)
                     | (Inr existing, s) \<Rightarrow>
                         (let topicsToCreate = missing_topics existing topics in
                          if length topicsToCreate > 0 then
                            (case kk_create K conn topicsToCreate s of (Some e, s) \<Rightarrow> (Fatal e, s) | (None, s) \<Rightarrow> (Started, s))
                          else (Started, s))))))"

definition EnsureTopicExists :: "'s kafka_cluster \<Rightarrow> string \<Rightarrow> string \<Rightarrow> int \<Rightarrow> int \<Rightarrow> 's \<Rightarrow> string option \<times> 's" where
  "EnsureTopicExists K addr topic partitions replications s =
     (case kk_dial K addr s of
        (Some e, s) \<Rightarrow> (Some e, s)
      | (None, s) \<Rightarrow>
          (case kk_partitions K addr s of
             (existing, s) \<Rightarrow>
               if (case existing of Inr ts \<Rightarrow> topic \<in> set ts | Inl e \<Rightarrow> False) then (None, s)
               else
                 (case kk_controller K addr s of
                    (Inl e, s) \<Rightarrow> (Some e, s)
                  | (Inr (host, port), s) \<Rightarrow>
                      (case kk_dial K (JoinHostPort host (show_int port)) s of
                         (Some e, s) \<Rightarrow> (Some e, s)
                       | (None, s) \<Rightarrow>
                           (case kk_create K (JoinHostPort host (show_int port))
                                   [\<lparr>tc_Topic = topic, tc_NumPartitions = partitions, tc_ReplicationFactor = replications\<rparr>] s of
                              (Some e, s) \<Rightarrow> (Some (''failed to create topic: '' @ e), s)
                            | (None, s) \<Rightarrow> (None, s))))))"

text \<open>What the client relies on: the topics of a cluster change by a creation that succeeds only, which adds what it was asked
  for; reading them tells the truth.\<close>

definition kafka_laws :: "'s kafka_cluster \<Rightarrow> ('s \<Rightarrow> string set) \<Rightarrow> bool" where
  "kafka_laws K topics_of \<longleftrightarrow>
     (\<forall>a s r t. kk_dial K a s = (r, t) \<longrightarrow> topics_of t = topics_of s)
     \<and> (\<forall>a s r t. kk_controller K a s = (r, t) \<longrightarrow> topics_of t = topics_of s)
     \<and> (\<forall>a s r t. kk_partitions K a s = (r, t) \<longrightarrow> topics_of t = topics_of s \<and> (\<forall>ts. r = Inr ts \<longrightarrow> set ts = topics_of s))
     \<and> (\<forall>a cs s r t. kk_create K a cs s = (r, t) \<longrightarrow> topics_of t = topics_of s \<union> (if r = None then tc_Topic ` set cs else {}))"

lemma kafka_law:
  assumes "kafka_laws K topics_of"
  shows "kk_dial K a s = (r, t) \<Longrightarrow> topics_of t = topics_of s"
    and "kk_controller K a s = (r', t) \<Longrightarrow> topics_of t = topics_of s"
    and "kk_partitions K a s = (q, t) \<Longrightarrow> topics_of t = topics_of s \<and> (\<forall>ts. q = Inr ts \<longrightarrow> set ts = topics_of s)"
    and "kk_create K a cs s = (r, t) \<Longrightarrow> topics_of t = topics_of s \<union> (if r = None then tc_Topic ` set cs else {})"
  using assms [unfolded kafka_laws_def, THEN conjunct1] assms [unfolded kafka_laws_def, THEN conjunct2, THEN conjunct1]
    assms [unfolded kafka_laws_def, THEN conjunct2, THEN conjunct2, THEN conjunct1]
    assms [unfolded kafka_laws_def, THEN conjunct2, THEN conjunct2, THEN conjunct2] by (fast, fast, fast, fast)

lemma controller_conn_law: "kafka_laws K topics_of \<Longrightarrow> controller_conn K addr c s = (a, t) \<Longrightarrow> topics_of t = topics_of s"
  by (auto simp: controller_conn_def split: prod.splits option.splits if_splits dest: kafka_law)

lemma topics_ensured:
  assumes "kafka_laws K topics_of" "EnsureTopics K addr topics s = (r, t)"
  shows "topics_of s \<subseteq> topics_of t \<and> topics_of t \<subseteq> topics_of s \<union> tc_Topic ` set topics \<and> (r = Started \<longrightarrow> tc_Topic ` set topics \<subseteq> topics_of t)"
  using assms(2) by (auto simp: EnsureTopics_def missing_topics_def Let_def image_iff filter_empty_conv
      split: prod.splits option.splits sum.splits if_splits dest!: kafka_law [OF assms(1)] controller_conn_law [OF assms(1)])

lemma topic_ensured:
  assumes "kafka_laws K topics_of" "EnsureTopicExists K addr topic n m s = (r, t)"
  shows "topics_of s \<subseteq> topics_of t \<and> topics_of t \<subseteq> insert topic (topics_of s) \<and> (r = None \<longrightarrow> topic \<in> topics_of t)"
  using assms(2) by (auto simp: EnsureTopicExists_def split: prod.splits option.splits sum.splits if_splits dest!: kafka_law [OF assms(1)])

text \<open>The laws hold of a cluster that answers, whose state is the list of its topics.\<close>

lemma topic_list_laws:
  "kafka_laws \<lparr>kk_dial = \<lambda>a s. (None, s), kk_controller = \<lambda>a s. (Inr (''kafka'', 9092), s), kk_partitions = \<lambda>a s. (Inr s, s),
     kk_create = \<lambda>a cs s. (None, s @ map tc_Topic cs)\<rparr> set"
  by (simp add: kafka_laws_def)

text \<open>A topic named twice is asked for twice; Kafka refuses such a request, and the service does not start.\<close>

lemma duplicate_topic_asked_twice:
  "tc_Topic t \<notin> set existing \<Longrightarrow> missing_topics existing [t, t] = [t, t]"
  by (simp add: missing_topics_def)

subsection \<open>Scalars\<close>

text \<open>A value of a GraphQL variable: a text, a map, a list, or anything else.\<close>

datatype 'j scalar_value = GqlString string | GqlMap "(string \<times> 'j) list" | GqlList "'j list" | GqlOther string

text \<open>No character of a date needs escaping.\<close>

definition MarshalDate :: "go_time \<Rightarrow> string" where
  "MarshalDate t = CHR 0x22 # fmt_date t @ [CHR 0x22]"

definition UnmarshalDate :: "'j scalar_value \<Rightarrow> string + go_time" where
  "UnmarshalDate v = (case v of GqlString s \<Rightarrow> ParseDateString s | _ \<Rightarrow> Inl ''date must be a string'')"

definition UnmarshalJSONObject :: "'j scalar_value \<Rightarrow> string + 'j scalar_value" where
  "UnmarshalJSONObject v =
     (case v of GqlMap m \<Rightarrow> Inr v | GqlList l \<Rightarrow> Inr v
      | GqlString s \<Rightarrow> Inl ''string is not a valid JSONObject (map or array)''
      | GqlOther typ_name \<Rightarrow> Inl (typ_name @ '' is not a valid JSONObject (map or array)''))"

lemma json_object_kept: "UnmarshalJSONObject v = Inr w \<Longrightarrow> w = v"
  by (auto simp: UnmarshalJSONObject_def split: scalar_value.splits)

text \<open>A date read back is midnight UTC of the day that was shown: the time of day does not survive.\<close>

lemma date_scalar_roundtrip:
  assumes "gt_date t = (y, m, d)" "valid_date y m d" "0 \<le> y" "y < 10000"
  shows "\<exists>s. MarshalDate t = CHR 0x22 # s @ [CHR 0x22] \<and> UnmarshalDate (GqlString s) = Inr (utc_time (days_of y m d * day_ns))"
proof -
  have "read_zone ''Z'' = Some (0, [])" by (simp add: read_zone_def)
  then have "ParseDateString (pad 4 (nat y) @ ''-'' @ pad 2 (nat m) @ ''-'' @ pad 2 (nat d)) = Inr (utc_time (days_of y m d * day_ns))"
    using date_texts_roundtrip [OF assms(2,3,4), of 0 0 0 "''Z''" 0] by simp
  moreover have "fmt_date t = pad 4 (nat y) @ ''-'' @ pad 2 (nat m) @ ''-'' @ pad 2 (nat d)"
    using assms(1,3,4) by (simp add: fmt_date_def fmt_year_def)
  ultimately show ?thesis by (simp add: MarshalDate_def UnmarshalDate_def)
qed

end
