(* ===== verification/Spec2Isabelle.thy ===== *)
theory Spec2Isabelle
  imports Go_Prelude Permissions Roles Request_Context Cache Auth Guards Tenancy Query_Filter Events Outbox Validate RateLimit TimeWindow
    Polyline Toll_Sheet Toll_PrePass Consumer Factoring Error_Presenter Guest SavedFilter Repository Address Rms_Gate
    Settings Vocabulary Http_Client Samsara Samsara_Webhook Go_Url Go_Hex RingCentral Utils Here Usps Fmcsa Google_Maps Relay_Payments
    Rc_Proc Proto_Convert Publishers Tasks_Client Observability App_Config Mailer Set_Up
begin

text \<open>
  A verification library for the shared backend package (the Go module under \<open>src/\<close>), the code that every service of the
  transport management system links: who a caller is and what they may do, which company's rows they reach, how a change
  becomes an audit event, and the clients of the remote services.

  \<^bold>\<open>How the parts interact.\<close> A request passes the middleware (\<open>Guards\<close>: JWT or session, then the permissions of the
  user, which \<open>Auth\<close> reads through the company's part of the cache, \<open>Cache\<close>, and a revocation check), the rate limiter
  (\<open>RateLimit\<close>) and the directives of GraphQL (\<open>Guards\<close>, \<open>Validate\<close>, \<open>Guest\<close>), which compare permission codes as
  \<open>Permissions\<close> says. The identity it left in the context (\<open>Request_Context\<close>) is what the database plugin
  (\<open>Tenancy\<close>) narrows every statement by; list endpoints build their statements with \<open>Query_Filter\<close>, services with
  \<open>Repository\<close> and \<open>SavedFilter\<close>. A change writes its event in the transaction (\<open>Events\<close>), a relay publishes it
  (\<open>Outbox\<close>), a consumer handles it (\<open>Consumer\<close>). A service's own operations can be put under the policy gate
  (\<open>Rms_Gate\<close>). Integrations read a company's credentials (\<open>Settings\<close>) and talk to their services (\<open>Http_Client\<close>,
  \<open>Samsara\<close>, \<open>Samsara_Webhook\<close>, \<open>RingCentral\<close>, \<open>Here\<close>, \<open>Google_Maps\<close>, \<open>Usps\<close>, \<open>Fmcsa\<close>, \<open>Relay_Payments\<close>, \<open>Rc_Proc\<close>,
  \<open>Toll_PrePass\<close>, \<open>Factoring\<close>). Mail and notifications are events of the same kind (\<open>Publishers\<close>). What goes wrong is told to the
  client by \<open>Error_Presenter\<close> and reported by \<open>Observability\<close>.

  \<^bold>\<open>Go itself.\<close> \<open>Go_Prelude\<close>: strings as byte lists with the functions of \<open>strings\<close> and \<open>strconv\<close> the code calls, and the
  shared lemmas on maps and lists. \<open>Go_Text\<close>: trimming and case of UTF-8 text. \<open>Calendar\<close>, \<open>Go_Time\<close>: the proleptic
  Gregorian calendar, \<open>time.Date\<close>, \<open>AddDate\<close>, \<open>time.Parse\<close> and \<open>Format\<close> for the layouts in use; an instant is an
  integer of nanoseconds, a zone a function from instants to offsets. \<open>Go_Float\<close>: \<open>float64\<close> as reals, infinities and
  NaN, with rounding a parameter where a component computes. \<open>Go_Csv\<close>: the CSV writer. \<open>Go_Url\<close>: the escaping of queries
  and paths, URL parsing and base64. \<open>Go_Hex\<close>: hexadecimal text. \<open>Http_Client\<close>: requests, replies, and the loop over the pages of a listing.

  \<^bold>\<open>Identity and permissions.\<close>
  \<^item> \<open>Permissions\<close> (\<open>enums/user_permissions.go\<close>, \<open>middleware/perms.go\<close>): the catalog with its index, expansion, roll-up and
    hierarchical matching. Rolling up keeps the grant of every leaf and is canonical on valid codes (C1, C2), depends on
    the iteration order of a Go map outside them; expansion and the effective hierarchy are exact (C3, C4).
  \<^item> \<open>Roles\<close> (\<open>enums/user_roles.go\<close>): role names, the office hierarchy and the permissions seeded per role, all registered.
  \<^item> \<open>Request_Context\<close> (\<open>consts/auth_consts.go\<close>): actor, claims and context entries.
  \<^item> \<open>Cache\<close> (\<open>cache/cache.go\<close>): the cache over Redis, whose laws are the assumptions of a locale interpreted on a map;
    no operation of one company touches an entry that another reads (C5).
  \<^item> \<open>Auth\<close> (\<open>auth/\<close>): the cached permission resolver, its retry loop and the revocation cutoff (C6, C7, C8).
  \<^item> \<open>Guards\<close> (\<open>middleware/auth_*.go\<close>, \<open>client/tmsgraphql/directives.go\<close>): REST and GraphQL gates agree but for one context, a request
    is authorised exactly by the current grants (C9), and identity survives a gRPC hop (C10).
  \<^item> \<open>Guest\<close> (\<open>guest/\<close>), \<open>RateLimit\<close> (\<open>ratelimit/\<close>, \<open>middleware/client_origin.go\<close>): share links; the fixed window (C21) and
    the address a client cannot forge (C22).

  \<^bold>\<open>Data.\<close>
  \<^item> \<open>Tenancy\<close> (\<open>tmsdb/tenant_scope.go\<close>, \<open>tmsdb/model\<close>): the plugin and the hooks (C11, C12).
  \<^item> \<open>Query_Filter\<close> (\<open>tmsdb/filter.go\<close>, \<open>cross_service.go\<close>, \<open>struct_filter.go\<close>): conditions with the three-valued meaning of
    SQL; builders only narrow (C13), sorting is by listed columns, the pages are the result (C14). \<open>Proto_Convert\<close>
    (\<open>tmsdb/proto_convert.go\<close>): a filter selects at another service what it selects here.
  \<^item> \<open>Repository\<close>, \<open>SavedFilter\<close>: tables with the failures of each statement, and what an update by GORM's \<open>Save\<close> can
    reach; ownership and limits.
  \<^item> \<open>Events\<close>, \<open>Outbox\<close>, \<open>Consumer\<close> (\<open>eventlog/\<close>, \<open>tmsdb/event_builder.go\<close>): classification (C15) and diff, the savepoint
    (C16), relays as step relations with reachability (C17, C18), and the path from the outbox through Kafka to a
    handler (C27).
  \<^item> \<open>Publishers\<close> (\<open>mail/\<close>, \<open>notify/\<close>): mail and notifications asked for through the outbox. Their use of \<open>Publish\<close> is the locale
    \<open>event_outbox\<close>, interpreted on the transaction manager of \<open>Events\<close>; guaranteed mail is in the outbox or its caller is told
    (C40); the metadata of a notification live in a store, since they are shared with the caller.
  \<^item> \<open>Validate\<close>, \<open>Error_Presenter\<close>: the directive with all its rules (C19, C20), and what a client is told of an error.
    \<open>Observability\<close> (\<open>observability/\<close>, \<open>middleware/request_id_middleware.go\<close>, \<open>consts/errors_consts.go\<close>): what is reported
    of it, at which level, grouped and tagged how.
  \<^item> \<open>TimeWindow\<close>, \<open>Utils\<close>, \<open>Address\<close>, \<open>Vocabulary\<close>: reporting windows refine the calendar (C23); weeks, dates and pages;
    states and provinces; catalogs, enumerations and slugs.
  \<^item> \<open>App_Config\<close> (\<open>config/\<close>, \<open>middleware/cors_middleware.go\<close>), \<open>Set_Up\<close> (\<open>client/tmskafka\<close>, \<open>client/tmsgraphql/scalar\<close>): the keys of the
    environment and the sections they reach, the origins answered to, the topics made sure of, the schema's scalars.

  \<^bold>\<open>Remote services.\<close>
  \<^item> \<open>Rms_Gate\<close> (\<open>rmsgate/\<close>, \<open>rmsreg/\<close>): the decision with its fail modes and circuit breaker, alone and with concurrent callers
    (C29, C30), and the registration of operations.
  \<^item> \<open>Settings\<close> (\<open>settings/\<close>, \<open>client/provider\<close>, \<open>enums/settings_enums.go\<close>): a client is built of the company's own current
    key (C31).
  \<^item> \<open>Samsara\<close>, \<open>Samsara_Webhook\<close> (\<open>client/samsara\<close>): every operation of client and service; the feed returns all pages when the
    cursors lead to an end (C32); signatures and the parsing of events.
  \<^item> \<open>RingCentral\<close> (\<open>client/ringcentral\<close>): the token goes to RingCentral's own hosts only (C33), a call log not marked as
    truncated is whole (C34).
  \<^item> \<open>Here\<close>, \<open>Polyline\<close> (\<open>client/here\<close>): the decoder inverts the published encoding on 64-bit words (C24); a route of many stops by
    one request is what the walk leg by leg would give (C35), every billed call is on the log (C36); the steps of a
    navigation point into the polyline.
  \<^item> \<open>Toll_Sheet\<close>, \<open>Toll_PrePass\<close> (\<open>client/toll\<close>): every row of a toll file is accounted for (C25) and empty columns do not
    matter (C26). \<open>Factoring\<close> (\<open>client/factoring\<close>): when a manifest is visible, its batch is complete (C28).
  \<^item> \<open>Usps\<close> (\<open>client/usps\<close>): the tokens all calls of a process share, as a step relation over any number of them; a request carries
    only a token given for the caller's own credentials (C37).
  \<^item> \<open>Fmcsa\<close> (\<open>client/fmcsa\<close>, \<open>client/saferapi\<close>): a company is accepted, refused or deferred by the record found only (C38).
    \<open>Rc_Proc\<close> (\<open>client/rcproc\<close>): the form a file is sent in is read back as it was sent.
  \<^item> \<open>Google_Maps\<close> (\<open>client/googlemaps\<close>): a distance is that of one request with all stops in order (C39).
  \<^item> \<open>Relay_Payments\<close> (\<open>client/relaypayments\<close>): drivers, codes, policies, transactions, and the signature of a webhook, which binds
    the text signed but not where its time ends.
  \<^item> \<open>Tasks_Client\<close> (\<open>tasks/\<close>): no call with an incomplete key; behind \<open>Guards\<close>' interceptors a worker's task is its company's.
    \<open>Mailer\<close> (\<open>mailer/\<close>): sending through SMTP or Resend.

  \<^bold>\<open>What is a parameter.\<close> Code that is not under \<open>src/\<close> is an argument of the definitions that use it: Redis, PostgreSQL,
  Kafka, GORM's schema parser, the remote servers (a function of request and state of the world), JSON, JWT, SHA-256 and HMAC,
  regular expressions, decimals, the rounding of doubles, the clock. Where a property relies on their
  documented behaviour, this is a named hypothesis or the assumption of a locale, and the witness shows it can hold. Panics
  are values (\<open>None\<close> or a constructor), and so are failures of every statement and exchange.

  \<^bold>\<open>Bounds and fuel.\<close> Loops over Go slices are structural. The paged listings of Samsara may run forever: \<open>page_loop\<close> is a
  partial function whose value is \<open>None\<close> then, and C32 says when it returns. RingCentral's listings carry the code's own
  bounds of 10 and 20 pages, the retries of \<open>Auth\<close> the code's three attempts. Integers are 64-bit words in \<open>Polyline\<close>, wrap
  explicitly where the code converts or multiplies (\<open>wrap64\<close>, \<open>to_int32\<close>), and are unbounded where a sum of counts or
  distances cannot come near the limit.

  \<^bold>\<open>Not modelled.\<close> Generated messages (\<open>proto\<close>); mocks and suites (\<open>tests\<close>); the set-up of connections and of the GraphQL
  server, profiling, bcrypt and the copier of schema files (\<open>client/clickhouse\<close>, \<open>client/tmsredis\<close>, \<open>client/tmsgraphql/server.go\<close>,
  \<open>debug\<close>, \<open>hash\<close>, \<open>graphql\<close>, \<open>cmd\<close>): calls into libraries with no logic of their own. Dialling SSH and opening databases are
  network code around \<open>Toll_PrePass\<close> and \<open>Error_Presenter\<close>. The superseded scopes of \<open>tmsdb/old\<close> are not used. Of the answers of
  Samsara only what an operation reads is a record; the rest is what the endpoint's decoder makes of the body. Log lines,
  timeouts, cancellation and the closing of bodies are left out throughout.
\<close>

end
